(* ===== verification/Prelude.thy ===== *)
theory Prelude
  imports Main
begin

text \<open>
  The shared base of the development.

  A Python function that can raise is modelled by a value of \<open>pyexc + 'a\<close>: \<open>Inl e\<close> for the
  exception \<open>e\<close> that leaves the function, \<open>Inr x\<close> for a returned value. The repository's
  checks are sequences of \<open>require(condition, message)\<close> calls between fallible
  expressions; \<open>require\<close> and \<open>rbind\<close> below are the two connectives all of them are
  written with, and the collection \<open>res_simps\<close> turns the success of such a sequence into
  the conjunction of its conditions.
\<close>

section \<open>Exceptions and results\<close>

text \<open>
  The exception classes the modelled sources raise or catch. \<open>Refusal\<close> is the class of
  \<^verbatim>\<open>bazzite-tower-snitchwatch-common.py\<close> and \<^verbatim>\<open>snitchwatch-system-handoff.py\<close>,
  \<open>ValueError\<close> what \<open>require\<close> of \<^verbatim>\<open>ci/r13-publication.py\<close> raises; the rest are Python's own.
\<close>

datatype pyexc =
    Refusal string
  | ValueError string
  | KeyError string
  | TypeError
  | IndexError
  | AttributeError
  | OSError string
  | FileNotFoundError
  | CalledProcessError
  | TimeoutExpired
  | SystemExit string

type_synonym 'a result = "pyexc + 'a"

named_theorems res_simps "success and failure of result-valued checks"

definition rbind :: "'a result \<Rightarrow> ('a \<Rightarrow> 'b result) \<Rightarrow> 'b result" where
  "rbind m f = (case m of Inl e \<Rightarrow> Inl e | Inr x \<Rightarrow> f x)"

definition require :: "bool \<Rightarrow> pyexc \<Rightarrow> 'a result \<Rightarrow> 'a result" where
  "require c e k = (if c then k else Inl e)"

definition succeeds :: "'a result \<Rightarrow> bool" where
  "succeeds m = (case m of Inl _ \<Rightarrow> False | Inr _ \<Rightarrow> True)"

lemma rbind_Inl [simp]: "rbind (Inl e) f = Inl e"
  by (simp add: rbind_def)

lemma rbind_Inr [simp]: "rbind (Inr x) f = f x"
  by (simp add: rbind_def)

lemma rbind_assoc: "rbind (rbind m f) g = rbind m (\<lambda>x. rbind (f x) g)"
  by (cases m) simp_all

lemma rbind_eq_Inr [res_simps]: "rbind m f = Inr y \<longleftrightarrow> (\<exists>x. m = Inr x \<and> f x = Inr y)"
  by (cases m) auto

lemma rbind_eq_Inl [res_simps]:
  "rbind m f = Inl e \<longleftrightarrow> m = Inl e \<or> (\<exists>x. m = Inr x \<and> f x = Inl e)"
  by (cases m) auto

lemma rbind_cong [fundef_cong]:
  "m = m' \<Longrightarrow> (\<And>x. m' = Inr x \<Longrightarrow> f x = g x) \<Longrightarrow> rbind m f = rbind m' g"
  by (cases m') auto

lemma require_True [simp]: "require True e k = k"
  by (simp add: require_def)

lemma require_False [simp]: "require False e k = Inl e"
  by (simp add: require_def)

lemma require_eq_Inr [res_simps]: "require c e k = Inr y \<longleftrightarrow> c \<and> k = Inr y"
  by (simp add: require_def)

lemma require_eq_Inl [res_simps]: "require c e k = Inl e' \<longleftrightarrow> (\<not> c \<and> e = e') \<or> (c \<and> k = Inl e')"
  by (auto simp: require_def)

lemma require_cong [fundef_cong]:
  "c = c' \<Longrightarrow> e = e' \<Longrightarrow> (c' \<Longrightarrow> k = k') \<Longrightarrow> require c e k = require c' e' k'"
  by (simp add: require_def)

lemma succeeds_Inr [simp]: "succeeds (Inr x)"
  by (simp add: succeeds_def)

lemma not_succeeds_Inl [simp]: "\<not> succeeds (Inl e)"
  by (simp add: succeeds_def)

lemma succeeds_iff: "succeeds m \<longleftrightarrow> (\<exists>x. m = Inr x)"
  by (cases m) auto

lemma succeeds_rbind [res_simps]: "succeeds (rbind m f) \<longleftrightarrow> (\<exists>x. m = Inr x \<and> succeeds (f x))"
  by (cases m) auto

lemma succeeds_require [res_simps]: "succeeds (require c e k) \<longleftrightarrow> c \<and> succeeds k"
  by (simp add: require_def)

text \<open>
  \<open>all_of [a, b, c]\<close> is \<open>a and b and c\<close> with operands that may raise: the first false or raising
  operand ends the evaluation. \<open>demand b e k\<close> is \<open>require(b, ...)\<close> for such a condition.
\<close>

fun all_of :: "bool result list \<Rightarrow> bool result" where
  "all_of [] = Inr True"
| "all_of (b # bs) = rbind b (\<lambda>x. if x then all_of bs else Inr False)"

definition demand :: "bool result \<Rightarrow> pyexc \<Rightarrow> 'a result \<Rightarrow> 'a result" where
  "demand b e k = rbind b (\<lambda>x. require x e k)"

lemma all_of_eq_True [res_simps]: "all_of bs = Inr True \<longleftrightarrow> (\<forall>b\<in>set bs. b = Inr True)"
  by (induction bs) (auto simp: rbind_eq_Inr split: if_splits)

declare all_of.simps [simp del]

lemma demand_eq_Inr [res_simps]: "demand b e k = Inr y \<longleftrightarrow> b = Inr True \<and> k = Inr y"
  by (auto simp: demand_def res_simps)

lemma demand_True [simp]: "demand (Inr True) e k = k"
  by (simp add: demand_def)

lemma demand_False [simp]: "demand (Inr False) e k = Inl e"
  by (simp add: demand_def)

lemma demand_Inl [simp]: "demand (Inl e') e k = Inl e'"
  by (simp add: demand_def)

lemma demand_cong [fundef_cong]:
  "b = b' \<Longrightarrow> e = e' \<Longrightarrow> (b' = Inr True \<Longrightarrow> k = k') \<Longrightarrow> demand b e k = demand b' e' k'"
  by (cases b') (auto simp: demand_def require_def)

section \<open>Loops over lists of fallible steps\<close>

text \<open>\<open>rmap f xs\<close> is a comprehension whose body may raise; \<open>rall f xs\<close> is a \<open>for\<close> loop of checks.\<close>

fun rmap :: "('a \<Rightarrow> 'b result) \<Rightarrow> 'a list \<Rightarrow> 'b list result" where
  "rmap f [] = Inr []"
| "rmap f (x # xs) = rbind (f x) (\<lambda>y. rbind (rmap f xs) (\<lambda>ys. Inr (y # ys)))"

fun rall :: "('a \<Rightarrow> unit result) \<Rightarrow> 'a list \<Rightarrow> unit result" where
  "rall f [] = Inr ()"
| "rall f (x # xs) = rbind (f x) (\<lambda>_. rall f xs)"

fun rfold :: "('a \<Rightarrow> 's \<Rightarrow> 's result) \<Rightarrow> 'a list \<Rightarrow> 's \<Rightarrow> 's result" where
  "rfold f [] s = Inr s"
| "rfold f (x # xs) s = rbind (f x s) (rfold f xs)"

text \<open>\<open>any(f(x) for x in xs)\<close> and \<open>all(f(x) for x in xs)\<close>: the first deciding or raising element ends it.\<close>

fun rany :: "('a \<Rightarrow> bool result) \<Rightarrow> 'a list \<Rightarrow> bool result" where
  "rany f [] = Inr False"
| "rany f (x # xs) = rbind (f x) (\<lambda>b. if b then Inr True else rany f xs)"

definition revery :: "('a \<Rightarrow> bool result) \<Rightarrow> 'a list \<Rightarrow> bool result" where
  "revery f xs = all_of (map f xs)"

lemma rany_eq_True: "rany f xs = Inr True \<Longrightarrow> \<exists>x\<in>set xs. f x = Inr True"
  by (induction xs) (auto simp: rbind_eq_Inr split: if_splits)

lemma rany_eq_False: "rany f xs = Inr False \<longleftrightarrow> (\<forall>x\<in>set xs. f x = Inr False)"
  by (induction xs) (auto simp: rbind_eq_Inr split: if_splits)

lemma revery_eq_True [res_simps]: "revery f xs = Inr True \<longleftrightarrow> (\<forall>x\<in>set xs. f x = Inr True)"
  by (simp add: revery_def all_of_eq_True)

text \<open>A comprehension with a filter that may raise.\<close>

fun rfilter :: "('a \<Rightarrow> bool result) \<Rightarrow> 'a list \<Rightarrow> 'a list result" where
  "rfilter f [] = Inr []"
| "rfilter f (x # xs) = rbind (f x) (\<lambda>b. rbind (rfilter f xs) (\<lambda>ys. Inr (if b then x # ys else ys)))"

lemma rfilter_eq_Inr: "rfilter f xs = Inr ys \<Longrightarrow> set ys = {x \<in> set xs. f x = Inr True}"
  by (induction xs arbitrary: ys) (auto simp: rbind_eq_Inr split: if_splits)

lemma rmap_eq_Inr [res_simps]: "rmap f xs = Inr ys \<longleftrightarrow> list_all2 (\<lambda>x y. f x = Inr y) xs ys"
  by (induction xs arbitrary: ys) (auto simp: res_simps list_all2_Cons1)

lemma rmap_member: "rmap f xs = Inr ys \<Longrightarrow> x \<in> set xs \<Longrightarrow> \<exists>y\<in>set ys. f x = Inr y"
  by (induction xs arbitrary: ys) (auto simp: rbind_eq_Inr)

lemma rmap_all: "(\<And>x. x \<in> set xs \<Longrightarrow> f x = Inr (g x)) \<Longrightarrow> rmap f xs = Inr (map g xs)"
  by (induction xs) auto

lemma rall_eq_Inr [res_simps]: "rall f xs = Inr u \<longleftrightarrow> (\<forall>x\<in>set xs. f x = Inr ())"
  by (induction xs) (auto simp: res_simps)

lemma rall_eq_Inl: "rall f xs = Inl e \<Longrightarrow> \<exists>x\<in>set xs. f x = Inl e"
  by (induction xs) (auto simp: res_simps)

lemma rmap_cong [fundef_cong]:
  "xs = ys \<Longrightarrow> (\<And>x. x \<in> set ys \<Longrightarrow> f x = g x) \<Longrightarrow> rmap f xs = rmap g ys"
  by (induction ys arbitrary: xs) (auto intro: rbind_cong)

lemma rfold_cong [fundef_cong]:
  "xs = ys \<Longrightarrow> (\<And>x s. x \<in> set ys \<Longrightarrow> f x s = g x s) \<Longrightarrow> s = t \<Longrightarrow> rfold f xs s = rfold g ys t"
proof (induction ys arbitrary: xs s t)
  case (Cons y ys)
  then show ?case by (auto intro!: rbind_cong)
qed simp

lemma rfold_append: "rfold f (xs @ ys) s = rbind (rfold f xs s) (rfold f ys)"
proof (induction xs arbitrary: s)
  case Nil
  then show ?case by simp
next
  case (Cons x xs)
  then have "rfold f (xs @ ys) = (\<lambda>s. rbind (rfold f xs s) (rfold f ys))" by (rule ext)
  then show ?case by (simp add: rbind_assoc)
qed

text \<open>An invariant that every successful iteration keeps holds after a successful loop.\<close>

lemma rfold_invariant:
  assumes step: "\<And>x s s'. x \<in> set xs \<Longrightarrow> P s \<Longrightarrow> f x s = Inr s' \<Longrightarrow> P s'"
    and "P s" and "rfold f xs s = Inr s'"
  shows "P s'"
  using assms
proof (induction xs arbitrary: s)
  case Nil
  then show ?case by simp
next
  case (Cons x xs)
  from Cons.prems(3) obtain t where t: "f x s = Inr t" "rfold f xs t = Inr s'"
    by (auto simp: res_simps)
  with Cons.prems(1,2) have "P t" by auto
  with Cons.IH [of t] Cons.prems(1) t(2) show ?case by auto
qed

section \<open>Association lists as insertion-ordered dictionaries\<close>

text \<open>
  A Python \<open>dict\<close> keeps its keys in the order of their first insertion, and an assignment to a
  present key keeps its place. \<open>dict_set\<close> is \<open>d[k] = v\<close>.
\<close>

fun dict_set :: "'k \<Rightarrow> 'v \<Rightarrow> ('k \<times> 'v) list \<Rightarrow> ('k \<times> 'v) list" where
  "dict_set k v [] = [(k, v)]"
| "dict_set k v ((k', v') # d) = (if k' = k then (k, v) # d else (k', v') # dict_set k v d)"

lemma dict_set_new: "k \<notin> fst ` set d \<Longrightarrow> dict_set k v d = d @ [(k, v)]"
  by (induction d) auto

lemma map_of_dict_set [simp]: "map_of (dict_set k v d) = (map_of d)(k \<mapsto> v)"
  by (induction d) (auto simp: fun_eq_iff)

lemma set_keys_dict_set [simp]: "fst ` set (dict_set k v d) = insert k (fst ` set d)"
  by (induction k v d rule: dict_set.induct) (simp_all add: insert_commute)

lemma distinct_dict_set [simp]:
  "distinct (map fst (dict_set k v d)) \<longleftrightarrow> distinct (map fst d)"
proof (induction d)
  case Nil
  then show ?case by simp
next
  case (Cons a d)
  obtain k' v' where a: "a = (k', v')" by force
  have "set (map fst (dict_set k v d)) = insert k (set (map fst d))" by simp
  with Cons a show ?case by auto
qed

lemma map_of_eq_None_keys: "map_of d k = None \<longleftrightarrow> k \<notin> fst ` set d"
  by (rule map_of_eq_None_iff)

end
