(* ===== verification/PyStr.thy ===== *)
theory PyStr
  imports Prelude "HOL-Library.Code_Target_Nat" "HOL-Library.Char_ord" "HOL-Library.List_Lexorder"
begin

text \<open>
  Python strings as the sources use them. A \<open>str\<close> is a list of characters; the model's
  characters are the code points 0 to 255, so every predicate below (\<open>isdecimal\<close>, the white
  space that \<open>strip\<close> and \<open>split\<close> drop, the line ends of \<open>splitlines\<close>) is Python's own
  restricted to that range. Ordering is by code point (\<open>List_Lexorder\<close> with \<open>Char_ord\<close>), as
  Python's \<open>sorted\<close> orders strings. The methods are executable and carry the laws the
  components use: digits and their value, \<open>split\<close>/\<open>join\<close> round trips, \<open>partition\<close>.
\<close>

section \<open>Character classes\<close>

definition code :: "char \<Rightarrow> nat" where
  "code c = of_char c"

text \<open>A code equation that evaluates without arithmetic on bit lists.\<close>

lemma code_Char [code]: "code (Char b0 b1 b2 b3 b4 b5 b6 b7) =
  (if b7 then (if b6 then (if b5 then 224 else 192) else (if b5 then 160 else 128))
         else (if b6 then (if b5 then 96 else 64) else (if b5 then 32 else 0))) +
  (if b4 then (if b3 then 24 else 16) else (if b3 then 8 else 0)) +
  (if b2 then (if b1 then (if b0 then 7 else 6) else (if b0 then 5 else 4))
         else (if b1 then (if b0 then 3 else 2) else (if b0 then 1 else 0)))"
  by (cases b0; cases b1; cases b2; cases b3; cases b4; cases b5; cases b6; cases b7; simp add: code_def)

definition is_digit :: "char \<Rightarrow> bool" where
  "is_digit c \<longleftrightarrow> 48 \<le> code c \<and> code c \<le> 57"

definition is_hex :: "char \<Rightarrow> bool" where
  "is_hex c \<longleftrightarrow> is_digit c \<or> (97 \<le> code c \<and> code c \<le> 102)"

text \<open>Code equations on the bits of a character, for the evaluation of concrete texts.\<close>

lemma is_digit_Char [code]:
  "is_digit (Char b0 b1 b2 b3 b4 b5 b6 b7) \<longleftrightarrow> \<not> b7 \<and> \<not> b6 \<and> b5 \<and> b4 \<and> (b3 \<longrightarrow> \<not> b2 \<and> \<not> b1)"
  by (cases b0; cases b1; cases b2; cases b3; cases b4; cases b5; cases b6; cases b7; simp add: is_digit_def code_Char)

lemma is_hex_Char [code]:
  "is_hex (Char b0 b1 b2 b3 b4 b5 b6 b7) \<longleftrightarrow> \<not> b7 \<and> b5 \<and>
     (if b6 then \<not> b4 \<and> \<not> b3 \<and> (b0 \<or> b1 \<or> b2) \<and> \<not> (b0 \<and> b1 \<and> b2) else b4 \<and> (b3 \<longrightarrow> \<not> b2 \<and> \<not> b1))"
  by (cases b0; cases b1; cases b2; cases b3; cases b4; cases b5; cases b6; cases b7;
      simp add: is_hex_def is_digit_def code_Char)

definition is_upper :: "char \<Rightarrow> bool" where
  "is_upper c \<longleftrightarrow> 65 \<le> code c \<and> code c \<le> 90"

definition is_lower :: "char \<Rightarrow> bool" where
  "is_lower c \<longleftrightarrow> 97 \<le> code c \<and> code c \<le> 122"

definition is_alnum :: "char \<Rightarrow> bool" where
  "is_alnum c \<longleftrightarrow> is_digit c \<or> is_upper c \<or> is_lower c"

text \<open>\<open>str.isspace\<close> on one character, for code points below 256.\<close>

definition is_space :: "char \<Rightarrow> bool" where
  "is_space c \<longleftrightarrow> code c \<in> {9, 10, 11, 12, 13, 28, 29, 30, 31, 32, 133, 160}"

definition newline :: char where
  "newline = CHR 0x0A"

definition tab :: char where
  "tab = CHR 0x09"

lemmas char_defs = code_def is_digit_def is_hex_def is_upper_def is_lower_def is_alnum_def
  is_space_def newline_def tab_def

section \<open>Prefixes, substrings, joins\<close>

fun startswith :: "string \<Rightarrow> string \<Rightarrow> bool" where
  "startswith s [] = True"
| "startswith [] (p # ps) = False"
| "startswith (c # s) (p # ps) = (c = p \<and> startswith s ps)"

lemma startswith_append [simp]: "startswith (p @ s) p"
  by (induction p) auto

lemma startswith_iff: "startswith s p \<longleftrightarrow> (\<exists>r. s = p @ r)"
  by (induction s p rule: startswith.induct) auto

lemma startswith_iff_take: "startswith s p \<longleftrightarrow> take (length p) s = p"
  by (induction s p rule: startswith.induct) auto

definition endswith :: "string \<Rightarrow> string \<Rightarrow> bool" where
  "endswith s p = startswith (rev s) (rev p)"

lemma endswith_iff: "endswith s p \<longleftrightarrow> (\<exists>r. s = r @ p)"
proof -
  have "(\<exists>r. rev s = rev p @ r) \<longleftrightarrow> (\<exists>r. s = r @ p)"
    by (metis rev_append rev_rev_ident)
  then show ?thesis by (simp add: endswith_def startswith_iff)
qed

text \<open>\<open>p in s\<close> on strings.\<close>

fun contains :: "string \<Rightarrow> string \<Rightarrow> bool" where
  "contains p [] = (p = [])"
| "contains p (c # s) = (startswith (c # s) p \<or> contains p s)"

text \<open>\<open>str.isdigit\<close>: below code point 256 also the superscripts.\<close>

definition py_isdigit :: "string \<Rightarrow> bool" where
  "py_isdigit s \<longleftrightarrow> s \<noteq> [] \<and> list_all (\<lambda>c. is_digit c \<or> code c \<in> {178, 179, 185}) s"

text \<open>\<open>str.removeprefix\<close>\<close>

definition removeprefix :: "string \<Rightarrow> string \<Rightarrow> string" where
  "removeprefix s p = (if startswith s p then drop (length p) s else s)"

fun join :: "string \<Rightarrow> string list \<Rightarrow> string" where
  "join sep [] = []"
| "join sep [s] = s"
| "join sep (s # t # r) = s @ sep @ join sep (t # r)"

section \<open>split and partition\<close>

text \<open>\<open>s.split(c)\<close> for a one-character separator: never empty, keeps empty fields.\<close>

fun split_on :: "char \<Rightarrow> string \<Rightarrow> string list" where
  "split_on d [] = [[]]"
| "split_on d (c # s) =
     (if c = d then [] # split_on d s
      else (case split_on d s of [] \<Rightarrow> [[c]] | f # fs \<Rightarrow> (c # f) # fs))"

lemma split_on_nonempty [simp]: "split_on d s \<noteq> []"
  by (induction s) (auto split: list.splits)

lemma split_on_noSep: "d \<notin> set s \<Longrightarrow> split_on d s = [s]"
  by (induction s) auto

lemma split_on_append: "d \<notin> set f \<Longrightarrow> split_on d (f @ d # s) = f # split_on d s"
  by (induction f) auto

lemma split_on_fields: "f \<in> set (split_on d s) \<Longrightarrow> d \<notin> set f"
  by (induction s arbitrary: f) (auto split: list.splits if_splits)

lemma join_split_on: "join [d] (split_on d s) = s"
proof (induction s)
  case Nil
  then show ?case by simp
next
  case (Cons c s)
  show ?case
  proof (cases "split_on d s")
    case Nil
    then show ?thesis by simp
  next
    case (Cons f fs)
    with Cons.IH show ?thesis by (cases fs) auto
  qed
qed

lemma split_on_join:
  "fs \<noteq> [] \<Longrightarrow> \<forall>f\<in>set fs. d \<notin> set f \<Longrightarrow> split_on d (join [d] fs) = fs"
proof (induction fs rule: induct_list012)
  case 1
  then show ?case by simp
next
  case (2 x)
  then show ?case by (simp add: split_on_noSep)
next
  case (3 x y zs)
  then have "split_on d (join [d] (y # zs)) = y # zs" by simp
  moreover have "join [d] (x # y # zs) = x @ d # join [d] (y # zs)" by simp
  moreover from 3 have "d \<notin> set x" by simp
  ultimately show ?case by (metis split_on_append)
qed

text \<open>\<open>s.partition(c)\<close>: the part before the first separator, whether there was one, the part after.\<close>

fun partition_on :: "char \<Rightarrow> string \<Rightarrow> string \<times> bool \<times> string" where
  "partition_on d [] = ([], False, [])"
| "partition_on d (c # s) =
     (if c = d then ([], True, s)
      else (case partition_on d s of (a, found, b) \<Rightarrow> (c # a, found, b)))"

lemma partition_on_append: "d \<notin> set a \<Longrightarrow> partition_on d (a @ d # b) = (a, True, b)"
  by (induction a) auto

lemma partition_on_noSep: "d \<notin> set a \<Longrightarrow> partition_on d a = (a, False, [])"
  by (induction a) auto

lemma partition_on_head: "partition_on d s = (a, found, b) \<Longrightarrow> d \<notin> set a"
  by (induction s arbitrary: a found b) (auto split: prod.splits if_splits)

section \<open>strip, split() and splitlines\<close>

definition lstrip :: "string \<Rightarrow> string" where
  "lstrip s = dropWhile is_space s"

definition rstrip :: "string \<Rightarrow> string" where
  "rstrip s = rev (dropWhile is_space (rev s))"

definition strip :: "string \<Rightarrow> string" where
  "strip s = lstrip (rstrip s)"

text \<open>A string that \<open>strip\<close> leaves alone starts and ends with a character that is not white space.\<close>

lemma dropWhile_fixed: "dropWhile P xs = xs \<longleftrightarrow> (xs = [] \<or> \<not> P (hd xs))"
  by (cases xs) (auto dest: arg_cong [where f = length] simp: dropWhile_eq_Cons_conv)

lemma strip_fixed:
  assumes "s \<noteq> []" "\<not> is_space (hd s)" "\<not> is_space (last s)"
  shows "strip s = s"
proof -
  have "dropWhile is_space (rev s) = rev s"
    using assms by (simp add: dropWhile_fixed hd_rev)
  moreover have "dropWhile is_space s = s"
    using assms by (simp add: dropWhile_fixed)
  ultimately show ?thesis by (simp add: strip_def lstrip_def rstrip_def)
qed

fun words_acc :: "string \<Rightarrow> string \<Rightarrow> string list" where
  "words_acc w [] = (if w = [] then [] else [rev w])"
| "words_acc w (c # s) =
     (if is_space c then (if w = [] then words_acc [] s else rev w # words_acc [] s)
      else words_acc (c # w) s)"

text \<open>\<open>s.split()\<close>: the maximal runs of characters that are not white space.\<close>

definition words :: "string \<Rightarrow> string list" where
  "words s = words_acc [] s"

text \<open>
  \<open>s.splitlines()\<close>. The line ends below code point 256 are LF, CR, CR LF, VT, FF, FS, GS, RS and
  NEL (133); a final line end adds no empty line.
\<close>

definition is_line_end :: "char \<Rightarrow> bool" where
  "is_line_end c \<longleftrightarrow> code c \<in> {10, 11, 12, 13, 28, 29, 30, 133}"

fun lines_acc :: "string \<Rightarrow> string \<Rightarrow> string list" where
  "lines_acc l [] = (if l = [] then [] else [rev l])"
| "lines_acc l [c] = (if is_line_end c then [rev l] else [rev (c # l)])"
| "lines_acc l (c # d # s) =
     (if code c = 13 \<and> code d = 10 then rev l # lines_acc [] s
      else if is_line_end c then rev l # lines_acc [] (d # s)
      else lines_acc (c # l) (d # s))"

definition splitlines :: "string \<Rightarrow> string list" where
  "splitlines s = lines_acc [] s"

section \<open>Decimal digits\<close>

definition digit_val :: "char \<Rightarrow> nat" where
  "digit_val c = code c - 48"

text \<open>\<open>int(s)\<close> for a string of decimal digits.\<close>

definition nat_of_digits :: "string \<Rightarrow> nat" where
  "nat_of_digits s = foldl (\<lambda>n c. 10 * n + digit_val c) 0 s"

text \<open>\<open>s.isdecimal()\<close>: not empty, decimal digits only (below code point 256 these are 0 to 9).\<close>

definition isdecimal :: "string \<Rightarrow> bool" where
  "isdecimal s \<longleftrightarrow> s \<noteq> [] \<and> list_all is_digit s"

definition digit_char :: "nat \<Rightarrow> char" where
  "digit_char d = char_of (48 + d)"

fun nat_str :: "nat \<Rightarrow> string" where
  "nat_str n = (if n < 10 then [digit_char n] else nat_str (n div 10) @ [digit_char (n mod 10)])"

declare nat_str.simps [simp del]

text \<open>\<open>str(n)\<close> for an integer.\<close>

definition int_str :: "int \<Rightarrow> string" where
  "int_str i = (if i < 0 then CHR ''-'' # nat_str (nat (- i)) else nat_str (nat i))"

lemma code_digit_char: "d < 10 \<Longrightarrow> code (digit_char d) = 48 + d"
  by (simp add: code_def digit_char_def of_char_of)

lemma is_digit_digit_char [simp]: "d < 10 \<Longrightarrow> is_digit (digit_char d)"
  by (simp add: is_digit_def code_digit_char)

lemma digit_val_digit_char [simp]: "d < 10 \<Longrightarrow> digit_val (digit_char d) = d"
  by (simp add: digit_val_def code_digit_char)

lemma nat_of_digits_snoc [simp]: "nat_of_digits (s @ [c]) = 10 * nat_of_digits s + digit_val c"
  by (simp add: nat_of_digits_def)

lemma nat_of_digits_nat_str [simp]: "nat_of_digits (nat_str n) = n"
proof (induction n rule: nat_str.induct)
  case (1 n)
  show ?case
  proof (cases "n < 10")
    case True
    then have "nat_str n = [] @ [digit_char n]" by (subst nat_str.simps) simp
    with True show ?thesis by (simp only: nat_of_digits_snoc) (simp add: nat_of_digits_def)
  next
    case False
    then have "nat_str n = nat_str (n div 10) @ [digit_char (n mod 10)]" by (subst nat_str.simps) simp
    with False 1 show ?thesis by simp
  qed
qed

lemma nat_str_digits: "list_all is_digit (nat_str n)"
proof (induction n rule: nat_str.induct)
  case (1 n)
  then show ?case by (subst nat_str.simps) simp
qed

lemma nat_str_nonempty [simp]: "nat_str n \<noteq> []"
  by (subst nat_str.simps) simp

lemma isdecimal_nat_str [simp]: "isdecimal (nat_str n)"
  by (simp add: isdecimal_def nat_str_digits)

section \<open>Text files\<close>

text \<open>Text mode: CR LF and CR are read as LF.\<close>

fun universal_newlines :: "string \<Rightarrow> string" where
  "universal_newlines [] = []"
| "universal_newlines [c] = (if c = CHR 0x0D then [newline] else [c])"
| "universal_newlines (c # d # s) =
     (if c = CHR 0x0D \<and> d = newline then newline # universal_newlines s
      else (if c = CHR 0x0D then newline else c) # universal_newlines (d # s))"

text \<open>\<open>for line in stream\<close>, without the line ends: no line after a final line end.\<close>

definition text_lines :: "string \<Rightarrow> string list" where
  "text_lines s = (let ls = split_on newline (universal_newlines s) in if last ls = [] then butlast ls else ls)"

section \<open>Lines and fields\<close>

lemma lines_acc_no_end:
  "l \<in> set (lines_acc acc s) \<Longrightarrow> \<forall>c\<in>set acc. \<not> is_line_end c \<Longrightarrow> \<forall>c\<in>set l. \<not> is_line_end c"
proof (induction acc s rule: lines_acc.induct)
  case (3 acc c d s)
  consider (crlf) "code c = 13 \<and> code d = 10" | (eol) "\<not> (code c = 13 \<and> code d = 10)" "is_line_end c"
    | (chr) "\<not> (code c = 13 \<and> code d = 10)" "\<not> is_line_end c" by blast
  then show ?case
  proof cases
    case crlf
    then have "l = rev acc \<or> l \<in> set (lines_acc [] s)" using "3.prems"(1) by simp
    then show ?thesis using "3.IH"(1) [OF crlf] "3.prems"(2) by fastforce
  next
    case eol
    then have "l = rev acc \<or> l \<in> set (lines_acc [] (d # s))" using "3.prems"(1) by (simp only: lines_acc.simps if_False if_True) simp
    then show ?thesis using "3.IH"(2) [OF eol] "3.prems"(2) by fastforce
  next
    case chr
    then have "l \<in> set (lines_acc (c # acc) (d # s))" using "3.prems"(1) by (simp only: lines_acc.simps if_False)
    then show ?thesis using "3.IH"(3) [OF chr] "3.prems"(2) chr(2) by simp
  qed
qed (simp_all split: if_splits)

lemma splitlines_no_end: "l \<in> set (splitlines s) \<Longrightarrow> c \<in> set l \<Longrightarrow> \<not> is_line_end c"
  using lines_acc_no_end [of l "[]" s] by (simp add: splitlines_def)

lemma lines_acc_line:
  "\<forall>c\<in>set l. \<not> is_line_end c \<Longrightarrow> lines_acc acc (l @ newline # s) = (rev acc @ l) # lines_acc [] s"
proof (induction l arbitrary: acc)
  case Nil
  then show ?case by (cases s) (simp_all add: newline_def is_line_end_def code_def)
next
  case (Cons c l)
  then have c: "\<not> is_line_end c" "code c \<noteq> 13" by (auto simp: is_line_end_def)
  obtain d r where dr: "l @ newline # s = d # r" by (cases l) auto
  from Cons have "lines_acc (c # acc) (l @ newline # s) = (rev (c # acc) @ l) # lines_acc [] s" by simp
  with c dr show ?case by simp
qed

lemma splitlines_lines:
  "\<forall>l\<in>set ls. \<forall>c\<in>set l. \<not> is_line_end c \<Longrightarrow> splitlines (concat (map (\<lambda>l. l @ [newline]) ls)) = ls"
  by (induction ls) (simp_all add: splitlines_def lines_acc_line)

section \<open>The words of a text\<close>

lemma words_acc_run: "\<forall>c\<in>set f. \<not> is_space c \<Longrightarrow> words_acc w (f @ s) = words_acc (rev f @ w) s"
  by (induction f arbitrary: w) simp_all

lemma words_Nil [simp]: "words [] = []"
  by (simp add: words_def)

lemma words_space [simp]: "is_space d \<Longrightarrow> words (d # s) = words s"
  by (simp add: words_def)

lemma words_word: "f \<noteq> [] \<Longrightarrow> \<forall>c\<in>set f. \<not> is_space c \<Longrightarrow> is_space d \<Longrightarrow> words (f @ d # s) = f # words s"
  by (simp add: words_def words_acc_run)

lemma words_one: "f \<noteq> [] \<Longrightarrow> \<forall>c\<in>set f. \<not> is_space c \<Longrightarrow> words f = [f]"
  using words_acc_run [of f "[]" "[]"] by (simp add: words_def)

lemma digit_not_space: "is_digit c \<Longrightarrow> \<not> is_space c"
  by (auto simp: is_digit_def is_space_def)

lemma nat_str_not_space: "\<forall>c\<in>set (nat_str n). \<not> is_space c"
  using nat_str_digits [of n] digit_not_space by (auto simp: list_all_iff)

lemma space_chars [simp]: "is_space CHR '' ''" "is_space CHR 0x09" "is_space tab" "is_space newline"
  by (simp_all add: is_space_def code_def tab_def newline_def)

text \<open>\<open>str.lower\<close> on the model's code points: the capitals of ASCII and of Latin-1.\<close>

definition py_lower :: "string \<Rightarrow> string" where
  "py_lower s = map (\<lambda>c. if is_upper c \<or> (192 \<le> code c \<and> code c \<le> 222 \<and> code c \<noteq> 215) then char_of (code c + 32) else c) s"

end
