(* ===== verification/Json.thy ===== *)
theory Json
  imports PyStr Complex_Main
begin

text \<open>
  JSON values as the sources see them after \<open>json.loads\<close>, with Python's own operations on them:
  \<open>==\<close>, truth, \<open>v[k]\<close>, \<open>v.get(k)\<close>, \<open>set(v)\<close> and the \<open>isinstance\<close> tests.

  Two of Python's rules matter to the checks that are modelled in this development and are kept:
  \<open>True == 1 == 1.0\<close> (so a check \<open>value['schemaVersion'] == 1\<close> also passes for \<open>true\<close> and for
  \<open>1.0\<close>), and \<open>dict\<close> equality ignores the order of the keys. A float is an exact rational here:
  the rounding of a decimal literal to a double is not modelled.
\<close>

section \<open>Values\<close>

datatype pyfloat = Finite rat | PosInf | NegInf | NaN

datatype json =
    JNull
  | JBool bool
  | JInt int
  | JFloat pyfloat
  | JStr string
  | JList "json list"
  | JObj "(string \<times> json) list"

text \<open>Every object of the value has distinct keys: what a \<open>dict\<close> guarantees.\<close>

primrec wf_json :: "json \<Rightarrow> bool" where
  "wf_json JNull = True"
| "wf_json (JBool b) = True"
| "wf_json (JInt i) = True"
| "wf_json (JFloat x) = True"
| "wf_json (JStr s) = True"
| "wf_json (JList xs) = list_all id (map wf_json xs)"
| "wf_json (JObj d) = (distinct (map fst d) \<and> list_all snd (map (map_prod id wf_json) d))"

primrec has_nan :: "json \<Rightarrow> bool" where
  "has_nan JNull = False"
| "has_nan (JBool b) = False"
| "has_nan (JInt i) = False"
| "has_nan (JFloat x) = (x = NaN)"
| "has_nan (JStr s) = False"
| "has_nan (JList xs) = list_ex id (map has_nan xs)"
| "has_nan (JObj d) = list_ex snd (map (map_prod id has_nan) d)"

section \<open>Equality\<close>

text \<open>
  Python's \<open>==\<close> as equality of a normal form: truth values and whole floats become integers, the
  keys of an object are sorted. A value that contains a NaN equals no decoded value.
\<close>

definition norm_float :: "pyfloat \<Rightarrow> json" where
  "norm_float x = (case x of Finite q \<Rightarrow> if of_int \<lfloor>q\<rfloor> = q then JInt \<lfloor>q\<rfloor> else JFloat (Finite q)
                   | _ \<Rightarrow> JFloat x)"

primrec norm :: "json \<Rightarrow> json" where
  "norm JNull = JNull"
| "norm (JBool b) = JInt (if b then 1 else 0)"
| "norm (JInt i) = JInt i"
| "norm (JFloat x) = norm_float x"
| "norm (JStr s) = JStr s"
| "norm (JList xs) = JList (map norm xs)"
| "norm (JObj d) = JObj (sort_key fst (map (map_prod id norm) d))"

definition pyeq :: "json \<Rightarrow> json \<Rightarrow> bool" where
  "pyeq a b \<longleftrightarrow> \<not> has_nan a \<and> \<not> has_nan b \<and> norm a = norm b"

lemma pyeq_sym: "pyeq a b \<longleftrightarrow> pyeq b a"
  by (auto simp: pyeq_def)

lemma pyeq_trans: "pyeq a b \<Longrightarrow> pyeq b c \<Longrightarrow> pyeq a c"
  by (simp add: pyeq_def)

lemma pyeq_refl: "\<not> has_nan a \<Longrightarrow> pyeq a a"
  by (simp add: pyeq_def)

lemma norm_float_ne [simp]:
  "norm_float x \<noteq> JStr s" "norm_float x \<noteq> JNull" "norm_float x \<noteq> JList xs" "norm_float x \<noteq> JObj d"
  "norm_float x \<noteq> JBool b"
  by (auto simp: norm_float_def split: pyfloat.splits)

lemma norm_eq_JStr [simp]: "norm v = JStr s \<longleftrightarrow> v = JStr s" "JStr s = norm v \<longleftrightarrow> v = JStr s"
  subgoal by (cases v) simp_all
  subgoal by (cases v) (auto simp: eq_commute [of _ "norm_float _"])
  done

lemma norm_eq_JNull [simp]: "norm v = JNull \<longleftrightarrow> v = JNull" "JNull = norm v \<longleftrightarrow> v = JNull"
  subgoal by (cases v) simp_all
  subgoal by (cases v) (auto simp: eq_commute [of _ "norm_float _"])
  done

lemma pyeq_JStr [simp]: "pyeq (JStr s) v \<longleftrightarrow> v = JStr s" "pyeq v (JStr s) \<longleftrightarrow> v = JStr s"
  by (auto simp: pyeq_def)

lemma pyeq_JNull [simp]: "pyeq JNull v \<longleftrightarrow> v = JNull" "pyeq v JNull \<longleftrightarrow> v = JNull"
  by (auto simp: pyeq_def)

lemma pyeq_JInt [simp]: "pyeq (JInt m) (JInt n) \<longleftrightarrow> m = n"
  by (simp add: pyeq_def)

lemma pyeq_JBool_JInt [simp]:
  "pyeq (JBool b) (JInt n) \<longleftrightarrow> n = (if b then 1 else 0)"
  "pyeq (JInt n) (JBool b) \<longleftrightarrow> n = (if b then 1 else 0)"
  by (auto simp: pyeq_def)

lemma pyeq_JBool [simp]: "pyeq (JBool b) (JBool c) \<longleftrightarrow> b = c"
  by (auto simp: pyeq_def)

section \<open>Access\<close>

text \<open>\<open>v[k]\<close> with a string key: \<open>KeyError\<close> on a missing key, \<open>TypeError\<close> on anything but a \<open>dict\<close>.\<close>

definition index :: "json \<Rightarrow> string \<Rightarrow> json result" where
  "index v k = (case v of JObj d \<Rightarrow> (case map_of d k of None \<Rightarrow> Inl (KeyError k) | Some x \<Rightarrow> Inr x)
                | _ \<Rightarrow> Inl TypeError)"

text \<open>\<open>v.get(k, default)\<close>: only a \<open>dict\<close> has the method.\<close>

definition get_or :: "json \<Rightarrow> string \<Rightarrow> json \<Rightarrow> json result" where
  "get_or v k dflt = (case v of JObj d \<Rightarrow> Inr (case map_of d k of None \<Rightarrow> dflt | Some x \<Rightarrow> x)
                      | _ \<Rightarrow> Inl AttributeError)"

definition get :: "json \<Rightarrow> string \<Rightarrow> json result" where
  "get v k = get_or v k JNull"

text \<open>\<open>bool(v)\<close>\<close>

fun truthy :: "json \<Rightarrow> bool" where
  "truthy JNull = False"
| "truthy (JBool b) = b"
| "truthy (JInt i) = (i \<noteq> 0)"
| "truthy (JFloat x) = (x \<noteq> Finite 0)"
| "truthy (JStr s) = (s \<noteq> [])"
| "truthy (JList xs) = (xs \<noteq> [])"
| "truthy (JObj d) = (d \<noteq> [])"

text \<open>\<open>isinstance(v, dict)\<close> and its kin; a \<open>bool\<close> is an \<open>int\<close>.\<close>

fun is_dict :: "json \<Rightarrow> bool" where
  "is_dict (JObj d) = True"
| "is_dict _ = False"

fun is_str :: "json \<Rightarrow> bool" where
  "is_str (JStr s) = True"
| "is_str _ = False"

fun is_bool :: "json \<Rightarrow> bool" where
  "is_bool (JBool b) = True"
| "is_bool _ = False"

text \<open>
  \<open>set(v) == K\<close> for a set \<open>K\<close> of strings: a \<open>dict\<close> gives its keys, a list its elements (an
  element that is a list or a \<open>dict\<close> is unhashable), a string its characters.
\<close>

definition set_is :: "json \<Rightarrow> string list \<Rightarrow> bool result" where
  "set_is v K = (case v of
       JObj d \<Rightarrow> Inr (set (map fst d) = set K)
     | JList xs \<Rightarrow>
         if list_ex (\<lambda>x. case x of JList _ \<Rightarrow> True | JObj _ \<Rightarrow> True | _ \<Rightarrow> False) xs then Inl TypeError
         else Inr (set xs = set (map JStr K))
     | JStr s \<Rightarrow> Inr (set (map (\<lambda>c. [c]) s) = set K)
     | _ \<Rightarrow> Inl TypeError)"

lemma index_JObj [simp]:
  "index (JObj d) k = (case map_of d k of None \<Rightarrow> Inl (KeyError k) | Some x \<Rightarrow> Inr x)"
  by (simp add: index_def)

lemma index_eq_Inr: "index v k = Inr x \<longleftrightarrow> (\<exists>d. v = JObj d \<and> map_of d k = Some x)"
  by (cases v) (auto simp: index_def split: option.splits)

lemma get_JObj [simp]: "get (JObj d) k = Inr (case map_of d k of None \<Rightarrow> JNull | Some x \<Rightarrow> x)"
  by (simp add: get_def get_or_def)

lemma get_or_JObj [simp]:
  "get_or (JObj d) k x = Inr (case map_of d k of None \<Rightarrow> x | Some y \<Rightarrow> y)"
  by (simp add: get_or_def)

lemma get_eq_Inr:
  "get v k = Inr x \<longleftrightarrow> (\<exists>d. v = JObj d \<and> x = (case map_of d k of None \<Rightarrow> JNull | Some y \<Rightarrow> y))"
  by (cases v) (auto simp: get_def get_or_def)

lemma get_present: "get v k = Inr x \<Longrightarrow> x \<noteq> JNull \<Longrightarrow> index v k = Inr x"
  by (auto simp: get_eq_Inr index_def split: option.splits)

lemma set_is_JObj [simp]: "set_is (JObj d) K = Inr (fst ` set d = set K)"
  by (simp add: set_is_def)

lemma is_dict_iff: "is_dict v \<longleftrightarrow> (\<exists>d. v = JObj d)"
  by (cases v) auto

lemma is_str_iff: "is_str v \<longleftrightarrow> (\<exists>s. v = JStr s)"
  by (cases v) auto

text \<open>\<open>v[k1][k2]\<close>, the nested reads of the manifests.\<close>

definition index2 :: "json \<Rightarrow> string \<Rightarrow> string \<Rightarrow> json result" where
  "index2 v k1 k2 = rbind (index v k1) (\<lambda>x. index x k2)"

lemma index2_eq_Inr:
  "index2 v k1 k2 = Inr x \<longleftrightarrow>
     (\<exists>d e. v = JObj d \<and> map_of d k1 = Some (JObj e) \<and> map_of e k2 = Some x)"
  by (auto simp: index2_def res_simps index_eq_Inr)

text \<open>\<open>v[k] == c\<close> and \<open>v.get(k) == c\<close>, the comparisons most checks consist of.\<close>

definition index_is :: "json \<Rightarrow> string \<Rightarrow> json \<Rightarrow> bool result" where
  "index_is v k c = rbind (index v k) (\<lambda>x. Inr (pyeq x c))"

definition get_is :: "json \<Rightarrow> string \<Rightarrow> json \<Rightarrow> bool result" where
  "get_is v k c = rbind (get v k) (\<lambda>x. Inr (pyeq x c))"

lemma index_is_True [res_simps]: "index_is v k c = Inr True \<longleftrightarrow> (\<exists>x. index v k = Inr x \<and> pyeq x c)"
  by (auto simp: index_is_def res_simps)

lemma get_is_True [res_simps]: "get_is v k c = Inr True \<longleftrightarrow> (\<exists>x. get v k = Inr x \<and> pyeq x c)"
  by (auto simp: get_is_def res_simps)

text \<open>\<open>len(v)\<close>, \<open>v[0]\<close> and \<open>v in {s1, ...}\<close> (the key must be hashable).\<close>

definition py_len :: "json \<Rightarrow> nat result" where
  "py_len v = (case v of JStr s \<Rightarrow> Inr (length s) | JList xs \<Rightarrow> Inr (length xs) | JObj d \<Rightarrow> Inr (length d)
               | _ \<Rightarrow> Inl TypeError)"

definition item0 :: "json \<Rightarrow> json result" where
  "item0 v = (case v of
       JList xs \<Rightarrow> (case xs of [] \<Rightarrow> Inl IndexError | x # _ \<Rightarrow> Inr x)
     | JStr s \<Rightarrow> (case s of [] \<Rightarrow> Inl IndexError | c # _ \<Rightarrow> Inr (JStr [c]))
     | JObj d \<Rightarrow> Inl (KeyError ''0'')
     | _ \<Rightarrow> Inl TypeError)"

definition in_strs :: "json \<Rightarrow> string list \<Rightarrow> bool result" where
  "in_strs v K = (case v of JList xs \<Rightarrow> Inl TypeError | JObj d \<Rightarrow> Inl TypeError
                  | JStr s \<Rightarrow> Inr (s \<in> set K) | _ \<Rightarrow> Inr False)"

definition as_list :: "json \<Rightarrow> json list result" where
  "as_list v = (case v of JList xs \<Rightarrow> Inr xs | _ \<Rightarrow> Inl TypeError)"

definition dict_items :: "json \<Rightarrow> (string \<times> json) list result" where
  "dict_items v = (case v of JObj d \<Rightarrow> Inr d | _ \<Rightarrow> Inl AttributeError)"

lemma in_strs_True [res_simps]: "in_strs v K = Inr True \<longleftrightarrow> (\<exists>s\<in>set K. v = JStr s)"
  by (auto simp: in_strs_def split: json.splits)

lemma as_list_Inr [res_simps]: "as_list v = Inr xs \<longleftrightarrow> v = JList xs"
  by (auto simp: as_list_def split: json.splits)

lemma dict_items_Inr [res_simps]: "dict_items v = Inr d \<longleftrightarrow> v = JObj d"
  by (auto simp: dict_items_def split: json.splits)

text \<open>\<open>for x in v\<close>: a \<open>dict\<close> yields its keys, a string its characters.\<close>

definition py_iter :: "json \<Rightarrow> json list result" where
  "py_iter v = (case v of JList xs \<Rightarrow> Inr xs | JObj d \<Rightarrow> Inr (map (\<lambda>p. JStr (fst p)) d)
     | JStr s \<Rightarrow> Inr (map (\<lambda>c. JStr [c]) s) | _ \<Rightarrow> Inl TypeError)"

text \<open>The value of an \<open>isinstance(v, int)\<close>; a \<open>bool\<close> is one.\<close>

definition int_value :: "json \<Rightarrow> int option" where
  "int_value v = (case v of JInt i \<Rightarrow> Some i | JBool b \<Rightarrow> Some (if b then 1 else 0) | _ \<Rightarrow> None)"

text \<open>A value used where Python needs a \<open>str\<close>.\<close>

definition json_str :: "json \<Rightarrow> string result" where
  "json_str v = (case v of JStr s \<Rightarrow> Inr s | _ \<Rightarrow> Inl TypeError)"

text \<open>\<open>s in v\<close> for a decoded value: a key, an element, a substring.\<close>

definition str_in :: "string \<Rightarrow> json \<Rightarrow> bool result" where
  "str_in s v = (case v of JObj d \<Rightarrow> Inr (s \<in> fst ` set d) | JList xs \<Rightarrow> Inr (list_ex (pyeq (JStr s)) xs)
                 | JStr t \<Rightarrow> Inr (contains s t) | _ \<Rightarrow> Inl TypeError)"

end
