(* ===== verification/JsonText.thy ===== *)
theory JsonText
  imports Json
begin

text \<open>
  The text of JSON: \<open>json.dumps\<close> in the three layouts the sources use and \<open>json.loads\<close>.

  \<open>dump\<close> is the encoder of CPython's \<^verbatim>\<open>json\<close> module with \<open>ensure_ascii\<close> (the default); its
  layout is a \<open>style\<close>. \<open>pval\<close>, \<open>pelems\<close> and \<open>pmembers\<close> are the decoder, with a fuel argument that
  bounds the nesting; \<open>raw_loads\<close> starts it with more fuel than the text has characters, which
  \<open>raw_loads_fuel\<close> shows to be enough for every text. An object is decoded to the list of its pairs,
  duplicates included, which is what the decoder hands to \<open>object_pairs_hook\<close>; \<open>loads\<close> applies the
  default hook (a \<open>dict\<close>: the last value of a key wins).

  The decimal spelling of a float (\<open>float.__repr__\<close>) is C code outside the repository and an
  argument \<open>fr\<close> of the encoder. Escapes of code points above 255 are rejected by the decoder:
  the model's characters end there.
\<close>

section \<open>The encoder\<close>

record style =
  indent :: "nat option"
  item_sep :: string
  key_sep :: string

definition compact :: style where
  "compact = \<lparr>indent = None, item_sep = '','', key_sep = '':''\<rparr>"

definition plain :: style where
  "plain = \<lparr>indent = None, item_sep = '', '', key_sep = '': ''\<rparr>"

definition indented :: style where
  "indented = \<lparr>indent = Some 2, item_sep = '','', key_sep = '': ''\<rparr>"

definition quote :: char where "quote = CHR 0x22"
definition backslash :: char where "backslash = CHR 0x5C"

definition hex_char :: "nat \<Rightarrow> char" where
  "hex_char d = char_of (if d < 10 then 48 + d else 87 + d)"

definition esc :: "char \<Rightarrow> string" where
  "esc c = (if c = quote then [backslash, quote]
     else if c = backslash then [backslash, backslash]
     else if c = CHR 0x0A then [backslash, CHR ''n'']
     else if c = CHR 0x0D then [backslash, CHR ''r'']
     else if c = CHR 0x09 then [backslash, CHR ''t'']
     else if c = CHR 0x0C then [backslash, CHR ''f'']
     else if c = CHR 0x08 then [backslash, CHR ''b'']
     else if 32 \<le> code c \<and> code c \<le> 126 then [c]
     else backslash # ''u00'' @ [hex_char (code c div 16), hex_char (code c mod 16)])"

definition dump_str :: "string \<Rightarrow> string" where
  "dump_str s = quote # concat (map esc s) @ [quote]"

definition pad :: "style \<Rightarrow> nat \<Rightarrow> string" where
  "pad st l = (case indent st of None \<Rightarrow> [] | Some k \<Rightarrow> newline # replicate (k * l) CHR '' '')"

fun dump :: "(pyfloat \<Rightarrow> string) \<Rightarrow> style \<Rightarrow> nat \<Rightarrow> json \<Rightarrow> string" where
  "dump fr st l JNull = ''null''"
| "dump fr st l (JBool b) = (if b then ''true'' else ''false'')"
| "dump fr st l (JInt i) = int_str i"
| "dump fr st l (JFloat x) = fr x"
| "dump fr st l (JStr s) = dump_str s"
| "dump fr st l (JList xs) =
     (if xs = [] then ''[]''
      else ''['' @ pad st (Suc l) @ join (item_sep st @ pad st (Suc l)) (map (dump fr st (Suc l)) xs)
             @ pad st l @ '']'')"
| "dump fr st l (JObj d) =
     (if d = [] then ''{}''
      else ''{'' @ pad st (Suc l)
             @ join (item_sep st @ pad st (Suc l))
                 (map (\<lambda>p. dump_str (fst p) @ key_sep st @ dump fr st (Suc l) (snd p)) d)
             @ pad st l @ ''}'')"

text \<open>\<open>sort_keys=True\<close>\<close>

primrec sortk :: "json \<Rightarrow> json" where
  "sortk JNull = JNull"
| "sortk (JBool b) = JBool b"
| "sortk (JInt i) = JInt i"
| "sortk (JFloat x) = JFloat x"
| "sortk (JStr s) = JStr s"
| "sortk (JList xs) = JList (map sortk xs)"
| "sortk (JObj d) = JObj (sort_key fst (map (map_prod id sortk) d))"

text \<open>\<open>json.dumps(v, sort_keys=True, ...)\<close>\<close>

definition dumps_sorted :: "(pyfloat \<Rightarrow> string) \<Rightarrow> style \<Rightarrow> json \<Rightarrow> string" where
  "dumps_sorted fr st v = dump fr st 0 (sortk v)"

section \<open>The decoder\<close>

definition is_ws :: "char \<Rightarrow> bool" where
  "is_ws c \<longleftrightarrow> code c \<in> {9, 10, 13, 32}"

definition skip :: "string \<Rightarrow> string" where
  "skip s = dropWhile is_ws s"

definition hex_val :: "char \<Rightarrow> nat option" where
  "hex_val c = (let n = code c in
     if 48 \<le> n \<and> n \<le> 57 then Some (n - 48)
     else if 97 \<le> n \<and> n \<le> 102 then Some (n - 87)
     else if 65 \<le> n \<and> n \<le> 70 then Some (n - 55)
     else None)"

definition hex4 :: "char \<Rightarrow> char \<Rightarrow> char \<Rightarrow> char \<Rightarrow> nat option" where
  "hex4 a b c d = (case (hex_val a, hex_val b, hex_val c, hex_val d) of
     (Some i, Some j, Some k, Some l) \<Rightarrow> Some (4096 * i + 256 * j + 16 * k + l)
   | _ \<Rightarrow> None)"

definition unesc :: "char \<Rightarrow> char option" where
  "unesc c = map_of [(quote, quote), (backslash, backslash), (CHR ''/'', CHR ''/''),
     (CHR ''b'', CHR 0x08), (CHR ''f'', CHR 0x0C), (CHR ''n'', CHR 0x0A), (CHR ''r'', CHR 0x0D),
     (CHR ''t'', CHR 0x09)] c"

definition cons_fst :: "'a \<Rightarrow> ('a list \<times> 'b) option \<Rightarrow> ('a list \<times> 'b) option" where
  "cons_fst x m = map_option (map_prod ((#) x) id) m"

text \<open>The rest of a string literal after its opening quote (strict mode: no control characters).\<close>

fun parse_str :: "string \<Rightarrow> (string \<times> string) option" where
  "parse_str [] = None"
| "parse_str (c # s) =
     (if c = quote then Some ([], s)
      else if c = backslash then
        (case s of
           [] \<Rightarrow> None
         | e # r \<Rightarrow>
             if e = CHR ''u'' then
               (case r of
                  h1 # h2 # h3 # h4 # r' \<Rightarrow>
                    (case hex4 h1 h2 h3 h4 of
                       None \<Rightarrow> None
                     | Some n \<Rightarrow> if n < 256 then cons_fst (char_of n) (parse_str r') else None)
                | _ \<Rightarrow> None)
             else (case unesc e of None \<Rightarrow> None | Some x \<Rightarrow> cons_fst x (parse_str r)))
      else if code c < 32 then None
      else cons_fst c (parse_str s))"

definition int_part :: "string \<Rightarrow> (string \<times> string) option" where
  "int_part s = (case s of
     [] \<Rightarrow> None
   | c # r \<Rightarrow> if c = CHR ''0'' then Some ([c], r)
              else if is_digit c then Some (takeWhile is_digit s, dropWhile is_digit s)
              else None)"

definition frac_part :: "string \<Rightarrow> string \<times> string" where
  "frac_part s = (case s of
     [] \<Rightarrow> ([], s)
   | c # r \<Rightarrow> if c = CHR ''.'' \<and> takeWhile is_digit r \<noteq> []
              then (takeWhile is_digit r, dropWhile is_digit r) else ([], s))"

definition exp_sign :: "string \<Rightarrow> bool \<times> string" where
  "exp_sign s = (case s of
     [] \<Rightarrow> (False, s)
   | c # r \<Rightarrow> if c = CHR ''-'' then (True, r) else if c = CHR ''+'' then (False, r) else (False, s))"

definition exp_part :: "string \<Rightarrow> int option \<times> string" where
  "exp_part s = (case s of
     [] \<Rightarrow> (None, s)
   | c # r \<Rightarrow>
       if c = CHR ''e'' \<or> c = CHR ''E'' then
         (case exp_sign r of (neg, r') \<Rightarrow>
            if takeWhile is_digit r' = [] then (None, s)
            else (Some ((if neg then -1 else 1) * int (nat_of_digits (takeWhile is_digit r'))),
                  dropWhile is_digit r'))
       else (None, s))"

definition pow10 :: "int \<Rightarrow> rat" where
  "pow10 e = (if 0 \<le> e then 10 ^ nat e else 1 / 10 ^ nat (- e))"

definition number_value :: "bool \<Rightarrow> string \<Rightarrow> string \<Rightarrow> int option \<Rightarrow> json" where
  "number_value neg i f e =
     (if f = [] \<and> e = None
      then JInt ((if neg then -1 else 1) * int (nat_of_digits i))
      else JFloat (Finite ((if neg then -1 else 1) * of_nat (nat_of_digits (i @ f))
             * pow10 ((case e of None \<Rightarrow> 0 | Some x \<Rightarrow> x) - int (length f)))))"

definition sign_part :: "string \<Rightarrow> bool \<times> string" where
  "sign_part s = (case s of
     [] \<Rightarrow> (False, s)
   | c # r \<Rightarrow> if c = CHR ''-'' then (True, r) else (False, s))"

definition parse_number :: "string \<Rightarrow> (json \<times> string) option" where
  "parse_number s =
     (case sign_part s of
        (neg, s0) \<Rightarrow>
          (case int_part s0 of
             None \<Rightarrow> None
           | Some (i, s1) \<Rightarrow>
               (case frac_part s1 of (f, s2) \<Rightarrow>
                  (case exp_part s2 of (e, s3) \<Rightarrow> Some (number_value neg i f e, s3)))))"

text \<open>The constants, in the order the scanner tries them.\<close>

definition parse_word :: "string \<Rightarrow> (json \<times> string) option" where
  "parse_word s =
     (if startswith s ''null'' then Some (JNull, drop 4 s)
      else if startswith s ''true'' then Some (JBool True, drop 4 s)
      else if startswith s ''false'' then Some (JBool False, drop 5 s)
      else case parse_number s of
        Some x \<Rightarrow> Some x
      | None \<Rightarrow>
          if startswith s ''NaN'' then Some (JFloat NaN, drop 3 s)
          else if startswith s ''Infinity'' then Some (JFloat PosInf, drop 8 s)
          else if startswith s ''-Infinity'' then Some (JFloat NegInf, drop 9 s)
          else None)"

fun pval :: "nat \<Rightarrow> string \<Rightarrow> (json \<times> string) option"
  and pelems :: "nat \<Rightarrow> string \<Rightarrow> (json list \<times> string) option"
  and pmembers :: "nat \<Rightarrow> string \<Rightarrow> ((string \<times> json) list \<times> string) option" where
  "pval 0 s = None"
| "pval (Suc n) s =
     (case s of
        [] \<Rightarrow> None
      | c # r \<Rightarrow>
          if c = quote then map_option (map_prod JStr id) (parse_str r)
          else if c = CHR ''{'' then
            (case skip r of
               [] \<Rightarrow> None
             | d # r' \<Rightarrow> if d = CHR ''}'' then Some (JObj [], r')
                         else map_option (map_prod JObj id) (pmembers n (d # r')))
          else if c = CHR ''['' then
            (case skip r of
               [] \<Rightarrow> None
             | d # r' \<Rightarrow> if d = CHR '']'' then Some (JList [], r')
                         else map_option (map_prod JList id) (pelems n (d # r')))
          else parse_word s)"
| "pelems 0 s = None"
| "pelems (Suc n) s =
     (case pval n s of
        None \<Rightarrow> None
      | Some (v, r) \<Rightarrow>
          (case skip r of
             [] \<Rightarrow> None
           | c # r' \<Rightarrow> if c = CHR '']'' then Some ([v], r')
                       else if c = CHR '','' then cons_fst v (pelems n (skip r'))
                       else None))"
| "pmembers 0 s = None"
| "pmembers (Suc n) s =
     (case s of
        [] \<Rightarrow> None
      | q # r0 \<Rightarrow>
          if q \<noteq> quote then None
          else (case parse_str r0 of
             None \<Rightarrow> None
           | Some (k, r1) \<Rightarrow>
               (case skip r1 of
                  [] \<Rightarrow> None
                | d # r2 \<Rightarrow>
                    if d \<noteq> CHR '':'' then None
                    else (case pval n (skip r2) of
                       None \<Rightarrow> None
                     | Some (v, r3) \<Rightarrow>
                         (case skip r3 of
                            [] \<Rightarrow> None
                          | e # r4 \<Rightarrow> if e = CHR ''}'' then Some ([(k, v)], r4)
                                      else if e = CHR '','' then cons_fst (k, v) (pmembers n (skip r4))
                                      else None)))))"

definition raw_loads :: "string \<Rightarrow> json option" where
  "raw_loads s = (case pval (Suc (length s)) (skip s) of
     None \<Rightarrow> None
   | Some (v, r) \<Rightarrow> if skip r = [] then Some v else None)"

text \<open>The default hook: each pair list becomes a \<open>dict\<close>.\<close>

definition dict_of :: "('k \<times> 'v) list \<Rightarrow> ('k \<times> 'v) list" where
  "dict_of d = foldl (\<lambda>acc p. dict_set (fst p) (snd p) acc) [] d"

primrec dedup :: "json \<Rightarrow> json" where
  "dedup JNull = JNull"
| "dedup (JBool b) = JBool b"
| "dedup (JInt i) = JInt i"
| "dedup (JFloat x) = JFloat x"
| "dedup (JStr s) = JStr s"
| "dedup (JList xs) = JList (map dedup xs)"
| "dedup (JObj d) = JObj (dict_of (map (map_prod id dedup) d))"

definition loads :: "string \<Rightarrow> json option" where
  "loads s = map_option dedup (raw_loads s)"

text \<open>Code equation: a printable character other than quote and backslash is its own escape.\<close>

definition plain_char :: "char \<Rightarrow> bool" where
  "plain_char c \<longleftrightarrow> 32 \<le> code c \<and> code c \<le> 126 \<and> c \<noteq> quote \<and> c \<noteq> backslash"

lemma plain_char_Char [code]:
  "plain_char (Char b0 b1 b2 b3 b4 b5 b6 b7) \<longleftrightarrow> \<not> b7 \<and> (b5 \<or> b6) \<and>
     \<not> (b0 \<and> b1 \<and> b2 \<and> b3 \<and> b4 \<and> b5 \<and> b6) \<and>
     \<not> (\<not> b0 \<and> b1 \<and> \<not> b2 \<and> \<not> b3 \<and> \<not> b4 \<and> b5 \<and> \<not> b6) \<and>
     \<not> (\<not> b0 \<and> \<not> b1 \<and> b2 \<and> b3 \<and> b4 \<and> \<not> b5 \<and> b6)"
  by (cases b0; cases b1; cases b2; cases b3; cases b4; cases b5; cases b6; cases b7;
      simp add: plain_char_def code_Char quote_def backslash_def)

lemma esc_plain: "plain_char c \<Longrightarrow> esc c = [c]"
  by (auto simp: esc_def plain_char_def code_def)

definition esc_special :: "char \<Rightarrow> string" where
  "esc_special c = esc c"

lemma esc_code [code]: "esc c = (if plain_char c then [c] else esc_special c)"
  by (simp add: esc_plain esc_special_def)

lemmas [code] = esc_special_def [unfolded esc_def]

lemma is_ws_Char [code]:
  "is_ws (Char b0 b1 b2 b3 b4 b5 b6 b7) \<longleftrightarrow> \<not> b7 \<and> \<not> b6 \<and> \<not> b4 \<and>
     (if b5 then \<not> b3 \<and> \<not> b2 \<and> \<not> b1 \<and> \<not> b0 else b3 \<and> (if b2 then b0 \<and> \<not> b1 else b0 \<noteq> b1))"
  by (cases b0; cases b1; cases b2; cases b3; cases b4; cases b5; cases b6; cases b7;
      simp add: is_ws_def code_Char)

section \<open>Bytes\<close>

text \<open>
  UTF-8, for the code points the model has: one byte below 128, two bytes (C2 or C3 first) from 128
  to 255. Bytes that encode anything else are rejected here; \<open>json.loads\<close> on bytes would also take
  a byte order mark, UTF-16 and UTF-32, which the model rejects too.
\<close>

fun utf8_decode :: "string \<Rightarrow> string option" where
  "utf8_decode [] = Some []"
| "utf8_decode (c # s) =
     (if code c < 128 then map_option (Cons c) (utf8_decode s)
      else (case s of
         [] \<Rightarrow> None
       | d # r \<Rightarrow> if code c \<in> {194, 195} \<and> 128 \<le> code d \<and> code d < 192
                 then map_option (Cons (char_of (64 * (code c - 192) + (code d - 128)))) (utf8_decode r)
                 else None))"

definition ascii :: "string \<Rightarrow> bool" where
  "ascii s \<longleftrightarrow> list_all (\<lambda>c. code c < 128) s"

lemma utf8_decode_ascii: "ascii s \<Longrightarrow> utf8_decode s = Some s"
  by (induction s) (auto simp: ascii_def)

lemma ascii_append [simp]: "ascii (s @ t) \<longleftrightarrow> ascii s \<and> ascii t"
  by (simp add: ascii_def)

lemma ascii_Cons [simp]: "ascii (c # t) \<longleftrightarrow> code c < 128 \<and> ascii t"
  by (simp add: ascii_def)

lemma ascii_Nil [simp]: "ascii []"
  by (simp add: ascii_def)

lemma ascii_concat: "ascii (concat ss) \<longleftrightarrow> list_all ascii ss"
  by (induction ss) auto

lemma ascii_join: "ascii sep \<Longrightarrow> list_all ascii ss \<Longrightarrow> ascii (join sep ss)"
  by (induction sep ss rule: join.induct) auto

text \<open>\<open>ensure_ascii\<close>: the text of a value whose floats are spelled in ASCII is ASCII.\<close>

lemma code_hex_char_ascii: "code (hex_char d) < 128" if "d < 16"
  using that by (simp add: hex_char_def code_def of_char_of)

lemma code_consts: "code quote = 34" "code backslash = 92" "code CHR ''u'' = 117"
  "code CHR ''0'' = 48" "code CHR ''n'' = 110" "code CHR ''r'' = 114" "code CHR ''t'' = 116"
  "code CHR ''f'' = 102" "code CHR ''b'' = 98"
  by (simp_all add: code_def quote_def backslash_def)

lemma ascii_esc: "ascii (esc c)"
proof -
  have "code c < 256" by (simp add: code_def)
  then have "code (hex_char (code c div 16)) < 128" "code (hex_char (code c mod 16)) < 128"
    by (simp_all add: code_hex_char_ascii)
  then show ?thesis
    unfolding esc_def by (simp add: code_consts)
qed

lemma ascii_dump_str: "ascii (dump_str s)"
  by (auto simp: dump_str_def ascii_concat ascii_esc list_all_iff quote_def code_def)

lemma ascii_pad: "ascii (pad st l)"
  by (auto simp: pad_def newline_def code_def ascii_def list_all_iff split: option.splits)

lemma ascii_nat_str: "ascii (nat_str n)"
  using nat_str_digits [of n] by (auto simp: ascii_def list_all_iff is_digit_def)

lemma ascii_int_str: "ascii (int_str i)"
  by (auto simp: int_str_def ascii_nat_str) (simp add: code_def)

definition ascii_style :: "style \<Rightarrow> bool" where
  "ascii_style st \<longleftrightarrow> ascii (item_sep st) \<and> ascii (key_sep st)"

lemma ascii_styles [simp]: "ascii_style compact" "ascii_style plain" "ascii_style indented"
  by (auto simp: ascii_style_def compact_def plain_def indented_def code_def)

lemma ascii_dump:
  "(\<And>x. ascii (fr x)) \<Longrightarrow> ascii_style st \<Longrightarrow> ascii (dump fr st l v)"
proof (induction fr st l v rule: dump.induct)
  case (2 fr st l b)
  then show ?case by (simp add: code_def)
next
  case (6 fr st l xs)
  then have "list_all ascii (map (dump fr st (Suc l)) xs)" by (cases "xs = []") (auto simp: list_all_iff)
  then have "ascii (join (item_sep st @ pad st (Suc l)) (map (dump fr st (Suc l)) xs))"
    using 6 by (intro ascii_join) (auto simp: ascii_pad ascii_style_def)
  then show ?case by (simp add: ascii_pad code_def)
next
  case (7 fr st l d)
  then have "list_all ascii (map (\<lambda>p. dump_str (fst p) @ key_sep st @ dump fr st (Suc l) (snd p)) d)"
    by (cases "d = []") (auto simp: list_all_iff ascii_dump_str ascii_style_def)
  then have "ascii (join (item_sep st @ pad st (Suc l))
      (map (\<lambda>p. dump_str (fst p) @ key_sep st @ dump fr st (Suc l) (snd p)) d))"
    using 7 by (intro ascii_join) (auto simp: ascii_pad ascii_style_def)
  then show ?case by (simp add: ascii_pad code_def)
qed (simp_all add: ascii_int_str ascii_dump_str code_def)

text \<open>\<open>s.encode('utf-8')\<close> for the model's code points, with its decoding.\<close>

definition utf8_char :: "char \<Rightarrow> string" where
  "utf8_char c = (if code c < 128 then [c]
     else [char_of (192 + code c div 64), char_of (128 + code c mod 64)])"

definition utf8_encode :: "string \<Rightarrow> string" where
  "utf8_encode s = concat (map utf8_char s)"

lemma utf8_decode_encode [simp]: "utf8_decode (utf8_encode s) = Some s"
proof (induction s)
  case Nil
  then show ?case by (simp add: utf8_encode_def)
next
  case (Cons c s)
  show ?case
  proof (cases "code c < 128")
    case True
    with Cons show ?thesis by (simp add: utf8_encode_def utf8_char_def)
  next
    case False
    have "code c < 256" by (simp add: code_def)
    then have hi: "code c div 64 \<in> {2, 3}" using False by auto
    have lead: "code (char_of (192 + code c div 64)) = 192 + code c div 64"
      and cont: "code (char_of (128 + code c mod 64)) = 128 + code c mod 64"
      using hi by (auto simp: code_def of_char_of)
    have "64 * (code c div 64) + code c mod 64 = code c" by simp
    then have "char_of (64 * (code c div 64) + code c mod 64) = c" by (simp add: code_def)
    with Cons hi lead cont False show ?thesis
      by (auto simp: utf8_encode_def utf8_char_def)
  qed
qed

lemma utf8_encode_inj: "utf8_encode s = utf8_encode t \<Longrightarrow> s = t"
  by (metis utf8_decode_encode option.inject)

lemma utf8_encode_ascii: "ascii s \<Longrightarrow> utf8_encode s = s"
  by (induction s) (simp_all add: utf8_encode_def utf8_char_def)

section \<open>Integers\<close>

text \<open>\<open>int(s)\<close>: optional sign, digits with single underscores between them, white space around.\<close>

definition py_int :: "string \<Rightarrow> int option" where
  "py_int s =
     (case sign_part (strip s) of (neg, r0) \<Rightarrow>
       let r = (if neg then r0 else if startswith r0 ''+'' then tl r0 else r0) in
       if list_all isdecimal (split_on CHR ''_'' r)
       then Some ((if neg then -1 else 1) * int (nat_of_digits (concat (split_on CHR ''_'' r))))
       else None)"

definition nat_of_hex :: "string \<Rightarrow> nat" where
  "nat_of_hex s = foldl (\<lambda>n c. 16 * n + (if is_digit c then code c - 48 else code c - 87)) 0 s"

text \<open>\<open>int(s, 16)\<close>: sign and \<open>0x\<close> optional.\<close>

definition py_hex_int :: "string \<Rightarrow> int option" where
  "py_hex_int s =
     (case sign_part (py_lower (strip s)) of (neg, r0) \<Rightarrow>
       let r = (if \<not> neg \<and> startswith r0 ''+'' then drop 1 r0 else r0);
           h = (if startswith r ''0x_'' then drop 3 r else if startswith r ''0x'' then drop 2 r else r) in
       if list_all (\<lambda>f. f \<noteq> [] \<and> list_all is_hex f) (split_on CHR ''_'' h)
       then Some ((if neg then -1 else 1) * int (nat_of_hex (concat (split_on CHR ''_'' h))))
       else None)"

end
