(* ===== verification/JsonRoundtrip.thy ===== *)
theory JsonRoundtrip
  imports JsonText
begin

text \<open>
  The laws of the JSON text layer.

  \<open>raw_loads_dump\<close>: what the encoder writes, in any of the layouts of the sources, the decoder
  reads back as the same value, for values without floats. \<open>loads_dumps_sorted\<close>: with
  \<open>sort_keys=True\<close> the value read back equals the written one in Python's sense.
  \<open>raw_loads_fuel\<close>: the fuel of the decoder is enough for every text. \<open>wf_json_dedup_wf\<close>: a decoded
  value has distinct keys in every object.
\<close>

section \<open>Characters, escapes and numbers\<close>

lemma code_less [simp]: "code c < 256"
  by (simp add: code_def)

lemma code_eq_iff: "c = d \<longleftrightarrow> code c = code d"
  by (simp add: code_def)

lemma char_of_code [simp]: "char_of (code c) = c"
  by (simp add: code_def)

lemma code_hex_char: "d < 16 \<Longrightarrow> code (hex_char d) = (if d < 10 then 48 + d else 87 + d)"
  by (simp add: code_def hex_char_def of_char_of)

lemma hex_val_hex_char: "d < 16 \<Longrightarrow> hex_val (hex_char d) = Some d"
  by (simp add: hex_val_def code_hex_char Let_def)

lemma hex4_esc: "hex4 CHR ''0'' CHR ''0'' (hex_char (code c div 16)) (hex_char (code c mod 16)) = Some (code c)"
proof -
  have "code c div 16 < 16" using code_less [of c] by linarith
  moreover have "hex_val CHR ''0'' = Some 0" by (simp add: hex_val_def code_def)
  ultimately show ?thesis by (simp add: hex4_def hex_val_hex_char)
qed

lemma parse_str_esc: "parse_str (esc c @ t) = cons_fst c (parse_str t)"
proof (cases "c \<in> {quote, backslash, CHR 0x0A, CHR 0x0D, CHR 0x09, CHR 0x0C, CHR 0x08}")
  case True
  then show ?thesis
    by (auto simp: esc_def unesc_def quote_def backslash_def)
next
  case False
  then show ?thesis
    by (cases "32 \<le> code c \<and> code c \<le> 126") (auto simp: esc_def hex4_esc quote_def backslash_def)
qed

lemma parse_str_escs: "parse_str (concat (map esc s) @ quote # rest) = Some (s, rest)"
  by (induction s) (simp_all add: parse_str_esc cons_fst_def)

definition delim :: "string \<Rightarrow> bool" where
  "delim r \<longleftrightarrow> r = [] \<or> is_ws (hd r) \<or> hd r \<in> {CHR '','', CHR '']'', CHR ''}''}"

lemma delim_Cons [simp]: "delim (c # r) \<longleftrightarrow> is_ws c \<or> c \<in> {CHR '','', CHR '']'', CHR ''}''}"
  by (simp add: delim_def)

lemma delim_Nil [simp]: "delim []"
  by (simp add: delim_def)

lemma delim_heads:
  assumes "delim (c # r)"
  shows "\<not> is_digit c" "c \<noteq> CHR ''.''" "c \<noteq> CHR ''e''" "c \<noteq> CHR ''E''"
  using assms by (auto simp: is_ws_def is_digit_def code_def)

lemma nat_str_step: "\<not> n < 10 \<Longrightarrow> nat_str n = nat_str (n div 10) @ [digit_char (n mod 10)]"
  by (subst nat_str.simps) simp

lemma nat_str_small: "n < 10 \<Longrightarrow> nat_str n = [digit_char n]"
  by (subst nat_str.simps) simp

lemma length_nat_str: "n < 10 ^ Suc k \<Longrightarrow> length (nat_str n) \<le> Suc k"
proof (induction k arbitrary: n)
  case 0
  then show ?case by (simp add: nat_str_small)
next
  case (Suc k)
  show ?case
  proof (cases "n < 10")
    case True
    then show ?thesis by (simp add: nat_str_small)
  next
    case False
    have "n div 10 < 10 ^ Suc k" using Suc.prems by (simp add: less_mult_imp_div_less mult.commute)
    with Suc.IH [of "n div 10"] False show ?thesis by (simp add: nat_str_step)
  qed
qed

lemma hd_nat_str: "hd (nat_str n) = CHR ''0'' \<longleftrightarrow> n = 0"
proof (induction n rule: nat_str.induct)
  case (1 n)
  show ?case
  proof (cases "n < 10")
    case True
    have "code (CHR ''0'') = 48" by (simp add: code_def)
    with True show ?thesis by (simp add: nat_str_small code_eq_iff code_digit_char)
  next
    case False
    with 1 show ?thesis by (simp add: nat_str_step)
  qed
qed

lemma int_part_nat_str:
  assumes "delim r"
  shows "int_part (nat_str n @ r) = Some (nat_str n, r)"
proof (cases "n = 0")
  case True
  moreover have "code (CHR ''0'') = 48" by (simp add: code_def)
  ultimately have "nat_str n = [CHR ''0'']" by (simp add: nat_str_small code_eq_iff code_digit_char)
  then show ?thesis by (simp add: int_part_def)
next
  case False
  obtain c t where ct: "nat_str n = c # t" by (cases "nat_str n") auto
  with False hd_nat_str [of n] have "c \<noteq> CHR ''0''" by simp
  moreover have ds: "list_all is_digit (nat_str n)" by (rule nat_str_digits)
  moreover have "r = [] \<or> \<not> is_digit (hd r)"
    using assms delim_heads(1) by (cases r) auto
  ultimately show ?thesis
    using ct by (cases r) (auto simp: int_part_def list_all_iff takeWhile_append2 dropWhile_append2)
qed

lemma frac_part_delim: "delim r \<Longrightarrow> frac_part r = ([], r)"
  using delim_heads(2) by (cases r) (auto simp: frac_part_def)

lemma exp_part_delim: "delim r \<Longrightarrow> exp_part r = (None, r)"
  using delim_heads(3,4) by (cases r) (auto simp: exp_part_def)

lemma parse_number_int_str:
  assumes "delim r"
  shows "parse_number (int_str i @ r) = Some (JInt i, r)"
proof (cases "i < 0")
  case True
  then show ?thesis
    by (simp add: parse_number_def int_str_def sign_part_def int_part_nat_str [OF assms] frac_part_delim [OF assms]
        exp_part_delim [OF assms] number_value_def)
next
  case False
  obtain c t where ct: "nat_str (nat i) = c # t" by (cases "nat_str (nat i)") auto
  with nat_str_digits [of "nat i"] have "c \<noteq> CHR ''-''" by (auto simp: is_digit_def code_def)
  with ct have "sign_part (nat_str (nat i) @ r) = (False, nat_str (nat i) @ r)"
    by (simp add: sign_part_def)
  with False int_part_nat_str [OF assms, of "nat i"] show ?thesis
    by (simp add: parse_number_def int_str_def frac_part_delim [OF assms]
        exp_part_delim [OF assms] number_value_def)
qed

definition starts_number :: "string \<Rightarrow> bool" where
  "starts_number s \<longleftrightarrow> (\<exists>c t. s = c # t \<and> (c = CHR ''-'' \<or> is_digit c))"

lemma starts_number_int_str: "starts_number (int_str i)"
proof -
  obtain c t where "nat_str (nat i) = c # t" by (cases "nat_str (nat i)") auto
  with nat_str_digits [of "nat i"] show ?thesis by (auto simp: starts_number_def int_str_def)
qed

lemma parse_word_int_str:
  assumes "delim r"
  shows "parse_word (int_str i @ r) = Some (JInt i, r)"
proof -
  obtain c t where ct: "int_str i = c # t" "c = CHR ''-'' \<or> is_digit c"
    using starts_number_int_str [of i] by (auto simp: starts_number_def)
  then have "c \<noteq> CHR ''n''" "c \<noteq> CHR ''t''" "c \<noteq> CHR ''f''"
    by (auto simp: is_digit_def code_def)
  then show ?thesis
    using parse_number_int_str [OF assms, of i] ct(1) by (simp add: parse_word_def)
qed

section \<open>Values\<close>

definition style_ok :: "style \<Rightarrow> bool" where
  "style_ok st \<longleftrightarrow> (\<exists>w. item_sep st = CHR '','' # w \<and> list_all is_ws w)
      \<and> (\<exists>w. key_sep st = CHR '':'' # w \<and> list_all is_ws w)"

primrec no_float :: "json \<Rightarrow> bool" where
  "no_float JNull = True"
| "no_float (JBool b) = True"
| "no_float (JInt i) = True"
| "no_float (JFloat x) = False"
| "no_float (JStr s) = True"
| "no_float (JList xs) = list_all id (map no_float xs)"
| "no_float (JObj d) = list_all snd (map (map_prod id no_float) d)"

lemma style_ok_styles [simp]: "style_ok compact" "style_ok plain" "style_ok indented"
  by (auto simp: style_ok_def compact_def plain_def indented_def is_ws_def code_def)

lemma skip_ws: "list_all is_ws w \<Longrightarrow> skip (w @ s) = skip s"
  by (simp add: skip_def list_all_iff dropWhile_append2)

lemma skip_nonws: "s = [] \<or> \<not> is_ws (hd s) \<Longrightarrow> skip s = s"
  by (cases s) (auto simp: skip_def)

lemma pad_ws: "list_all is_ws (pad st l)"
  by (auto simp: pad_def newline_def is_ws_def code_def list_all_iff split: option.splits)

text \<open>What the induction keeps for one value: its text reads back, whatever delimiter follows.\<close>

definition reads_back :: "(json \<Rightarrow> string) \<Rightarrow> json \<Rightarrow> bool" where
  "reads_back D v \<longleftrightarrow> D v \<noteq> [] \<and> \<not> is_ws (hd (D v)) \<and> hd (D v) \<noteq> CHR '']'' \<and>
     (\<forall>n rest. delim rest \<longrightarrow> length (D v) \<le> n \<longrightarrow> pval n (D v @ rest) = Some (v, rest))"

lemma delim_pad: "delim (pad st l @ CHR '']'' # rest)" "delim (pad st l @ CHR ''}'' # rest)"
  by (cases "indent st"; simp add: pad_def newline_def is_ws_def code_def)+

lemma pelems_reads_back:
  assumes sep: "sep = CHR '','' # w" "list_all is_ws w"
    and ys: "ys \<noteq> []" "\<forall>y\<in>set ys. reads_back D y"
    and n: "length (join sep (map D ys)) < n"
  shows "pelems n (join sep (map D ys) @ pad st l @ CHR '']'' # rest) = Some (ys, rest)"
  using ys n
proof (induction ys arbitrary: n rule: induct_list012)
  case 1
  then show ?case by simp
next
  case (2 y)
  then obtain m where m: "n = Suc m" by (cases n) auto
  from 2 m have "pval m (D y @ pad st l @ CHR '']'' # rest) = Some (y, pad st l @ CHR '']'' # rest)"
    using delim_pad(1) [of st l rest] by (simp add: reads_back_def)
  then show ?case by (simp add: m skip_ws pad_ws skip_nonws is_ws_def code_def)
next
  case (3 y z zs)
  then obtain m where m: "n = Suc m" by (cases n) auto
  let ?r = "join sep (map D (z # zs)) @ pad st l @ CHR '']'' # rest"
  have rb: "reads_back D y" "reads_back D z" using 3 by auto
  have hd_r: "?r \<noteq> []" "\<not> is_ws (hd ?r)"
    using rb(2) by (cases zs; simp add: reads_back_def hd_append)+
  have "pval m (D y @ sep @ ?r) = Some (y, sep @ ?r)"
    using rb(1) 3 m sep by (simp add: reads_back_def)
  moreover have "skip (w @ ?r) = ?r" using sep hd_r by (simp add: skip_ws skip_nonws)
  moreover have "pelems m ?r = Some (z # zs, rest)"
    using 3 m sep rb(1) by (intro 3(2)) (auto simp: reads_back_def)
  ultimately show ?case
    using sep(1) by (simp add: m skip_nonws is_ws_def code_def cons_fst_def)
qed

definition member_text :: "style \<Rightarrow> (json \<Rightarrow> string) \<Rightarrow> string \<times> json \<Rightarrow> string" where
  "member_text st D p = dump_str (fst p) @ key_sep st @ D (snd p)"

lemma pmember_head:
  assumes st: "style_ok st" and rb: "reads_back D (snd p)"
    and n: "length (member_text st D p) \<le> n" and rest: "delim rest"
  shows "\<exists>r1 r2. member_text st D p @ rest = quote # r1 \<and> parse_str r1 = Some (fst p, r2) \<and>
     (\<exists>w. skip r2 = CHR '':'' # w \<and> pval n (skip w) = Some (snd p, rest))"
proof -
  obtain w where w: "key_sep st = CHR '':'' # w" "list_all is_ws w"
    using st by (auto simp: style_ok_def)
  let ?r1 = "concat (map esc (fst p)) @ quote # CHR '':'' # w @ D (snd p) @ rest"
  have "member_text st D p @ rest = quote # ?r1"
    by (simp add: member_text_def dump_str_def w)
  moreover have "skip (w @ D (snd p) @ rest) = D (snd p) @ rest"
    using rb w by (simp add: skip_ws skip_nonws reads_back_def)
  moreover have "pval n (D (snd p) @ rest) = Some (snd p, rest)"
    using rb n rest by (simp add: reads_back_def member_text_def)
  ultimately show ?thesis
    by (auto simp: parse_str_escs skip_nonws is_ws_def code_def)
qed

lemma pmembers_reads_back:
  assumes st: "style_ok st"
    and sep: "sep = CHR '','' # w" "list_all is_ws w"
    and ys: "ys \<noteq> []" "\<forall>y\<in>set ys. reads_back D (snd y)"
    and n: "length (join sep (map (member_text st D) ys)) < n"
  shows "pmembers n (join sep (map (member_text st D) ys) @ pad st l @ CHR ''}'' # rest) = Some (ys, rest)"
  using ys n
proof (induction ys arbitrary: n rule: induct_list012)
  case 1
  then show ?case by simp
next
  case (2 y)
  then obtain m where m: "n = Suc m" by (cases n) auto
  have "reads_back D (snd y)" "length (member_text st D y) \<le> m" using 2 m by auto
  from pmember_head [OF st this delim_pad(2) [of st l rest]]
  obtain r1 r2 v where r: "member_text st D y @ pad st l @ CHR ''}'' # rest = quote # r1"
    "parse_str r1 = Some (fst y, r2)" "skip r2 = CHR '':'' # v"
    "pval m (skip v) = Some (snd y, pad st l @ CHR ''}'' # rest)" by auto
  show ?case by (simp add: m r skip_ws pad_ws skip_nonws is_ws_def code_def)
next
  case (3 y z zs)
  then obtain m where m: "n = Suc m" by (cases n) auto
  let ?r = "join sep (map (member_text st D) (z # zs)) @ pad st l @ CHR ''}'' # rest"
  have hd_r: "?r \<noteq> []" "\<not> is_ws (hd ?r)"
    by (cases zs; simp add: member_text_def dump_str_def quote_def is_ws_def code_def)+
  have "reads_back D (snd y)" "length (member_text st D y) \<le> m" "delim (sep @ ?r)"
    using 3 m sep by auto
  from pmember_head [OF st this]
  obtain r1 r2 v where r: "member_text st D y @ sep @ ?r = quote # r1"
    "parse_str r1 = Some (fst y, r2)" "skip r2 = CHR '':'' # v"
    "pval m (skip v) = Some (snd y, sep @ ?r)" by auto
  have "skip (w @ ?r) = ?r" using sep hd_r by (simp add: skip_ws skip_nonws)
  moreover have "pmembers m ?r = Some (z # zs, rest)"
    using 3 m sep by (intro 3(2)) (auto simp: member_text_def dump_str_def)
  moreover have "join sep (map (member_text st D) (y # z # zs)) @ pad st l @ CHR ''}'' # rest = quote # r1"
    using r(1) by simp
  ultimately show ?case
    using sep(1) r by (simp del: join.simps add: m skip_nonws is_ws_def code_def cons_fst_def)
qed

lemma reads_back_word:
  assumes "D v = c # t" "\<not> is_ws c" "c \<notin> {quote, CHR ''{'', CHR ''['', CHR '']''}"
    and "\<And>rest. delim rest \<Longrightarrow> parse_word (D v @ rest) = Some (v, rest)"
  shows "reads_back D v"
proof -
  have "pval n (D v @ rest) = Some (v, rest)" if "delim rest" "length (D v) \<le> n" for n rest
  proof -
    from that assms(1) obtain m where "n = Suc m" by (cases n) auto
    with assms that show ?thesis by simp
  qed
  with assms(1-3) show ?thesis by (simp add: reads_back_def)
qed

lemma reads_back_int: "reads_back (dump fr st l) (JInt i)"
proof -
  obtain c t where ct: "int_str i = c # t" "c = CHR ''-'' \<or> is_digit c"
    using starts_number_int_str [of i] by (auto simp: starts_number_def)
  have "parse_word (c # t @ rest) = Some (JInt i, rest)" if "delim rest" for rest
    using parse_word_int_str [OF that, of i] ct(1) by simp
  with ct show ?thesis
    by (intro reads_back_word [of _ _ c t]) (auto simp: is_ws_def is_digit_def code_def quote_def)
qed

lemma reads_back_str: "reads_back (dump fr st l) (JStr s)"
proof -
  have "pval n (dump_str s @ rest) = Some (JStr s, rest)" if "length (dump_str s) \<le> n" for n rest
  proof -
    from that obtain m where "n = Suc m" by (cases n) (auto simp: dump_str_def)
    then show ?thesis by (simp add: dump_str_def parse_str_escs)
  qed
  then show ?thesis by (simp add: reads_back_def) (simp add: dump_str_def quote_def is_ws_def code_def)
qed

lemma reads_back_const:
  "reads_back (dump fr st l) JNull" "reads_back (dump fr st l) (JBool b)"
  by (cases b; auto intro!: reads_back_word simp: is_ws_def code_def quote_def parse_word_def)+

lemma dump_JObj_text:
  "d \<noteq> [] \<Longrightarrow> dump fr st l (JObj d) = ''{'' @ pad st (Suc l)
     @ join (item_sep st @ pad st (Suc l)) (map (member_text st (dump fr st (Suc l))) d)
     @ pad st l @ ''}''"
  by (simp add: member_text_def [abs_def])

lemma reads_back_list:
  assumes st: "style_ok st" and xs: "\<forall>x\<in>set xs. reads_back (dump fr st (Suc l)) x"
  shows "reads_back (dump fr st l) (JList xs)"
proof (cases "xs = []")
  case True
  then show ?thesis
    by (auto simp: reads_back_def is_ws_def code_def quote_def skip_def dest!: Suc_le_D)
next
  case False
  define D where "D = dump fr st (Suc l)"
  have xsD: "\<forall>x\<in>set xs. reads_back D x" using xs by (simp add: D_def)
  define sp where "sp = item_sep st @ pad st (Suc l)"
  define body where "body = join sp (map D xs)"
  have tx: "dump fr st l (JList xs) = CHR ''['' # pad st (Suc l) @ body @ pad st l @ '']''"
    using False by (simp add: body_def sp_def D_def)
  obtain w where w: "sp = CHR '','' # w" "list_all is_ws w"
    using st pad_ws by (auto simp: style_ok_def sp_def)
  obtain y ys where y: "xs = y # ys" using False by (cases xs) auto
  then have "reads_back D y" using xs by (simp add: D_def)
  then obtain c t where c: "body = c # t" "\<not> is_ws c" "c \<noteq> CHR '']''"
    using y by (cases "D y"; cases ys) (auto simp: body_def reads_back_def)
  have "pval n (dump fr st l (JList xs) @ rest) = Some (JList xs, rest)"
    if n: "length (dump fr st l (JList xs)) \<le> n" for n rest
  proof -
    from n obtain m where m: "n = Suc m" by (cases n) (auto simp: tx simp del: dump.simps)
    have "pelems m (body @ pad st l @ CHR '']'' # rest) = Some (xs, rest)"
      unfolding body_def
      using n m by (intro pelems_reads_back [OF w False]) (auto simp: xsD tx body_def [symmetric] simp del: dump.simps)
    then show ?thesis
      using c by (simp del: dump.simps add: m tx skip_ws pad_ws skip_nonws quote_def)
  qed
  then show ?thesis by (simp del: dump.simps add: reads_back_def tx is_ws_def code_def)
qed

lemma reads_back_obj:
  assumes st: "style_ok st" and xs: "\<forall>p\<in>set d. reads_back (dump fr st (Suc l)) (snd p)"
  shows "reads_back (dump fr st l) (JObj d)"
proof (cases "d = []")
  case True
  then show ?thesis
    by (auto simp: reads_back_def is_ws_def code_def quote_def skip_def dest!: Suc_le_D)
next
  case False
  define D where "D = dump fr st (Suc l)"
  have xsD: "\<forall>p\<in>set d. reads_back D (snd p)" using xs by (simp add: D_def)
  define sp where "sp = item_sep st @ pad st (Suc l)"
  define body where "body = join sp (map (member_text st D) d)"
  have tx: "dump fr st l (JObj d) = CHR ''{'' # pad st (Suc l) @ body @ pad st l @ ''}''"
    using dump_JObj_text [OF False] by (simp add: body_def sp_def D_def)
  obtain w where w: "sp = CHR '','' # w" "list_all is_ws w"
    using st pad_ws by (auto simp: style_ok_def sp_def)
  obtain y ys where y: "d = y # ys" using False by (cases d) auto
  then obtain t where c: "body = quote # t"
    by (cases ys) (auto simp: body_def member_text_def dump_str_def)
  have "pval n (dump fr st l (JObj d) @ rest) = Some (JObj d, rest)"
    if n: "length (dump fr st l (JObj d)) \<le> n" for n rest
  proof -
    from n obtain m where m: "n = Suc m" by (cases n) (auto simp: tx simp del: dump.simps)
    have "pmembers m (body @ pad st l @ CHR ''}'' # rest) = Some (d, rest)"
      unfolding body_def
      using n m by (intro pmembers_reads_back [OF st w False]) (auto simp: xsD tx body_def [symmetric] simp del: dump.simps)
    then show ?thesis
      using c by (simp del: dump.simps add: m tx skip_ws pad_ws skip_nonws quote_def is_ws_def code_def)
  qed
  then show ?thesis by (simp del: dump.simps add: reads_back_def tx is_ws_def code_def)
qed

lemma reads_back_dump:
  "style_ok st \<Longrightarrow> no_float v \<Longrightarrow> reads_back (dump fr st l) v"
proof (induction fr st l v rule: dump.induct)
  case (6 fr st l xs)
  then show ?case by (cases "xs = []") (auto intro!: reads_back_list simp: list_all_iff)
next
  case (7 fr st l d)
  then show ?case by (cases "d = []") (fastforce intro!: reads_back_obj simp: list_all_iff)+
qed (simp_all add: reads_back_int reads_back_str reads_back_const)

lemma raw_loads_dump_ws:
  assumes "style_ok st" "no_float v" "list_all is_ws w"
  shows "raw_loads (dump fr st 0 v @ w) = Some v"
proof -
  have d: "delim w" using assms(3) by (cases w) auto
  from reads_back_dump [OF assms(1,2), of fr 0]
  have rb: "dump fr st 0 v \<noteq> []" "\<not> is_ws (hd (dump fr st 0 v))"
    "pval (Suc (length (dump fr st 0 v @ w))) (dump fr st 0 v @ w) = Some (v, w)"
    unfolding reads_back_def using d by (simp_all del: dump.simps pval.simps)
  moreover have "skip w = []" using assms(3) by (simp add: skip_def list_all_iff)
  ultimately show ?thesis by (simp add: raw_loads_def skip_nonws del: dump.simps)
qed

theorem raw_loads_dump: "style_ok st \<Longrightarrow> no_float v \<Longrightarrow> raw_loads (dump fr st 0 v) = Some v"
  using raw_loads_dump_ws [of st v "[]"] by simp

section \<open>Objects as dictionaries, sorted keys\<close>

lemma dict_of_distinct: "distinct (map fst d) \<Longrightarrow> dict_of d = d"
proof -
  have "foldl (\<lambda>acc p. dict_set (fst p) (snd p) acc) acc d = acc @ d"
    if "distinct (map fst (acc @ d))" for acc :: "('a \<times> 'b) list" and d
    using that
  proof (induction d arbitrary: acc)
    case Nil
    then show ?case by simp
  next
    case (Cons p d)
    have "dict_set k v acc = acc @ [(k, v)]" if "k \<notin> fst ` set acc" for k v
      using that by (induction acc) auto
    with Cons show ?case by (cases p) force
  qed
  from this [of "[]" d] show "distinct (map fst d) \<Longrightarrow> dict_of d = d" by (simp add: dict_of_def)
qed

lemma distinct_dict_of: "distinct (map fst (dict_of d))"
proof -
  have "distinct (map fst (foldl (\<lambda>acc p. dict_set (fst p) (snd p) acc) acc d))"
    if "distinct (map fst acc)" for acc :: "('a \<times> 'b) list" and d
    using that by (induction d arbitrary: acc) auto
  then show ?thesis by (simp add: dict_of_def)
qed

lemma map_of_dict_of: "map_of (dict_of d) = map_of (rev d)"
proof -
  have "map_of (foldl (\<lambda>acc p. dict_set (fst p) (snd p) acc) acc d) = map_of acc ++ map_of (rev d)"
    for acc :: "('a \<times> 'b) list" and d
    by (induction d arbitrary: acc) (auto simp: map_add_def fun_eq_iff split: option.splits)
  from this [of "[]" d] show ?thesis by (simp add: dict_of_def)
qed

lemma wf_json_dedup: "wf_json v \<Longrightarrow> dedup v = v"
proof (induction v)
  case (JList xs)
  then show ?case by (auto simp: list_all_iff intro: map_idI)
next
  case (JObj d)
  have "map (map_prod id dedup) d = d"
    using JObj by (intro map_idI) (auto simp: list_all_iff; fastforce)
  with JObj show ?case by (simp add: dict_of_distinct)
qed simp_all

lemma set_dict_of: "set (dict_of d) \<subseteq> set d"
proof -
  have "set (dict_set k v e) \<subseteq> insert (k, v) (set e)" for k :: 'a and v :: 'b and e
    by (induction k v e rule: dict_set.induct) auto
  then have "set (foldl (\<lambda>acc p. dict_set (fst p) (snd p) acc) acc d) \<subseteq> set acc \<union> set d"
    for acc :: "('a \<times> 'b) list" and d
    by (induction d arbitrary: acc) (simp_all, fastforce)
  from this [of "[]" d] show ?thesis by (simp add: dict_of_def)
qed

lemma wf_json_dedup_wf: "wf_json (dedup v)"
proof (induction v)
  case (JObj d)
  have "snd p = dedup y" "y \<in> Basic_BNFs.snds q" "q \<in> set d \<Longrightarrow> wf_json (snd p)"
    if "p = map_prod id dedup q" "y = snd q" for p q y
    using that JObj by (auto simp: snds.simps)
  then show ?case
    using set_dict_of [of "map (map_prod id dedup) d"] JObj
    by (fastforce simp: distinct_dict_of list_all_iff)
qed (auto simp: list_all_iff)

lemma map_sort_key_fst:
  "(\<And>p. fst (g p) = fst p) \<Longrightarrow> map g (sort_key fst xs) = sort_key fst (map g xs)"
proof (induction xs)
  case Nil
  then show ?case by simp
next
  case (Cons x xs)
  have "map g (insort_key fst x ys) = insort_key fst (g x) (map g ys)" for ys
    by (induction ys) (simp_all add: Cons.prems)
  with Cons show ?case by simp
qed

lemma sort_key_sorted: "sorted (map f xs) \<Longrightarrow> sort_key f xs = xs"
  by (induction xs) (auto simp: insort_is_Cons)

lemma norm_sortk: "norm (sortk v) = norm v"
proof (induction v)
  case (JObj d)
  have "map (map_prod id norm) (map (map_prod id sortk) d) = map (map_prod id norm) d"
    using JObj by (auto simp: snds.simps) 
  then have "map (map_prod id norm) (sort_key fst (map (map_prod id sortk) d))
      = sort_key fst (map (map_prod id norm) d)"
    by (simp add: map_sort_key_fst del: map_map)
  then show ?case by (simp add: sort_key_sorted)
qed auto

lemma no_float_has_nan: "no_float v \<Longrightarrow> \<not> has_nan v"
  by (induction v) (fastforce simp: list_all_iff list_ex_iff)+

lemma no_float_sortk: "no_float (sortk v) \<longleftrightarrow> no_float v"
  by (induction v) (auto simp: list_all_iff snds.simps)

lemma distinct_sort_key_fst: "distinct (map fst (sort_key fst xs)) \<longleftrightarrow> distinct (map fst xs)"
  by (simp add: distinct_map distinct_sort)

lemma wf_json_sortk: "wf_json (sortk v) \<longleftrightarrow> wf_json v"
proof (induction v)
  case (JObj d)
  have "map fst (map (map_prod id sortk) d) = map fst d" by simp
  then have "distinct (map fst (sort_key fst (map (map_prod id sortk) d))) \<longleftrightarrow> distinct (map fst d)"
    by (simp only: distinct_sort_key_fst)
  with JObj show ?case by (auto simp: list_all_iff snds.simps)
qed (auto simp: list_all_iff)

theorem loads_dumps_sorted:
  assumes "style_ok st" "no_float v" "wf_json v"
  shows "\<exists>w. loads (dumps_sorted fr st v) = Some w \<and> pyeq w v"
  using assms no_float_has_nan [of v] no_float_has_nan [of "sortk v"]
  by (simp add: loads_def dumps_sorted_def raw_loads_dump no_float_sortk wf_json_dedup wf_json_sortk
      pyeq_def norm_sortk)

section \<open>The fuel of the decoder is enough\<close>

lemma length_skip: "length (skip s) \<le> length s"
  by (simp add: skip_def length_dropWhile_le)

lemma cons_fst_Some: "cons_fst x m = Some (t, r) \<longleftrightarrow> (\<exists>t'. m = Some (t', r) \<and> t = x # t')"
  by (auto simp: cons_fst_def)

lemma parse_str_shorter: "parse_str s = Some (t, r) \<Longrightarrow> length r < length s"
proof (induction s arbitrary: t rule: measure_induct_rule [of length])
  case (less s)
  have IH: "length r < length s'" if "length s' < length s" "parse_str s' = Some (t', r)" for s' t'
    using less.IH that by blast
  show ?case
  proof (cases s)
    case Nil
    with less.prems show ?thesis by simp
  next
    case (Cons c u)
    with less.prems show ?thesis
      by (auto split: if_splits list.splits option.splits simp: cons_fst_Some dest!: IH [rotated])
  qed
qed

lemma parse_number_shorter: "parse_number s = Some (v, r) \<Longrightarrow> length r < length s"
proof -
  assume p: "parse_number s = Some (v, r)"
  have i: "length y < length x" if "int_part x = Some (d, y)" for x d y
    using that length_dropWhile_le [of is_digit "tl x"]
    by (auto simp: int_part_def split: list.splits if_splits)
  have f: "length y \<le> length x" if "frac_part x = (d, y)" for x d y
    using that length_dropWhile_le [of is_digit "tl x"]
    by (auto simp: frac_part_def split: list.splits if_splits)
  have sg: "length y \<le> length x" if "exp_sign x = (b, y)" for x b y
    using that by (auto simp: exp_sign_def split: list.splits if_splits)
  have e: "length y \<le> length x" if "exp_part x = (d, y)" for x d y
    using that sg length_dropWhile_le [of is_digit "snd (exp_sign (tl x))"]
    by (fastforce simp: exp_part_def split: list.splits if_splits prod.splits)
  have s: "length y \<le> length x" if "sign_part x = (b, y)" for x b y
    using that by (auto simp: sign_part_def split: list.splits if_splits)
  from p show ?thesis
    by (auto simp: parse_number_def split: prod.splits option.splits dest!: i f e s)
qed

lemma parse_word_shorter: "parse_word s = Some (v, r) \<Longrightarrow> length r < length s"
  by (auto simp: parse_word_def startswith_iff dest: parse_number_shorter split: if_splits option.splits)

text \<open>
  Every text that some amount of fuel decodes is decoded, to the same value, by as much fuel as the
  decoder consumed characters: the fuel \<open>raw_loads\<close> starts with is never the reason for a failure.
\<close>

definition fuel_ok :: "(nat \<Rightarrow> string \<Rightarrow> ('a \<times> string) option) \<Rightarrow> string \<Rightarrow> 'a \<Rightarrow> string \<Rightarrow> bool" where
  "fuel_ok p s v r \<longleftrightarrow> length r < length s \<and> (\<forall>n. length s - length r \<le> n \<longrightarrow> p n s = Some (v, r))"

lemma fuel_okI:
  "length r < length s \<Longrightarrow> (\<And>n. length s - length r \<le> Suc n \<Longrightarrow> p (Suc n) s = Some (v, r)) \<Longrightarrow> fuel_ok p s v r"
  unfolding fuel_ok_def by (metis Suc_le_D Suc_leI zero_less_diff)

lemma fuel_okD: "fuel_ok p s v r \<Longrightarrow> length s - length r \<le> n \<Longrightarrow> p n s = Some (v, r)"
  by (simp add: fuel_ok_def)

lemma fuel_ok_shorter: "fuel_ok p s v r \<Longrightarrow> length r < length s"
  by (simp add: fuel_ok_def)

lemma pval_fuel_step:
  assumes IH_m: "\<And>s ps r. pmembers m s = Some (ps, r) \<Longrightarrow> fuel_ok pmembers s ps r"
    and IH_e: "\<And>s vs r. pelems m s = Some (vs, r) \<Longrightarrow> fuel_ok pelems s vs r"
    and p: "pval (Suc m) s = Some (v, r)"
  shows "fuel_ok pval s v r"
proof -
  obtain c u where s: "s = c # u" using p by (cases s) auto
  have sk: "length (skip u) \<le> length u" by (rule length_skip)
  consider (str) "c = quote" | (obj) "c = CHR ''{''" "c \<noteq> quote" | (arr) "c = CHR ''[''" "c \<noteq> quote"
    | (word) "c \<noteq> quote" "c \<noteq> CHR ''{''" "c \<noteq> CHR ''[''" by blast
  then show ?thesis
  proof cases
    case str
    with p s show ?thesis by (intro fuel_okI) (auto dest: parse_str_shorter)
  next
    case obj
    with p s obtain d w where d: "skip u = d # w" by (auto split: list.splits)
    show ?thesis
    proof (cases "d = CHR ''}''")
      case True
      with p s obj d sk show ?thesis by (intro fuel_okI) auto
    next
      case False
      with p s obj d obtain ps where ps: "pmembers m (d # w) = Some (ps, r)" "v = JObj ps" by auto
      from IH_m [OF ps(1)] fuel_ok_shorter [OF IH_m [OF ps(1)]] fuel_okD [OF IH_m [OF ps(1)]] show ?thesis
        using s obj d sk False ps(2) by (intro fuel_okI) auto
    qed
  next
    case arr
    with p s obtain d w where d: "skip u = d # w" by (auto split: list.splits)
    show ?thesis
    proof (cases "d = CHR '']''")
      case True
      with p s arr d sk show ?thesis by (intro fuel_okI) auto
    next
      case False
      with p s arr d obtain vs where vs: "pelems m (d # w) = Some (vs, r)" "v = JList vs" by auto
      from fuel_ok_shorter [OF IH_e [OF vs(1)]] fuel_okD [OF IH_e [OF vs(1)]] show ?thesis
        using s arr d sk False vs(2) by (intro fuel_okI) auto
    qed
  next
    case word
    with p s show ?thesis by (intro fuel_okI) (auto dest: parse_word_shorter)
  qed
qed

lemma pelems_fuel_step:
  assumes IH_v: "\<And>s v r. pval m s = Some (v, r) \<Longrightarrow> fuel_ok pval s v r"
    and IH_e: "\<And>s vs r. pelems m s = Some (vs, r) \<Longrightarrow> fuel_ok pelems s vs r"
    and p: "pelems (Suc m) s = Some (vs, r)"
  shows "fuel_ok pelems s vs r"
proof -
  obtain v r1 where v: "pval m s = Some (v, r1)" using p by (auto split: option.splits)
  obtain c r2 where c: "skip r1 = c # r2" using p v by (auto split: list.splits)
  note f = fuel_ok_shorter [OF IH_v [OF v]] fuel_okD [OF IH_v [OF v]]
  have len: "length r2 < length r1" using length_skip [of r1] c by simp
  show ?thesis
  proof (cases "c = CHR '']''")
    case True
    with p v c f len show ?thesis by (intro fuel_okI) auto
  next
    case False
    with p v c obtain ws where ws: "c = CHR '',''" "pelems m (skip r2) = Some (ws, r)" "vs = v # ws"
      by (auto simp: cons_fst_Some split: if_splits)
    note g = fuel_ok_shorter [OF IH_e [OF ws(2)]] fuel_okD [OF IH_e [OF ws(2)]]
    have "length (skip r2) \<le> length r2" by (rule length_skip)
    with v c f g len ws show ?thesis by (intro fuel_okI) (auto simp: cons_fst_def)
  qed
qed

lemma pmembers_fuel_step:
  assumes IH_v: "\<And>s v r. pval m s = Some (v, r) \<Longrightarrow> fuel_ok pval s v r"
    and IH_m: "\<And>s ps r. pmembers m s = Some (ps, r) \<Longrightarrow> fuel_ok pmembers s ps r"
    and p: "pmembers (Suc m) s = Some (ps, r)"
  shows "fuel_ok pmembers s ps r"
proof -
  obtain u where s: "s = quote # u" using p by (auto split: list.splits if_splits)
  obtain k r1 where k: "parse_str u = Some (k, r1)" using p s by (auto split: option.splits)
  obtain r2 where r2: "skip r1 = CHR '':'' # r2" using p s k by (auto split: list.splits if_splits)
  obtain v r3 where v: "pval m (skip r2) = Some (v, r3)"
    using p s k r2 by (auto split: option.splits)
  obtain e r4 where e: "skip r3 = e # r4" using p s k r2 v by (auto split: list.splits)
  note f = fuel_ok_shorter [OF IH_v [OF v]] fuel_okD [OF IH_v [OF v]]
  have len: "length r1 < length u" "length r2 < length r1" "length (skip r2) \<le> length r2"
    "length r4 < length r3"
    using parse_str_shorter [OF k] length_skip [of r1] length_skip [of r2] length_skip [of r3] r2 e by auto
  show ?thesis
  proof (cases "e = CHR ''}''")
    case True
    with p s k r2 v e f len show ?thesis by (intro fuel_okI) auto
  next
    case False
    with p s k r2 v e obtain qs where qs: "e = CHR '',''" "pmembers m (skip r4) = Some (qs, r)"
      "ps = (k, v) # qs" by (auto simp: cons_fst_Some split: if_splits)
    note g = fuel_ok_shorter [OF IH_m [OF qs(2)]] fuel_okD [OF IH_m [OF qs(2)]]
    have "length (skip r4) \<le> length r4" by (rule length_skip)
    with s k r2 v e f g len qs show ?thesis by (intro fuel_okI) (auto simp: cons_fst_def)
  qed
qed

lemma fuel_ok_all:
  "(\<forall>s v r. pval m s = Some (v, r) \<longrightarrow> fuel_ok pval s v r) \<and>
   (\<forall>s vs r. pelems m s = Some (vs, r) \<longrightarrow> fuel_ok pelems s vs r) \<and>
   (\<forall>s ps r. pmembers m s = Some (ps, r) \<longrightarrow> fuel_ok pmembers s ps r)"
proof (induction m)
  case 0
  show ?case by simp
next
  case (Suc m)
  then show ?case
    using pval_fuel_step [of m] pelems_fuel_step [of m] pmembers_fuel_step [of m] by meson
qed

theorem raw_loads_fuel:
  assumes "pval m (skip s) = Some (v, r)"
  shows "raw_loads s = (if skip r = [] then Some v else None)"
proof -
  from assms fuel_ok_all [of m] have "fuel_ok pval (skip s) v r" by blast
  then have "pval (Suc (length s)) (skip s) = Some (v, r)"
    by (rule fuel_okD) (use length_skip [of s] in linarith)
  then show ?thesis by (simp add: raw_loads_def)
qed

section \<open>Equal objects\<close>

lemma map_of_sort_key_fst: "distinct (map fst d) \<Longrightarrow> map_of (sort_key fst d) = map_of d"
  by (rule map_of_inject_set [THEN iffD2]) (simp_all add: distinct_sort_key_fst)

lemma map_of_map_prod_id: "map_of (map (map_prod id f) d) k = map_option f (map_of d k)"
  by (induction d) auto

lemma pyeq_map_of:
  assumes "pyeq (JObj d) (JObj e)" "distinct (map fst d)" "distinct (map fst e)"
    and x: "map_of d k = Some x"
  shows "\<exists>y. map_of e k = Some y \<and> pyeq x y"
proof -
  from assms(1) have "sort_key fst (map (map_prod id norm) d) = sort_key fst (map (map_prod id norm) e)"
    by (simp add: pyeq_def)
  then have "map_of (sort_key fst (map (map_prod id norm) d)) k = map_of (sort_key fst (map (map_prod id norm) e)) k"
    by simp
  moreover have "distinct (map fst (map (map_prod id norm) d))" "distinct (map fst (map (map_prod id norm) e))"
    using assms(2,3) by simp_all
  ultimately have "map_option norm (map_of d k) = map_option norm (map_of e k)"
    by (simp only: map_of_sort_key_fst map_of_map_prod_id)
  with x obtain y where y: "map_of e k = Some y" "norm y = norm x"
    by (cases "map_of e k") auto
  moreover have "\<not> has_nan x" "\<not> has_nan y"
    using assms(1) map_of_SomeD [OF x] map_of_SomeD [OF y(1)]
    by (auto simp: pyeq_def list_ex_iff)
  ultimately show ?thesis by (simp add: pyeq_def)
qed

lemma pyeq_index:
  assumes "pyeq v w" "wf_json v" "wf_json w" "index v k = Inr x" "is_dict w"
  shows "\<exists>y. index w k = Inr y \<and> pyeq x y"
  using assms pyeq_map_of by (fastforce simp: index_eq_Inr is_dict_iff)

lemma wf_json_index: "wf_json v \<Longrightarrow> index v k = Inr x \<Longrightarrow> wf_json x"
  by (fastforce simp: index_eq_Inr list_all_iff dest!: map_of_SomeD)

lemma truthy_norm: "truthy (norm v) = truthy v"
proof (cases v)
  case (JFloat x)
  then show ?thesis by (auto simp: norm_float_def split: pyfloat.splits)
next
  case (JObj d)
  have "sort_key fst (map (map_prod id norm) d) = [] \<longleftrightarrow> d = []"
    by (metis length_0_conv length_map length_sort)
  with JObj show ?thesis by simp
qed simp_all

lemma pyeq_truthy: "pyeq v w \<Longrightarrow> truthy v = truthy w"
  by (metis pyeq_def truthy_norm)

lemma pyeq_sortk: "\<not> has_nan v \<Longrightarrow> \<not> has_nan (sortk v) \<Longrightarrow> pyeq (sortk v) v"
  by (simp add: pyeq_def norm_sortk)

end
