(* ===== verification/Files.thy ===== *)
theory Files
  imports JsonRoundtrip "HOL-Library.Word"
begin

text \<open>
  Files as the modelled scripts see them.

  \<open>node\<close> is what \<open>lstat\<close> says of a path (plus the bytes of a regular file); a \<open>tree\<close> gives the
  node of each path below a root directory. \<open>meta\<close> is the part of a \<open>stat\<close> result the
  permission checks read: kind, owner, the twelve mode bits, link count, device and inode, and the names
  of the extended attributes, which may be unlistable. An \<open>fsnode\<close> is a directory entry with all that is
  below it, as \<open>os.walk\<close> finds it.
  \<open>host\<close> collects the computations the scripts leave to C code or to a file format that is not
  under \<^verbatim>\<open>src/\<close>: SHA-256, the decimal spelling of a float and the reading of a tar archive. It is
  an argument of every definition that uses one of them, so the theorems hold for all of them.
\<close>

section \<open>Nodes and trees\<close>

datatype node = RegFile string | Directory | Symlink string | SpecialFile

type_synonym tree = "string \<Rightarrow> node option"

datatype tar_kind = TarFile | TarDir | TarOther

record tar_member =
  tm_name :: string
  tm_kind :: tar_kind
  tm_data :: string

record host =
  sha256 :: "string \<Rightarrow> string"
  float_repr :: "pyfloat \<Rightarrow> string"
  untar :: "string \<Rightarrow> tar_member list result"

text \<open>\<open>Path.read_bytes()\<close> and \<open>Path.read_text()\<close>.\<close>

definition file_bytes :: "tree \<Rightarrow> string \<Rightarrow> string result" where
  "file_bytes t path = (case t path of Some (RegFile b) \<Rightarrow> Inr b | _ \<Rightarrow> Inl (OSError path))"

definition read_text :: "tree \<Rightarrow> string \<Rightarrow> string result" where
  "read_text t path = rbind (file_bytes t path) (\<lambda>b. case utf8_decode b of
       None \<Rightarrow> Inl (ValueError ''invalid UTF-8'') | Some s \<Rightarrow> Inr (universal_newlines s))"

section \<open>Permission bits\<close>

datatype kind = KReg | KDir | KLink | KSock | KOther

record meta =
  m_kind :: kind
  m_uid :: nat
  m_gid :: nat
  m_mode :: "12 word"
  m_nlink :: nat
  m_dev :: nat
  m_ino :: nat
  m_xattrs :: "string list result"

unbundle bit_operations_syntax

text \<open>\<open>st_mode & 0o022\<close>: writable by the group or by others.\<close>

definition go_writable :: "meta \<Rightarrow> bool" where
  "go_writable m \<longleftrightarrow> m_mode m AND 18 \<noteq> 0"

text \<open>The check most helpers repeat: a root-owned regular file nobody else can write.\<close>

definition root_regular :: "meta \<Rightarrow> bool" where
  "root_regular m \<longleftrightarrow> m_kind m = KReg \<and> m_uid m = 0 \<and> \<not> go_writable m"

lemma bit_18: "bit (18 :: 12 word) n \<longleftrightarrow> n = 1 \<or> n = 4"
proof -
  have "(18 :: 12 word) = push_bit 1 1 OR push_bit 4 1" by simp
  then show ?thesis by (simp only: bit_or_iff bit_push_bit_iff) (auto simp: bit_1_iff)
qed

lemma go_writable_bits: "go_writable m \<longleftrightarrow> bit (m_mode m) 4 \<or> bit (m_mode m) 1"
proof -
  have "(m_mode m AND 18 = 0) \<longleftrightarrow> (\<forall>n. \<not> (bit (m_mode m) n \<and> bit (18 :: 12 word) n))"
    using bit_imp_le_length [of "m_mode m"] by (auto simp: bit_eq_iff bit_and_iff)
  then show ?thesis by (auto simp only: go_writable_def bit_18)
qed

section \<open>Directory trees\<close>

text \<open>
  A directory entry with everything below it. \<open>f_isdir\<close> is \<open>DirEntry.is_dir()\<close>: a directory or a
  link to one. The listing is absent where \<open>scandir\<close> fails.
\<close>

datatype fsnode = FsNode (f_meta: meta) (f_isdir: bool) (f_data: string) (f_kids: "(string \<times> fsnode) list option")

lemma size_kid [termination_simp]: "(n, c) \<in> set ks \<Longrightarrow> size c < Suc (size_list (size_prod (\<lambda>_. 0) size) ks)"
proof (induction ks)
  case (Cons k ks)
  then show ?case by (cases k) auto
qed simp

text \<open>\<open>os.path.join\<close> with a relative name.\<close>

definition path_join :: "string \<Rightarrow> string \<Rightarrow> string" where
  "path_join base n = (if base = [] \<or> endswith base ''/'' then base @ n else base @ ''/'' @ n)"

text \<open>The names of a listing in order, directories and the rest apart.\<close>

definition subdirs_of :: "(string \<times> fsnode) list \<Rightarrow> (string \<times> fsnode) list" where
  "subdirs_of ks = sort_key fst (filter (\<lambda>nc. f_isdir (snd nc)) ks)"

definition files_of :: "(string \<times> fsnode) list \<Rightarrow> (string \<times> fsnode) list" where
  "files_of ks = sort_key fst (filter (\<lambda>nc. \<not> f_isdir (snd nc)) ks)"

lemma set_subdirs_of [simp]: "set (subdirs_of ks) = {nc \<in> set ks. f_isdir (snd nc)}"
  by (auto simp: subdirs_of_def)

lemma set_files_of [simp]: "set (files_of ks) = {nc \<in> set ks. \<not> f_isdir (snd nc)}"
  by (auto simp: files_of_def)

text \<open>The entry of a name, a directory with one more entry, and a directory that was just made by its owner.\<close>

definition kid :: "string \<Rightarrow> fsnode \<Rightarrow> fsnode option" where
  "kid n t = (case f_kids t of None \<Rightarrow> None | Some ks \<Rightarrow> map_of ks n)"

definition add_kid :: "string \<Rightarrow> fsnode \<Rightarrow> fsnode \<Rightarrow> fsnode" where
  "add_kid n c t = FsNode (f_meta t) (f_isdir t) (f_data t) (map_option (\<lambda>ks. ks @ [(n, c)]) (f_kids t))"

definition new_dir :: "meta \<Rightarrow> fsnode" where
  "new_dir m = FsNode (m\<lparr>m_kind := KDir, m_mode := 493, m_xattrs := Inr []\<rparr>) True [] (Some [])"

lemma kid_add_kid: "f_kids t \<noteq> None \<Longrightarrow> kid k (add_kid n c t) = (if kid k t = None \<and> k = n then Some c else kid k t)"
  by (auto simp: kid_def add_kid_def map_add_def split: option.splits)

text \<open>The parts of a path, as \<open>Path\<close> has them.\<close>

definition components :: "string \<Rightarrow> string list" where
  "components p = filter (\<lambda>c. c \<noteq> [] \<and> c \<noteq> ''.'') (split_on CHR ''/'' p)"

text \<open>A path is looked up through directories and the targets of links.\<close>

fun node_at :: "string list \<Rightarrow> fsnode \<Rightarrow> fsnode option" where
  "node_at [] t = Some t"
| "node_at (c # cs) t = (case kid c t of None \<Rightarrow> None | Some k \<Rightarrow> node_at cs k)"

end
