(* ===== verification/Publication.thy ===== *)
theory Publication
  imports Files
begin

text \<open>
  \<^verbatim>\<open>ci/r13-publication.py\<close>: the read-only gates in front of an r13 publication.

  The control checkout and the source checkout are \<open>tree\<close>s, the candidate's data directory is the
  list of its entries (\<open>dir\<close>, in the order \<open>iterdir\<close> yields them), the environment is a map. Git's
  output, SHA-256, the tar reader and the spelling of floats are arguments (\<open>host\<close>). A \<open>require\<close>
  that fails is \<open>Inl (ValueError m)\<close>; the reads that Python makes on the way (\<open>v[k]\<close> and the rest)
  fail with Python's own exceptions, so every branch of the source is a branch here.
\<close>

section \<open>Constants\<close>

definition REPOSITORY :: string where
  "REPOSITORY = ''bearyjd/bazzite-tower''"

definition CANDIDATE_REPOSITORY :: string where
  "CANDIDATE_REPOSITORY = ''ghcr.io/bearyjd/bazzite-tower-r13-candidate''"

definition CANDIDATE_REF :: string where
  "CANDIDATE_REF = ''refs/heads/ci/r13-candidate-hold-promotion''"

definition CANDIDATE_WORKFLOW :: string where
  "CANDIDATE_WORKFLOW = ''.github/workflows/r13-candidate.yml''"

definition FILES :: "string list" where
  "FILES = [''image.oci.tar'', ''candidate.json'', ''sbom.json'', ''build-provenance.json'',
     ''bridge-manifest.json'', ''daemon-manifest.json'', ''cosign.pub'', ''policy.json'',
     ''bazzite-tower.yaml'']"

type_synonym dir = "(string \<times> node) list"

abbreviation refuse :: "string \<Rightarrow> pyexc" where
  "refuse \<equiv> ValueError"

section \<open>JSON in and out\<close>

definition canonical :: "host \<Rightarrow> json \<Rightarrow> string" where
  "canonical h value = dumps_sorted (float_repr h) compact value @ [newline]"

text \<open>The \<open>object_pairs_hook\<close>: a second value for a key is refused.\<close>

definition pairs :: "(string \<times> 'a) list \<Rightarrow> (string \<times> 'a) list result" where
  "pairs items = rfold (\<lambda>(key, value) result.
     require (key \<notin> fst ` set result) (refuse ''duplicate JSON field'')
       (Inr (dict_set key value result))) items []"

text \<open>The hook on every object of a decoded text.\<close>

fun hooked :: "json \<Rightarrow> json result" where
  "hooked (JList xs) = rbind (rmap hooked xs) (\<lambda>ys. Inr (JList ys))"
| "hooked (JObj d) =
     rbind (rmap (\<lambda>p. rbind (hooked (snd p)) (\<lambda>v. Inr (fst p, v))) d)
       (\<lambda>d'. rbind (pairs d') (\<lambda>r. Inr (JObj r)))"
| "hooked v = Inr v"

definition decode :: "string \<Rightarrow> json result" where
  "decode data =
     require (length data \<le> 16 * 1024 * 1024) (refuse ''oversized JSON'')
       (case utf8_decode data of
          None \<Rightarrow> Inl (refuse ''invalid JSON'')
        | Some s \<Rightarrow> (case raw_loads s of
            None \<Rightarrow> Inl (refuse ''invalid JSON'')
          | Some v \<Rightarrow> hooked v))"

text \<open>\<open>hex_value\<close> and \<open>digest\<close> return the string they accept.\<close>

definition hex_value :: "json \<Rightarrow> nat \<Rightarrow> string result" where
  "hex_value value sz = (case value of
       JStr s \<Rightarrow> require (length s = sz \<and> list_all is_hex s) (refuse ''invalid hash'') (Inr s)
     | _ \<Rightarrow> Inl (refuse ''invalid hash''))"

definition digest :: "json \<Rightarrow> string result" where
  "digest value = (case value of
       JStr s \<Rightarrow> require (startswith s ''sha256:'') (refuse ''invalid image digest'')
                   (rbind (hex_value (JStr (drop 7 s)) 64) (\<lambda>_. Inr s))
     | _ \<Rightarrow> Inl (refuse ''invalid image digest''))"

section \<open>Files\<close>

definition read :: "tree \<Rightarrow> string \<Rightarrow> nat \<Rightarrow> string result" where
  "read t path limit = (case t path of
       Some (RegFile b) \<Rightarrow> require (length b \<le> limit) (refuse (''invalid data file: '' @ path)) (Inr b)
     | _ \<Rightarrow> Inl (refuse (''invalid data file: '' @ path)))"

definition file_sha :: "host \<Rightarrow> tree \<Rightarrow> string \<Rightarrow> string result" where
  "file_sha h t path = (case t path of
       Some (RegFile b) \<Rightarrow> Inr (sha256 h b)
     | _ \<Rightarrow> Inl (refuse ''invalid artifact file''))"

definition data_limit :: nat where
  "data_limit = 16 * 1024 * 1024"

section \<open>Reviewed authority\<close>

definition hashed_json :: "host \<Rightarrow> tree \<Rightarrow> string \<Rightarrow> json \<Rightarrow> json result" where
  "hashed_json h ctl category value =
     rbind (hex_value value 64) (\<lambda>s.
     rbind (read ctl (''.github/r13/'' @ category @ ''/'' @ s @ ''.json'') data_limit) (\<lambda>data.
     require (sha256 h data = s) (refuse ''trusted receipt/packet hash mismatch'')
     (rbind (decode data) (\<lambda>result.
     require (data = canonical h result) (refuse ''noncanonical trusted packet/receipt'')
     (Inr result)))))"

definition reviewer_char :: "char \<Rightarrow> bool" where
  "reviewer_char c \<longleftrightarrow> is_alnum c \<or> c \<in> set ''_.:/-''"

definition reviewer_ok :: "json \<Rightarrow> bool" where
  "reviewer_ok v = (case v of
       JStr s \<Rightarrow> 1 \<le> length s \<and> length s \<le> 160 \<and> list_all reviewer_char s | _ \<Rightarrow> False)"

definition receipt :: "host \<Rightarrow> tree \<Rightarrow> json \<Rightarrow> string \<Rightarrow> string \<Rightarrow> json \<Rightarrow> json result" where
  "receipt h ctl value kind packet_hash identities =
     rbind (hashed_json h ctl ''receipts'' value) (\<lambda>r.
     demand (set_is r [''schemaVersion'', ''kind'', ''packetSha256'', ''identities'', ''reviewer'',
                       ''evidenceSha256'', ''verdict'']) (refuse ''invalid receipt fields'')
     (demand (all_of [index_is r ''schemaVersion'' (JInt 1), index_is r ''kind'' (JStr kind),
                      index_is r ''verdict'' (JStr ''PASS'')]) (refuse ''receipt refused'')
     (demand (all_of [index_is r ''packetSha256'' (JStr packet_hash),
                      index_is r ''identities'' identities])
        (refuse ''stale or substituted receipt'')
     (rbind (index r ''reviewer'') (\<lambda>reviewer.
     require (reviewer_ok reviewer) (refuse ''missing trusted reviewer'')
     (rbind (index r ''evidenceSha256'') (\<lambda>e.
     rbind (hex_value e 64) (\<lambda>_. Inr r))))))))"

definition authority :: "tree \<Rightarrow> json result" where
  "authority ctl =
     rbind (read ctl ''.github/r13/authority.json'' data_limit) (\<lambda>data.
     rbind (decode data) (\<lambda>value.
     demand (set_is value [''schemaVersion'', ''candidate'', ''accepted''])
       (refuse ''invalid authority fields'')
     (demand (index_is value ''schemaVersion'' (JInt 1)) (refuse ''invalid authority version'')
     (Inr value))))"

definition identity :: "json \<Rightarrow> unit result" where
  "identity value =
     demand (set_is value [''towerCommit'', ''towerTree'', ''sourceCommit'', ''sourceTree'',
        ''submoduleCommit'', ''bridgePinsSha256'', ''daemonPinsSha256'', ''workflowSha256''])
       (refuse ''invalid source identity fields'')
     (rbind (rall (\<lambda>key. rbind (index value key) (\<lambda>x. rbind (hex_value x 40) (\<lambda>_. Inr ())))
        [''towerCommit'', ''towerTree'', ''sourceCommit'', ''sourceTree'', ''submoduleCommit'']) (\<lambda>_.
     rall (\<lambda>key. rbind (index value key) (\<lambda>x. rbind (hex_value x 64) (\<lambda>_. Inr ())))
        [''bridgePinsSha256'', ''daemonPinsSha256'', ''workflowSha256'']))"

definition candidate_approval :: "host \<Rightarrow> tree \<Rightarrow> string \<Rightarrow> json result" where
  "candidate_approval h ctl head =
     rbind (hex_value (JStr head) 40) (\<lambda>_.
     rbind (authority ctl) (\<lambda>a.
     rbind (index a ''candidate'') (\<lambda>approved.
     demand (if is_dict approved then set_is approved [''identities'', ''reviewReceiptSha256'']
             else Inr False)
       (refuse ''candidate HOLD: no reviewed authority'')
     (rbind (index approved ''identities'') (\<lambda>ids.
     rbind (identity ids) (\<lambda>_.
     demand (index_is ids ''towerCommit'' (JStr head)) (refuse ''unreviewed candidate head'')
     (rbind (index approved ''reviewReceiptSha256'') (\<lambda>rs.
     rbind (receipt h ctl rs ''independent-workflow-review'' (sha256 h (canonical h ids)) ids) (\<lambda>_.
     Inr ids)))))))))"

text \<open>The environment's \<open>get\<close> is the map itself; an unset variable equals no string.\<close>

definition context_ok :: "(string \<Rightarrow> string option) \<Rightarrow> string \<Rightarrow> string \<Rightarrow> string \<Rightarrow> string \<Rightarrow> unit result" where
  "context_ok env head ref workflow control_head =
     rbind (hex_value (JStr control_head) 40) (\<lambda>_.
     rbind (hex_value (JStr head) 40) (\<lambda>_.
     require (env ''GITHUB_REPOSITORY'' = Some REPOSITORY) (refuse ''wrong repository'')
     (require (env ''GITHUB_EVENT_NAME'' \<in> {Some ''push'', Some ''workflow_dispatch''})
        (refuse ''reviewed candidate push/manual dispatch required'')
     (require (env ''GITHUB_SHA'' = Some head) (refuse ''unreviewed workflow head'')
     (require (ref = CANDIDATE_REF \<and>
               workflow = REPOSITORY @ ''/'' @ CANDIDATE_WORKFLOW @ ''@'' @ CANDIDATE_REF)
        (refuse ''wrong workflow/ref'')
     (require (env ''GITHUB_RUN_ATTEMPT'' = Some ''1'') (refuse ''rerun needs fresh review/identity'')
     (Inr ())))))))"

text \<open>
  Git is a program outside the repository: \<open>git args\<close> is the standard output of \<open>git -C ctl args\<close>,
  or the exception of a failed call.
\<close>

definition verify_source :: "host \<Rightarrow> (string list \<Rightarrow> string result) \<Rightarrow> tree \<Rightarrow> json \<Rightarrow> unit result" where
  "verify_source h git ctl ids =
     (let out = (\<lambda>args. rbind (git args) (\<lambda>t. Inr (strip t)));
          same = (\<lambda>t k. index_is ids k (JStr t)) in
      demand (all_of [rbind (out [''rev-parse'', ''HEAD'']) (\<lambda>t. same t ''towerCommit''),
                      rbind (out [''rev-parse'', ''HEAD^{tree}'']) (\<lambda>t. same t ''towerTree'')])
        (refuse ''tower source mismatch'')
      (demand (rbind (out [''status'', ''--porcelain'', ''--untracked-files=all'']) (\<lambda>t. Inr (t = [])))
        (refuse ''dirty tower source'')
      (demand (rbind (file_sha h ctl CANDIDATE_WORKFLOW) (\<lambda>s. same s ''workflowSha256''))
        (refuse ''workflow bytes changed'')
      (rbind (read ctl ''build_files/firewall/snitchwatch-system-pins.json'' data_limit) (\<lambda>data.
      rbind (decode data) (\<lambda>pins.
      rbind (rall (\<lambda>key. demand (rbind (index pins key) (\<lambda>p. rbind (index ids key) (\<lambda>i. Inr (pyeq p i))))
                (refuse ''source pin mismatch'') (Inr ()))
              [''sourceCommit'', ''sourceTree'', ''submoduleCommit'']) (\<lambda>_.
      rall (\<lambda>kind. demand
               (rbind (file_sha h ctl (''build_files/firewall/snitchwatch-system-''
                          @ (if kind = ''daemon'' then ''daemon-'' else []) @ ''pins.json''))
                  (\<lambda>s. same s (kind @ ''PinsSha256'')))
               (refuse ''pins hash mismatch'') (Inr ()))
        [''bridge'', ''daemon''])))))))"

section \<open>The OCI archive\<close>

definition blob_name :: "string \<Rightarrow> bool" where
  "blob_name name \<longleftrightarrow> startswith name ''blobs/sha256/'' \<and>
     length (drop 13 name) = 64 \<and> list_all is_hex (drop 13 name)"

definition allowed_entry :: "string \<Rightarrow> bool" where
  "allowed_entry name \<longleftrightarrow>
     name \<in> {''index.json'', ''oci-layout'', ''blobs'', ''blobs/sha256''} \<or> blob_name name"

type_synonym members = "(string \<times> tar_member) list"

text \<open>One turn of the loop over the archive's headers.\<close>

definition oci_entry :: "tar_member \<Rightarrow> members \<Rightarrow> members result" where
  "oci_entry member mem =
     (let name = removeprefix (tm_name member) ''./'' in
      if name \<in> {[], ''.''} then
        require (tm_kind member = TarDir) (refuse ''unsafe OCI root entry'') (Inr mem)
      else
        require (name \<notin> fst ` set mem \<and> \<not> startswith name ''/'' \<and> ''..'' \<notin> set (split_on CHR ''/'' name))
          (refuse ''unsafe/duplicate OCI entry'')
        (require (tm_kind member = TarDir \<or> tm_kind member = TarFile) (refuse ''OCI link/special entry'')
        (require (allowed_entry name) (refuse ''unexpected OCI entry'')
        (require (length (dict_set name member mem) \<le> 10000) (refuse ''oversized OCI inventory'')
        (Inr (dict_set name member mem))))))"

text \<open>The bytes of a member that is a file; the decoded metadata blob (at most 16 MiB).\<close>

definition file_member :: "members \<Rightarrow> string \<Rightarrow> string option" where
  "file_member mem name = (case map_of mem name of
       Some m \<Rightarrow> if tm_kind m = TarFile then Some (tm_data m) else None | None \<Rightarrow> None)"

text \<open>\<open>'sha256:' + sha(data)\<close>\<close>

definition digest_of :: "host \<Rightarrow> string \<Rightarrow> string" where
  "digest_of h data = ''sha256:'' @ sha256 h data"

definition blob :: "host \<Rightarrow> members \<Rightarrow> string \<Rightarrow> string option \<Rightarrow> json result" where
  "blob h mem name expected = (case file_member mem name of
       None \<Rightarrow> Inl (refuse ''invalid OCI metadata'')
     | Some data \<Rightarrow>
         require (length data \<le> data_limit) (refuse ''invalid OCI metadata'')
         (require (case expected of None \<Rightarrow> True | Some e \<Rightarrow> digest_of h data = e)
            (refuse ''OCI metadata hash mismatch'')
         (decode data)))"

definition blob_path :: "string \<Rightarrow> string" where
  "blob_path d = ''blobs/sha256/'' @ drop 7 d"

definition layer_check :: "host \<Rightarrow> members \<Rightarrow> json \<Rightarrow> unit result" where
  "layer_check h mem item =
     rbind (index item ''digest'') (\<lambda>d.
     rbind (digest d) (\<lambda>value.
     (case file_member mem (blob_path value) of
        None \<Rightarrow> Inl (refuse ''missing OCI blob'')
      | Some data \<Rightarrow>
          demand (index_is item ''size'' (JInt (int (length data)))) (refuse ''missing OCI blob'')
          (require (digest_of h data = value) (refuse ''OCI blob hash mismatch'')
          (Inr ())))))"

definition image_record :: "string \<Rightarrow> json" where
  "image_record selected = JObj [(''manifestDigest'', JStr selected), (''indexDigest'', JNull),
     (''platformDigest'', JStr selected), (''platform'', JStr ''linux/amd64'')]"

text \<open>The layout and the index: the digest of the one image.\<close>

definition oci_selected :: "host \<Rightarrow> members \<Rightarrow> string result" where
  "oci_selected h mem =
     rbind (blob h mem ''oci-layout'' None) (\<lambda>layout.
     require (pyeq layout (JObj [(''imageLayoutVersion'', JStr ''1.0.0'')])) (refuse ''invalid OCI layout'')
     (rbind (blob h mem ''index.json'' None) (\<lambda>idx.
     demand (all_of [get_is idx ''schemaVersion'' (JInt 2),
                     rbind (get_or idx ''manifests'' (JList [])) (\<lambda>m. rbind (py_len m) (\<lambda>n. Inr (n = 1)))])
       (refuse ''one immutable image required'')
     (rbind (index idx ''manifests'') (\<lambda>ms.
     rbind (item0 ms) (\<lambda>descriptor.
     rbind (index descriptor ''digest'') (\<lambda>d.
     rbind (digest d) (\<lambda>selected.
     (case map_of mem (blob_path selected) of
        None \<Rightarrow> Inl (KeyError (blob_path selected))
      | Some m \<Rightarrow>
          demand (index_is descriptor ''size'' (JInt (int (length (tm_data m)))))
            (refuse ''OCI descriptor size mismatch'') (Inr selected))))))))))"

definition image_identity :: "host \<Rightarrow> string \<Rightarrow> json result" where
  "image_identity h archive =
     rbind (untar h archive) (\<lambda>headers.
     rbind (rfold oci_entry headers []) (\<lambda>mem.
     rbind (oci_selected h mem) (\<lambda>selected.
     rbind (blob h mem (blob_path selected) (Some selected)) (\<lambda>manifest.
     demand (rbind (get manifest ''mediaType'') (\<lambda>t. in_strs t
               [''application/vnd.oci.image.manifest.v1+json'',
                ''application/vnd.docker.distribution.manifest.v2+json'']))
       (refuse ''multi-platform index HOLD'')
     (rbind (index2 manifest ''config'' ''digest'') (\<lambda>cd.
     rbind (digest cd) (\<lambda>config_digest.
     rbind (blob h mem (blob_path config_digest) (Some config_digest)) (\<lambda>config.
     demand (all_of [get_is config ''architecture'' (JStr ''amd64''), get_is config ''os'' (JStr ''linux'')])
       (refuse ''wrong platform'')
     (rbind (index manifest ''config'') (\<lambda>c.
     rbind (index manifest ''layers'') (\<lambda>ls.
     rbind (as_list ls) (\<lambda>layers.
     rbind (rall (layer_check h mem) (c # layers)) (\<lambda>_.
     Inr (image_record selected))))))))))))))"

section \<open>The candidate artifact\<close>

definition entry_limit :: "string \<Rightarrow> nat" where
  "entry_limit name = (if name = ''image.oci.tar'' then 40 * 1024 ^ 3 else 16 * 1024 ^ 2)"

text \<open>The message of a wrong inventory, with at most twenty shortened names.\<close>

definition inventory_message :: "host \<Rightarrow> string list \<Rightarrow> string" where
  "inventory_message h actual =
     (let missing = sort (filter (\<lambda>f. f \<notin> set actual) FILES);
          extra = sort (filter (\<lambda>a. a \<notin> set FILES) actual) in
      ''unexpected artifact inventory: '' @ dump (float_repr h) plain 0
        (JObj [(''missing'', JList (map JStr missing)),
               (''extra'', JList (map (\<lambda>n. JStr (take 120 n)) (take 20 extra))),
               (''extraCount'', JInt (int (length extra)))]))"

definition inventory :: "host \<Rightarrow> dir \<Rightarrow> unit result" where
  "inventory h data =
     require (set (map fst data) = set FILES) (refuse (inventory_message h (map fst data)))
       (rall (\<lambda>(name, n). (case n of
            RegFile b \<Rightarrow> require (length b \<le> entry_limit name) (refuse ''invalid/oversized artifact'') (Inr ())
          | _ \<Rightarrow> Inl (refuse ''invalid/oversized artifact''))) data)"

definition policy_sources :: "(string \<times> string) list" where
  "policy_sources =
     [(''cosign.pub'', ''cosign.pub''),
      (''policy.json'', ''system_files/usr/share/bazzite-tower/containers/policy.json''),
      (''bazzite-tower.yaml'',
       ''system_files/usr/share/bazzite-tower/containers/registries.d/bazzite-tower.yaml'')]"

definition candidate_files :: "string list" where
  "candidate_files = filter (\<lambda>f. f \<noteq> ''candidate.json'') FILES"

definition file_hash_check :: "host \<Rightarrow> tree \<Rightarrow> string \<times> json \<Rightarrow> unit result" where
  "file_hash_check h data p =
     rbind (hex_value (snd p) 64) (\<lambda>e.
     rbind (file_sha h data (fst p)) (\<lambda>s.
     require (s = e) (refuse (''artifact hash mismatch: '' @ fst p)) (Inr ())))"

text \<open>\<open>candidate.json\<close> against the reviewed identities, the image and the files beside it.\<close>

definition candidate_metadata :: "host \<Rightarrow> tree \<Rightarrow> json \<Rightarrow> int \<Rightarrow> json \<Rightarrow> unit result" where
  "candidate_metadata h data ids run_id candidate =
     demand (set_is candidate [''schemaVersion'', ''repository'', ''ref'', ''workflow'', ''runId'',
        ''runAttempt'', ''identities'', ''image'', ''files'']) (refuse ''invalid candidate metadata'')
     (demand (all_of [index_is candidate ''schemaVersion'' (JInt 1),
                      index_is candidate ''repository'' (JStr CANDIDATE_REPOSITORY),
                      index_is candidate ''ref'' (JStr CANDIDATE_REF),
                      index_is candidate ''workflow'' (JStr CANDIDATE_WORKFLOW)])
        (refuse ''candidate target/ref substitution'')
     (demand (all_of [index_is candidate ''runId'' (JInt run_id),
                      index_is candidate ''runAttempt'' (JInt 1),
                      index_is candidate ''identities'' ids])
        (refuse ''candidate CI/source identity mismatch'')
     (rbind (index candidate ''image'') (\<lambda>image.
     rbind (case data ''image.oci.tar'' of Some (RegFile b) \<Rightarrow> image_identity h b | _ \<Rightarrow> Inl (OSError [])) (\<lambda>actual.
     require (pyeq image actual) (refuse ''candidate manifest/index/platform substitution'')
     (rbind (index candidate ''files'') (\<lambda>files.
     demand (set_is files candidate_files) (refuse ''invalid candidate file hashes'')
     (rbind (dict_items files) (\<lambda>fs.
     rall (file_hash_check h data) fs)))))))))"

definition policy_check :: "host \<Rightarrow> tree \<Rightarrow> tree \<Rightarrow> unit result" where
  "policy_check h ctl data =
     rall (\<lambda>(name, source).
       rbind (file_sha h data name) (\<lambda>a.
       rbind (file_sha h ctl source) (\<lambda>b.
       require (a = b) (refuse ''trust policy/key substitution'') (Inr ())))) policy_sources"

text \<open>The bridge's and the daemon's build manifests.\<close>

definition manifests_check :: "tree \<Rightarrow> json \<Rightarrow> unit result" where
  "manifests_check data ids =
     rbind (rbind (read data ''bridge-manifest.json'' data_limit) decode) (\<lambda>bridge.
     rbind (rbind (read data ''daemon-manifest.json'' data_limit) decode) (\<lambda>daemon.
     demand (rbind (index bridge ''profile'') (\<lambda>bp. rbind (index daemon ''profile'') (\<lambda>dp.
               Inr (pyeq bp dp \<and> pyeq dp (JStr ''system'')))))
       (refuse ''wrong installed profile'')
     (demand (rbind (index bridge ''source'') (\<lambda>src. rbind (index ids ''sourceCommit'') (\<lambda>c.
               rbind (index ids ''sourceTree'') (\<lambda>t. rbind (index ids ''submoduleCommit'') (\<lambda>m.
               Inr (pyeq src (JObj [(''commit'', c), (''tree'', t), (''submoduleCommit'', m)])))))))
       (refuse ''bridge source mismatch'')
     (demand (all_of [rbind (index bridge ''binary'') (\<lambda>b. index_is b ''path'' (JStr ''/usr/bin/snitchwatch-bridge-cli'')),
                      rbind (index daemon ''binary'') (\<lambda>b. index_is b ''path'' (JStr ''/usr/bin/opensnitchd''))])
       (refuse ''installed binary path substitution'')
     (demand (rbind (index2 daemon ''source'' ''commit'') (\<lambda>c. rbind (index ids ''submoduleCommit'') (\<lambda>m.
               Inr (pyeq c m))))
       (refuse ''daemon/submodule mismatch'')
     (rbind (index2 bridge ''binary'' ''sha256'') (\<lambda>b. rbind (hex_value b 64) (\<lambda>_.
     rbind (index2 daemon ''binary'' ''sha256'') (\<lambda>d. rbind (hex_value d 64) (\<lambda>_.
     Inr ()))))))))))"

definition provenance_check :: "tree \<Rightarrow> json \<Rightarrow> int \<Rightarrow> json \<Rightarrow> unit result" where
  "provenance_check data ids run_id candidate =
     rbind (rbind (read data ''sbom.json'' data_limit) decode) (\<lambda>sbom.
     demand (all_of [get_is sbom ''spdxVersion'' (JStr ''SPDX-2.3''),
                     rbind (get sbom ''packages'') (\<lambda>p. Inr (truthy p))])
       (refuse ''invalid RPM inventory'')
     (rbind (rbind (read data ''build-provenance.json'' data_limit) decode) (\<lambda>provenance.
     rbind (index candidate ''image'') (\<lambda>image.
     rbind (index2 candidate ''files'' ''sbom.json'') (\<lambda>s.
     rbind (index2 candidate ''files'' ''bridge-manifest.json'') (\<lambda>b.
     rbind (index2 candidate ''files'' ''daemon-manifest.json'') (\<lambda>d.
     require (pyeq provenance (JObj
         [(''schemaVersion'', JInt 1), (''kind'', JStr ''candidate-build''),
          (''repository'', JStr REPOSITORY), (''workflow'', JStr CANDIDATE_WORKFLOW),
          (''ref'', JStr CANDIDATE_REF), (''runId'', JInt run_id), (''runAttempt'', JInt 1),
          (''identities'', ids), (''image'', image), (''sbomSha256'', s),
          (''bridgeManifestSha256'', b), (''daemonManifestSha256'', d)]))
       (refuse ''build provenance substitution'')
     (Inr ()))))))))"

definition validate_candidate :: "host \<Rightarrow> tree \<Rightarrow> dir \<Rightarrow> string \<Rightarrow> int \<Rightarrow> json result" where
  "validate_candidate h ctl data head run_id =
     rbind (candidate_approval h ctl head) (\<lambda>ids.
     rbind (inventory h data) (\<lambda>_.
     rbind (rbind (read (map_of data) ''candidate.json'' data_limit) decode) (\<lambda>candidate.
     rbind (candidate_metadata h (map_of data) ids run_id candidate) (\<lambda>_.
     rbind (policy_check h ctl (map_of data)) (\<lambda>_.
     rbind (manifests_check (map_of data) ids) (\<lambda>_.
     rbind (provenance_check (map_of data) ids run_id candidate) (\<lambda>_.
     Inr candidate)))))))"

section \<open>Outputs of the job\<close>

definition output_name :: "string \<Rightarrow> bool" where
  "output_name k \<longleftrightarrow> k \<noteq> [] \<and> (is_lower (hd k) \<or> hd k = CHR ''_'') \<and>
     list_all (\<lambda>c. is_lower c \<or> is_digit c \<or> c = CHR ''_'') (tl k)"

definition output_text :: "host \<Rightarrow> json \<Rightarrow> string" where
  "output_text h value = (case value of JStr s \<Rightarrow> s | _ \<Rightarrow> dumps_sorted (float_repr h) compact value)"

text \<open>What was appended to the file before the loop ended, and how it ended.\<close>

fun output_lines :: "host \<Rightarrow> (string \<times> json) list \<Rightarrow> string \<times> unit result" where
  "output_lines h [] = ([], Inr ())"
| "output_lines h ((key, value) # values) =
     (if \<not> output_name key then ([], Inl (refuse ''invalid output name''))
      else let t = output_text h value in
        if newline \<in> set t \<or> CHR 0x0D \<in> set t then ([], Inl (refuse ''output injection''))
        else (case output_lines h values of (rest, r) \<Rightarrow> (key @ ''='' @ t @ [newline] @ rest, r)))"

section \<open>The program\<close>

datatype mode = Approval | Source | Candidate

definition env_or_empty :: "(string \<Rightarrow> string option) \<Rightarrow> string \<Rightarrow> string" where
  "env_or_empty env k = (case env k of None \<Rightarrow> [] | Some v \<Rightarrow> v)"

definition dir_hashes :: "host \<Rightarrow> dir \<Rightarrow> json result" where
  "dir_hashes h data =
     rbind (rmap (\<lambda>(name, _). rbind (file_sha h (map_of data) name) (\<lambda>s. Inr (name, JStr s))) data)
       (\<lambda>ps. Inr (JObj ps))"

definition main :: "host \<Rightarrow> (string list \<Rightarrow> string result) \<Rightarrow> (string \<Rightarrow> string option) \<Rightarrow> mode \<Rightarrow>
    tree \<Rightarrow> dir \<Rightarrow> tree \<Rightarrow> string \<times> unit result" where
  "main h git env m control data source =
     (let head = env_or_empty env ''R13_CANDIDATE_HEAD'' in
      case context_ok env head (env_or_empty env ''GITHUB_REF'') (env_or_empty env ''GITHUB_WORKFLOW_REF'')
             (env_or_empty env ''R13_CONTROL_HEAD'') of
        Inl e \<Rightarrow> ([], Inl e)
      | Inr _ \<Rightarrow>
        (case m of
           Approval \<Rightarrow> ([], rbind (candidate_approval h control head) (\<lambda>_. Inr ()))
         | Source \<Rightarrow> ([], rbind (candidate_approval h control head) (verify_source h git source))
         | Candidate \<Rightarrow>
             (case env ''GITHUB_RUN_ID'' of
                None \<Rightarrow> ([], Inl (KeyError ''GITHUB_RUN_ID''))
              | Some rid \<Rightarrow>
                (case py_int rid of
                   None \<Rightarrow> ([], Inl (refuse ''invalid literal for int()''))
                 | Some n \<Rightarrow>
                   (case rbind (validate_candidate h control data head n) (\<lambda>c.
                          rbind (index2 c ''image'' ''manifestDigest'') (\<lambda>d.
                          rbind (dir_hashes h data) (\<lambda>hs.
                          Inr [(''digest'', d), (''hashes'', hs), (''head'', JStr head),
                               (''run_id'', JStr rid)]))) of
                      Inl e \<Rightarrow> ([], Inl e)
                    | Inr values \<Rightarrow> output_lines h values)))))"

section \<open>Strict decoding\<close>

lemma pairs_eq_Inr: "pairs d = Inr r \<longleftrightarrow> distinct (map fst d) \<and> r = d"
proof -
  have "rfold (\<lambda>(key, value) result.
     require (key \<notin> fst ` set result) (refuse ''duplicate JSON field'')
       (Inr (dict_set key value result))) d acc = Inr r \<longleftrightarrow> distinct (map fst (acc @ d)) \<and> r = acc @ d"
    if "distinct (map fst acc)" for acc :: "(string \<times> 'a) list"
    using that
  proof (induction d arbitrary: acc)
    case Nil
    then show ?case by auto
  next
    case (Cons p d)
    have new: "dict_set k v acc = acc @ [(k, v)]" if "k \<notin> fst ` set acc" for k and v :: 'a
      using that by (induction acc) auto
    show ?case
    proof (cases "fst p \<in> fst ` set acc")
      case True
      then show ?thesis by (cases p) auto
    next
      case False
      with Cons.prems Cons.IH [of "acc @ [p]"] new [of "fst p" "snd p"] show ?thesis
        by (cases p) auto
    qed
  qed
  from this [of "[]"] show ?thesis by (simp add: pairs_def)
qed

lemma hooked_eq_Inr: "hooked v = Inr w \<longleftrightarrow> wf_json v \<and> w = v"
proof (induction v arbitrary: w rule: hooked.induct)
  case (1 xs)
  then have "list_all2 (\<lambda>x y. hooked x = Inr y) xs ys \<longleftrightarrow> list_all2 (\<lambda>x y. wf_json x \<and> y = x) xs ys" for ys
    by (intro list.rel_cong_simp) (auto simp: simp_implies_def)
  moreover have "list_all2 (\<lambda>x y. wf_json x \<and> y = x) xs ys \<longleftrightarrow> list_all wf_json xs \<and> ys = xs" for ys
    by (auto simp: list_all2_conv_all_nth list_all_length intro: nth_equalityI)
  ultimately show ?case by (auto simp: res_simps list.pred_map comp_def)
next
  case (2 d)
  let ?f = "\<lambda>p. rbind (hooked (snd p)) (\<lambda>v. Inr (fst p, v))"
  have f: "?f p = Inr q \<longleftrightarrow> wf_json (snd p) \<and> q = p" if "p \<in> set d" for p q
    using 2 [OF that] by (cases p) (auto simp: res_simps)
  have "list_all2 (\<lambda>p q. ?f p = Inr q) d ys \<longleftrightarrow> list_all2 (\<lambda>p q. wf_json (snd p) \<and> q = p) d ys" for ys
    using f by (intro list.rel_cong_simp) (auto simp: simp_implies_def)
  moreover have "list_all2 (\<lambda>p q. wf_json (snd p) \<and> q = p) d ys \<longleftrightarrow> list_all (\<lambda>p. wf_json (snd p)) d \<and> ys = d" for ys
    by (auto simp: list_all2_conv_all_nth list_all_length intro: nth_equalityI)
  ultimately show ?case
    by (auto simp: res_simps pairs_eq_Inr list.pred_map comp_def)
qed auto

lemma decode_eq_Inr:
  "decode data = Inr v \<longleftrightarrow> length data \<le> 16 * 1024 * 1024 \<and>
     (\<exists>s. utf8_decode data = Some s \<and> raw_loads s = Some v \<and> wf_json v)"
  by (auto simp: decode_def res_simps hooked_eq_Inr split: option.splits)

lemma dump_no_float: "no_float v \<Longrightarrow> dump fr st l v = dump fr' st l v"
proof (induction fr st l v rule: dump.induct)
  case (6 fr st l xs)
  then have "map (dump fr st (Suc l)) xs = map (dump fr' st (Suc l)) xs"
    by (cases "xs = []") (auto simp: list_all_iff)
  then show ?case by (simp del: map_eq_conv)
next
  case (7 fr st l d)
  then have "map (\<lambda>p. dump_str (fst p) @ key_sep st @ dump fr st (Suc l) (snd p)) d =
      map (\<lambda>p. dump_str (fst p) @ key_sep st @ dump fr' st (Suc l) (snd p)) d"
    by (cases "d = []") (auto simp: list_all_iff)
  then show ?case by (simp del: map_eq_conv)
qed simp_all

lemma ascii_canonical: "no_float v \<Longrightarrow> ascii (canonical h v)"
proof -
  assume "no_float v"
  then have "dump (float_repr h) compact 0 (sortk v) = dump (\<lambda>_. []) compact 0 (sortk v)"
    by (intro dump_no_float) (simp add: no_float_sortk)
  then show ?thesis
    by (simp add: canonical_def dumps_sorted_def ascii_dump newline_def code_def del: dump.simps)
qed

lemma raw_loads_canonical: "no_float v \<Longrightarrow> raw_loads (canonical h v) = Some (sortk v)"
  unfolding canonical_def dumps_sorted_def
  by (rule raw_loads_dump_ws) (simp_all add: no_float_sortk newline_def is_ws_def code_def)

lemma decode_canonical_value:
  assumes "no_float v" "wf_json v" "length (canonical h v) \<le> 16 * 1024 * 1024"
  shows "decode (canonical h v) = Inr (sortk v)"
  using assms
  by (simp add: decode_eq_Inr utf8_decode_ascii ascii_canonical raw_loads_canonical wf_json_sortk)

lemma sortk_sortk [simp]: "sortk (sortk v) = sortk v"
proof (induction v)
  case (JObj d)
  have *: "map (map_prod id sortk) (map (map_prod id sortk) d) = map (map_prod id sortk) d"
    using JObj by (auto simp: snds.simps)
  have "map (map_prod id sortk) (sort_key fst (map (map_prod id sortk) d))
      = sort_key fst (map (map_prod id sortk) d)"
    by (subst map_sort_key_fst) (simp_all only: *, simp)
  then show ?case by (simp add: sort_key_sorted)
qed simp_all

text \<open>A canonical text determines its value up to \<open>==\<close>; two values with one text are equal.\<close>

lemma canonical_inj:
  assumes "no_float v" "no_float w" "canonical h v = canonical h' w"
  shows "pyeq v w"
proof -
  from assms have "sortk v = sortk w"
    using raw_loads_canonical [of v h] raw_loads_canonical [of w h'] by simp
  then have "norm v = norm w" by (metis norm_sortk)
  with assms show ?thesis by (simp add: pyeq_def no_float_has_nan)
qed

section \<open>What the gates establish\<close>

lemma hex_value_eq_Inr [res_simps]:
  "hex_value v n = Inr s \<longleftrightarrow> v = JStr s \<and> length s = n \<and> list_all is_hex s"
  by (auto simp: hex_value_def res_simps split: json.splits)

definition image_digest :: "string \<Rightarrow> bool" where
  "image_digest s \<longleftrightarrow> startswith s ''sha256:'' \<and> length s = 71 \<and> list_all is_hex (drop 7 s)"

lemma startswith_length: "startswith s p \<Longrightarrow> length p \<le> length s"
  by (auto simp: startswith_iff)

lemma digest_eq_Inr [res_simps]: "digest v = Inr s \<longleftrightarrow> v = JStr s \<and> image_digest s"
  using startswith_length [of s "''sha256:''"]
  by (auto simp: digest_def image_digest_def res_simps split: json.splits)

lemma read_eq_Inr [res_simps]: "read t p n = Inr b \<longleftrightarrow> t p = Some (RegFile b) \<and> length b \<le> n"
  by (auto simp: read_def res_simps split: option.splits node.splits)

lemma file_sha_eq_Inr [res_simps]:
  "file_sha h t p = Inr s \<longleftrightarrow> (\<exists>b. t p = Some (RegFile b) \<and> s = sha256 h b)"
  by (auto simp: file_sha_def split: option.splits node.splits)

lemma hashed_json_eq_Inr:
  "hashed_json h t cat v = Inr r \<longleftrightarrow>
     (\<exists>s. v = JStr s \<and> length s = 64 \<and> list_all is_hex s \<and> sha256 h (canonical h r) = s \<and>
        t (''.github/r13/'' @ cat @ ''/'' @ s @ ''.json'') = Some (RegFile (canonical h r)) \<and>
        decode (canonical h r) = Inr r \<and> length (canonical h r) \<le> data_limit)"
  by (auto simp: hashed_json_def res_simps)

section \<open>The reviewed identity\<close>

lemma receipt_eq_Inr:
  "receipt h ctl v kind ph ids = Inr r \<Longrightarrow>
     hashed_json h ctl ''receipts'' v = Inr r \<and> index_is r ''kind'' (JStr kind) = Inr True \<and>
     index_is r ''verdict'' (JStr ''PASS'') = Inr True \<and>
     index_is r ''packetSha256'' (JStr ph) = Inr True \<and> index_is r ''identities'' ids = Inr True"
  by (auto simp: receipt_def demand_eq_Inr rbind_eq_Inr require_eq_Inr all_of_eq_True)

lemma authority_wf: "authority ctl = Inr a \<Longrightarrow> wf_json a"
  by (auto simp: authority_def demand_eq_Inr rbind_eq_Inr decode_eq_Inr)

lemma identity_dict: "identity ids = Inr u \<Longrightarrow> is_dict ids"
  by (auto simp: identity_def demand_eq_Inr rbind_eq_Inr index_eq_Inr)

lemma identity_field:
  assumes "identity ids = Inr u" "k \<in> {''towerCommit'', ''towerTree'', ''sourceCommit'', ''sourceTree'', ''submoduleCommit''}"
  shows "\<exists>s. index ids k = Inr (JStr s) \<and> length s = 40 \<and> list_all is_hex s"
  using assms by (auto simp: identity_def demand_eq_Inr rbind_eq_Inr rall_eq_Inr hex_value_eq_Inr)

lemma identity_hash:
  assumes "identity ids = Inr u" "k \<in> {''bridgePinsSha256'', ''daemonPinsSha256'', ''workflowSha256''}"
  shows "\<exists>s. index ids k = Inr (JStr s) \<and> length s = 64 \<and> list_all is_hex s"
  using assms by (auto simp: identity_def demand_eq_Inr rbind_eq_Inr rall_eq_Inr hex_value_eq_Inr)

text \<open>What an approval rests on: the authority's entry and the receipt it names.\<close>

definition approval_basis :: "host \<Rightarrow> tree \<Rightarrow> string \<Rightarrow> json \<Rightarrow> string \<Rightarrow> json \<Rightarrow> bool" where
  "approval_basis h ctl head ids s r \<longleftrightarrow>
     (\<exists>a ap. authority ctl = Inr a \<and> index a ''candidate'' = Inr ap \<and>
        index ap ''identities'' = Inr ids \<and> index ap ''reviewReceiptSha256'' = Inr (JStr s)) \<and>
     identity ids = Inr () \<and> index ids ''towerCommit'' = Inr (JStr head) \<and>
     hashed_json h ctl ''receipts'' (JStr s) = Inr r \<and>
     index_is r ''kind'' (JStr ''independent-workflow-review'') = Inr True \<and>
     index_is r ''verdict'' (JStr ''PASS'') = Inr True \<and>
     index_is r ''packetSha256'' (JStr (sha256 h (canonical h ids))) = Inr True \<and>
     index_is r ''identities'' ids = Inr True"

lemma candidate_approval_basis:
  assumes "candidate_approval h ctl head = Inr ids"
  shows "\<exists>s r. approval_basis h ctl head ids s r"
proof -
  from assms obtain a ap rs r where
    a: "authority ctl = Inr a" "index a ''candidate'' = Inr ap" "index ap ''identities'' = Inr ids"
    and i: "identity ids = Inr ()" "index_is ids ''towerCommit'' (JStr head) = Inr True"
    and rs: "index ap ''reviewReceiptSha256'' = Inr rs"
    and r: "receipt h ctl rs ''independent-workflow-review'' (sha256 h (canonical h ids)) ids = Inr r"
    by (auto simp: candidate_approval_def demand_eq_Inr rbind_eq_Inr)
  from receipt_eq_Inr [OF r] obtain s where s: "rs = JStr s" by (auto simp: hashed_json_eq_Inr)
  have "index ids ''towerCommit'' = Inr (JStr head)" using i(2) by (auto simp: index_is_True)
  with a i rs receipt_eq_Inr [OF r] s have "approval_basis h ctl head ids s r"
    unfolding approval_basis_def by blast
  then show ?thesis by blast
qed

lemma candidate_approval_wf: "candidate_approval h ctl head = Inr ids \<Longrightarrow> wf_json ids"
  using candidate_approval_basis [of h ctl head ids] authority_wf wf_json_index
  unfolding approval_basis_def by meson

section \<open>The archive's members\<close>

definition entry_name :: "tar_member \<Rightarrow> string" where
  "entry_name m = removeprefix (tm_name m) ''./''"

definition root_entry :: "tar_member \<Rightarrow> bool" where
  "root_entry m \<longleftrightarrow> entry_name m \<in> {[], ''.''}"

text \<open>The inventory an accepted archive has: its entries under their names, the root entry left out.\<close>

definition oci_members :: "tar_member list \<Rightarrow> members" where
  "oci_members headers = map (\<lambda>m. (entry_name m, m)) (filter (\<lambda>m. \<not> root_entry m) headers)"

definition safe_entry :: "tar_member \<Rightarrow> bool" where
  "safe_entry m \<longleftrightarrow> (if root_entry m then tm_kind m = TarDir
     else tm_kind m \<in> {TarDir, TarFile} \<and> allowed_entry (entry_name m) \<and>
          \<not> startswith (entry_name m) ''/'' \<and> ''..'' \<notin> set (split_on CHR ''/'' (entry_name m)))"

lemma oci_entry_eq_Inr:
  "oci_entry m mem = Inr mem' \<longleftrightarrow> safe_entry m \<and>
     (if root_entry m then mem' = mem
      else entry_name m \<notin> fst ` set mem \<and> mem' = mem @ [(entry_name m, m)] \<and> length mem' \<le> 10000)"
  by (auto simp: oci_entry_def safe_entry_def root_entry_def entry_name_def Let_def require_eq_Inr dict_set_new)

lemma rfold_oci_entry:
  assumes "rfold oci_entry headers mem = Inr mem'" "distinct (map fst mem)"
  shows "mem' = mem @ oci_members headers \<and> distinct (map fst mem') \<and> list_all safe_entry headers"
  using assms
proof (induction headers arbitrary: mem)
  case Nil
  then show ?case by (simp add: oci_members_def)
next
  case (Cons m headers)
  then obtain mem1 where m: "oci_entry m mem = Inr mem1" "rfold oci_entry headers mem1 = Inr mem'"
    by (auto simp: rbind_eq_Inr)
  then have "distinct (map fst mem1)"
    using Cons.prems(2) by (auto simp: oci_entry_eq_Inr split: if_splits)
  with Cons.IH m(2) have "mem' = mem1 @ oci_members headers \<and> distinct (map fst mem') \<and> list_all safe_entry headers"
    by blast
  with m(1) show ?case by (auto simp: oci_entry_eq_Inr oci_members_def split: if_splits)
qed

lemma blob_eq_Inr:
  "blob h mem name expected = Inr v \<longleftrightarrow> (\<exists>data. file_member mem name = Some data \<and>
     length data \<le> data_limit \<and> (\<forall>e. expected = Some e \<longrightarrow> digest_of h data = e) \<and>
     decode data = Inr v)"
  by (auto simp: blob_def require_eq_Inr split: option.splits)

text \<open>The bytes stored under a digest are in the archive and have that digest.\<close>

definition stored :: "host \<Rightarrow> members \<Rightarrow> string \<Rightarrow> string \<Rightarrow> bool" where
  "stored h mem d data \<longleftrightarrow> image_digest d \<and> file_member mem (blob_path d) = Some data \<and>
     digest_of h data = d"

lemma layer_check_eq_Inr:
  "layer_check h mem item = Inr u \<longleftrightarrow> (\<exists>d data. index item ''digest'' = Inr (JStr d) \<and>
     stored h mem d data \<and> index_is item ''size'' (JInt (int (length data))) = Inr True)"
  by (auto simp: layer_check_def stored_def rbind_eq_Inr demand_eq_Inr require_eq_Inr digest_eq_Inr
      split: option.split_asm)

text \<open>What an accepted image is: a manifest, its configuration and its layers, each under its digest.\<close>

definition sound_image :: "host \<Rightarrow> members \<Rightarrow> string \<Rightarrow> json \<Rightarrow> json list \<Rightarrow> bool" where
  "sound_image h mem selected manifest layers \<longleftrightarrow>
     (\<exists>data. stored h mem selected data \<and> decode data = Inr manifest) \<and>
     (\<exists>c. index manifest ''config'' = Inr c \<and> index manifest ''layers'' = Inr (JList layers) \<and>
        (\<forall>item\<in>set (c # layers). layer_check h mem item = Inr ()) \<and>
        (\<exists>d data config. index c ''digest'' = Inr (JStr d) \<and> stored h mem d data \<and> decode data = Inr config \<and>
           get config ''architecture'' = Inr (JStr ''amd64'') \<and> get config ''os'' = Inr (JStr ''linux'')))"

lemma oci_selected_digest: "oci_selected h mem = Inr selected \<Longrightarrow> image_digest selected"
  by (auto simp: oci_selected_def rbind_eq_Inr demand_eq_Inr require_eq_Inr digest_eq_Inr split: option.splits)

lemma image_identity_image:
  assumes "image_identity h archive = Inr img"
  shows "\<exists>headers selected manifest layers. untar h archive = Inr headers \<and>
     list_all safe_entry headers \<and> distinct (map fst (oci_members headers)) \<and>
     sound_image h (oci_members headers) selected manifest layers \<and> img = image_record selected"
proof -
  from assms obtain headers mem selected manifest where
    u: "untar h archive = Inr headers" and f: "rfold oci_entry headers [] = Inr mem"
    and s: "oci_selected h mem = Inr selected"
    and m: "blob h mem (blob_path selected) (Some selected) = Inr manifest"
    and rest: "\<exists>cd c ls layers config config_digest. index2 manifest ''config'' ''digest'' = Inr cd \<and>
        digest cd = Inr config_digest \<and>
        blob h mem (blob_path config_digest) (Some config_digest) = Inr config \<and>
        all_of [get_is config ''architecture'' (JStr ''amd64''), get_is config ''os'' (JStr ''linux'')] = Inr True \<and>
        index manifest ''config'' = Inr c \<and> index manifest ''layers'' = Inr ls \<and> as_list ls = Inr layers \<and>
        rall (layer_check h mem) (c # layers) = Inr () \<and> img = image_record selected"
    by (auto simp: image_identity_def rbind_eq_Inr demand_eq_Inr simp del: rall.simps)
  from rfold_oci_entry [OF f] have mem: "mem = oci_members headers" "distinct (map fst mem)" "list_all safe_entry headers"
    by auto
  from rest obtain cd c layers config config_digest where
    r: "index2 manifest ''config'' ''digest'' = Inr cd" "digest cd = Inr config_digest"
      "blob h mem (blob_path config_digest) (Some config_digest) = Inr config"
      "get_is config ''architecture'' (JStr ''amd64'') = Inr True" "get_is config ''os'' (JStr ''linux'') = Inr True"
      "index manifest ''config'' = Inr c" "index manifest ''layers'' = Inr (JList layers)"
      "rall (layer_check h mem) (c # layers) = Inr ()" "img = image_record selected"
    by (auto simp: all_of_eq_True as_list_Inr simp del: rall.simps)
  have c: "index c ''digest'' = Inr (JStr config_digest)" "image_digest config_digest"
    using r(1,2,6) by (auto simp: index2_def rbind_eq_Inr digest_eq_Inr)
  have "sound_image h mem selected manifest layers"
    unfolding sound_image_def
    using m oci_selected_digest [OF s] r(3-8) c
    by (fastforce simp: blob_eq_Inr stored_def rall_eq_Inr get_is_True simp del: rall.simps)
  with u mem r(9) show ?thesis by blast
qed

text \<open>One digest, one image: the manifest's bytes and every blob it names are determined.\<close>

lemma stored_unique:
  assumes "stored h mem d data" "stored h mem' d data'" "inj_on (sha256 h) A" "data \<in> A" "data' \<in> A"
  shows "data = data'"
proof -
  from assms(1,2) have "sha256 h data = sha256 h data'"
    by (auto simp: stored_def digest_of_def)
  with assms(3-5) show ?thesis by (simp add: inj_onD)
qed

lemma stored_bytes: "stored h mem d data \<Longrightarrow> data \<in> tm_data ` snd ` set mem"
  by (force simp: stored_def file_member_def dest!: map_of_SomeD split: option.splits if_splits)

section \<open>Outputs\<close>

lemma output_name_chars: "output_name k \<Longrightarrow> CHR ''='' \<notin> set k \<and> newline \<notin> set k"
  by (cases k) (auto simp: output_name_def list_all_iff is_lower_def is_digit_def newline_def code_def)

lemma output_lines_Inr:
  "output_lines h vs = (t, Inr u) \<Longrightarrow>
     t = concat (map (\<lambda>(k, v). k @ ''='' @ output_text h v @ [newline]) vs) \<and>
     (\<forall>(k, v)\<in>set vs. output_name k \<and> newline \<notin> set (output_text h v) \<and> CHR 0x0D \<notin> set (output_text h v))"
  by (induction vs arbitrary: t) (auto simp: Let_def split: if_splits prod.splits)

lemma split_on_lines:
  "(\<forall>l\<in>set ls. newline \<notin> set l) \<Longrightarrow> split_on newline (concat (map (\<lambda>l. l @ [newline]) ls)) = ls @ [[]]"
  by (induction ls) (auto simp: split_on_append)

text \<open>How the runner reads the file back: lines, each split at its first \<open>=\<close>.\<close>

definition read_outputs :: "string \<Rightarrow> (string \<times> string) list" where
  "read_outputs t = map (\<lambda>l. case partition_on CHR ''='' l of (k, _, v) \<Rightarrow> (k, v)) (butlast (split_on newline t))"

lemma read_outputs_lines:
  assumes "output_lines h vs = (t, Inr u)"
  shows "read_outputs t = map (\<lambda>(k, v). (k, output_text h v)) vs"
proof -
  let ?line = "\<lambda>(k, v). k @ ''='' @ output_text h v"
  from output_lines_Inr [OF assms]
  have t: "t = concat (map (\<lambda>l. l @ [newline]) (map ?line vs))"
    and ok: "\<forall>(k, v)\<in>set vs. output_name k \<and> newline \<notin> set (output_text h v)"
    by (auto simp: comp_def case_prod_unfold)
  have "\<forall>l\<in>set (map ?line vs). newline \<notin> set l"
    using ok output_name_chars by (fastforce simp: newline_def)
  then have "butlast (split_on newline t) = map ?line vs"
    unfolding t by (subst split_on_lines) simp_all
  then show ?thesis
    using ok output_name_chars by (auto simp: read_outputs_def partition_on_append)
qed

section \<open>The candidate\<close>

lemma inventory_eq_Inr:
  "inventory h data = Inr u \<longleftrightarrow> set (map fst data) = set FILES \<and>
     (\<forall>(name, n)\<in>set data. \<exists>b. n = RegFile b \<and> length b \<le> entry_limit name)"
  by (auto simp: inventory_def require_eq_Inr rall_eq_Inr split: node.splits) 

lemma file_hash_check_Inr:
  "file_hash_check h t p = Inr u \<longleftrightarrow>
     (\<exists>s. snd p = JStr s \<and> length s = 64 \<and> list_all is_hex s \<and> file_sha h t (fst p) = Inr s)"
  by (auto simp: file_hash_check_def rbind_eq_Inr require_eq_Inr hex_value_eq_Inr)

lemma candidate_metadata_facts:
  assumes "candidate_metadata h t ids run_id c = Inr u"
  shows "\<exists>image actual b fs. index c ''image'' = Inr image \<and> t ''image.oci.tar'' = Some (RegFile b) \<and>
      image_identity h b = Inr actual \<and> pyeq image actual \<and>
      index c ''files'' = Inr (JObj fs) \<and> set (map fst fs) = set candidate_files \<and>
      (\<forall>(name, e)\<in>set fs. \<exists>s. e = JStr s \<and> file_sha h t name = Inr s) \<and>
      index_is c ''identities'' ids = Inr True \<and> index_is c ''runId'' (JInt run_id) = Inr True \<and>
      index_is c ''repository'' (JStr CANDIDATE_REPOSITORY) = Inr True"
  using assms
  by (auto simp: candidate_metadata_def demand_eq_Inr rbind_eq_Inr require_eq_Inr all_of_eq_True dict_items_Inr
      rall_eq_Inr file_hash_check_Inr split: option.splits node.splits) fastforce

lemma candidate_hash:
  assumes "candidate_metadata h t ids run_id c = Inr u" "name \<in> set candidate_files"
  shows "\<exists>b. t name = Some (RegFile b) \<and> index2 c ''files'' name = Inr (JStr (sha256 h b))"
proof -
  from candidate_metadata_facts [OF assms(1)] obtain fs where
    fs: "index c ''files'' = Inr (JObj fs)" "set (map fst fs) = set candidate_files"
      "\<forall>(name, e)\<in>set fs. \<exists>s. e = JStr s \<and> file_sha h t name = Inr s" by blast
  from fs(2) assms(2) obtain e where e: "map_of fs name = Some e"
    by (metis list.set_map map_of_eq_None_iff option.exhaust)
  then obtain s where "e = JStr s" "file_sha h t name = Inr s"
    using fs(3) by (blast dest: map_of_SomeD)
  with e fs(1) show ?thesis by (auto simp: index2_def file_sha_eq_Inr)
qed

lemma policy_check_Inr:
  "policy_check h ctl t = Inr u \<longleftrightarrow> (\<forall>(name, source)\<in>set policy_sources.
     \<exists>s. file_sha h t name = Inr s \<and> file_sha h ctl source = Inr s)"
  by (auto simp: policy_check_def rall_eq_Inr rbind_eq_Inr require_eq_Inr)

lemma manifests_check_facts:
  assumes "manifests_check t ids = Inr u"
  shows "\<exists>bridge daemon c tr m src. rbind (read t ''bridge-manifest.json'' data_limit) decode = Inr bridge \<and>
      rbind (read t ''daemon-manifest.json'' data_limit) decode = Inr daemon \<and>
      index ids ''sourceCommit'' = Inr c \<and> index ids ''sourceTree'' = Inr tr \<and> index ids ''submoduleCommit'' = Inr m \<and>
      index bridge ''source'' = Inr src \<and>
      pyeq src (JObj [(''commit'', c), (''tree'', tr), (''submoduleCommit'', m)]) \<and>
      (\<exists>dc. index2 daemon ''source'' ''commit'' = Inr dc \<and> pyeq dc m)"
  using assms
  by (auto simp: manifests_check_def demand_eq_Inr rbind_eq_Inr require_eq_Inr)

lemma validate_candidate_Inr:
  "validate_candidate h ctl data head run_id = Inr c \<longleftrightarrow>
     (\<exists>ids. candidate_approval h ctl head = Inr ids \<and> inventory h data = Inr () \<and>
        rbind (read (map_of data) ''candidate.json'' data_limit) decode = Inr c \<and>
        candidate_metadata h (map_of data) ids run_id c = Inr () \<and>
        policy_check h ctl (map_of data) = Inr () \<and> manifests_check (map_of data) ids = Inr () \<and>
        provenance_check (map_of data) ids run_id c = Inr ())"
  unfolding validate_candidate_def rbind_eq_Inr [where m = "candidate_approval h ctl head"]
  by (auto simp: rbind_eq_Inr)

lemma output_lines_prefix:
  "output_lines h vs = (t, r) \<Longrightarrow>
     \<exists>n. output_lines h (take n vs) = (t, Inr ()) \<and> (r = Inr () \<longrightarrow> n = length vs)"
proof (induction vs arbitrary: t)
  case Nil
  then show ?case by auto
next
  case (Cons p vs)
  obtain k v where p: "p = (k, v)" by force
  let ?bad = "newline \<in> set (output_text h v) \<or> CHR 0x0D \<in> set (output_text h v)"
  show ?case
  proof (cases "output_name k \<and> \<not> ?bad")
    case True
    then obtain t' where t': "output_lines h vs = (t', r)" "t = k @ ''='' @ output_text h v @ [newline] @ t'"
      using Cons.prems by (auto simp: p Let_def split: prod.splits)
    with Cons.IH [of t'] obtain n where n: "output_lines h (take n vs) = (t', Inr ())" "r = Inr () \<longrightarrow> n = length vs"
      by blast
    then show ?thesis
      using True t'(2) by (intro exI [of _ "Suc n"]) (simp add: p Let_def)
  next
    case False
    then show ?thesis
      using Cons.prems by (intro exI [of _ 0]) (auto simp: p Let_def split: if_splits)
  qed
qed

end
