(* ===== verification/PublicationProofs.thy ===== *)
theory PublicationProofs
  imports Publication
begin

text \<open>
  The properties of the publication gates, with a concrete control checkout, archive and candidate
  on which each one is applied. The sample's hash is the length of the text, in 64 digits.
\<close>

section \<open>A sample repository and candidate\<close>

definition toy_sha :: "string \<Rightarrow> string" where
  "toy_sha b = replicate (64 - length (nat_str (length b))) CHR ''0'' @ nat_str (length b)"

definition sha_len :: "nat \<Rightarrow> string" where
  "sha_len n = replicate (64 - length (nat_str n)) CHR ''0'' @ nat_str n"

definition toy_host0 :: host where
  "toy_host0 = \<lparr>sha256 = toy_sha, float_repr = (\<lambda>_. ''0.0''), untar = (\<lambda>_. Inl (OSError []))\<rparr>"

text \<open>
  A document is a value and its canonical text. \<open>doc\<close> is what makes the text read back as the value.
\<close>

definition doc :: "json \<Rightarrow> bool" where
  "doc v \<longleftrightarrow> no_float v \<and> wf_json v \<and> sortk v = v \<and> length (canonical toy_host0 v) \<le> data_limit"

definition shape :: "json \<Rightarrow> bool" where
  "shape v \<longleftrightarrow> no_float v \<and> wf_json v \<and> sortk v = v"

lemma docI: "shape v \<Longrightarrow> length (canonical toy_host0 v) = n \<Longrightarrow> n \<le> data_limit \<Longrightarrow> doc v"
  by (simp add: doc_def shape_def)

lemma doc_decode: "doc v \<Longrightarrow> decode (canonical toy_host0 v) = Inr v"
  using decode_canonical_value [of v toy_host0] by (simp add: doc_def data_limit_def)

lemma doc_read:
  "doc v \<Longrightarrow> t p = Some (RegFile (canonical toy_host0 v)) \<Longrightarrow> read t p data_limit = Inr (canonical toy_host0 v)"
  by (simp add: doc_def read_eq_Inr)

lemma doc_pyeq: "doc v \<Longrightarrow> pyeq v v"
  by (simp add: doc_def no_float_has_nan pyeq_refl)

definition h40 :: string where "h40 = replicate 40 CHR ''a''"
definition h64 :: string where "h64 = replicate 64 CHR ''b''"

lemma hex_h40: "length h40 = 40" "list_all is_hex h40"
  by (simp_all add: h40_def list_all_iff is_hex_def is_digit_def code_def)

lemma hex_h64: "length h64 = 64" "list_all is_hex h64"
  by (simp_all add: h64_def list_all_iff is_hex_def is_digit_def code_def)

definition toy_ids :: json where
  "toy_ids = JObj [(''bridgePinsSha256'', JStr h64), (''daemonPinsSha256'', JStr h64),
    (''sourceCommit'', JStr h40), (''sourceTree'', JStr h40), (''submoduleCommit'', JStr h40),
    (''towerCommit'', JStr h40), (''towerTree'', JStr h40), (''workflowSha256'', JStr h64)]"

definition ids_sha :: string where
  "ids_sha = toy_sha (canonical toy_host0 toy_ids)"

text \<open>The length of each text is computed once; its hash is a code equation from then on.\<close>

lemma len_ids: "length (canonical toy_host0 toy_ids) = 545"
  by code_simp

lemma ids_sha_code [code]: "ids_sha = sha_len 545"
  by (simp add: ids_sha_def toy_sha_def sha_len_def len_ids)

definition toy_receipt :: json where
  "toy_receipt = JObj [(''evidenceSha256'', JStr h64), (''identities'', toy_ids),
     (''kind'', JStr ''independent-workflow-review''), (''packetSha256'', JStr ids_sha),
     (''reviewer'', JStr ''alice''), (''schemaVersion'', JInt 1), (''verdict'', JStr ''PASS'')]"

definition receipt_sha :: string where
  "receipt_sha = toy_sha (canonical toy_host0 toy_receipt)"

lemma len_receipt: "length (canonical toy_host0 toy_receipt) = 817"
  by code_simp

lemma receipt_sha_code [code]: "receipt_sha = sha_len 817"
  by (simp add: receipt_sha_def toy_sha_def sha_len_def len_receipt)

definition toy_authority :: json where
  "toy_authority = JObj [(''accepted'', JNull),
     (''candidate'', JObj [(''identities'', toy_ids), (''reviewReceiptSha256'', JStr receipt_sha)]),
     (''schemaVersion'', JInt 1)]"

definition toy_ctl :: tree where
  "toy_ctl = map_of
     [(''.github/r13/receipts/'' @ receipt_sha @ ''.json'', RegFile (canonical toy_host0 toy_receipt)),
      (''.github/r13/authority.json'', RegFile (canonical toy_host0 toy_authority)),
      (''cosign.pub'', RegFile ''key''),
      (''system_files/usr/share/bazzite-tower/containers/policy.json'', RegFile ''{}''),
      (''system_files/usr/share/bazzite-tower/containers/registries.d/bazzite-tower.yaml'', RegFile ''docker:'')]"

lemma len_authority: "length (canonical toy_host0 toy_authority) = 697"
  by code_simp

lemma doc_authority: "doc toy_ids" "doc toy_receipt" "doc toy_authority"
  subgoal by (rule docI [OF _ len_ids]; code_simp)
  subgoal by (rule docI [OF _ len_receipt]; code_simp)
  subgoal by (rule docI [OF _ len_authority]; code_simp)
  done

lemma receipt_sha_hex: "length receipt_sha = 64" "list_all is_hex receipt_sha"
  by code_simp+

definition toy_config :: json where
  "toy_config = JObj [(''architecture'', JStr ''amd64''), (''os'', JStr ''linux'')]"

definition toy_layer :: string where
  "toy_layer = ''layer bytes''"

definition toy_descriptor :: "string \<Rightarrow> json" where
  "toy_descriptor b = JObj [(''digest'', JStr (digest_of toy_host0 b)), (''size'', JInt (int (length b)))]"

definition config_desc :: json where
  "config_desc = toy_descriptor (canonical toy_host0 toy_config)"

lemma len_config: "length (canonical toy_host0 toy_config) = 38"
  by code_simp

lemma config_desc_code [code]: "config_desc = JObj [(''digest'', JStr (''sha256:'' @ sha_len 38)), (''size'', JInt 38)]"
  by (simp add: config_desc_def toy_descriptor_def digest_of_def toy_host0_def toy_sha_def sha_len_def
      len_config [unfolded toy_host0_def])

definition toy_manifest :: json where
  "toy_manifest = JObj [(''config'', config_desc),
     (''layers'', JList [toy_descriptor toy_layer]),
     (''mediaType'', JStr ''application/vnd.oci.image.manifest.v1+json'')]"

definition toy_digest :: string where
  "toy_digest = digest_of toy_host0 (canonical toy_host0 toy_manifest)"

lemma len_manifest: "length (canonical toy_host0 toy_manifest) = 269"
  by code_simp

lemma toy_digest_code [code]: "toy_digest = ''sha256:'' @ sha_len 269"
  by (simp add: toy_digest_def digest_of_def toy_host0_def toy_sha_def sha_len_def len_manifest [unfolded toy_host0_def])

definition toy_file :: "string \<Rightarrow> string \<Rightarrow> tar_member" where
  "toy_file n b = \<lparr>tm_name = n, tm_kind = TarFile, tm_data = b\<rparr>"

definition toy_blob :: "string \<Rightarrow> tar_member" where
  "toy_blob b = toy_file (''./'' @ blob_path (digest_of toy_host0 b)) b"

definition toy_headers :: "tar_member list" where
  "toy_headers =
     [\<lparr>tm_name = ''./'', tm_kind = TarDir, tm_data = []\<rparr>,
      toy_file ''oci-layout'' (canonical toy_host0 (JObj [(''imageLayoutVersion'', JStr ''1.0.0'')])),
      toy_file ''index.json'' (canonical toy_host0 (JObj
         [(''manifests'', JList [toy_descriptor (canonical toy_host0 toy_manifest)]), (''schemaVersion'', JInt 2)])),
      toy_blob (canonical toy_host0 toy_manifest), toy_blob (canonical toy_host0 toy_config), toy_blob toy_layer]"

definition toy_host :: host where
  "toy_host = toy_host0\<lparr>untar := (\<lambda>_. Inr toy_headers)\<rparr>"

lemma toy_image_identity: "image_identity toy_host archive = Inr (image_record toy_digest)"
proof -
  have "image_identity toy_host [] = Inr (image_record toy_digest)" by code_simp
  then show ?thesis by (simp add: image_identity_def toy_host_def)
qed

lemma canonical_toy_host [simp]: "canonical toy_host v = canonical toy_host0 v"
  by (simp add: canonical_def toy_host_def)

lemma sha256_toy_host [simp]: "sha256 toy_host b = toy_sha b"
  by (simp add: toy_host_def toy_host0_def)

lemma toy_approval: "candidate_approval toy_host toy_ctl h40 = Inr toy_ids"
proof -
  have a: "read toy_ctl ''.github/r13/authority.json'' data_limit = Inr (canonical toy_host0 toy_authority)"
    by (rule doc_read) (simp_all add: doc_authority toy_ctl_def)
  have "hashed_json toy_host toy_ctl ''receipts'' (JStr receipt_sha) = Inr toy_receipt"
    using doc_authority(2) doc_decode [of toy_receipt] receipt_sha_hex
    by (simp add: hashed_json_eq_Inr doc_def receipt_sha_def toy_ctl_def)
  then have "receipt toy_host toy_ctl (JStr receipt_sha) ''independent-workflow-review'' ids_sha toy_ids = Inr toy_receipt"
    using doc_authority(1) hex_h64
    by (auto simp: receipt_def hex_value_eq_Inr res_simps doc_pyeq toy_receipt_def reviewer_ok_def
        reviewer_char_def is_alnum_def is_lower_def code_def)
  moreover have "authority toy_ctl = Inr toy_authority"
    using a doc_decode [OF doc_authority(3)] by (simp add: authority_def toy_authority_def index_is_def insert_commute)
  moreover have "identity toy_ids = Inr ()"
    using hex_h40 hex_h64 by (auto simp: identity_def toy_ids_def hex_value_def demand_eq_Inr)
  ultimately show ?thesis
    using hex_h40
    by (auto simp: candidate_approval_def hex_value_def toy_authority_def index_is_def ids_sha_def [symmetric])
       (simp add: toy_ids_def)
qed

definition toy_bridge :: json where
  "toy_bridge = JObj
     [(''binary'', JObj [(''path'', JStr ''/usr/bin/snitchwatch-bridge-cli''), (''sha256'', JStr h64)]),
      (''profile'', JStr ''system''),
      (''source'', JObj [(''commit'', JStr h40), (''submoduleCommit'', JStr h40), (''tree'', JStr h40)])]"

definition toy_daemon :: json where
  "toy_daemon = JObj
     [(''binary'', JObj [(''path'', JStr ''/usr/bin/opensnitchd''), (''sha256'', JStr h64)]),
      (''profile'', JStr ''system''), (''source'', JObj [(''commit'', JStr h40)])]"

definition toy_sbom :: json where
  "toy_sbom = JObj [(''packages'', JList [JNull]), (''spdxVersion'', JStr ''SPDX-2.3'')]"

definition toy_image :: json where
  "toy_image = sortk (image_record toy_digest)"

definition text_sha :: "json \<Rightarrow> string" where
  "text_sha v = toy_sha (canonical toy_host0 v)"

lemma text_sha_len: "length (canonical toy_host0 v) = n \<Longrightarrow> text_sha v = sha_len n"
  by (simp add: text_sha_def toy_sha_def sha_len_def)

lemma len_bridge: "length (canonical toy_host0 toy_bridge) = 323"
  by code_simp

definition bridge_sha :: string where
  "bridge_sha = text_sha toy_bridge"

lemma bridge_sha_code [code]: "bridge_sha = sha_len 323"
  unfolding bridge_sha_def by (rule text_sha_len [OF len_bridge])

lemma len_daemon: "length (canonical toy_host0 toy_daemon) = 201"
  by code_simp

definition daemon_sha :: string where
  "daemon_sha = text_sha toy_daemon"

lemma daemon_sha_code [code]: "daemon_sha = sha_len 201"
  unfolding daemon_sha_def by (rule text_sha_len [OF len_daemon])

lemma len_sbom: "length (canonical toy_host0 toy_sbom) = 45"
  by code_simp

definition sbom_sha :: string where
  "sbom_sha = text_sha toy_sbom"

lemma sbom_sha_code [code]: "sbom_sha = sha_len 45"
  unfolding sbom_sha_def by (rule text_sha_len [OF len_sbom])

definition toy_provenance :: json where
  "toy_provenance = JObj
     [(''bridgeManifestSha256'', JStr bridge_sha), (''daemonManifestSha256'', JStr daemon_sha),
      (''identities'', toy_ids), (''image'', toy_image), (''kind'', JStr ''candidate-build''),
      (''ref'', JStr CANDIDATE_REF), (''repository'', JStr REPOSITORY), (''runAttempt'', JInt 1),
      (''runId'', JInt 7), (''sbomSha256'', JStr sbom_sha), (''schemaVersion'', JInt 1),
      (''workflow'', JStr CANDIDATE_WORKFLOW)]"

lemma len_provenance: "length (canonical toy_host0 toy_provenance) = 1261"
  by code_simp

definition provenance_sha :: string where
  "provenance_sha = text_sha toy_provenance"

lemma provenance_sha_code [code]: "provenance_sha = sha_len 1261"
  unfolding provenance_sha_def by (rule text_sha_len [OF len_provenance])

lemmas sha_defs = bridge_sha_def daemon_sha_def sbom_sha_def provenance_sha_def

definition toy_hashes :: "(string \<times> json) list" where
  "toy_hashes =
     [(''bazzite-tower.yaml'', JStr (toy_sha ''docker:'')), (''bridge-manifest.json'', JStr bridge_sha),
      (''build-provenance.json'', JStr provenance_sha), (''cosign.pub'', JStr (toy_sha ''key'')),
      (''daemon-manifest.json'', JStr daemon_sha), (''image.oci.tar'', JStr (toy_sha ''tar'')),
      (''policy.json'', JStr (toy_sha ''{}'')), (''sbom.json'', JStr sbom_sha)]"

definition toy_candidate :: json where
  "toy_candidate = JObj
     [(''files'', JObj toy_hashes), (''identities'', toy_ids), (''image'', toy_image),
      (''ref'', JStr CANDIDATE_REF), (''repository'', JStr CANDIDATE_REPOSITORY), (''runAttempt'', JInt 1),
      (''runId'', JInt 7), (''schemaVersion'', JInt 1), (''workflow'', JStr CANDIDATE_WORKFLOW)]"

definition toy_data :: dir where
  "toy_data =
     [(''candidate.json'', RegFile (canonical toy_host0 toy_candidate)), (''image.oci.tar'', RegFile ''tar''),
      (''sbom.json'', RegFile (canonical toy_host0 toy_sbom)),
      (''build-provenance.json'', RegFile (canonical toy_host0 toy_provenance)),
      (''bridge-manifest.json'', RegFile (canonical toy_host0 toy_bridge)),
      (''daemon-manifest.json'', RegFile (canonical toy_host0 toy_daemon)),
      (''cosign.pub'', RegFile ''key''), (''policy.json'', RegFile ''{}''), (''bazzite-tower.yaml'', RegFile ''docker:'')]"

lemma len_candidate: "length (canonical toy_host0 toy_candidate) = 1690"
  by code_simp

lemma doc_artifacts: "doc toy_bridge" "doc toy_daemon" "doc toy_sbom"
  subgoal by (rule docI [OF _ len_bridge]; code_simp)
  subgoal by (rule docI [OF _ len_daemon]; code_simp)
  subgoal by (rule docI [OF _ len_sbom]; code_simp)
  done

lemma doc_provenance: "doc toy_provenance"
  by (rule docI [OF _ len_provenance]; code_simp)

lemma doc_candidate: "doc toy_candidate"
  by (rule docI [OF _ len_candidate]; code_simp)

lemma toy_sha_hex: "length (toy_sha b) = 64 \<and> list_all is_hex (toy_sha b)" if "length (nat_str (length b)) \<le> 64"
  using that nat_str_digits [of "length b"]
  by (auto simp: toy_sha_def list_all_iff is_hex_def is_digit_def code_def)

lemma small_texts: "length (nat_str (length (canonical toy_host0 v))) \<le> 64" if "doc v"
proof -
  from length_nat_str [of "length (canonical toy_host0 v)" 63] that show ?thesis
    by (simp add: doc_def data_limit_def)
qed

lemma toy_inventory: "inventory toy_host toy_data = Inr ()"
proof -
  have "{''candidate.json'', ''image.oci.tar'', ''sbom.json'', ''build-provenance.json'', ''bridge-manifest.json'',
     ''daemon-manifest.json'', ''cosign.pub'', ''policy.json'', ''bazzite-tower.yaml''} = set FILES"
    by (auto simp: FILES_def)
  then show ?thesis
    using doc_artifacts doc_provenance doc_candidate
    by (simp add: inventory_eq_Inr toy_data_def doc_def entry_limit_def data_limit_def)
qed

lemma toy_files: "list_all (\<lambda>p. file_hash_check toy_host (map_of toy_data) p = Inr ()) toy_hashes"
proof -
  have "length (toy_sha b) = 64 \<and> list_all is_hex (toy_sha b)" if "b \<in> {''docker:'', ''key'', ''tar'', ''{}''}" for b
  proof (rule toy_sha_hex)
    have "length b < 10" using that by auto
    then show "length (nat_str (length b)) \<le> 64" by (simp add: nat_str_small)
  qed
  moreover have "length (text_sha v) = 64 \<and> list_all is_hex (text_sha v)" if "doc v" for v
    unfolding text_sha_def by (rule toy_sha_hex) (rule small_texts [OF that])
  ultimately show ?thesis
    using doc_artifacts doc_provenance
    by (simp add: toy_hashes_def file_hash_check_Inr file_sha_eq_Inr toy_data_def text_sha_def sha_defs)
qed

lemma toy_metadata: "candidate_metadata toy_host (map_of toy_data) toy_ids 7 toy_candidate = Inr ()"
proof -
  have "pyeq toy_image (image_record toy_digest)"
    by (simp add: toy_image_def pyeq_def norm_sortk image_record_def)
  moreover have "set_is (JObj toy_hashes) candidate_files = Inr True"
    by (auto simp: toy_hashes_def candidate_files_def FILES_def)
  moreover have "rall (file_hash_check toy_host (map_of toy_data)) toy_hashes = Inr ()"
    using toy_files by (simp add: rall_eq_Inr list_all_iff)
  ultimately show ?thesis
    using doc_authority(1)
    by (auto simp: candidate_metadata_def toy_candidate_def res_simps toy_image_identity doc_pyeq toy_data_def)
qed

lemma toy_read:
  "rbind (read (map_of toy_data) ''candidate.json'' data_limit) decode = Inr toy_candidate"
  "rbind (read (map_of toy_data) ''bridge-manifest.json'' data_limit) decode = Inr toy_bridge"
  "rbind (read (map_of toy_data) ''daemon-manifest.json'' data_limit) decode = Inr toy_daemon"
  "rbind (read (map_of toy_data) ''sbom.json'' data_limit) decode = Inr toy_sbom"
  "rbind (read (map_of toy_data) ''build-provenance.json'' data_limit) decode = Inr toy_provenance"
  using doc_candidate doc_artifacts doc_provenance
  by (simp_all add: doc_read doc_decode toy_data_def)

lemma toy_manifests: "manifests_check (map_of toy_data) toy_ids = Inr ()"
  unfolding manifests_check_def toy_read
  using hex_h64
  by (simp add: toy_bridge_def toy_daemon_def toy_ids_def index2_def index_is_def hex_value_def all_of.simps pyeq_def)

lemma toy_provenance_check: "provenance_check (map_of toy_data) toy_ids 7 toy_candidate = Inr ()"
proof -
  have "\<not> has_nan toy_provenance" "\<not> has_nan toy_ids" "\<not> has_nan toy_image"
    using doc_provenance doc_authority by (simp_all add: doc_def no_float_has_nan toy_image_def image_record_def)
  then have "pyeq toy_provenance (JObj
         [(''schemaVersion'', JInt 1), (''kind'', JStr ''candidate-build''),
          (''repository'', JStr REPOSITORY), (''workflow'', JStr CANDIDATE_WORKFLOW),
          (''ref'', JStr CANDIDATE_REF), (''runId'', JInt 7), (''runAttempt'', JInt 1),
          (''identities'', toy_ids), (''image'', toy_image), (''sbomSha256'', JStr sbom_sha),
          (''bridgeManifestSha256'', JStr bridge_sha), (''daemonManifestSha256'', JStr daemon_sha)])"
    by (simp add: pyeq_def toy_provenance_def)
  then show ?thesis
    unfolding provenance_check_def toy_read
    by (simp add: toy_sbom_def get_is_def all_of.simps toy_candidate_def toy_hashes_def index2_def)
qed

lemma toy_accepted: "validate_candidate toy_host toy_ctl toy_data h40 7 = Inr toy_candidate"
  unfolding validate_candidate_Inr
  using toy_approval toy_inventory toy_read(1) toy_metadata toy_manifests toy_provenance_check
  by (auto simp: policy_check_Inr policy_sources_def file_sha_eq_Inr toy_ctl_def toy_data_def)

section \<open>Properties\<close>


text \<open>
  C12: the canonical text of a value (without floats) decodes to that value with its keys sorted, which is
  equal to it, and whose canonical text is the same again.
\<close>
theorem decode_canonical:
  assumes "no_float v" "wf_json v" "length (canonical h v) \<le> 16777216"
  shows "decode (canonical h v) = Inr (sortk v) \<and> pyeq (sortk v) v \<and> canonical h (sortk v) = canonical h v"
  using assms decode_canonical_value [of v h] no_float_has_nan [of v] no_float_has_nan [of "sortk v"]
  by (simp add: no_float_sortk pyeq_def norm_sortk canonical_def dumps_sorted_def)

lemma decode_canonical_witness:
  "decode (canonical toy_host0 toy_authority) = Inr (sortk toy_authority) \<and> pyeq (sortk toy_authority) toy_authority
    \<and> canonical toy_host0 (sortk toy_authority) = canonical toy_host0 toy_authority"
  by (rule decode_canonical) (use doc_authority(3) in \<open>simp_all add: doc_def data_limit_def\<close>)

text \<open>
  C2: an approval is bound to what was reviewed. A candidate head is approved only with a trusted receipt,
  stored under its own hash, that says PASS for the hash of exactly these identities, whose tower commit
  is that head; and two approvals that name the same receipt (hashed without collision) are approvals of
  the same head and of equal identities, whatever else the two control checkouts contain.
\<close>
theorem approval_binding:
  assumes "candidate_approval h c1 head1 = Inr ids1" "candidate_approval h c2 head2 = Inr ids2"
  shows "\<exists>s1 r1 s2 r2. approval_basis h c1 head1 ids1 s1 r1 \<and> approval_basis h c2 head2 ids2 s2 r2 \<and>
     (s1 = s2 \<and> inj_on (sha256 h) {canonical h r1, canonical h r2} \<longrightarrow> head1 = head2 \<and> pyeq ids1 ids2)"
proof -
  from assms obtain s1 r1 s2 r2 where
    b: "approval_basis h c1 head1 ids1 s1 r1" "approval_basis h c2 head2 ids2 s2 r2"
    using candidate_approval_basis by blast
  have "head1 = head2 \<and> pyeq ids1 ids2"
    if same: "s1 = s2" and inj: "inj_on (sha256 h) {canonical h r1, canonical h r2}"
  proof -
    have sha: "sha256 h (canonical h r) = s" and dec: "decode (canonical h r) = Inr r"
      if "approval_basis h c head ids s r" for c head ids s r
      using that by (simp_all add: approval_basis_def hashed_json_eq_Inr)
    have "sha256 h (canonical h r1) = sha256 h (canonical h r2)"
      unfolding sha [OF b(1)] sha [OF b(2)] by (rule same)
    then have "canonical h r1 = canonical h r2" by (rule inj_onD [OF inj]) simp_all
    from arg_cong [OF this, of decode] have "r1 = r2"
      unfolding dec [OF b(1)] dec [OF b(2)] by (rule sum.inject(2) [THEN iffD1])
    then obtain x where "pyeq x ids1" "pyeq x ids2"
      using b by (auto simp: approval_basis_def index_is_True)
    then have eq: "pyeq ids1 ids2" by (metis pyeq_sym pyeq_trans)
    moreover have "wf_json ids1" "wf_json ids2" using assms candidate_approval_wf by blast+
    moreover have "is_dict ids2" using b identity_dict by (auto simp: approval_basis_def)
    moreover have "index ids1 ''towerCommit'' = Inr (JStr head1)" "index ids2 ''towerCommit'' = Inr (JStr head2)"
      using b unfolding approval_basis_def by blast+
    ultimately show ?thesis
      using pyeq_index [of ids1 ids2 "''towerCommit''" "JStr head1"] by simp
  qed
  with b show ?thesis by blast
qed

lemma approval_binding_witness:
  "\<exists>s1 r1 s2 r2. approval_basis toy_host toy_ctl h40 toy_ids s1 r1 \<and> approval_basis toy_host toy_ctl h40 toy_ids s2 r2 \<and>
     (s1 = s2 \<and> inj_on (sha256 toy_host) {canonical toy_host r1, canonical toy_host r2} \<longrightarrow> h40 = h40 \<and> pyeq toy_ids toy_ids)"
  by (rule approval_binding [OF toy_approval toy_approval])



text \<open>
  C3: the recorded digest pins the image. Two archives accepted with the same record (and no hash collision
  among their blobs) hold the same manifest, and for its configuration and each of its layers the same bytes.
\<close>
theorem image_digest_pins:
  assumes "image_identity h a1 = Inr img" "image_identity h a2 = Inr img"
    and "untar h a1 = Inr headers1" "untar h a2 = Inr headers2"
    and "inj_on (sha256 h) (tm_data ` (set headers1 \<union> set headers2))"
  shows "\<exists>manifest config layers. index manifest ''config'' = Inr config \<and> index manifest ''layers'' = Inr (JList layers) \<and>
     (\<exists>selected. img = image_record selected \<and> (\<exists>data. decode data = Inr manifest \<and>
        stored h (oci_members headers1) selected data \<and> stored h (oci_members headers2) selected data)) \<and>
     (\<forall>item\<in>set (config # layers). \<exists>d data. index item ''digest'' = Inr (JStr d) \<and>
        stored h (oci_members headers1) d data \<and> stored h (oci_members headers2) d data)"
proof -
  let ?m1 = "oci_members headers1" and ?m2 = "oci_members headers2"
  from image_identity_image [OF assms(1)] image_identity_image [OF assms(2)] assms(3,4)
  obtain sel1 man1 lay1 sel2 man2 lay2 where
    s: "sound_image h ?m1 sel1 man1 lay1" "sound_image h ?m2 sel2 man2 lay2"
      "img = image_record sel1" "img = image_record sel2" by auto
  then have sel: "sel2 = sel1" by (simp add: image_record_def)
  have bytes: "data = data'" if "stored h ?m1 d data" "stored h ?m2 d data'" for d data data'
  proof (rule stored_unique [OF that assms(5)])
    show "data \<in> tm_data ` (set headers1 \<union> set headers2)" "data' \<in> tm_data ` (set headers1 \<union> set headers2)"
      using stored_bytes [OF that(1)] stored_bytes [OF that(2)] by (auto simp: oci_members_def)
  qed
  from s sel obtain data where data: "stored h ?m1 sel1 data" "stored h ?m2 sel1 data" "decode data = Inr man1" "man2 = man1"
    using bytes by (fastforce simp: sound_image_def)
  from s(1) obtain c where c: "index man1 ''config'' = Inr c" "index man1 ''layers'' = Inr (JList lay1)"
    "\<forall>item\<in>set (c # lay1). layer_check h ?m1 item = Inr ()" by (auto simp: sound_image_def)
  have "\<forall>item\<in>set (c # lay1). layer_check h ?m2 item = Inr ()"
    using s(2) c(1,2) data(4) by (auto simp: sound_image_def)
  with c(3) bytes have "\<exists>d data. index item ''digest'' = Inr (JStr d) \<and> stored h ?m1 d data \<and> stored h ?m2 d data"
    if "item \<in> set (c # lay1)" for item
    using that unfolding layer_check_eq_Inr by (metis json.inject(4) sum.inject(2))
  with c(1,2) data s(3) show ?thesis by blast
qed

text \<open>The sample's hash tells texts of different lengths apart.\<close>

lemma toy_sha_inj:
  assumes "distinct (map length bs)"
  shows "inj_on toy_sha (set bs)"
proof (rule inj_onI)
  fix b b'
  assume b: "b \<in> set bs" "b' \<in> set bs" and eq: "toy_sha b = toy_sha b'"
  have zeros: "nat_of_digits (replicate k CHR ''0'' @ s) = nat_of_digits s" for k s
    by (induction k) (simp_all add: nat_of_digits_def digit_val_def code_def)
  from eq have "nat_of_digits (toy_sha b) = nat_of_digits (toy_sha b')" by simp
  then have "length b = length b'" by (simp add: toy_sha_def zeros)
  moreover have "inj_on length (set bs)" using assms by (simp add: distinct_map)
  ultimately show "b = b'" using b by (blast dest: inj_onD)
qed

definition toy_bodies :: "string list" where
  "toy_bodies = map tm_data toy_headers"

lemma toy_bodies_distinct: "distinct (map length toy_bodies)"
  by code_simp

lemma image_digest_pins_witness:
  "\<exists>manifest config layers. index manifest ''config'' = Inr config \<and> index manifest ''layers'' = Inr (JList layers) \<and>
     (\<exists>selected. image_record toy_digest = image_record selected \<and> (\<exists>data. decode data = Inr manifest \<and>
        stored toy_host (oci_members toy_headers) selected data \<and> stored toy_host (oci_members toy_headers) selected data)) \<and>
     (\<forall>item\<in>set (config # layers). \<exists>d data. index item ''digest'' = Inr (JStr d) \<and>
        stored toy_host (oci_members toy_headers) d data \<and> stored toy_host (oci_members toy_headers) d data)"
proof (rule image_digest_pins [OF toy_image_identity toy_image_identity])
  show "untar toy_host [] = Inr toy_headers" "untar toy_host [] = Inr toy_headers"
    by (simp_all add: toy_host_def)
  from toy_sha_inj [OF toy_bodies_distinct] have "inj_on (sha256 toy_host) (set toy_bodies)"
    by (simp add: inj_on_def)
  then show "inj_on (sha256 toy_host) (tm_data ` (set toy_headers \<union> set toy_headers))"
    by (simp add: toy_bodies_def)
qed



text \<open>
  No value can forge an output. Whatever the values are, the runner reads back from the output file
  the names and texts of the first n of them, in order and nothing else; all of them when the loop ends
  without an error.
\<close>
theorem outputs_read_back:
  assumes "output_lines h vs = (t, r)"
  shows "\<exists>n. read_outputs t = map (\<lambda>(k, v). (k, output_text h v)) (take n vs) \<and> (r = Inr () \<longrightarrow> n = length vs)"
proof -
  from output_lines_prefix [OF assms] obtain n where
    "output_lines h (take n vs) = (t, Inr ())" "r = Inr () \<longrightarrow> n = length vs" by blast
  then show ?thesis using read_outputs_lines by blast
qed

lemma outputs_read_back_witness:
  "\<exists>n. read_outputs (''head=a=b'' @ [newline]) = map (\<lambda>(k, v). (k, output_text toy_host v))
      (take n [(''head'', JStr ''a=b''), (''digest'', JStr [newline])]) \<and>
     ((Inl (refuse ''output injection'') :: unit result) = Inr () \<longrightarrow> n = length [(''head'', JStr ''a=b''), (''digest'', JStr [newline])])"
  by (rule outputs_read_back) code_simp

text \<open>
  An accepted source checkout is the approved one: HEAD and its tree are the approved commit and tree,
  \<open>git status\<close> prints nothing, and the workflow file and both pin files have the approved hashes.
\<close>
theorem verify_source_sound:
  assumes "verify_source h git t ids = Inr u"
  shows "(\<exists>head tree clean. git [''rev-parse'', ''HEAD''] = Inr head \<and> index ids ''towerCommit'' = Inr (JStr (strip head)) \<and>
       git [''rev-parse'', ''HEAD^{tree}''] = Inr tree \<and> index ids ''towerTree'' = Inr (JStr (strip tree)) \<and>
       git [''status'', ''--porcelain'', ''--untracked-files=all''] = Inr clean \<and> strip clean = []) \<and>
     (\<exists>b. t CANDIDATE_WORKFLOW = Some (RegFile b) \<and> index ids ''workflowSha256'' = Inr (JStr (sha256 h b))) \<and>
     (\<exists>b. t ''build_files/firewall/snitchwatch-system-pins.json'' = Some (RegFile b) \<and>
        index ids ''bridgePinsSha256'' = Inr (JStr (sha256 h b))) \<and>
     (\<exists>b. t ''build_files/firewall/snitchwatch-system-daemon-pins.json'' = Some (RegFile b) \<and>
        index ids ''daemonPinsSha256'' = Inr (JStr (sha256 h b)))"
  using assms
  by (auto simp: verify_source_def Let_def demand_eq_Inr rbind_eq_Inr all_of_eq_True index_is_True file_sha_eq_Inr)

definition src_git :: "string list \<Rightarrow> string result" where
  "src_git args = Inr (if hd args = ''status'' then [] else h40 @ [newline])"

definition src_tree :: tree where
  "src_tree = map_of [(CANDIDATE_WORKFLOW, RegFile ''on: push''),
     (''build_files/firewall/snitchwatch-system-pins.json'', RegFile (canonical toy_host0 (JObj
        [(''sourceCommit'', JStr h40), (''sourceTree'', JStr h40), (''submoduleCommit'', JStr h40)]))),
     (''build_files/firewall/snitchwatch-system-daemon-pins.json'', RegFile ''daemon'')]"

definition src_ids :: json where
  "src_ids = JObj [(''towerCommit'', JStr h40), (''towerTree'', JStr h40), (''sourceCommit'', JStr h40),
     (''sourceTree'', JStr h40), (''submoduleCommit'', JStr h40), (''workflowSha256'', JStr (toy_sha ''on: push'')),
     (''bridgePinsSha256'', JStr (text_sha (JObj
        [(''sourceCommit'', JStr h40), (''sourceTree'', JStr h40), (''submoduleCommit'', JStr h40)]))),
     (''daemonPinsSha256'', JStr (toy_sha ''daemon''))]"

lemma verify_source_sound_witness:
  "(\<exists>head tree clean. src_git [''rev-parse'', ''HEAD''] = Inr head \<and> index src_ids ''towerCommit'' = Inr (JStr (strip head)) \<and>
       src_git [''rev-parse'', ''HEAD^{tree}''] = Inr tree \<and> index src_ids ''towerTree'' = Inr (JStr (strip tree)) \<and>
       src_git [''status'', ''--porcelain'', ''--untracked-files=all''] = Inr clean \<and> strip clean = []) \<and>
     (\<exists>b. src_tree CANDIDATE_WORKFLOW = Some (RegFile b) \<and> index src_ids ''workflowSha256'' = Inr (JStr (sha256 toy_host b))) \<and>
     (\<exists>b. src_tree ''build_files/firewall/snitchwatch-system-pins.json'' = Some (RegFile b) \<and>
        index src_ids ''bridgePinsSha256'' = Inr (JStr (sha256 toy_host b))) \<and>
     (\<exists>b. src_tree ''build_files/firewall/snitchwatch-system-daemon-pins.json'' = Some (RegFile b) \<and>
        index src_ids ''daemonPinsSha256'' = Inr (JStr (sha256 toy_host b)))"
proof (rule verify_source_sound)
  show "verify_source toy_host src_git src_tree src_ids = Inr ()" by code_simp
qed

text \<open>
  What the candidate job publishes is the digest of an image that passed. When the job ends without an
  error, the environment names this repository, the reviewed head and the first attempt, the candidate
  directory was accepted for that head and run, and the \<open>digest\<close> output is the manifest digest recorded
  in its metadata.
\<close>
theorem main_publishes_validated:
  assumes "main h git env Candidate ctl data src = (t, Inr ())"
  shows "\<exists>head rid n c d. env ''R13_CANDIDATE_HEAD'' = Some head \<and> env ''GITHUB_SHA'' = Some head \<and>
     env ''GITHUB_REPOSITORY'' = Some REPOSITORY \<and> env ''GITHUB_RUN_ATTEMPT'' = Some ''1'' \<and>
     env ''GITHUB_RUN_ID'' = Some rid \<and> py_int rid = Some n \<and>
     validate_candidate h ctl data head n = Inr c \<and> index2 c ''image'' ''manifestDigest'' = Inr d \<and>
     map_of (read_outputs t) ''digest'' = Some (output_text h d) \<and> map_of (read_outputs t) ''head'' = Some head"
proof -
  let ?head = "env_or_empty env ''R13_CANDIDATE_HEAD''"
  from assms obtain rid n c d hs where
    x: "context_ok env ?head (env_or_empty env ''GITHUB_REF'') (env_or_empty env ''GITHUB_WORKFLOW_REF'')
           (env_or_empty env ''R13_CONTROL_HEAD'') = Inr ()"
      "env ''GITHUB_RUN_ID'' = Some rid" "py_int rid = Some n" "validate_candidate h ctl data ?head n = Inr c"
      "index2 c ''image'' ''manifestDigest'' = Inr d"
      "output_lines h [(''digest'', d), (''hashes'', hs), (''head'', JStr ?head), (''run_id'', JStr rid)] = (t, Inr ())"
    by (auto simp: main_def Let_def rbind_eq_Inr rbind_eq_Inl simp del: output_lines.simps
        split: sum.splits option.splits)
  have "env ''R13_CANDIDATE_HEAD'' = Some ?head"
    using x(1) by (auto simp: context_ok_def rbind_eq_Inr hex_value_eq_Inr env_or_empty_def split: option.splits)
  moreover have "read_outputs t = [(''digest'', output_text h d), (''hashes'', output_text h hs),
      (''head'', ?head), (''run_id'', rid)]"
    using read_outputs_lines [OF x(6)] by (simp add: output_text_def)
  ultimately show ?thesis
    using x(1-5) by (auto simp: context_ok_def rbind_eq_Inr require_eq_Inr)
qed

definition toy_env :: "string \<Rightarrow> string option" where
  "toy_env = map_of [(''R13_CANDIDATE_HEAD'', h40), (''R13_CONTROL_HEAD'', h40), (''GITHUB_SHA'', h40),
     (''GITHUB_REPOSITORY'', REPOSITORY), (''GITHUB_EVENT_NAME'', ''push''), (''GITHUB_REF'', CANDIDATE_REF),
     (''GITHUB_WORKFLOW_REF'', REPOSITORY @ ''/'' @ CANDIDATE_WORKFLOW @ ''@'' @ CANDIDATE_REF),
     (''GITHUB_RUN_ATTEMPT'', ''1''), (''GITHUB_RUN_ID'', ''7'')]"

definition toy_outputs :: "string \<times> unit result" where
  "toy_outputs = main toy_host src_git toy_env Candidate toy_ctl toy_data src_tree"

definition toy_dir_hashes :: json where
  "toy_dir_hashes = JObj (map (\<lambda>(n, b). (n, JStr (case b of RegFile b \<Rightarrow> toy_sha b | _ \<Rightarrow> []))) toy_data)"

lemma toy_outputs_run:
  "toy_outputs = output_lines toy_host [(''digest'', JStr toy_digest), (''hashes'', toy_dir_hashes),
     (''head'', JStr h40), (''run_id'', JStr ''7'')]"
proof -
  have "context_ok toy_env (env_or_empty toy_env ''R13_CANDIDATE_HEAD'') (env_or_empty toy_env ''GITHUB_REF'')
      (env_or_empty toy_env ''GITHUB_WORKFLOW_REF'') (env_or_empty toy_env ''R13_CONTROL_HEAD'') = Inr ()"
    by code_simp
  moreover have "dir_hashes toy_host toy_data = Inr toy_dir_hashes"
    by (simp add: dir_hashes_def toy_data_def file_sha_def toy_dir_hashes_def)
  moreover have "index2 toy_candidate ''image'' ''manifestDigest'' = Inr (JStr toy_digest)"
    by (simp add: toy_candidate_def index2_def toy_image_def image_record_def)
  moreover have "py_int ''7'' = Some 7" by code_simp
  moreover have "env_or_empty toy_env ''R13_CANDIDATE_HEAD'' = h40" "toy_env ''GITHUB_RUN_ID'' = Some ''7''"
    by (simp_all add: toy_env_def env_or_empty_def)
  ultimately show ?thesis
    using toy_accepted by (simp add: toy_outputs_def main_def Let_def del: output_lines.simps)
qed

lemma main_publishes_validated_witness:
  "\<exists>head rid n c d. toy_env ''R13_CANDIDATE_HEAD'' = Some head \<and> toy_env ''GITHUB_SHA'' = Some head \<and>
     toy_env ''GITHUB_REPOSITORY'' = Some REPOSITORY \<and> toy_env ''GITHUB_RUN_ATTEMPT'' = Some ''1'' \<and>
     toy_env ''GITHUB_RUN_ID'' = Some rid \<and> py_int rid = Some n \<and>
     validate_candidate toy_host toy_ctl toy_data head n = Inr c \<and> index2 c ''image'' ''manifestDigest'' = Inr d \<and>
     map_of (read_outputs (fst toy_outputs)) ''digest'' = Some (output_text toy_host d) \<and>
     map_of (read_outputs (fst toy_outputs)) ''head'' = Some head"
proof (rule main_publishes_validated)
  have "snd toy_outputs = Inr ()" unfolding toy_outputs_run by code_simp
  then show "main toy_host src_git toy_env Candidate toy_ctl toy_data src_tree = (fst toy_outputs, Inr ())"
    by (metis prod.collapse toy_outputs_def)
qed

end
