(* ===== verification/Handoff.thy ===== *)
theory Handoff
  imports Files
begin

text \<open>
  \<^verbatim>\<open>build_files/firewall/snitchwatch-system-handoff.py\<close>: the guards between the stages of the image build.
  \<open>export\<close> copies the files a stage may hand over, \<open>check\<close> refuses everything else on the receiving side,
  \<open>merge\<close> adds a checked tree to another one, \<open>compare_bridge\<close> compares two builds byte by byte and
  \<open>probe_network\<close> shows that a stage has, or has not, a network.

  A tree is an \<open>fsnode\<close>; the data and the children of a link are those its target shows. The connect and
  resolve calls, SHA-256, the reading of a gzip tar for a diagnosis and \<open>str\<close> of a pin that is no string
  (\<open>show\<close>) are arguments. The trusted daemon verifier is the record of its four constants.
\<close>

section \<open>Allowlists\<close>

definition SCANNER_BINARIES :: "string list" where
  "SCANNER_BINARIES = [''snitchwatch-scanner-privileged'', ''snitchwatch-scanner-broker'']"

definition SCANNER_FILES :: "string list" where
  "SCANNER_FILES = [''provenance.json'', ''source-inputs.json'', ''dependency-closure.json'', ''THIRD-PARTY-LICENSES.md'',
     ''LICENSE'', ''build.log'', ''repro.log'', ''test.log''] @ map (\<lambda>n. n @ ''.ldd'') SCANNER_BINARIES"

definition REFUSED_XATTRS :: "string list" where
  "REFUSED_XATTRS = [''security.capability'', ''system.posix_acl_access'', ''system.posix_acl_default'']"

definition MAX_TARBALL :: nat where "MAX_TARBALL = 64 * 1024 * 1024"
definition MAX_TAR :: nat where "MAX_TAR = 256 * 1024 * 1024"
definition MAX_LISTED :: nat where "MAX_LISTED = 20"

record daemon_verifier =
  dv_candidate :: string
  dv_verifier :: string
  dv_manifest :: string
  dv_required :: "string list"

text \<open>Modes 0755 and 0644; a path relative to the handed-over root with its exact mode.\<close>

definition exec_mode :: "12 word" where "exec_mode = 493"
definition data_mode :: "12 word" where "data_mode = 420"

type_synonym allow = "(string \<times> 12 word) list"

definition bridge_tarball :: "(json \<Rightarrow> string) \<Rightarrow> json \<Rightarrow> string result" where
  "bridge_tarball show pins = rbind (index pins ''bridgeVersion'') (\<lambda>v.
     Inr (''snitchwatch-bridge-'' @ (case v of JStr s \<Rightarrow> s | _ \<Rightarrow> show v) @ ''-x86_64.tar.gz''))"

definition allowlist :: "(json \<Rightarrow> string) \<Rightarrow> string \<Rightarrow> json \<Rightarrow> daemon_verifier option \<Rightarrow> allow result" where
  "allowlist show kind pins verifier =
     (if kind = ''scanner'' then Inr (map (\<lambda>n. (n, exec_mode)) SCANNER_BINARIES @ map (\<lambda>n. (n, data_mode)) SCANNER_FILES)
      else if kind = ''bridge'' then rbind (bridge_tarball show pins) (\<lambda>t.
        Inr [(t, data_mode), (t @ ''.sha256'', data_mode), (''build.log'', data_mode), (''repro.log'', data_mode)])
      else if kind = ''bridge-rebuild'' then rbind (bridge_tarball show pins) (\<lambda>t. Inr [(t, data_mode)])
      else if kind = ''daemon'' then (case verifier of
          None \<Rightarrow> Inl (Refusal ''daemon allowlist needs the trusted daemon verifier'')
        | Some v \<Rightarrow> Inr (map (\<lambda>n. (dropWhile (\<lambda>c. c = CHR ''/'') n,
              if n = dv_candidate v \<or> n = dv_verifier v then exec_mode else data_mode)) (remdups (dv_required v @ [dv_manifest v]))))
      else Inl (Refusal (''unknown handoff kind: '' @ kind)))"

text \<open>The proper parents of a relative path without \<open>.\<close>.\<close>

definition parents_of :: "string \<Rightarrow> string list" where
  "parents_of p = (let cs = components p in map (\<lambda>i. join ''/'' (take i cs)) [1..<length cs])"

definition ancestors :: "string list \<Rightarrow> string list" where
  "ancestors names = concat (map parents_of names)"

section \<open>Checking a tree\<close>

definition require_no_refused_xattrs :: "string \<Rightarrow> meta \<Rightarrow> unit result" where
  "require_no_refused_xattrs rel m = (case m_xattrs m of
       Inl e \<Rightarrow> require (e = OSError ''ENOTSUP'') (Refusal (''cannot list extended attributes of '' @ rel)) (Inr ())
     | Inr present \<Rightarrow> rall (\<lambda>n. require (n \<notin> set REFUSED_XATTRS)
         (Refusal (rel @ '' carries refused extended attribute '' @ n)) (Inr ())) present)"

definition special_bits :: "meta \<Rightarrow> bool" where
  "special_bits m \<longleftrightarrow> m_mode m AND 3584 \<noteq> 0"

text \<open>What \<open>os.walk\<close> finds below a directory; a directory it cannot list is empty to it.\<close>

definition rel_join :: "string \<Rightarrow> string \<Rightarrow> string" where
  "rel_join base n = (if base = ''.'' then n else base @ ''/'' @ n)"

function entries_below :: "string \<Rightarrow> fsnode \<Rightarrow> (string \<times> meta) list" where
  "entries_below rel (FsNode m d b None) = []"
| "entries_below rel (FsNode m d b (Some ks)) =
     map (\<lambda>nc. (rel_join rel (fst nc), f_meta (snd nc))) (sort_key fst ks)
     @ concat (map (\<lambda>nc. entries_below (rel_join rel (fst nc)) (snd nc))
         (filter (\<lambda>nc. f_isdir (snd nc) \<and> m_kind (f_meta (snd nc)) \<noteq> KLink) ks))"
  by pat_completeness auto

termination
  by (relation "measure (\<lambda>(_, t). size t)") (auto simp: termination_simp)

text \<open>One entry: the files that may be there are collected.\<close>

definition check_entry :: "string \<Rightarrow> allow \<Rightarrow> nat \<times> nat \<Rightarrow> string \<times> meta \<Rightarrow> string list \<Rightarrow> string list result" where
  "check_entry kind expected owner pm found = (case pm of (rel, m) \<Rightarrow>
     require ((m_uid m, m_gid m) = owner) (Refusal (kind @ '' handoff entry '' @ rel @ '' has the wrong owner''))
     (require (\<not> special_bits m) (Refusal (kind @ '' handoff entry '' @ rel @ '' has a setuid/setgid/sticky bit''))
     (rbind (require_no_refused_xattrs rel m) (\<lambda>_.
      case m_kind m of
        KDir \<Rightarrow>
          require (rel = ''.'' \<or> rel \<in> set (ancestors (map fst expected))) (Refusal (''unexpected directory in '' @ kind @ '' handoff: '' @ rel))
          (require (\<not> go_writable m) (Refusal (kind @ '' handoff directory '' @ rel @ '' is group/other writable''))
          (Inr found))
      | KReg \<Rightarrow> (case map_of expected rel of
          None \<Rightarrow> Inl (Refusal (''unexpected file in '' @ kind @ '' handoff: '' @ rel))
        | Some mode \<Rightarrow>
          require (m_mode m = mode) (Refusal (kind @ '' handoff file '' @ rel @ '' has the wrong mode''))
          (require (m_nlink m = 1) (Refusal (kind @ '' handoff file '' @ rel @ '' is hard-linked''))
          (Inr (found @ [rel]))))
      | _ \<Rightarrow> Inl (Refusal (kind @ '' handoff entry '' @ rel @ '' is a symlink or special file''))))))"

definition check :: "(json \<Rightarrow> string) \<Rightarrow> string \<Rightarrow> fsnode \<Rightarrow> json \<Rightarrow> daemon_verifier option \<Rightarrow> nat \<times> nat \<Rightarrow> string list result" where
  "check show kind t pins verifier owner =
     rbind (allowlist show kind pins verifier) (\<lambda>expected.
     require (m_kind (f_meta t) = KDir) (Refusal (kind @ '' handoff root is not a real directory''))
     (rbind (rfold (check_entry kind expected owner) ((''.'', f_meta t) # entries_below ''.'' t) []) (\<lambda>found.
      let missing = sort (remdups (filter (\<lambda>n. n \<notin> set found) (map fst expected))) in
      require (missing = []) (Refusal (kind @ '' handoff is missing: '' @ join '', '' missing))
        (Inr (sort (remdups found))))))"

section \<open>Exporting\<close>

definition read_regular :: "string \<Rightarrow> fsnode \<Rightarrow> string \<Rightarrow> string result" where
  "read_regular kind source rel = (case node_at (components rel) source of
       None \<Rightarrow> Inl (Refusal (kind @ '' export source '' @ rel @ '' cannot be opened without following links''))
     | Some t \<Rightarrow>
       require (m_kind (f_meta t) \<noteq> KLink \<and> m_kind (f_meta t) \<noteq> KSock)
         (Refusal (kind @ '' export source '' @ rel @ '' cannot be opened without following links''))
       (require (m_kind (f_meta t) = KReg) (Refusal (kind @ '' export source '' @ rel @ '' is not a regular file''))
       (require (m_nlink (f_meta t) = 1) (Refusal (kind @ '' export source '' @ rel @ '' is hard-linked''))
       (Inr (f_data t)))))"

definition new_file :: "meta \<Rightarrow> 12 word \<Rightarrow> string \<Rightarrow> fsnode" where
  "new_file m mode data = FsNode (m\<lparr>m_kind := KReg, m_mode := mode, m_nlink := 1, m_xattrs := Inr []\<rparr>) False data (Some [])"

definition set_kid :: "string \<Rightarrow> fsnode \<Rightarrow> fsnode \<Rightarrow> fsnode" where
  "set_kid n c t = FsNode (f_meta t) (f_isdir t) (f_data t) (map_option (dict_set n c) (f_kids t))"

definition chmod :: "12 word \<Rightarrow> fsnode \<Rightarrow> fsnode" where
  "chmod mode t = FsNode ((f_meta t)\<lparr>m_mode := mode\<rparr>) (f_isdir t) (f_data t) (f_kids t)"

text \<open>
  \<open>put m cs f t\<close> makes the directories of the path \<open>cs\<close> with mode 0755 and creates the file \<open>f\<close>: neither a
  file on the way nor an existing target is accepted.
\<close>

fun put :: "meta \<Rightarrow> string list \<Rightarrow> fsnode \<Rightarrow> fsnode \<Rightarrow> fsnode result" where
  "put m [] f t = Inl (OSError ''FileExistsError'')"
| "put m [n] f t = require (kid n t = None) (OSError ''FileExistsError'') (Inr (add_kid n f t))"
| "put m (n # cs) f t = (case kid n t of
       None \<Rightarrow> rbind (put m cs f (new_dir m)) (\<lambda>k. Inr (add_kid n k t))
     | Some k \<Rightarrow> require (f_isdir k) (OSError ''FileExistsError'')
         (rbind (put m cs f (chmod exec_mode k)) (\<lambda>k. Inr (set_kid n k t))))"

definition export_one :: "string \<Rightarrow> meta \<Rightarrow> fsnode \<Rightarrow> string \<times> 12 word \<Rightarrow> fsnode \<Rightarrow> fsnode result" where
  "export_one kind creator source rm dest = (case rm of (rel, mode) \<Rightarrow>
     rbind (read_regular kind source rel) (\<lambda>data. put creator (components rel) (new_file creator mode data) dest))"

text \<open>The new destination belongs to the process that exports: \<open>creator\<close>.\<close>

definition export :: "(json \<Rightarrow> string) \<Rightarrow> string \<Rightarrow> meta \<Rightarrow> fsnode \<Rightarrow> fsnode option \<Rightarrow> json \<Rightarrow> daemon_verifier option \<Rightarrow>
    (fsnode \<times> string list) result" where
  "export show kind creator source dest pins verifier =
     rbind (allowlist show kind pins verifier) (\<lambda>expected.
     require (dest = None) (Refusal (kind @ '' handoff destination already exists''))
     (rbind (rfold (export_one kind creator source) (sort_key fst expected) (new_dir creator)) (\<lambda>t.
        Inr (t, sort (map fst expected)))))"

section \<open>Merging\<close>

definition merge_file :: "meta \<Rightarrow> string \<Rightarrow> string \<times> fsnode \<Rightarrow> fsnode \<times> string list \<Rightarrow> (fsnode \<times> string list) result" where
  "merge_file creator rel nc da = (case (nc, da) of ((n, c), (dest, added)) \<Rightarrow>
     require (kid n dest = None) (Refusal (''merge overlap: '' @ rel_join rel n @ '' already exists in the destination''))
       (Inr (add_kid n (new_file creator (m_mode (f_meta c)) (f_data c)) dest, added @ [rel_join rel n])))"

definition merge_base :: "meta \<Rightarrow> string \<Rightarrow> fsnode option \<Rightarrow> fsnode result" where
  "merge_base creator rel dest = (case dest of
       None \<Rightarrow> Inr (new_dir creator)
     | Some d \<Rightarrow> require (m_kind (f_meta d) = KDir)
         (Refusal (''merge overlap: '' @ rel @ '' exists in the destination and is not a directory'')) (Inr d))"

text \<open>The directories \<open>os.walk\<close> descends into, in order.\<close>

definition real_dirs :: "fsnode \<Rightarrow> (string \<times> fsnode) list" where
  "real_dirs t = (case f_kids t of None \<Rightarrow> []
     | Some ks \<Rightarrow> filter (\<lambda>nc. m_kind (f_meta (snd nc)) \<noteq> KLink) (subdirs_of ks))"

definition plain_files :: "fsnode \<Rightarrow> (string \<times> fsnode) list" where
  "plain_files t = (case f_kids t of None \<Rightarrow> [] | Some ks \<Rightarrow> files_of ks)"

lemma size_real_dir [termination_simp]: "(n, c) \<in> set (real_dirs t) \<Longrightarrow> size c < size t"
  by (cases t) (auto simp: real_dirs_def termination_simp split: option.splits)

function merge_dir :: "meta \<Rightarrow> string \<Rightarrow> fsnode \<Rightarrow> fsnode option \<Rightarrow> (fsnode \<times> string list) result" where
  "merge_dir creator rel source dest =
     rbind (merge_base creator rel dest) (\<lambda>d.
     rbind (rfold (merge_file creator rel) (plain_files source) (d, [])) (\<lambda>da.
     rfold (\<lambda>nc da. rbind (merge_dir creator (rel_join rel (fst nc)) (snd nc) (kid (fst nc) (fst da))) (\<lambda>ka.
         Inr (set_kid (fst nc) (fst ka) (fst da), snd da @ snd ka))) (real_dirs source) da))"
  by pat_completeness auto

termination
  by (relation "measure (\<lambda>(_, _, t, _). size t)") (auto simp: termination_simp)

declare merge_dir.simps [simp del]

definition merge :: "meta \<Rightarrow> fsnode \<Rightarrow> fsnode \<Rightarrow> (fsnode \<times> string list) result" where
  "merge creator source dest = require (m_kind (f_meta dest) = KDir) (Refusal ''merge destination is not a real directory'')
     (merge_dir creator ''.'' source (Some dest))"

section \<open>Comparing two builds\<close>

definition read_tarball :: "fsnode option \<Rightarrow> string \<Rightarrow> (string \<times> nat \<times> nat) result" where
  "read_tarball file label = (case file of
       None \<Rightarrow> Inl (Refusal (''compare: the '' @ label @ '' tarball is missing''))
     | Some t \<Rightarrow>
       require (m_kind (f_meta t) = KReg) (Refusal ''compare: a symlink or special file'')
       (require (m_nlink (f_meta t) = 1) (Refusal ''compare: hard-linked'')
       (let data = take (MAX_TARBALL + 1) (f_data t) in
        require (length data \<le> MAX_TARBALL) (Refusal ''compare: too large'')
         (Inr (data, m_dev (f_meta t), m_ino (f_meta t))))))"

text \<open>The first index where two byte strings differ, or the shorter length.\<close>

fun first_difference :: "string \<Rightarrow> string \<Rightarrow> nat" where
  "first_difference (a # s) (b # t) = (if a \<noteq> b then 0 else Suc (first_difference s t))"
| "first_difference _ _ = 0"

definition differing :: "(string \<times> string) list \<Rightarrow> (string \<times> string) list \<Rightarrow> string list" where
  "differing a b = sort (remdups (filter (\<lambda>n. map_of a n \<noteq> map_of b n) (map fst a @ map fst b)))"

definition compare_detail :: "host \<Rightarrow> (string \<Rightarrow> (string \<times> string) list option) \<Rightarrow> (string \<Rightarrow> string) \<Rightarrow> string \<Rightarrow> string \<Rightarrow> string" where
  "compare_detail H tar_members repr first second =
     ''first sha256 '' @ sha256 H first @ '' ('' @ nat_str (length first) @ '' bytes), rebuild sha256 '' @ sha256 H second
     @ '' ('' @ nat_str (length second) @ '' bytes), first differing byte at offset '' @ nat_str (first_difference first second)
     @ (case (tar_members first, tar_members second) of
          (Some a, Some b) \<Rightarrow> (let d = differing a b; shown = join '', '' (map repr (take MAX_LISTED d)) in
            ''; differing members: '' @ (if shown = [] then ''(none: tar/gzip metadata only)'' else shown)
            @ (if MAX_LISTED < length d then '' (+'' @ nat_str (length d - MAX_LISTED) @ '' more)'' else []))
        | _ \<Rightarrow> ''; members not listable (not a gzip tar within '' @ nat_str MAX_TAR @ '' bytes, members included)'')"

record compared =
  cp_sha256 :: string
  cp_size :: nat

definition compare_bridge :: "host \<Rightarrow> (string \<Rightarrow> (string \<times> string) list option) \<Rightarrow> (string \<Rightarrow> string) \<Rightarrow> (json \<Rightarrow> string) \<Rightarrow>
    fsnode \<Rightarrow> fsnode \<Rightarrow> json \<Rightarrow> compared result" where
  "compare_bridge H tar_members repr show first_root rebuild_root pins =
     rbind (bridge_tarball show pins) (\<lambda>name.
     rbind (read_tarball (node_at (components name) first_root) ''first'') (\<lambda>(first, first_id).
     rbind (read_tarball (node_at (components name) rebuild_root) ''rebuild'') (\<lambda>(second, second_id).
     require (first_id \<noteq> second_id) (Refusal ''compare: both tarballs are the same file; that is not a second build'')
     (if first = second then Inr \<lparr>cp_sha256 = sha256 H first, cp_size = length first\<rparr>
      else Inl (Refusal (''bridge rebuild differs from the first bridge build: '' @ compare_detail H tar_members repr first second))))))"

section \<open>Probing the network\<close>

definition PROBE_ADDRESSES :: "(string \<times> nat) list" where
  "PROBE_ADDRESSES = [(''1.1.1.1'', 443), (''2606:4700:4700::1111'', 443)]"

definition PROBE_NAME :: "string \<times> nat" where
  "PROBE_NAME = (''registry.fedoraproject.org'', 443)"

definition interfaces :: "string \<Rightarrow> string list" where
  "interfaces dev = sort (map (\<lambda>l. strip (fst (partition_on CHR '':'' l)))
     (filter (\<lambda>l. CHR '':'' \<in> set l) (drop 2 (splitlines dev))))"

text \<open>A connect gives nothing when it succeeds and the text of its error otherwise; a resolve gives the first address.\<close>

record network =
  n_connect :: "string \<Rightarrow> nat \<Rightarrow> string option"
  n_resolve :: "string \<Rightarrow> nat \<Rightarrow> string + string"

definition target_name :: "string \<Rightarrow> nat \<Rightarrow> string" where
  "target_name h p = h @ '':'' @ nat_str p"

definition attempts :: "network \<Rightarrow> (string \<times> string option) list" where
  "attempts N = map (\<lambda>(h, p). (target_name h p, n_connect N h p)) PROBE_ADDRESSES
     @ (case PROBE_NAME of (h, p) \<Rightarrow> (case n_resolve N h p of
          Inl e \<Rightarrow> [(''dns '' @ h, Some (''resolution failed: '' @ e))]
        | Inr a \<Rightarrow> [(''dns '' @ h, Some ''resolved (not a reachability signal)''),
                   (target_name h p @ '' ('' @ a @ '')'', n_connect N a p)]))"

record probed =
  pr_interfaces :: "string list"
  pr_results :: "(string \<times> string) list"

definition probe_network :: "network \<Rightarrow> string \<Rightarrow> string \<Rightarrow> probed result" where
  "probe_network N expect dev =
     (let names = interfaces dev; results = attempts N; reached = map fst (filter (\<lambda>r. snd r = None) results);
          report = \<lparr>pr_interfaces = names, pr_results = map (\<lambda>(t, e). (t, case e of None \<Rightarrow> ''connected'' | Some x \<Rightarrow> x)) results\<rparr> in
      if expect = ''offline'' then
        require (names = [''lo'']) (Refusal ''network probe: interfaces present, want only lo; RUN --network=none is not in effect'')
        (require (reached = []) (Refusal (''network probe: outbound connection succeeded to '' @ join '', '' reached
            @ ''; RUN --network=none is not enforced''))
        (Inr report))
      else if expect = ''online'' then
        require (reached \<noteq> []) (Refusal ''network probe positive control failed: no target reachable from a networked stage'') (Inr report)
      else Inl (Refusal ''probe expectation must be online or offline''))"

end
