(* ===== verification/Installed.thy ===== *)
theory Installed
  imports Files
begin

text \<open>
  What the verifiers of an installed image share: \<open>json.loads\<close> on the bytes of a file, the steps of
  \<open>read_file\<close> through the directories of the image, and \<open>Path.rglob\<close>.
\<close>

section \<open>Values\<close>

text \<open>
  \<open>json.loads\<close> on bytes. \<open>other\<close> is what it makes of the bytes the decoder of the model does not
  accept: errors, code points above 255, byte order marks, UTF-16 and UTF-32.
\<close>

definition json_bytes :: "(string \<Rightarrow> json result) \<Rightarrow> string \<Rightarrow> json result" where
  "json_bytes other data = (case utf8_decode data of
       None \<Rightarrow> other data
     | Some s \<Rightarrow> (case loads s of None \<Rightarrow> other data | Some v \<Rightarrow> Inr v))"

text \<open>\<open>a == b\<close> of two operands that may raise, and \<open>re.fullmatch('[0-9a-f]{n}', v)\<close>.\<close>

definition same :: "json result \<Rightarrow> json result \<Rightarrow> bool result" where
  "same a b = rbind a (\<lambda>x. rbind b (\<lambda>y. Inr (pyeq x y)))"

definition hex_match :: "nat \<Rightarrow> json \<Rightarrow> bool result" where
  "hex_match n v = rbind (json_str v) (\<lambda>s. Inr (length s = n \<and> list_all is_hex s))"

text \<open>\<open>v is True\<close>\<close>

definition get_identical :: "json \<Rightarrow> string \<Rightarrow> json \<Rightarrow> bool result" where
  "get_identical v k c = rbind (get v k) (\<lambda>x. Inr (x = c))"

lemma same_True [res_simps]: "same a b = Inr True \<longleftrightarrow> (\<exists>x y. a = Inr x \<and> b = Inr y \<and> pyeq x y)"
  by (auto simp: same_def rbind_eq_Inr)

lemma json_str_Inr [res_simps]: "json_str v = Inr s \<longleftrightarrow> v = JStr s"
  by (auto simp: json_str_def split: json.splits)

lemma hex_match_True [res_simps]: "hex_match n v = Inr True \<longleftrightarrow> (\<exists>s. v = JStr s \<and> length s = n \<and> list_all is_hex s)"
  by (auto simp: hex_match_def res_simps)

lemma get_identical_True [res_simps]: "get_identical v k c = Inr True \<longleftrightarrow> get v k = Inr c"
  by (auto simp: get_identical_def rbind_eq_Inr)

section \<open>Paths\<close>

text \<open>
  \<open>stat\<close> of a path below a directory, \<open>has_link\<close> whether one of its entries is a link, \<open>no_dotdot\<close>
  that no part is \<open>..\<close>.
\<close>

fun stat_at :: "string list \<Rightarrow> fsnode \<Rightarrow> fsnode result" where
  "stat_at [] t = Inr t"
| "stat_at (c # cs) t = (if f_isdir t then
       (case kid c t of None \<Rightarrow> Inl FileNotFoundError | Some k \<Rightarrow> stat_at cs k)
     else Inl (OSError ''NotADirectoryError''))"

fun has_link :: "string list \<Rightarrow> fsnode \<Rightarrow> bool" where
  "has_link [] t = False"
| "has_link (c # cs) t = (case kid c t of None \<Rightarrow> False | Some k \<Rightarrow> m_kind (f_meta k) = KLink \<or> has_link cs k)"

definition no_dotdot :: "string \<Rightarrow> bool" where
  "no_dotdot p \<longleftrightarrow> ''..'' \<notin> set (components p)"

text \<open>The last part of a path, \<open>Path(p).name\<close>.\<close>

definition base_name :: "string \<Rightarrow> string" where
  "base_name p = (case components p of [] \<Rightarrow> [] | cs \<Rightarrow> last cs)"

text \<open>The file a verifier accepts at a path: no link on the way, a regular file of exactly this mode.\<close>

definition plain_file :: "fsnode \<Rightarrow> string \<Rightarrow> 12 word \<Rightarrow> fsnode \<Rightarrow> bool" where
  "plain_file t name mode f \<longleftrightarrow> \<not> has_link (components name) t \<and> stat_at (components name) t = Inr f \<and>
     m_kind (f_meta f) = KReg \<and> m_mode (f_meta f) = mode"

lemma plain_file_unique: "plain_file t name mode f \<Longrightarrow> plain_file t name mode' g \<Longrightarrow> f = g \<and> mode = mode'"
  by (simp add: plain_file_def)

text \<open>
  \<open>base.rglob('*')\<close>: every entry below a directory with its parts relative to it; links are yielded
  and not entered, a directory that cannot be listed is empty.
\<close>

function rglob :: "fsnode \<Rightarrow> (string list \<times> fsnode) list" where
  "rglob (FsNode m d b None) = []"
| "rglob (FsNode m d b (Some ks)) = concat (map (\<lambda>nc. ([fst nc], snd nc) #
     (if f_isdir (snd nc) \<and> m_kind (f_meta (snd nc)) \<noteq> KLink then map (\<lambda>px. (fst nc # fst px, snd px)) (rglob (snd nc)) else [])) ks)"
  by pat_completeness auto

termination
  by (relation "measure size") (auto simp: termination_simp)

text \<open>\<open>sorted(base.rglob('*')) if base.is_dir() else ()\<close> of a directory given by its path.\<close>

definition entries_of :: "fsnode \<Rightarrow> string \<Rightarrow> (string list \<times> fsnode) list" where
  "entries_of t dir = (case stat_at (components dir) t of
       Inl _ \<Rightarrow> []
     | Inr base \<Rightarrow> if f_isdir base then sort_key fst (rglob base) else [])"

definition rel_path :: "string \<Rightarrow> string list \<Rightarrow> string" where
  "rel_path dir ps = dir @ ''/'' @ join ''/'' ps"

section \<open>Inventories\<close>

text \<open>
  The contract of an inventory check. A verifier maps \<open>check\<close> over the entries of a manifest: file name and
  expected digest. The provider promises that a passed entry is at its path with the expected hash, and that
  a path has one content; the client gets that every name of the inventory is there with its digest.
\<close>

locale hashed_inventory =
  fixes check :: "string \<times> json \<Rightarrow> (string \<times> string) result"
    and holds_at :: "string \<Rightarrow> string \<Rightarrow> bool" and hash :: "string \<Rightarrow> string"
  assumes check_Inr: "check (n, e) = Inr (n', b) \<Longrightarrow> n' = n \<and> holds_at n b \<and> e = JStr (hash b)"
    and at_unique: "holds_at n b \<Longrightarrow> holds_at n b' \<Longrightarrow> b = b'"
begin

lemma checked: "rmap check items = Inr contents \<Longrightarrow>
    list_all2 (\<lambda>(n, e) (n', b). n' = n \<and> holds_at n b \<and> e = JStr (hash b)) items contents"
  unfolding rmap_eq_Inr by (erule list_all2_mono) (auto dest: check_Inr)

lemma keys: "rmap check items = Inr contents \<Longrightarrow> map fst contents = map fst items"
  by (drule checked) (induction items contents rule: list_all2_induct, auto)

lemma contents:
  assumes "rmap check items = Inr contents"
  shows "(n, b) \<in> set contents \<Longrightarrow> holds_at n b"
  using checked [OF assms] by (induction rule: list_all2_induct) auto

lemma digests:
  assumes "rmap check items = Inr contents"
  shows "(n, e) \<in> set items \<Longrightarrow> \<exists>b. holds_at n b \<and> e = JStr (hash b)"
  using checked [OF assms] by (induction rule: list_all2_induct) auto

lemma content_at: "rmap check items = Inr contents \<Longrightarrow> map_of contents n = Some b \<Longrightarrow> holds_at n b"
  using contents map_of_SomeD by metis

lemma digest_at: "rmap check items = Inr contents \<Longrightarrow> map_of items n = Some e \<Longrightarrow> \<exists>b. holds_at n b \<and> e = JStr (hash b)"
  using digests map_of_SomeD by metis

lemma complete:
  assumes "rmap check items = Inr contents"
  shows "n \<in> fst ` set items \<Longrightarrow> \<exists>b. holds_at n b \<and> map_of contents n = Some b"
  using checked [OF assms] by (induction rule: list_all2_induct) auto

lemma digest_of_content: "rmap check items = Inr contents \<Longrightarrow> map_of items n = Some e \<Longrightarrow> map_of contents n = Some b \<Longrightarrow> e = JStr (hash b)"
  using content_at digest_at at_unique by blast

end

end
