(* ===== verification/Overlay.thy ===== *)
theory Overlay
  imports Handoff Installed
begin

text \<open>
  What the two programs that compose an overlay share (\<^verbatim>\<open>snitchwatch-system-stage.py\<close> and
  \<^verbatim>\<open>snitchwatch-system-daemon-stage.py\<close>): files that are created or overwritten below the output directory, the hashes of
  inputs and of staged files, and the JSON records they write. The owner, device and inode of what root creates are an
  argument. A directory of the output that is a link is written through without its target being updated.
\<close>

section \<open>Files\<close>

text \<open>
  \<open>place m cs f t\<close> makes the missing directories of the path \<open>cs\<close> (\<open>mkdir(parents=True, exist_ok=True)\<close> with the
  umask 022 of the build) and creates \<open>f\<close>; neither a file on the way nor an existing target is accepted.
\<close>

fun place :: "meta \<Rightarrow> string list \<Rightarrow> fsnode \<Rightarrow> fsnode \<Rightarrow> fsnode result" where
  "place m [] f t = Inl (OSError ''FileExistsError'')"
| "place m [n] f t = require (kid n t = None) (OSError ''FileExistsError'') (Inr (add_kid n f t))"
| "place m (n # cs) f t = (case kid n t of
       None \<Rightarrow> rbind (place m cs f (new_dir m)) (\<lambda>k. Inr (add_kid n k t))
     | Some k \<Rightarrow> require (f_isdir k) (OSError ''FileExistsError'') (rbind (place m cs f k) (\<lambda>k. Inr (set_kid n k t))))"

text \<open>\<open>shutil.copyfile\<close> and \<open>chmod\<close>: missing directories are made, a regular file that is there is overwritten.\<close>

fun overwrite :: "12 word \<Rightarrow> string \<Rightarrow> string list \<Rightarrow> fsnode \<Rightarrow> fsnode" where
  "overwrite mode data [] t = FsNode ((f_meta t)\<lparr>m_mode := mode\<rparr>) (f_isdir t) data (f_kids t)"
| "overwrite mode data (c # cs) t = (case kid c t of None \<Rightarrow> t | Some k \<Rightarrow> set_kid c (overwrite mode data cs k) t)"

definition install :: "meta \<Rightarrow> string \<Rightarrow> 12 word \<Rightarrow> string \<Rightarrow> fsnode \<Rightarrow> fsnode result" where
  "install creator rel mode data out = (case node_at (components rel) out of
       None \<Rightarrow> place creator (components rel) (new_file creator mode data) out
     | Some f \<Rightarrow> require (m_kind (f_meta f) = KReg) (OSError ''not a regular file'') (Inr (overwrite mode data (components rel) out)))"

text \<open>\<open>symlink_to\<close>, which accepts no existing entry, and \<open>unlink\<close>.\<close>

definition new_link :: "meta \<Rightarrow> fsnode" where
  "new_link creator = FsNode (creator\<lparr>m_kind := KLink, m_mode := 511, m_nlink := 1, m_xattrs := Inr []\<rparr>) False [] None"

fun unlink :: "string list \<Rightarrow> fsnode \<Rightarrow> fsnode" where
  "unlink [] t = t"
| "unlink [c] t = FsNode (f_meta t) (f_isdir t) (f_data t) (map_option (filter (\<lambda>nc. fst nc \<noteq> c)) (f_kids t))"
| "unlink (c # cs) t = (case kid c t of None \<Rightarrow> t | Some k \<Rightarrow> set_kid c (unlink cs k) t)"

definition out_bytes :: "fsnode \<Rightarrow> string \<Rightarrow> string result" where
  "out_bytes out rel = rbind (stat_at (components rel) out) (\<lambda>f.
     require (m_kind (f_meta f) = KReg) (OSError ''not a regular file'') (Inr (f_data f)))"

definition out_sha :: "host \<Rightarrow> fsnode \<Rightarrow> string \<Rightarrow> string result" where
  "out_sha h out rel = rbind (out_bytes out rel) (\<lambda>b. Inr (sha256 h b))"

definition pinned_hash :: "host \<Rightarrow> string result \<Rightarrow> json result \<Rightarrow> bool result" where
  "pinned_hash h b expected = same (rbind b (\<lambda>b. Inr (JStr (sha256 h b)))) expected"

definition stage_copy :: "meta \<Rightarrow> string result \<times> string \<times> 12 word \<Rightarrow> fsnode \<Rightarrow> fsnode result" where
  "stage_copy creator c out = (case c of (source, rel, mode) \<Rightarrow> rbind source (\<lambda>b. install creator rel mode b out))"

text \<open>A path and its parents, up to the root.\<close>

definition chain_of :: "string \<Rightarrow> string list" where
  "chain_of path = (let cs = components path in map (\<lambda>i. ''/'' @ join ''/'' (take i cs)) (rev [0..<Suc (length cs)]))"

section \<open>Records\<close>

text \<open>A JSON object whose values are computed in order.\<close>

definition object_of :: "(string \<times> json result) list \<Rightarrow> json result" where
  "object_of kvs = rbind (rmap (\<lambda>(k, v). rbind v (\<lambda>v. Inr (k, v))) kvs) (\<lambda>d. Inr (JObj d))"

definition hash_json :: "host \<Rightarrow> string result \<Rightarrow> json result" where
  "hash_json h b = rbind b (\<lambda>b. Inr (JStr (sha256 h b)))"

definition pretty :: "host \<Rightarrow> json \<Rightarrow> string" where
  "pretty h v = dumps_sorted (float_repr h) indented v @ [newline]"

end
