(* ===== verification/ScannerBuild.thy ===== *)
theory ScannerBuild
  imports Overlay
begin

text \<open>
  \<^verbatim>\<open>build_files/firewall/snitchwatch-system-scanner-build.py\<close>: building the scanner from the pinned source. The phase
  \<open>inputs\<close> runs as root before any third-party code: it exports the source, checks the pins, rebuilds the cargo home from
  verified archives and compares the toolchain. The phase \<open>build\<close> runs without privileges: two builds, the tests, the
  licenses and the record of what was built.

  Arguments are the answers of processes and of the file system, SHA-256, the TOML decoder, the spelling \<open>str\<close> gives a
  value that is no string, and the helper \<^verbatim>\<open>bridge_artifact.py\<close>, which comes with the built source. Argument parsing and the
  printed lines are not modelled.
\<close>

section \<open>Constants\<close>

definition PACKAGES :: "string list" where
  "PACKAGES = [''scanner-privileged'', ''scanner-broker'']"

definition BUILD :: "string list" where
  "BUILD = [''cargo'', ''build'', ''--release'', ''--locked'', ''--offline'', ''-p'', PACKAGES ! 0, ''-p'', PACKAGES ! 1]"

definition HELPER :: string where
  "HELPER = ''packaging/release/bridge_artifact.py''"

definition ENV_KEEP :: "string list" where
  "ENV_KEEP = [''PATH'', ''HOME'', ''CARGO_HOME'', ''CARGO_TARGET_DIR'', ''CARGO_BUILD_JOBS'', ''RUSTUP_HOME'', ''TMPDIR'', ''SOURCE_DATE_EPOCH'']"

definition ENV_SET_BY_BUILDER :: "string list" where
  "ENV_SET_BY_BUILDER = [''PYTHONDONTWRITEBYTECODE'']"

section \<open>The environment\<close>

text \<open>\<open>\w\<close> on the code points of the model.\<close>

definition word_char :: "char \<Rightarrow> bool" where
  "word_char c \<longleftrightarrow> is_alnum c \<or> c = CHR ''_'' \<or> code c \<in> {170, 178, 179, 181, 185, 186, 188, 189, 190} \<or>
     192 \<le> code c \<and> code c \<noteq> 215 \<and> code c \<noteq> 247"

definition after_prefix :: "string \<Rightarrow> nat \<Rightarrow> string \<Rightarrow> bool" where
  "after_prefix p n s \<longleftrightarrow> startswith s p \<and> n \<le> length (drop (length p) s) \<and> list_all word_char (drop (length p) s)"

text \<open>\<open>ENV_REFUSE\<close> without its anchors; \<open>$\<close> also matches before a line feed at the end.\<close>

definition steering_name :: "string \<Rightarrow> bool" where
  "steering_name s \<longleftrightarrow>
     s \<in> set [''CC'', ''CXX'', ''CPP'', ''AR'', ''LD'', ''NM'', ''RANLIB'', ''STRIP'', ''OBJCOPY'', ''CFLAGS'', ''CXXFLAGS'', ''CPPFLAGS'', ''LDFLAGS''] \<or>
     list_ex (\<lambda>p. after_prefix p 0 s) [''PKG_CONFIG'', ''RUST'', ''SSL_CERT'', ''PYTHON''] \<or>
     list_ex (\<lambda>p. after_prefix (p @ ''_'') 1 s) [''CC'', ''CXX'', ''CFLAGS'', ''CXXFLAGS'', ''CPPFLAGS'', ''LDFLAGS'', ''AR'', ''LD'', ''CARGO'']"

definition ENV_REFUSE :: "string \<Rightarrow> bool" where
  "ENV_REFUSE key \<longleftrightarrow> steering_name key \<or> key \<noteq> [] \<and> last key = newline \<and> steering_name (butlast key)"

type_synonym env_vars = "(string \<times> string) list"

definition clean_environment :: "env_vars \<Rightarrow> env_vars result" where
  "clean_environment environment =
     rbind (rall (\<lambda>key. require (\<not> (key \<notin> set ENV_KEEP \<and> key \<notin> set ENV_SET_BY_BUILDER \<and> key \<noteq> ''LANG'' \<and> ENV_REFUSE key))
         (ValueError (''refusing build-steering environment variable: '' @ key)) (Inr ())) (sort (map fst environment))) (\<lambda>_.
     Inr (List.map_filter (\<lambda>key. map_option (Pair key) (map_of environment key)) ENV_KEEP @ [(''LANG'', ''C''), (''PYTHONDONTWRITEBYTECODE'', ''1'')]))"

section \<open>The toolchain\<close>

text \<open>What is at a path: the text of a link, the bytes of a file, something without content, nothing.\<close>

datatype path_state = IsLink "string result" | IsFile "string result" | NoContent | NotThere

definition toolchain_entry :: "host \<Rightarrow> (string \<Rightarrow> path_state) \<Rightarrow> string \<Rightarrow> string option result" where
  "toolchain_entry H fs path = (case fs path of
       IsLink t \<Rightarrow> rbind t (\<lambda>t. Inr (Some (''link:'' @ t)))
     | IsFile b \<Rightarrow> rbind b (\<lambda>b. Inr (Some (''file:'' @ sha256 H b)))
     | NoContent \<Rightarrow> Inr None
     | NotThere \<Rightarrow> Inr (Some ''missing''))"

definition toolchain_line :: "string \<Rightarrow> string option \<Rightarrow> string" where
  "toolchain_line path e = (case e of None \<Rightarrow> [] | Some t \<Rightarrow> path @ [CHR 0x00] @ t @ [newline])"

definition toolchain_digest :: "host \<Rightarrow> (string \<Rightarrow> path_state) \<Rightarrow> string list \<Rightarrow> string result" where
  "toolchain_digest H fs paths =
     rbind (rmap (\<lambda>p. rbind (toolchain_entry H fs p) (\<lambda>e. Inr (utf8_encode (toolchain_line p e)))) (sort paths)) (\<lambda>ls.
     Inr (sha256 H (concat ls)))"

text \<open>\<open>rpm_ql name\<close> is the output of \<open>rpm -ql\<close> or how it failed.\<close>

definition installed_toolchain_digest :: "host \<Rightarrow> (string \<Rightarrow> path_state) \<Rightarrow> (string \<Rightarrow> string result) \<Rightarrow> json \<Rightarrow> string result" where
  "installed_toolchain_digest H fs rpm_ql pins =
     rbind (rbind (index pins ''toolchainRpms'') py_iter) (\<lambda>rpms.
     rbind (rmap (\<lambda>rpm. rbind (rbind (index rpm ''name'') json_str) (\<lambda>name. case rpm_ql name of
         Inl _ \<Rightarrow> Inl (ValueError (''cannot list files of pinned toolchain package '' @ name @ '' (rpm -ql)''))
       | Inr listing \<Rightarrow> Inr (filter (\<lambda>l. startswith l ''/'') (splitlines listing)))) rpms) (\<lambda>ls.
     require (concat ls \<noteq> []) (ValueError ''pinned toolchain lists no files'') (toolchain_digest H fs (concat ls))))"

text \<open>\<open>record\<close> is the text of the recorded digest, if it is a file.\<close>

definition require_toolchain_digest :: "string result option \<Rightarrow> string \<Rightarrow> unit result" where
  "require_toolchain_digest rec actual = (case rec of
       None \<Rightarrow> Inl (ValueError ''toolchain digest was not recorded after install'')
     | Some t \<Rightarrow> rbind t (\<lambda>t. require (strip t = actual) (ValueError ''toolchain changed since install (digest mismatch); refusing'') (Inr ())))"

section \<open>The cargo home\<close>

definition config_paths :: "string \<Rightarrow> string \<Rightarrow> string list" where
  "config_paths exported cargo_home = concat (map (\<lambda>base. map (path_join base) [''config'', ''config.toml''])
     (map (\<lambda>d. path_join d ''.cargo'') (chain_of exported) @ [cargo_home]))"

definition require_no_cargo_config :: "(string \<Rightarrow> bool) \<Rightarrow> string \<Rightarrow> string \<Rightarrow> unit result" where
  "require_no_cargo_config lexists exported cargo_home = (let found = filter lexists (config_paths exported cargo_home) in
     require (found = []) (ValueError (''cargo config would influence the scanner build: '' @ join '', '' found)) (Inr ()))"

text \<open>The archives that \<open>Cargo.lock\<close> names with their checksums; \<open>show\<close> spells a value that is no string.\<close>

definition str_of :: "(json \<Rightarrow> string) \<Rightarrow> json \<Rightarrow> string" where
  "str_of show v = (case v of JStr s \<Rightarrow> s | _ \<Rightarrow> show v)"

definition locked_crates :: "(json \<Rightarrow> string) \<Rightarrow> json \<Rightarrow> (string \<times> json) list result" where
  "locked_crates show lock =
     rbind (rbind (get_or lock ''package'' (JList [])) py_iter) (\<lambda>ps.
     rbind (rfilter (str_in ''checksum'') ps) (\<lambda>ps.
     rbind (rmap (\<lambda>p. rbind (index p ''name'') (\<lambda>n. rbind (index p ''version'') (\<lambda>v. rbind (index p ''checksum'') (\<lambda>c.
         Inr (str_of show n @ ''-'' @ str_of show v @ ''.crate'', c))))) ps) (\<lambda>kvs.
     Inr (fold (\<lambda>(k, v). dict_set k v) kvs []))))"

text \<open>One entry of the cache: it is refused, skipped, or a crate to copy.\<close>

definition cache_entry :: "host \<Rightarrow> (string \<times> json) list \<Rightarrow> string list \<times> fsnode \<Rightarrow> (string list \<times> string) list result" where
  "cache_entry H wanted pf = (case pf of (ps, f) \<Rightarrow>
     require (m_kind (f_meta f) = KReg \<or> m_kind (f_meta f) = KDir) (ValueError (''non-regular cargo cache entry: '' @ join ''/'' ps))
     (if m_kind (f_meta f) = KDir then Inr []
      else (case map_of wanted (last ps) of
          None \<Rightarrow> Inl (ValueError (''cached file not in Cargo.lock: '' @ join ''/'' ps))
        | Some c \<Rightarrow> require (c \<noteq> JNull) (ValueError (''cached file not in Cargo.lock: '' @ join ''/'' ps))
            (require (pyeq (JStr (sha256 H (f_data f))) c) (ValueError (''cached crate differs from Cargo.lock checksum: '' @ last ps))
              (Inr [(ps, f_data f)])))))"

definition index_entry :: "string list \<times> fsnode \<Rightarrow> unit result" where
  "index_entry pf = require (m_kind (f_meta (snd pf)) = KReg \<or> m_kind (f_meta (snd pf)) = KDir)
     (ValueError (''non-regular cargo index entry: '' @ join ''/'' (fst pf))) (Inr ())"

text \<open>\<open>shutil.copytree\<close> of a directory without links: modes and attributes are kept, the owner is the caller.\<close>

function copied_tree :: "meta \<Rightarrow> fsnode \<Rightarrow> fsnode result" where
  "copied_tree c (FsNode m d b ks) = (let m' = c\<lparr>m_kind := m_kind m, m_mode := m_mode m, m_nlink := 1, m_xattrs := m_xattrs m\<rparr> in
     case ks of None \<Rightarrow> Inl (OSError ''cannot list'')
     | Some ks \<Rightarrow> rbind (rmap (\<lambda>nc. rbind (copied_tree c (snd nc)) (\<lambda>k. Inr (fst nc, k))) ks) (\<lambda>ks. Inr (FsNode m' d b (Some ks))))"
  by pat_completeness auto

termination
  by (relation "measure (size \<circ> snd)") (auto simp: termination_simp)

declare copied_tree.simps [simp del]

definition crate_paths :: "(string list \<times> string) list \<Rightarrow> (string list \<times> string) list" where
  "crate_paths = map (\<lambda>(ps, b). ([''registry'', ''cache''] @ ps, b))"

definition dir_at :: "fsnode \<Rightarrow> string \<Rightarrow> fsnode option" where
  "dir_at t rel = (case stat_at (components rel) t of Inr d \<Rightarrow> if f_isdir d then Some d else None | Inl _ \<Rightarrow> None)"

text \<open>The registry index, if there is one, is checked and copied.\<close>

definition check_index :: "fsnode \<Rightarrow> unit result" where
  "check_index bridge_home = (case dir_at bridge_home ''registry/index'' of None \<Rightarrow> Inr () | Some ix \<Rightarrow> rall index_entry (sort_key fst (rglob ix)))"

definition copy_index :: "meta \<Rightarrow> fsnode \<Rightarrow> fsnode \<Rightarrow> fsnode result" where
  "copy_index creator bridge_home fresh = (case dir_at bridge_home ''registry/index'' of
       None \<Rightarrow> Inr fresh
     | Some ix \<Rightarrow> rbind (copied_tree creator ix) (\<lambda>t. place creator [''registry'', ''index''] t fresh))"

text \<open>The new cargo home, given the bridge's and the decoded lock file.\<close>

definition make_fresh_cargo_home :: "host \<Rightarrow> (json \<Rightarrow> string) \<Rightarrow> meta \<Rightarrow> fsnode \<Rightarrow> json result \<Rightarrow> fsnode result" where
  "make_fresh_cargo_home H show creator bridge_home lock =
     rbind (rbind lock (locked_crates show)) (\<lambda>wanted.
     rbind (case dir_at bridge_home ''registry/cache'' of None \<Rightarrow> Inl (ValueError ''bridge cargo cache missing'') | Some cache \<Rightarrow> Inr cache) (\<lambda>cache.
     rbind (rmap (cache_entry H wanted) (sort_key fst (rglob cache))) (\<lambda>cs.
     require (concat cs \<noteq> []) (ValueError ''bridge cargo cache holds no crates'')
     (rbind (check_index bridge_home) (\<lambda>_.
      rbind (rfold (\<lambda>(cs, b). place creator cs (new_file creator data_mode b)) (crate_paths (concat cs)) (new_dir creator)) (\<lambda>fresh.
      copy_index creator bridge_home fresh))))))"

section \<open>The pinned sources\<close>

text \<open>\<open>Path.is_file\<close> of an entry; \<open>target_file\<close> says whether the target of a link is a regular file.\<close>

definition entry_is_file :: "(string list \<Rightarrow> bool) \<Rightarrow> string list \<Rightarrow> fsnode \<Rightarrow> bool" where
  "entry_is_file target_file ps f \<longleftrightarrow> m_kind (f_meta f) = KReg \<or> m_kind (f_meta f) = KLink \<and> target_file ps"

definition exported_file :: "(string list \<Rightarrow> bool) \<Rightarrow> fsnode \<Rightarrow> string \<Rightarrow> string option" where
  "exported_file target_file exported name = (case stat_at (components name) exported of
       Inr f \<Rightarrow> if entry_is_file target_file (components name) f then Some (f_data f) else None | Inl _ \<Rightarrow> None)"

definition crate_files :: "(string list \<Rightarrow> bool) \<Rightarrow> fsnode \<Rightarrow> string \<Rightarrow> string list" where
  "crate_files target_file exported package = (let crate = ''crates/'' @ package in
     map (\<lambda>(ps, _). rel_path crate ps) (filter (\<lambda>(ps, f). entry_is_file target_file (components crate @ ps) f) (entries_of exported crate)))"

definition require_pinned_scanner_sources :: "host \<Rightarrow> (string list \<Rightarrow> bool) \<Rightarrow> fsnode \<Rightarrow> json \<Rightarrow> unit result" where
  "require_pinned_scanner_sources H target_file exported pins =
     rbind (rbind (index pins ''sourceFiles'') dict_items) (\<lambda>items.
     let pinned = filter (\<lambda>(name, _). startswith name ''crates/scanner-'') items in
     rbind (rall (\<lambda>name. require (name \<in> set (map fst pinned)) (ValueError (''unpinned scanner input: '' @ name)) (Inr ()))
       (concat (map (crate_files target_file exported) PACKAGES))) (\<lambda>_.
     rbind (rall (\<lambda>(name, expected). case exported_file target_file exported name of
         None \<Rightarrow> Inl (ValueError (''missing pinned scanner input: '' @ name))
       | Some b \<Rightarrow> require (pyeq (JStr (sha256 H b)) expected) (ValueError (''scanner input differs from pinned upstream: '' @ name)) (Inr ())) pinned) (\<lambda>_.
     require (list_ex (\<lambda>(name, _). list_ex (\<lambda>p. startswith name (''crates/'' @ p @ ''/'')) PACKAGES) pinned)
       (ValueError ''no scanner crate files are pinned'') (Inr ()))))"

definition require_pinned_file :: "host \<Rightarrow> (string list \<Rightarrow> bool) \<Rightarrow> fsnode \<Rightarrow> json \<Rightarrow> string \<Rightarrow> unit result" where
  "require_pinned_file H target_file exported pins name =
     rbind (rbind (index pins ''sourceFiles'') (\<lambda>s. get s name)) (\<lambda>expected.
     require (expected \<noteq> JNull \<and> (case exported_file target_file exported name of None \<Rightarrow> False | Some b \<Rightarrow> pyeq (JStr (sha256 H b)) expected))
       (ValueError (''file differs from pinned upstream: '' @ name)) (Inr ()))"

text \<open>\<open>value\<close> is that of \<open>CARGO_HOME\<close>.\<close>

definition require_bridge_cargo_home :: "(string \<Rightarrow> fsnode option) \<Rightarrow> string option \<Rightarrow> fsnode result" where
  "require_bridge_cargo_home dir v = (case v of
       None \<Rightarrow> Inl (ValueError ''CARGO_HOME of the bridge build is unset or missing'')
     | Some p \<Rightarrow> (case if p = [] then None else dir p of
          None \<Rightarrow> Inl (ValueError ''CARGO_HOME of the bridge build is unset or missing'') | Some d \<Rightarrow> Inr d))"

section \<open>The log of the private bus test\<close>

text \<open>\<open>re.findall(r'test result: ok. ([0-9]+) passed', s)\<close>; two matches cannot overlap.\<close>

definition passed_here :: "string \<Rightarrow> nat option" where
  "passed_here s = (let p = ''test result: ok. ''; ds = takeWhile is_digit (drop (length p) s) in
     if startswith s p \<and> ds \<noteq> [] \<and> startswith (dropWhile is_digit (drop (length p) s)) '' passed'' then Some (nat_of_digits ds) else None)"

fun passed_counts :: "string \<Rightarrow> nat list" where
  "passed_counts [] = []"
| "passed_counts (c # s) = (case passed_here (c # s) of Some n \<Rightarrow> n # passed_counts s | None \<Rightarrow> passed_counts s)"

definition require_private_bus_test :: "string \<Rightarrow> unit result" where
  "require_private_bus_test log_text =
     require (\<not> contains ''test result: FAILED'' log_text \<and> sum_list (passed_counts log_text) = 1)
       (ValueError ''scanner private-bus test did not run exactly one passing test'') (Inr ())"

section \<open>The phase inputs\<close>

text \<open>\<open>read_text\<close>, and the output of a process that is run with \<open>text=True\<close>.\<close>

definition process_text :: "string \<Rightarrow> string result" where
  "process_text b = (case utf8_decode b of None \<Rightarrow> Inl (ValueError ''invalid UTF-8'') | Some t \<Rightarrow> Inr (universal_newlines t))"

text \<open>
  What the builder sees. \<open>bh_archive c\<close> is the source that \<open>git archive c\<close> and \<open>extractall\<close> leave; \<open>bh_taken\<close> that the inputs or the
  cargo home exist or are \<open>/\<close>; \<open>bh_lexists\<close> answers for paths outside what the program has written. Paths are resolved.
\<close>

record build_host =
  bh_host :: host
  bh_show :: "json \<Rightarrow> string"
  bh_toml :: "string \<Rightarrow> json result"
  bh_other :: "string \<Rightarrow> json result"
  bh_containerenv :: bool
  bh_dockerenv :: bool
  bh_run_host :: bool
  bh_creator :: meta
  bh_taken :: bool
  bh_inputs :: string
  bh_cargo_home :: string
  bh_pins :: "string result"
  bh_environ :: env_vars
  bh_dir :: "string \<Rightarrow> fsnode option"
  bh_archive :: "string \<Rightarrow> fsnode result"
  bh_target_file :: "string list \<Rightarrow> bool"
  bh_lexists :: "string \<Rightarrow> bool"
  bh_fs :: "string \<Rightarrow> path_state"
  bh_rpm_ql :: "string \<Rightarrow> string result"
  bh_recorded :: "string result option"
  bh_epoch :: "string result"

definition require_builder_container :: "build_host \<Rightarrow> unit result" where
  "require_builder_container B = require ((bh_containerenv B \<or> bh_dockerenv B) \<and> \<not> bh_run_host B)
     (ValueError ''scanner build requires the fresh native builder'') (Inr ())"

definition exported_path :: "build_host \<Rightarrow> string" where
  "exported_path B = path_join (bh_inputs B) ''source''"

text \<open>The paths below the export and the new cargo home are those of the trees.\<close>

definition below_path :: "string \<Rightarrow> string \<Rightarrow> string list option" where
  "below_path base p = (let bs = components base; ps = components p in
     if length bs < length ps \<and> take (length bs) ps = bs then Some (drop (length bs) ps) else None)"

definition phase_lexists :: "build_host \<Rightarrow> fsnode \<Rightarrow> fsnode \<Rightarrow> string \<Rightarrow> bool" where
  "phase_lexists B exported fresh p = (case below_path (exported_path B) p of
       Some ps \<Rightarrow> node_at ps exported \<noteq> None
     | None \<Rightarrow> (case below_path (bh_cargo_home B) p of Some ps \<Rightarrow> node_at ps fresh \<noteq> None | None \<Rightarrow> bh_lexists B p))"

definition source_record :: "build_host \<Rightarrow> fsnode \<Rightarrow> json" where
  "source_record B exported = JObj (map (\<lambda>(ps, f). (join ''/'' ps, JStr (sha256 (bh_host B) (f_data f))))
     (filter (\<lambda>(ps, f). entry_is_file (bh_target_file B) ps f) (sort_key fst (rglob exported))))"

text \<open>What the phase leaves: the export, the new cargo home, the texts of the two records.\<close>

record prepared =
  pp_exported :: fsnode
  pp_cargo_home :: fsnode
  pp_source_inputs :: string
  pp_build_inputs :: string

definition inputs_phase :: "build_host \<Rightarrow> prepared result" where
  "inputs_phase B =
     rbind (require_builder_container B) (\<lambda>_.
     require (\<not> bh_taken B) (ValueError ''scanner inputs and cargo home must be new isolated directories'')
     (rbind (rbind (bh_pins B) (json_bytes (bh_other B))) (\<lambda>pins.
      rbind (require_bridge_cargo_home (bh_dir B) (map_of (bh_environ B) ''CARGO_HOME'')) (\<lambda>bridge_home.
      rbind (rbind (rbind (index pins ''sourceCommit'') json_str) (bh_archive B)) (\<lambda>exported.
      rbind (require_pinned_scanner_sources (bh_host B) (bh_target_file B) exported pins) (\<lambda>_.
      rbind (require_pinned_file (bh_host B) (bh_target_file B) exported pins HELPER) (\<lambda>_.
      rbind (require_pinned_file (bh_host B) (bh_target_file B) exported pins ''Cargo.lock'') (\<lambda>_.
      rbind (case exported_file (bh_target_file B) exported ''Cargo.lock'' of None \<Rightarrow> Inl FileNotFoundError
          | Some b \<Rightarrow> process_text b) (\<lambda>lock_text.
      rbind (make_fresh_cargo_home (bh_host B) (bh_show B) (bh_creator B) bridge_home (bh_toml B lock_text)) (\<lambda>fresh.
      rbind (require_no_cargo_config (phase_lexists B exported fresh) (exported_path B) (bh_cargo_home B)) (\<lambda>_.
      rbind (rbind (installed_toolchain_digest (bh_host B) (bh_fs B) (bh_rpm_ql B) pins) (require_toolchain_digest (bh_recorded B))) (\<lambda>_.
      rbind (bh_epoch B) (\<lambda>epoch. let epoch = strip epoch in
      require (py_isdigit epoch) (ValueError ''source commit time is not a number'')
      (Inr \<lparr>pp_exported = exported, pp_cargo_home = fresh, pp_source_inputs = pretty (bh_host B) (source_record B exported),
         pp_build_inputs = pretty (bh_host B) (JObj [(''sourceDateEpoch'', JStr epoch)])\<rparr>))))))))))))))"

section \<open>The phase build\<close>

text \<open>
  A command that is run takes the environment and changes the state \<open>'w\<close>: its output, or how it failed; \<open>bw_ldd\<close> gives both
  outputs of \<open>ldd\<close>, which like \<open>rustc -vV\<close> inherits the environment. Files of the output
  directory are read from the state; \<open>bw_helper\<close> are the functions of the helper module, \<open>crate_key\<close> and the lines of a crate.
\<close>

record 'w build_world =
  bw_run :: "string list \<Rightarrow> env_vars \<Rightarrow> 'w \<Rightarrow> (string \<times> 'w) result"
  bw_ldd :: "string \<Rightarrow> env_vars \<Rightarrow> 'w \<Rightarrow> (string \<times> string \<times> 'w) result"
  bw_file :: "'w \<Rightarrow> string \<Rightarrow> string result"
  bw_text :: "string \<Rightarrow> string"
  bw_crate_key :: "json \<Rightarrow> string list"
  bw_crate_lines :: "json \<Rightarrow> string list result"
  bw_euid :: nat
  bw_out :: string
  bw_out_ready :: bool
  bw_config :: "string \<Rightarrow> bool"
  bw_inputs :: "string \<Rightarrow> string result"
  bw_exported :: "string \<Rightarrow> string result"
  bw_rpm_inventory :: "string result"

definition remap :: "string \<Rightarrow> string \<Rightarrow> string \<Rightarrow> string" where
  "remap exported cargo_home target = ''--remap-path-prefix='' @ exported @ ''=/snitchwatch --remap-path-prefix='' @ cargo_home @
     ''=/cargo --remap-path-prefix='' @ target @ ''=/target''"

definition target_env :: "build_host \<Rightarrow> string \<Rightarrow> env_vars \<Rightarrow> env_vars" where
  "target_env B target env = dict_set ''RUSTFLAGS'' (remap (exported_path B) (bh_cargo_home B) target) (dict_set ''CARGO_TARGET_DIR'' target env)"

definition build_env :: "build_host \<Rightarrow> 'w build_world \<Rightarrow> env_vars result" where
  "build_env B W =
     rbind (clean_environment (bh_environ B)) (\<lambda>env.
     rbind (rbind (rbind (rbind (bw_inputs W ''build-inputs.json'') (json_bytes (bh_other B))) (\<lambda>v. index v ''sourceDateEpoch'')) json_str) (\<lambda>epoch.
     Inr (dict_set ''CARGO_NET_OFFLINE'' ''true'' (dict_set ''CARGO_INCREMENTAL'' ''0'' (dict_set ''SOURCE_DATE_EPOCH'' epoch
       (dict_set ''CARGO_HOME'' (bh_cargo_home B) env))))))"

definition release_path :: "string \<Rightarrow> string \<Rightarrow> string" where
  "release_path target binary = target @ ''/release/'' @ binary"

text \<open>Both executables must be equal and resolve their libraries; the result is their bytes and the text of \<open>ldd\<close>.\<close>

definition compare_binary :: "build_host \<Rightarrow> 'w build_world \<Rightarrow> string \<Rightarrow> 'w \<Rightarrow> ((string \<times> string) list \<times> 'w) result" where
  "compare_binary B W binary w =
     rbind (bw_file W w (release_path ''target-a'' binary)) (\<lambda>a. rbind (bw_file W w (release_path ''target-b'' binary)) (\<lambda>b.
     require (sha256 (bh_host B) a = sha256 (bh_host B) b) (ValueError (''scanner executable is not reproducible: '' @ binary))
     (rbind (bw_ldd W (path_join (bw_out W) binary) (bh_environ B) w) (\<lambda>(out, err, w).
      require (\<not> contains ''not found'' (out @ err)) (ValueError (''scanner dynamic dependency missing: '' @ binary))
        (Inr ([(binary, a), (binary @ ''.ldd'', utf8_encode out)], w))))))"

definition TEST :: "string list" where
  "TEST = [''cargo'', ''test'', ''--locked'', ''--offline'', ''-p'', PACKAGES ! 0, ''-p'', PACKAGES ! 1, ''--'', ''--test-threads=1'']"

definition BUS_TEST :: "string list" where
  "BUS_TEST = [''dbus-run-session'', ''--'', ''cargo'', ''test'', ''--locked'', ''--offline'', ''-p'', PACKAGES ! 1, ''private_bus'', ''--'', ''--ignored'', ''--test-threads=1'']"

definition METADATA :: "string list" where
  "METADATA = [''cargo'', ''metadata'', ''--locked'', ''--offline'', ''--format-version'', ''1'', ''--filter-platform'', ''x86_64-unknown-linux-gnu'']"

definition TREE :: "string \<Rightarrow> string list" where
  "TREE package = [''cargo'', ''tree'', ''--locked'', ''--offline'', ''-p'', package, ''-e'', ''normal,build'', ''--target'', ''x86_64-unknown-linux-gnu'',
     ''--prefix'', ''none'', ''--format'', ''{p}'']"

text \<open>The two builds, the comparison and the tests: the files of the output directory.\<close>

definition build_and_test :: "build_host \<Rightarrow> 'w build_world \<Rightarrow> env_vars \<Rightarrow> 'w \<Rightarrow> ((string \<times> string) list \<times> 'w) result" where
  "build_and_test B W env w =
     (let target = (\<lambda>n. path_join (bw_out W) n); env_a = target_env B (target ''target-a'') env; env_b = target_env B (target ''target-b'') env_a;
          env_t = target_env B (target ''target-a'') env_b in
      rbind (bw_run W BUILD env_a w) (\<lambda>(build_log, w).
      rbind (bw_run W BUILD env_b w) (\<lambda>(repro_log, w).
      rbind (rfold (\<lambda>binary (fs, w). rbind (compare_binary B W binary w) (\<lambda>(gs, w). Inr (fs @ gs, w))) SCANNER_BINARIES ([], w)) (\<lambda>(fs, w).
      rbind (bw_run W TEST env_t w) (\<lambda>(test_log, w).
      rbind (bw_run W BUS_TEST env_t w) (\<lambda>(bus_log, w).
      rbind (require_private_bus_test (bw_text W bus_log)) (\<lambda>_.
      Inr ([(''build.log'', build_log), (''repro.log'', repro_log)] @ fs @ [(''test.log'', test_log @ bus_log)], w))))))))"

text \<open>The packages of an executable's own dependency graph: name and version of the lines of \<open>cargo tree\<close>.\<close>

definition tree_keys :: "string \<Rightarrow> (string \<times> string) list" where
  "tree_keys t = concat (map (\<lambda>line. case words line of
       name # version # _ \<Rightarrow> if startswith version ''v'' then [(name, tl version)] else [] | _ \<Rightarrow> []) (splitlines t))"

definition in_closure :: "(string \<times> string) list \<Rightarrow> json list \<Rightarrow> json \<Rightarrow> bool result" where
  "in_closure keys members p =
     rbind (index p ''name'') (\<lambda>n. rbind (index p ''version'') (\<lambda>v.
     if list_ex (\<lambda>(a, b). pyeq n (JStr a) \<and> pyeq v (JStr b)) keys
     then rbind (index p ''id'') (\<lambda>i. Inr (\<not> list_ex (pyeq i) members)) else Inr False))"

definition closure_entry :: "json \<Rightarrow> json result" where
  "closure_entry p = object_of [(k, index p k). k \<leftarrow> [''name'', ''version'', ''source'', ''license'']]"

definition closure_of :: "'w build_world \<Rightarrow> env_vars \<Rightarrow> json \<Rightarrow> json list \<Rightarrow> string \<Rightarrow> 'w \<Rightarrow> (json list \<times> 'w) result" where
  "closure_of W env metadata members package w =
     rbind (bw_run W (TREE package) env w) (\<lambda>(out, w). rbind (process_text out) (\<lambda>t.
     rbind (rbind (index metadata ''packages'') py_iter) (\<lambda>ps.
     rbind (rfilter (in_closure (tree_keys t) members) ps) (\<lambda>ps.
     require (ps \<noteq> []) (ValueError ''empty scanner dependency closure'') (Inr (ps, w))))))"

definition closures :: "'w build_world \<Rightarrow> env_vars \<Rightarrow> json \<Rightarrow> 'w \<Rightarrow> ((string \<times> json list) list \<times> 'w) result" where
  "closures W env metadata w =
     rbind (rbind (index metadata ''workspace_members'') py_iter) (\<lambda>members.
     rfold (\<lambda>(package, binary) (cs, w). rbind (closure_of W env metadata members package w) (\<lambda>(ps, w). Inr (cs @ [(binary, ps)], w)))
       (zip PACKAGES SCANNER_BINARIES) ([], w))"

definition select :: "json list \<Rightarrow> (string \<times> json) list \<Rightarrow> (string \<times> json) list result" where
  "select ps d = rfold (\<lambda>p d. rbind (rbind (index p ''id'') json_str) (\<lambda>i. Inr (dict_set i p d))) ps d"

definition license_lines :: "'w build_world \<Rightarrow> (string \<times> json list) list \<Rightarrow> string list result" where
  "license_lines W cs =
     rbind (rfold select (map snd cs) []) (\<lambda>selected.
     rbind (rmap (bw_crate_lines W) (sort_key (bw_crate_key W) (map snd selected))) (\<lambda>ls.
     Inr ([''# Scanner dependency licenses'', [], ''Normal and build dependencies for both scanner executables; resolved with locked offline Cargo.'', []] @ concat ls)))"

definition evidence_names :: "string list" where
  "evidence_names = [''source-inputs.json'', ''dependency-closure.json'', ''THIRD-PARTY-LICENSES.md'', ''LICENSE'', ''build.log'', ''repro.log'', ''test.log'']
     @ map (\<lambda>b. b @ ''.ldd'') SCANNER_BINARIES"

definition file_hash :: "host \<Rightarrow> (string \<times> string) list \<Rightarrow> string \<Rightarrow> json result" where
  "file_hash h files name = (case map_of files name of None \<Rightarrow> Inl FileNotFoundError | Some b \<Rightarrow> Inr (JStr (sha256 h b)))"

definition scanner_provenance :: "build_host \<Rightarrow> 'w build_world \<Rightarrow> json \<Rightarrow> env_vars \<Rightarrow> string \<Rightarrow> (string \<times> string) list \<Rightarrow> json result" where
  "scanner_provenance B W pins env rustc files = (let h = bh_host B in object_of
     [(''schemaVersion'', Inr (JInt 1)), (''sourceCommit'', index pins ''sourceCommit''), (''sourceTree'', index pins ''sourceTree''),
      (''cargoLockSha256'', hash_json h (bw_exported W ''Cargo.lock'')), (''cargoTomlSha256'', hash_json h (bw_exported W ''Cargo.toml'')),
      (''builderImage'', index pins ''builderImage''), (''rustcVv'', Inr (JStr rustc)), (''rpmInventorySha256'', hash_json h (bw_rpm_inventory W)),
      (''buildCommand'', Inr (JList (map JStr BUILD))),
      (''sourceDateEpoch'', case map_of env ''SOURCE_DATE_EPOCH'' of None \<Rightarrow> Inl (KeyError ''SOURCE_DATE_EPOCH'') | Some e \<Rightarrow> Inr (JStr e)),
      (''reproducible'', Inr (JBool True)), (''testsPassed'', Inr (JBool True)),
      (''binaries'', object_of (map (\<lambda>n. (n, file_hash h files n)) SCANNER_BINARIES)),
      (''evidence'', object_of (map (\<lambda>n. (n, file_hash h files n)) evidence_names)),
      (''sourceIdentity'', Inr (JStr ''pinned upstream source, unmodified; no tower patch is applied''))])"

text \<open>The files the phase leaves besides the build trees.\<close>

definition build_phase :: "build_host \<Rightarrow> 'w build_world \<Rightarrow> 'w \<Rightarrow> (string \<times> string) list result" where
  "build_phase B W w =
     require (bw_euid W \<noteq> 0) (ValueError ''scanner build phase: refusing to run as root (it runs only behind snitchwatch-system-unpriv.py)'')
     (rbind (require_builder_container B) (\<lambda>_.
      require (bw_out_ready W) (ValueError ''output must be the empty scratch directory prepared for the build uid'')
      (rbind (rbind (bh_pins B) (json_bytes (bh_other B))) (\<lambda>pins.
       rbind (require_no_cargo_config (bw_config W) (exported_path B) (bh_cargo_home B)) (\<lambda>_.
       rbind (build_env B W) (\<lambda>env.
       rbind (bw_inputs W ''source-inputs.json'') (\<lambda>source_inputs.
       rbind (build_and_test B W env w) (\<lambda>(files, w).
       let env = target_env B (path_join (bw_out W) ''target-a'') env in
       rbind (bw_run W METADATA env w) (\<lambda>(out, w).
       rbind (json_bytes (bh_other B) out) (\<lambda>metadata.
       rbind (closures W env metadata w) (\<lambda>(cs, w).
       rbind (rmap (\<lambda>(binary, ps). rbind (rmap closure_entry (sort_key (bw_crate_key W) ps)) (\<lambda>es. Inr (binary, JList es))) cs) (\<lambda>closure.
       rbind (license_lines W cs) (\<lambda>lines.
       rbind (bw_exported W ''LICENSE'') (\<lambda>license.
       rbind (bw_run W [''rustc'', ''-vV''] (bh_environ B) w) (\<lambda>(out, _). rbind (process_text out) (\<lambda>rustc.
       let files = [(''source-inputs.json'', source_inputs)] @ files @ [(''dependency-closure.json'', pretty (bh_host B) (JObj closure)),
           (''THIRD-PARTY-LICENSES.md'', utf8_encode (join [newline] lines @ [newline])), (''LICENSE'', license)] in
       rbind (scanner_provenance B W pins env rustc files) (\<lambda>p.
       Inr (files @ [(''provenance.json'', pretty (bh_host B) p)]))))))))))))))))))"

end
