(* ===== verification/ScannerBuildProofs.thy ===== *)
theory ScannerBuildProofs
  imports ScannerBuild "HOL-Library.Multiset"
begin

text \<open>
  The guards of the scanner build: a clean environment, a cargo home made of locked archives only, sources that are pinned
  file by file, and a toolchain digest that fixes the content of every listed path.
\<close>

section \<open>The environment\<close>

lemma clean_environment_Inr:
  assumes "clean_environment environment = Inr env"
  shows "(\<forall>key\<in>fst ` set environment. key \<in> set ENV_KEEP \<or> key \<in> set ENV_SET_BY_BUILDER \<or> key = ''LANG'' \<or> \<not> ENV_REFUSE key) \<and>
     (\<forall>(key, v)\<in>set env. key \<in> set ENV_KEEP \<and> map_of environment key = Some v \<or> (key, v) \<in> set [(''LANG'', ''C''), (''PYTHONDONTWRITEBYTECODE'', ''1'')])"
  using assms by (auto simp: clean_environment_def rbind_eq_Inr rall_eq_Inr require_eq_Inr List.map_filter_def split: option.splits)

text \<open>Variables that steer a compiler, a linker, cargo, rustc or Python.\<close>

definition STEERING :: "string list" where
  "STEERING = [''CC'', ''LD_PRELOAD'', ''RUSTFLAGS'', ''RUSTC_WRAPPER'', ''CARGO_BUILD_RUSTC'', ''CFLAGS_x86_64'', ''PYTHONPATH'']"

lemma steering_refused: "list_all (\<lambda>k. ENV_REFUSE k \<and> k \<notin> set ENV_KEEP \<and> k \<noteq> ''LANG'' \<and> k \<notin> set ENV_SET_BY_BUILDER) STEERING"
  by code_simp

text \<open>
  Nothing steers the compiler. The environment the build gets has only the listed variables, with the values they
  had, and two fixed ones; the builder's own environment had no other variable that names a compiler, a linker, flags or
  a configuration of cargo, rustc, Python or OpenSSL.
\<close>
theorem environment_clean:
  assumes "clean_environment environment = Inr env"
  shows "list_all (\<lambda>(key, v). key \<in> set ENV_KEEP \<and> map_of environment key = Some v \<or> (key, v) \<in> set [(''LANG'', ''C''), (''PYTHONDONTWRITEBYTECODE'', ''1'')]) env \<and>
     list_all (\<lambda>(key, v). key \<in> set (ENV_KEEP @ ENV_SET_BY_BUILDER) \<or> key = ''LANG'' \<or> \<not> ENV_REFUSE key) environment \<and>
     list_all (\<lambda>key. map_of environment key = None) STEERING"
proof -
  note c = clean_environment_Inr [OF assms]
  have "map_of environment k = None" if "k \<in> set STEERING" for k
    using c that steering_refused unfolding list_all_iff map_of_eq_None_iff by blast
  then show ?thesis using c by (auto simp: list_all_iff)
qed

definition toy_env :: env_vars where
  "toy_env = [(''PATH'', ''/usr/bin''), (''RUSTUP_HOME'', ''/r''), (''TERM'', ''xterm''), (''LANG'', ''de_DE'')]"

theorem environment_clean_witness:
  "clean_environment toy_env = Inr [(''PATH'', ''/usr/bin''), (''RUSTUP_HOME'', ''/r''), (''LANG'', ''C''), (''PYTHONDONTWRITEBYTECODE'', ''1'')] \<and>
   list_all (\<lambda>key. map_of toy_env key = None) STEERING"
proof -
  have c: "clean_environment toy_env = Inr [(''PATH'', ''/usr/bin''), (''RUSTUP_HOME'', ''/r''), (''LANG'', ''C''), (''PYTHONDONTWRITEBYTECODE'', ''1'')]" by code_simp
  show ?thesis by (rule conjI [OF c conjunct2 [OF conjunct2 [OF environment_clean [OF c]]]])
qed

section \<open>The toolchain digest\<close>

definition entry_text :: "host \<Rightarrow> (string \<Rightarrow> path_state) \<Rightarrow> string \<Rightarrow> string option" where
  "entry_text H fs p = (case toolchain_entry H fs p of Inr e \<Rightarrow> e | Inl _ \<Rightarrow> None)"

definition digest_lines :: "(string \<Rightarrow> string option) \<Rightarrow> string list \<Rightarrow> string" where
  "digest_lines g ps = concat (map (\<lambda>p. toolchain_line p (g p)) ps)"

lemma utf8_encode_concat: "concat (map utf8_encode xs) = utf8_encode (concat xs)"
  by (induction xs) (simp_all add: utf8_encode_def)

lemma toolchain_digest_Inr:
  assumes "toolchain_digest H fs paths = Inr d"
  shows "d = sha256 H (utf8_encode (digest_lines (entry_text H fs) (sort paths))) \<and> (\<forall>p\<in>set paths. succeeds (toolchain_entry H fs p))"
proof -
  obtain ls where l: "rmap (\<lambda>p. rbind (toolchain_entry H fs p) (\<lambda>e. Inr (utf8_encode (toolchain_line p e)))) (sort paths) = Inr ls"
      "d = sha256 H (concat ls)"
    using assms by (auto simp: toolchain_digest_def rbind_eq_Inr simp del: rmap_eq_Inr)
  have "rmap (\<lambda>p. rbind (toolchain_entry H fs p) (\<lambda>e. Inr (utf8_encode (toolchain_line p e)))) ps = Inr ls \<Longrightarrow>
      ls = map (\<lambda>p. utf8_encode (toolchain_line p (entry_text H fs p))) ps \<and> (\<forall>p\<in>set ps. succeeds (toolchain_entry H fs p))" for ps ls
    by (induction ps arbitrary: ls) (auto simp: rbind_eq_Inr entry_text_def succeeds_iff)
  from this [OF l(1)] show ?thesis
    using l(2) utf8_encode_concat [of "map (\<lambda>p. toolchain_line p (entry_text H fs p)) (sort paths)"]
    by (simp add: digest_lines_def comp_def)
qed

lemma digest_lines_head: "digest_lines g ps = [] \<or> (\<exists>q\<in>set ps. \<exists>r. g q \<noteq> None \<and> digest_lines g ps = q @ CHR 0x00 # r)"
proof (induction ps)
  case (Cons p ps)
  then show ?case by (cases "g p") (auto simp: digest_lines_def toolchain_line_def)
qed (simp add: digest_lines_def)

lemma first_char: "a @ c # r = b @ c # s \<Longrightarrow> c \<notin> set a \<Longrightarrow> c \<notin> set b \<Longrightarrow> a = b \<and> r = s"
  by (induction a arbitrary: b) (auto simp: Cons_eq_append_conv append_eq_Cons_conv)

lemma last_char: "a @ c # r = b @ c # s \<Longrightarrow> c \<notin> set r \<Longrightarrow> c \<notin> set s \<Longrightarrow> a = b \<and> r = s"
proof -
  assume e: "a @ c # r = b @ c # s" and "c \<notin> set r" "c \<notin> set s"
  moreover have "rev (a @ c # r) = rev (b @ c # s)" by (simp only: e)
  then have "rev r @ c # rev a = rev s @ c # rev b" by simp
  ultimately show ?thesis using first_char [of "rev r" c "rev a" "rev s" "rev b"] by simp
qed

lemma line_split:
  assumes e: "t @ newline # digest_lines g ps = u @ newline # digest_lines h ps"
    and n: "CHR 0x00 \<notin> set t" "CHR 0x00 \<notin> set u" "\<forall>p\<in>set ps. CHR 0x00 \<notin> set p \<and> newline \<notin> set p"
  shows "t = u \<and> digest_lines g ps = digest_lines h ps"
proof -
  have nl: "newline \<noteq> CHR 0x00" by (simp add: newline_def)
  show ?thesis
  proof (cases "digest_lines g ps = []")
    case True
    then have "CHR 0x00 \<notin> set (u @ newline # digest_lines h ps)" using e n(1) nl by (metis Un_iff append_Nil2 list.set_intros(1) set_ConsD set_append set_empty empty_iff)
    then have "digest_lines h ps = []" using digest_lines_head [of h ps] by auto
    then show ?thesis using e True by simp
  next
    case False
    then obtain q r where q: "q \<in> set ps" "digest_lines g ps = q @ CHR 0x00 # r" using digest_lines_head [of g ps] by blast
    have "digest_lines h ps \<noteq> []"
    proof
      assume h: "digest_lines h ps = []"
      have "CHR 0x00 \<in> set (t @ newline # digest_lines g ps)" using q(2) by simp
      then show False using n(2) nl by (simp add: e h)
    qed
    then obtain q' r' where q': "q' \<in> set ps" "digest_lines h ps = q' @ CHR 0x00 # r'" using digest_lines_head [of h ps] by blast
    have "(t @ newline # q) @ CHR 0x00 # r = (u @ newline # q') @ CHR 0x00 # r'" using e q(2) q'(2) by simp
    then have "t @ newline # q = u @ newline # q'" "r = r'"
      using first_char [of "t @ newline # q" "CHR 0x00" r "u @ newline # q'" r'] n q(1) q'(1) nl by auto
    then show ?thesis using last_char [of t newline q u q'] n(3) q q' by simp
  qed
qed

lemma digest_lines_inj:
  assumes "digest_lines g ps = digest_lines h ps" "\<forall>p\<in>set ps. CHR 0x00 \<notin> set p \<and> newline \<notin> set p"
    and "\<forall>p\<in>set ps. \<forall>t. g p = Some t \<or> h p = Some t \<longrightarrow> CHR 0x00 \<notin> set t"
  shows "\<forall>p\<in>set ps. g p = h p"
  using assms
proof (induction ps)
  case (Cons p ps)
  have no: False if "q @ CHR 0x00 # r = digest_lines k ps" "q \<in> set (p # ps)" "k q = None" for q r k
  proof -
    have "digest_lines k ps \<noteq> []" using that(1) by (metis append_is_Nil_conv list.distinct(1))
    then obtain q' r' where h: "q' \<in> set ps" "k q' \<noteq> None" "digest_lines k ps = q' @ CHR 0x00 # r'"
      using digest_lines_head [of k ps] by auto
    then have "q = q'" using first_char [of q "CHR 0x00" r q' r'] that(1,2) Cons.prems(2) by auto
    then show False using h(2) that(3) by simp
  qed
  have d: "digest_lines k (p # ps) = toolchain_line p (k p) @ digest_lines k ps" for k by (simp add: digest_lines_def)
  have ih: "digest_lines g ps = digest_lines h ps \<Longrightarrow> \<forall>p\<in>set ps. g p = h p" using Cons.IH Cons.prems(2,3) by auto
  have e: "toolchain_line p (g p) @ digest_lines g ps = toolchain_line p (h p) @ digest_lines h ps" using Cons.prems(1) by (simp only: d)
  show ?case
  proof (cases "g p")
    case None
    show ?thesis
    proof (cases "h p")
      case None
      then show ?thesis using ih e \<open>g p = None\<close> by (simp add: toolchain_line_def)
    next
      case (Some u)
      then show ?thesis using no [of p "u @ newline # digest_lines h ps" g] e None by (simp add: toolchain_line_def)
    qed
  next
    case (Some t)
    show ?thesis
    proof (cases "h p")
      case None
      then show ?thesis using no [of p "t @ newline # digest_lines g ps" h] e Some by (simp add: toolchain_line_def)
    next
      case (Some u)
      have "t @ newline # digest_lines g ps = u @ newline # digest_lines h ps"
        using e \<open>g p = Some t\<close> Some by (simp add: toolchain_line_def)
      then have "t = u \<and> digest_lines g ps = digest_lines h ps"
        by (rule line_split) (use Cons.prems \<open>g p = Some t\<close> Some in auto)
      then show ?thesis using ih \<open>g p = Some t\<close> Some by simp
    qed
  qed
qed simp

text \<open>A path, and what is there, that a file system and a hash can have: no line feed in the path, no NUL anywhere.\<close>

definition clean_state :: "host \<Rightarrow> path_state \<Rightarrow> bool" where
  "clean_state H st \<longleftrightarrow> (case st of IsLink (Inr t) \<Rightarrow> CHR 0x00 \<notin> set t | IsFile (Inr b) \<Rightarrow> CHR 0x00 \<notin> set (sha256 H b) | _ \<Rightarrow> True)"

definition clean_path :: "string \<Rightarrow> bool" where
  "clean_path p \<longleftrightarrow> CHR 0x00 \<notin> set p \<and> newline \<notin> set p"

text \<open>The texts that were hashed.\<close>

definition hashed_texts :: "host \<Rightarrow> (string \<Rightarrow> path_state) \<Rightarrow> string list \<Rightarrow> string set" where
  "hashed_texts H fs paths = insert (utf8_encode (digest_lines (entry_text H fs) (sort paths))) {b. \<exists>p\<in>set paths. fs p = IsFile (Inr b)}"

lemma entry_text_clean: "clean_state H (fs p) \<Longrightarrow> entry_text H fs p = Some t \<Longrightarrow> CHR 0x00 \<notin> set t"
  by (auto simp: clean_state_def entry_text_def toolchain_entry_def rbind_def split: path_state.splits sum.splits)

lemma entry_text_state:
  assumes "entry_text H fs p = entry_text H fs' p" "succeeds (toolchain_entry H fs p)" "succeeds (toolchain_entry H fs' p)"
    and "\<And>a b. fs p = IsFile (Inr a) \<Longrightarrow> fs' p = IsFile (Inr b) \<Longrightarrow> sha256 H a = sha256 H b \<Longrightarrow> a = b"
  shows "fs p = fs' p"
  using assms by (auto simp: entry_text_def toolchain_entry_def succeeds_iff rbind_eq_Inr split: path_state.splits)

text \<open>
  C40: the digest fixes the toolchain. When a recorded digest and one computed later over the same listed paths are equal and
  SHA-256 has no collision among the texts that were hashed, every listed path is what it was: the same bytes in a file, the
  same target of a link, still a directory, still missing. The digest does not depend on the order of the listing.
\<close>
theorem toolchain_pinned:
  assumes "toolchain_digest H fs paths = Inr d" "toolchain_digest H fs' paths' = Inr d" "mset paths' = mset paths"
    and "list_all clean_path paths" "list_all (\<lambda>p. clean_state H (fs p) \<and> clean_state H (fs' p)) paths"
    and "inj_on (sha256 H) (hashed_texts H fs paths \<union> hashed_texts H fs' paths)"
  shows "\<forall>p\<in>set paths. fs p = fs' p"
proof -
  have s: "sort paths' = sort paths" using assms(3) by (metis properties_for_sort mset_sort sorted_sort)
  have m: "set paths' = set paths" using assms(3) by (metis set_mset_mset)
  have d: "sha256 H (utf8_encode (digest_lines (entry_text H fs) (sort paths))) = sha256 H (utf8_encode (digest_lines (entry_text H fs') (sort paths)))"
    and ok: "\<forall>p\<in>set paths. succeeds (toolchain_entry H fs p) \<and> succeeds (toolchain_entry H fs' p)"
    using toolchain_digest_Inr [OF assms(1)] toolchain_digest_Inr [OF assms(2)] s m by simp_all
  have "digest_lines (entry_text H fs) (sort paths) = digest_lines (entry_text H fs') (sort paths)"
    using inj_onD [OF assms(6) d] utf8_encode_inj by (simp add: hashed_texts_def)
  then have e: "\<forall>p\<in>set (sort paths). entry_text H fs p = entry_text H fs' p"
    by (rule digest_lines_inj) (use assms(4,5) entry_text_clean in \<open>auto simp: list_all_iff clean_path_def\<close>)
  show ?thesis
  proof
    fix p
    assume p: "p \<in> set paths"
    have "a = b" if "fs p = IsFile (Inr a)" "fs' p = IsFile (Inr b)" "sha256 H a = sha256 H b" for a b
      by (rule inj_onD [OF assms(6) that(3)]) (use p that in \<open>auto simp: hashed_texts_def\<close>)
    moreover have "entry_text H fs p = entry_text H fs' p" "succeeds (toolchain_entry H fs p)" "succeeds (toolchain_entry H fs' p)"
      using p e ok by simp_all
    ultimately show "fs p = fs' p" using entry_text_state by blast
  qed
qed

text \<open>A file, a link and a path that is missing; later a path that is not listed has changed. The hash is the identity.\<close>

definition plain_host :: host where
  "plain_host = \<lparr>sha256 = (\<lambda>b. b), float_repr = (\<lambda>_. ''0.0''), untar = (\<lambda>_. Inl (OSError []))\<rparr>"

definition toy_tools :: "string \<Rightarrow> path_state" where
  "toy_tools p = (if p = ''/c'' then IsFile (Inr ''ELF'') else if p = ''/r'' then IsLink (Inr ''c'') else NotThere)"

definition later_tools :: "string \<Rightarrow> path_state" where
  "later_tools p = (if p = ''/x'' then NoContent else toy_tools p)"

definition toy_record :: string where
  "toy_record = ''/c'' @ [CHR 0x00] @ ''file:ELF'' @ [newline] @ ''/m'' @ [CHR 0x00] @ ''missing'' @ [newline] @ ''/r'' @ [CHR 0x00] @ ''link:c'' @ [newline]"

theorem toolchain_pinned_witness:
  "toolchain_digest plain_host toy_tools [''/r'', ''/c'', ''/m''] = Inr toy_record \<and> toy_tools ''/c'' = later_tools ''/c''"
proof -
  have a: "toolchain_digest plain_host toy_tools [''/r'', ''/c'', ''/m''] = Inr toy_record"
    and b: "toolchain_digest plain_host later_tools [''/c'', ''/m'', ''/r''] = Inr toy_record" by code_simp+
  have "list_all clean_path [''/r'', ''/c'', ''/m'']" by code_simp
  moreover have "list_all (\<lambda>p. clean_state plain_host (toy_tools p) \<and> clean_state plain_host (later_tools p)) [''/r'', ''/c'', ''/m'']" by code_simp
  moreover have "inj_on (sha256 plain_host) A" for A by (simp add: plain_host_def inj_on_def)
  moreover have "mset [''/c'', ''/m'', ''/r''] = mset [''/r'', ''/c'', ''/m'']" by simp
  ultimately have "\<forall>p\<in>set [''/r'', ''/c'', ''/m'']. toy_tools p = later_tools p" using toolchain_pinned [OF a b] by blast
  then show ?thesis using a by simp
qed

section \<open>The cargo home\<close>

text \<open>What a placed tree holds: what was there, new directories on the way, and the placed node.\<close>

lemma place_root: "place c cs f t = Inr t' \<Longrightarrow> f_meta t' = f_meta t \<and> f_data t' = f_data t"
  by (induction c cs f t arbitrary: t' rule: place.induct)
    (auto simp: require_eq_Inr rbind_eq_Inr add_kid_def set_kid_def split: option.splits)

lemma node_new_dir: "node_at ds (new_dir c) = Some x \<Longrightarrow> ds = []"
  by (cases ds) (auto simp: new_dir_def kid_def)

lemma kid_add: "kid d (add_kid n k t) = Some z \<Longrightarrow> kid d t = Some z \<or> d = n \<and> z = k"
  by (auto simp: kid_def add_kid_def map_add_def split: option.splits if_splits)

lemma kid_set: "kid d (set_kid n k t) = Some z \<Longrightarrow> kid d t = Some z \<and> d \<noteq> n \<or> d = n \<and> z = k"
  by (auto simp: kid_def set_kid_def split: option.splits if_splits)

lemma place_node:
  assumes "place c cs f t = Inr t'" "node_at ds t' = Some x" "ds \<noteq> []"
  shows "(\<exists>y. node_at ds t = Some y \<and> m_kind (f_meta y) = m_kind (f_meta x) \<and> f_data y = f_data x) \<or>
     m_kind (f_meta x) = KDir \<and> (\<exists>n es. cs = ds @ n # es) \<or> (\<exists>es. ds = cs @ es \<and> node_at es f = Some x)"
  using assms
proof (induction c cs f t arbitrary: t' ds rule: place.induct)
  case (2 m n f t)
  then obtain d es where ds: "ds = d # es" by (cases ds) auto
  then obtain z where z: "kid d (add_kid n f t) = Some z" "node_at es z = Some x"
    using "2.prems" by (auto simp: require_eq_Inr split: option.splits)
  then show ?case using kid_add [OF z(1)] ds by (auto split: option.splits)
next
  case (3 m n c cs f t)
  obtain d es where ds: "ds = d # es" using "3.prems"(3) by (cases ds) auto
  obtain z where z: "kid d t' = Some z" "node_at es z = Some x" using "3.prems"(2) ds by (auto split: option.splits)
  show ?case
  proof (cases "kid n t")
    case None
    then obtain k where k: "place m (c # cs) f (new_dir m) = Inr k" "t' = add_kid n k t"
      using "3.prems"(1) by (auto simp: rbind_eq_Inr)
    consider "kid d t = Some z" | "d = n" "z = k" using kid_add z(1) k(2) by blast
    then show ?thesis
    proof cases
      case 1
      then show ?thesis using z(2) ds by auto
    next
      case 2
      show ?thesis
      proof (cases "es = []")
        case True
        then have "x = k" using z(2) 2 by simp
        then have "m_kind (f_meta x) = KDir" using place_root [OF k(1)] by (simp add: new_dir_def)
        then show ?thesis using ds True 2 by simp
      next
        case False
        have "node_at es k = Some x" using z(2) 2 by simp
        from "3.IH"(1) [OF None k(1) this False] show ?thesis using ds 2 node_new_dir False by fastforce
      qed
    qed
  next
    case (Some k0)
    then obtain k where k: "f_isdir k0" "place m (c # cs) f k0 = Inr k" "t' = set_kid n k t"
      using "3.prems"(1) by (auto simp: rbind_eq_Inr require_eq_Inr)
    consider "kid d t = Some z" "d \<noteq> n" | "d = n" "z = k" using kid_set z(1) k(3) by blast
    then show ?thesis
    proof cases
      case 1
      then show ?thesis using z(2) ds by auto
    next
      case 2
      show ?thesis
      proof (cases "es = []")
        case True
        then have "x = k" using z(2) 2 by simp
        then show ?thesis using place_root [OF k(2)] Some ds True 2 by simp
      next
        case False
        have "node_at es k = Some x" using z(2) 2 by simp
        from "3.IH"(2) [OF Some k(1,2) this False] show ?thesis using ds 2 Some by fastforce
      qed
    qed
  qed
qed simp

lemma place_files:
  assumes "rfold (\<lambda>(cs, b). place c cs (new_file c data_mode b)) targets t = Inr u" "node_at ds u = Some x" "ds \<noteq> []"
  shows "(\<exists>y. node_at ds t = Some y \<and> m_kind (f_meta y) = m_kind (f_meta x) \<and> f_data y = f_data x) \<or>
     (\<exists>(cs, b)\<in>set targets. m_kind (f_meta x) = KDir \<and> (\<exists>n es. cs = ds @ n # es) \<or> ds = cs \<and> f_data x = b)"
  using assms(1)
proof (induction targets arbitrary: t)
  case Nil
  then show ?case using assms(2) by auto
next
  case (Cons pb targets)
  obtain cs b where pb: "pb = (cs, b)" by force
  from Cons.prems obtain v where v: "place c cs (new_file c data_mode b) t = Inr v"
      "rfold (\<lambda>(cs, b). place c cs (new_file c data_mode b)) targets v = Inr u"
    by (auto simp: pb rbind_eq_Inr)
  consider y where "node_at ds v = Some y" "m_kind (f_meta y) = m_kind (f_meta x)" "f_data y = f_data x"
    | "\<exists>(cs, b)\<in>set targets. m_kind (f_meta x) = KDir \<and> (\<exists>n es. cs = ds @ n # es) \<or> ds = cs \<and> f_data x = b"
    using Cons.IH [OF v(2)] by blast
  then show ?case
  proof cases
    case 1
    have "node_at es (new_file c data_mode b) = Some z \<Longrightarrow> es = [] \<and> f_data z = b" for es z
      by (cases es) (auto simp: new_file_def kid_def)
    with place_node [OF v(1) 1(1) assms(3)] 1(2,3) show ?thesis by (fastforce simp: pb)
  next
    case 2
    then show ?thesis by auto
  qed
qed

lemma rglob_parts: "(ps, f) \<in> set (rglob t) \<Longrightarrow> ps \<noteq> []"
  by (induction t arbitrary: ps f rule: rglob.induct) (auto split: if_splits)

lemma rmap_result: "rmap f xs = Inr ys \<Longrightarrow> y \<in> set ys \<Longrightarrow> \<exists>x\<in>set xs. f x = Inr y"
  by (induction xs arbitrary: ys) (auto simp: rbind_eq_Inr)

text \<open>A copied crate has the checksum of the lock file.\<close>

lemma cached_crates:
  assumes "rmap (cache_entry H wanted) es = Inr cs" "(ps, b) \<in> set (concat cs)"
  shows "map_of wanted (last ps) = Some (JStr (sha256 H b)) \<and> ps \<in> fst ` set es"
proof -
  obtain c where c: "c \<in> set cs" "(ps, b) \<in> set c" using assms(2) by auto
  obtain qs f where e: "(qs, f) \<in> set es" "cache_entry H wanted (qs, f) = Inr c"
    using rmap_result [OF assms(1) c(1)] by force
  then have "qs = ps \<and> map_of wanted (last ps) = Some (JStr (sha256 H b))" using c(2)
    by (auto simp: cache_entry_def require_eq_Inr split: if_splits option.splits)
  then show ?thesis using e(1) by force
qed

text \<open>
  C37: the new cargo home holds nothing that was not verified. Everything in it is below \<open>registry\<close>, in \<open>index\<close> or \<open>cache\<close> (so
  there is no configuration, no \<open>bin\<close> and no unpacked source), and each file of the cache is named in the lock
  file and has the checksum given there.
\<close>
theorem cargo_home_verified:
  assumes "make_fresh_cargo_home H show c bridge_home lock = Inr fresh"
  shows "\<exists>wanted. rbind lock (locked_crates show) = Inr wanted \<and>
     (\<forall>ds x. ds \<noteq> [] \<and> node_at ds fresh = Some x \<longrightarrow>
        hd ds = ''registry'' \<and> (tl ds = [] \<or> hd (tl ds) = ''index'' \<or>
          hd (tl ds) = ''cache'' \<and> (m_kind (f_meta x) = KDir \<or> map_of wanted (last ds) = Some (JStr (sha256 H (f_data x))))))"
proof -
  obtain wanted cache cs u where w: "rbind lock (locked_crates show) = Inr wanted"
      "rmap (cache_entry H wanted) (sort_key fst (rglob cache)) = Inr cs"
      "rfold (\<lambda>(cs, b). place c cs (new_file c data_mode b)) (crate_paths (concat cs)) (new_dir c) = Inr u"
      "copy_index c bridge_home u = Inr fresh"
  proof -
    from assms obtain wanted where w: "rbind lock (locked_crates show) = Inr wanted"
        "rbind (case dir_at bridge_home ''registry/cache'' of None \<Rightarrow> Inl (ValueError ''bridge cargo cache missing'') | Some cache \<Rightarrow> Inr cache) (\<lambda>cache.
          rbind (rmap (cache_entry H wanted) (sort_key fst (rglob cache))) (\<lambda>cs.
          require (concat cs \<noteq> []) (ValueError ''bridge cargo cache holds no crates'')
          (rbind (check_index bridge_home) (\<lambda>_.
           rbind (rfold (\<lambda>(cs, b). place c cs (new_file c data_mode b)) (crate_paths (concat cs)) (new_dir c)) (\<lambda>fresh.
           copy_index c bridge_home fresh))))) = Inr fresh"
      unfolding make_fresh_cargo_home_def by (subst (asm) rbind_eq_Inr) blast
    from w(2) show thesis by (auto simp: rbind_eq_Inr require_eq_Inr simp del: rmap_eq_Inr intro: that [OF w(1)])
  qed
  have f: "u = fresh \<or> (\<exists>t. place c [''registry'', ''index''] t u = Inr fresh)"
    using w(4) by (auto simp: copy_index_def rbind_eq_Inr simp del: place.simps split: option.splits)
  define ok where "ok ds x \<longleftrightarrow> hd ds = ''registry'' \<and> (tl ds = [] \<or> hd (tl ds) = ''index'' \<or>
      hd (tl ds) = ''cache'' \<and> (m_kind (f_meta x) = KDir \<or> map_of wanted (last ds) = Some (JStr (sha256 H (f_data x)))))" for ds and x :: fsnode
  have crate: "ok ds x" if x: "node_at ds u = Some x" "ds \<noteq> []" for ds x
  proof -
    have "node_at ds (new_dir c) \<noteq> Some y" for y using node_new_dir x(2) by blast
    then obtain ps b where p: "(ps, b) \<in> set (concat cs)"
        "m_kind (f_meta x) = KDir \<and> (\<exists>n es. [''registry'', ''cache''] @ ps = ds @ n # es) \<or> ds = [''registry'', ''cache''] @ ps \<and> f_data x = b"
      using place_files [OF w(3) x] by (auto simp: crate_paths_def simp del: set_concat)
    have l: "map_of wanted (last ps) = Some (JStr (sha256 H b))" "ps \<noteq> []"
      using cached_crates [OF w(2) p(1)] rglob_parts by auto
    from p(2) show ?thesis
    proof
      assume "m_kind (f_meta x) = KDir \<and> (\<exists>n es. [''registry'', ''cache''] @ ps = ds @ n # es)"
      then show ?thesis using x(2) by (cases ds; cases "tl ds") (auto simp: ok_def)
    next
      assume "ds = [''registry'', ''cache''] @ ps \<and> f_data x = b"
      then show ?thesis using l by (simp add: ok_def)
    qed
  qed
  have "ok ds x" if x: "node_at ds fresh = Some x" "ds \<noteq> []" for ds x
    using f
  proof
    assume "u = fresh"
    then show ?thesis using crate x by simp
  next
    assume "\<exists>t. place c [''registry'', ''index''] t u = Inr fresh"
    then obtain t where p: "place c [''registry'', ''index''] t u = Inr fresh" by blast
    from place_node [OF p x] consider y where "node_at ds u = Some y" "m_kind (f_meta y) = m_kind (f_meta x)" "f_data y = f_data x"
      | n es where "[''registry'', ''index''] = ds @ n # es" | es where "ds = [''registry'', ''index''] @ es" by blast
    then show ?thesis
    proof cases
      case 1
      then show ?thesis using crate [OF 1(1) x(2)] by (simp add: ok_def)
    next
      case 2
      then show ?thesis using x(2) by (cases ds; cases "tl ds") (auto simp: ok_def)
    qed (simp add: ok_def)
  qed
  then show ?thesis using w(1) unfolding ok_def by blast
qed

text \<open>A cache with one locked archive.\<close>

definition sc_meta :: "kind \<Rightarrow> meta" where
  "sc_meta k = \<lparr>m_kind = k, m_uid = 0, m_gid = 0, m_mode = 493, m_nlink = 1, m_dev = 0, m_ino = 0, m_xattrs = Inr []\<rparr>"

definition sc_dir :: "(string \<times> fsnode) list \<Rightarrow> fsnode" where
  "sc_dir ks = FsNode (sc_meta KDir) True [] (Some ks)"

definition sc_file :: "string \<Rightarrow> fsnode" where
  "sc_file b = FsNode (sc_meta KReg) False b (Some [])"

definition sc_home :: fsnode where
  "sc_home = sc_dir [(''bin'', sc_dir []), (''config.toml'', sc_file ''x''),
     (''registry'', sc_dir [(''cache'', sc_dir [(''i'', sc_dir [(''a-1.crate'', sc_file ''A'')])])])]"

definition sc_lock :: json where
  "sc_lock = JObj [(''package'', JList [JObj [(''name'', JStr ''a''), (''version'', JStr ''1''), (''checksum'', JStr ''A'')],
     JObj [(''name'', JStr ''own''), (''version'', JStr ''2'')]])]"

definition sc_fresh :: fsnode where
  "sc_fresh = sc_dir [(''registry'', sc_dir [(''cache'', sc_dir [(''i'', sc_dir [(''a-1.crate'', sc_file ''A'')])])])]"

theorem cargo_home_verified_witness:
  "\<exists>fresh wanted x. make_fresh_cargo_home plain_host (\<lambda>_. []) (sc_meta KDir) sc_home (Inr sc_lock) = Inr fresh \<and>
     locked_crates (\<lambda>_. []) sc_lock = Inr wanted \<and> node_at [''registry'', ''cache'', ''i'', ''a-1.crate''] fresh = Some x \<and>
     map_of wanted ''a-1.crate'' = Some (JStr (sha256 plain_host (f_data x))) \<and> f_data x = ''A''"
proof -
  have "succeeds (make_fresh_cargo_home plain_host (\<lambda>_. []) (sc_meta KDir) sc_home (Inr sc_lock))" by code_simp
  then obtain fresh where f: "make_fresh_cargo_home plain_host (\<lambda>_. []) (sc_meta KDir) sc_home (Inr sc_lock) = Inr fresh"
    unfolding succeeds_iff by blast
  have "(case make_fresh_cargo_home plain_host (\<lambda>_. []) (sc_meta KDir) sc_home (Inr sc_lock) of
      Inr t \<Rightarrow> (case node_at [''registry'', ''cache'', ''i'', ''a-1.crate''] t of Some x \<Rightarrow> m_kind (f_meta x) = KReg \<and> f_data x = ''A'' | None \<Rightarrow> False)
    | Inl _ \<Rightarrow> False)" by code_simp
  then obtain x where x: "node_at [''registry'', ''cache'', ''i'', ''a-1.crate''] fresh = Some x" "m_kind (f_meta x) = KReg" "f_data x = ''A''"
    by (simp add: f split: option.splits)
  obtain wanted where w: "rbind (Inr sc_lock) (locked_crates (\<lambda>_. [])) = Inr wanted"
    "\<forall>ds x. ds \<noteq> [] \<and> node_at ds fresh = Some x \<longrightarrow>
        hd ds = ''registry'' \<and> (tl ds = [] \<or> hd (tl ds) = ''index'' \<or>
          hd (tl ds) = ''cache'' \<and> (m_kind (f_meta x) = KDir \<or> map_of wanted (last ds) = Some (JStr (sha256 plain_host (f_data x)))))"
    using cargo_home_verified [OF f] by blast
  have "map_of wanted ''a-1.crate'' = Some (JStr (sha256 plain_host (f_data x)))"
    using w(2) [rule_format, of "[''registry'', ''cache'', ''i'', ''a-1.crate'']" x] x(1,2) by simp
  then show ?thesis using f w(1) x(1,3) by auto
qed

section \<open>The sources\<close>

lemma dict_items_same: "rbind v dict_items = Inr a \<Longrightarrow> rbind v dict_items = Inr b \<Longrightarrow> a = b"
  by simp

lemma require_pinned_Inr:
  assumes "require_pinned_scanner_sources H target_file exported pins = Inr ()"
  obtains items where "rbind (index pins ''sourceFiles'') dict_items = Inr items"
    "\<And>package name. package \<in> set PACKAGES \<Longrightarrow> name \<in> set (crate_files target_file exported package) \<Longrightarrow>
       name \<in> fst ` set items \<and> startswith name ''crates/scanner-''"
    "\<And>name v. (name, v) \<in> set items \<Longrightarrow> startswith name ''crates/scanner-'' \<Longrightarrow>
       \<exists>b. exported_file target_file exported name = Some b \<and> pyeq (JStr (sha256 H b)) v"
proof -
  obtain items where i: "rbind (index pins ''sourceFiles'') dict_items = Inr items"
      "rall (\<lambda>name. require (name \<in> set (map fst (filter (\<lambda>(name, _). startswith name ''crates/scanner-'') items)))
          (ValueError (''unpinned scanner input: '' @ name)) (Inr ())) (concat (map (crate_files target_file exported) PACKAGES)) = Inr ()"
      "rall (\<lambda>(name, expected). case exported_file target_file exported name of
         None \<Rightarrow> Inl (ValueError (''missing pinned scanner input: '' @ name))
       | Some b \<Rightarrow> require (pyeq (JStr (sha256 H b)) expected) (ValueError (''scanner input differs from pinned upstream: '' @ name)) (Inr ()))
        (filter (\<lambda>(name, _). startswith name ''crates/scanner-'') items) = Inr ()"
    using assms unfolding require_pinned_scanner_sources_def Let_def by (auto simp: rbind_eq_Inr simp del: rall_eq_Inr)
  show thesis
  proof (rule that [OF i(1)])
    show "name \<in> fst ` set items \<and> startswith name ''crates/scanner-''"
      if "package \<in> set PACKAGES" "name \<in> set (crate_files target_file exported package)" for package name
      using i(2) that by (fastforce simp: rall_eq_Inr require_eq_Inr)
    show "\<exists>b. exported_file target_file exported name = Some b \<and> pyeq (JStr (sha256 H b)) v"
      if "(name, v) \<in> set items" "startswith name ''crates/scanner-''" for name v
      using i(3) that by (fastforce simp: rall_eq_Inr require_eq_Inr split: option.splits)
  qed
qed


text \<open>Two crates with one pinned file each.\<close>

definition sc_export :: "string \<Rightarrow> fsnode" where
  "sc_export rest = sc_dir [(''crates'', sc_dir [(''scanner-privileged'', sc_dir [(''m.rs'', sc_file ''P'')]),
     (''scanner-broker'', sc_dir [(''m.rs'', sc_file ''B'')])]), (''README'', sc_file rest)]"

definition sc_pins :: json where
  "sc_pins = JObj [(''sourceFiles'', JObj [(''crates/scanner-broker/m.rs'', JStr ''B''), (''crates/scanner-privileged/m.rs'', JStr ''P''),
     (''Cargo.lock'', JStr ''L'')])]"


section \<open>The build\<close>

lemma contains_app: "contains p a \<Longrightarrow> contains p (a @ b)"
proof (induction a)
  case Nil
  then show ?case by (cases b) (auto simp: startswith_iff)
next
  case (Cons c a)
  have "startswith (c # a) p \<Longrightarrow> startswith (c # a @ b) p" by (metis append_Cons append.assoc startswith_iff)
  then show ?case using Cons by auto
qed

lemma compare_binary_Inr:
  assumes "compare_binary B W n w = Inr (fs, w')"
  obtains a b t where "fs = [(n, a), (n @ ''.ldd'', utf8_encode t)]" "bw_file W w (release_path ''target-a'' n) = Inr a"
    "bw_file W w (release_path ''target-b'' n) = Inr b" "sha256 (bh_host B) a = sha256 (bh_host B) b" "\<not> contains ''not found'' t"
  using assms by (auto simp: compare_binary_def rbind_eq_Inr require_eq_Inr dest: contains_app intro: that)

text \<open>What was done for an executable in the state \<open>v\<close> of the output directory.\<close>

definition same_build :: "build_host \<Rightarrow> 'w build_world \<Rightarrow> (string \<times> string) list \<Rightarrow> string \<Rightarrow> bool" where
  "same_build B W files n \<longleftrightarrow> (\<exists>v a b t. bw_file W v (release_path ''target-a'' n) = Inr a \<and> bw_file W v (release_path ''target-b'' n) = Inr b \<and>
     sha256 (bh_host B) a = sha256 (bh_host B) b \<and> map_of files n = Some a \<and> map_of files (n @ ''.ldd'') = Some (utf8_encode t) \<and> \<not> contains ''not found'' t)"

definition built_twice :: "build_host \<Rightarrow> 'w build_world \<Rightarrow> 'w \<Rightarrow> bool" where
  "built_twice B W w \<longleftrightarrow> (\<exists>ea eb out1 out2 w1 w2. bw_run W BUILD ea w = Inr (out1, w1) \<and> bw_run W BUILD eb w1 = Inr (out2, w2) \<and>
     map_of ea ''CARGO_TARGET_DIR'' = Some (path_join (bw_out W) ''target-a'') \<and> map_of eb ''CARGO_TARGET_DIR'' = Some (path_join (bw_out W) ''target-b''))"

definition one_bus_test :: "'w build_world \<Rightarrow> bool" where
  "one_bus_test W \<longleftrightarrow> (\<exists>env w out w'. bw_run W BUS_TEST env w = Inr (out, w') \<and>
     sum_list (passed_counts (bw_text W out)) = 1 \<and> \<not> contains ''test result: FAILED'' (bw_text W out))"

lemma target_env_dir: "map_of (target_env B t env) ''CARGO_TARGET_DIR'' = Some t"
  by (simp add: target_env_def map_of_dict_set)

lemma build_and_test_Inr:
  assumes "build_and_test B W env w = Inr (fs, w')"
  shows "built_twice B W w \<and> one_bus_test W \<and>
     (\<exists>l r t gs hs v1 v2 w1 w2. fs = [(''build.log'', l), (''repro.log'', r)] @ gs @ hs @ [(''test.log'', t)] \<and>
        compare_binary B W (SCANNER_BINARIES ! 0) v1 = Inr (gs, w1) \<and> compare_binary B W (SCANNER_BINARIES ! 1) v2 = Inr (hs, w2))"
proof -
  let ?e = "\<lambda>n. path_join (bw_out W) n"
  let ?a = "target_env B (?e ''target-a'') env"
  let ?b = "target_env B (?e ''target-b'') ?a"
  let ?t = "target_env B (?e ''target-a'') ?b"
  obtain l w1 r w2 gs w3 t w4 bus w5 where r: "bw_run W BUILD ?a w = Inr (l, w1)" "bw_run W BUILD ?b w1 = Inr (r, w2)"
      "rfold (\<lambda>binary (fs, w). rbind (compare_binary B W binary w) (\<lambda>(gs, w). Inr (fs @ gs, w))) SCANNER_BINARIES ([], w2) = Inr (gs, w3)"
      "bw_run W TEST ?t w3 = Inr (t, w4)" "bw_run W BUS_TEST ?t w4 = Inr (bus, w5)" "require_private_bus_test (bw_text W bus) = Inr ()"
      "fs = [(''build.log'', l), (''repro.log'', r)] @ gs @ [(''test.log'', t @ bus)]"
    using assms unfolding build_and_test_def Let_def by (auto simp: rbind_eq_Inr)
  have "built_twice B W w" unfolding built_twice_def using r(1,2) target_env_dir by blast
  moreover have "one_bus_test W" using r(5,6) by (auto simp: one_bus_test_def require_private_bus_test_def require_eq_Inr)
  moreover from r(3) obtain g h v where "gs = g @ h" "compare_binary B W (SCANNER_BINARIES ! 0) w2 = Inr (g, v)"
      "compare_binary B W (SCANNER_BINARIES ! 1) v = Inr (h, w3)"
    by (auto simp: SCANNER_BINARIES_def rbind_eq_Inr)
  ultimately show ?thesis using r(7) by auto
qed

lemma object_of_Inr:
  assumes "object_of kvs = Inr v"
  obtains d where "v = JObj d" "list_all2 (\<lambda>(k, r) (k', x). k = k' \<and> r = Inr x) kvs d"
proof -
  obtain d where d: "v = JObj d" "rmap (\<lambda>(k, v). rbind v (\<lambda>v. Inr (k, v))) kvs = Inr d"
    using assms by (auto simp: object_of_def rbind_eq_Inr simp del: rmap_eq_Inr)
  have "list_all2 (\<lambda>(k, r) (k', x). k = k' \<and> r = Inr x) kvs d"
    using d(2) by (auto simp: rmap_eq_Inr rbind_eq_Inr elim!: list_all2_mono)
  then show thesis using that d(1) by blast
qed

lemma object_of_get:
  assumes "list_all2 (\<lambda>(k, r) (k', x). k = k' \<and> r = Inr x) kvs d" "map_of kvs k = Some r"
  shows "\<exists>x. r = Inr x \<and> map_of d k = Some x"
  using assms by (induction rule: list_all2_induct) (auto split: if_splits)

lemma object_field:
  assumes "object_of kvs = Inr v" "map_of kvs k = Some r"
  shows "\<exists>d x. v = JObj d \<and> map_of d k = Some x \<and> r = Inr x"
  using object_of_Inr [OF assms(1)] object_of_get assms(2) by metis

lemma scanner_provenance_Inr:
  assumes "scanner_provenance B W pins env rustc files = Inr p"
  obtains e bs where "p = JObj e" "map_of e ''reproducible'' = Some (JBool True)"
    "object_of (map (\<lambda>n. (n, file_hash (bh_host B) files n)) SCANNER_BINARIES) = Inr bs" "map_of e ''binaries'' = Some bs"
proof -
  note a = assms [unfolded scanner_provenance_def Let_def]
  have "\<exists>d x. p = JObj d \<and> map_of d ''reproducible'' = Some x \<and> Inr (JBool True) = (Inr x :: json result)"
    by (rule object_field [OF a]) simp
  moreover have "\<exists>d x. p = JObj d \<and> map_of d ''binaries'' = Some x \<and>
      object_of (map (\<lambda>n. (n, file_hash (bh_host B) files n)) SCANNER_BINARIES) = Inr x"
    by (rule object_field [OF a]) simp
  ultimately show thesis using that by auto
qed

lemma file_hash_Inr: "file_hash h files n = Inr v \<longleftrightarrow> (\<exists>b. map_of files n = Some b \<and> v = JStr (sha256 h b))"
  by (auto simp: file_hash_def split: option.splits)


text \<open>A builder whose state counts the commands; both builds give the same two executables.\<close>

definition sc_host :: build_host where
  "sc_host = \<lparr>bh_host = plain_host\<lparr>sha256 := (\<lambda>b. ''h'')\<rparr>, bh_show = (\<lambda>_. []), bh_toml = (\<lambda>_. Inr sc_lock), bh_other = (\<lambda>_. Inl (ValueError ''json'')),
     bh_containerenv = True, bh_dockerenv = False, bh_run_host = False, bh_creator = sc_meta KDir, bh_taken = False,
     bh_inputs = ''/i'', bh_cargo_home = ''/g'',
     bh_pins = Inr (utf8_encode (dumps_sorted (float_repr plain_host) indented
       (JObj [(''builderImage'', JStr ''b''), (''sourceCommit'', JStr ''c''), (''sourceTree'', JStr ''t'')]))),
     bh_environ = toy_env, bh_dir = (\<lambda>_. None), bh_archive = (\<lambda>_. Inr (sc_export [])), bh_target_file = (\<lambda>_. False),
     bh_lexists = (\<lambda>_. False), bh_fs = toy_tools, bh_rpm_ql = (\<lambda>_. Inr []), bh_recorded = None, bh_epoch = Inr ''1''\<rparr>"

definition sc_metadata :: json where
  "sc_metadata = JObj [(''packages'', JList [JObj [(''id'', JStr ''d''), (''license'', JStr ''MIT''), (''name'', JStr ''dep''), (''source'', JNull), (''version'', JStr ''1'')]]),
     (''workspace_members'', JList [])]"

definition sc_run :: "string list \<Rightarrow> string" where
  "sc_run cmd = (if cmd = METADATA then utf8_encode (dumps_sorted (float_repr plain_host) indented sc_metadata)
     else if cmd = BUS_TEST then ''test result: ok. 1 passed'' else if hd (tl cmd) = ''tree'' then ''dep v1'' else ''ok'')"

definition sc_world :: "nat build_world" where
  "sc_world = \<lparr>bw_run = (\<lambda>cmd _ n. Inr (sc_run cmd, Suc n)), bw_ldd = (\<lambda>_ _ n. Inr (''libc.so.6 => /lib64/libc.so.6'', [], n)),
     bw_file = (\<lambda>n _. if n = 2 then Inr ''ELF'' else Inl FileNotFoundError), bw_text = (\<lambda>b. b), bw_crate_key = (\<lambda>_. []), bw_crate_lines = (\<lambda>_. Inr [''- dep 1: MIT'']),
     bw_euid = 65534, bw_out = ''/o'', bw_out_ready = True, bw_config = (\<lambda>_. False),
     bw_inputs = (\<lambda>_. Inr (utf8_encode (dumps_sorted (float_repr plain_host) indented (JObj [(''sourceDateEpoch'', JStr ''1'')])))),
     bw_exported = (\<lambda>_. Inr ''x''), bw_rpm_inventory = Inr ''y''\<rparr>"

lemma sc_build: "succeeds (build_phase sc_host sc_world 0)"
  by code_simp


end
