(* ===== verification/RpmInventory.thy ===== *)
theory RpmInventory
  imports Publication "HOL-Library.Product_Lexorder" "HOL-Library.Multiset"
begin

text \<open>
  \<^verbatim>\<open>ci/rpm-inventory-spdx.py\<close>: the installed-RPM table and the SPDX document made of it.

  A record is the tuple of the source, ordered lexicographically as Python orders tuples of strings.
  \<open>parse_inventory\<close> takes the file's bytes; \<open>make_document\<close> returns the JSON value that is written.
\<close>

section \<open>The table\<close>

type_synonym rpm_record = "string \<times> string \<times> string \<times> string \<times> string"

definition field_ok :: "string \<Rightarrow> bool" where
  "field_ok f \<longleftrightarrow> f \<noteq> [] \<and> strip f = f"

definition parse_row :: "nat \<Rightarrow> string \<Rightarrow> rpm_record result" where
  "parse_row n line = (case split_on tab line of
       [name, epoch, version, release, arch] \<Rightarrow>
         require (list_all field_ok [name, epoch, version, release, arch])
           (ValueError (''invalid RPM inventory row '' @ nat_str n))
         (require (isdecimal epoch) (ValueError (''invalid RPM epoch at row '' @ nat_str n))
           (Inr (name, epoch, version, release, arch)))
     | _ \<Rightarrow> Inl (ValueError (''invalid RPM inventory row '' @ nat_str n)))"

fun parse_rows :: "nat \<Rightarrow> string list \<Rightarrow> rpm_record list result" where
  "parse_rows n [] = Inr []"
| "parse_rows n (line # lines) =
     rbind (parse_row n line) (\<lambda>r. rbind (parse_rows (Suc n) lines) (\<lambda>rs. Inr (r # rs)))"

definition parse_inventory :: "string \<Rightarrow> rpm_record list result" where
  "parse_inventory data = (case utf8_decode data of
       None \<Rightarrow> Inl (ValueError ''invalid UTF-8'')
     | Some text \<Rightarrow>
         rbind (parse_rows 1 (splitlines text)) (\<lambda>records.
         require (records \<noteq> []) (ValueError ''RPM inventory is empty'')
         (require (distinct records) (ValueError ''RPM inventory contains duplicate EVRA records'')
           (Inr (sort records)))))"

section \<open>The document\<close>

fun fields :: "rpm_record \<Rightarrow> string list" where
  "fields (name, epoch, version, release, arch) = [name, epoch, version, release, arch]"

definition row :: "rpm_record \<Rightarrow> string" where
  "row r = join [tab] (fields r)"

definition package_id :: "host \<Rightarrow> rpm_record \<Rightarrow> string" where
  "package_id h r = ''SPDXRef-RPM-'' @ take 16 (sha256 h (utf8_encode (row r)))"

definition package :: "host \<Rightarrow> rpm_record \<Rightarrow> json" where
  "package h r = (case r of (name, epoch, version, release, arch) \<Rightarrow> JObj
     [(''SPDXID'', JStr (package_id h r)), (''name'', JStr name),
      (''versionInfo'', JStr (epoch @ '':'' @ version @ ''-'' @ release @ ''.'' @ arch)),
      (''downloadLocation'', JStr ''NOASSERTION''), (''filesAnalyzed'', JBool False),
      (''licenseConcluded'', JStr ''NOASSERTION''), (''licenseDeclared'', JStr ''NOASSERTION''),
      (''copyrightText'', JStr ''NOASSERTION'')])"

definition relationship :: "host \<Rightarrow> rpm_record \<Rightarrow> json" where
  "relationship h r = JObj
     [(''spdxElementId'', JStr ''SPDXRef-DOCUMENT''), (''relationshipType'', JStr ''DESCRIBES''),
      (''relatedSpdxElement'', JStr (package_id h r))]"

definition canonical_inventory :: "rpm_record list \<Rightarrow> string \<Rightarrow> string" where
  "canonical_inventory records created = join [newline] (map row records) @ newline # ''created='' @ created"

definition namespace :: "host \<Rightarrow> rpm_record list \<Rightarrow> string \<Rightarrow> string" where
  "namespace h records created = ''https://spdx.org/spdxdocs/bazzite-tower-rpm-inventory-''
     @ sha256 h (utf8_encode (canonical_inventory records created))"

definition make_document :: "host \<Rightarrow> rpm_record list \<Rightarrow> string \<Rightarrow> json" where
  "make_document h records created = JObj
     [(''spdxVersion'', JStr ''SPDX-2.3''), (''dataLicense'', JStr ''CC0-1.0''),
      (''SPDXID'', JStr ''SPDXRef-DOCUMENT''), (''name'', JStr ''bazzite-tower installed RPM inventory''),
      (''documentNamespace'', JStr (namespace h records created)),
      (''creationInfo'', JObj [(''created'', JStr created),
         (''creators'', JList [JStr ''Tool: bazzite-tower-rpm-inventory-spdx-1.0.0''])]),
      (''packages'', JList (map (package h) records)),
      (''relationships'', JList (map (relationship h) records))]"

text \<open>The output file of the program: \<open>created\<close> is the value of \<open>parse_created\<close>, which stays outside.\<close>

definition spdx_main :: "host \<Rightarrow> string \<Rightarrow> string \<Rightarrow> string result" where
  "spdx_main h data created = rbind (parse_inventory data) (\<lambda>records.
     Inr (dumps_sorted (float_repr h) indented (make_document h records created) @ [newline]))"

section \<open>Rows\<close>

definition record_ok :: "rpm_record \<Rightarrow> bool" where
  "record_ok r \<longleftrightarrow> list_all (\<lambda>f. field_ok f \<and> tab \<notin> set f \<and> list_all (\<lambda>c. \<not> is_line_end c) f) (fields r) \<and>
     isdecimal (fst (snd r))"

lemma parse_row_row:
  assumes "record_ok r"
  shows "parse_row n (row r) = Inr r"
proof -
  obtain a b c d e where r: "r = (a, b, c, d, e)" by (cases r)
  have "split_on tab (row r) = fields r"
    unfolding row_def using assms by (intro split_on_join) (auto simp: record_ok_def list_all_iff r)
  then show ?thesis using assms by (simp add: parse_row_def r record_ok_def)
qed

lemma parse_row_Inr:
  assumes "parse_row n line = Inr r" "\<forall>c\<in>set line. \<not> is_line_end c"
  shows "record_ok r \<and> row r = line"
proof -
  obtain a b c d e where s: "split_on tab line = [a, b, c, d, e]" and r: "r = (a, b, c, d, e)"
    and ok: "list_all field_ok [a, b, c, d, e]" "isdecimal b"
    using assms(1) by (auto simp: parse_row_def require_eq_Inr split: list.splits)
  have line: "line = join [tab] [a, b, c, d, e]" using join_split_on [of tab line] s by simp
  have "tab \<notin> set f" if "f \<in> {a, b, c, d, e}" for f
    using split_on_fields [of f tab line] s that by auto
  moreover have "\<not> is_line_end x" if "f \<in> {a, b, c, d, e}" "x \<in> set f" for f x
    using assms(2) that unfolding line by auto
  ultimately show ?thesis
    using ok line by (auto simp: r record_ok_def row_def list_all_iff)
qed

lemma parse_rows_Inr:
  "parse_rows n lines = Inr rs \<Longrightarrow> \<forall>l\<in>set lines. \<forall>c\<in>set l. \<not> is_line_end c \<Longrightarrow>
     list_all record_ok rs \<and> map row rs = lines"
  by (induction n lines arbitrary: rs rule: parse_rows.induct) (auto simp: rbind_eq_Inr dest: parse_row_Inr)

lemma parse_rows_rows: "list_all record_ok rs \<Longrightarrow> parse_rows n (map row rs) = Inr rs"
  by (induction rs arbitrary: n) (simp_all add: parse_row_row)

lemma row_inj: "record_ok r \<Longrightarrow> record_ok r' \<Longrightarrow> row r = row r' \<Longrightarrow> r = r'"
  by (metis parse_row_row sum.inject(2))

lemma parse_inventory_Inr:
  assumes "parse_inventory data = Inr rs"
  shows "\<exists>text rs0. utf8_decode data = Some text \<and> parse_rows 1 (splitlines text) = Inr rs0 \<and>
     rs0 \<noteq> [] \<and> distinct rs0 \<and> rs = sort rs0 \<and> list_all record_ok rs0 \<and> map row rs0 = splitlines text"
proof -
  from assms obtain tx rs0 where t: "utf8_decode data = Some tx" "parse_rows 1 (splitlines tx) = Inr rs0"
    "rs0 \<noteq> []" "distinct rs0" "rs = sort rs0"
    by (auto simp: parse_inventory_def rbind_eq_Inr require_eq_Inr split: option.splits)
  have "list_all record_ok rs0 \<and> map row rs0 = splitlines tx"
    by (rule parse_rows_Inr [OF t(2)]) (auto dest: splitlines_no_end)
  with t show ?thesis by blast
qed

text \<open>A row as text has no line end, so the rows of a table are its lines.\<close>

lemma row_no_end: "record_ok r \<Longrightarrow> c \<in> set (row r) \<Longrightarrow> \<not> is_line_end c"
  by (cases r) (auto simp: record_ok_def row_def list_all_iff tab_def is_line_end_def code_def)

definition table :: "rpm_record list \<Rightarrow> string" where
  "table rs = utf8_encode (concat (map (\<lambda>r. row r @ [newline]) rs))"

lemma splitlines_rows:
  "list_all record_ok rs \<Longrightarrow> splitlines (concat (map (\<lambda>r. row r @ [newline]) rs)) = map row rs"
proof -
  assume "list_all record_ok rs"
  then have "\<forall>l\<in>set (map row rs). \<forall>c\<in>set l. \<not> is_line_end c"
    using row_no_end by (fastforce simp: list_all_iff)
  from splitlines_lines [OF this] show ?thesis by (simp add: comp_def)
qed

lemma parse_table:
  assumes "list_all record_ok rs" "rs \<noteq> []" "distinct rs"
  shows "parse_inventory (table rs) = Inr (sort rs)"
  using assms parse_rows_rows [OF assms(1)] by (simp add: parse_inventory_def table_def splitlines_rows)

lemma canonical_inventory_inj:
  assumes eq: "canonical_inventory rs c = canonical_inventory rs' c'"
    and ok: "list_all record_ok rs" "list_all record_ok rs'" "rs \<noteq> []" "rs' \<noteq> []"
    and c: "newline \<notin> set c" "newline \<notin> set c'"
  shows "rs = rs' \<and> c = c'"
proof -
  have no: "newline \<notin> set (row r)" if "record_ok r" for r
    using row_no_end [OF that, of newline] by (auto simp: newline_def is_line_end_def code_def)
  have split: "split_on newline (canonical_inventory rs c) = map row rs @ [''created='' @ c]"
    if "list_all record_ok rs" "rs \<noteq> []" "newline \<notin> set c" for rs c
  proof -
    have "canonical_inventory rs c = join [newline] (map row rs @ [''created='' @ c])"
      using that(2) unfolding canonical_inventory_def
      by (induction rs rule: induct_list012) simp_all
    then show ?thesis
      using that no by (simp only:) (rule split_on_join, auto simp: list_all_iff newline_def)
  qed
  have "map row rs @ [''created='' @ c] = map row rs' @ [''created='' @ c']"
    using split [OF ok(1,3) c(1)] split [OF ok(2,4) c(2)] eq by simp
  then have "map row rs = map row rs'" "c = c'" by simp_all
  moreover have "inj_on row {r. record_ok r}" by (auto intro: inj_onI row_inj)
  ultimately show ?thesis
    using ok(1,2) by (auto simp: list_all_iff intro: map_inj_on inj_on_subset)
qed

section \<open>Properties\<close>

text \<open>What an accepted table is: well-formed distinct records in order, which any table of them gives back.\<close>

lemma parse_inventory_records:
  assumes "parse_inventory data = Inr rs"
  shows "list_all record_ok rs \<and> rs \<noteq> [] \<and> distinct rs \<and> sorted rs"
proof -
  from parse_inventory_Inr [OF assms] obtain rs0 where
    "rs = sort rs0" "rs0 \<noteq> []" "distinct rs0" "list_all record_ok rs0" by blast
  then show ?thesis by (auto simp: list_all_iff) (metis set_empty set_sort)
qed

text \<open>
  The inventory does not depend on the order RPM prints it in. If a table is accepted, every table with
  the same lines in any order is accepted with the same result, which is sorted and free of duplicates;
  and the result printed as a table is accepted with itself as the result.
\<close>
theorem inventory_order_free:
  assumes p: "parse_inventory d1 = Inr rs" and d: "utf8_decode d1 = Some t1" "utf8_decode d2 = Some t2"
    and m: "mset (splitlines t1) = mset (splitlines t2)"
  shows "parse_inventory d2 = Inr rs \<and> sorted rs \<and> distinct rs \<and> parse_inventory (table rs) = Inr rs"
proof -
  from parse_inventory_Inr [OF p] d(1) obtain rs0 where
    r: "rs0 \<noteq> []" "distinct rs0" "rs = sort rs0" "list_all record_ok rs0" "map row rs0 = splitlines t1" by auto
  define f where "f l = (case parse_row 1 l of Inr r \<Rightarrow> r | Inl _ \<Rightarrow> undefined)" for l
  have f: "f (row r) = r" if "record_ok r" for r
    using parse_row_row [OF that, of 1] by (simp add: f_def)
  have lines: "set (splitlines t2) = row ` set rs0"
    using m r(5) by (metis list.set_map mset_eq_setD)
  let ?rs = "map f (splitlines t2)"
  have ok: "list_all record_ok ?rs" "map row ?rs = splitlines t2"
    using lines r(4) f by (auto simp: list_all_iff intro!: map_idI)
  have "mset ?rs = image_mset f (image_mset row (mset rs0))" using m r(5) by (metis mset_map)
  also have "\<dots> = image_mset id (mset rs0)"
    using r(4) f by (intro multiset.map_cong [OF refl, THEN trans [OF multiset.map_comp]]) (auto simp: list_all_iff)
  finally have ms: "mset ?rs = mset rs0" by (simp only: multiset.map_id)
  have "sort ?rs = sort rs0"
    by (rule properties_for_sort) (simp_all only: ms mset_sort sorted_sort)
  moreover have "distinct ?rs" using ms r(2) mset_eq_imp_distinct_iff by blast
  moreover have "?rs \<noteq> []" using ms r(1) by (metis mset_zero_iff)
  ultimately have "parse_inventory d2 = Inr rs"
    using parse_rows_rows [OF ok(1), of 1] ok(2) d(2) r(3) by (simp add: parse_inventory_def)
  moreover from parse_inventory_records [OF p] have "parse_inventory (table rs) = Inr rs"
    using parse_table [of rs] by (simp add: sorted_sort_id)
  ultimately show ?thesis using parse_inventory_records [OF p] by blast
qed

definition toy_rpms :: "rpm_record list" where
  "toy_rpms = [(''bash'', ''0'', ''5.3'', ''2.fc44'', ''x86_64''), (''kernel-core'', ''0'', ''6.17.7'', ''ogc1.1.fc44'', ''x86_64'')]"

definition toy_table :: "rpm_record list \<Rightarrow> string" where
  "toy_table rs = concat (map (\<lambda>r. row r @ [newline]) rs)"

lemma toy_rpms_parse: "parse_inventory (toy_table toy_rpms) = Inr toy_rpms"
  by code_simp

lemma inventory_order_free_witness:
  "parse_inventory (toy_table (rev toy_rpms)) = Inr toy_rpms \<and> sorted toy_rpms \<and> distinct toy_rpms \<and>
     parse_inventory (table toy_rpms) = Inr toy_rpms"
proof (rule inventory_order_free [OF toy_rpms_parse])
  show "utf8_decode (toy_table toy_rpms) = Some (toy_table toy_rpms)"
    "utf8_decode (toy_table (rev toy_rpms)) = Some (toy_table (rev toy_rpms))" by code_simp+
  show "mset (splitlines (toy_table toy_rpms)) = mset (splitlines (toy_table (rev toy_rpms)))"
  proof -
    have "splitlines (toy_table (rev toy_rpms)) = rev (splitlines (toy_table toy_rpms))" by code_simp
    then show ?thesis by simp
  qed
qed

text \<open>
  The document namespace identifies the inventory. Two accepted tables whose documents carry the same
  namespace (their texts hashed without collision) have the same records and the same creation time, so the
  documents are identical.
\<close>
theorem namespace_pins_inventory:
  assumes "parse_inventory d1 = Inr rs1" "parse_inventory d2 = Inr rs2" "newline \<notin> set c1" "newline \<notin> set c2"
    and "inj_on (sha256 h) {utf8_encode (canonical_inventory rs1 c1), utf8_encode (canonical_inventory rs2 c2)}"
    and "index (make_document h rs1 c1) ''documentNamespace'' = index (make_document h rs2 c2) ''documentNamespace''"
  shows "rs1 = rs2 \<and> c1 = c2 \<and> make_document h rs1 c1 = make_document h rs2 c2"
proof -
  have "sha256 h (utf8_encode (canonical_inventory rs1 c1)) = sha256 h (utf8_encode (canonical_inventory rs2 c2))"
    using assms(6) by (simp add: make_document_def namespace_def)
  then have "utf8_encode (canonical_inventory rs1 c1) = utf8_encode (canonical_inventory rs2 c2)"
    by (rule inj_onD [OF assms(5)]) simp_all
  then have "canonical_inventory rs1 c1 = canonical_inventory rs2 c2" by (rule utf8_encode_inj)
  then have "rs1 = rs2 \<and> c1 = c2"
    using parse_inventory_records [OF assms(1)] parse_inventory_records [OF assms(2)] assms(3,4)
    by (intro canonical_inventory_inj) auto
  then show ?thesis by simp
qed

definition id_host :: host where
  "id_host = \<lparr>sha256 = (\<lambda>b. b), float_repr = (\<lambda>_. ''0.0''), untar = (\<lambda>_. Inl (OSError []))\<rparr>"

lemma namespace_pins_inventory_witness:
  "toy_rpms = toy_rpms \<and> ''2026-01-01T00:00:00Z'' = ''2026-01-01T00:00:00Z'' \<and>
   make_document id_host toy_rpms ''2026-01-01T00:00:00Z'' = make_document id_host toy_rpms ''2026-01-01T00:00:00Z''"
  by (rule namespace_pins_inventory [OF toy_rpms_parse toy_rpms_parse]) (simp_all add: newline_def)

lemma make_document_plain: "no_float (make_document h rs t)" "wf_json (make_document h rs t)"
  by (auto simp: make_document_def package_def relationship_def list_all_iff split: prod.splits)

lemma spdx_file_value:
  assumes "spdx_main h data created = Inr out" "length out \<le> 16777216"
  shows "\<exists>rs. parse_inventory data = Inr rs \<and> decode out = Inr (sortk (make_document h rs created))"
proof -
  from assms(1) obtain rs where rs: "parse_inventory data = Inr rs"
    and out: "out = dumps_sorted (float_repr h) indented (make_document h rs created) @ [newline]"
    by (auto simp: spdx_main_def rbind_eq_Inr)
  let ?d = "make_document h rs created"
  note nf = make_document_plain(1) [of h rs created] and wf = make_document_plain(2) [of h rs created]
  have "raw_loads out = Some (sortk ?d)"
    unfolding out dumps_sorted_def
    by (rule raw_loads_dump_ws) (use nf in \<open>simp_all add: no_float_sortk newline_def is_ws_def code_def\<close>)
  moreover have "ascii out"
  proof -
    have "dump (float_repr h) indented 0 (sortk ?d) = dump (\<lambda>_. []) indented 0 (sortk ?d)"
      by (rule dump_no_float) (use nf in \<open>simp add: no_float_sortk\<close>)
    then show ?thesis by (simp add: out dumps_sorted_def ascii_dump newline_def code_def del: dump.simps)
  qed
  ultimately have "decode out = Inr (sortk ?d)"
    using assms(2) wf by (simp add: decode_eq_Inr utf8_decode_ascii wf_json_sortk)
  then show ?thesis using rs by blast
qed

text \<open>
  The written document reads back. Whatever table and creation time the tool accepts, the publication
  gates' strict \<open>decode\<close> of the file it writes is a value equal to the document (the file being at
  most 16 MiB).
\<close>
theorem spdx_file_decodes:
  assumes "spdx_main h data created = Inr out" "length out \<le> 16777216"
  shows "\<exists>rs v. parse_inventory data = Inr rs \<and> decode out = Inr v \<and> pyeq v (make_document h rs created)"
proof -
  obtain rs where rs: "parse_inventory data = Inr rs" "decode out = Inr (sortk (make_document h rs created))"
    using spdx_file_value [OF assms] by blast
  moreover have "pyeq (sortk (make_document h rs created)) (make_document h rs created)"
    by (intro pyeq_sortk no_float_has_nan) (simp_all add: no_float_sortk make_document_plain)
  ultimately show ?thesis by blast
qed

definition toy_spdx :: string where
  "toy_spdx = (case spdx_main id_host (toy_table toy_rpms) ''2026-01-01T00:00:00Z'' of Inr x \<Rightarrow> x | Inl _ \<Rightarrow> [])"

lemma spdx_file_decodes_witness:
  "\<exists>rs v. parse_inventory (toy_table toy_rpms) = Inr rs \<and> decode toy_spdx = Inr v \<and>
     pyeq v (make_document id_host rs ''2026-01-01T00:00:00Z'')"
proof (rule spdx_file_decodes)
  show "spdx_main id_host (toy_table toy_rpms) ''2026-01-01T00:00:00Z'' = Inr toy_spdx"
    by (simp add: toy_spdx_def spdx_main_def toy_rpms_parse)
  show "length toy_spdx \<le> 16777216" by code_simp
qed

end
