(* ===== verification/BaseRefresh.thy ===== *)
theory BaseRefresh
  imports RpmInventory
begin

text \<open>
  \<^verbatim>\<open>ci/base-refresh.py\<close>: the accepted-source base refresh. A refresh publishes an image whose versions
  are not below the reviewed floor of the policy nor below what the channel already carries.

  Modelled: the policy, the two version formats, the evidence of a build, the checks of the artifact
  directory (\<open>validate\<close> without its container run, \<open>revalidate\<close>, \<open>active_policy\<close>, \<open>fresh\<close>), the signed
  predicates (\<open>envelopes\<close>, \<open>attestations\<close>) and the channel baseline with its bootstrap recovery.
  Programs the script runs (git, gh, skopeo, cosign), \<open>base64.b64decode\<close> and \<open>parse_created\<close> are
  arguments. What reads an image, and the choice of the action, is in theory \<open>BaseImage\<close>.
\<close>

section \<open>Constants\<close>

definition DEST :: string where
  "DEST = ''ghcr.io/bearyjd/bazzite-tower''"

definition WORKFLOW :: string where
  "WORKFLOW = ''.github/workflows/base-refresh.yml''"

definition PREDICATE :: string where
  "PREDICATE = ''https://github.com/bearyjd/bazzite-tower/attestations/base-refresh/v1''"

definition REFRESH_FILES :: "string list" where
  "REFRESH_FILES = [''build-provenance.json'', ''image.oci.tar'', ''installed.json'', ''rpms.tsv'', ''sbom.json'']"

definition TRUST :: "(string \<times> string) list" where
  "TRUST = policy_sources"

definition policy_path :: string where
  "policy_path = ''.github/base-refresh-policy.json''"

section \<open>Versions\<close>

text \<open>A version is the tuple of its numbers; tuples compare lexicographically, as Python's do.\<close>

definition base_version :: "json \<Rightarrow> nat list result" where
  "base_version v = (case v of
       JStr s \<Rightarrow>
         require (length s = 11 \<and> list_all is_digit (take 2 s) \<and> s ! 2 = CHR ''.'' \<and> list_all is_digit (drop 3 s))
           (ValueError ''invalid Bazzite version'')
           (Inr [nat_of_digits (take 2 s), nat_of_digits (drop 3 s)])
     | _ \<Rightarrow> Inl (ValueError ''invalid Bazzite version''))"

text \<open>
  A match of \<open>([0-9]+)sep([0-9]+)...\<close> for separators that start with a character that is no digit: each
  group takes all the digits there are.
\<close>

fun scan_fields :: "string list \<Rightarrow> string \<Rightarrow> nat list option" where
  "scan_fields [] s = (if isdecimal s then Some [nat_of_digits s] else None)"
| "scan_fields (sep # seps) s =
     (let d = takeWhile is_digit s; r = dropWhile is_digit s in
      if d \<noteq> [] \<and> startswith r sep
      then map_option (Cons (nat_of_digits d)) (scan_fields seps (drop (length sep) r))
      else None)"

definition kernel_seps :: "string list" where
  "kernel_seps = [''.'', ''.'', ''-ogc'', ''.'', ''.fc'']"

definition kernel_version :: "json \<Rightarrow> nat list result" where
  "kernel_version v = (case v of
       JStr s \<Rightarrow> (case scan_fields kernel_seps s of
           None \<Rightarrow> Inl (ValueError ''invalid/unreviewed kernel version'')
         | Some ns \<Rightarrow> Inr ns)
     | _ \<Rightarrow> Inl TypeError)"

definition immutable_base :: "string \<Rightarrow> json \<Rightarrow> string result" where
  "immutable_base value p =
     rbind (index p ''upstream'') (\<lambda>u. case u of
       JStr up \<Rightarrow>
         require (startswith value (up @ ''@sha256:'')) (ValueError ''mutable/wrong upstream base'')
           (rbind (digest (JStr (snd (snd (partition_on CHR ''@'' value))))) (\<lambda>_. Inr value))
     | _ \<Rightarrow> Inl TypeError)"

section \<open>The policy\<close>

definition policy_profiles :: json where
  "policy_profiles = JObj
     [(''legacy'', JObj [(''imageTag'', JStr ''latest''), (''channels'', JList [JStr ''stable'', JStr ''latest''])]),
      (''system'', JObj [(''imageTag'', JStr ''snitchwatch-system''), (''channels'', JList [JStr ''snitchwatch-system''])])]"

definition system_release :: string where
  "system_release = ''sha256:3f9a0d238e69917a33a23710a53963e70b64526cc8e44f9d24787944dcca1f27''"

definition policy_bootstrap :: json where
  "policy_bootstrap = JObj
     [(''legacy'', JObj [(''allowMissing'', JBool True), (''digest'', JNull), (''runNumber'', JStr ''2''),
         (''failedRunId'', JStr ''40062419690''), (''failedHead'', JStr ''d8407c60f74ceafbcbc2e333198c9fd23ce4e260'')]),
      (''system'', JObj [(''allowMissing'', JBool False),
         (''digest'', JStr system_release)])]"

definition hex_fields :: "nat \<Rightarrow> json \<Rightarrow> string list \<Rightarrow> unit result" where
  "hex_fields n v ks = rall (\<lambda>k. rbind (index v k) (\<lambda>x. rbind (hex_value x n) (\<lambda>_. Inr ()))) ks"

definition hex_values :: "nat \<Rightarrow> json \<Rightarrow> unit result" where
  "hex_values n v = rbind (dict_items v) (rall (\<lambda>(_, x). rbind (hex_value x n) (\<lambda>_. Inr ())))"

text \<open>\<open>rpm.parse_created(v) == v\<close>, with \<open>parse_created\<close> as an argument; it needs a string.\<close>

definition created_is_self :: "(string \<Rightarrow> string result) \<Rightarrow> json \<Rightarrow> bool result" where
  "created_is_self created v = (case v of JStr s \<Rightarrow> rbind (created s) (\<lambda>c. Inr (c = s)) | _ \<Rightarrow> Inl AttributeError)"

definition policy_check_value :: "(string \<Rightarrow> string result) \<Rightarrow> json \<Rightarrow> unit result" where
  "policy_check_value created value =
     demand (all_of [set_is value [''schemaVersion'', ''repository'', ''ref'', ''destination'', ''upstream'',
               ''upstreamTag'', ''minimumBaseVersion'', ''minimumKernel'', ''sourceCommit'', ''sourceTree'',
               ''sourceCreated'', ''profiles'', ''bootstrap'', ''nativeSource'', ''daemonSource'', ''daemonPatchSha256''],
             index_is value ''schemaVersion'' (JInt 1)])
       (ValueError ''invalid refresh policy schema'')
     (demand (all_of [index_is value ''repository'' (JStr ''bearyjd/bazzite-tower''),
             index_is value ''ref'' (JStr ''refs/heads/main'')])
       (ValueError ''policy repository/ref substitution'')
     (demand (all_of [index_is value ''destination'' (JStr DEST),
             index_is value ''upstream'' (JStr ''ghcr.io/ublue-os/bazzite-nvidia-open''),
             index_is value ''upstreamTag'' (JStr ''stable'')])
       (ValueError ''policy destination/upstream substitution'')
     (rbind (hex_fields 40 value [''sourceCommit'', ''sourceTree'']) (\<lambda>_.
     demand (index_is value ''profiles'' policy_profiles) (ValueError ''policy profile/channel substitution'')
     (demand (index_is value ''bootstrap'' policy_bootstrap) (ValueError ''unreviewed bootstrap exception'')
     (rbind (index value ''nativeSource'') (\<lambda>native.
     demand (all_of [set_is native [''commit'', ''tree'', ''submoduleCommit''],
             rbind (index value ''daemonSource'') (\<lambda>d. set_is d [''commit'', ''tree''])])
       (ValueError ''invalid native source policy'')
     (rbind (index value ''daemonSource'') (\<lambda>daemon.
     rbind (hex_values 40 native) (\<lambda>_.
     rbind (hex_values 40 daemon) (\<lambda>_.
     rbind (hex_fields 64 value [''daemonPatchSha256'']) (\<lambda>_.
     rbind (rbind (index value ''minimumBaseVersion'') base_version) (\<lambda>_.
     rbind (rbind (index value ''minimumKernel'') kernel_version) (\<lambda>_.
     demand (rbind (index value ''sourceCreated'') (created_is_self created))
       (ValueError ''invalid source timestamp'')
     (Inr ())))))))))))))))"

definition policy :: "(string \<Rightarrow> string result) \<Rightarrow> tree \<Rightarrow> json result" where
  "policy created ctl =
     rbind (rbind (read ctl policy_path data_limit) decode) (\<lambda>value.
     rbind (policy_check_value created value) (\<lambda>_. Inr value))"

section \<open>The run\<close>

definition environ :: "(string \<Rightarrow> string option) \<Rightarrow> string \<Rightarrow> string result" where
  "environ env k = (case env k of None \<Rightarrow> Inl (KeyError k) | Some v \<Rightarrow> Inr v)"

definition run_number :: "string \<Rightarrow> bool" where
  "run_number s \<longleftrightarrow> isdecimal s \<and> hd s \<noteq> CHR ''0''"

definition refresh_context :: "(string \<Rightarrow> string option) \<Rightarrow> unit result" where
  "refresh_context env =
     demand (all_of [rbind (environ env ''GITHUB_REPOSITORY'') (\<lambda>x. Inr (x = ''bearyjd/bazzite-tower'')),
             rbind (environ env ''GITHUB_REF'') (\<lambda>x. Inr (x = ''refs/heads/main''))])
       (ValueError ''main-only refresh'')
     (demand (rbind (environ env ''GITHUB_EVENT_NAME'') (\<lambda>x. Inr (x \<in> {''schedule'', ''workflow_dispatch''})))
       (ValueError ''unexpected refresh event'')
     (rbind (rbind (environ env ''GITHUB_SHA'') (\<lambda>x. hex_value (JStr x) 40)) (\<lambda>_.
     require (env ''GITHUB_WORKFLOW_REF'' = Some (''bearyjd/bazzite-tower/'' @ WORKFLOW @ ''@refs/heads/main''))
       (ValueError ''unexpected refresh workflow identity'')
     (rall (\<lambda>key. require (run_number (env_or_empty env key))
             (ValueError (''invalid run identity: '' @ key)) (Inr ()))
       [''GITHUB_RUN_ID'', ''GITHUB_RUN_NUMBER'', ''GITHUB_RUN_ATTEMPT'']))))"

definition environ_int :: "(string \<Rightarrow> string option) \<Rightarrow> string \<Rightarrow> int result" where
  "environ_int env k = rbind (environ env k) (\<lambda>s. case py_int s of
       None \<Rightarrow> Inl (ValueError ''invalid literal for int()'') | Some n \<Rightarrow> Inr n)"

definition at_least :: "(json \<Rightarrow> nat list result) \<Rightarrow> json \<Rightarrow> json \<Rightarrow> bool result" where
  "at_least version a b = rbind (version a) (\<lambda>x. rbind (version b) (\<lambda>y. Inr (y \<le> x)))"

definition evidence :: "host \<Rightarrow> (string \<Rightarrow> string option) \<Rightarrow> tree \<Rightarrow> json \<Rightarrow> string \<Rightarrow> string \<Rightarrow> json \<Rightarrow>
    json \<Rightarrow> string \<Rightarrow> json \<Rightarrow> (string \<times> json) list result" where
  "evidence h env ctl p profile base version img sbom_hash krn =
     rbind (index p ''profiles'') (\<lambda>profiles.
     demand (str_in profile profiles) (ValueError ''wrong profile'')
     (rbind (immutable_base base p) (\<lambda>_.
     demand (rbind (base_version version) (\<lambda>x. rbind (index p ''minimumBaseVersion'') (\<lambda>m.
               rbind (base_version m) (\<lambda>y. Inr (y \<le> x)))))
       (ValueError ''Bazzite downgrade below accepted floor'')
     (demand (rbind (kernel_version krn) (\<lambda>x. rbind (index p ''minimumKernel'') (\<lambda>m.
               rbind (kernel_version m) (\<lambda>y. Inr (y \<le> x)))))
       (ValueError ''kernel downgrade below accepted floor'')
     (rbind (index p ''repository'') (\<lambda>repository. rbind (index p ''ref'') (\<lambda>ref.
     rbind (environ env ''GITHUB_SHA'') (\<lambda>head.
     rbind (environ_int env ''GITHUB_RUN_ID'') (\<lambda>run_id.
     rbind (environ_int env ''GITHUB_RUN_ATTEMPT'') (\<lambda>attempt.
     rbind (file_sha h ctl policy_path) (\<lambda>ps.
     rbind (index p ''sourceCommit'') (\<lambda>sc. rbind (index p ''sourceTree'') (\<lambda>st.
     rbind (index profiles profile) (\<lambda>pr.
     rbind (index pr ''imageTag'') (\<lambda>tag. rbind (index pr ''channels'') (\<lambda>channels.
     Inr [(''schemaVersion'', JInt 1), (''kind'', JStr ''accepted-source-base-refresh''), (''repository'', repository),
          (''workflow'', JStr WORKFLOW), (''ref'', ref), (''controlCommit'', JStr head),
          (''runId'', JInt run_id), (''runAttempt'', JInt attempt), (''policySha256'', JStr ps),
          (''sourceCommit'', sc), (''sourceTree'', st), (''profile'', JStr profile),
          (''imageTag'', tag), (''channels'', channels), (''baseImage'', JStr base), (''baseVersion'', version),
          (''kernel'', krn), (''image'', img), (''sbomSha256'', JStr sbom_hash)]))))))))))))))))"

section \<open>The artifact directory\<close>

definition inventory_kernel :: "rpm_record list \<Rightarrow> string result" where
  "inventory_kernel records =
     (case [v @ ''-'' @ release. (name, epoch, v, release, arch) \<leftarrow> records,
              name = ''kernel-core'' \<and> epoch = ''0'' \<and> arch = ''x86_64''] of
        [k] \<Rightarrow> Inr k
      | _ \<Rightarrow> Inl (ValueError ''one installed x86_64 kernel required''))"

definition reject_rule :: json where
  "reject_rule = JList [JObj [(''type'', JStr ''reject'')]]"

definition signed_rule :: "string \<Rightarrow> json" where
  "signed_rule key = JList [JObj [(''type'', JStr ''sigstoreSigned''), (''keyPath'', JStr key),
     (''signedIdentity'', JObj [(''type'', JStr ''matchRepository'')])]]"

definition installed_rule :: json where
  "installed_rule = signed_rule ''/etc/pki/containers/bazzite-tower-cosign.pub''"

text \<open>\<open>a == b == c\<close>\<close>

definition chain_eq :: "json \<Rightarrow> json \<Rightarrow> json \<Rightarrow> bool" where
  "chain_eq a b c \<longleftrightarrow> pyeq a b \<and> pyeq b c"

text \<open>A scope below the destination: its name followed by a tag, a digest or a path.\<close>

definition narrower_scope :: "string \<Rightarrow> bool" where
  "narrower_scope scope \<longleftrightarrow> startswith scope DEST \<and> scope \<noteq> DEST \<and>
     take 1 (drop (length DEST) scope) \<in> {'':'', ''@'', ''/''}"

definition active_policy :: "tree \<Rightarrow> string \<Rightarrow> unit result" where
  "active_policy ctl data =
     rbind (rbind (read ctl ''system_files/usr/share/bazzite-tower/containers/policy.json'' data_limit) decode) (\<lambda>requested.
     rbind (decode data) (\<lambda>current.
     demand (rbind (get current ''default'') (\<lambda>a. rbind (index requested ''default'') (\<lambda>b.
               Inr (chain_eq a b reject_rule))))
       (ValueError ''active policy global default substitution'')
     (rbind (get_or current ''transports'' (JObj [])) (\<lambda>tr.
     rbind (get_or tr ''docker'' (JObj [])) (\<lambda>docker.
     demand (rbind (get docker DEST) (\<lambda>a.
               rbind (rbind (index2 requested ''transports'' ''docker'') (\<lambda>d. index d DEST)) (\<lambda>b.
               Inr (chain_eq a b installed_rule))))
       (ValueError ''active policy repository identity substitution'')
     (rbind (dict_items docker) (\<lambda>scopes.
     require (\<not> list_ex (\<lambda>(scope, _). narrower_scope scope) scopes)
       (ValueError ''active policy more-specific repository override'')
     (Inr ()))))))))"

definition sha_map :: "host \<Rightarrow> tree \<Rightarrow> (string \<times> string) list \<Rightarrow> json result" where
  "sha_map h t ps = rbind (rmap (\<lambda>(name, path). rbind (file_sha h t path) (\<lambda>s. Inr (name, JStr s))) ps)
     (\<lambda>d. Inr (JObj d))"

definition native_check :: "json \<Rightarrow> json \<Rightarrow> string \<times> string \<Rightarrow> unit result" where
  "native_check p installed kb = (case kb of (kind, binary) \<Rightarrow>
     rbind (index installed kind) (\<lambda>manifest.
     demand (all_of [index_is manifest ''profile'' (JStr ''system''),
              rbind (index manifest ''source'') (\<lambda>s.
                rbind (index p (if kind = ''bridge'' then ''nativeSource'' else ''daemonSource'')) (\<lambda>w. Inr (pyeq s w)))])
       (ValueError ''installed native source substitution'')
     (rbind (index manifest ''binary'') (\<lambda>b.
     demand (index_is b ''path'' (JStr binary)) (ValueError ''installed native binary path substitution'')
     (rbind (index b ''sha256'') (\<lambda>x. rbind (hex_value x 64) (\<lambda>_. Inr ())))))))"

definition installed_keys :: "string \<Rightarrow> string list" where
  "installed_keys profile =
     (if profile = ''system''
      then [''profile'', ''trust'', ''activePolicy'', ''activePolicySha256'', ''bridge'', ''daemon'']
      else [''profile'', ''trust'', ''activePolicy'', ''activePolicySha256''])"

definition installed_check :: "host \<Rightarrow> tree \<Rightarrow> json \<Rightarrow> string \<Rightarrow> json \<Rightarrow> unit result" where
  "installed_check h ctl p profile installed =
     demand (all_of [index_is installed ''profile'' (JStr profile),
              rbind (index installed ''trust'') (\<lambda>t. rbind (sha_map h ctl TRUST) (\<lambda>w. Inr (pyeq t w)))])
       (ValueError ''installed profile/trust mismatch'')
     (demand (set_is installed (installed_keys profile)) (ValueError ''invalid installed evidence inventory'')
     (rbind (index installed ''activePolicy'') (\<lambda>ap.
     rbind (case ap of JStr s \<Rightarrow> Inr (utf8_encode s) | _ \<Rightarrow> Inl AttributeError) (\<lambda>raw.
     demand (index_is installed ''activePolicySha256'' (JStr (sha256 h raw)))
       (ValueError ''active installed policy hash mismatch'')
     (rbind (active_policy ctl raw) (\<lambda>_.
     if profile = ''system'' then
       rbind (rall (native_check p installed)
                [(''bridge'', ''/usr/bin/snitchwatch-bridge-cli''), (''daemon'', ''/usr/bin/opensnitchd'')]) (\<lambda>_.
       demand (rbind (index2 installed ''daemon'' ''patch'') (\<lambda>x. rbind (index x ''sha256'') (\<lambda>a.
                 rbind (index p ''daemonPatchSha256'') (\<lambda>b. Inr (pyeq a b)))))
         (ValueError ''installed daemon patch substitution'') (Inr ()))
     else Inr ()))))))"

definition refresh_inventory :: "dir \<Rightarrow> unit result" where
  "refresh_inventory data =
     require (set (map fst data) = set REFRESH_FILES) (ValueError ''unexpected artifact inventory'')
       (rall (\<lambda>(name, n). (case n of
            RegFile b \<Rightarrow> require (length b \<le> entry_limit name) (ValueError ''unsafe/oversized artifact'') (Inr ())
          | _ \<Rightarrow> Inl (ValueError ''unsafe/oversized artifact''))) data)"

text \<open>\<open>validate\<close> with \<open>execute=False\<close>: the proof the artifact must carry, and the hash of each file.\<close>

definition validate :: "host \<Rightarrow> (string \<Rightarrow> string result) \<Rightarrow> (string \<Rightarrow> string option) \<Rightarrow> tree \<Rightarrow> dir \<Rightarrow>
    string \<Rightarrow> string \<Rightarrow> json \<Rightarrow> (json \<times> json) result" where
  "validate h created env ctl data profile base version =
     rbind (policy created ctl) (\<lambda>p.
     rbind (refresh_inventory data) (\<lambda>_.
     rbind (rbind (file_bytes (map_of data) ''rpms.tsv'') parse_inventory) (\<lambda>records.
     rbind (rbind (read (map_of data) ''sbom.json'' data_limit) decode) (\<lambda>sbom.
     rbind (rbind (index p ''sourceCreated'') json_str) (\<lambda>sc.
     require (pyeq sbom (make_document h records sc)) (ValueError ''RPM/SPDX substitution'')
     (rbind (rbind (file_bytes (map_of data) ''image.oci.tar'') (image_identity h)) (\<lambda>img.
     rbind (file_sha h (map_of data) ''sbom.json'') (\<lambda>ss.
     rbind (inventory_kernel records) (\<lambda>krn.
     rbind (evidence h env ctl p profile base version img ss (JStr krn)) (\<lambda>proof.
     rbind (rbind (read (map_of data) ''installed.json'' data_limit) decode) (\<lambda>installed.
     rbind (installed_check h ctl p profile installed) (\<lambda>_.
     rbind (file_sha h (map_of data) ''installed.json'') (\<lambda>is.
     rbind (rbind (read (map_of data) ''build-provenance.json'' data_limit) decode) (\<lambda>prov.
     require (pyeq prov (JObj (dict_set ''installedSha256'' (JStr is) proof)))
       (ValueError ''base/source/profile/provenance substitution'')
     (rbind (sha_map h (map_of data) (map (\<lambda>n. (n, n)) REFRESH_FILES)) (\<lambda>hashes.
     Inr (JObj (dict_set ''installedSha256'' (JStr is) proof), hashes)))))))))))))))))"

definition revalidate :: "host \<Rightarrow> (string \<Rightarrow> string result) \<Rightarrow> (string \<Rightarrow> string option) \<Rightarrow> tree \<Rightarrow> dir \<Rightarrow>
    string \<Rightarrow> string \<Rightarrow> json \<Rightarrow> json result" where
  "revalidate h created env ctl data profile base version =
     rbind (validate h created env ctl data profile base version) (\<lambda>(proof, hashes).
     demand (rbind (rbind (environ env ''VALIDATED_HASHES'') (\<lambda>x. decode (utf8_encode x))) (\<lambda>v. Inr (pyeq hashes v)))
       (ValueError ''validated artifact bytes changed'')
     (demand (rbind (index2 proof ''image'' ''manifestDigest'') (\<lambda>d.
                rbind (environ env ''VALIDATED_DIGEST'') (\<lambda>x. Inr (pyeq d (JStr x)))))
       (ValueError ''validated digest changed'')
     (Inr proof)))"

definition fresh :: "(string \<Rightarrow> string result) \<Rightarrow> tree \<Rightarrow> tree \<Rightarrow> string \<Rightarrow> unit result" where
  "fresh created ctl files current =
     rbind (policy created ctl) (\<lambda>_.
     demand (rbind (read ctl policy_path data_limit) (\<lambda>a. rbind (read files current data_limit) (\<lambda>b. Inr (a = b))))
       (ValueError ''stale main policy: pointers must not move'') (Inr ()))"

section \<open>Signed evidence and the channel baseline\<close>

text \<open>The programs the publisher asks, and \<open>base64.b64decode(..., validate=True)\<close>.\<close>

record tools =
  gh_api :: "string \<Rightarrow> string result"
  skopeo_raw :: "string \<Rightarrow> bool \<times> string \<times> string"
  cosign_verify :: "string \<Rightarrow> unit result"
  cosign_attest :: "string \<Rightarrow> string result"
  b64decode :: "json \<Rightarrow> string result"

definition envelope_items :: "tools \<Rightarrow> string \<Rightarrow> json list result" where
  "envelope_items tls line =
     rbind (decode (utf8_encode line)) (\<lambda>raw.
     rmap (\<lambda>item. rbind (index item ''payload'') (\<lambda>payload. rbind (b64decode tls payload) decode))
       (case raw of JList xs \<Rightarrow> xs | _ \<Rightarrow> [raw]))"

definition envelopes :: "tools \<Rightarrow> string \<Rightarrow> json list result" where
  "envelopes tls data = (case utf8_decode data of
       None \<Rightarrow> Inl (ValueError ''invalid UTF-8'')
     | Some lines \<Rightarrow>
         rbind (rmap (envelope_items tls) (filter (\<lambda>l. strip l \<noteq> []) (splitlines lines)))
           (\<lambda>xss. Inr (concat xss)))"

definition subject_for :: "string \<Rightarrow> json" where
  "subject_for dg = JObj [(''name'', JStr DEST), (''digest'', JObj [(''sha256'', JStr (drop 7 dg))])]"

definition has_subject :: "string \<Rightarrow> json \<Rightarrow> bool result" where
  "has_subject dg v = rbind (get_or v ''subject'' (JList [])) (\<lambda>s. rbind (py_iter s) (\<lambda>ss.
     Inr (list_ex (\<lambda>x. pyeq x (subject_for dg)) ss)))"

definition attestation_check :: "tools \<Rightarrow> tree \<Rightarrow> tree \<Rightarrow> string \<Rightarrow> string \<times> string \<times> string \<Rightarrow> unit result" where
  "attestation_check tls data verified dg nkf = (case nkf of (name, kind, file) \<Rightarrow>
     rbind (rbind (read data file data_limit) decode) (\<lambda>expected.
     rbind (rbind (read verified (name @ ''.json'') data_limit) (envelopes tls)) (\<lambda>vs.
     demand (rany (\<lambda>v. all_of [get_is v ''predicateType'' (JStr kind),
               rbind (get v ''predicate'') (\<lambda>x. Inr (pyeq x expected)), has_subject dg v]) vs)
       (ValueError (''signed predicate/subject substitution: '' @ name)) (Inr ()))))"

definition attestations :: "tools \<Rightarrow> tree \<Rightarrow> tree \<Rightarrow> string \<Rightarrow> unit result" where
  "attestations tls data verified dg = rall (attestation_check tls data verified dg)
     [(''sbom'', ''https://spdx.dev/Document'', ''sbom.json''), (''provenance'', PREDICATE, ''build-provenance.json'')]"

definition monotonic :: "json \<Rightarrow> json \<Rightarrow> json \<Rightarrow> unit result" where
  "monotonic p proof previous =
     demand (all_of [get_is previous ''kind'' (JStr ''accepted-source-base-refresh''),
              rbind (get previous ''repository'') (\<lambda>a. rbind (index p ''repository'') (\<lambda>b. Inr (pyeq a b))),
              get_is previous ''workflow'' (JStr WORKFLOW),
              rbind (get previous ''ref'') (\<lambda>a. rbind (index p ''ref'') (\<lambda>b. Inr (pyeq a b))),
              rbind (get previous ''profile'') (\<lambda>a. rbind (index proof ''profile'') (\<lambda>b. Inr (pyeq a b)))])
       (ValueError ''previous refresh provenance identity mismatch'')
     (demand (rbind (index proof ''baseVersion'') (\<lambda>a. rbind (base_version a) (\<lambda>x.
                rbind (index previous ''baseVersion'') (\<lambda>b. rbind (base_version b) (\<lambda>y. Inr (y \<le> x))))))
       (ValueError ''Bazzite downgrade below signed channel baseline'')
     (demand (rbind (index proof ''kernel'') (\<lambda>a. rbind (kernel_version a) (\<lambda>x.
                rbind (index previous ''kernel'') (\<lambda>b. rbind (kernel_version b) (\<lambda>y. Inr (y \<le> x))))))
       (ValueError ''kernel downgrade below signed channel baseline'')
     (Inr ())))"

definition gh_json :: "tools \<Rightarrow> string \<Rightarrow> json result" where
  "gh_json tls route = rbind (gh_api tls route) (\<lambda>out. decode (utf8_encode (strip out)))"

text \<open>The API's account of the jobs: all completed, both publishers present once and skipped.\<close>

definition skipped_jobs :: "json \<Rightarrow> unit result" where
  "skipped_jobs packet =
     rbind (get_or packet ''jobs'' (JList [])) (\<lambda>jobs.
     rbind (get packet ''total_count'') (\<lambda>total.
     demand (all_of [
         Inr (case int_value total of None \<Rightarrow> False | Some n \<Rightarrow> 0 < n \<and> n \<le> 100),
         rbind (py_len jobs) (\<lambda>n. Inr (pyeq (JInt (int n)) total)),
         rbind (py_iter jobs) (revery (\<lambda>job. get_is job ''status'' (JStr ''completed'')))])
       (ValueError ''bootstrap recovery incomplete job evidence'')
     (rbind (py_iter jobs) (\<lambda>js.
     rbind (rfilter (\<lambda>job. rbind (get job ''name'') (\<lambda>n. in_strs n [''publish-legacy'', ''publish-system''])) js) (\<lambda>pubs.
     demand (all_of [Inr (length pubs = 2),
         rbind (rmap (\<lambda>job. index job ''name'') pubs) (\<lambda>ns.
           Inr (set ns = {JStr ''publish-legacy'', JStr ''publish-system''})),
         revery (\<lambda>job. get_is job ''conclusion'' (JStr ''skipped'')) pubs])
       (ValueError ''bootstrap recovery publication was not conclusively skipped'')
     (Inr ()))))))"

definition bootstrap_failure :: "tools \<Rightarrow> json \<Rightarrow> unit result" where
  "bootstrap_failure tls p =
     rbind (index2 p ''bootstrap'' ''legacy'') (\<lambda>recovery.
     rbind (rbind (index p ''repository'') json_str) (\<lambda>repository.
     rbind (rbind (index recovery ''failedRunId'') json_str) (\<lambda>failed.
     rbind (gh_json tls (''repos/'' @ repository @ ''/actions/runs/'' @ failed)) (\<lambda>previous.
     rbind (case py_int failed of None \<Rightarrow> Inl (ValueError ''invalid literal for int()'') | Some n \<Rightarrow> Inr n) (\<lambda>rid.
     rbind (index recovery ''failedHead'') (\<lambda>hsha.
     demand (all_of [revery (\<lambda>(key, value). get_is previous key value)
                [(''id'', JInt rid), (''head_sha'', hsha), (''path'', JStr WORKFLOW), (''event'', JStr ''workflow_dispatch''),
                 (''head_branch'', JStr ''main''), (''run_number'', JInt 1), (''run_attempt'', JInt 1),
                 (''status'', JStr ''completed''), (''conclusion'', JStr ''failure'')],
              rbind (get_or previous ''repository'' (JObj [])) (\<lambda>r. get_is r ''full_name'' (JStr repository))])
       (ValueError ''bootstrap recovery failed-run identity/status mismatch'')
     (rbind (gh_json tls (''repos/'' @ repository @ ''/actions/runs/'' @ failed @ ''/attempts/1/jobs?per_page=100''))
       skipped_jobs)))))))"

text \<open>\<open>bytes.lower\<close>: the letters of ASCII.\<close>

definition missing_tag :: "(string \<Rightarrow> string option) \<Rightarrow> json \<Rightarrow> string \<Rightarrow> string \<Rightarrow> bool result" where
  "missing_tag env p profile err =
     all_of [
       rbind (index2 p ''bootstrap'' profile) (\<lambda>b. rbind (index b ''allowMissing'') (\<lambda>x. Inr (truthy x))),
       rbind (index2 p ''bootstrap'' ''legacy'') (\<lambda>b. rbind (index b ''runNumber'') (\<lambda>x.
         Inr (case env ''GITHUB_RUN_NUMBER'' of None \<Rightarrow> x = JNull | Some n \<Rightarrow> pyeq (JStr n) x))),
       Inr (env ''GITHUB_RUN_ATTEMPT'' = Some ''1''),
       Inr (contains ''manifest unknown'' (py_lower err))]"

definition baseline_predicates :: "string \<Rightarrow> json list \<Rightarrow> json list result" where
  "baseline_predicates dg vs =
     rbind (rmap (\<lambda>v. rbind (all_of [get_is v ''predicateType'' (JStr PREDICATE), has_subject dg v])
              (\<lambda>b. if b then rbind (index v ''predicate'') (\<lambda>x. Inr [x]) else Inr [])) vs)
       (\<lambda>xss. Inr (concat xss))"

text \<open>What the channel's tag carries now: missing, the reviewed release, or a signed refresh to stay above.\<close>

definition channel_ref :: "string \<Rightarrow> string" where
  "channel_ref channel = ''docker://'' @ DEST @ '':'' @ channel"

definition channel_check :: "host \<Rightarrow> tools \<Rightarrow> (string \<Rightarrow> string option) \<Rightarrow> json \<Rightarrow> json \<Rightarrow> string \<Rightarrow> string \<Rightarrow>
    unit result" where
  "channel_check h tls env p proof profile channel =
     (case skopeo_raw tls (channel_ref channel) of (failed, out, err) \<Rightarrow>
        if failed then
          demand (missing_tag env p profile err)
            (ValueError ''cannot establish signed channel baseline; reviewed missing-tag recovery requires workflow run2 and first attempt'')
            (bootstrap_failure tls p)
        else
          (let current = digest_of h out; img = DEST @ ''@'' @ current in
           rbind (cosign_verify tls img) (\<lambda>_.
           rbind (rbind (index2 p ''bootstrap'' profile) (\<lambda>b. index b ''digest'')) (\<lambda>d.
           if pyeq (JStr current) d then Inr ()
           else
             rbind (cosign_attest tls img) (\<lambda>verified.
             require (length verified \<le> data_limit) (ValueError ''invalid data file: baseline.json'')
             (rbind (envelopes tls verified) (\<lambda>vs.
             rbind (baseline_predicates current vs) (\<lambda>preds.
             require (preds \<noteq> []) (ValueError ''no destination-bound signed refresh baseline'')
             (rall (monotonic p proof) preds)))))))))"

definition baseline :: "host \<Rightarrow> tools \<Rightarrow> (string \<Rightarrow> string result) \<Rightarrow> (string \<Rightarrow> string option) \<Rightarrow> tree \<Rightarrow> tree \<Rightarrow>
    string \<Rightarrow> unit result" where
  "baseline h tls created env ctl data profile =
     rbind (policy created ctl) (\<lambda>p.
     rbind (rbind (read data ''build-provenance.json'' data_limit) decode) (\<lambda>proof.
     rbind (rbind (index2 p ''profiles'' profile) (\<lambda>x. rbind (index x ''channels'') item0)) (\<lambda>ch.
     rbind (json_str ch) (channel_check h tls env p proof profile))))"

definition accepted_source :: "host \<Rightarrow> (string \<Rightarrow> string result) \<Rightarrow> (string list \<Rightarrow> string result) \<Rightarrow> tree \<Rightarrow> tree \<Rightarrow>
    json result" where
  "accepted_source h created git ctl src =
     (let out = (\<lambda>args. rbind (git args) (\<lambda>t. Inr (strip t))) in
     rbind (policy created ctl) (\<lambda>p.
     demand (all_of [rbind (out [''rev-parse'', ''HEAD'']) (\<lambda>t. index_is p ''sourceCommit'' (JStr t)),
              rbind (out [''rev-parse'', ''HEAD^{tree}'']) (\<lambda>t. index_is p ''sourceTree'' (JStr t))])
       (ValueError ''accepted product source/tree mismatch'')
     (demand (rbind (out [''status'', ''--porcelain'', ''--untracked-files=all'']) (\<lambda>t. Inr (t = [])))
       (ValueError ''dirty accepted product source'')
     (demand (rbind (out [''log'', ''-1'', ''--format=%cI'']) (\<lambda>t. rbind (created t) (\<lambda>c.
                index_is p ''sourceCreated'' (JStr c))))
       (ValueError ''source timestamp mismatch'')
     (rbind (rall (\<lambda>(_, path). rbind (file_sha h ctl path) (\<lambda>a. rbind (file_sha h src path) (\<lambda>b.
               require (a = b) (ValueError ''accepted source trust policy/key differs from control'') (Inr ())))) TRUST) (\<lambda>_.
     rbind (rbind (read src ''build_files/firewall/snitchwatch-system-pins.json'' data_limit) decode) (\<lambda>pins.
     rbind (rbind (read src ''build_files/firewall/snitchwatch-system-daemon-pins.json'' data_limit) decode) (\<lambda>daemon.
     demand (rbind (index pins ''sourceCommit'') (\<lambda>c. rbind (index pins ''sourceTree'') (\<lambda>t.
               rbind (index pins ''submoduleCommit'') (\<lambda>m. index_is p ''nativeSource''
                 (JObj [(''commit'', c), (''tree'', t), (''submoduleCommit'', m)])))))
       (ValueError ''accepted native source pins differ from policy'')
     (demand (all_of [rbind (index daemon ''sourceCommit'') (\<lambda>c. rbind (index daemon ''sourceTree'') (\<lambda>t.
                index_is p ''daemonSource'' (JObj [(''commit'', c), (''tree'', t)]))),
              rbind (index daemon ''patchSha256'') (\<lambda>x. index_is p ''daemonPatchSha256'' x)])
       (ValueError ''accepted daemon source/patch differs from policy'')
     (Inr p))))))))))"

section \<open>Version formats\<close>

text \<open>
  Both formats are orders on tuples of numbers read from a text; what the refresh relies on is the same
  for both, so it is proved once, from the laws a format has: it reads strings only, always the same
  number of fields, and a canonical spelling of every version it has read.
\<close>

locale version_format =
  fixes parse :: "json \<Rightarrow> nat list result" and spell :: "nat list \<Rightarrow> string"
  assumes on_text: "parse v = Inr x \<Longrightarrow> is_str v"
    and fields: "parse v = Inr x \<Longrightarrow> parse w = Inr y \<Longrightarrow> length x = length y"
    and spelled: "parse v = Inr x \<Longrightarrow> parse (JStr (spell x)) = Inr x"
begin

lemma at_least_iff: "at_least parse a b = Inr True \<longleftrightarrow> (\<exists>x y. parse a = Inr x \<and> parse b = Inr y \<and> y \<le> x)"
  by (auto simp: at_least_def rbind_eq_Inr)

lemma at_least_refl: "succeeds (parse a) \<Longrightarrow> at_least parse a a = Inr True"
  by (auto simp: at_least_iff succeeds_iff)

lemma at_least_trans: "at_least parse a b = Inr True \<Longrightarrow> at_least parse b c = Inr True \<Longrightarrow> at_least parse a c = Inr True"
  by (auto simp: at_least_iff)

lemma at_least_antisym: "at_least parse a b = Inr True \<Longrightarrow> at_least parse b a = Inr True \<Longrightarrow> parse a = parse b"
  by (auto simp: at_least_iff)

text \<open>A chain of releases, newest first, in which each is admitted against the one before it.\<close>

lemma at_least_chain:
  assumes "\<And>i. Suc i < length vs \<Longrightarrow> at_least parse (vs ! i) (vs ! Suc i) = Inr True"
    and "i < j" "j < length vs"
  shows "at_least parse (vs ! i) (vs ! j) = Inr True"
  using assms(2,3)
proof (induction j)
  case 0
  then show ?case by simp
next
  case (Suc j)
  then have step: "at_least parse (vs ! j) (vs ! Suc j) = Inr True" using assms(1) by simp
  show ?case
  proof (cases "i = j")
    case True
    with step show ?thesis by simp
  next
    case False
    with Suc have "at_least parse (vs ! i) (vs ! j) = Inr True" by simp
    from at_least_trans [OF this step] show ?thesis .
  qed
qed

lemma spelled_same: "parse v = Inr x \<Longrightarrow> at_least parse v (JStr (spell x)) = Inr True \<and> at_least parse (JStr (spell x)) v = Inr True"
  using spelled [of v x] by (auto simp: at_least_iff)

end

definition pad_digits :: "nat \<Rightarrow> nat \<Rightarrow> string" where
  "pad_digits w n = replicate (w - length (nat_str n)) CHR ''0'' @ nat_str n"

definition base_text :: "nat list \<Rightarrow> string" where
  "base_text ns = pad_digits 2 (ns ! 0) @ ''.'' @ pad_digits 8 (ns ! 1)"

fun spell_fields :: "string list \<Rightarrow> nat list \<Rightarrow> string" where
  "spell_fields (sep # seps) (n # ns) = nat_str n @ sep @ spell_fields seps ns"
| "spell_fields [] (n # ns) = nat_str n"
| "spell_fields seps [] = []"

definition kernel_text :: "nat list \<Rightarrow> string" where
  "kernel_text ns = spell_fields kernel_seps ns"

lemma takeWhile_digits: "list_all is_digit d \<Longrightarrow> r = [] \<or> \<not> is_digit (hd r) \<Longrightarrow> takeWhile is_digit (d @ r) = d"
  by (induction d) (auto simp: takeWhile_eq_Nil_iff)

lemma dropWhile_digits: "list_all is_digit d \<Longrightarrow> r = [] \<or> \<not> is_digit (hd r) \<Longrightarrow> dropWhile is_digit (d @ r) = r"
  by (induction d) (auto simp: dropWhile_eq_self_iff)

lemma scan_spelled:
  "length ns = Suc (length seps) \<Longrightarrow> list_all (\<lambda>s. s \<noteq> [] \<and> \<not> is_digit (hd s)) seps \<Longrightarrow>
     scan_fields seps (spell_fields seps ns) = Some ns"
proof (induction seps ns rule: spell_fields.induct)
  case (1 sep seps n ns)
  have sep: "sep @ spell_fields seps ns \<noteq> [] \<and> \<not> is_digit (hd (sep @ spell_fields seps ns))"
    using 1 by simp
  then show ?case
    using 1 by (simp add: Let_def takeWhile_digits dropWhile_digits nat_str_digits)
next
  case (2 n ns)
  then show ?case by simp
qed simp

lemma scan_fields_length: "scan_fields seps s = Some ns \<Longrightarrow> length ns = Suc (length seps)"
  by (induction seps s arbitrary: ns rule: scan_fields.induct) (auto simp: Let_def split: if_splits)

lemma kernel_seps_ok: "list_all (\<lambda>s. s \<noteq> [] \<and> \<not> is_digit (hd s)) kernel_seps"
  by (simp add: kernel_seps_def is_digit_def code_def)

lemma kernel_version_Inr: "kernel_version v = Inr ns \<longleftrightarrow> (\<exists>s. v = JStr s \<and> scan_fields kernel_seps s = Some ns)"
  by (auto simp: kernel_version_def split: json.splits option.splits)

lemma base_version_Inr:
  "base_version v = Inr ns \<longleftrightarrow> (\<exists>s. v = JStr s \<and> length s = 11 \<and> list_all is_digit (take 2 s) \<and> s ! 2 = CHR ''.'' \<and>
     list_all is_digit (drop 3 s) \<and> ns = [nat_of_digits (take 2 s), nat_of_digits (drop 3 s)])"
  by (auto simp: base_version_def require_eq_Inr split: json.splits)

lemma nat_of_digits_append:
  "nat_of_digits (s @ t) = nat_of_digits s * 10 ^ length t + nat_of_digits t"
proof (induction t rule: rev_induct)
  case Nil
  then show ?case by (simp add: nat_of_digits_def)
next
  case (snoc c t)
  have "nat_of_digits (s @ t @ [c]) = 10 * nat_of_digits (s @ t) + digit_val c"
    using nat_of_digits_snoc [of "s @ t" c] by simp
  with snoc show ?case by (simp add: algebra_simps)
qed

lemma nat_of_digits_bound: "list_all is_digit s \<Longrightarrow> nat_of_digits s < 10 ^ length s"
proof (induction s rule: rev_induct)
  case Nil
  then show ?case by (simp add: nat_of_digits_def)
next
  case (snoc c s)
  then have "nat_of_digits s < 10 ^ length s" "digit_val c \<le> 9"
    by (auto simp: is_digit_def digit_val_def)
  then have "10 * nat_of_digits s + digit_val c < 10 * 10 ^ length s" by linarith
  then show ?case by simp
qed

lemma pad_digits:
  assumes "n < 10 ^ w" "0 < w"
  shows "length (pad_digits w n) = w" "list_all is_digit (pad_digits w n)" "nat_of_digits (pad_digits w n) = n"
proof -
  obtain k where "w = Suc k" using assms(2) by (cases w) auto
  then show "length (pad_digits w n) = w" using length_nat_str [of n k] assms(1) by (simp add: pad_digits_def)
  show "list_all is_digit (pad_digits w n)"
    using nat_str_digits [of n] by (auto simp: pad_digits_def list_all_iff is_digit_def code_def)
  have "nat_of_digits (replicate j CHR ''0'') = 0" for j
    by (induction j) (simp_all add: nat_of_digits_def digit_val_def code_def)
  then show "nat_of_digits (pad_digits w n) = n" by (simp add: pad_digits_def nat_of_digits_append)
qed

lemma base_text_version:
  assumes "a < 100" "b < 100000000"
  shows "base_version (JStr (base_text [a, b])) = Inr [a, b]"
proof -
  have a: "length (pad_digits 2 a) = 2" "list_all is_digit (pad_digits 2 a)" "nat_of_digits (pad_digits 2 a) = a"
    using pad_digits [of a 2] assms(1) by simp_all
  have b: "length (pad_digits 8 b) = 8" "list_all is_digit (pad_digits 8 b)" "nat_of_digits (pad_digits 8 b) = b"
    using pad_digits [of b 8] assms(2) by simp_all
  show ?thesis
    using a b by (simp add: base_version_def base_text_def nth_append)
qed

interpretation bv: version_format base_version base_text
proof
  fix v w x y
  assume x: "base_version v = Inr x"
  then show "is_str v" by (auto simp: base_version_Inr)
  from x obtain s where s: "v = JStr s" "length s = 11" "list_all is_digit (take 2 s)" "list_all is_digit (drop 3 s)"
    "x = [nat_of_digits (take 2 s), nat_of_digits (drop 3 s)]" by (auto simp: base_version_Inr)
  from s(2) have "nat_of_digits (take 2 s) < 10 ^ 2" "nat_of_digits (drop 3 s) < 10 ^ 8"
    using nat_of_digits_bound [OF s(3)] nat_of_digits_bound [OF s(4)] by simp_all
  then show "base_version (JStr (base_text x)) = Inr x" unfolding s(5) by (intro base_text_version) simp_all
  assume "base_version w = Inr y"
  with x show "length x = length y" by (auto simp: base_version_Inr)
qed

interpretation kv: version_format kernel_version kernel_text
proof
  fix v w x y
  assume x: "kernel_version v = Inr x"
  then show "is_str v" by (auto simp: kernel_version_Inr)
  from x show "kernel_version (JStr (kernel_text x)) = Inr x"
    using scan_spelled [OF _ kernel_seps_ok, of x] scan_fields_length
    by (fastforce simp: kernel_version_Inr kernel_text_def)
  assume "kernel_version w = Inr y"
  with x show "length x = length y" using scan_fields_length by (fastforce simp: kernel_version_Inr)
qed

section \<open>What the checks establish\<close>

lemma monotonic_facts:
  assumes "monotonic p proof previous = Inr u"
  shows "\<exists>a b c d. index proof ''baseVersion'' = Inr a \<and> index previous ''baseVersion'' = Inr b \<and>
     at_least base_version a b = Inr True \<and> index proof ''kernel'' = Inr c \<and> index previous ''kernel'' = Inr d \<and>
     at_least kernel_version c d = Inr True \<and>
     (\<exists>x y. get previous ''profile'' = Inr x \<and> index proof ''profile'' = Inr y \<and> pyeq x y)"
  using assms by (auto simp: monotonic_def at_least_def demand_eq_Inr rbind_eq_Inr all_of_eq_True)

lemma policy_facts:
  assumes "policy created ctl = Inr p"
  shows "index_is p ''upstream'' (JStr ''ghcr.io/ublue-os/bazzite-nvidia-open'') = Inr True \<and>
     index_is p ''bootstrap'' policy_bootstrap = Inr True \<and> index_is p ''profiles'' policy_profiles = Inr True \<and>
     index_is p ''repository'' (JStr ''bearyjd/bazzite-tower'') = Inr True \<and> wf_json p \<and>
     (\<exists>s. index p ''sourceCreated'' = Inr (JStr s) \<and> created s = Inr s)"
proof -
  from assms have c: "policy_check_value created p = Inr ()" and wf: "wf_json p"
    by (auto simp: policy_def rbind_eq_Inr decode_eq_Inr)
  from c have "index_is p ''upstream'' (JStr ''ghcr.io/ublue-os/bazzite-nvidia-open'') = Inr True"
    "index_is p ''bootstrap'' policy_bootstrap = Inr True" "index_is p ''profiles'' policy_profiles = Inr True"
    "index_is p ''repository'' (JStr ''bearyjd/bazzite-tower'') = Inr True"
    "rbind (index p ''sourceCreated'') (created_is_self created) = Inr True"
    unfolding policy_check_value_def demand_eq_Inr rbind_eq_Inr [of "hex_fields _ _ _"] rbind_eq_Inr [of "hex_values _ _"]
      rbind_eq_Inr [of "index _ _"] rbind_eq_Inr [of "rbind _ _"] all_of_eq_True
    by auto
  moreover have "created_is_self created v = Inr True \<longleftrightarrow> (\<exists>s. v = JStr s \<and> created s = Inr s)" for v
    by (cases v) (auto simp: created_is_self_def rbind_eq_Inr)
  then have "\<exists>s. index p ''sourceCreated'' = Inr (JStr s) \<and> created s = Inr s"
    using calculation(5) by (auto simp: rbind_eq_Inr)
  ultimately show ?thesis using wf by blast
qed

lemma partition_prefix: "d \<notin> set u \<Longrightarrow> startswith v (u @ d # r) \<Longrightarrow> fst (partition_on d v) = u \<and> v = u @ d # snd (snd (partition_on d v))"
  by (auto simp: startswith_iff partition_on_append)

lemma immutable_base_pinned:
  assumes "immutable_base base p = Inr x" "index p ''upstream'' = Inr (JStr up)" "CHR ''@'' \<notin> set up"
  shows "\<exists>d. base = up @ ''@'' @ d \<and> image_digest d"
proof -
  from assms(1,2) have s: "startswith base (up @ CHR ''@'' # ''sha256:'')"
    and d: "image_digest (snd (snd (partition_on CHR ''@'' base)))"
    by (auto simp: immutable_base_def require_eq_Inr rbind_eq_Inr digest_eq_Inr)
  from partition_prefix [OF assms(3) s] d show ?thesis by auto
qed

lemma evidence_facts:
  assumes "evidence h env ctl p profile base version img ss krn = Inr e"
  shows "(\<exists>x. immutable_base base p = Inr x) \<and>
     (\<exists>m. index p ''minimumBaseVersion'' = Inr m \<and> at_least base_version version m = Inr True) \<and>
     (\<exists>m. index p ''minimumKernel'' = Inr m \<and> at_least kernel_version krn m = Inr True) \<and>
     (\<exists>ps s. index p ''profiles'' = Inr ps \<and> str_in profile ps = Inr True \<and> file_sha h ctl policy_path = Inr s \<and>
        map_of e ''policySha256'' = Some (JStr s)) \<and>
     map_of e ''image'' = Some img \<and> map_of e ''sbomSha256'' = Some (JStr ss) \<and> map_of e ''kernel'' = Some krn \<and>
     map_of e ''baseImage'' = Some (JStr base) \<and> map_of e ''baseVersion'' = Some version \<and>
     map_of e ''profile'' = Some (JStr profile)"
  using assms by (auto simp: evidence_def at_least_def demand_eq_Inr rbind_eq_Inr)

lemma validate_facts:
  assumes "validate h created env ctl data profile base version = Inr (proof, hashes)"
  shows "\<exists>p records sbom sc img ss krn e installed is prov b.
     policy created ctl = Inr p \<and> refresh_inventory data = Inr () \<and>
     rbind (file_bytes (map_of data) ''rpms.tsv'') parse_inventory = Inr records \<and>
     rbind (read (map_of data) ''sbom.json'' data_limit) decode = Inr sbom \<and>
     index p ''sourceCreated'' = Inr (JStr sc) \<and> pyeq sbom (make_document h records sc) \<and>
     file_bytes (map_of data) ''image.oci.tar'' = Inr b \<and> image_identity h b = Inr img \<and>
     inventory_kernel records = Inr krn \<and>
     file_sha h (map_of data) ''sbom.json'' = Inr ss \<and>
     evidence h env ctl p profile base version img ss (JStr krn) = Inr e \<and>
     rbind (read (map_of data) ''installed.json'' data_limit) decode = Inr installed \<and>
     installed_check h ctl p profile installed = Inr () \<and>
     file_sha h (map_of data) ''installed.json'' = Inr is \<and>
     rbind (read (map_of data) ''build-provenance.json'' data_limit) decode = Inr prov \<and>
     pyeq prov proof \<and> proof = JObj (dict_set ''installedSha256'' (JStr is) e) \<and>
     sha_map h (map_of data) (map (\<lambda>n. (n, n)) REFRESH_FILES) = Inr hashes"
proof -
  have js: "json_str v = Inr s \<longleftrightarrow> v = JStr s" for v s by (auto simp: json_str_def split: json.splits)
  from assms show ?thesis
    unfolding validate_def rbind_eq_Inr [where m = "policy created ctl"] rbind_eq_Inr [where m = "refresh_inventory data"]
    by (auto simp: rbind_eq_Inr require_eq_Inr js)
qed

lemma sha_map_files:
  assumes "sha_map h t ps = Inr v"
  shows "\<exists>d. v = JObj d \<and> map fst d = map fst ps \<and>
     (\<forall>(n, path)\<in>set ps. \<exists>b. t path = Some (RegFile b) \<and> (n, JStr (sha256 h b)) \<in> set d)"
proof -
  from assms obtain d where v: "v = JObj d" and
    l: "list_all2 (\<lambda>p q. \<exists>b. t (snd p) = Some (RegFile b) \<and> q = (fst p, JStr (sha256 h b))) ps d"
  proof -
    have "rmap (\<lambda>(name, path). rbind (file_sha h t path) (\<lambda>s. Inr (name, JStr s))) ps = Inr d \<longleftrightarrow>
        list_all2 (\<lambda>p q. \<exists>b. t (snd p) = Some (RegFile b) \<and> q = (fst p, JStr (sha256 h b))) ps d" for d
      unfolding rmap_eq_Inr
      by (intro list.rel_cong_simp) (auto simp: simp_implies_def rbind_eq_Inr file_sha_eq_Inr)
    then show ?thesis using that assms by (auto simp: sha_map_def rbind_eq_Inr)
  qed
  from l have "map fst d = map fst ps"
    by (induction ps d rule: list_all2_induct) auto
  moreover from l have "\<forall>p\<in>set ps. \<exists>q\<in>set d. \<exists>b. t (snd p) = Some (RegFile b) \<and> q = (fst p, JStr (sha256 h b))"
    by (induction ps d rule: list_all2_induct) auto
  ultimately show ?thesis using v by fastforce
qed

lemma bootstrap_entry:
  assumes "policy created ctl = Inr p" "index2 p ''bootstrap'' profile = Inr b"
  shows "is_dict b \<and> wf_json b \<and>
    (profile = ''legacy'' \<and> (\<forall>x. index b ''digest'' = Inr x \<longrightarrow> x = JNull) \<and>
       (\<forall>x. index b ''runNumber'' = Inr x \<longrightarrow> x = JStr ''2'') \<or>
     profile = ''system'' \<and> (\<forall>x. index b ''allowMissing'' = Inr x \<longrightarrow> \<not> truthy x) \<and>
       (\<forall>x. index b ''digest'' = Inr x \<longrightarrow>
          x = JStr system_release))"
proof -
  from policy_facts [OF assms(1)] obtain bs where bs: "index p ''bootstrap'' = Inr bs" "pyeq bs policy_bootstrap" "wf_json p"
    by (auto simp: index_is_True)
  with assms(2) have b: "index bs profile = Inr b" by (simp add: index2_def)
  have wf: "wf_json bs" "wf_json b" using wf_json_index bs b by blast+
  have wfp: "wf_json policy_bootstrap" "is_dict policy_bootstrap" by (simp_all add: policy_bootstrap_def)
  from pyeq_index [OF bs(2) wf(1) wfp(1) b wfp(2)] obtain y where
    y: "index policy_bootstrap profile = Inr y" "pyeq b y" by blast
  have fields: "\<exists>z. index y k = Inr z \<and> pyeq x z" if "index b k = Inr x" for k x
  proof (rule pyeq_index [OF y(2) wf(2) _ that])
    show "wf_json y" using wf_json_index [OF wfp(1) y(1)] .
    show "is_dict y" using y(1) by (auto simp: policy_bootstrap_def split: if_splits)
  qed
  have b_dict: "is_dict b"
    using y by (cases b) (auto simp: policy_bootstrap_def pyeq_def eq_commute [of _ "norm_float _"] split: if_splits)
  have "profile = ''legacy'' \<or> profile = ''system''"
    using y(1) by (auto simp: policy_bootstrap_def split: if_splits)
  then show ?thesis
  proof
    assume l: "profile = ''legacy''"
    have "x = JNull" if "index b ''digest'' = Inr x" for x
      using fields [OF that] y(1) l by (auto simp: policy_bootstrap_def)
    moreover have "x = JStr ''2''" if "index b ''runNumber'' = Inr x" for x
      using fields [OF that] y(1) l by (auto simp: policy_bootstrap_def)
    ultimately show ?thesis using l b_dict wf(2) by simp
  next
    assume sy: "profile = ''system''"
    have "\<not> truthy x" if "index b ''allowMissing'' = Inr x" for x
      using fields [OF that] y(1) sy by (auto simp: policy_bootstrap_def pyeq_truthy)
    moreover have "x = JStr system_release" if "index b ''digest'' = Inr x" for x
      using fields [OF that] y(1) sy by (auto simp: policy_bootstrap_def)
    ultimately show ?thesis using sy b_dict wf(2) by simp
  qed
qed

end
