(* ===== verification/BaseImage.thy ===== *)
theory BaseImage
  imports BaseRefresh
begin

text \<open>
  The part of \<^verbatim>\<open>ci/base-refresh.py\<close> that works on an image: \<open>installed_profile\<close> and
  \<open>actual_inventory\<close> read it through \<open>podman\<close>, \<open>collect\<close> writes the artifact of a build,
  \<open>validate(..., execute=True)\<close> compares the loaded image with the artifact, \<open>trust\<close> writes the host's trust
  files, \<open>resolve\<close> picks the base, and \<open>main\<close> chooses among them. What \<open>podman\<close> and \<open>skopeo\<close>
  answer is an argument; every theorem holds for all answers.
\<close>

section \<open>Images\<close>

text \<open>
  The answers for one image: creating and removing a container of it, \<open>podman cp\<close> of a path, the output of
  \<open>rpm -qa\<close> in it, the OCI archive \<open>skopeo\<close> makes of it, and its digest.
\<close>

record pod =
  im_create :: "unit result"
  im_remove :: "unit result"
  im_copy :: "string \<Rightarrow> node result"
  im_rpms :: "string result"
  im_archive :: "string result"
  im_digest :: "string result"

text \<open>\<open>try: r finally: c\<close>: an exception of the cleanup wins.\<close>

definition finally_do :: "unit result \<Rightarrow> 'a result \<Rightarrow> 'a result" where
  "finally_do c r = (case c of Inl e \<Rightarrow> Inl e | Inr _ \<Rightarrow> r)"

text \<open>The temporary file after \<open>podman cp\<close>.\<close>

definition tmp_path :: string where
  "tmp_path = ''profile''"

definition copied :: "pod \<Rightarrow> string \<Rightarrow> tree result" where
  "copied im location = rbind (im_copy im location) (\<lambda>n. Inr [tmp_path \<mapsto> n])"

definition trust_location :: "string \<Rightarrow> string result" where
  "trust_location name = (case map_of
     [(''cosign.pub'', ''/usr/share/bazzite-tower/containers/bazzite-tower-cosign.pub''),
      (''policy.json'', ''/usr/share/bazzite-tower/containers/policy.json''),
      (''bazzite-tower.yaml'', ''/usr/share/bazzite-tower/containers/registries.d/bazzite-tower.yaml'')] name of
     None \<Rightarrow> Inl (KeyError name) | Some location \<Rightarrow> Inr location)"

definition staged_trust :: "host \<Rightarrow> pod \<Rightarrow> tree \<Rightarrow> string \<times> string \<Rightarrow> (string \<times> json) result" where
  "staged_trust h im ctl no = (case no of (name, original) \<Rightarrow>
     rbind (trust_location name) (\<lambda>location. rbind (copied im location) (\<lambda>t.
     rbind (file_sha h t tmp_path) (\<lambda>a. rbind (file_sha h ctl original) (\<lambda>b.
     require (a = b) (ValueError (''staged trust policy/key substitution: '' @ location)) (Inr (name, JStr a)))))))"

definition active_trust :: "host \<Rightarrow> pod \<Rightarrow> (string \<times> json) list \<Rightarrow> string \<times> string \<Rightarrow> unit result" where
  "active_trust h im trusted nl = (case nl of (name, location) \<Rightarrow>
     rbind (copied im location) (\<lambda>t. rbind (file_sha h t tmp_path) (\<lambda>a.
     demand (index_is (JObj trusted) name (JStr a)) (ValueError (''active trust file substitution: '' @ location)) (Inr ()))))"

definition installed_native :: "host \<Rightarrow> pod \<Rightarrow> string \<times> string \<Rightarrow> (string \<times> json) result" where
  "installed_native h im kb = (case kb of (kind, binary) \<Rightarrow>
     rbind (rbind (copied im (''/usr/share/snitchwatch/system-'' @ kind @ ''-manifest.json'')) (\<lambda>t. rbind (read t tmp_path data_limit) decode)) (\<lambda>manifest.
     rbind (copied im binary) (\<lambda>t.
     rbind (index manifest ''binary'') (\<lambda>b.
     demand (all_of [index_is b ''path'' (JStr binary),
         rbind (index b ''sha256'') (\<lambda>x. rbind (file_sha h t tmp_path) (\<lambda>d. Inr (pyeq x (JStr d))))])
       (ValueError ''installed native binary/manifest mismatch'') (Inr (kind, manifest))))))"

definition installed_profile :: "host \<Rightarrow> pod \<Rightarrow> string \<Rightarrow> tree \<Rightarrow> json result" where
  "installed_profile h im expected ctl =
     rbind (im_create im) (\<lambda>_. finally_do (im_remove im)
     (rbind (rbind (copied im ''/usr/share/bazzite-tower/snitchwatch-bridge-profile'') (\<lambda>t. read_text t tmp_path)) (\<lambda>s.
     require (s = expected @ [newline]) (ValueError ''installed bridge profile mismatch'')
     (rbind (rmap (staged_trust h im ctl) TRUST) (\<lambda>trusted.
     rbind (rall (active_trust h im trusted) [(''cosign.pub'', ''/etc/pki/containers/bazzite-tower-cosign.pub''),
         (''bazzite-tower.yaml'', ''/etc/containers/registries.d/bazzite-tower.yaml'')]) (\<lambda>_.
     rbind (rbind (copied im ''/etc/containers/policy.json'') (\<lambda>t. read t tmp_path data_limit)) (\<lambda>raw.
     rbind (active_policy ctl raw) (\<lambda>_.
     rbind (case utf8_decode raw of None \<Rightarrow> Inl (ValueError ''invalid UTF-8'') | Some s \<Rightarrow> Inr s) (\<lambda>active.
     rbind (if expected = ''system'' then rmap (installed_native h im)
         [(''bridge'', ''/usr/bin/snitchwatch-bridge-cli''), (''daemon'', ''/usr/bin/opensnitchd'')] else Inr []) (\<lambda>natives.
     Inr (JObj ([(''profile'', JStr expected), (''trust'', JObj trusted), (''activePolicy'', JStr active),
       (''activePolicySha256'', JStr (sha256 h raw))] @ natives))))))))))))"

section \<open>Collecting and validating\<close>

text \<open>\<open>taken\<close>: the artifact directory exists. The result is what the directory holds at the end.\<close>

definition collect :: "host \<Rightarrow> (string \<Rightarrow> string result) \<Rightarrow> (string \<Rightarrow> string option) \<Rightarrow> tree \<Rightarrow> bool \<Rightarrow> pod \<Rightarrow>
    string \<Rightarrow> string \<Rightarrow> json \<Rightarrow> dir result" where
  "collect h created env ctl taken im profile base version =
     rbind (policy created ctl) (\<lambda>p.
     require (\<not> taken) (ValueError ''new artifact directory required'')
     (rbind (installed_profile h im profile ctl) (\<lambda>installed.
     rbind (im_rpms im) (\<lambda>rpms. rbind (parse_inventory rpms) (\<lambda>records.
     rbind (rbind (index p ''sourceCreated'') json_str) (\<lambda>sc.
     rbind (im_archive im) (\<lambda>archive.
     rbind (image_identity h archive) (\<lambda>img.
     let sbom = canonical h (make_document h records sc) in
     rbind (inventory_kernel records) (\<lambda>krn.
     rbind (evidence h env ctl p profile base version img (sha256 h sbom) (JStr krn)) (\<lambda>proof.
     Inr [(''installed.json'', RegFile (canonical h installed)), (''rpms.tsv'', RegFile rpms), (''sbom.json'', RegFile sbom),
       (''image.oci.tar'', RegFile archive),
       (''build-provenance.json'', RegFile (canonical h (JObj (dict_set ''installedSha256'' (JStr (sha256 h (canonical h installed))) proof))))]))))))))))"

text \<open>
  \<open>execute=True\<close>: the archive is loaded and the loaded image is looked at as in \<open>collect\<close>. (The hashes
  are taken after this in the source; they cannot fail, since every file has been read before.)
\<close>

definition validate_image :: "host \<Rightarrow> (string \<Rightarrow> string result) \<Rightarrow> (string \<Rightarrow> string option) \<Rightarrow> tree \<Rightarrow> (string \<Rightarrow> pod result) \<Rightarrow> dir \<Rightarrow>
    string \<Rightarrow> string \<Rightarrow> json \<Rightarrow> (json \<times> json) result" where
  "validate_image h created env ctl load data profile base version =
     rbind (validate h created env ctl data profile base version) (\<lambda>(proof, hashes).
     rbind (rbind (file_bytes (map_of data) ''image.oci.tar'') load) (\<lambda>im.
     demand (rbind (im_digest im) (\<lambda>d. rbind (index2 proof ''image'' ''manifestDigest'') (\<lambda>m. Inr (pyeq (JStr (strip d)) m))))
       (ValueError ''loaded image identity mismatch'')
     (demand (rbind (installed_profile h im profile ctl) (\<lambda>actual.
         rbind (rbind (read (map_of data) ''installed.json'' data_limit) decode) (\<lambda>installed. Inr (pyeq actual installed))))
       (ValueError ''actual installed profile/trust/native source mismatch'')
     (demand (rbind (rbind (im_rpms im) parse_inventory) (\<lambda>actual.
         rbind (rbind (file_bytes (map_of data) ''rpms.tsv'') parse_inventory) (\<lambda>records. Inr (actual = records))))
       (ValueError ''actual installed RPM inventory mismatch'') (Inr (proof, hashes))))))"

section \<open>Trust files, the base, the program\<close>

text \<open>What \<open>trust\<close> writes below \<open>out\<close>.\<close>

definition trust_files :: "host \<Rightarrow> tree \<Rightarrow> string \<Rightarrow> (string \<times> string) list result" where
  "trust_files h ctl out =
     rbind (file_bytes ctl ''cosign.pub'') (\<lambda>key.
     rbind (rbind (read ctl ''system_files/usr/share/bazzite-tower/containers/policy.json'' data_limit) decode) (\<lambda>value.
     demand (all_of [index_is value ''default'' reject_rule,
         rbind (rbind (index2 value ''transports'' ''docker'') (\<lambda>d. index d DEST)) (\<lambda>r. Inr (pyeq r installed_rule))])
       (ValueError ''host trust policy mismatch'')
     (rbind (file_bytes ctl ''system_files/usr/share/bazzite-tower/containers/registries.d/bazzite-tower.yaml'') (\<lambda>registry.
     Inr [(''cosign.pub'', key),
       (''policy.json'', canonical h (JObj [(''default'', reject_rule),
          (''transports'', JObj [(''docker'', JObj [(DEST, signed_rule (out @ ''/cosign.pub''))])])])),
       (''registries.d/bazzite-tower.yaml'', registry)]))))"

text \<open>\<open>inspect\<close> is the output of \<open>skopeo inspect\<close>; the result goes to the job outputs.\<close>

definition inspected :: "(string \<Rightarrow> string result) \<Rightarrow> string \<Rightarrow> json result" where
  "inspected inspect ref = rbind (inspect (''docker://'' @ ref)) (\<lambda>s. decode (utf8_encode (strip s)))"

definition resolve :: "host \<Rightarrow> (string \<Rightarrow> string result) \<Rightarrow> tree \<Rightarrow> (string \<Rightarrow> string result) \<Rightarrow> (string \<times> json) list result" where
  "resolve h created ctl inspect =
     rbind (policy created ctl) (\<lambda>p.
     rbind (rbind (index p ''upstream'') json_str) (\<lambda>upstream. rbind (rbind (index p ''upstreamTag'') json_str) (\<lambda>utag.
     rbind (inspected inspect (upstream @ '':'' @ utag)) (\<lambda>info.
     rbind (rbind (index info ''Digest'') digest) (\<lambda>d.
     rbind (immutable_base (upstream @ ''@'' @ d) p) (\<lambda>base.
     rbind (inspected inspect base) (\<lambda>info.
     rbind (index2 info ''Labels'' ''org.opencontainers.image.version'') (\<lambda>version.
     demand (rbind (base_version version) (\<lambda>x. rbind (index p ''minimumBaseVersion'') (\<lambda>m. rbind (base_version m) (\<lambda>y. Inr (y \<le> x)))))
       (ValueError ''upstream Bazzite downgrade'')
     (rbind (index p ''sourceCommit'') (\<lambda>sc. rbind (file_sha h ctl policy_path) (\<lambda>ps.
     Inr [(''base'', JStr base), (''version'', version), (''source'', sc), (''policy'', JStr ps)])))))))))))"

text \<open>
  The actions with their arguments. \<open>world\<close> holds what the actions ask: git in the source checkout, the tools of the publisher,
  \<open>skopeo inspect\<close>, the image that was built and the image an archive becomes when it is loaded.
\<close>

datatype action = Resolve | Accept tree | Collect bool string string json | Validate dir string string json
  | Revalidate dir string string json | Trust string | Fresh tree string | Baseline tree string | Attestations tree tree

record world =
  w_git :: "string list \<Rightarrow> string result"
  w_tools :: tools
  w_inspect :: "string \<Rightarrow> string result"
  w_built :: "string \<Rightarrow> pod"
  w_load :: "string \<Rightarrow> pod result"

text \<open>What an action leaves: lines appended to the job's output file, files, or nothing.\<close>

datatype effect = Quiet | Lines string | Written dir

definition output_effect :: "host \<Rightarrow> (string \<times> json) list \<Rightarrow> effect \<times> unit result" where
  "output_effect h values = (case output_lines h values of (s, r) \<Rightarrow> (Lines s, r))"

definition quietly :: "'a result \<Rightarrow> effect \<times> unit result" where
  "quietly r = (Quiet, rbind r (\<lambda>_. Inr ()))"

definition files_effect :: "dir result \<Rightarrow> effect \<times> unit result" where
  "files_effect r = (case r of Inl e \<Rightarrow> (Quiet, Inl e) | Inr d \<Rightarrow> (Written d, Inr ()))"

definition refresh_action :: "host \<Rightarrow> (string \<Rightarrow> string result) \<Rightarrow> (string \<Rightarrow> string option) \<Rightarrow> world \<Rightarrow> tree \<Rightarrow> action \<Rightarrow>
    effect \<times> unit result" where
  "refresh_action h created env w ctl a = (case a of
       Resolve \<Rightarrow> (case resolve h created ctl (w_inspect w) of Inl e \<Rightarrow> (Quiet, Inl e) | Inr values \<Rightarrow> output_effect h values)
     | Accept src \<Rightarrow> quietly (accepted_source h created (w_git w) ctl src)
     | Collect taken profile base version \<Rightarrow> files_effect (collect h created env ctl taken (w_built w profile) profile base version)
     | Validate data profile base version \<Rightarrow>
         (case rbind (validate_image h created env ctl (w_load w) data profile base version) (\<lambda>(proof, hashes).
             rbind (index2 proof ''image'' ''manifestDigest'') (\<lambda>d.
             Inr [(''digest'', d), (''hashes'', JStr (dump (float_repr h) compact 0 hashes))])) of
           Inl e \<Rightarrow> (Quiet, Inl e) | Inr values \<Rightarrow> output_effect h values)
     | Revalidate data profile base version \<Rightarrow> quietly (revalidate h created env ctl data profile base version)
     | Trust out \<Rightarrow> files_effect (rbind (trust_files h ctl out) (\<lambda>fs. Inr (map (map_prod id RegFile) fs)))
     | Fresh files current \<Rightarrow> quietly (fresh created ctl files current)
     | Baseline data profile \<Rightarrow> quietly (baseline h (w_tools w) created env ctl data profile)
     | Attestations data verified \<Rightarrow> quietly (rbind (environ env ''VALIDATED_DIGEST'') (attestations (w_tools w) data verified)))"

definition refresh_main :: "host \<Rightarrow> (string \<Rightarrow> string result) \<Rightarrow> (string \<Rightarrow> string option) \<Rightarrow> world \<Rightarrow> tree \<Rightarrow> action \<Rightarrow>
    effect \<times> unit result" where
  "refresh_main h created env w ctl a =
     (case rbind (refresh_context env) (\<lambda>_. policy created ctl) of
        Inl e \<Rightarrow> (Quiet, Inl e)
      | Inr _ \<Rightarrow> refresh_action h created env w ctl a)"

end
