(* ===== verification/BaseRefreshProofs.thy ===== *)
theory BaseRefreshProofs
  imports BaseRefresh PublicationProofs
begin

text \<open>
  The properties of the base refresh: version formats, the chain of releases, the checks of an artifact
  and their repetition by the publisher, and the channel baseline, each applied to a sample refresh.
\<close>

section \<open>Versions and chains of releases\<close>

text \<open>
  Both version formats print and read back. Every six numbers spelled as a kernel release, and every
  pair within the digits of a Bazzite version, are read as exactly these numbers; so two accepted texts
  compare as their numbers do (6.9 is below 6.17).
\<close>
theorem version_roundtrip:
  "(length ns = 6 \<longrightarrow> kernel_version (JStr (kernel_text ns)) = Inr ns) \<and>
   (a < 100 \<and> b < 100000000 \<longrightarrow> base_version (JStr (base_text [a, b])) = Inr [a, b])"
  using scan_spelled [OF _ kernel_seps_ok, of ns] base_text_version [of a b]
  by (auto simp: kernel_version_Inr kernel_text_def kernel_seps_def)

lemma version_roundtrip_witness:
  "kernel_version (JStr ''6.17.7-ogc1.1.fc44'') = Inr [6, 17, 7, 1, 1, 44] \<and>
   base_version (JStr ''44.20260101'') = Inr [44, 20260101]"
proof -
  have t: "kernel_text [6, 17, 7, 1, 1, 44] = ''6.17.7-ogc1.1.fc44''" "base_text [44, 20260101] = ''44.20260101''"
    by code_simp+
  from version_roundtrip [of "[6, 17, 7, 1, 1, 44]" 44 20260101] show ?thesis unfolding t by simp
qed

text \<open>
  C7: a chain of refreshes never goes back. If every record of a list (newest first) was admitted by
  \<open>monotonic\<close> against the next one, then any record's Bazzite version and kernel version are at least those
  of every older record, and it belongs to the same profile as the one before it.
\<close>
theorem refresh_chain_monotone:
  assumes step: "\<And>i. Suc i < length rs \<Longrightarrow> monotonic p (rs ! i) (rs ! Suc i) = Inr ()"
    and ij: "i < j" "j < length rs"
  shows "\<exists>a b c d. index (rs ! i) ''baseVersion'' = Inr a \<and> index (rs ! j) ''baseVersion'' = Inr b \<and>
     at_least base_version a b = Inr True \<and>
     index (rs ! i) ''kernel'' = Inr c \<and> index (rs ! j) ''kernel'' = Inr d \<and>
     at_least kernel_version c d = Inr True"
proof -
  define val where "val k r = (case index r k of Inr x \<Rightarrow> x | Inl _ \<Rightarrow> JNull)" for k r
  have has: "index (rs ! k) ''baseVersion'' = Inr (val ''baseVersion'' (rs ! k)) \<and>
      index (rs ! k) ''kernel'' = Inr (val ''kernel'' (rs ! k))" if "k < length rs" for k
  proof (cases k)
    case 0
    then have "Suc 0 < length rs" using ij by linarith
    from monotonic_facts [OF step [OF this]] show ?thesis using 0 by (auto simp: val_def)
  next
    case (Suc m)
    with that monotonic_facts [OF step [of m]] show ?thesis by (auto simp: val_def)
  qed
  have st: "at_least base_version (val ''baseVersion'' (rs ! k)) (val ''baseVersion'' (rs ! Suc k)) = Inr True \<and>
      at_least kernel_version (val ''kernel'' (rs ! k)) (val ''kernel'' (rs ! Suc k)) = Inr True"
    if "Suc k < length rs" for k
    using monotonic_facts [OF step [OF that]] by (auto simp: val_def)
  have "at_least base_version (map (val ''baseVersion'') rs ! i) (map (val ''baseVersion'') rs ! j) = Inr True"
    by (rule bv.at_least_chain) (use st ij in auto)
  moreover have "at_least kernel_version (map (val ''kernel'') rs ! i) (map (val ''kernel'') rs ! j) = Inr True"
    by (rule kv.at_least_chain) (use st ij in auto)
  ultimately show ?thesis using has [of i] has [of j] ij by auto
qed

definition toy_release :: "string \<Rightarrow> string \<Rightarrow> json" where
  "toy_release bv kv = JObj [(''kind'', JStr ''accepted-source-base-refresh''), (''repository'', JStr ''bearyjd/bazzite-tower''),
     (''workflow'', JStr WORKFLOW), (''ref'', JStr ''refs/heads/main''), (''profile'', JStr ''legacy''),
     (''baseVersion'', JStr bv), (''kernel'', JStr kv)]"

definition toy_releases :: "json list" where
  "toy_releases = [toy_release ''44.20260301'' ''6.17.7-ogc1.1.fc44'', toy_release ''44.20260201'' ''6.17.7-ogc1.1.fc44'',
     toy_release ''43.20260101'' ''6.9.12-ogc3.1.fc43'']"

definition toy_refs :: json where
  "toy_refs = JObj [(''repository'', JStr ''bearyjd/bazzite-tower''), (''ref'', JStr ''refs/heads/main'')]"

lemma refresh_chain_monotone_witness:
  "\<exists>a b c d. index (toy_releases ! 0) ''baseVersion'' = Inr a \<and> index (toy_releases ! 2) ''baseVersion'' = Inr b \<and>
     at_least base_version a b = Inr True \<and>
     index (toy_releases ! 0) ''kernel'' = Inr c \<and> index (toy_releases ! 2) ''kernel'' = Inr d \<and>
     at_least kernel_version c d = Inr True"
proof (rule refresh_chain_monotone)
  have "list_all (\<lambda>i. monotonic toy_refs (toy_releases ! i) (toy_releases ! Suc i) = Inr ()) [0, 1]" by code_simp
  then show "monotonic toy_refs (toy_releases ! i) (toy_releases ! Suc i) = Inr ()" if "Suc i < length toy_releases" for i
    using that by (auto simp: toy_releases_def less_Suc_eq)
qed (simp_all add: toy_releases_def)

section \<open>The artifact\<close>

text \<open>
  C8: a validated artifact is what its evidence says. The base image is the reviewed upstream pinned by a
  digest; the Bazzite version and the version of the one installed kernel are not below the policy's
  floors; the image record is that of the archive in the directory, the SBOM is the document of the RPM
  table beside it, and the recorded provenance equals the evidence computed from them.
\<close>
theorem validate_sound:
  assumes "validate h created env ctl data profile base version = Inr (proof, hashes)"
  shows "\<exists>p d records krn sc b img minb mink prov.
     policy created ctl = Inr p \<and> base = ''ghcr.io/ublue-os/bazzite-nvidia-open@'' @ d \<and> image_digest d \<and>
     index p ''minimumBaseVersion'' = Inr minb \<and> at_least base_version version minb = Inr True \<and>
     index p ''minimumKernel'' = Inr mink \<and> at_least kernel_version (JStr krn) mink = Inr True \<and>
     rbind (file_bytes (map_of data) ''rpms.tsv'') parse_inventory = Inr records \<and> inventory_kernel records = Inr krn \<and>
     (\<exists>sbom. rbind (read (map_of data) ''sbom.json'' data_limit) decode = Inr sbom \<and> pyeq sbom (make_document h records sc)) \<and>
     map_of data ''image.oci.tar'' = Some (RegFile b) \<and> image_identity h b = Inr img \<and>
     index proof ''image'' = Inr img \<and> index proof ''kernel'' = Inr (JStr krn) \<and>
     rbind (read (map_of data) ''build-provenance.json'' data_limit) decode = Inr prov \<and> pyeq prov proof"
proof -
  from validate_facts [OF assms] obtain p records sbom sc img ss krn e installed ins prov b where
    f: "policy created ctl = Inr p" "rbind (file_bytes (map_of data) ''rpms.tsv'') parse_inventory = Inr records"
     "rbind (read (map_of data) ''sbom.json'' data_limit) decode = Inr sbom" "pyeq sbom (make_document h records sc)"
     "file_bytes (map_of data) ''image.oci.tar'' = Inr b" "image_identity h b = Inr img"
     "inventory_kernel records = Inr krn"
     "evidence h env ctl p profile base version img ss (JStr krn) = Inr e"
     "rbind (read (map_of data) ''build-provenance.json'' data_limit) decode = Inr prov" "pyeq prov proof"
     "proof = JObj (dict_set ''installedSha256'' (JStr ins) e)" by auto
  from evidence_facts [OF f(8)] obtain x minb mink where
    e: "immutable_base base p = Inr x" "index p ''minimumBaseVersion'' = Inr minb" "at_least base_version version minb = Inr True"
     "index p ''minimumKernel'' = Inr mink" "at_least kernel_version (JStr krn) mink = Inr True"
     "map_of e ''image'' = Some img" "map_of e ''kernel'' = Some (JStr krn)" by auto
  from policy_facts [OF f(1)] have "index p ''upstream'' = Inr (JStr ''ghcr.io/ublue-os/bazzite-nvidia-open'')"
    by (auto simp: index_is_True)
  from immutable_base_pinned [OF e(1) this] obtain d where
    "base = ''ghcr.io/ublue-os/bazzite-nvidia-open'' @ ''@'' @ d" "image_digest d" by auto
  moreover have "map_of data ''image.oci.tar'' = Some (RegFile b)"
    using f(5) by (auto simp: file_bytes_def split: option.splits node.splits)
  moreover have "index proof ''image'' = Inr img" "index proof ''kernel'' = Inr (JStr krn)"
    using e(6,7) by (simp_all add: f(11))
  ultimately show ?thesis using f e by auto
qed

text \<open>
  C5: what the publisher pushes is what was validated. The publisher repeats the checks in its own job and
  compares the hashes with those the validation job handed over; when it accepts, every file of its
  directory has the bytes the validation job saw (barring hash collisions), and the two proofs are equal.
\<close>
theorem revalidate_same_artifact:
  assumes v: "validate h created env1 ctl1 data1 profile1 base1 version1 = Inr (proof1, hashes)"
    and r: "revalidate h created env2 ctl2 data2 profile2 base2 version2 = Inr proof2"
    and handed: "env2 ''VALIDATED_HASHES'' = Some txt" "decode (utf8_encode txt) = Inr w" "pyeq hashes w"
    and inj: "inj_on (sha256 h) ((\<lambda>n. case n of RegFile b \<Rightarrow> b | _ \<Rightarrow> []) ` snd ` (set data1 \<union> set data2))"
  shows "list_all (\<lambda>name. \<exists>b. map_of data1 name = Some (RegFile b) \<and> map_of data2 name = Some (RegFile b)) REFRESH_FILES \<and>
     pyeq proof1 proof2"
proof -
  from r handed obtain hashes2 where v2: "validate h created env2 ctl2 data2 profile2 base2 version2 = Inr (proof2, hashes2)"
    and eq: "pyeq hashes2 w"
    by (auto simp: revalidate_def rbind_eq_Inr demand_eq_Inr environ_def)
  let ?ps = "map (\<lambda>n. (n, n)) REFRESH_FILES"
  have s: "sha_map h (map_of data1) ?ps = Inr hashes" "sha_map h (map_of data2) ?ps = Inr hashes2"
    using validate_facts [OF v] validate_facts [OF v2] by auto
  from sha_map_files [OF s(1)] obtain d1 where d1: "hashes = JObj d1" "map fst d1 = REFRESH_FILES"
    "\<And>n. n \<in> set REFRESH_FILES \<Longrightarrow> \<exists>b. map_of data1 n = Some (RegFile b) \<and> (n, JStr (sha256 h b)) \<in> set d1"
    by (auto simp: comp_def)
  from sha_map_files [OF s(2)] obtain d2 where d2: "hashes2 = JObj d2" "map fst d2 = REFRESH_FILES"
    "\<And>n. n \<in> set REFRESH_FILES \<Longrightarrow> \<exists>b. map_of data2 n = Some (RegFile b) \<and> (n, JStr (sha256 h b)) \<in> set d2"
    by (auto simp: comp_def)
  have dist: "distinct (map fst d1)" "distinct (map fst d2)" unfolding d1(2) d2(2) by (simp_all add: REFRESH_FILES_def)
  have "pyeq (JObj d1) (JObj d2)" using handed(3) eq d1(1) d2(1) by (metis pyeq_sym pyeq_trans)
  note same = pyeq_map_of [OF this dist]
  have bytes: "\<exists>b. map_of data1 n = Some (RegFile b) \<and> map_of data2 n = Some (RegFile b)" if n: "n \<in> set REFRESH_FILES" for n
  proof -
    from d1(3) [OF n] d2(3) [OF n] obtain b1 b2 where b:
      "map_of data1 n = Some (RegFile b1)" "(n, JStr (sha256 h b1)) \<in> set d1"
      "map_of data2 n = Some (RegFile b2)" "(n, JStr (sha256 h b2)) \<in> set d2" by blast
    with dist have "map_of d1 n = Some (JStr (sha256 h b1))" "map_of d2 n = Some (JStr (sha256 h b2))" by simp_all
    with same have "sha256 h b1 = sha256 h b2" by fastforce
    moreover have in_dirs: "b \<in> (\<lambda>n. case n of RegFile b \<Rightarrow> b | _ \<Rightarrow> []) ` snd ` (set data1 \<union> set data2)"
      if "(n, RegFile b) \<in> set data1 \<union> set data2" for b
      using that by (intro image_eqI [where x = "RegFile b"] image_eqI [where x = "(n, RegFile b)"]) simp_all
    moreover have "(n, RegFile b1) \<in> set data1 \<union> set data2" "(n, RegFile b2) \<in> set data1 \<union> set data2"
      using map_of_SomeD [OF b(1)] map_of_SomeD [OF b(3)] by simp_all
    ultimately have "b1 = b2" by (blast intro: inj_onD [OF inj] in_dirs)
    with b show ?thesis by blast
  qed
  obtain prov1 prov2 where pr:
    "rbind (read (map_of data1) ''build-provenance.json'' data_limit) decode = Inr prov1" "pyeq prov1 proof1"
    "rbind (read (map_of data2) ''build-provenance.json'' data_limit) decode = Inr prov2" "pyeq prov2 proof2"
    using validate_facts [OF v] validate_facts [OF v2] by auto
  have "read (map_of data1) ''build-provenance.json'' data_limit = read (map_of data2) ''build-provenance.json'' data_limit"
    using bytes [of "''build-provenance.json''"] by (auto simp: read_def REFRESH_FILES_def)
  then have "prov1 = prov2" using pr(1,3) by simp
  with pr(2,4) have "pyeq proof1 proof2" by (simp add: pyeq_def)
  with bytes show ?thesis by (simp add: list_all_iff)
qed

section \<open>A sample refresh\<close>

definition toy_policy :: json where
  "toy_policy = JObj
     [(''bootstrap'', sortk policy_bootstrap), (''daemonPatchSha256'', JStr h64),
      (''daemonSource'', JObj [(''commit'', JStr h40), (''tree'', JStr h40)]), (''destination'', JStr DEST),
      (''minimumBaseVersion'', JStr ''44.20260101''), (''minimumKernel'', JStr ''6.17.0-ogc1.1.fc44''),
      (''nativeSource'', JObj [(''commit'', JStr h40), (''submoduleCommit'', JStr h40), (''tree'', JStr h40)]),
      (''profiles'', sortk policy_profiles), (''ref'', JStr ''refs/heads/main''),
      (''repository'', JStr ''bearyjd/bazzite-tower''), (''schemaVersion'', JInt 1), (''sourceCommit'', JStr h40),
      (''sourceCreated'', JStr ''2026-01-01T00:00:00Z''), (''sourceTree'', JStr h40),
      (''upstream'', JStr ''ghcr.io/ublue-os/bazzite-nvidia-open''), (''upstreamTag'', JStr ''stable'')]"

definition toy_trust_policy :: json where
  "toy_trust_policy = JObj [(''default'', reject_rule),
     (''transports'', JObj [(''docker'', JObj [(DEST, sortk installed_rule)])])]"

definition refresh_ctl :: tree where
  "refresh_ctl = map_of
     [(policy_path, RegFile (canonical toy_host0 toy_policy)), (''cosign.pub'', RegFile ''key''),
      (''system_files/usr/share/bazzite-tower/containers/policy.json'', RegFile (canonical toy_host0 toy_trust_policy)),
      (''system_files/usr/share/bazzite-tower/containers/registries.d/bazzite-tower.yaml'', RegFile ''docker:'')]"

definition toy_created :: "string \<Rightarrow> string result" where
  "toy_created s = Inr s"

definition refresh_env :: "string \<Rightarrow> string option" where
  "refresh_env = map_of [(''GITHUB_SHA'', h40), (''GITHUB_RUN_ID'', ''77''), (''GITHUB_RUN_ATTEMPT'', ''1'')]"

definition refresh_base :: string where
  "refresh_base = ''ghcr.io/ublue-os/bazzite-nvidia-open@sha256:'' @ h64"

lemma len_policy: "length (canonical toy_host0 toy_policy) = 1237"
  by code_simp

lemma len_trust: "length (canonical toy_host0 toy_trust_policy) = 219"
  by code_simp

lemma doc_policy: "doc toy_policy"
  by (rule docI [OF _ len_policy]; code_simp)

lemma doc_trust: "doc toy_trust_policy"
  by (rule docI [OF _ len_trust]; code_simp)

lemma toy_policy_ok: "policy toy_created refresh_ctl = Inr toy_policy"
proof -
  have "policy_check_value toy_created toy_policy = Inr ()" by code_simp
  moreover have "read refresh_ctl policy_path data_limit = Inr (canonical toy_host0 toy_policy)"
    by (rule doc_read [OF doc_policy]) (simp add: refresh_ctl_def)
  ultimately show ?thesis using doc_decode [OF doc_policy] by (simp add: policy_def)
qed
definition trust_sha :: string where
  "trust_sha = text_sha toy_trust_policy"

lemma trust_sha_code [code]: "trust_sha = sha_len 219"
  unfolding trust_sha_def by (rule text_sha_len [OF len_trust])

definition toy_rpm_doc :: json where
  "toy_rpm_doc = sortk (make_document toy_host toy_rpms ''2026-01-01T00:00:00Z'')"

definition toy_installed :: json where
  "toy_installed = JObj [(''activePolicy'', JStr (canonical toy_host0 toy_trust_policy)),
     (''activePolicySha256'', JStr trust_sha), (''profile'', JStr ''legacy''),
     (''trust'', JObj [(''bazzite-tower.yaml'', JStr (toy_sha ''docker:'')), (''cosign.pub'', JStr (toy_sha ''key'')),
        (''policy.json'', JStr trust_sha)])]"

lemma len_rpm_doc: "length (canonical toy_host0 toy_rpm_doc) = 1147"
  by code_simp

lemma len_installed: "length (canonical toy_host0 toy_installed) = 632"
  by code_simp

definition rpm_doc_sha :: string where
  "rpm_doc_sha = text_sha toy_rpm_doc"

definition installed_sha :: string where
  "installed_sha = text_sha toy_installed"

lemma rpm_doc_sha_code [code]: "rpm_doc_sha = sha_len 1147"
  unfolding rpm_doc_sha_def by (rule text_sha_len [OF len_rpm_doc])

lemma installed_sha_code [code]: "installed_sha = sha_len 632"
  unfolding installed_sha_def by (rule text_sha_len [OF len_installed])

definition policy_sha :: string where
  "policy_sha = text_sha toy_policy"

lemma policy_sha_code [code]: "policy_sha = sha_len 1237"
  unfolding policy_sha_def by (rule text_sha_len [OF len_policy])

definition toy_evidence :: "(string \<times> json) list" where
  "toy_evidence =
     [(''schemaVersion'', JInt 1), (''kind'', JStr ''accepted-source-base-refresh''),
      (''repository'', JStr ''bearyjd/bazzite-tower''), (''workflow'', JStr WORKFLOW), (''ref'', JStr ''refs/heads/main''),
      (''controlCommit'', JStr h40), (''runId'', JInt 77), (''runAttempt'', JInt 1), (''policySha256'', JStr policy_sha),
      (''sourceCommit'', JStr h40), (''sourceTree'', JStr h40), (''profile'', JStr ''legacy''),
      (''imageTag'', JStr ''latest''), (''channels'', JList [JStr ''stable'', JStr ''latest'']),
      (''baseImage'', JStr refresh_base), (''baseVersion'', JStr ''44.20260301''),
      (''kernel'', JStr ''6.17.7-ogc1.1.fc44''), (''image'', image_record toy_digest), (''sbomSha256'', JStr rpm_doc_sha)]"

definition toy_proof :: json where
  "toy_proof = JObj (dict_set ''installedSha256'' (JStr installed_sha) toy_evidence)"

lemma len_proof: "length (canonical toy_host0 (sortk toy_proof)) = 1100"
  by code_simp

lemma doc_refresh: "doc toy_rpm_doc" "doc toy_installed" "doc (sortk toy_proof)"
  subgoal by (rule docI [OF _ len_rpm_doc]; code_simp)
  subgoal by (rule docI [OF _ len_installed]; code_simp)
  subgoal by (rule docI [OF _ len_proof]; code_simp)
  done

definition refresh_data :: dir where
  "refresh_data =
     [(''image.oci.tar'', RegFile ''tar''), (''rpms.tsv'', RegFile (toy_table toy_rpms)),
      (''sbom.json'', RegFile (canonical toy_host0 toy_rpm_doc)),
      (''build-provenance.json'', RegFile (canonical toy_host0 (sortk toy_proof))),
      (''installed.json'', RegFile (canonical toy_host0 toy_installed))]"
definition refresh_hashes :: json where
  "refresh_hashes = JObj [(''build-provenance.json'', JStr (text_sha (sortk toy_proof))), (''image.oci.tar'', JStr (toy_sha ''tar'')),
     (''installed.json'', JStr installed_sha), (''rpms.tsv'', JStr (toy_sha (toy_table toy_rpms))), (''sbom.json'', JStr rpm_doc_sha)]"

lemmas refresh_sha_defs = rpm_doc_sha_def installed_sha_def policy_sha_def trust_sha_def text_sha_def

lemma toy_evidence_ok:
  "evidence toy_host refresh_env refresh_ctl toy_policy ''legacy'' refresh_base (JStr ''44.20260301'')
     (image_record toy_digest) rpm_doc_sha (JStr ''6.17.7-ogc1.1.fc44'') = Inr toy_evidence"
proof -
  have "base_version (JStr ''44.20260301'') = Inr [44, 20260301]" "base_version (JStr ''44.20260101'') = Inr [44, 20260101]"
    "kernel_version (JStr ''6.17.7-ogc1.1.fc44'') = Inr [6, 17, 7, 1, 1, 44]"
    "kernel_version (JStr ''6.17.0-ogc1.1.fc44'') = Inr [6, 17, 0, 1, 1, 44]" "py_int ''77'' = Some 77" "py_int ''1'' = Some 1"
    "immutable_base refresh_base toy_policy = Inr refresh_base"
    by code_simp+
  then show ?thesis
    by (simp add: evidence_def toy_policy_def policy_profiles_def str_in_def refresh_env_def environ_def environ_int_def
        file_sha_def refresh_ctl_def policy_sha_def text_sha_def toy_evidence_def)
qed

lemma toy_active_policy: "active_policy refresh_ctl (canonical toy_host0 toy_trust_policy) = Inr ()"
proof -
  have "read refresh_ctl ''system_files/usr/share/bazzite-tower/containers/policy.json'' data_limit
      = Inr (canonical toy_host0 toy_trust_policy)"
    by (rule doc_read [OF doc_trust]) (simp add: refresh_ctl_def policy_path_def)
  moreover have "chain_eq reject_rule reject_rule reject_rule"
    "chain_eq (sortk installed_rule) (sortk installed_rule) installed_rule" "\<not> narrower_scope DEST"
    by code_simp+
  ultimately show ?thesis
    using doc_decode [OF doc_trust]
    by (simp add: active_policy_def toy_trust_policy_def index2_def dict_items_def)
qed

lemma toy_installed_check: "installed_check toy_host refresh_ctl toy_policy ''legacy'' toy_installed = Inr ()"
proof -
  have "sha_map toy_host refresh_ctl TRUST = Inr (JObj [(''cosign.pub'', JStr (toy_sha ''key'')),
      (''policy.json'', JStr trust_sha), (''bazzite-tower.yaml'', JStr (toy_sha ''docker:''))])"
    by (simp add: sha_map_def TRUST_def policy_sources_def file_sha_def refresh_ctl_def policy_path_def trust_sha_def text_sha_def)
  moreover have "utf8_encode (canonical toy_host0 toy_trust_policy) = canonical toy_host0 toy_trust_policy"
    using doc_trust by (intro utf8_encode_ascii ascii_canonical) (simp add: doc_def)
  moreover have "set_is toy_installed (installed_keys ''legacy'') = Inr True" by code_simp
  ultimately show ?thesis
    using toy_active_policy
    by (simp add: installed_check_def toy_installed_def index_is_def all_of.simps pyeq_def trust_sha_def text_sha_def)
qed

lemma toy_validate:
  "validate toy_host toy_created refresh_env refresh_ctl refresh_data ''legacy'' refresh_base (JStr ''44.20260301'')
     = Inr (toy_proof, refresh_hashes)"
proof -
  have r: "rbind (read (map_of refresh_data) ''sbom.json'' data_limit) decode = Inr toy_rpm_doc"
    "rbind (read (map_of refresh_data) ''installed.json'' data_limit) decode = Inr toy_installed"
    "rbind (read (map_of refresh_data) ''build-provenance.json'' data_limit) decode = Inr (sortk toy_proof)"
    using doc_refresh by (simp_all add: doc_read doc_decode refresh_data_def)
  have "set (map fst refresh_data) = set REFRESH_FILES" by code_simp
  moreover have "length (toy_table toy_rpms) \<le> 1000" by code_simp
  ultimately have inv: "refresh_inventory refresh_data = Inr ()"
    using doc_refresh by (simp add: refresh_inventory_def refresh_data_def entry_limit_def doc_def data_limit_def)
  have kernel: "inventory_kernel toy_rpms = Inr ''6.17.7-ogc1.1.fc44''" by code_simp
  have eq: "pyeq toy_rpm_doc (make_document toy_host toy_rpms ''2026-01-01T00:00:00Z'')" "pyeq (sortk toy_proof) toy_proof"
    by code_simp+
  have "index toy_policy ''sourceCreated'' = Inr (JStr ''2026-01-01T00:00:00Z'')" by (simp add: toy_policy_def)
  moreover have "sha_map toy_host (map_of refresh_data) (map (\<lambda>n. (n, n)) REFRESH_FILES) = Inr refresh_hashes"
    by (simp add: sha_map_def REFRESH_FILES_def file_sha_def refresh_data_def refresh_hashes_def refresh_sha_defs)
  ultimately show ?thesis
    unfolding validate_def r
    using toy_policy_ok inv toy_rpms_parse toy_image_identity kernel toy_evidence_ok toy_installed_check eq
    by (simp add: file_bytes_def file_sha_def refresh_data_def json_str_def toy_proof_def rpm_doc_sha_def [symmetric]
        installed_sha_def [symmetric] text_sha_def [symmetric])
qed
lemma validate_sound_witness:
  "\<exists>p d records krn sc b img minb mink prov.
     policy toy_created refresh_ctl = Inr p \<and> refresh_base = ''ghcr.io/ublue-os/bazzite-nvidia-open@'' @ d \<and> image_digest d \<and>
     index p ''minimumBaseVersion'' = Inr minb \<and> at_least base_version (JStr ''44.20260301'') minb = Inr True \<and>
     index p ''minimumKernel'' = Inr mink \<and> at_least kernel_version (JStr krn) mink = Inr True \<and>
     rbind (file_bytes (map_of refresh_data) ''rpms.tsv'') parse_inventory = Inr records \<and> inventory_kernel records = Inr krn \<and>
     (\<exists>sbom. rbind (read (map_of refresh_data) ''sbom.json'' data_limit) decode = Inr sbom \<and> pyeq sbom (make_document toy_host records sc)) \<and>
     map_of refresh_data ''image.oci.tar'' = Some (RegFile b) \<and> image_identity toy_host b = Inr img \<and>
     index toy_proof ''image'' = Inr img \<and> index toy_proof ''kernel'' = Inr (JStr krn) \<and>
     rbind (read (map_of refresh_data) ''build-provenance.json'' data_limit) decode = Inr prov \<and> pyeq prov toy_proof"
  by (rule validate_sound [OF toy_validate])

lemma len_refresh_hashes: "length (canonical toy_host0 refresh_hashes) = 417"
  by code_simp

lemma doc_refresh_hashes: "doc refresh_hashes"
  by (rule docI [OF _ len_refresh_hashes]; code_simp)

definition publish_env :: "string \<Rightarrow> string option" where
  "publish_env = refresh_env(''VALIDATED_HASHES'' \<mapsto> canonical toy_host0 refresh_hashes, ''VALIDATED_DIGEST'' \<mapsto> toy_digest)"

lemma handed_hashes: "decode (utf8_encode (canonical toy_host0 refresh_hashes)) = Inr refresh_hashes"
proof -
  have "utf8_encode (canonical toy_host0 refresh_hashes) = canonical toy_host0 refresh_hashes"
    using doc_refresh_hashes by (intro utf8_encode_ascii ascii_canonical) (simp add: doc_def)
  then show ?thesis using doc_decode [OF doc_refresh_hashes] by simp
qed

lemma toy_revalidate:
  "revalidate toy_host toy_created publish_env refresh_ctl refresh_data ''legacy'' refresh_base (JStr ''44.20260301'') = Inr toy_proof"
proof -
  have "evidence toy_host publish_env = evidence toy_host refresh_env"
    by (intro ext) (simp add: evidence_def environ_def environ_int_def publish_env_def)
  then have "validate toy_host toy_created publish_env refresh_ctl refresh_data ''legacy'' refresh_base (JStr ''44.20260301'')
      = Inr (toy_proof, refresh_hashes)"
    using toy_validate unfolding validate_def by simp
  moreover have "index2 toy_proof ''image'' ''manifestDigest'' = Inr (JStr toy_digest)"
    by (simp add: toy_proof_def toy_evidence_def image_record_def index2_def)
  ultimately show ?thesis
    using handed_hashes doc_pyeq [OF doc_refresh_hashes] by (simp add: revalidate_def environ_def publish_env_def)
qed

lemma revalidate_same_artifact_witness:
  "list_all (\<lambda>name. \<exists>b. map_of refresh_data name = Some (RegFile b) \<and> map_of refresh_data name = Some (RegFile b)) REFRESH_FILES \<and>
     pyeq toy_proof toy_proof"
proof (rule revalidate_same_artifact [OF toy_validate toy_revalidate _ handed_hashes doc_pyeq [OF doc_refresh_hashes]])
  show "publish_env ''VALIDATED_HASHES'' = Some (canonical toy_host0 refresh_hashes)" by (simp add: publish_env_def)
  let ?bs = "map (\<lambda>p. case snd p of RegFile b \<Rightarrow> b | _ \<Rightarrow> []) refresh_data"
  have "distinct (map length ?bs)"
  proof -
    have "length (toy_table toy_rpms) < 632 \<and> length (toy_table toy_rpms) \<noteq> 3" by code_simp
    then show ?thesis using len_rpm_doc len_installed len_proof by (simp add: refresh_data_def)
  qed
  from toy_sha_inj [OF this]
  show "inj_on (sha256 toy_host) ((\<lambda>n. case n of RegFile b \<Rightarrow> b | _ \<Rightarrow> []) ` snd ` (set refresh_data \<union> set refresh_data))"
    by (simp add: inj_on_def image_image)
qed

section \<open>The channel baseline\<close>

definition toy_previous :: json where
  "toy_previous = toy_release ''44.20260201'' ''6.17.1-ogc1.1.fc44''"

definition channel_manifest :: string where
  "channel_manifest = ''{}''"

definition toy_statement :: json where
  "toy_statement = JObj [(''predicate'', toy_previous), (''predicateType'', JStr PREDICATE),
     (''subject'', JList [subject_for (digest_of toy_host channel_manifest)])]"

definition toy_tools :: tools where
  "toy_tools = \<lparr>gh_api = (\<lambda>_. Inl CalledProcessError), skopeo_raw = (\<lambda>_. (False, channel_manifest, [])),
     cosign_verify = (\<lambda>_. Inr ()), cosign_attest = (\<lambda>_. Inr (''{\"payload\":0}'' @ [newline])),
     b64decode = (\<lambda>_. Inr (dump (\<lambda>_. []) compact 0 toy_statement))\<rparr>"

lemma toy_envelopes: "envelopes toy_tools (''{\"payload\":0}'' @ [newline]) = Inr [toy_statement]"
  by code_simp

lemma toy_channel: "channel_check toy_host toy_tools refresh_env toy_policy (sortk toy_proof) ''legacy'' ''stable'' = Inr ()"
proof -
  have "baseline_predicates (digest_of toy_host channel_manifest) [toy_statement] = Inr [toy_previous]" by code_simp
  moreover have "monotonic toy_policy (sortk toy_proof) toy_previous = Inr ()" by code_simp
  moreover have "index2 toy_policy ''bootstrap'' ''legacy'' = Inr (sortk (JObj
      [(''allowMissing'', JBool True), (''digest'', JNull), (''runNumber'', JStr ''2''),
       (''failedRunId'', JStr ''40062419690''), (''failedHead'', JStr ''d8407c60f74ceafbcbc2e333198c9fd23ce4e260'')]))"
    by code_simp
  ultimately show ?thesis
    using toy_envelopes by (simp add: channel_check_def toy_tools_def Let_def data_limit_def)
qed


end
