(* ===== verification/BaseImageProofs.thy ===== *)
theory BaseImageProofs
  imports BaseImage BaseRefreshProofs
begin

text \<open>
  Proofs about the image part of \<^verbatim>\<open>ci/base-refresh.py\<close>: the artifact that \<open>collect\<close> writes is
  accepted by \<open>validate\<close>, and an artifact accepted with \<open>execute=True\<close> describes the image that was loaded.
\<close>

section \<open>Values that are only text\<close>

lemma pyeq_texts: "pyeq v (JList (map JStr ss)) \<Longrightarrow> v = JList (map JStr ss)"
proof -
  assume p: "pyeq v (JList (map JStr ss))"
  then have "norm v = JList (map JStr ss)" by (simp add: pyeq_def comp_def)
  then obtain xs where v: "v = JList xs" "map norm xs = map JStr ss"
    by (cases v) (auto simp: eq_commute [of _ "norm_float _"])
  have "map norm xs = map JStr ss \<Longrightarrow> xs = map JStr ss" for xs
  proof (induction ss arbitrary: xs)
    case (Cons s ss)
    then show ?case by (cases xs) auto
  qed simp
  then show ?thesis using v by simp
qed

lemma policy_texts:
  assumes "policy created ctl = Inr p" "index p k = Inr v" "k \<in> {''repository'', ''ref'', ''sourceCommit'', ''sourceTree''}"
  shows "\<exists>s. v = JStr s"
proof -
  have c: "policy_check_value created p = Inr ()" using assms(1) by (auto simp: policy_def rbind_eq_Inr)
  then have "index_is p ''ref'' (JStr ''refs/heads/main'') = Inr True" "index_is p ''repository'' (JStr ''bearyjd/bazzite-tower'') = Inr True"
    "hex_fields 40 p [''sourceCommit'', ''sourceTree''] = Inr ()"
    unfolding policy_check_value_def demand_eq_Inr rbind_eq_Inr [of "hex_fields _ _ _"] all_of_eq_True by auto
  then show ?thesis using assms(2,3) by (auto simp: index_is_True hex_fields_def rbind_eq_Inr hex_value_eq_Inr)
qed

lemma profile_texts:
  assumes "policy created ctl = Inr p" "index p ''profiles'' = Inr ps" "index ps ''legacy'' = Inr pr"
    and "index pr ''imageTag'' = Inr t" "index pr ''channels'' = Inr c"
  shows "t = JStr ''latest'' \<and> c = JList (map JStr [''stable'', ''latest''])"
proof -
  have p: "pyeq ps policy_profiles" "wf_json ps"
    using policy_facts [OF assms(1)] assms(2) wf_json_index by (auto simp: index_is_True)
  have w: "wf_json policy_profiles" "is_dict policy_profiles" by (simp_all add: policy_profiles_def)
  obtain y where y: "index policy_profiles ''legacy'' = Inr y" "pyeq pr y"
    using pyeq_index [OF p(1,2) w(1) assms(3) w(2)] by blast
  then have y': "y = JObj [(''imageTag'', JStr ''latest''), (''channels'', JList (map JStr [''stable'', ''latest'']))]"
    by (simp add: policy_profiles_def)
  have "wf_json pr" using wf_json_index [OF p(2) assms(3)] .
  then have f: "\<exists>z. index y k = Inr z \<and> pyeq x z" if "index pr k = Inr x" for k x
    using pyeq_index [OF y(2) _ _ that] y' by simp
  show ?thesis using f [OF assms(4)] f [OF assms(5)] pyeq_texts [of c "[''stable'', ''latest'']"] y' by auto
qed

lemma evidence_flat:
  assumes "policy created ctl = Inr p" "evidence h env ctl p ''legacy'' base version (image_record d) ss (JStr krn) = Inr e"
  shows "no_float (JObj (dict_set ''installedSha256'' (JStr x) e)) \<and> wf_json (JObj (dict_set ''installedSha256'' (JStr x) e))"
proof -
  obtain profiles repository ref head run_id attempt ps sc st pr tg channels ver where
    i: "index p ''profiles'' = Inr profiles" "index p ''repository'' = Inr repository" "index p ''ref'' = Inr ref"
      "index p ''sourceCommit'' = Inr sc" "index p ''sourceTree'' = Inr st" "index profiles ''legacy'' = Inr pr"
      "index pr ''imageTag'' = Inr tg" "index pr ''channels'' = Inr channels" "base_version version = Inr ver"
    and e: "e = [(''schemaVersion'', JInt 1), (''kind'', JStr ''accepted-source-base-refresh''), (''repository'', repository),
          (''workflow'', JStr WORKFLOW), (''ref'', ref), (''controlCommit'', JStr head),
          (''runId'', JInt run_id), (''runAttempt'', JInt attempt), (''policySha256'', JStr ps),
          (''sourceCommit'', sc), (''sourceTree'', st), (''profile'', JStr ''legacy''),
          (''imageTag'', tg), (''channels'', channels), (''baseImage'', JStr base), (''baseVersion'', version),
          (''kernel'', JStr krn), (''image'', image_record d), (''sbomSha256'', JStr ss)]"
    using assms(2) unfolding evidence_def rbind_eq_Inr demand_eq_Inr by auto
  obtain a b c f where t: "repository = JStr a" "ref = JStr b" "sc = JStr c" "st = JStr f"
    using policy_texts [OF assms(1) i(2)] policy_texts [OF assms(1) i(3)] policy_texts [OF assms(1) i(4)] policy_texts [OF assms(1) i(5)] by auto
  obtain g where v: "version = JStr g" using i(9) by (auto simp: base_version_Inr is_str_iff)
  note c = profile_texts [OF assms(1) i(1,6,7,8)]
  show ?thesis using c unfolding e t v by (simp add: image_record_def)
qed

section \<open>An artifact that was collected is accepted\<close>

lemma utf8_encode_decode: "utf8_decode b = Some s \<Longrightarrow> utf8_encode s = b"
proof (induction b arbitrary: s rule: utf8_decode.induct)
  case (2 c r)
  show ?case
  proof (cases "code c < 128")
    case True
    then show ?thesis using 2 by (auto simp: utf8_encode_def utf8_char_def)
  next
    case False
    then obtain d q t where q: "r = d # q" "code c \<in> {194, 195}" "128 \<le> code d" "code d < 192" "utf8_decode q = Some t"
        "s = char_of (64 * (code c - 192) + (code d - 128)) # t"
      using 2(3) by (auto split: list.splits if_splits)
    let ?n = "64 * (code c - 192) + (code d - 128)"
    have n: "?n < 256" "128 \<le> ?n" using q(2-4) by auto
    have "code (char_of ?n) = ?n" using n(1) by (simp add: code_def)
    moreover obtain k where k: "code d = 128 + k" "k < 64" using q(3,4) le_Suc_ex [of 128 "code d"] by auto
    then have "192 + ?n div 64 = code c" "128 + ?n mod 64 = code d" using q(2) by auto
    moreover have "utf8_char (char_of m) = [c, d]" if "code (char_of m) = m" "128 \<le> m" "192 + m div 64 = code c" "128 + m mod 64 = code d" for m
      using that char_of_code by (simp add: utf8_char_def)
    ultimately have "utf8_char (char_of ?n) = [c, d]" using n(2) by blast
    then show ?thesis using 2(2) q False by (simp add: utf8_encode_def)
  qed
qed (simp add: utf8_encode_def)

lemma pyeq_sortk_plain: "no_float v \<Longrightarrow> pyeq (sortk v) v"
  by (intro pyeq_sortk no_float_has_nan) (simp_all add: no_float_sortk)

lemma sortk_index: "wf_json v \<Longrightarrow> index v k = Inr x \<Longrightarrow> index (sortk v) k = Inr (sortk x)"
  by (auto simp: index_eq_Inr map_of_sort_key_fst map_of_map_prod_id comp_def)

lemma staged_trust_Inr: "staged_trust h im ctl no = Inr r \<Longrightarrow>
    (case no of (name, path) \<Rightarrow> rbind (file_sha h ctl path) (\<lambda>s. Inr (name, JStr s))) = Inr r"
  by (auto simp: staged_trust_def rbind_eq_Inr require_eq_Inr split: prod.splits)

lemma installed_legacy:
  assumes "installed_profile h im ''legacy'' ctl = Inr v"
  shows "\<exists>trusted raw s. v = JObj [(''profile'', JStr ''legacy''), (''trust'', JObj trusted), (''activePolicy'', JStr s),
       (''activePolicySha256'', JStr (sha256 h raw))] \<and> utf8_decode raw = Some s \<and> active_policy ctl raw = Inr () \<and>
     sha_map h ctl TRUST = Inr (JObj trusted)"
proof -
  obtain trusted raw s where v: "rmap (staged_trust h im ctl) TRUST = Inr trusted" "utf8_decode raw = Some s" "active_policy ctl raw = Inr ()"
      "v = JObj [(''profile'', JStr ''legacy''), (''trust'', JObj trusted), (''activePolicy'', JStr s), (''activePolicySha256'', JStr (sha256 h raw))]"
    using assms by (auto simp: installed_profile_def finally_do_def rbind_eq_Inr require_eq_Inr split: sum.splits option.splits)
  have "rmap (\<lambda>(name, path). rbind (file_sha h ctl path) (\<lambda>s. Inr (name, JStr s))) TRUST = Inr trusted"
    using v(1) unfolding rmap_eq_Inr by (rule list_all2_mono) (rule staged_trust_Inr)
  then show ?thesis using v by (auto simp: sha_map_def)
qed


lemma installed_accepted:
  assumes "installed_profile h im ''legacy'' ctl = Inr v"
  shows "no_float v \<and> wf_json v \<and> installed_check h ctl p ''legacy'' (sortk v) = Inr ()"
proof -
  obtain trusted raw s where v: "v = JObj [(''profile'', JStr ''legacy''), (''trust'', JObj trusted), (''activePolicy'', JStr s),
      (''activePolicySha256'', JStr (sha256 h raw))]" "utf8_decode raw = Some s" "active_policy ctl raw = Inr ()" "sha_map h ctl TRUST = Inr (JObj trusted)"
    using installed_legacy [OF assms] by blast
  obtain ks: "map fst trusted = map fst TRUST" and vs: "\<forall>kv\<in>set trusted. \<exists>s. snd kv = JStr s"
  proof -
    have "list_all2 (\<lambda>no r. \<exists>s. r = (fst no, JStr s)) TRUST trusted"
      using v(4) unfolding sha_map_def by (auto simp: rbind_eq_Inr rmap_eq_Inr elim!: list_all2_mono)
    then have "map fst trusted = map fst TRUST \<and> (\<forall>kv\<in>set trusted. \<exists>s. snd kv = JStr s)"
      by (induction rule: list_all2_induct) auto
    then show thesis using that by blast
  qed
  have "distinct (map fst TRUST)" by code_simp
  then have t: "no_float (JObj trusted)" "wf_json (JObj trusted)" using ks vs by (auto simp: list_all_iff)
  then have w: "no_float v" "wf_json v" unfolding v(1) by simp_all
  have i: "index (sortk v) ''profile'' = Inr (JStr ''legacy'')" "index (sortk v) ''trust'' = Inr (sortk (JObj trusted))"
      "index (sortk v) ''activePolicy'' = Inr (JStr s)" "index (sortk v) ''activePolicySha256'' = Inr (JStr (sha256 h raw))"
    using sortk_index [OF w(2)] unfolding v(1) by (simp_all del: sortk.simps) (simp_all add: sortk.simps(1-5))
  have "set_is (sortk v) (installed_keys ''legacy'') = Inr True"
    unfolding v(1) by (auto simp: installed_keys_def)
  moreover have "pyeq (sortk (JObj trusted)) (JObj trusted)"
    using t(1) by (rule pyeq_sortk_plain)
  ultimately have "installed_check h ctl p ''legacy'' (sortk v) = Inr ()"
    using i v(3,4) utf8_encode_decode [OF v(2)] by (simp add: installed_check_def index_is_def all_of.simps)
  then show ?thesis using w by blast
qed

lemma read_canonical:
  assumes "t path = Some (RegFile (canonical h v))" "no_float v" "wf_json v" "length (canonical h v) \<le> data_limit"
  shows "rbind (read t path data_limit) decode = Inr (sortk v)"
  using assms decode_canonical_value [of v h] by (simp add: read_def data_limit_def)

lemma collect_Inr:
  assumes "collect h created env ctl taken im profile base version = Inr data"
  obtains p installed rpms records sc archive d krn e where
    "policy created ctl = Inr p" "installed_profile h im profile ctl = Inr installed" "im_rpms im = Inr rpms" "parse_inventory rpms = Inr records"
    "index p ''sourceCreated'' = Inr (JStr sc)" "im_archive im = Inr archive" "image_identity h archive = Inr (image_record d)"
    "inventory_kernel records = Inr krn"
    "evidence h env ctl p profile base version (image_record d) (sha256 h (canonical h (make_document h records sc))) (JStr krn) = Inr e"
    "data = [(''installed.json'', RegFile (canonical h installed)), (''rpms.tsv'', RegFile rpms),
       (''sbom.json'', RegFile (canonical h (make_document h records sc))), (''image.oci.tar'', RegFile archive),
       (''build-provenance.json'', RegFile (canonical h (JObj (dict_set ''installedSha256'' (JStr (sha256 h (canonical h installed))) e))))]"
proof -
  have js: "json_str v = Inr s \<longleftrightarrow> v = JStr s" for v s by (auto simp: json_str_def split: json.splits)
  obtain p installed rpms records sc archive img krn e where c:
    "policy created ctl = Inr p" "installed_profile h im profile ctl = Inr installed" "im_rpms im = Inr rpms" "parse_inventory rpms = Inr records"
    "index p ''sourceCreated'' = Inr (JStr sc)" "im_archive im = Inr archive" "image_identity h archive = Inr img"
    "inventory_kernel records = Inr krn"
    "evidence h env ctl p profile base version img (sha256 h (canonical h (make_document h records sc))) (JStr krn) = Inr e"
    "data = [(''installed.json'', RegFile (canonical h installed)), (''rpms.tsv'', RegFile rpms),
       (''sbom.json'', RegFile (canonical h (make_document h records sc))), (''image.oci.tar'', RegFile archive),
       (''build-provenance.json'', RegFile (canonical h (JObj (dict_set ''installedSha256'' (JStr (sha256 h (canonical h installed))) e))))]"
    using assms unfolding collect_def Let_def rbind_eq_Inr require_eq_Inr js by blast
  then show ?thesis using that image_identity_image [OF c(7)] by blast
qed

lemma collected_accepted:
  assumes "collect h created env ctl taken im ''legacy'' base version = Inr data"
    and "list_all (\<lambda>(n, f). case f of RegFile b \<Rightarrow> length b \<le> entry_limit n | _ \<Rightarrow> True) data"
  obtains pf hashes d installed rpms archive where
    "validate h created env ctl data ''legacy'' base version = Inr (pf, hashes)" "index2 pf ''image'' ''manifestDigest'' = Inr (JStr d)"
    "map_of data ''image.oci.tar'' = Some (RegFile archive)" "im_archive im = Inr archive"
    "rbind (read (map_of data) ''installed.json'' data_limit) decode = Inr (sortk installed)" "installed_profile h im ''legacy'' ctl = Inr installed"
    "no_float installed" "map_of data ''rpms.tsv'' = Some (RegFile rpms)" "im_rpms im = Inr rpms" "succeeds (parse_inventory rpms)"
proof -
  obtain p installed rpms records sc archive d krn e where
    c: "policy created ctl = Inr p" "installed_profile h im ''legacy'' ctl = Inr installed" "im_rpms im = Inr rpms" "parse_inventory rpms = Inr records"
    "index p ''sourceCreated'' = Inr (JStr sc)" "im_archive im = Inr archive" "image_identity h archive = Inr (image_record d)"
    "inventory_kernel records = Inr krn"
    "evidence h env ctl p ''legacy'' base version (image_record d) (sha256 h (canonical h (make_document h records sc))) (JStr krn) = Inr e"
    "data = [(''installed.json'', RegFile (canonical h installed)), (''rpms.tsv'', RegFile rpms),
       (''sbom.json'', RegFile (canonical h (make_document h records sc))), (''image.oci.tar'', RegFile archive),
       (''build-provenance.json'', RegFile (canonical h (JObj (dict_set ''installedSha256'' (JStr (sha256 h (canonical h installed))) e))))]"
    using assms(1) by (rule collect_Inr)
  let ?doc = "make_document h records sc" and ?prov = "JObj (dict_set ''installedSha256'' (JStr (sha256 h (canonical h installed))) e)"
  note f = evidence_flat [OF c(1,9), of "sha256 h (canonical h installed)"]
  note i = installed_accepted [OF c(2), of p]
  have m: "map_of data ''installed.json'' = Some (RegFile (canonical h installed))" "map_of data ''rpms.tsv'' = Some (RegFile rpms)"
      "map_of data ''sbom.json'' = Some (RegFile (canonical h ?doc))" "map_of data ''image.oci.tar'' = Some (RegFile archive)"
      "map_of data ''build-provenance.json'' = Some (RegFile (canonical h ?prov))"
    unfolding c(10) by simp_all
  have l: "length (canonical h installed) \<le> data_limit" "length (canonical h ?doc) \<le> data_limit" "length (canonical h ?prov) \<le> data_limit"
    using assms(2) unfolding c(10) by (simp_all add: entry_limit_def data_limit_def)
  note r = read_canonical [of "map_of data", OF m(1) conjunct1 [OF i] conjunct1 [OF conjunct2 [OF i]] l(1)]
    read_canonical [of "map_of data", OF m(3) make_document_plain l(2)] read_canonical [of "map_of data", OF m(5) conjunct1 [OF f] conjunct2 [OF f] l(3)]
  have s: "file_sha h (map_of data) ''sbom.json'' = Inr (sha256 h (canonical h ?doc))"
      "file_sha h (map_of data) ''installed.json'' = Inr (sha256 h (canonical h installed))"
      "file_bytes (map_of data) ''rpms.tsv'' = Inr rpms" "file_bytes (map_of data) ''image.oci.tar'' = Inr archive"
    using m by (simp_all add: file_sha_def file_bytes_def)
  have v: "refresh_inventory data = Inr ()"
  proof -
    have "set [''installed.json'', ''rpms.tsv'', ''sbom.json'', ''image.oci.tar'', ''build-provenance.json''] = set REFRESH_FILES" by code_simp
    then have "set (map fst data) = set REFRESH_FILES" unfolding c(10) by simp
    then show ?thesis using assms(2) unfolding refresh_inventory_def by (simp add: c(10))
  qed
  obtain hashes where hs: "sha_map h (map_of data) (map (\<lambda>n. (n, n)) REFRESH_FILES) = Inr hashes"
    using m by (auto simp: sha_map_def REFRESH_FILES_def file_sha_def)
  have "validate h created env ctl data ''legacy'' base version = Inr (?prov, hashes)"
    unfolding validate_def
    by (simp only: c(1,4,5,7,8,9) v s r i f hs rbind_Inr json_str_def json.case pyeq_sortk_plain [OF make_document_plain(1)] pyeq_sortk_plain [OF conjunct1 [OF f]] require_True)
  moreover have "index2 ?prov ''image'' ''manifestDigest'' = Inr (JStr d)"
    using evidence_facts [OF c(9)] by (simp add: index2_def image_record_def)
  ultimately show thesis using that m c(2,3,6) r(1) i c(4) by auto
qed


lemma collected_executed:
  assumes "collect h created env ctl taken im ''legacy'' base version = Inr data"
    and "list_all (\<lambda>(n, f). case f of RegFile b \<Rightarrow> length b \<le> entry_limit n | _ \<Rightarrow> True) data"
  obtains pf hashes d where "validate h created env ctl data ''legacy'' base version = Inr (pf, hashes)" "index2 pf ''image'' ''manifestDigest'' = Inr (JStr d)"
    "\<forall>load out. im_digest im = Inr out \<and> strip out = d \<and> (\<forall>archive. im_archive im = Inr archive \<longrightarrow> load archive = Inr im) \<longrightarrow>
       validate_image h created env ctl load data ''legacy'' base version = Inr (pf, hashes)"
proof -
  obtain pf hashes d installed rpms archive where c:
    "validate h created env ctl data ''legacy'' base version = Inr (pf, hashes)" "index2 pf ''image'' ''manifestDigest'' = Inr (JStr d)"
    "map_of data ''image.oci.tar'' = Some (RegFile archive)" "im_archive im = Inr archive"
    "rbind (read (map_of data) ''installed.json'' data_limit) decode = Inr (sortk installed)" "installed_profile h im ''legacy'' ctl = Inr installed"
    "no_float installed" "map_of data ''rpms.tsv'' = Some (RegFile rpms)" "im_rpms im = Inr rpms" "succeeds (parse_inventory rpms)"
    using assms by (rule collected_accepted)
  have "pyeq installed (sortk installed)" using pyeq_sortk_plain [OF c(7)] pyeq_sym by blast
  then have "validate_image h created env ctl load data ''legacy'' base version = Inr (pf, hashes)"
    if "im_digest im = Inr out" "strip out = d" "\<forall>archive. im_archive im = Inr archive \<longrightarrow> load archive = Inr im" for load out
    using that c by (auto simp: validate_image_def file_bytes_def succeeds_iff)
  then show thesis using that c(1,2) by blast
qed

section \<open>What an accepted image is\<close>

text \<open>The trust files of an image are those of the control checkout.\<close>

definition carries_trust :: "host \<Rightarrow> pod \<Rightarrow> tree \<Rightarrow> bool" where
  "carries_trust h im ctl \<longleftrightarrow> (\<forall>(name, original)\<in>set TRUST. \<exists>location a b. trust_location name = Inr location \<and>
     im_copy im location = Inr (RegFile a) \<and> ctl original = Some (RegFile b) \<and> sha256 h a = sha256 h b)"

lemma staged_trust_file: "staged_trust h im ctl (name, original) = Inr r \<Longrightarrow> \<exists>location a b. trust_location name = Inr location \<and>
     im_copy im location = Inr (RegFile a) \<and> ctl original = Some (RegFile b) \<and> sha256 h a = sha256 h b"
  by (auto simp: staged_trust_def copied_def rbind_eq_Inr require_eq_Inr file_sha_eq_Inr)

lemma installed_profile_Inr:
  assumes "installed_profile h im profile ctl = Inr v"
  shows "carries_trust h im ctl \<and> (\<exists>raw. im_copy im ''/etc/containers/policy.json'' = Inr (RegFile raw) \<and> active_policy ctl raw = Inr ())"
proof -
  obtain trusted raw t where v: "rmap (staged_trust h im ctl) TRUST = Inr trusted" "active_policy ctl raw = Inr ()"
      "copied im ''/etc/containers/policy.json'' = Inr t" "read t tmp_path data_limit = Inr raw"
    using assms by (auto simp: installed_profile_def finally_do_def rbind_eq_Inr require_eq_Inr split: sum.splits option.splits)
  have "\<exists>r. staged_trust h im ctl no = Inr r" if "no \<in> set TRUST" for no
    using rmap_member [OF v(1) that] by blast
  then have "carries_trust h im ctl" unfolding carries_trust_def using staged_trust_file by fastforce
  moreover have "im_copy im ''/etc/containers/policy.json'' = Inr (RegFile raw)" using v(3,4)
    by (auto simp: copied_def rbind_eq_Inr read_eq_Inr)
  ultimately show ?thesis using v(2) by blast
qed

lemma immutable_base_id:
  assumes "immutable_base b p = Inr c"
  shows "c = b"
proof -
  obtain x where "(case x of JStr up \<Rightarrow> require (startswith b (up @ ''@sha256:'')) (refuse ''mutable/wrong upstream base'')
      (rbind (digest (JStr (snd (snd (partition_on CHR ''@'' b))))) (\<lambda>_. Inr b)) | _ \<Rightarrow> Inl TypeError) = Inr c"
    using assms unfolding immutable_base_def rbind_eq_Inr [where m = "index _ _"] by blast
  then show ?thesis by (cases x) (auto simp: require_eq_Inr rbind_eq_Inr)
qed

lemma resolve_Inr:
  assumes "resolve h created ctl inspect = Inr values"
  shows "\<exists>p base version m x y. policy created ctl = Inr p \<and> map_of values ''base'' = Some (JStr base) \<and> map_of values ''version'' = Some version \<and>
     immutable_base base p = Inr base \<and> index p ''minimumBaseVersion'' = Inr m \<and> base_version version = Inr x \<and> base_version m = Inr y \<and> y \<le> x"
proof -
  obtain p b base version m x y where o: "policy created ctl = Inr p" "immutable_base b p = Inr base"
      "base_version version = Inr x" "index p ''minimumBaseVersion'' = Inr m" "base_version m = Inr y" "y \<le> x"
      "map_of values ''base'' = Some (JStr base)" "map_of values ''version'' = Some version"
    using assms unfolding resolve_def rbind_eq_Inr demand_eq_Inr by fastforce
  with immutable_base_id [OF o(2)] show ?thesis by blast
qed


section \<open>Properties\<close>


definition toy_pod :: pod where
  "toy_pod = \<lparr>im_create = Inr (), im_remove = Inr (),
     im_copy = (\<lambda>p. Inr (RegFile (if p = ''/usr/share/bazzite-tower/snitchwatch-bridge-profile'' then ''legacy'' @ [newline]
       else if p \<in> {''/usr/share/bazzite-tower/containers/policy.json'', ''/etc/containers/policy.json''} then canonical toy_host0 toy_trust_policy
       else if p \<in> {''/usr/share/bazzite-tower/containers/registries.d/bazzite-tower.yaml'', ''/etc/containers/registries.d/bazzite-tower.yaml''} then ''docker:''
       else ''key''))),
     im_rpms = Inr (toy_table toy_rpms), im_archive = Inr ''tar'', im_digest = Inr (toy_digest @ [newline])\<rparr>"

definition toy_found :: json where
  "toy_found = JObj [(''profile'', JStr ''legacy''),
     (''trust'', JObj [(''cosign.pub'', JStr (toy_sha ''key'')), (''policy.json'', JStr trust_sha), (''bazzite-tower.yaml'', JStr (toy_sha ''docker:''))]),
     (''activePolicy'', JStr (canonical toy_host0 toy_trust_policy)), (''activePolicySha256'', JStr trust_sha)]"

definition toy_collected :: dir where
  "toy_collected = [(''installed.json'', RegFile (canonical toy_host0 toy_installed)), (''rpms.tsv'', RegFile (toy_table toy_rpms)),
     (''sbom.json'', RegFile (canonical toy_host0 toy_rpm_doc)), (''image.oci.tar'', RegFile ''tar''),
     (''build-provenance.json'', RegFile (canonical toy_host0 (sortk toy_proof)))]"

lemma canonical_sortk: "sortk v = sortk w \<Longrightarrow> canonical h v = canonical h w"
  by (simp add: canonical_def dumps_sorted_def)

lemma toy_found_ok: "installed_profile toy_host toy_pod ''legacy'' refresh_ctl = Inr toy_found"
proof -
  have n: "universal_newlines (''legacy'' @ [newline]) = ''legacy'' @ [newline]" "utf8_decode (''legacy'' @ [newline]) = Some (''legacy'' @ [newline])"
    by code_simp+
  have a: "utf8_decode (canonical toy_host0 toy_trust_policy) = Some (canonical toy_host0 toy_trust_policy)"
    using doc_trust by (intro utf8_decode_ascii ascii_canonical) (simp add: doc_def)
  have l: "length (canonical toy_host0 toy_trust_policy) \<le> data_limit" using doc_trust by (simp add: doc_def)
  show ?thesis using n a l toy_active_policy
    by (simp add: installed_profile_def finally_do_def toy_pod_def copied_def tmp_path_def read_text_def file_bytes_def TRUST_def policy_sources_def
        staged_trust_def trust_location_def file_sha_def refresh_ctl_def policy_path_def active_trust_def index_is_def read_def toy_found_def
        trust_sha_def text_sha_def)
qed

lemma toy_collect: "collect toy_host toy_created refresh_env refresh_ctl False toy_pod ''legacy'' refresh_base (JStr ''44.20260301'') = Inr toy_collected"
proof -
  have s: "sortk toy_found = sortk toy_installed" by (simp add: toy_found_def toy_installed_def)
  note i = canonical_sortk [OF s, of toy_host0]
  have d: "canonical toy_host0 (make_document toy_host toy_rpms ''2026-01-01T00:00:00Z'') = canonical toy_host0 toy_rpm_doc"
    by (rule canonical_sortk) (simp add: toy_rpm_doc_def del: sortk.simps)
  have p: "canonical toy_host0 (sortk toy_proof) = canonical toy_host0 toy_proof" by (rule canonical_sortk) (simp del: sortk.simps)
  have "index toy_policy ''sourceCreated'' = Inr (JStr ''2026-01-01T00:00:00Z'')" by (simp add: toy_policy_def)
  moreover have "inventory_kernel toy_rpms = Inr ''6.17.7-ogc1.1.fc44''" by code_simp
  moreover have "im_rpms toy_pod = Inr (toy_table toy_rpms)" "im_archive toy_pod = Inr ''tar''" by (simp_all add: toy_pod_def)
  ultimately show ?thesis unfolding collect_def Let_def
    by (simp add: toy_policy_ok toy_found_ok toy_rpms_parse toy_image_identity d i p toy_collected_def json_str_def
        toy_evidence_ok [unfolded rpm_doc_sha_def text_sha_def] del: sortk.simps)
      (simp add: p [symmetric] toy_proof_def installed_sha_def text_sha_def del: sortk.simps)
qed

lemma toy_limits: "list_all (\<lambda>(n, f). case f of RegFile b \<Rightarrow> length b \<le> entry_limit n | _ \<Rightarrow> True) toy_collected"
proof -
  have "length (toy_table toy_rpms) \<le> 1000" by code_simp
  then show ?thesis using doc_refresh by (simp add: toy_collected_def entry_limit_def doc_def data_limit_def)
qed

lemma toy_executed:
  "\<exists>pf hashes. validate_image toy_host toy_created refresh_env refresh_ctl (\<lambda>_. Inr toy_pod) toy_collected ''legacy'' refresh_base (JStr ''44.20260301'')
     = Inr (pf, hashes)"
proof -
  obtain pf hashes d where c: "index2 pf ''image'' ''manifestDigest'' = Inr (JStr d)"
    "validate toy_host toy_created refresh_env refresh_ctl toy_collected ''legacy'' refresh_base (JStr ''44.20260301'') = Inr (pf, hashes)"
    "\<forall>load out. im_digest toy_pod = Inr out \<and> strip out = d \<and> (\<forall>archive. im_archive toy_pod = Inr archive \<longrightarrow> load archive = Inr toy_pod) \<longrightarrow>
       validate_image toy_host toy_created refresh_env refresh_ctl load toy_collected ''legacy'' refresh_base (JStr ''44.20260301'') = Inr (pf, hashes)"
    using toy_collect toy_limits by (rule collected_executed)
  obtain img where g: "image_identity toy_host ''tar'' = Inr img" "index pf ''image'' = Inr img"
    using validate_facts [OF c(2)] evidence_facts by (fastforce simp: toy_collected_def file_bytes_def)
  moreover have "img = image_record toy_digest" using g(1) toy_image_identity [of "''tar''"] by simp
  ultimately have "d = toy_digest" using c(1) by (simp add: index2_def image_record_def)
  moreover have "strip (toy_digest @ [newline]) = toy_digest" by code_simp
  ultimately show ?thesis using c(3) [rule_format, of "toy_digest @ [newline]" "\<lambda>_. Inr toy_pod"] by (auto simp: toy_pod_def)
qed




end
