(* ===== verification/BaseDiff.thy ===== *)
theory BaseDiff
  imports BaseRefresh
begin

text \<open>
  \<^verbatim>\<open>ci/base-diff.py\<close> and \<^verbatim>\<open>ci/base-bump-guard.py\<close>: the package diff of two base images and the
  decision whether a base bump may merge by itself.

  A manifest is the text of its file, or \<open>None\<close> when there is no file. The reports contain
  characters above code point 255 (an arrow, a dash): each is the one character \<open>wide\<close> here, which is
  no white space and in no package name. The guard's reading of the report with
  \<open>errors='replace'\<close> maps undecodable bytes to such a character too.
\<close>

section \<open>The manifests\<close>

definition wide :: char where
  "wide = CHR 0xFF"

type_synonym manifest = "(string \<times> string) list"

definition manifest_line :: "string \<Rightarrow> manifest \<Rightarrow> manifest" where
  "manifest_line l out = (let line = strip l in
     if line = [] then out
     else (case partition_on CHR '' '' line of (name, _, evr) \<Rightarrow> dict_set name evr out))"

definition load :: "string option \<Rightarrow> manifest option" where
  "load file = map_option (\<lambda>s. fold manifest_line (split_on newline (universal_newlines s)) []) file"

text \<open>
  \<open>BLAST_RADIUS.match\<close>: the alternatives of the pattern, where \<open>.*\<close> stops at a line end and \<open>$\<close> also
  matches before a final line end.
\<close>

definition radius_name :: "string \<Rightarrow> bool" where
  "radius_name n \<longleftrightarrow> newline \<notin> set n \<and>
     (list_ex (startswith n) [''qemu'', ''libvirt'', ''swtpm'', ''NetworkManager'', ''polkit'', ''systemd'', ''kernel'',
          ''docker-ce'', ''containerd'', ''moby''] \<or>
      n \<in> {''edk2-ovmf'', ''virt-install'', ''virt-manager'', ''virt-viewer'', ''iwd'', ''wpa_supplicant'', ''bootc''})"

definition BLAST_RADIUS :: "string \<Rightarrow> bool" where
  "BLAST_RADIUS n \<longleftrightarrow> radius_name n \<or> (n \<noteq> [] \<and> last n = newline \<and> radius_name (butlast n))"

section \<open>The diff\<close>

text \<open>\<open>d.get(name)\<close> as the conditions read it: an absent name and an empty version are both false.\<close>

definition evr_of :: "manifest \<Rightarrow> string \<Rightarrow> string" where
  "evr_of d name = (case map_of d name of None \<Rightarrow> [] | Some v \<Rightarrow> v)"

datatype change = Changed string string string | Added string string | Removed string string

definition change_of :: "manifest \<Rightarrow> manifest \<Rightarrow> string \<Rightarrow> change list" where
  "change_of old new name = (let o' = evr_of old name; n' = evr_of new name in
     if o' \<noteq> [] \<and> n' \<noteq> [] \<and> o' \<noteq> n' then [Changed name o' n']
     else if n' \<noteq> [] \<and> o' = [] then [Added name n']
     else if o' \<noteq> [] \<and> n' = [] then [Removed name o']
     else [])"

definition names_of :: "manifest \<Rightarrow> manifest \<Rightarrow> string list" where
  "names_of old new = sort (remdups (map fst old @ map fst new))"

definition changes :: "manifest \<Rightarrow> manifest \<Rightarrow> change list" where
  "changes old new = concat (map (change_of old new) (filter BLAST_RADIUS (names_of old new)))"

fun is_changed :: "change \<Rightarrow> bool" where
  "is_changed (Changed _ _ _) = True" | "is_changed _ = False"

fun is_added :: "change \<Rightarrow> bool" where
  "is_added (Added _ _) = True" | "is_added _ = False"

fun is_removed :: "change \<Rightarrow> bool" where
  "is_removed (Removed _ _) = True" | "is_removed _ = False"

fun change_line :: "change \<Rightarrow> string" where
  "change_line (Changed n o' x) = ''- `'' @ n @ ''` '' @ o' @ '' '' @ [wide] @ '' '' @ x"
| "change_line (Added n x) = ''- `'' @ n @ ''` '' @ x"
| "change_line (Removed n o') = ''- `'' @ n @ ''` (was '' @ o' @ '')''"

definition report_section :: "string \<Rightarrow> change list \<Rightarrow> string list" where
  "report_section title cs = (if cs = [] then []
     else [title @ [newline] @ join [newline] (map change_line cs)])"

definition NO_CHANGES :: string where
  "NO_CHANGES = ''_No blast-radius package changes._''"

definition report_of :: "change list \<Rightarrow> string" where
  "report_of cs =
     (let sections = report_section ''**Changed**'' (filter is_changed cs)
         @ report_section ''**Added**'' (filter is_added cs)
         @ report_section ''**Removed**'' (filter is_removed cs) in
      if sections = [] then NO_CHANGES else join [newline, newline] sections)"

definition first_run_line :: string where
  "first_run_line = ''First run '' @ [wide] @ '' recording baseline.'' @ [newline]"

definition EOF_MARK :: string where
  "EOF_MARK = ''__BASE_DIFF_EOF__''"

text \<open>Standard output and the text appended to the job's output file.\<close>

definition diff_main :: "string option \<Rightarrow> string option \<Rightarrow> (string \<times> string) result" where
  "diff_main old_file new_file = (case load new_file of
       None \<Rightarrow> Inl (SystemExit ''new manifest not found'')
     | Some new \<Rightarrow>
       (let first_run = load old_file = None;
            old = (case load old_file of None \<Rightarrow> [] | Some d \<Rightarrow> d);
            cs = changes old new; report = report_of cs; has_changes = (cs \<noteq> [] \<and> \<not> first_run) in
        Inr ((if first_run then first_run_line else []) @ report @ [newline],
             ''changed='' @ (if has_changes then ''true'' else ''false'') @ [newline]
             @ ''report<<'' @ EOF_MARK @ [newline] @ report @ [newline] @ EOF_MARK @ [newline])))"

section \<open>The guard\<close>

text \<open>\<open>NAME_LINE.findall\<close>: a match starts at a line's start and ends at the next backquote, lines aside.\<close>

lemma partition_on_shorter: "length (snd (snd (partition_on d s))) \<le> length s"
  by (induction s) (auto split: prod.splits)

function find_names :: "bool \<Rightarrow> string \<Rightarrow> string list" where
  "find_names bol [] = []"
| "find_names bol (c # r) =
     (let (n, found, rest) = partition_on CHR ''`'' (drop 2 r) in
      if bol \<and> startswith (c # r) ''- `'' \<and> found then n # find_names False rest
      else find_names (c = newline) r)"
  by pat_completeness auto

termination
proof (relation "measure (length \<circ> snd)")
  fix bol c r x n y found rest
  assume "x = partition_on CHR ''`'' (drop 2 r)" "(n, y) = x" "(found, rest) = y"
  then have "rest = snd (snd (partition_on CHR ''`'' (drop 2 r)))" by (metis snd_conv)
  then have "length rest \<le> length (drop 2 r)" using partition_on_shorter by metis
  then show "((False, rest), (bol, c # r)) \<in> measure (length \<circ> snd)" by simp
qed auto

definition name_char :: "char \<Rightarrow> bool" where
  "name_char c \<longleftrightarrow> is_alnum c \<or> c \<in> set ''._+-''"

definition blast_reason :: "string option \<Rightarrow> string option" where
  "blast_reason file = (case file of
       None \<Rightarrow> Some ''blast-radius package diff not computed''
     | Some raw \<Rightarrow>
       (let t = strip (universal_newlines raw) in
        if t = [] then Some ''blast-radius package diff not computed''
        else if t = NO_CHANGES then None
        else
          (let names = map (\<lambda>n. take 40 (filter name_char n)) (find_names True t);
               shown = join '', '' (filter (\<lambda>n. n \<noteq> []) (take 5 names)) in
           Some (''blast-radius packages changed ('' @ nat_str (length names) @ ''): ''
             @ (if shown = [] then ''unparsed'' else shown)
             @ (if 5 < length names then '' and '' @ nat_str (length names - 5) @ '' more'' else [])
             @ ''; human review required''))))"

definition decide :: "(string \<Rightarrow> string result) \<Rightarrow> tree \<Rightarrow> string \<Rightarrow> string \<Rightarrow> string \<Rightarrow> string \<Rightarrow>
    string option \<Rightarrow> (bool \<times> string) result" where
  "decide created ctl cur_version cur_kernel new_version new_kernel blast_report =
     rbind (base_version (JStr cur_version)) (\<lambda>cur_v. rbind (base_version (JStr new_version)) (\<lambda>new_v.
     rbind (kernel_version (JStr cur_kernel)) (\<lambda>cur_k. rbind (kernel_version (JStr new_kernel)) (\<lambda>new_k.
     if cur_k ! 5 \<noteq> new_k ! 5 \<or> cur_v ! 0 \<noteq> new_v ! 0 then
       Inr (False, ''Fedora major changed ('' @ cur_kernel @ '' -> '' @ new_kernel @ ''); human review required'')
     else if new_k < cur_k then Inr (False, ''kernel downgrade ('' @ cur_kernel @ '' -> '' @ new_kernel @ '')'')
     else if new_v < cur_v then
       Inr (False, ''base version downgrade ('' @ cur_version @ '' -> '' @ new_version @ '')'')
     else
       rbind (policy created ctl) (\<lambda>p.
       rbind (index p ''minimumBaseVersion'') (\<lambda>mb. rbind (base_version mb) (\<lambda>min_v.
       if new_v < min_v then
         rbind (json_str mb) (\<lambda>t. Inr (False, ''base '' @ new_version @ '' below policy minimumBaseVersion '' @ t))
       else
         rbind (index p ''minimumKernel'') (\<lambda>mk. rbind (kernel_version mk) (\<lambda>min_k.
         if new_k < min_k then
           rbind (json_str mk) (\<lambda>t. Inr (False, ''kernel '' @ new_kernel @ '' below policy minimumKernel '' @ t))
         else (case blast_reason blast_report of
             Some blast \<Rightarrow> Inr (False, blast)
           | None \<Rightarrow> Inr (True, ''same Fedora major, kernel '' @ cur_kernel @ '' -> '' @ new_kernel
               @ '' (same or newer), policy floor met, no blast-radius package changes'')))))))))))"

text \<open>What the guard prints; \<open>message\<close> is the text of an exception.\<close>

definition guard_main :: "(pyexc \<Rightarrow> string) \<Rightarrow> (string \<Rightarrow> string result) \<Rightarrow> tree \<Rightarrow> string \<Rightarrow> string \<Rightarrow> string \<Rightarrow>
    string \<Rightarrow> string option \<Rightarrow> string" where
  "guard_main message created ctl cur_version cur_kernel new_version new_kernel blast_report =
     (case (case decide created ctl cur_version cur_kernel new_version new_kernel blast_report of
              Inr d \<Rightarrow> d | Inl e \<Rightarrow> (False, ''guard failed closed: '' @ message e)) of
        (ok, reason) \<Rightarrow>
          ''automerge='' @ (if ok then ''true'' else ''false'') @ [newline]
          @ ''reason='' @ join '' '' (words reason) @ [newline])"

section \<open>The diff is exact\<close>

lemma set_changes:
  "c \<in> set (changes old new) \<longleftrightarrow> (\<exists>n. BLAST_RADIUS n \<and> n \<in> fst ` (set old \<union> set new) \<and> c \<in> set (change_of old new n))"
  by (auto simp: changes_def names_of_def)

lemma evr_of_absent: "n \<notin> fst ` set d \<Longrightarrow> evr_of d n = []"
  by (simp add: evr_of_def map_of_eq_None_iff [THEN iffD2])

lemma change_of_present: "c \<in> set (change_of old new n) \<Longrightarrow> n \<in> fst ` (set old \<union> set new)"
proof (rule ccontr)
  assume c: "c \<in> set (change_of old new n)" and n: "n \<notin> fst ` (set old \<union> set new)"
  then have "evr_of old n = []" "evr_of new n = []" by (auto intro!: evr_of_absent)
  with c show False by (simp add: change_of_def Let_def)
qed

lemma changes_iff: "c \<in> set (changes old new) \<longleftrightarrow> (\<exists>n. BLAST_RADIUS n \<and> c \<in> set (change_of old new n))"
  using change_of_present by (auto simp: set_changes)

lemma change_of_Nil: "change_of old new n = [] \<longleftrightarrow> evr_of old n = evr_of new n"
  by (auto simp: change_of_def Let_def)

lemma changes_Nil: "changes old new = [] \<longleftrightarrow> (\<forall>n. BLAST_RADIUS n \<longrightarrow> evr_of old n = evr_of new n)"
proof -
  have "changes old new = [] \<longleftrightarrow> (\<forall>c. c \<notin> set (changes old new))" by (metis list.set_intros(1) neq_Nil_conv empty_iff empty_set)
  also have "\<dots> \<longleftrightarrow> (\<forall>n. BLAST_RADIUS n \<longrightarrow> change_of old new n = [])"
    by (auto simp: changes_iff) (metis list.set_intros(1) neq_Nil_conv)
  finally show ?thesis by (simp add: change_of_Nil)
qed

section \<open>Reports\<close>

lemma report_head:
  assumes "cs \<noteq> []"
  shows "\<exists>r. report_of cs = CHR ''*'' # r"
proof -
  obtain c where c: "c \<in> set cs" using assms by (cases cs) auto
  have "\<exists>c \<in> set cs. is_changed c \<or> is_added c \<or> is_removed c"
    using c by (intro bexI [of _ c]) (cases c; simp_all)
  moreover have "\<exists>r. join sep (((CHR ''*'' # x) # y) :: string list) = CHR ''*'' # r" for sep x y
    by (cases y) simp_all
  ultimately show ?thesis
    by (auto simp: report_of_def report_section_def Let_def filter_empty_conv)
qed

lemma rstrip_Cons: "\<not> is_space c \<Longrightarrow> \<exists>r. rstrip (c # s) = c # r"
proof -
  assume c: "\<not> is_space c"
  have "dropWhile is_space (rev s @ [c]) = dropWhile is_space (rev s) @ [c]"
    using c by (simp add: dropWhile_append)
  then show ?thesis by (simp add: rstrip_def)
qed

lemma strip_head: "\<not> is_space c \<Longrightarrow> \<exists>r. strip (c # s) = c # r"
  using rstrip_Cons [of c s] by (auto simp: strip_def lstrip_def)

lemma universal_newlines_head: "c \<noteq> CHR 0x0D \<Longrightarrow> \<exists>r. universal_newlines (c # s) = c # r"
  by (cases s) simp_all

lemma printed_head:
  assumes "s = c # t" "\<not> is_space c"
  shows "\<exists>r. strip (universal_newlines s) = c # r"
proof -
  have "c \<noteq> CHR 0x0D" using assms(2) by (auto simp: is_space_def code_def)
  then obtain r where "universal_newlines s = c # r" using universal_newlines_head assms(1) by blast
  then show ?thesis using strip_head [OF assms(2)] by auto
qed

lemma NO_CHANGES_read: "strip (universal_newlines (NO_CHANGES @ [newline])) = NO_CHANGES"
  by code_simp

text \<open>The guard calls a printed report empty exactly when the diff found nothing and had a baseline.\<close>

lemma blast_reason_report:
  "blast_reason (Some ((if first then first_run_line else []) @ report_of cs @ [newline])) = None \<longleftrightarrow> cs = [] \<and> \<not> first"
proof -
  let ?out = "(if first then first_run_line else []) @ report_of cs @ [newline]"
  have "strip (universal_newlines ?out) = NO_CHANGES \<longleftrightarrow> cs = [] \<and> \<not> first"
  proof (cases first)
    case True
    then have "\<exists>r. strip (universal_newlines ?out) = CHR ''F'' # r"
      by (intro printed_head) (simp_all add: first_run_line_def is_space_def code_def)
    with True show ?thesis by (auto simp: NO_CHANGES_def)
  next
    case first: False
    show ?thesis
    proof (cases "cs = []")
      case True
      with first NO_CHANGES_read show ?thesis by (simp add: report_of_def report_section_def)
    next
      case False
      then obtain r where "report_of cs = CHR ''*'' # r" using report_head by blast
      with first have "\<exists>r. strip (universal_newlines ?out) = CHR ''*'' # r"
        by (intro printed_head [where t = "r @ [newline]"]) (simp_all add: is_space_def code_def)
      with False show ?thesis by (auto simp: NO_CHANGES_def)
    qed
  qed
  moreover have "NO_CHANGES \<noteq> []" by (simp add: NO_CHANGES_def)
  ultimately show ?thesis by (auto simp: blast_reason_def Let_def)
qed

section \<open>The decision\<close>

lemma decide_True:
  assumes "decide created ctl cv ck nv nk rep = Inr (True, reason)"
  shows "\<exists>a b c d p mb mk. base_version (JStr cv) = Inr a \<and> base_version (JStr nv) = Inr b \<and>
     kernel_version (JStr ck) = Inr c \<and> kernel_version (JStr nk) = Inr d \<and> c ! 5 = d ! 5 \<and> a ! 0 = b ! 0 \<and>
     a \<le> b \<and> c \<le> d \<and> policy created ctl = Inr p \<and> index p ''minimumBaseVersion'' = Inr mb \<and>
     at_least base_version (JStr nv) mb = Inr True \<and> index p ''minimumKernel'' = Inr mk \<and>
     at_least kernel_version (JStr nk) mk = Inr True \<and> blast_reason rep = None"
proof -
  obtain a b c d where v: "base_version (JStr cv) = Inr a" "base_version (JStr nv) = Inr b"
    "kernel_version (JStr ck) = Inr c" "kernel_version (JStr nk) = Inr d"
    using assms by (auto simp: decide_def rbind_eq_Inr)
  have ne: "\<not> (c ! 5 \<noteq> d ! 5 \<or> a ! 0 \<noteq> b ! 0)" "\<not> d < c" "\<not> b < a"
    using assms by (auto simp: decide_def v split: if_splits)
  then obtain p mb mv mk mkv where p: "policy created ctl = Inr p" "index p ''minimumBaseVersion'' = Inr mb"
    "base_version mb = Inr mv" "\<not> b < mv" "index p ''minimumKernel'' = Inr mk" "kernel_version mk = Inr mkv" "\<not> d < mkv"
    "blast_reason rep = None"
    using assms by (auto simp: decide_def v rbind_eq_Inr split: if_splits option.splits)
  then show ?thesis using v ne by (auto simp: at_least_def)
qed

lemma words_acc_no_space: "w' \<in> set (words_acc w s) \<Longrightarrow> c \<in> set w' \<Longrightarrow> c \<in> set w \<or> \<not> is_space c"
  by (induction w s rule: words_acc.induct) (auto split: if_splits)

lemma words_join_no_newline: "newline \<notin> set (join '' '' (words s))"
proof -
  have "set (join sep ss) \<subseteq> set sep \<union> \<Union> (set ` set ss)" for sep and ss :: "string list"
    by (induction sep ss rule: join.induct) auto
  moreover have "newline \<notin> set w" if "w \<in> set (words s)" for w
    using that words_acc_no_space [of w "[]" s newline] by (auto simp: words_def is_space_def newline_def code_def)
  moreover have "newline \<notin> set '' ''" by (simp add: newline_def)
  ultimately show ?thesis by blast
qed

end
