(* ===== verification/BaseDiffProofs.thy ===== *)
theory BaseDiffProofs
  imports BaseDiff BaseRefreshProofs
begin

text \<open>The properties of the package diff and of the auto-merge guard, alone and together.\<close>

section \<open>Properties\<close>

text \<open>
  The diff lists exactly the changes inside the blast radius. A package of the radius whose version
  differs is listed once under its kind (changed, added, removed) with the versions of the two
  manifests, no other line is listed, and the report is the \<open>no changes\<close> text only if nothing is.
\<close>
theorem diff_exact:
  "(Changed n a b \<in> set (changes old new) \<longleftrightarrow> BLAST_RADIUS n \<and> evr_of old n = a \<and> evr_of new n = b \<and> a \<noteq> [] \<and> b \<noteq> [] \<and> a \<noteq> b) \<and>
   (Added n b \<in> set (changes old new) \<longleftrightarrow> BLAST_RADIUS n \<and> evr_of old n = [] \<and> evr_of new n = b \<and> b \<noteq> []) \<and>
   (Removed n a \<in> set (changes old new) \<longleftrightarrow> BLAST_RADIUS n \<and> evr_of old n = a \<and> evr_of new n = [] \<and> a \<noteq> []) \<and>
   (report_of (changes old new) = NO_CHANGES \<longleftrightarrow> changes old new = [])"
proof -
  have "report_of cs = NO_CHANGES \<longleftrightarrow> cs = []" for cs
  proof (cases "cs = []")
    case False
    then show ?thesis using report_head [of cs] by (auto simp: NO_CHANGES_def)
  qed (simp add: report_of_def report_section_def)
  then show ?thesis
    by (auto simp: changes_iff change_of_def Let_def split: if_splits)
qed


definition toy_old :: string where
  "toy_old = ''bash 5.3-1.x86_64'' @ [newline] @ ''kernel 6.17.7-ogc1.1.fc44.x86_64'' @ [newline]"

definition toy_new :: string where
  "toy_new = ''bash 5.3-2.x86_64'' @ [newline] @ ''kernel 6.17.7-ogc1.1.fc44.x86_64'' @ [newline]"

lemma toy_guard:
  "decide toy_created refresh_ctl ''44.20260201'' ''6.17.7-ogc1.1.fc44'' ''44.20260301'' ''6.17.7-ogc1.1.fc44''
     (Some (NO_CHANGES @ [newline])) = Inr (True, ''same Fedora major, kernel 6.17.7-ogc1.1.fc44 -> 6.17.7-ogc1.1.fc44 (same or newer), policy floor met, no blast-radius package changes'')"
proof -
  have v: "base_version (JStr ''44.20260301'') = Inr [44, 20260301]" "base_version (JStr ''44.20260201'') = Inr [44, 20260201]"
    "base_version (JStr ''44.20260101'') = Inr [44, 20260101]"
    "kernel_version (JStr ''6.17.7-ogc1.1.fc44'') = Inr [6, 17, 7, 1, 1, 44]"
    "kernel_version (JStr ''6.17.0-ogc1.1.fc44'') = Inr [6, 17, 0, 1, 1, 44]" "blast_reason (Some (NO_CHANGES @ [newline])) = None"
    by code_simp+
  have "index toy_policy ''minimumBaseVersion'' = Inr (JStr ''44.20260101'')"
    "index toy_policy ''minimumKernel'' = Inr (JStr ''6.17.0-ogc1.1.fc44'')" by (simp_all add: toy_policy_def)
  then show ?thesis using v toy_policy_ok by (simp add: decide_def)
qed


text \<open>
  C14: the guard fails closed and its output is two lines. Whatever the arguments, it prints
  \<open>automerge=\<close> and \<open>reason=\<close> on one line each; an error on the way (a version that does not parse, a
  policy that is refused) and a report that is missing or empty both print \<open>false\<close>.
\<close>
theorem guard_fails_closed:
  "(\<exists>b r. split_on newline (guard_main message created ctl cv ck nv nk rep) = [''automerge='' @ b, ''reason='' @ r, []] \<and>
      (b = ''true'' \<longleftrightarrow> (\<exists>reason. decide created ctl cv ck nv nk rep = Inr (True, reason))) \<and> (b = ''true'' \<or> b = ''false'')) \<and>
   (rep = None \<or> rep = Some [] \<longrightarrow> (\<forall>reason. decide created ctl cv ck nv nk rep \<noteq> Inr (True, reason)))"
proof -
  obtain ok reason where d: "(case decide created ctl cv ck nv nk rep of Inr d \<Rightarrow> d
      | Inl e \<Rightarrow> (False, ''guard failed closed: '' @ message e)) = (ok, reason)" by force
  let ?b = "if ok then ''true'' else ''false''" and ?r = "join '' '' (words reason)"
  have "newline \<notin> set (''automerge='' @ ?b)" by (simp add: newline_def)
  moreover have "newline \<notin> set (''reason='' @ ?r)" using words_join_no_newline [of reason] by (simp add: newline_def)
  moreover have "split_on newline (x @ newline # y @ [newline]) = [x, y, []]" if "newline \<notin> set x" "newline \<notin> set y" for x y
    using that by (simp add: split_on_append)
  ultimately have "split_on newline ((''automerge='' @ ?b) @ newline # (''reason='' @ ?r) @ [newline]) = [''automerge='' @ ?b, ''reason='' @ ?r, []]"
    by blast
  then have "split_on newline (guard_main message created ctl cv ck nv nk rep) = [''automerge='' @ ?b, ''reason='' @ ?r, []]"
    by (simp add: guard_main_def d)
  moreover have "ok \<longleftrightarrow> (\<exists>reason. decide created ctl cv ck nv nk rep = Inr (True, reason))"
    using d by (auto split: sum.splits)
  moreover have "blast_reason None \<noteq> None" "blast_reason (Some []) \<noteq> None"
    by (simp_all add: blast_reason_def strip_def lstrip_def rstrip_def)
  then have "rep = None \<or> rep = Some [] \<longrightarrow> (\<forall>reason. decide created ctl cv ck nv nk rep \<noteq> Inr (True, reason))"
    using decide_True [of created ctl cv ck nv nk rep] by (cases rep) auto
  ultimately show ?thesis by (intro conjI exI [of _ ?b] exI [of _ ?r]) auto
qed

lemma guard_fails_closed_witness:
  "\<forall>reason. decide toy_created refresh_ctl ''x'' ''y'' ''z'' ''w'' None \<noteq> Inr (True, reason)"
  using guard_fails_closed [where rep = None] by blast

text \<open>
  A manifest remembers one version per package name. When a name has two lines (the two architectures
  of a multilib package), a change of the first one leaves the loaded manifest, hence the diff and the
  guard's decision, as they were.
\<close>
theorem first_architecture_ignored:
  assumes "name \<noteq> []" "\<forall>c\<in>set (name @ v1 @ v1' @ v2). \<not> is_space c" "v1 \<noteq> []" "v1' \<noteq> []" "v2 \<noteq> []"
  shows "fold manifest_line [name @ '' '' @ v1, name @ '' '' @ v2] d = fold manifest_line [name @ '' '' @ v1', name @ '' '' @ v2] d"
proof -
  have m: "manifest_line (name @ '' '' @ v) d = dict_set name v d" if "v \<noteq> []" "\<forall>c\<in>set v. \<not> is_space c" for v d
  proof -
    have "strip (name @ '' '' @ v) = name @ '' '' @ v"
      using assms(1,2) that by (intro strip_fixed) (auto simp: hd_append last_append)
    moreover have "CHR '' '' \<notin> set name" using assms(2) space_chars(1) by (metis Un_iff set_append)
    ultimately show ?thesis using partition_on_append [of "CHR '' ''" name v] by (simp add: manifest_line_def)
  qed
  have "dict_set name v2 (dict_set name v d) = dict_set name v2 d" for v
    by (induction d) auto
  then show ?thesis using assms m by simp
qed

end
