(* ===== verification/TokenReport.thy ===== *)
theory TokenReport
  imports JsonRoundtrip "HOL-Library.Product_Lexorder"
begin

text \<open>
  \<^verbatim>\<open>scripts/agent-token-report.py\<close>: usage totals from the logs of two agents.

  A log file is its path relative to the log directory and its text, decoded as the source decodes
  it, or no text when the file cannot be read. The Claude logs repeat a message's counters in every
  record of a streamed answer, so they are merged by message; the Codex counters accumulate, so
  their increments are summed. \<open>isodate v\<close> stands for
  \<open>date.fromisoformat(str(v)[:10]).isoformat()\<close>, with no value for a \<open>ValueError\<close>, and \<open>f1\<close>,
  \<open>f0\<close> for the formats \<open>.1f\<close> and \<open>.0f\<close>. The cost index and the percentages are exact rationals.
\<close>

section \<open>Usage\<close>

datatype usage = Usage (u_input: int) (u_cache_write: int) (u_cache_read: int) (u_output: int)
  (u_reasoning: int) (u_total: int) (u_turns: int) (u_large: int)

text \<open>\<open>Usage()\<close> and \<open>Usage.__add__\<close>, which are the zero and the sum of the type.\<close>

definition no_usage :: usage where
  "no_usage = Usage 0 0 0 0 0 0 0 0"

definition add_usage :: "usage \<Rightarrow> usage \<Rightarrow> usage" where
  "add_usage u v = Usage (u_input u + u_input v) (u_cache_write u + u_cache_write v)
     (u_cache_read u + u_cache_read v) (u_output u + u_output v) (u_reasoning u + u_reasoning v)
     (u_total u + u_total v) (u_turns u + u_turns v) (u_large u + u_large v)"

instantiation usage :: comm_monoid_add
begin

definition zero_usage :: usage where
  "zero_usage = no_usage"

definition plus_usage :: "usage \<Rightarrow> usage \<Rightarrow> usage" where
  "plus_usage = add_usage"

instance
  by standard (simp_all add: plus_usage_def zero_usage_def add_usage_def no_usage_def usage.expand)

end

definition cost_index :: "usage \<Rightarrow> rat" where
  "cost_index u = of_int (u_input u) + 5 / 4 * of_int (u_cache_write u) + 1 / 10 * of_int (u_cache_read u)
     + 5 * of_int (u_output u)"

record sample =
  s_day :: string
  s_project :: string
  s_kind :: string
  s_model :: string
  s_usage :: usage

section \<open>Reading the logs\<close>

text \<open>The value of a key that may be absent: \<open>d.get(k)\<close> of a \<open>dict\<close> is \<open>None\<close> then.\<close>

definition field :: "(string \<times> json) list \<Rightarrow> string \<Rightarrow> json" where
  "field d k = (case map_of d k of None \<Rightarrow> JNull | Some v \<Rightarrow> v)"

definition count_value :: "json \<Rightarrow> int" where
  "count_value v = (case v of JInt i \<Rightarrow> if 0 \<le> i then i else 0 | _ \<Rightarrow> 0)"

definition mapping :: "json \<Rightarrow> (string \<times> json) list" where
  "mapping v = (case v of JObj d \<Rightarrow> d | _ \<Rightarrow> [])"

definition day_of :: "(json \<Rightarrow> string option) \<Rightarrow> json \<Rightarrow> string" where
  "day_of isodate v = (case isodate v of None \<Rightarrow> [] | Some d \<Rightarrow> d)"

definition label :: "json \<Rightarrow> string" where
  "label v = (case v of JStr s \<Rightarrow> if s \<noteq> [] then s else ''unknown'' | _ \<Rightarrow> ''unknown'')"

record errors =
  malformed_records :: nat
  unreadable_files :: nat

type_synonym entry = "(string \<times> json) list"

text \<open>One line of a log: a record, or one more malformed record.\<close>

definition records_line :: "string \<Rightarrow> entry list \<times> errors \<Rightarrow> entry list \<times> errors" where
  "records_line l st = (case st of (rs, e) \<Rightarrow> (case loads l of
       Some (JObj d) \<Rightarrow> (rs @ [d], e)
     | _ \<Rightarrow> (rs, e\<lparr>malformed_records := malformed_records e + 1\<rparr>)))"

definition records :: "string option \<Rightarrow> errors \<Rightarrow> entry list \<times> errors" where
  "records text e = (case text of
       None \<Rightarrow> ([], e\<lparr>unreadable_files := unreadable_files e + 1\<rparr>)
     | Some s \<Rightarrow> fold records_line (text_lines s) ([], e))"

definition list_items :: "json \<Rightarrow> json list" where
  "list_items v = (case v of JList xs \<Rightarrow> xs | _ \<Rightarrow> [])"

definition text_chars :: "json \<Rightarrow> nat" where
  "text_chars part = (case part of JObj d \<Rightarrow> (case field d ''text'' of JStr s \<Rightarrow> length s | _ \<Rightarrow> 0) | _ \<Rightarrow> 0)"

definition content_chars :: "json \<Rightarrow> nat" where
  "content_chars v = (case v of JStr s \<Rightarrow> length s | JList xs \<Rightarrow> sum_list (map text_chars xs) | _ \<Rightarrow> 0)"

record log_file =
  lf_parts :: "string list"
  lf_path :: string
  lf_text :: "string option"

section \<open>Claude\<close>

record claude_state =
  c_messages :: "(string \<times> sample) list"
  c_tools :: "(string \<times> nat \<times> nat) list"
  c_seen :: "(string \<times> string \<times> nat) list"
  c_files :: nat
  c_errors :: errors

definition is_part :: "string \<Rightarrow> json \<Rightarrow> bool" where
  "is_part t part \<longleftrightarrow> (case part of JObj d \<Rightarrow> field d ''type'' = JStr t | _ \<Rightarrow> False)"

definition tool_name :: "json \<Rightarrow> (string \<times> string) list \<Rightarrow> (string \<times> string) list" where
  "tool_name part names = (if is_part ''tool_use'' part
     then dict_set (label (field (mapping part) ''id'')) (label (field (mapping part) ''name'')) names else names)"

text \<open>The four counters of an assistant record, and the largest ones seen for its message so far.\<close>

definition numbers_of :: "entry \<Rightarrow> int list" where
  "numbers_of usage = map (\<lambda>k. count_value (field usage k))
     [''input_tokens'', ''cache_creation_input_tokens'', ''cache_read_input_tokens'', ''output_tokens'']"

definition usage_numbers :: "usage \<Rightarrow> int list" where
  "usage_numbers u = [u_input u, u_cache_write u, u_cache_read u, u_output u]"

definition merge_numbers :: "int list \<Rightarrow> sample option \<Rightarrow> int list" where
  "merge_numbers ns previous = (case previous of None \<Rightarrow> ns
     | Some s \<Rightarrow> map (\<lambda>(a, b). max a b) (zip ns (usage_numbers (s_usage s))))"

definition claude_usage :: "int list \<Rightarrow> usage" where
  "claude_usage ns = Usage (ns ! 0) (ns ! 1) (ns ! 2) (ns ! 3) 0 (sum_list ns) 1
     (if 400000 \<le> sum_list (take 3 ns) then 1 else 0)"

definition message_step :: "string \<Rightarrow> sample \<Rightarrow> int list \<Rightarrow> (string \<times> sample) list \<Rightarrow> (string \<times> sample) list" where
  "message_step mid fresh ns messages =
     (let previous = map_of messages mid; current = claude_usage (merge_numbers ns previous) in
      dict_set mid (case previous of None \<Rightarrow> fresh\<lparr>s_usage := current\<rparr> | Some s \<Rightarrow> s\<lparr>s_usage := current\<rparr>) messages)"

definition result_step :: "string \<Rightarrow> (string \<times> string) list \<Rightarrow> nat \<times> json \<Rightarrow> claude_state \<Rightarrow> claude_state" where
  "result_step owner names ip st = (case ip of (i, part) \<Rightarrow>
     if \<not> is_part ''tool_result'' part then st
     else (let tid = label (field (mapping part) ''tool_use_id''); key = (owner, tid, i) in
       if key \<in> set (c_seen st) then st
       else (let name = (case map_of names tid of None \<Rightarrow> ''unknown'' | Some n \<Rightarrow> n);
                 (calls, chars) = (case map_of (c_tools st) name of None \<Rightarrow> (0, 0) | Some cc \<Rightarrow> cc) in
         st\<lparr>c_seen := key # c_seen st,
            c_tools := dict_set name (calls + 1, chars + content_chars (field (mapping part) ''content'')) (c_tools st)\<rparr>)))"

definition included :: "string \<Rightarrow> string \<Rightarrow> bool" where
  "included since day \<longleftrightarrow> day \<noteq> [] \<and> since \<le> day"

definition claude_record :: "(json \<Rightarrow> string option) \<Rightarrow> string \<Rightarrow> string \<Rightarrow> string \<Rightarrow> string \<Rightarrow> entry \<Rightarrow>
    (string \<times> string) list \<times> claude_state \<Rightarrow> (string \<times> string) list \<times> claude_state" where
  "claude_record isodate since project kind path record nst = (case nst of (names, st) \<Rightarrow>
     (let message = mapping (field record ''message''); content = field message ''content'';
          day = day_of isodate (field record ''timestamp'') in
      if field record ''type'' = JStr ''assistant'' then
        (let names' = fold tool_name (list_items content) names;
             usage = mapping (field message ''usage'') in
         case field message ''id'' of
           JStr mid \<Rightarrow>
             if \<not> included since day \<or> usage = [] \<or> mid = [] then (names', st)
             else (names', st\<lparr>c_messages := message_step mid
               \<lparr>s_day = day, s_project = project, s_kind = kind, s_model = label (field message ''model''), s_usage = 0\<rparr>
               (numbers_of usage) (c_messages st)\<rparr>)
         | _ \<Rightarrow> (names', st))
      else if field record ''type'' = JStr ''user'' \<and> included since day then
        (let uuid = field record ''uuid''; owner = (if truthy uuid then label uuid else path) in
         (names, fold (result_step owner names) (enumerate 0 (list_items content)) st))
      else (names, st)))"

definition claude_file :: "(json \<Rightarrow> string option) \<Rightarrow> string \<Rightarrow> string \<Rightarrow> log_file \<Rightarrow> claude_state \<Rightarrow> claude_state" where
  "claude_file isodate since project_filter f st =
     (let project = hd (lf_parts f) in
      if \<not> contains project_filter project then st
      else (let kind = (if ''subagents'' \<in> set (lf_parts f) then ''subagent'' else ''main'');
                (rs, e) = records (lf_text f) (c_errors st) in
        snd (fold (claude_record isodate since project kind (lf_path f)) rs
          ([], st\<lparr>c_files := c_files st + 1, c_errors := e\<rparr>))))"

definition claude :: "(json \<Rightarrow> string option) \<Rightarrow> log_file list \<Rightarrow> string \<Rightarrow> string \<Rightarrow> errors \<Rightarrow> claude_state" where
  "claude isodate files since project_filter e =
     fold (claude_file isodate since project_filter) (sort_key lf_parts files)
       \<lparr>c_messages = [], c_tools = [], c_seen = [], c_files = 0, c_errors = e\<rparr>"

definition tool_rows :: "(string \<times> nat \<times> nat) list \<Rightarrow> (string \<times> nat \<times> nat) list" where
  "tool_rows tools = sort_key (\<lambda>(name, calls, chars). (- int chars, name)) tools"

section \<open>Codex\<close>

record rate =
  r_percent :: json
  r_timestamp :: string

record codex_state =
  x_samples :: "sample list"
  x_rates :: "((string \<times> string) \<times> rate) list"
  x_files :: nat
  x_errors :: errors

text \<open>The variables of the loop over one file.\<close>

record codex_vars =
  v_project :: string
  v_kind :: string
  v_model :: string
  v_previous :: "int list"
  v_selected :: bool

definition codex_keys :: "string list" where
  "codex_keys = [''input_tokens'', ''cached_input_tokens'', ''output_tokens'', ''reasoning_output_tokens'', ''total_tokens'']"

definition valid_percent :: "json \<Rightarrow> bool" where
  "valid_percent v = (case v of JInt i \<Rightarrow> 0 \<le> i \<and> i \<le> 100
     | JFloat (Finite q) \<Rightarrow> 0 \<le> q \<and> q \<le> 100 | _ \<Rightarrow> False)"

definition rate_step :: "entry \<Rightarrow> string \<Rightarrow> string \<Rightarrow> ((string \<times> string) \<times> rate) list \<Rightarrow> ((string \<times> string) \<times> rate) list" where
  "rate_step limits timestamp window rates =
     (let percent = field (mapping (field limits window)) ''used_percent'';
          key = (label (field limits ''limit_id''), window) in
      if valid_percent percent \<and> (case map_of rates key of None \<Rightarrow> True | Some r \<Rightarrow> r_timestamp r < timestamp)
      then dict_set key \<lparr>r_percent = percent, r_timestamp = timestamp\<rparr> rates else rates)"

definition codex_delta :: "int list \<Rightarrow> int list \<Rightarrow> int list" where
  "codex_delta previous current =
     (if last current < last previous then current
      else map (\<lambda>(a, b). max 0 (a - b)) (zip current previous))"

definition codex_usage :: "int list \<Rightarrow> int \<Rightarrow> usage" where
  "codex_usage d context_size = Usage (d ! 0) 0 (d ! 1) (d ! 2) (d ! 3) (d ! 4) 1 (if 400000 \<le> context_size then 1 else 0)"

definition codex_meta :: "entry \<Rightarrow> codex_vars \<Rightarrow> codex_vars" where
  "codex_meta record v = (let payload = mapping (field record ''payload'') in
     if field record ''type'' = JStr ''session_meta'' then
       v\<lparr>v_project := label (field payload ''cwd''),
         v_kind := (case field payload ''source'' of JObj s \<Rightarrow>
           if ''subagent'' \<in> set (map fst s) then ''subagent'' else ''main'' | _ \<Rightarrow> ''main'')\<rparr>
     else if field record ''type'' = JStr ''turn_context'' then v\<lparr>v_model := label (field payload ''model'')\<rparr>
     else v)"

definition codex_count :: "(json \<Rightarrow> string option) \<Rightarrow> string \<Rightarrow> string \<Rightarrow> entry \<Rightarrow> codex_vars \<Rightarrow> codex_state \<Rightarrow>
    codex_vars \<times> codex_state" where
  "codex_count isodate since project_filter record v st =
     (let payload = mapping (field record ''payload''); timestamp = label (field record ''timestamp'');
          day = day_of isodate (JStr timestamp);
          inc = (included since day \<and> contains project_filter (v_project v));
          limits = mapping (field payload ''rate_limits'');
          v1 = (if inc then v\<lparr>v_selected := True\<rparr> else v);
          st1 = (if inc then st\<lparr>x_rates := fold (rate_step limits timestamp) [''primary'', ''secondary''] (x_rates st)\<rparr> else st);
          info = mapping (field payload ''info''); tot = mapping (field info ''total_token_usage'') in
      if tot = [] then (v1, st1)
      else (let current = map (\<lambda>k. count_value (field tot k)) codex_keys; delta = codex_delta (v_previous v) current;
                ctx = count_value (field (mapping (field info ''last_token_usage'')) ''input_tokens'') in
        (v1\<lparr>v_previous := current\<rparr>,
         if inc \<and> list_ex (\<lambda>d. d \<noteq> 0) delta
         then st1\<lparr>x_samples := x_samples st1 @ [\<lparr>s_day = day, s_project = v_project v, s_kind = v_kind v,
                s_model = v_model v, s_usage = codex_usage delta ctx\<rparr>]\<rparr>
         else st1)))"

definition codex_record :: "(json \<Rightarrow> string option) \<Rightarrow> string \<Rightarrow> string \<Rightarrow> entry \<Rightarrow> codex_vars \<times> codex_state \<Rightarrow>
    codex_vars \<times> codex_state" where
  "codex_record isodate since project_filter record vst = (case vst of (v, st) \<Rightarrow>
     (let v' = codex_meta record v in
      if field (mapping (field record ''payload'')) ''type'' \<noteq> JStr ''token_count'' then (v', st)
      else codex_count isodate since project_filter record v' st))"

definition codex_vars0 :: codex_vars where
  "codex_vars0 = \<lparr>v_project = ''unknown'', v_kind = ''main'', v_model = ''unknown'',
     v_previous = replicate (length codex_keys) 0, v_selected = False\<rparr>"

definition codex_file :: "(json \<Rightarrow> string option) \<Rightarrow> string \<Rightarrow> string \<Rightarrow> log_file \<Rightarrow> codex_state \<Rightarrow> codex_state" where
  "codex_file isodate since project_filter f st =
     (let (rs, e) = records (lf_text f) (x_errors st);
          (v, st') = fold (codex_record isodate since project_filter) rs (codex_vars0, st\<lparr>x_errors := e\<rparr>) in
      st'\<lparr>x_files := x_files st' + (if v_selected v then 1 else 0)\<rparr>)"

definition codex :: "(json \<Rightarrow> string option) \<Rightarrow> log_file list \<Rightarrow> string \<Rightarrow> string \<Rightarrow> errors \<Rightarrow> codex_state" where
  "codex isodate files since project_filter e =
     fold (codex_file isodate since project_filter) (sort_key lf_parts files)
       \<lparr>x_samples = [], x_rates = [], x_files = 0, x_errors = e\<rparr>"

section \<open>The report\<close>

datatype dimension = Day | Project | Kind | Model

definition dimensions :: "dimension list" where
  "dimensions = [Day, Project, Kind, Model]"

fun dim_name :: "dimension \<Rightarrow> string" where
  "dim_name Day = ''day''" | "dim_name Project = ''project''" | "dim_name Kind = ''kind''" | "dim_name Model = ''model''"

fun dim_key :: "dimension \<Rightarrow> sample \<Rightarrow> string" where
  "dim_key Day s = s_day s" | "dim_key Project s = s_project s" | "dim_key Kind s = s_kind s" | "dim_key Model s = s_model s"

definition share_percent :: "usage \<Rightarrow> rat" where
  "share_percent u = (if u_turns u \<noteq> 0 then 100 * of_int (u_large u) / of_int (u_turns u) else 0)"

definition usage_values :: "bool \<Rightarrow> usage \<Rightarrow> (string \<times> json) list" where
  "usage_values weighted u =
     [(''input'', JInt (u_input u)), (''cache_write'', JInt (u_cache_write u)), (''cache_read'', JInt (u_cache_read u)),
      (''output'', JInt (u_output u)), (''reasoning'', JInt (u_reasoning u)), (''total'', JInt (u_total u)),
      (''turns'', JInt (u_turns u)), (''large_context_turns'', JInt (u_large u))]
     @ (if weighted then [(''cost_index'', JFloat (Finite (cost_index u)))] else [])
     @ [(''large_context_share_percent'',
         if u_turns u \<noteq> 0 then JFloat (Finite (share_percent u)) else JInt 0)]"

definition group_add :: "string \<Rightarrow> usage \<Rightarrow> (string \<times> usage) list \<Rightarrow> (string \<times> usage) list" where
  "group_add k u g = dict_set k ((case map_of g k of None \<Rightarrow> 0 | Some v \<Rightarrow> v) + u) g"

type_synonym groups = "dimension \<Rightarrow> (string \<times> usage) list"

definition summary_step :: "sample \<Rightarrow> usage \<times> groups \<Rightarrow> usage \<times> groups" where
  "summary_step s tg = (fst tg + s_usage s, \<lambda>dm. group_add (dim_key dm s) (s_usage s) (snd tg dm))"

text \<open>The total and, for each dimension, the usage of each key in the order of the keys.\<close>

definition summarize :: "sample list \<Rightarrow> usage \<times> groups" where
  "summarize samples = (let tg = fold summary_step samples (0, \<lambda>_. []) in
     (fst tg, \<lambda>dm. sort_key fst (snd tg dm)))"

definition summary_json :: "bool \<Rightarrow> usage \<times> groups \<Rightarrow> (string \<times> json) list" where
  "summary_json weighted tg = (''total'', JObj (usage_values weighted (fst tg)))
     # map (\<lambda>dm. (''by_'' @ dim_name dm,
         JList (map (\<lambda>(k, u). JObj ((dim_name dm, JStr k) # usage_values weighted u)) (snd tg dm)))) dimensions"

record report =
  rp_since :: string
  rp_project :: string
  rp_claude :: "sample list"
  rp_claude_files :: nat
  rp_tools :: "(string \<times> nat \<times> nat) list"
  rp_codex :: "sample list"
  rp_codex_files :: nat
  rp_rates :: "((string \<times> string) \<times> rate) list"
  rp_errors :: errors

definition report :: "(json \<Rightarrow> string option) \<Rightarrow> log_file list \<Rightarrow> log_file list \<Rightarrow> string \<Rightarrow> string \<Rightarrow> report" where
  "report isodate claude_files codex_files since project =
     (let c = claude isodate claude_files since project \<lparr>malformed_records = 0, unreadable_files = 0\<rparr>;
          x = codex isodate codex_files since project (c_errors c) in
      \<lparr>rp_since = since, rp_project = project, rp_claude = map snd (c_messages c), rp_claude_files = c_files c,
       rp_tools = tool_rows (c_tools c), rp_codex = x_samples x, rp_codex_files = x_files x,
       rp_rates = sort_key fst (x_rates x), rp_errors = x_errors x\<rparr>)"

definition tool_json :: "string \<times> nat \<times> nat \<Rightarrow> json" where
  "tool_json row = (case row of (name, calls, chars) \<Rightarrow>
     JObj [(''tool'', JStr name), (''calls'', JInt (int calls)), (''chars'', JInt (int chars)),
           (''approx_tokens'', JFloat (Finite (of_nat chars / 4)))])"

definition rate_json :: "(string \<times> string) \<times> rate \<Rightarrow> json" where
  "rate_json kr = (case kr of ((limit_id, window), r) \<Rightarrow>
     JObj [(''limit_id'', JStr limit_id), (''window'', JStr window), (''used_percent'', r_percent r),
           (''timestamp'', JStr (r_timestamp r))])"

definition report_notes :: string where
  "report_notes = ''Claude index weights 1/1.25/0.1/5; relative index, not dollars. Codex input includes cached input; reasoning is part of output. Tool tokens approximate chars/4.''"

definition report_json :: "report \<Rightarrow> json" where
  "report_json r = JObj [(''since'', JStr (rp_since r)), (''project_filter'', JStr (rp_project r)), (''notes'', JStr report_notes),
     (''claude'', JObj (summary_json True (summarize (rp_claude r))
        @ [(''files'', JInt (int (rp_claude_files r))), (''tool_results'', JList (map tool_json (rp_tools r)))])),
     (''codex'', JObj (summary_json False (summarize (rp_codex r))
        @ [(''files'', JInt (int (rp_codex_files r))), (''rate_limits'', JList (map rate_json (rp_rates r)))])),
     (''errors'', JObj [(''malformed_records'', JInt (int (malformed_records (rp_errors r)))),
        (''unreadable_files'', JInt (int (unreadable_files (rp_errors r))))])]"

text \<open>\<open>main\<close> with \<open>--json\<close>: \<open>json.dumps(data, indent=2)\<close>.\<close>

definition print_json :: "(pyfloat \<Rightarrow> string) \<Rightarrow> report \<Rightarrow> string" where
  "print_json fr r = dump fr indented 0 (report_json r) @ [newline]"

definition dumps :: "string \<Rightarrow> string" where
  "dumps s = dump_str s"

definition provider_lines :: "(rat \<Rightarrow> string) \<Rightarrow> bool \<Rightarrow> nat \<Rightarrow> usage \<times> groups \<Rightarrow> string list" where
  "provider_lines f1 is_claude files tg = (let t = fst tg in
     [(if is_claude then ''claude'' else ''codex'') @ '': files='' @ nat_str files @ '' turns='' @ int_str (u_turns t)
        @ '' input='' @ int_str (u_input t) @ '' write='' @ int_str (u_cache_write t) @ '' cached='' @ int_str (u_cache_read t)
        @ '' output='' @ int_str (u_output t) @ '' total='' @ int_str (u_total t)
        @ (if is_claude then '' index='' @ f1 (cost_index t) else []),
      ''  >=400k context: '' @ int_str (u_large t) @ '' ('' @ f1 (share_percent t) @ ''%)'']
     @ map (\<lambda>dm. let rows = snd tg dm; top = take 3 (sort_key (\<lambda>(k, u). (- u_total u, k)) rows) in
         ''  by '' @ dim_name dm @ '' (top 3/'' @ nat_str (length rows) @ ''): ''
         @ join ''; '' (map (\<lambda>(k, u). dumps k @ ''='' @ int_str (u_total u)) top)) dimensions)"

definition text_report :: "(rat \<Rightarrow> string) \<Rightarrow> (rat \<Rightarrow> string) \<Rightarrow> (json \<Rightarrow> string) \<Rightarrow> report \<Rightarrow> string" where
  "text_report f1 f0 show_percent r = join [newline]
     ([''Agent token report since '' @ rp_since r @ '' (project filter: ''
         @ dumps (if rp_project r = [] then ''all'' else rp_project r) @ '')'', report_notes]
      @ provider_lines f1 True (rp_claude_files r) (summarize (rp_claude r))
      @ provider_lines f1 False (rp_codex_files r) (summarize (rp_codex r))
      @ [''Claude tool_result volume (top 8; chars and approximate tokens):'']
      @ map (\<lambda>(name, calls, chars). ''  '' @ dumps name @ '': calls='' @ nat_str calls @ '' chars='' @ nat_str chars
          @ '' ~tokens='' @ f0 (of_nat chars / 4)) (take 8 (rp_tools r))
      @ [''Codex latest rate_limits.used_percent (top 8 windows):'']
      @ map (\<lambda>((limit_id, window), rt). ''  '' @ dumps limit_id @ ''/'' @ window @ '': '' @ show_percent (r_percent rt)
          @ ''% at '' @ dumps (r_timestamp rt)) (take 8 (rp_rates r))
      @ [''Skipped: malformed='' @ nat_str (malformed_records (rp_errors r))
          @ '' unreadable_files='' @ nat_str (unreadable_files (rp_errors r))])"

end
