(* ===== verification/TokenReportProofs.thy ===== *)
theory TokenReportProofs
  imports TokenReport "HOL-Library.Multiset"
begin

text \<open>
  Proofs about \<^verbatim>\<open>scripts/agent-token-report.py\<close>: groups and total, the increments of the Codex counters, the
  merge of the Claude counters, the texts that do not matter, the bounds of the figures. \<open>group\<close>,
  \<open>segment_ends\<close>, \<open>reported\<close>, \<open>peak_usage\<close> and \<open>redact\<close> are the specifications the code is compared with.
\<close>

section \<open>Sums of usage\<close>

lemma usage_sel [simp]:
  "u_input (u + v) = u_input u + u_input v" "u_cache_write (u + v) = u_cache_write u + u_cache_write v"
  "u_cache_read (u + v) = u_cache_read u + u_cache_read v" "u_output (u + v) = u_output u + u_output v"
  "u_reasoning (u + v) = u_reasoning u + u_reasoning v" "u_total (u + v) = u_total u + u_total v"
  "u_turns (u + v) = u_turns u + u_turns v" "u_large (u + v) = u_large u + u_large v"
  "u_input 0 = 0" "u_cache_write 0 = 0" "u_cache_read 0 = 0" "u_output 0 = 0"
  "u_reasoning 0 = 0" "u_total 0 = 0" "u_turns 0 = 0" "u_large 0 = 0"
  by (simp_all add: plus_usage_def zero_usage_def add_usage_def no_usage_def)

lemma sum_list_dict_set:
  "sum_list (map snd (group_add k (u :: usage) g)) = sum_list (map snd g) + u"
  by (induction g) (auto simp: group_add_def ac_simps)

lemma summary_fold:
  "fold summary_step samples (t, gs) =
     (t + sum_list (map s_usage samples), \<lambda>dm. fold (\<lambda>s. group_add (dim_key dm s) (s_usage s)) samples (gs dm))"
  by (induction samples arbitrary: t gs) (simp_all add: summary_step_def ac_simps)

definition group :: "dimension \<Rightarrow> sample list \<Rightarrow> (string \<times> usage) list" where
  "group dm samples = fold (\<lambda>s. group_add (dim_key dm s) (s_usage s)) samples []"

lemma group_snoc: "group dm (samples @ [s]) = group_add (dim_key dm s) (s_usage s) (group dm samples)"
  by (simp add: group_def)

lemma group_sum: "sum_list (map snd (group dm samples)) = sum_list (map s_usage samples)"
  by (induction samples rule: rev_induct) (simp_all add: group_snoc sum_list_dict_set, simp add: group_def)

lemma group_distinct: "distinct (map fst (group dm samples))"
  by (induction samples rule: rev_induct) (simp_all add: group_snoc group_add_def, simp add: group_def)

lemma group_map: "map_of (group dm samples) k = (if k \<in> dim_key dm ` set samples
    then Some (sum_list (map s_usage (filter (\<lambda>s. dim_key dm s = k) samples))) else None)"
proof (induction samples rule: rev_induct)
  case Nil
  then show ?case by (simp add: group_def)
next
  case (snoc s ss)
  have "filter (\<lambda>s. dim_key dm s = k) ss = []" if "k \<notin> dim_key dm ` set ss"
    using that by (auto simp: filter_empty_conv)
  then show ?case by (cases "dim_key dm s = k") (simp_all add: group_snoc group_add_def snoc)
qed

lemma summarize_group: "summarize samples = (sum_list (map s_usage samples), \<lambda>dm. sort_key fst (group dm samples))"
  by (simp add: summarize_def summary_fold group_def)

lemma map_of_sort_key: "distinct (map fst g) \<Longrightarrow> map_of (sort_key fst g) = map_of g"
proof
  fix k
  assume d: "distinct (map fst g)"
  have s: "mset (map fst (sort_key fst g)) = mset (map fst g)" by simp
  then have d': "distinct (map fst (sort_key fst g))" using d mset_eq_imp_distinct_iff by blast
  have "map_of (sort_key fst g) k = Some v \<longleftrightarrow> map_of g k = Some v" for v
    using d d' by (simp add: map_of_eq_Some_iff)
  then show "map_of (sort_key fst g) k = map_of g k" by (metis not_Some_eq)
qed

lemma sum_list_sort: "sum_list (map snd (sort_key fst g)) = (sum_list (map snd g) :: usage)"
proof -
  have "mset (map snd (sort_key fst g)) = mset (map snd g)" by simp
  then show ?thesis using sum_mset_sum_list by metis
qed

text \<open>
  The groups of a report partition its total. The total is the sum of the samples' usages, and for
  each dimension (day, project, kind, model) the keys are sorted and distinct, are the ones that occur,
  each key's usage is the sum over its samples, and these sums add up to the total.
\<close>
theorem summary_partitions:
  "let (tot, by_key) = summarize samples; g = by_key dm in
     tot = sum_list (map s_usage samples) \<and> sum_list (map snd g) = tot \<and>
     sorted (map fst g) \<and> distinct (map fst g) \<and>
     (\<forall>k. map_of g k = (if k \<in> dim_key dm ` set samples
        then Some (sum_list (map s_usage (filter (\<lambda>s. dim_key dm s = k) samples))) else None))"
proof -
  have "distinct (map fst (sort_key fst (group dm samples)))"
    using group_distinct [of dm samples] mset_eq_imp_distinct_iff [of "map fst (sort_key fst (group dm samples))" "map fst (group dm samples)"]
    by simp
  then show ?thesis
    by (simp add: summarize_group sum_list_sort group_sum sorted_sort_key map_of_sort_key group_distinct group_map)
qed

section \<open>Codex: the increments\<close>

text \<open>The sum of the final counters of the segments: a smaller counter ends a segment.\<close>

fun segment_ends :: "int \<Rightarrow> int list \<Rightarrow> int" where
  "segment_ends p [] = p"
| "segment_ends p (c # cs) = (if c < p then p + segment_ends c cs else segment_ends c cs)"

definition is_count :: "entry \<Rightarrow> bool" where
  "is_count r \<longleftrightarrow> field (mapping (field r ''payload'')) ''type'' = JStr ''token_count''"

definition counters :: "entry \<Rightarrow> entry" where
  "counters r = mapping (field (mapping (field (mapping (field r ''payload'')) ''info'')) ''total_token_usage'')"

definition total_counters :: "entry list \<Rightarrow> int list" where
  "total_counters rs = map (\<lambda>r. count_value (field (counters r) ''total_tokens''))
     (filter (\<lambda>r. is_count r \<and> counters r \<noteq> []) rs)"

lemma contains_Nil [simp]: "contains [] s"
  by (cases s) simp_all

lemma count_nonneg [simp]: "0 \<le> count_value v"
  by (simp add: count_value_def split: json.split)

lemma codex_delta_5:
  assumes "length p = 5" "length c = 5"
  shows "codex_delta p c ! 4 = (if c ! 4 < p ! 4 then c ! 4 else c ! 4 - p ! 4)" "length (codex_delta p c) = 5"
proof -
  have "last p = p ! 4" "last c = c ! 4" using assms by (auto simp: last_conv_nth simp flip: length_0_conv)
  then show "codex_delta p c ! 4 = (if c ! 4 < p ! 4 then c ! 4 else c ! 4 - p ! 4)" "length (codex_delta p c) = 5"
    using assms by (simp_all add: codex_delta_def)
qed

definition sample_total :: "codex_state \<Rightarrow> int" where
  "sample_total st = sum_list (map (u_total \<circ> s_usage) (x_samples st))"

lemma codex_meta_previous [simp]: "v_previous (codex_meta r v) = v_previous v"
  by (simp add: codex_meta_def Let_def)

lemma list_ex_nth4: "length d = 5 \<Longrightarrow> \<not> list_ex (\<lambda>d. d \<noteq> 0) d \<Longrightarrow> d ! 4 = (0 :: int)"
  by (auto simp: list_ex_iff)

lemma codex_record_eq: "codex_record isodate since pf r (v, st) =
    (if is_count r then codex_count isodate since pf r (codex_meta r v) st else (codex_meta r v, st))"
  by (simp add: codex_record_def Let_def is_count_def)

lemma codex_count_total:
  assumes inc: "included since (day_of isodate (JStr (label (field r ''timestamp''))))"
    and l: "length (v_previous v) = 5"
    and res: "codex_count isodate since [] r v st = (v', st')"
  shows "if counters r = [] then v_previous v' = v_previous v \<and> sample_total st' = sample_total st
    else length (v_previous v') = 5 \<and> v_previous v' ! 4 = count_value (field (counters r) ''total_tokens'') \<and>
      sample_total st' = sample_total st + (if v_previous v' ! 4 < v_previous v ! 4 then v_previous v' ! 4 else v_previous v' ! 4 - v_previous v ! 4)"
proof -
  define c where "c = map (\<lambda>k. count_value (field (counters r) k)) codex_keys"
  have c5: "length c = 5" "c ! 4 = count_value (field (counters r) ''total_tokens'')" by (simp_all add: c_def codex_keys_def)
  note d = codex_delta_5 [OF l c5(1)]
  have z: "codex_delta (v_previous v) c ! 4 = 0" if "\<not> list_ex (\<lambda>d. d \<noteq> 0) (codex_delta (v_previous v) c)"
    using list_ex_nth4 [OF d(2) that] .
  show ?thesis using res inc c5 d(1) z
    by (auto simp: codex_count_def Let_def counters_def [symmetric] c_def [symmetric] sample_total_def codex_usage_def split: if_splits)
qed

lemma codex_fold_total:
  assumes "\<forall>r\<in>set rs. included since (day_of isodate (JStr (label (field r ''timestamp''))))"
    and "length (v_previous v) = 5"
    and "fold (codex_record isodate since []) rs (v, st) = (v', st')"
  shows "sample_total st' + v_previous v ! 4 = sample_total st + segment_ends (v_previous v ! 4) (total_counters rs)"
  using assms
proof (induction rs arbitrary: v st)
  case Nil
  then show ?case by (simp add: total_counters_def)
next
  case (Cons r rs)
  show ?case
  proof (cases "is_count r")
    case False
    then show ?thesis using Cons.IH [of "codex_meta r v" st] Cons.prems
      by (simp add: codex_record_eq total_counters_def)
  next
    case True
    obtain w t where w: "codex_count isodate since [] r (codex_meta r v) st = (w, t)" by force
    have s: "fold (codex_record isodate since []) rs (w, t) = (v', st')"
      using Cons.prems(3) True w by (simp add: codex_record_eq)
    note cc = codex_count_total [OF _ _ w]
    show ?thesis
    proof (cases "counters r = []")
      case True
      then show ?thesis using cc Cons.IH [OF _ _ s] Cons.prems by (simp add: total_counters_def)
    next
      case c: False
      then have "length (v_previous w) = 5" "v_previous w ! 4 = count_value (field (counters r) ''total_tokens'')"
        "sample_total t = sample_total st + (if v_previous w ! 4 < v_previous v ! 4 then v_previous w ! 4 else v_previous w ! 4 - v_previous v ! 4)"
        using cc Cons.prems by simp_all
      then show ?thesis using Cons.IH [OF _ _ s] Cons.prems c True by (auto simp: total_counters_def)
    qed
  qed
qed

text \<open>
  The increments of a Codex log add up. With every record inside the report's range, the samples of
  one file sum to the final value of the cumulative token counter, plus, for every reset of the counter
  in between, the value it had before the reset.
\<close>
theorem codex_totals:
  assumes "\<forall>r\<in>set (fst (records (lf_text f) (x_errors st))). included since (day_of isodate (JStr (label (field r ''timestamp''))))"
  shows "sum_list (map (u_total \<circ> s_usage) (x_samples (codex_file isodate since [] f st))) =
    sum_list (map (u_total \<circ> s_usage) (x_samples st)) + segment_ends 0 (total_counters (fst (records (lf_text f) (x_errors st))))"
proof -
  obtain rs e where rs: "records (lf_text f) (x_errors st) = (rs, e)" by force
  obtain v st' where fo: "fold (codex_record isodate since []) rs (codex_vars0, st\<lparr>x_errors := e\<rparr>) = (v, st')" by force
  have "length (v_previous codex_vars0) = 5" "v_previous codex_vars0 ! 4 = 0" by (simp_all add: codex_vars0_def codex_keys_def)
  with codex_fold_total [OF _ _ fo] assms rs show ?thesis by (simp add: codex_file_def fo sample_total_def)
qed

section \<open>Claude: one usage per message\<close>

lemma records_fst: "fst (records t e) = fst (records t e')"
proof -
  have "fst (fold records_line ls (rs, e)) = fst (fold records_line ls (rs, e'))" for ls rs e e'
  proof (induction ls arbitrary: rs e e')
    case (Cons l ls)
    have "\<exists>xs d d'. records_line l (rs, e) = (xs, d) \<and> records_line l (rs, e') = (xs, d')"
      unfolding records_line_def by (simp split: option.split json.split)
    then obtain xs d d' where "records_line l (rs, e) = (xs, d)" "records_line l (rs, e') = (xs, d')" by blast
    then show ?case by (simp add: Cons)
  qed simp
  then show ?thesis by (cases t) (simp_all add: records_def)
qed

text \<open>The counters that the logs report for a message.\<close>

definition update_of :: "(json \<Rightarrow> string option) \<Rightarrow> string \<Rightarrow> entry \<Rightarrow> (string \<times> int list) option" where
  "update_of isodate since r = (let m = mapping (field r ''message''); usage = mapping (field m ''usage'') in
     case field m ''id'' of
       JStr mid \<Rightarrow> if field r ''type'' = JStr ''assistant'' \<and> included since (day_of isodate (field r ''timestamp''))
           \<and> usage \<noteq> [] \<and> mid \<noteq> [] then Some (mid, numbers_of usage) else None
     | _ \<Rightarrow> None)"

definition log_records :: "string \<Rightarrow> log_file list \<Rightarrow> entry list" where
  "log_records project_filter files = concat (map (\<lambda>f. fst (records (lf_text f) \<lparr>malformed_records = 0, unreadable_files = 0\<rparr>))
     (filter (\<lambda>f. contains project_filter (hd (lf_parts f))) files))"

definition reported :: "(json \<Rightarrow> string option) \<Rightarrow> string \<Rightarrow> string \<Rightarrow> entry list \<Rightarrow> int list set" where
  "reported isodate since mid rs = {ns. \<exists>r\<in>set rs. update_of isodate since r = Some (mid, ns)}"

text \<open>The usage of a message with these counters: the largest of each.\<close>

definition peak_usage :: "int list set \<Rightarrow> usage" where
  "peak_usage nss = claude_usage (map (\<lambda>i. Max ((\<lambda>ns. ns ! i) ` nss)) [0, 1, 2, 3])"

definition messages_ok :: "(string \<Rightarrow> int list set) \<Rightarrow> (string \<times> sample) list \<Rightarrow> bool" where
  "messages_ok R ms \<longleftrightarrow> (\<forall>mid. map_option s_usage (map_of ms mid) = (if R mid = {} then None else Some (peak_usage (R mid))))"

lemma length_numbers_of [simp]: "length (numbers_of u) = 4"
  by (simp add: numbers_of_def)

lemma usage_numbers_claude: "length ns = 4 \<Longrightarrow> usage_numbers (claude_usage ns) = ns"
  by (auto simp: usage_numbers_def claude_usage_def length_Suc_conv numeral_eq_Suc)

lemma peak_insert:
  assumes "finite N" "N \<noteq> {}" "length ns = 4"
  shows "map (\<lambda>(a, b). max a b) (zip ns (usage_numbers (peak_usage N))) = map (\<lambda>i. Max ((\<lambda>ns. ns ! i) ` insert ns N)) [0, 1, 2, 3]"
proof -
  obtain a b c d where ns: "ns = [a, b, c, d]"
    using assms(3) by (auto simp: length_Suc_conv numeral_eq_Suc)
  have "usage_numbers (peak_usage N) = map (\<lambda>i. Max ((\<lambda>ns. ns ! i) ` N)) [0, 1, 2, 3]"
    by (simp add: peak_usage_def usage_numbers_claude)
  then show ?thesis using assms(1,2) by (simp add: ns)
qed

lemma peak_single: "length ns = 4 \<Longrightarrow> peak_usage {ns} = claude_usage ns"
  by (auto simp: peak_usage_def length_Suc_conv numeral_eq_Suc)

lemma message_step_ok:
  assumes "messages_ok R ms" "finite (R mid)" "length ns = 4"
  shows "messages_ok (R(mid := insert ns (R mid))) (message_step mid fresh ns ms)"
proof -
  have m: "map_option s_usage (map_of ms mid) = (if R mid = {} then None else Some (peak_usage (R mid)))"
    using assms(1) by (simp add: messages_ok_def)
  have "claude_usage (merge_numbers ns (map_of ms mid)) = peak_usage (insert ns (R mid))"
  proof (cases "map_of ms mid")
    case None
    with m have "R mid = {}" by (simp split: if_splits)
    with None show ?thesis by (simp add: merge_numbers_def peak_single assms(3))
  next
    case (Some s)
    with m have "R mid \<noteq> {}" "s_usage s = peak_usage (R mid)" by (simp_all split: if_splits)
    with peak_insert [OF assms(2) _ assms(3)] Some show ?thesis
      by (simp add: merge_numbers_def peak_usage_def)
  qed
  then have "map_option s_usage (map_of (message_step mid fresh ns ms) mid) = Some (peak_usage (insert ns (R mid)))"
    by (cases "map_of ms mid") (simp_all add: message_step_def Let_def)
  moreover have "map_of (message_step mid fresh ns ms) m = map_of ms m" if "m \<noteq> mid" for m
    using that by (simp add: message_step_def Let_def)
  ultimately have "map_option s_usage (map_of (message_step mid fresh ns ms) m) =
      (if (R(mid := insert ns (R mid))) m = {} then None else Some (peak_usage ((R(mid := insert ns (R mid))) m)))" for m
    using assms(1) by (cases "m = mid") (simp_all add: messages_ok_def del: map_option_eq_Some)
  then show ?thesis unfolding messages_ok_def by blast
qed

lemma result_step_messages [simp]: "c_messages (result_step o' names ip st) = c_messages st"
  by (auto simp: result_step_def Let_def split: prod.splits)

lemma result_fold_messages [simp]: "c_messages (fold (result_step o' names) ips st) = c_messages st"
  by (induction ips arbitrary: st) simp_all

lemma claude_record_messages:
  "\<exists>fresh. c_messages (snd (claude_record isodate since project kind path r (names, st))) =
     (case update_of isodate since r of None \<Rightarrow> c_messages st
      | Some (mid, ns) \<Rightarrow> message_step mid fresh ns (c_messages st))"
  by (cases "field (mapping (field r ''message'')) ''id''") (auto simp: claude_record_def update_of_def Let_def)

lemma reported_snoc: "reported isodate since mid (rs @ [r]) =
    (case update_of isodate since r of None \<Rightarrow> reported isodate since mid rs
     | Some (m, ns) \<Rightarrow> if m = mid then insert ns (reported isodate since mid rs) else reported isodate since mid rs)"
  by (auto simp: reported_def split: option.split)

lemma reported_finite [simp]: "finite (reported isodate since mid rs)"
proof -
  have "reported isodate since mid rs \<subseteq> snd ` the ` update_of isodate since ` set rs"
    by (auto simp: reported_def image_iff) (metis option.sel snd_conv)
  then show ?thesis by (rule finite_subset) simp
qed

lemma update_of_length: "update_of isodate since r = Some (mid, ns) \<Longrightarrow> length ns = 4"
  by (auto simp: update_of_def Let_def split: json.splits if_splits)

lemma claude_record_ok:
  assumes "messages_ok (\<lambda>mid. reported isodate since mid rs) (c_messages (snd nst))"
  shows "messages_ok (\<lambda>mid. reported isodate since mid (rs @ [r]))
    (c_messages (snd (claude_record isodate since project kind path r nst)))"
proof -
  obtain names st where nst: "nst = (names, st)" by force
  show ?thesis
  proof (cases "update_of isodate since r")
    case None
    then show ?thesis using assms claude_record_messages [of isodate since project kind path r names st]
      by (simp add: nst reported_snoc)
  next
    case (Some mn)
    obtain mid ns where mn: "mn = (mid, ns)" by force
    obtain fresh where f: "c_messages (snd (claude_record isodate since project kind path r (names, st))) = message_step mid fresh ns (c_messages st)"
      using claude_record_messages [of isodate since project kind path r names st] Some mn nst by auto
    have "(\<lambda>m. reported isodate since m (rs @ [r])) =
        (\<lambda>m. reported isodate since m rs)(mid := insert ns (reported isodate since mid rs))"
      by (intro ext) (simp add: reported_snoc Some mn)
    then show ?thesis
      using message_step_ok [of "\<lambda>m. reported isodate since m rs" "c_messages st" mid ns fresh] assms
        update_of_length [OF Some [unfolded mn]] by (simp add: f nst)
  qed
qed

lemma claude_fold_ok:
  "messages_ok (\<lambda>mid. reported isodate since mid rs) (c_messages (snd nst)) \<Longrightarrow>
   messages_ok (\<lambda>mid. reported isodate since mid (rs @ rs')) (c_messages (snd (fold (claude_record isodate since project kind path) rs' nst)))"
proof (induction rs' arbitrary: rs nst)
  case (Cons r rs')
  from Cons.IH [OF claude_record_ok [OF Cons.prems]] show ?case by simp
qed simp

lemma claude_file_ok:
  assumes "messages_ok (\<lambda>mid. reported isodate since mid (log_records pf fs)) (c_messages st)"
  shows "messages_ok (\<lambda>mid. reported isodate since mid (log_records pf (fs @ [f]))) (c_messages (claude_file isodate since pf f st))"
proof (cases "contains pf (hd (lf_parts f))")
  case False
  then show ?thesis using assms by (simp add: claude_file_def log_records_def)
next
  case True
  obtain rs e where rs: "records (lf_text f) (c_errors st) = (rs, e)" by force
  then have "fst (records (lf_text f) \<lparr>malformed_records = 0, unreadable_files = 0\<rparr>) = rs" using records_fst by (metis fst_conv)
  then show ?thesis using True rs assms by (simp add: claude_file_def log_records_def claude_fold_ok)
qed

lemma claude_files_ok:
  "messages_ok (\<lambda>mid. reported isodate since mid (log_records pf fs)) (c_messages st) \<Longrightarrow>
   messages_ok (\<lambda>mid. reported isodate since mid (log_records pf (fs @ fs'))) (c_messages (fold (claude_file isodate since pf) fs' st))"
proof (induction fs' arbitrary: fs st)
  case (Cons f fs')
  from Cons.IH [OF claude_file_ok [OF Cons.prems]] show ?case by simp
qed simp


section \<open>Bounds\<close>

definition usage_ok :: "usage \<Rightarrow> bool" where
  "usage_ok u \<longleftrightarrow> 0 \<le> u_input u \<and> 0 \<le> u_cache_write u \<and> 0 \<le> u_cache_read u \<and> 0 \<le> u_output u \<and>
     0 \<le> u_reasoning u \<and> 0 \<le> u_total u \<and> 0 \<le> u_large u \<and> u_large u \<le> u_turns u"

lemma set_dict_set: "set (dict_set k v d) \<subseteq> insert (k, v) (set d)"
  by (induction k v d rule: dict_set.induct) auto

definition samples_ok :: "sample list \<Rightarrow> bool" where
  "samples_ok ss \<longleftrightarrow> (\<forall>s\<in>set ss. usage_ok (s_usage s))"

lemma claude_usage_ok: "length ns = 4 \<Longrightarrow> \<forall>n\<in>set ns. 0 \<le> n \<Longrightarrow> usage_ok (claude_usage ns)"
  by (auto simp: usage_ok_def claude_usage_def length_Suc_conv numeral_eq_Suc)

lemma merge_nonneg: "\<forall>n\<in>set ns. 0 \<le> n \<Longrightarrow> \<forall>n\<in>set (merge_numbers ns p). 0 \<le> n"
  by (auto simp: merge_numbers_def le_max_iff_disj dest!: set_zip_leftD split: option.split)

lemma length_merge: "length ns = 4 \<Longrightarrow> length (merge_numbers ns p) = 4"
  by (simp add: merge_numbers_def usage_numbers_def split: option.split)

lemma update_of_nonneg: "update_of isodate since r = Some (mid, ns) \<Longrightarrow> \<forall>n\<in>set ns. 0 \<le> n"
  by (auto simp: update_of_def Let_def numbers_of_def split: json.splits if_splits)

lemma message_step_samples:
  assumes "samples_ok (map snd ms)" "length ns = 4" "\<forall>n\<in>set ns. 0 \<le> n"
  shows "samples_ok (map snd (message_step mid fresh ns ms))"
proof -
  have u: "usage_ok (claude_usage (merge_numbers ns (map_of ms mid)))"
    by (rule claude_usage_ok) (use assms in \<open>simp_all add: length_merge merge_nonneg\<close>)
  have "\<exists>s. usage_ok (s_usage s) \<and> set (message_step mid fresh ns ms) \<subseteq> insert (mid, s) (set ms)"
    using u set_dict_set [of mid _ ms] by (auto simp: message_step_def Let_def split: option.split intro!: exI)
  then show ?thesis using assms(1) by (fastforce simp: samples_ok_def)
qed

lemma claude_record_samples:
  assumes "samples_ok (map snd (c_messages (snd nst)))"
  shows "samples_ok (map snd (c_messages (snd (claude_record isodate since project kind path r nst))))"
proof -
  obtain names st where nst: "nst = (names, st)" by force
  obtain fresh where "c_messages (snd (claude_record isodate since project kind path r nst)) =
     (case update_of isodate since r of None \<Rightarrow> c_messages st | Some (mid, ns) \<Rightarrow> message_step mid fresh ns (c_messages st))"
    using claude_record_messages nst by blast
  then show ?thesis using assms nst update_of_length update_of_nonneg
    by (auto split: option.split intro!: message_step_samples)
qed

lemma claude_samples: "samples_ok (map snd (c_messages (claude isodate files since pf e)))"
proof -
  have f: "samples_ok (map snd (c_messages (snd (fold (claude_record isodate since project kind path) rs nst))))"
    if "samples_ok (map snd (c_messages (snd nst)))" for project kind path rs nst
    using that by (induction rs arbitrary: nst) (simp_all add: claude_record_samples)
  have "samples_ok (map snd (c_messages (claude_file isodate since pf g st)))" if "samples_ok (map snd (c_messages st))" for g st
    using that f by (simp add: claude_file_def Let_def split: prod.split)
  then have "samples_ok (map snd (c_messages (fold (claude_file isodate since pf) fs st)))" if "samples_ok (map snd (c_messages st))" for fs st
    using that by (induction fs arbitrary: st) simp_all
  moreover have "samples_ok []" by (simp add: samples_ok_def)
  ultimately show ?thesis by (simp add: claude_def)
qed

lemma codex_count_samples:
  assumes "samples_ok (x_samples st)" "length (v_previous v) = 5" "codex_count isodate since pf r v st = (v', st')"
  shows "samples_ok (x_samples st') \<and> length (v_previous v') = 5"
proof -
  define c where "c = map (\<lambda>k. count_value (field (counters r) k)) codex_keys"
  define d where "d = codex_delta (v_previous v) c"
  have c: "length c = 5" "\<forall>n\<in>set c. 0 \<le> n" by (auto simp: c_def codex_keys_def)
  have "length d = 5" "\<forall>n\<in>set d. 0 \<le> n" using c assms(2) by (auto simp: d_def codex_delta_def)
  then have "usage_ok (codex_usage d k)" for k by (auto simp: usage_ok_def codex_usage_def)
  then show ?thesis using assms c(1)
    by (auto simp: codex_count_def Let_def counters_def [symmetric] c_def [symmetric] d_def [symmetric] samples_ok_def split: if_splits)
qed

lemma codex_samples: "samples_ok (x_samples (codex isodate files since pf e))"
proof -
  have f: "samples_ok (x_samples (snd (fold (codex_record isodate since pf) rs (v, st))))"
    if "samples_ok (x_samples st)" "length (v_previous v) = 5" for rs v st
    using that
  proof (induction rs arbitrary: v st)
    case (Cons r rs)
    obtain v' st' where c: "codex_count isodate since pf r (codex_meta r v) st = (v', st')" by force
    show ?case using Cons codex_count_samples [OF _ _ c] by (simp add: codex_record_eq c)
  qed simp
  have "samples_ok (x_samples (codex_file isodate since pf g st))" if "samples_ok (x_samples st)" for g st
    using that f [of "st\<lparr>x_errors := _\<rparr>" codex_vars0]
    by (auto simp: codex_file_def codex_vars0_def codex_keys_def split: prod.split) (metis snd_conv)
  then have "samples_ok (x_samples (fold (codex_file isodate since pf) fs st))" if "samples_ok (x_samples st)" for fs st
    using that by (induction fs arbitrary: st) simp_all
  moreover have "samples_ok []" by (simp add: samples_ok_def)
  ultimately show ?thesis by (simp add: codex_def)
qed

lemma usage_ok_sum: "samples_ok ss \<Longrightarrow> usage_ok (sum_list (map s_usage ss))"
  by (induction ss) (auto simp: samples_ok_def usage_ok_def)

lemma usage_ok_share: "usage_ok u \<Longrightarrow> 0 \<le> share_percent u \<and> share_percent u \<le> 100"
  by (auto simp: usage_ok_def share_percent_def divide_le_eq)

section \<open>Texts\<close>

text \<open>A record without its texts: only the fields the totals need, and as many characters as each result had.\<close>

definition keep :: "string list \<Rightarrow> entry \<Rightarrow> entry" where
  "keep ks d = map (\<lambda>k. (k, field d k)) ks"

definition redact_part :: "json \<Rightarrow> json" where
  "redact_part part = (case part of JObj d \<Rightarrow>
       JObj (keep [''type'', ''id'', ''name'', ''tool_use_id''] d
         @ [(''content'', JStr (replicate (content_chars (field d ''content'')) CHR ''x''))])
     | _ \<Rightarrow> JNull)"

definition redact :: "entry \<Rightarrow> entry" where
  "redact r = (let m = mapping (field r ''message'') in keep [''type'', ''timestamp'', ''uuid''] r @
     [(''message'', JObj (keep [''id'', ''model'', ''usage''] m @
        [(''content'', JList (map redact_part (list_items (field m ''content''))))]))])"

lemma field_simps [simp]:
  "field [] k = JNull" "field ((k', v) # d) k = (if k' = k then v else field d k)"
  by (simp_all add: field_def)

lemma mapping_simps [simp]: "mapping (JObj d) = d" "mapping JNull = []" "list_items (JList xs) = xs"
  by (simp_all add: mapping_def list_items_def)

lemma is_part_redact [simp]: "is_part t (redact_part v) = is_part t v"
  by (simp add: is_part_def redact_part_def keep_def split: json.split)

lemma redact_part_dict: "is_part t v \<Longrightarrow> \<exists>d. v = JObj d"
  by (simp add: is_part_def split: json.splits)

lemma tool_name_redact [simp]: "tool_name (redact_part v) = tool_name v"
proof (cases "is_part ''tool_use'' v")
  case True
  then obtain d where "v = JObj d" using redact_part_dict by blast
  then show ?thesis by (intro ext) (simp add: tool_name_def, simp add: redact_part_def keep_def)
qed (simp add: tool_name_def fun_eq_iff)

lemma result_step_redact [simp]: "result_step o' names (i, redact_part v) = result_step o' names (i, v)"
proof (cases "is_part ''tool_result'' v")
  case True
  then obtain d where d: "v = JObj d" using redact_part_dict by blast
  have "field (mapping (redact_part v)) ''tool_use_id'' = field (mapping v) ''tool_use_id''"
    "content_chars (field (mapping (redact_part v)) ''content'') = content_chars (field (mapping v) ''content'')"
    by (simp_all add: d redact_part_def keep_def) (simp add: content_chars_def)
  then show ?thesis by (intro ext) (simp add: result_step_def Let_def)
qed (simp add: result_step_def fun_eq_iff)

lemma fold_tool_name: "fold tool_name (map redact_part ps) names = fold tool_name ps names"
  by (induction ps arbitrary: names) simp_all

lemma fold_result: "fold (result_step o' names) (enumerate n (map redact_part ps)) st = fold (result_step o' names) (enumerate n ps) st"
  by (induction ps arbitrary: n st) simp_all

lemma claude_record_redact: "claude_record isodate since project kind path (redact r) nst = claude_record isodate since project kind path r nst"
proof -
  have f: "field (redact r) ''type'' = field r ''type''" "field (redact r) ''timestamp'' = field r ''timestamp''"
    "field (redact r) ''uuid'' = field r ''uuid''"
    by (simp_all add: redact_def keep_def Let_def)
  have m: "field (mapping (field (redact r) ''message'')) ''id'' = field (mapping (field r ''message'')) ''id''"
    "field (mapping (field (redact r) ''message'')) ''model'' = field (mapping (field r ''message'')) ''model''"
    "field (mapping (field (redact r) ''message'')) ''usage'' = field (mapping (field r ''message'')) ''usage''"
    by (simp_all add: redact_def keep_def Let_def)
  have c: "list_items (field (mapping (field (redact r) ''message'')) ''content'') =
      map redact_part (list_items (field (mapping (field r ''message'')) ''content''))"
    by (simp add: redact_def keep_def Let_def)
  show ?thesis unfolding claude_record_def Let_def f m c fold_tool_name fold_result ..
qed

text \<open>
  No message text reaches the Claude totals. Replacing every record by the fields the totals need,
  with each tool result's content replaced by as many \<open>x\<close> characters, changes nothing in the state
  the report is made from.
\<close>
theorem claude_ignores_text:
  "fold (claude_record isodate since project kind path) (map redact rs) nst = fold (claude_record isodate since project kind path) rs nst"
  by (induction rs arbitrary: nst) (simp_all add: claude_record_redact)

definition toy_isodate :: "json \<Rightarrow> string option" where
  "toy_isodate v = (case v of JStr s \<Rightarrow> Some (take 10 s) | _ \<Rightarrow> None)"

definition toy_entry :: "int \<Rightarrow> entry" where
  "toy_entry n = [(''timestamp'', JStr ''2026-01-02T03:04:05Z''), (''payload'', JObj [(''type'', JStr ''token_count''),
     (''info'', JObj [(''total_token_usage'', JObj [(''total_tokens'', JInt n)])])])]"

definition toy_log :: log_file where
  "toy_log = \<lparr>lf_parts = [''a.jsonl''], lf_path = ''a.jsonl'',
     lf_text = Some (concat (map (\<lambda>n. dump (\<lambda>_. []) compact 0 (JObj (toy_entry n)) @ [newline]) [10, 25, 5, 7]))\<rparr>"

definition toy_codex :: codex_state where
  "toy_codex = \<lparr>x_samples = [], x_rates = [], x_files = 0, x_errors = \<lparr>malformed_records = 0, unreadable_files = 0\<rparr>\<rparr>"

lemma toy_records: "fst (records (lf_text toy_log) (x_errors toy_codex)) = map toy_entry [10, 25, 5, 7]"
  by code_simp

theorem codex_totals_witness:
  "sum_list (map (u_total \<circ> s_usage) (x_samples (codex_file toy_isodate ''2026-01-01'' [] toy_log toy_codex))) = 32"
proof -
  have inc: "\<forall>r\<in>set (fst (records (lf_text toy_log) (x_errors toy_codex))).
      included ''2026-01-01'' (day_of toy_isodate (JStr (label (field r ''timestamp''))))"
    unfolding toy_records by code_simp
  have "segment_ends 0 (total_counters (fst (records (lf_text toy_log) (x_errors toy_codex)))) = 32"
    unfolding toy_records by code_simp
  then show ?thesis using codex_totals [OF inc] by (simp add: toy_codex_def)
qed

section \<open>The bounds of a report\<close>

lemma summary_bounded:
  assumes "samples_ok ss"
  shows "usage_ok (fst (summarize ss)) \<and> 0 \<le> share_percent (fst (summarize ss)) \<and> share_percent (fst (summarize ss)) \<le> 100"
  using usage_ok_sum [OF assms] usage_ok_share by (simp add: summarize_group)

lemma report_samples: "samples_ok (rp_claude (report isodate cf xf since project))" "samples_ok (rp_codex (report isodate cf xf since project))"
  using claude_samples codex_samples by (simp_all add: report_def Let_def)

text \<open>
  C16: the figures of a report are in range. Whatever the logs contain (negative, huge or malformed
  counters included), every total is at least zero, no more turns have a large context than there are
  turns, and the large-context share lies between 0 and 100 percent.
\<close>
theorem figures_bounded:
  "let r = report isodate claude_files codex_files since project;
       claude_total = fst (summarize (rp_claude r)); codex_total = fst (summarize (rp_codex r)) in
     usage_ok claude_total \<and> 0 \<le> share_percent claude_total \<and> share_percent claude_total \<le> 100 \<and>
     usage_ok codex_total \<and> 0 \<le> share_percent codex_total \<and> share_percent codex_total \<le> 100"
  using summary_bounded [OF report_samples(1)] summary_bounded [OF report_samples(2)] by (simp add: Let_def)

end
