(* ===== verification/Unpriv.thy ===== *)
theory Unpriv
  imports Files
begin

text \<open>
  \<^verbatim>\<open>build_files/firewall/snitchwatch-system-unpriv.py\<close>: third-party build code runs as an
  unprivileged user. \<open>prepare\<close> hands the scratch directories over, \<open>run\<close> drops every privilege in
  the child and kills what the command leaves behind, \<open>selfcheck\<close> tries to break out.

  The system calls are arguments: a \<open>kernel\<close> for the calls that change the child's credentials (with
  the state of the process as type \<open>'k\<close>), a \<open>procs\<close> for the process table, an \<open>access\<close> for what the
  opens and access tests of the self check answer. \<^verbatim>\<open>UnprivProofs.thy\<close> has a model of the Linux
  rules for the first two.
\<close>

section \<open>Constants and profiles\<close>

definition BUILD_UID :: nat where
  "BUILD_UID = 65534"

definition SCRATCH :: "string list" where
  "SCRATCH = [''bridge-cargo'', ''dist'', ''target'', ''home'']"

definition FRESH :: "string list" where
  "FRESH = [''dist'', ''target'', ''home'']"

definition PATH :: string where
  "PATH = ''/usr/local/sbin:/usr/local/bin:/usr/sbin:/usr/bin:/sbin:/bin''"

definition DROPPED_ENV :: "string list" where
  "DROPPED_ENV = [''LD_PRELOAD'', ''LD_LIBRARY_PATH'', ''LD_AUDIT'', ''GCONV_PATH'', ''PYTHONPATH'', ''PYTHONHOME'',
     ''PYTHONSTARTUP'', ''BASH_ENV'', ''ENV'', ''CDPATH'']"

definition SKIP_TREES :: "string list" where
  "SKIP_TREES = [''/proc'', ''/sys'', ''/dev'']"

definition STATUS_FIELDS :: "string list" where
  "STATUS_FIELDS = [''Uid'', ''Gid'', ''Groups'', ''CapInh'', ''CapPrm'', ''CapEff'', ''CapBnd'', ''CapAmb'', ''NoNewPrivs'']"

datatype probe_kind = Create | File | Append

definition PROBES :: "(probe_kind \<times> string) list" where
  "PROBES = map (Pair Create) [''/usr/bin'', ''/usr/local/bin'', ''/usr/lib/sysimage/rpm'', ''FACTORY'', ''WORK'',
       ''WORK/source'', ''WORK/source/.git'', ''WORK/cargo'', ''WORK/toolchain'']
     @ [(File, ''/etc/ld.so.preload'')]
     @ map (Pair Append) [''/usr/bin/cc'', ''/usr/bin/gcc'', ''/usr/bin/ld'', ''/usr/bin/rustc'', ''/usr/bin/cargo'',
       ''/usr/bin/python3'', ''WORK/source/Cargo.lock'', ''WORK/rpm-inventory.txt'', ''FACTORY/snitchwatch-system-unpriv.py'']"

record profile =
  pf_scratch :: "string list"
  pf_fresh :: "string list"
  pf_readonly :: "string list"
  pf_probes :: "(probe_kind \<times> string) list"
  pf_readable :: "string list"

definition PROFILES :: "(string \<times> profile) list" where
  "PROFILES = [
     (''bridge'', \<lparr>pf_scratch = SCRATCH, pf_fresh = FRESH, pf_readonly = [''source''], pf_probes = [], pf_readable = []\<rparr>),
     (''scanner'', \<lparr>pf_scratch = [''scanner-cargo'', ''scanner'', ''home''], pf_fresh = [''scanner'', ''home''],
        pf_readonly = [''source'', ''scanner-inputs''],
        pf_probes = [(Create, ''WORK/scanner-inputs''), (Create, ''WORK/scanner-inputs/source''),
           (Append, ''WORK/scanner-inputs/source/Cargo.lock''), (Append, ''WORK/scanner-inputs/source-inputs.json''),
           (Append, ''WORK/scanner-inputs/build-inputs.json''), (Append, ''FACTORY/snitchwatch-system-scanner-build.py'')],
        pf_readable = [''WORK/rpm-inventory.txt'', ''FACTORY/snitchwatch-system-pins.json'']\<rparr>)]"

definition READONLY_LABEL :: "string \<Rightarrow> string" where
  "READONLY_LABEL t = (if t = ''source'' then ''source checkout'' else ''scanner input tree'')"

definition profile_of :: "string \<Rightarrow> profile result" where
  "profile_of name = (case map_of PROFILES name of None \<Rightarrow> Inl (Refusal ''unknown profile'') | Some p \<Rightarrow> Inr p)"

section \<open>The environment of the command\<close>

type_synonym env = "(string \<times> string) list"

definition child_env :: "env \<Rightarrow> string \<Rightarrow> env" where
  "child_env environ work = dict_set ''HOME'' (path_join work ''home'')
     (dict_set ''PATH'' PATH (filter (\<lambda>p. fst p \<notin> set DROPPED_ENV) environ))"

section \<open>The status of a process\<close>

type_synonym status = "(string \<times> string list) list"

definition status_line :: "string \<Rightarrow> status \<Rightarrow> status" where
  "status_line l st = (case partition_on CHR '':'' l of (name, _, v) \<Rightarrow>
     if name \<in> set STATUS_FIELDS then dict_set name (words v) st else st)"

definition parse_status :: "string \<Rightarrow> status" where
  "parse_status t = fold status_line (splitlines t) []"

definition wanted :: "nat \<Rightarrow> nat \<Rightarrow> status" where
  "wanted uid gid = [(''Uid'', replicate 4 (nat_str uid)), (''Gid'', replicate 4 (nat_str gid)), (''Groups'', []), (''NoNewPrivs'', [''1''])]
     @ map (\<lambda>n. (n, [replicate 16 CHR ''0''])) [''CapInh'', ''CapPrm'', ''CapEff'', ''CapBnd'', ''CapAmb'']"

definition or_empty :: "string \<Rightarrow> string" where
  "or_empty s = (if s = [] then ''<empty>'' else s)"

definition status_problems :: "status \<Rightarrow> nat \<Rightarrow> nat \<Rightarrow> string list" where
  "status_problems st uid gid = map (\<lambda>(name, v). name @ '' is ''
       @ or_empty (join '' '' (case map_of st name of None \<Rightarrow> [''<missing>''] | Some w \<Rightarrow> w)) @ '', want '' @ or_empty (join '' '' v))
     (filter (\<lambda>(name, v). map_of st name \<noteq> Some v) (wanted uid gid))"

section \<open>Dropping the privileges\<close>

record cap_half =
  ch_effective :: "32 word"
  ch_permitted :: "32 word"
  ch_inheritable :: "32 word"

record 'k kernel =
  k_prctl :: "nat \<Rightarrow> nat \<Rightarrow> 'k \<Rightarrow> int \<times> 'k"
  k_capget :: "'k \<Rightarrow> int \<times> cap_half list"
  k_capset :: "cap_half list \<Rightarrow> 'k \<Rightarrow> int \<times> 'k"
  k_setgroups :: "nat list \<Rightarrow> 'k \<Rightarrow> 'k result"
  k_setresgid :: "nat \<Rightarrow> 'k \<Rightarrow> 'k result"
  k_setresuid :: "nat \<Rightarrow> 'k \<Rightarrow> 'k result"
  k_status :: "'k \<Rightarrow> string"
  k_last_cap :: "'k \<Rightarrow> string"

definition PR_CAPBSET_DROP :: nat where "PR_CAPBSET_DROP = 24"
definition PR_SET_CHILD_SUBREAPER :: nat where "PR_SET_CHILD_SUBREAPER = 36"
definition PR_SET_NO_NEW_PRIVS :: nat where "PR_SET_NO_NEW_PRIVS = 38"
definition PR_CAP_AMBIENT :: nat where "PR_CAP_AMBIENT = 47"
definition PR_CAP_AMBIENT_CLEAR_ALL :: nat where "PR_CAP_AMBIENT_CLEAR_ALL = 4"

definition clear_inheritable :: "'k kernel \<Rightarrow> 'k \<Rightarrow> int \<times> 'k" where
  "clear_inheritable K k = (case k_capget K k of (r, halves) \<Rightarrow>
     if r \<noteq> 0 then (-1, k) else k_capset K (map (\<lambda>h. h\<lparr>ch_inheritable := 0\<rparr>) halves) k)"

text \<open>\<open>int(text)\<close> and \<open>int(text, 16)\<close> of what the kernel prints: lower-case digits, no sign or prefix.\<close>

definition last_cap :: "'k kernel \<Rightarrow> 'k \<Rightarrow> nat result" where
  "last_cap K k = (let t = strip (k_last_cap K k) in
     if isdecimal t then Inr (nat_of_digits t) else Inl (ValueError ''invalid literal for int()''))"

definition int16 :: "string \<Rightarrow> nat result" where
  "int16 s = (if s \<noteq> [] \<and> list_all is_hex s then Inr (nat_of_hex s) else Inl (ValueError ''invalid literal for int() with base 16''))"

definition bounding_set :: "status \<Rightarrow> nat result" where
  "bounding_set st = (case map_of st ''CapBnd'' of
       None \<Rightarrow> int16 (replicate 16 CHR ''f'') | Some [] \<Rightarrow> Inl IndexError | Some (s # _) \<Rightarrow> int16 s)"

text \<open>A call whose result must be 0.\<close>

definition must :: "int \<times> 'k \<Rightarrow> string \<Rightarrow> 'k result" where
  "must rk msg = (case rk of (r, k) \<Rightarrow> if r \<noteq> 0 then Inl (OSError msg) else Inr k)"

definition drop_one :: "'k kernel \<Rightarrow> nat \<Rightarrow> nat \<Rightarrow> 'k \<Rightarrow> 'k result" where
  "drop_one K bounding cap k = (if bit bounding cap
     then must (k_prctl K PR_CAPBSET_DROP cap k) (''cannot drop capability '' @ nat_str cap @ '' from the bounding set'')
     else Inr k)"

definition drop_privileges :: "'k kernel \<Rightarrow> nat \<Rightarrow> nat \<Rightarrow> 'k \<Rightarrow> 'k result" where
  "drop_privileges K uid gid k =
     rbind (last_cap K k) (\<lambda>caps.
     rbind (bounding_set (parse_status (k_status K k))) (\<lambda>bounding.
     rbind (rfold (drop_one K bounding) [0..<caps + 1] k) (\<lambda>k.
     rbind (must (k_prctl K PR_CAP_AMBIENT PR_CAP_AMBIENT_CLEAR_ALL k) ''cannot clear the ambient capability set'') (\<lambda>k.
     rbind (must (clear_inheritable K k) ''cannot clear the inheritable capability set'') (\<lambda>k.
     rbind (k_setgroups K [] k) (\<lambda>k.
     rbind (k_setresgid K gid k) (\<lambda>k.
     rbind (k_setresuid K uid k) (\<lambda>k.
     rbind (must (k_prctl K PR_SET_NO_NEW_PRIVS 1 k) ''cannot set no_new_privs'') (\<lambda>k.
     require (status_problems (parse_status (k_status K k)) uid gid = []) (OSError ''privilege drop not in effect'')
       (Inr k))))))))))"

section \<open>Killing what is left\<close>

text \<open>One entry of \<open>/proc\<close>: its name and its \<open>stat\<close> text, if that can still be read.\<close>

type_synonym listing = "(string \<times> string option) list"

definition after_last :: "char \<Rightarrow> string \<Rightarrow> string" where
  "after_last c s = rev (takeWhile (\<lambda>d. d \<noteq> c) (rev s))"

definition child_pid :: "nat \<Rightarrow> string \<times> string option \<Rightarrow> nat list result" where
  "child_pid parent e = (case e of (name, stat_text) \<Rightarrow>
     if \<not> isdecimal name then Inr []
     else (case stat_text of None \<Rightarrow> Inr []
       | Some t \<Rightarrow> if CHR '')'' \<notin> set t then Inr []
         else (let fs = words (after_last CHR '')'' t) in
           if length fs < 2 then Inl IndexError
           else if \<not> isdecimal (fs ! 1) then Inl (ValueError ''invalid literal for int()'')
           else Inr (if nat_of_digits (fs ! 1) = parent then [nat_of_digits name] else []))))"

definition children :: "nat \<Rightarrow> listing \<Rightarrow> nat list result" where
  "children parent proc = rbind (rmap (child_pid parent) proc) (\<lambda>ls. Inr (concat ls))"

record 'w procs =
  p_listing :: "'w \<Rightarrow> listing"
  p_kill :: "nat \<Rightarrow> 'w \<Rightarrow> 'w result"
  p_wait :: "nat \<Rightarrow> 'w \<Rightarrow> 'w result"
  p_sleep :: "'w \<Rightarrow> 'w"

text \<open>A call whose exception \<open>e\<close> is ignored.\<close>

definition ignoring :: "pyexc \<Rightarrow> ('w \<Rightarrow> 'w result) \<Rightarrow> 'w \<Rightarrow> 'w result" where
  "ignoring e f w = (case f w of Inl x \<Rightarrow> if x = e then Inr w else Inl x | Inr w' \<Rightarrow> Inr w')"

fun kill_leftovers :: "'w procs \<Rightarrow> nat \<Rightarrow> nat \<Rightarrow> 'w \<Rightarrow> 'w result" where
  "kill_leftovers P me 0 w = Inl (Refusal ''descendants of the unprivileged build survived SIGKILL'')"
| "kill_leftovers P me (Suc rounds) w = rbind (children me (p_listing P w)) (\<lambda>left.
     if left = [] then Inr w
     else rbind (rfold (\<lambda>pid. ignoring (OSError ''ProcessLookupError'') (p_kill P pid)) left w) (\<lambda>w.
       rbind (rfold (\<lambda>pid. ignoring (OSError ''ChildProcessError'') (p_wait P pid)) left w) (\<lambda>w.
         kill_leftovers P me rounds (p_sleep P w))))"

definition rounds :: nat where
  "rounds = 50"

section \<open>Running the command\<close>

text \<open>
  \<open>exec k env cmd\<close> is what the child does once it runs \<open>cmd\<close> with credentials \<open>k\<close>: its exit code and the
  processes it leaves, or the error of \<open>exec\<close>. The parent is \<open>k0\<close>, a fork copies it.
\<close>

definition run :: "'k kernel \<Rightarrow> 'w procs \<Rightarrow> ('k \<Rightarrow> env \<Rightarrow> string list \<Rightarrow> (int \<times> 'w) result) \<Rightarrow> nat \<Rightarrow> nat \<Rightarrow>
    env \<Rightarrow> string \<Rightarrow> string list \<Rightarrow> 'k \<Rightarrow> int result" where
  "run K P exec me euid environ work command k0 =
     require (euid = 0) (Refusal ''run must start as root (it is the privilege drop)'')
     (require (command \<noteq> []) (Refusal ''run needs a command after --'')
     (case k_prctl K PR_SET_CHILD_SUBREAPER 1 k0 of (r, k) \<Rightarrow>
       require (r = 0) (Refusal ''cannot become child subreaper'')
       (case drop_privileges K BUILD_UID BUILD_UID k of
          Inl e \<Rightarrow> Inl (Refusal ''the privilege drop failed before exec; nothing ran'')
        | Inr child \<Rightarrow> rbind (exec child (child_env environ work) command) (\<lambda>(exit_code, w).
            rbind (kill_leftovers P me rounds w) (\<lambda>_. Inr exit_code)))))"

section \<open>Walking a file system\<close>

type_synonym entries = "(string \<times> meta) list"

definition entry_of :: "string \<Rightarrow> string \<times> fsnode \<Rightarrow> string \<times> meta" where
  "entry_of base nc = (path_join base (fst nc), f_meta (snd nc))"

text \<open>Directories that \<open>walk\<close> enters: on the device of the top, no mount of \<open>SKIP_TREES\<close>, no link.\<close>

definition enters :: "nat \<Rightarrow> string \<Rightarrow> string \<times> fsnode \<Rightarrow> bool" where
  "enters device base nc \<longleftrightarrow> path_join base (fst nc) \<notin> set SKIP_TREES \<and> m_dev (f_meta (snd nc)) = device
     \<and> m_kind (f_meta (snd nc)) \<noteq> KLink"

function walk :: "nat \<Rightarrow> string \<Rightarrow> fsnode \<Rightarrow> entries \<times> string list" where
  "walk device base (FsNode m d b None) = ([], [base])"
| "walk device base (FsNode m d b (Some ks)) =
     (let below = map (\<lambda>nc. walk device (path_join base (fst nc)) (snd nc)) (filter (enters device base) (subdirs_of ks)) in
      (map (entry_of base) (subdirs_of ks) @ map (entry_of base) (files_of ks) @ concat (map fst below),
       concat (map snd below)))"
  by pat_completeness auto

termination
  by (relation "measure (\<lambda>(_, _, t). size t)") (auto simp: termination_simp)

text \<open>\<open>walk(top)\<close>: the device is that of the top itself.\<close>

definition walk_top :: "string \<Rightarrow> fsnode \<Rightarrow> entries \<times> string list" where
  "walk_top base t = walk (m_dev (f_meta t)) base t"

definition owned_by_build_ids :: "string \<Rightarrow> fsnode \<Rightarrow> nat \<Rightarrow> nat \<Rightarrow> string list" where
  "owned_by_build_ids base t uid gid = map fst (filter (\<lambda>(_, m). m_dev m = m_dev (f_meta t) \<and> (m_uid m = uid \<or> m_gid m = gid))
     (fst (walk_top base t)))"

definition source_problem :: "nat \<times> nat \<Rightarrow> string \<times> meta \<Rightarrow> string list" where
  "source_problem owner pm = (case pm of (p, m) \<Rightarrow>
     if (m_uid m, m_gid m) \<noteq> owner then [p @ '' is owned by '' @ nat_str (m_uid m) @ '':'' @ nat_str (m_gid m)]
     else if m_kind m = KLink then []
     else if go_writable m then [p @ '' is group/other writable'']
     else if \<not> bit (m_mode m) 2 \<or> m_kind m = KDir \<and> \<not> bit (m_mode m) 0 then [p @ '' is not other-readable'']
     else [])"

definition source_problems :: "string \<Rightarrow> fsnode \<Rightarrow> nat \<times> nat \<Rightarrow> string list" where
  "source_problems source t owner = concat (map (source_problem owner) ((source, f_meta t) # fst (walk_top source t)))"

section \<open>Preparing the build tree\<close>

text \<open>
  The work directory is a node whose children \<open>prepare\<close> reads, creates and gives away. \<open>give_away\<close>
  changes the owner of the entries at the paths it is given.
\<close>

fun map_meta :: "(string \<Rightarrow> meta \<Rightarrow> meta) \<Rightarrow> string \<Rightarrow> fsnode \<Rightarrow> fsnode" where
  "map_meta g p (FsNode m d b ks) = FsNode (g p m) d b
     (case ks of None \<Rightarrow> None | Some l \<Rightarrow> Some (map (\<lambda>(n, c). (n, map_meta g (path_join p n) c)) l))"

definition give_away :: "nat \<Rightarrow> nat \<Rightarrow> string set \<Rightarrow> string \<Rightarrow> fsnode \<Rightarrow> fsnode" where
  "give_away uid gid ps = map_meta (\<lambda>p m. if p \<in> ps then m\<lparr>m_uid := uid, m_gid := gid\<rparr> else m)"

definition root_dir :: "nat \<times> nat \<Rightarrow> meta \<Rightarrow> bool" where
  "root_dir owner m \<longleftrightarrow> (m_uid m, m_gid m) = owner \<and> \<not> go_writable m \<and> m_kind m = KDir"

definition check_readonly :: "string \<Rightarrow> fsnode \<Rightarrow> nat \<times> nat \<Rightarrow> string \<Rightarrow> unit result" where
  "check_readonly work t owner tree = (case kid tree t of
       None \<Rightarrow> Inl FileNotFoundError
     | Some c \<Rightarrow> require (source_problems (path_join work tree) c owner = [])
         (Refusal (READONLY_LABEL tree @ '' is not root-owned read-only'')) (Inr ()))"

definition check_scratch :: "profile \<Rightarrow> fsnode \<Rightarrow> string \<Rightarrow> unit result" where
  "check_scratch pf t name = require (name \<in> set (pf_fresh pf) \<or> (case kid name t of None \<Rightarrow> False | Some c \<Rightarrow> m_kind (f_meta c) = KDir))
     (Refusal (''the allowlisted cargo home is not a directory: '' @ name)) (Inr ())"

definition make_fresh :: "string \<Rightarrow> fsnode \<Rightarrow> fsnode result" where
  "make_fresh name t = require (kid name t = None) (Refusal (''scratch directory already exists: '' @ name))
     (Inr (add_kid name (new_dir (f_meta t)) t))"

definition scratch_entries :: "string \<Rightarrow> fsnode \<Rightarrow> string \<Rightarrow> entries" where
  "scratch_entries work t name = (case kid name t of None \<Rightarrow> []
     | Some c \<Rightarrow> (path_join work name, f_meta c) # fst (walk_top (path_join work name) c))"

definition hand_over :: "string \<Rightarrow> nat \<Rightarrow> nat \<Rightarrow> string \<Rightarrow> fsnode \<Rightarrow> fsnode result" where
  "hand_over work uid gid name t = (let es = scratch_entries work t name in
     require (list_all (\<lambda>(_, m). m_kind m = KDir \<or> m_kind m = KReg) es)
       (Refusal ''scratch entry is not a regular file or directory'')
       (Inr (give_away uid gid (fst ` set es) work t)))"

definition prepare :: "string \<Rightarrow> meta \<Rightarrow> fsnode \<Rightarrow> fsnode \<Rightarrow> nat \<Rightarrow> nat \<Rightarrow> nat \<times> nat \<Rightarrow> string \<Rightarrow> fsnode result" where
  "prepare work parent t everything uid gid owner profile_name =
     rbind (profile_of profile_name) (\<lambda>pf.
     rbind (rall (\<lambda>m. require (root_dir owner m) (Refusal ''must be a root-owned directory without group/other write'') (Inr ()))
        [parent, f_meta t]) (\<lambda>_.
     rbind (rall (check_readonly work t owner) (pf_readonly pf)) (\<lambda>_.
     require (owned_by_build_ids ''/'' everything uid gid = []) (Refusal ''paths already owned by the build ids before the build'')
     (rbind (rall (check_scratch pf t) (pf_scratch pf)) (\<lambda>_.
      rbind (rfold make_fresh (pf_fresh pf) t) (\<lambda>t.
      rfold (hand_over work uid gid) (pf_scratch pf) t))))))"

section \<open>Trying to break out\<close>

text \<open>What the kernel answers this user: \<open>None\<close> is success, otherwise errno and the error's text.\<close>

type_synonym answer = "(nat \<times> string) option"

record access =
  a_lexists :: "string \<Rightarrow> bool"
  a_append :: "string \<Rightarrow> answer"
  a_create :: "string \<Rightarrow> answer"
  a_read :: "string \<Rightarrow> answer"
  a_writable :: "string \<Rightarrow> bool"
  a_isdir :: "string \<Rightarrow> bool"

definition DENIED :: "nat set" where
  "DENIED = {13, 1, 30}"

definition dirname :: "string \<Rightarrow> string" where
  "dirname p = (let head = rev (dropWhile (\<lambda>c. c \<noteq> CHR ''/'') (rev p)) in
     if list_all (\<lambda>c. c = CHR ''/'') head then head
     else rev (dropWhile (\<lambda>c. c = CHR ''/'') (rev head)))"

definition absent :: string where
  "absent = ''absent''"

text \<open>\<open>probe\<close>: nothing if the write was refused.\<close>

definition denied :: "string \<Rightarrow> answer \<Rightarrow> string \<Rightarrow> string option" where
  "denied p r success = (case r of None \<Rightarrow> Some success
     | Some (e, msg) \<Rightarrow> if e \<in> DENIED then None else Some (p @ '': '' @ msg))"

definition probe :: "access \<Rightarrow> probe_kind \<times> string \<Rightarrow> string option" where
  "probe A kp = (case kp of (kind0, p) \<Rightarrow>
     (let knd = (if kind0 = File \<and> a_lexists A p then Append else kind0);
          target = (if knd = File then p else path_join p ''.unpriv-write-probe'') in
      if \<not> a_lexists A (if knd = File then dirname p else p) then Some absent
      else if knd = Append then denied p (a_append A p) (''opened for writing: '' @ p)
      else denied p (a_create A target) (''created '' @ target)))"

definition unreadable :: "access \<Rightarrow> string \<Rightarrow> string option" where
  "unreadable A p = map_option (\<lambda>(_, msg). ''input is not readable: '' @ p @ '' ('' @ msg @ '')'') (a_read A p)"

definition under :: "string \<Rightarrow> string \<Rightarrow> bool" where
  "under p base \<longleftrightarrow> p = base \<or> startswith p (base @ ''/'')"

definition writable_outside :: "access \<Rightarrow> string \<Rightarrow> fsnode \<Rightarrow> string list \<Rightarrow> nat \<Rightarrow> string list \<times> string list" where
  "writable_outside A base t allowed uid = (case walk_top base t of (es, unlistable) \<Rightarrow>
     (map fst (filter (\<lambda>(p, m). \<not> (list_ex (under p) allowed \<or> m_kind m = KLink) \<and>
        (let sticky = (m_kind m = KDir \<and> bit (m_mode m) 9); owned = (m_dev m = m_dev (f_meta t) \<and> m_uid m = uid) in
         owned \<or> \<not> sticky \<and> a_writable A p)) es), unlistable))"

text \<open>\<open>s.replace(old, new, 1)\<close>\<close>

fun replace_first :: "string \<Rightarrow> string \<Rightarrow> string \<Rightarrow> string" where
  "replace_first old new [] = []"
| "replace_first old new (c # s) = (if startswith (c # s) old then new @ drop (length old) (c # s)
     else c # replace_first old new s)"

definition sub_paths :: "string \<Rightarrow> string \<Rightarrow> string \<Rightarrow> string" where
  "sub_paths work factory p = replace_first ''FACTORY'' factory (replace_first ''WORK'' work p)"

record check_report =
  cr_absent :: "string list"
  cr_denied :: "string list"
  cr_unlistable :: "string list"

definition all_probes :: "string \<Rightarrow> string \<Rightarrow> profile \<Rightarrow> (probe_kind \<times> string) list" where
  "all_probes work factory pf = map (apsnd (sub_paths work factory)) (PROBES @ pf_probes pf)"

definition probe_problems :: "access \<Rightarrow> (probe_kind \<times> string) list \<Rightarrow> string list" where
  "probe_problems A ps = List.map_filter (\<lambda>kp. case probe A kp of None \<Rightarrow> None
     | Some r \<Rightarrow> if r = [] \<or> r = absent then None
         else Some (''write to a root-owned path did not fail: '' @ r)) ps"

definition scratch_problems :: "access \<Rightarrow> string list \<Rightarrow> string list" where
  "scratch_problems A dirs = map (\<lambda>d. ''scratch dir is not writable: '' @ d)
     (filter (\<lambda>d. \<not> startswith (case probe A (Create, d) of None \<Rightarrow> [] | Some r \<Rightarrow> r) ''created '') dirs)"

definition path_problems :: "access \<Rightarrow> string list" where
  "path_problems A = map (\<lambda>d. ''PATH dir is writable: '' @ d)
     (filter (\<lambda>d. a_isdir A d \<and> a_writable A d) (split_on CHR '':'' PATH))"

definition selfcheck :: "access \<Rightarrow> string \<Rightarrow> string \<Rightarrow> string \<Rightarrow> fsnode \<Rightarrow> nat \<Rightarrow> nat \<Rightarrow> string \<Rightarrow> check_report result" where
  "selfcheck A status_text work factory everything uid gid profile_name =
     rbind (profile_of profile_name) (\<lambda>pf.
     (let probes = all_probes work factory pf;
          scratch = map (path_join work) (pf_scratch pf);
          (writable, unlistable) = writable_outside A ''/'' everything scratch uid;
          problems = status_problems (parse_status status_text) uid gid
            @ probe_problems A probes
            @ List.map_filter (\<lambda>p. unreadable A (sub_paths work factory p)) (pf_readable pf)
            @ scratch_problems A scratch
            @ path_problems A
            @ (if writable = [] then [] else [''writable or owned outside the scratch dirs: '' @ join '', '' (take 20 writable)]) in
      require (problems = []) (Refusal (join ''; '' problems))
        (Inr \<lparr>cr_absent = map snd (filter (\<lambda>kp. probe A kp = Some absent) probes),
              cr_denied = map snd (filter (\<lambda>kp. probe A kp \<noteq> Some absent) probes),
              cr_unlistable = take 20 unlistable\<rparr>)))"

end
