(* ===== verification/UnprivProofs.thy ===== *)
theory UnprivProofs
  imports Unpriv
begin

text \<open>
  Proofs about \<^verbatim>\<open>build_files/firewall/snitchwatch-system-unpriv.py\<close>: what a finished \<open>run\<close> implies, the end of
  the kill loop (a locale over the process table, interpreted on the process forest of a subreaper), the
  effect of the drop on Linux credentials, the trees after \<open>prepare\<close>, and what a passed self check means.
\<close>

section \<open>Running\<close>

definition confined :: "'k kernel \<Rightarrow> 'k \<Rightarrow> bool" where
  "confined K k \<longleftrightarrow> list_all (\<lambda>(name, v). map_of (parse_status (k_status K k)) name = Some v) (wanted BUILD_UID BUILD_UID)"

definition clean_env :: "string \<Rightarrow> env \<Rightarrow> bool" where
  "clean_env work env \<longleftrightarrow> list_all (\<lambda>v. map_of env v = None) DROPPED_ENV \<and> map_of env ''PATH'' = Some PATH
     \<and> map_of env ''HOME'' = Some (path_join work ''home'')"

lemma status_problems_Nil: "status_problems st uid gid = [] \<longleftrightarrow> list_all (\<lambda>(name, v). map_of st name = Some v) (wanted uid gid)"
  by (auto simp: status_problems_def filter_empty_conv list_all_iff)

lemma drop_confined: "drop_privileges K BUILD_UID BUILD_UID k = Inr k' \<Longrightarrow> confined K k'"
  by (auto simp: drop_privileges_def res_simps confined_def status_problems_Nil)

lemma map_of_filter_out: "map_of (filter (\<lambda>p. fst p \<notin> A) d) k = (if k \<in> A then None else map_of d k)"
  by (induction d) auto

lemma child_env_clean: "clean_env work (child_env environ work)"
proof -
  have "''HOME'' \<notin> set DROPPED_ENV" "''PATH'' \<notin> set DROPPED_ENV" by (simp_all add: DROPPED_ENV_def)
  moreover have "map_of (child_env environ work) v = (if v = ''HOME'' then Some (path_join work ''home'')
      else if v = ''PATH'' then Some PATH else if v \<in> set DROPPED_ENV then None else map_of environ v)" for v
    by (simp add: child_env_def map_of_filter_out)
  ultimately show ?thesis by (auto simp: clean_env_def list_all_iff)
qed

lemma kill_leftovers_empty: "kill_leftovers P me n w = Inr w' \<Longrightarrow> children me (p_listing P w') = Inr []"
  by (induction P me n w rule: kill_leftovers.induct) (auto simp: res_simps split: if_splits)

section \<open>The leftovers\<close>

text \<open>
  What the loop relies on: a state has a depth, a listing of depth 0 has no children, and killing and
  reaping the children lowers the depth.
\<close>

definition kill_round :: "'w procs \<Rightarrow> nat list \<Rightarrow> 'w \<Rightarrow> 'w result" where
  "kill_round P pids w = rbind (rfold (\<lambda>pid. ignoring (OSError ''ProcessLookupError'') (p_kill P pid)) pids w) (\<lambda>w.
     rbind (rfold (\<lambda>pid. ignoring (OSError ''ChildProcessError'') (p_wait P pid)) pids w) (\<lambda>w. Inr (p_sleep P w)))"

locale reaper =
  fixes P :: "'w procs" and me :: nat and ok :: "'w \<Rightarrow> bool" and depth :: "'w \<Rightarrow> nat" and pids :: "'w \<Rightarrow> nat list"
  assumes listed: "ok w \<Longrightarrow> children me (p_listing P w) = Inr (pids w)"
    and deep: "ok w \<Longrightarrow> pids w = [] \<longleftrightarrow> depth w = 0"
    and reaped: "ok w \<Longrightarrow> pids w \<noteq> [] \<Longrightarrow> \<exists>w'. kill_round P (pids w) w = Inr w' \<and> ok w' \<and> depth w' < depth w"
begin

lemma ends: "ok w \<Longrightarrow> depth w < n \<Longrightarrow> \<exists>w'. kill_leftovers P me n w = Inr w' \<and> ok w' \<and> depth w' = 0"
proof (induction n arbitrary: w)
  case (Suc n)
  show ?case
  proof (cases "pids w = []")
    case True
    then show ?thesis using Suc.prems listed deep by simp
  next
    case False
    with reaped [OF Suc.prems(1)] obtain w' where w': "kill_round P (pids w) w = Inr w'" "ok w'" "depth w' < depth w" by blast
    then obtain v where "kill_leftovers P me n w' = Inr v" "ok v" "depth v = 0"
      using Suc.IH [of w'] Suc.prems(2) by auto
    then show ?thesis using w'(1) False listed [OF Suc.prems(1)]
      by (auto simp: kill_round_def res_simps)
  qed
qed simp

end

section \<open>The process table of Linux\<close>

text \<open>
  The descendants of a subreaper: a forest. A reaped process leaves its children to the subreaper. The
  command name in a \<open>stat\<close> text is whatever the process chose.
\<close>

datatype process = Process nat string (offspring: "process list")

primrec pid_of :: "process \<Rightarrow> nat" where
  "pid_of (Process p c ks) = p"

fun tree_depth :: "process \<Rightarrow> nat" and forest_depth :: "process list \<Rightarrow> nat" where
  "tree_depth (Process p c ks) = Suc (forest_depth ks)"
| "forest_depth [] = 0"
| "forest_depth (t # ts) = max (tree_depth t) (forest_depth ts)"

definition stat_text :: "nat \<Rightarrow> string \<Rightarrow> nat \<Rightarrow> string" where
  "stat_text p c parent = nat_str p @ '' ('' @ c @ '') S '' @ nat_str parent @ '' 0 0''"

fun tree_listing :: "nat \<Rightarrow> process \<Rightarrow> listing" and forest_listing :: "nat \<Rightarrow> process list \<Rightarrow> listing" where
  "tree_listing parent (Process p c ks) = (nat_str p, Some (stat_text p c parent)) # forest_listing p ks"
| "forest_listing parent [] = []"
| "forest_listing parent (t # ts) = tree_listing parent t @ forest_listing parent ts"

fun tree_pids :: "process \<Rightarrow> nat list" and forest_pids :: "process list \<Rightarrow> nat list" where
  "tree_pids (Process p c ks) = p # forest_pids ks"
| "forest_pids [] = []"
| "forest_pids (t # ts) = tree_pids t @ forest_pids ts"

definition reap :: "nat \<Rightarrow> process list \<Rightarrow> process list" where
  "reap pid ts = concat (map (\<lambda>t. if pid_of t = pid then offspring t else [t]) ts)"

definition linux_procs :: "nat \<Rightarrow> process list procs" where
  "linux_procs me = \<lparr>p_listing = \<lambda>ts. (nat_str me, Some (stat_text me ''unpriv'' 1)) # forest_listing me ts,
     p_kill = \<lambda>_ ts. Inr ts,
     p_wait = \<lambda>pid ts. if pid \<in> set (map pid_of ts) then Inr (reap pid ts) else Inl (OSError ''ChildProcessError''),
     p_sleep = \<lambda>ts. ts\<rparr>"

definition forest_ok :: "nat \<Rightarrow> process list \<Rightarrow> bool" where
  "forest_ok me ts \<longleftrightarrow> distinct (forest_pids ts) \<and> me \<notin> set (forest_pids ts) \<and> me \<noteq> 1"


lemma isdecimal_no: "isdecimal s \<Longrightarrow> c \<in> set s \<Longrightarrow> is_digit c"
  by (auto simp: isdecimal_def list_all_iff)

lemma after_last_append: "c \<notin> set r \<Longrightarrow> after_last c (s @ c # r) = r"
  by (simp add: after_last_def takeWhile_append takeWhile_eq_all_conv [THEN iffD2])

lemma stat_fields: "words ('' S '' @ nat_str q @ '' 0 0'') = [''S'', nat_str q, ''0'', ''0'']"
  using words_word [of "nat_str q" "CHR '' ''" "''0 0''"] nat_str_not_space [of q]
    words_word [of "''S''" "CHR '' ''" "nat_str q @ '' 0 0''"] words_word [of "''0''" "CHR '' ''" "''0''"] words_one [of "''0''"]
  by (simp add: is_space_def code_def)

lemma stat_parse: "child_pid parent (nat_str p, Some (stat_text p c q)) = Inr (if q = parent then [p] else [])"
proof -
  have "CHR '')'' \<notin> set ('' S '' @ nat_str q @ '' 0 0'')"
    using isdecimal_no [OF isdecimal_nat_str, of "CHR '')''" q] by (auto simp: is_digit_def code_def)
  then have "after_last CHR '')'' (stat_text p c q) = '' S '' @ nat_str q @ '' 0 0''"
    using after_last_append [of _ _ "nat_str p @ '' ('' @ c"] by (simp add: stat_text_def)
  moreover have "CHR '')'' \<in> set (stat_text p c q)" by (simp add: stat_text_def)
  ultimately have "child_pid parent (nat_str p, Some (stat_text p c q)) = Inr (if nat_of_digits (nat_str q) = parent then [nat_of_digits (nat_str p)] else [])"
    by (simp only: child_pid_def prod.case option.case stat_fields Let_def) simp
  then show ?thesis by simp
qed

lemma children_Cons: "children q (e # l) = rbind (child_pid q e) (\<lambda>a. rbind (children q l) (\<lambda>b. Inr (a @ b)))"
  by (cases "child_pid q e"; cases "rmap (child_pid q) l") (simp_all add: children_def)

lemma children_Nil: "children q [] = Inr []"
  by (simp add: children_def)

lemma children_append: "children q (l @ l') = rbind (children q l) (\<lambda>a. rbind (children q l') (\<lambda>b. Inr (a @ b)))"
proof (induction l)
  case Nil
  then show ?case by (cases "children q l'") (simp_all add: children_Nil)
next
  case (Cons e l)
  then show ?case by (simp add: children_Cons rbind_assoc)
qed

lemma forest_children:
  "q \<notin> set (tree_pids t) \<Longrightarrow> children q (tree_listing r t) = Inr (if r = q then [pid_of t] else [])"
  "q \<notin> set (forest_pids ts) \<Longrightarrow> children q (forest_listing r ts) = Inr (if r = q then map pid_of ts else [])"
  by (induction r t and r ts rule: tree_listing_forest_listing.induct)
     (auto simp: children_Cons children_append children_Nil stat_parse)

lemma linux_listed: "forest_ok me ts \<Longrightarrow> children me (p_listing (linux_procs me) ts) = Inr (map pid_of ts)"
  by (simp add: linux_procs_def forest_ok_def children_Cons stat_parse forest_children)

lemma forest_pids_append [simp]: "forest_pids (ts @ us) = forest_pids ts @ forest_pids us"
  by (induction ts) simp_all

lemma pid_in_forest: "pid_of t \<in> set (tree_pids t)"
  by (cases t) simp

lemma pids_in_forest: "set (map pid_of ts) \<subseteq> set (forest_pids ts)"
  using pid_in_forest by (induction ts) auto

lemma reap_other: "pid \<notin> set (map pid_of ts) \<Longrightarrow> reap pid ts = ts"
  by (induction ts) (simp_all add: reap_def)

lemma wait_all:
  assumes "distinct (forest_pids (us @ ts))"
  shows "rfold (\<lambda>pid. ignoring (OSError ''ChildProcessError'') (p_wait (linux_procs me) pid)) (map pid_of ts) (us @ ts) =
    Inr (us @ concat (map offspring ts))"
  using assms
proof (induction ts arbitrary: us)
  case (Cons t ts)
  obtain p c ks where t: "t = Process p c ks" by (cases t)
  have "p \<notin> set (map pid_of us)" "p \<notin> set (map pid_of ts)"
    using Cons.prems pids_in_forest [of us] pids_in_forest [of ts] by (auto simp: t)
  then have r: "reap p (us @ t # ts) = (us @ ks) @ ts"
    using reap_other [of p us] reap_other [of p ts] by (simp add: reap_def t)
  have "distinct (forest_pids ((us @ ks) @ ts))" using Cons.prems by (auto simp: t)
  from Cons.IH [OF this] show ?case by (simp add: linux_procs_def ignoring_def t r [unfolded t])
qed simp

lemma kill_all: "rfold (\<lambda>pid. ignoring e (p_kill (linux_procs me) pid)) pids ts = Inr ts"
  by (induction pids) (simp_all add: linux_procs_def ignoring_def)

lemma offspring_pids: "set (forest_pids (concat (map offspring ts))) \<subseteq> set (forest_pids ts)"
proof (induction ts)
  case (Cons t ts)
  then show ?case by (cases t) auto
qed simp

lemma offspring_distinct: "distinct (forest_pids ts) \<Longrightarrow> distinct (forest_pids (concat (map offspring ts)))"
proof (induction ts)
  case (Cons t ts)
  then show ?case using offspring_pids [of ts] by (cases t) auto
qed simp

lemma forest_depth_append [simp]: "forest_depth (ts @ us) = max (forest_depth ts) (forest_depth us)"
  by (induction ts) simp_all

lemma offspring_depth: "forest_depth (concat (map offspring ts)) = forest_depth ts - 1"
proof (induction ts)
  case (Cons t ts)
  then show ?case by (cases t) auto
qed simp

interpretation linux: reaper "linux_procs me" me "forest_ok me" forest_depth "map pid_of" for me
proof (unfold_locales, goal_cases)
  case (1 w)
  then show ?case by (rule linux_listed)
next
  case (2 w)
  show ?case by (cases w; cases "hd w") auto
next
  case (3 w)
  then have d: "distinct (forest_pids ([] @ w))" by (simp add: forest_ok_def)
  have "kill_round (linux_procs me) (map pid_of w) w = Inr (concat (map offspring w))"
    using wait_all [OF d] kill_all by (simp add: kill_round_def) (simp add: linux_procs_def)
  moreover have "forest_ok me (concat (map offspring w))"
    using 3 offspring_pids [of w] offspring_distinct [of w] by (auto simp: forest_ok_def)
  moreover have "forest_depth w \<noteq> 0" using 3 by (cases w; cases "hd w") auto
  ultimately show ?case by (simp add: offspring_depth)
qed

lemma leftovers_linux:
  assumes "forest_ok me ts" "forest_depth ts < rounds"
  shows "kill_leftovers (linux_procs me) me rounds ts = Inr []"
proof -
  obtain w' where w: "kill_leftovers (linux_procs me) me rounds ts = Inr w'" "forest_depth w' = 0"
    using linux.ends [OF assms] by blast
  then have "w' = []" by (cases w'; cases "hd w'") auto
  with w show ?thesis by simp
qed

section \<open>The credentials of Linux\<close>

text \<open>
  The documented rules of capabilities(7) and credentials(7): the calls need their capability in the
  effective set, and giving up user 0 in all three ids clears the permitted, effective and ambient sets.
\<close>

record linux =
  l_uids :: "nat list"
  l_gids :: "nat list"
  l_groups :: "nat list"
  l_inh :: "64 word"
  l_prm :: "64 word"
  l_eff :: "64 word"
  l_bnd :: "64 word"
  l_amb :: "64 word"
  l_nnp :: bool

definition CAP_LAST_CAP :: nat where "CAP_LAST_CAP = 40"
definition CAP_SETGID :: nat where "CAP_SETGID = 6"
definition CAP_SETUID :: nat where "CAP_SETUID = 7"
definition CAP_SETPCAP :: nat where "CAP_SETPCAP = 8"

definition hex16 :: "64 word \<Rightarrow> string" where
  "hex16 w = map (\<lambda>i. hex_char (unat w div 16 ^ i mod 16)) (rev [0..<16])"

definition status_fields :: "linux \<Rightarrow> (string \<times> string) list" where
  "status_fields s = [(''Name'', ''python3''), (''Uid'', join [tab] (map nat_str (l_uids s))), (''Gid'', join [tab] (map nat_str (l_gids s))),
     (''Groups'', join '' '' (map nat_str (l_groups s))), (''CapInh'', hex16 (l_inh s)), (''CapPrm'', hex16 (l_prm s)),
     (''CapEff'', hex16 (l_eff s)), (''CapBnd'', hex16 (l_bnd s)), (''CapAmb'', hex16 (l_amb s)),
     (''NoNewPrivs'', if l_nnp s then ''1'' else ''0''), (''Seccomp'', ''0'')]"

definition status_lines :: "linux \<Rightarrow> string list" where
  "status_lines s = map (\<lambda>(n, v). n @ CHR '':'' # tab # v) (status_fields s)"

definition linux_prctl :: "nat \<Rightarrow> nat \<Rightarrow> linux \<Rightarrow> int \<times> linux" where
  "linux_prctl opt arg s =
     (if opt = PR_CAPBSET_DROP then
        if bit (l_eff s) CAP_SETPCAP \<and> arg \<le> CAP_LAST_CAP then (0, s\<lparr>l_bnd := unset_bit arg (l_bnd s)\<rparr>) else (-1, s)
      else if opt = PR_CAP_AMBIENT then if arg = PR_CAP_AMBIENT_CLEAR_ALL then (0, s\<lparr>l_amb := 0\<rparr>) else (-1, s)
      else if opt = PR_SET_NO_NEW_PRIVS then if arg = 1 then (0, s\<lparr>l_nnp := True\<rparr>) else (-1, s)
      else if opt = PR_SET_CHILD_SUBREAPER then (0, s)
      else (-1, s))"

definition low :: "64 word \<Rightarrow> 32 word" where "low w = ucast w"
definition high :: "64 word \<Rightarrow> 32 word" where "high w = ucast (drop_bit 32 w)"
definition both :: "32 word \<Rightarrow> 32 word \<Rightarrow> 64 word" where "both l h = ucast l OR push_bit 32 (ucast h)"

definition linux_capget :: "linux \<Rightarrow> int \<times> cap_half list" where
  "linux_capget s = (0, [\<lparr>ch_effective = low (l_eff s), ch_permitted = low (l_prm s), ch_inheritable = low (l_inh s)\<rparr>,
     \<lparr>ch_effective = high (l_eff s), ch_permitted = high (l_prm s), ch_inheritable = high (l_inh s)\<rparr>])"

definition linux_capset :: "cap_half list \<Rightarrow> linux \<Rightarrow> int \<times> linux" where
  "linux_capset hs s = (case hs of
       [l, h] \<Rightarrow> (let e = both (ch_effective l) (ch_effective h); p = both (ch_permitted l) (ch_permitted h);
              i = both (ch_inheritable l) (ch_inheritable h) in
         if p AND NOT (l_prm s) = 0 \<and> e AND NOT p = 0 \<and> i AND NOT (l_inh s OR l_prm s) = 0
         then (0, s\<lparr>l_eff := e, l_prm := p, l_inh := i, l_amb := l_amb s AND p AND i\<rparr>) else (-1, s))
     | _ \<Rightarrow> (-1, s))"

definition linux_kernel :: "linux kernel" where
  "linux_kernel = \<lparr>k_prctl = linux_prctl, k_capget = linux_capget, k_capset = linux_capset,
     k_setgroups = \<lambda>gs s. if bit (l_eff s) CAP_SETGID then Inr (s\<lparr>l_groups := gs\<rparr>) else Inl (OSError ''EPERM''),
     k_setresgid = \<lambda>g s. if bit (l_eff s) CAP_SETGID then Inr (s\<lparr>l_gids := replicate 4 g\<rparr>) else Inl (OSError ''EPERM''),
     k_setresuid = \<lambda>u s. if bit (l_eff s) CAP_SETUID then Inr (if 0 \<in> set (l_uids s) \<and> u \<noteq> 0
         then s\<lparr>l_uids := replicate 4 u, l_prm := 0, l_eff := 0, l_amb := 0\<rparr> else s\<lparr>l_uids := replicate 4 u\<rparr>)
       else Inl (OSError ''EPERM''),
     k_status = \<lambda>s. concat (map (\<lambda>l. l @ [newline]) (status_lines s)),
     k_last_cap = \<lambda>_. nat_str CAP_LAST_CAP @ [newline]\<rparr>"

definition dropped_state :: linux where
  "dropped_state = \<lparr>l_uids = replicate 4 BUILD_UID, l_gids = replicate 4 BUILD_UID, l_groups = [], l_inh = 0, l_prm = 0,
     l_eff = 0, l_bnd = 0, l_amb = 0, l_nnp = True\<rparr>"

text \<open>A process that can drop its privileges: effective user 0 with the three capabilities it needs.\<close>

definition may_drop :: "linux \<Rightarrow> bool" where
  "may_drop s \<longleftrightarrow> 0 \<in> set (l_uids s) \<and> list_all (bit (l_eff s)) [CAP_SETGID, CAP_SETUID, CAP_SETPCAP] \<and>
     l_eff s AND NOT (l_prm s) = 0 \<and> drop_bit (Suc CAP_LAST_CAP) (l_bnd s) = 0"

lemma both_low_high [simp]: "both (low w) (high w) = w"
  by (rule bit_word_eqI) (auto simp: both_def low_def high_def bit_simps)

lemma both_0 [simp]: "both 0 0 = 0"
  by (simp add: both_def)

lemma and_not_self [simp]: "w AND NOT w = (0 :: 64 word)"
  by (rule bit_word_eqI) (simp add: bit_simps)

lemma clear_inheritable_linux:
  "l_eff s AND NOT (l_prm s) = 0 \<Longrightarrow> clear_inheritable linux_kernel s = (0, s\<lparr>l_inh := 0, l_amb := 0\<rparr>)"
  by (simp add: clear_inheritable_def linux_kernel_def linux_capget_def linux_capset_def)

lemma bit_unat: "bit (unat (w :: 64 word)) n = bit w n"
  by (simp add: bit_unsigned_iff)

lemma drop_bounding:
  assumes "bit (l_eff s) CAP_SETPCAP" "n \<le> Suc CAP_LAST_CAP"
  shows "rfold (drop_one linux_kernel (unat (l_bnd s))) [0..<n] s = Inr (s\<lparr>l_bnd := l_bnd s AND NOT (mask n)\<rparr>)"
  using assms(2)
proof (induction n)
  case (Suc n)
  have "unset_bit n (l_bnd s AND NOT (mask n)) = l_bnd s AND NOT (mask (Suc n))"
    by (rule bit_word_eqI) (auto simp: bit_simps less_Suc_eq)
  moreover have "l_bnd s AND NOT (mask (Suc n)) = l_bnd s AND NOT (mask n)" if "\<not> bit (l_bnd s) n"
    using that by (intro bit_word_eqI) (auto simp: bit_simps less_Suc_eq)
  ultimately show ?case using Suc assms(1)
    by (simp add: rfold_append drop_one_def bit_unat must_def linux_kernel_def linux_prctl_def)
qed simp

lemma bounding_empty:
  assumes "drop_bit n w = (0 :: 64 word)"
  shows "w AND NOT (mask n) = 0"
proof (rule bit_word_eqI)
  fix i
  have "bit (drop_bit n w) (i - n) \<longleftrightarrow> bit (0 :: 64 word) (i - n)" by (simp only: assms)
  then show "bit (w AND NOT (mask n)) i = bit (0 :: 64 word) i" by (cases "i < n") (simp_all add: bit_simps)
qed

section \<open>Reading the status back\<close>

lemma hex_char_cases: "d < 16 \<Longrightarrow> is_hex (hex_char d) \<and> (if is_digit (hex_char d) then code (hex_char d) - 48 else code (hex_char d) - 87) = d"
  by (auto simp: hex_char_def is_hex_def is_digit_def code_def)

lemma nat_of_hex_digits: "nat_of_hex (map (\<lambda>i. hex_char (n div 16 ^ i mod 16)) (rev [0..<k])) = n mod 16 ^ k"
proof -
  have "foldl (\<lambda>n c. 16 * n + (if is_digit c then code c - 48 else code c - 87)) a (map (\<lambda>i. hex_char (n div 16 ^ i mod 16)) (rev [0..<k]))
      = a * 16 ^ k + n mod 16 ^ k" for a
  proof (induction k arbitrary: a)
    case (Suc k)
    let ?d = "n div 16 ^ k mod 16"
    have "n mod 16 ^ Suc k = 16 ^ k * ?d + n mod 16 ^ k"
      by (metis mod_mult2_eq mult.commute power_Suc)
    then have "(16 * a + ?d) * 16 ^ k + n mod 16 ^ k = a * 16 ^ Suc k + n mod 16 ^ Suc k"
      by (simp add: algebra_simps)
    then show ?case using hex_char_cases [of ?d] Suc.IH [of "16 * a + ?d"] by simp
  qed simp
  then show ?thesis by (simp add: nat_of_hex_def)
qed

lemma int16_hex16 [simp]: "int16 (hex16 w) = Inr (unat w)"
proof -
  have "unat w < 2 ^ LENGTH(64)" by (rule unsigned_less)
  then have "unat w < 16 ^ 16" by simp
  then have "nat_of_hex (hex16 w) = unat w" by (simp only: hex16_def nat_of_hex_digits mod_less)
  moreover have "list_all is_hex (hex16 w)" by (simp add: hex16_def list_all_iff hex_char_cases)
  moreover have "hex16 w \<noteq> []" by (simp add: hex16_def)
  ultimately show ?thesis by (simp add: int16_def)
qed


lemma status_line_eq: "CHR '':'' \<notin> set n \<Longrightarrow>
    status_line (n @ CHR '':'' # v) st = (if n \<in> set STATUS_FIELDS then dict_set n (words v) st else st)"
  by (simp add: status_line_def partition_on_append)

definition printable :: "string \<Rightarrow> bool" where
  "printable s \<longleftrightarrow> list_all (\<lambda>c. \<not> is_line_end c) s"

lemma printable_append [simp]: "printable (s @ t) \<longleftrightarrow> printable s \<and> printable t"
  by (auto simp: printable_def)

lemma printable_Cons [simp]: "printable (c # t) \<longleftrightarrow> \<not> is_line_end c \<and> printable t"
  by (auto simp: printable_def)

lemma printable_Nil [simp]: "printable []"
  by (simp add: printable_def)

lemma printable_join: "printable sep \<Longrightarrow> list_all printable ss \<Longrightarrow> printable (join sep ss)"
  by (induction sep ss rule: join.induct) simp_all

lemma digit_not_line_end: "is_digit c \<Longrightarrow> \<not> is_line_end c"
  by (auto simp: is_digit_def is_line_end_def)

lemma hex_not_space: "is_hex c \<Longrightarrow> \<not> is_space c \<and> \<not> is_line_end c"
  by (auto simp: is_hex_def is_digit_def is_line_end_def is_space_def)

lemma hex16_chars: "list_all is_hex (hex16 w)"
  by (simp add: hex16_def list_all_iff hex_char_cases)

lemma printable_values [simp]: "printable (nat_str n)" "printable (hex16 w)"
  using nat_str_digits [of n] hex16_chars [of w] by (auto simp: printable_def list_all_iff digit_not_line_end hex_not_space)

lemma printable_nums: "printable sep \<Longrightarrow> printable (join sep (map nat_str ns))"
  by (rule printable_join) (simp_all add: list_all_iff)

lemma printable_status: "\<forall>l\<in>set (status_lines s). printable l"
proof -
  have "printable [tab]" "printable '' ''" "printable [CHR '':'', tab]" by (simp_all add: is_line_end_def code_def tab_def)
  moreover from this have "printable (join [tab] (map nat_str ns))" "printable (join '' '' (map nat_str ns))" for ns
    by (simp_all only: printable_nums)
  moreover have "list_all (printable \<circ> fst) (status_fields s)"
    by (simp add: status_fields_def is_line_end_def code_def)
  ultimately have "list_all (\<lambda>(n, v). printable n \<and> printable v) (status_fields s)"
    by (simp add: status_fields_def is_line_end_def code_def)
  then show ?thesis using \<open>printable [CHR '':'', tab]\<close> by (auto simp: status_lines_def list_all_iff)
qed

lemma parse_status_linux: "parse_status (k_status linux_kernel s) = fold status_line (status_lines s) []"
proof -
  have "splitlines (concat (map (\<lambda>l. l @ [newline]) (status_lines s))) = status_lines s"
    using printable_status [of s] by (intro splitlines_lines) (auto simp: printable_def list_all_iff)
  then show ?thesis by (simp add: parse_status_def linux_kernel_def)
qed

lemma words_hex16: "words (tab # hex16 w) = [hex16 w]"
proof -
  have "hex16 w \<noteq> []" by (simp add: hex16_def)
  moreover have "\<forall>c\<in>set (hex16 w). \<not> is_space c" using hex16_chars [of w] hex_not_space by (auto simp: list_all_iff)
  ultimately show ?thesis by (simp add: words_one)
qed

lemma bounding_set_linux: "bounding_set (parse_status (k_status linux_kernel s)) = Inr (unat (l_bnd s))"
proof -
  have "map_of (parse_status (k_status linux_kernel s)) ''CapBnd'' = Some [hex16 (l_bnd s)]"
    unfolding parse_status_linux status_lines_def status_fields_def
    by (simp add: status_line_eq STATUS_FIELDS_def words_hex16 del: append_Cons)
  then show ?thesis by (simp add: bounding_set_def)
qed

lemma dropped_ok: "status_problems (parse_status (k_status linux_kernel dropped_state)) BUILD_UID BUILD_UID = []"
  by code_simp

lemma kernel_calls:
  "k_setgroups linux_kernel gs s = (if bit (l_eff s) CAP_SETGID then Inr (s\<lparr>l_groups := gs\<rparr>) else Inl (OSError ''EPERM''))"
  "k_setresgid linux_kernel g s = (if bit (l_eff s) CAP_SETGID then Inr (s\<lparr>l_gids := replicate 4 g\<rparr>) else Inl (OSError ''EPERM''))"
  "k_setresuid linux_kernel u s = (if bit (l_eff s) CAP_SETUID then Inr (if 0 \<in> set (l_uids s) \<and> u \<noteq> 0
     then s\<lparr>l_uids := replicate 4 u, l_prm := 0, l_eff := 0, l_amb := 0\<rparr> else s\<lparr>l_uids := replicate 4 u\<rparr>)
     else Inl (OSError ''EPERM''))"
  by (simp_all add: linux_kernel_def)

lemma drop_linux:
  assumes "may_drop s"
  shows "drop_privileges linux_kernel BUILD_UID BUILD_UID s = Inr dropped_state"
proof -
  have eff: "bit (l_eff s) CAP_SETGID" "bit (l_eff s) CAP_SETUID" "bit (l_eff s) CAP_SETPCAP" "0 \<in> set (l_uids s)"
    "l_eff s AND NOT (l_prm s) = 0"
    using assms by (simp_all add: may_drop_def)
  have bnd: "l_bnd s AND NOT (mask (Suc CAP_LAST_CAP)) = 0"
    using assms by (intro bounding_empty) (simp add: may_drop_def)
  have "last_cap linux_kernel s = Inr CAP_LAST_CAP" by (simp add: last_cap_def linux_kernel_def) code_simp
  moreover have "rfold (drop_one linux_kernel (unat (l_bnd s))) [0..<Suc CAP_LAST_CAP] s = Inr (s\<lparr>l_bnd := 0\<rparr>)"
    using drop_bounding [OF eff(3), of "Suc CAP_LAST_CAP"] bnd by simp
  moreover have "k_prctl linux_kernel PR_CAP_AMBIENT PR_CAP_AMBIENT_CLEAR_ALL t = (0, t\<lparr>l_amb := 0\<rparr>)"
    "k_prctl linux_kernel PR_SET_NO_NEW_PRIVS 1 t = (0, t\<lparr>l_nnp := True\<rparr>)" for t
    by (simp_all add: linux_kernel_def linux_prctl_def PR_CAP_AMBIENT_def PR_CAPBSET_DROP_def PR_SET_NO_NEW_PRIVS_def)
  moreover have "s\<lparr>l_bnd := 0, l_inh := 0, l_groups := [], l_gids := replicate 4 BUILD_UID, l_uids := replicate 4 BUILD_UID,
      l_prm := 0, l_eff := 0, l_amb := 0, l_nnp := True\<rparr> = dropped_state"
    by (cases s) (simp add: dropped_state_def)
  moreover have "BUILD_UID \<noteq> 0" by (simp add: BUILD_UID_def)
  ultimately show ?thesis
    using eff dropped_ok bounding_set_linux [of s]
    by (simp add: drop_privileges_def must_def clear_inheritable_linux kernel_calls del: upt_Suc replicate.simps)
qed

section \<open>Paths\<close>

lemma path_join_prefix: "\<exists>r. path_join b n = b @ r"
  by (simp add: path_join_def)

lemma path_join_split: "\<exists>v. \<forall>n. path_join w n = v @ n"
  by (rule exI [of _ "if w = [] \<or> endswith w ''/'' then w else w @ ''/''"]) (simp add: path_join_def)

lemma walk_prefix: "(p, m) \<in> set (fst (walk d b t)) \<Longrightarrow> \<exists>n \<in> UNIV. \<exists>r. p = path_join b n @ r"
proof (induction d b t arbitrary: p m rule: walk.induct)
  case (2 d b m0 i0 b0 ks)
  from "2.prems" consider nc where "nc \<in> set ks" "p = path_join b (fst nc)"
    | nc where "nc \<in> set (filter (enters d b) (subdirs_of ks))" "(p, m) \<in> set (fst (walk d (path_join b (fst nc)) (snd nc)))"
    by (auto simp: Let_def entry_of_def)
  then show ?case
  proof cases
    case 1
    then show ?thesis by (metis UNIV_I append_Nil2)
  next
    case 2
    from "2.IH" [OF this] obtain n r where "p = path_join (path_join b (fst nc)) n @ r" by blast
    then show ?thesis using path_join_prefix [of "path_join b (fst nc)" n] by (metis UNIV_I append_assoc)
  qed
qed simp

definition plain_name :: "string \<Rightarrow> bool" where
  "plain_name n \<longleftrightarrow> n \<noteq> [] \<and> CHR ''/'' \<notin> set n"

lemma plain_base: "plain_name n \<Longrightarrow> path_join (path_join w n) k = path_join w n @ ''/'' @ k"
proof -
  assume n: "plain_name n"
  obtain v where v: "path_join w n = v @ n" using path_join_split by blast
  have "\<not> endswith (v @ n) ''/''"
    using n by (auto simp: endswith_iff plain_name_def) (metis append_is_Nil_conv last_appendR last_in_set last_snoc not_Cons_self2)
  moreover have "v @ n \<noteq> []" using n by (simp add: plain_name_def)
  ultimately show ?thesis unfolding v by (simp add: path_join_def)
qed

text \<open>The paths of two children of a directory differ.\<close>

definition below :: "string \<Rightarrow> string \<Rightarrow> string \<Rightarrow> bool" where
  "below w n p \<longleftrightarrow> (p = path_join w n \<or> (\<exists>r. p = path_join w n @ ''/'' @ r))"

lemma below_unique:
  assumes "plain_name n" "plain_name k" "below w n p" "below w k p"
  shows "n = k"
proof -
  obtain v where v: "path_join w n = v @ n" "path_join w k = v @ k" using path_join_split by blast
  have t: "takeWhile (\<lambda>c. c \<noteq> CHR ''/'') (m @ r) = m" if "plain_name m" "r = [] \<or> (\<exists>q. r = CHR ''/'' # q)" for m r
    using that(2)
  proof
    assume "\<exists>q. r = CHR ''/'' # q"
    then show ?thesis using that(1) by (auto simp: plain_name_def takeWhile_append2 takeWhile_tail)
  qed (use that(1) in \<open>auto simp: plain_name_def takeWhile_eq_all_conv\<close>)
  from assms(3) obtain r where r: "p = v @ n @ r" "r = [] \<or> (\<exists>q. r = CHR ''/'' # q)" by (auto simp: below_def v)
  from assms(4) obtain s where s: "p = v @ k @ s" "s = [] \<or> (\<exists>q. s = CHR ''/'' # q)" by (auto simp: below_def v)
  from r(1) s(1) have "n @ r = k @ s" by simp
  then show ?thesis using t [OF assms(1) r(2)] t [OF assms(2) s(2)] by simp
qed

lemma walk_below: "plain_name n \<Longrightarrow> (p, m) \<in> set (fst (walk d (path_join w n) t)) \<Longrightarrow> below w n p"
  using walk_prefix [of p m d "path_join w n" t] by (auto simp: plain_base below_def)

lemma scratch_below: "plain_name n \<Longrightarrow> (p, m) \<in> set (scratch_entries w t n) \<Longrightarrow> below w n p"
  by (auto simp: scratch_entries_def walk_top_def split: option.splits intro: walk_below) (simp add: below_def)

section \<open>Changing the owners\<close>

lemma f_meta_map_meta [simp]: "f_meta (map_meta g p c) = g p (f_meta c)"
  by (cases c) simp

lemma f_isdir_map_meta [simp]: "f_isdir (map_meta g p c) = f_isdir c"
  by (cases c) simp

lemma f_kids_map_meta: "f_kids (map_meta g p c) = map_option (map (\<lambda>(n, k). (n, map_meta g (path_join p n) k))) (f_kids c)"
  by (cases c) (auto split: option.split)

lemma kid_map_meta: "kid n (map_meta g p c) = map_option (map_meta g (path_join p n)) (kid n c)"
proof -
  have "map_of (map (\<lambda>(n, k). (n, map_meta g (path_join p n) k)) ks) n = map_option (map_meta g (path_join p n)) (map_of ks n)" for ks
    by (induction ks) auto
  then show ?thesis by (simp add: kid_def f_kids_map_meta split: option.split)
qed

lemma map_meta_id:
  assumes "\<And>q m. (\<exists>r. q = p @ r) \<Longrightarrow> g q m = m"
  shows "map_meta g p c = c"
  using assms
proof (induction g p c rule: map_meta.induct)
  case (1 g p m d b ks)
  have "map_meta g (path_join p n) c = c" if "ks = Some l" "(n, c) \<in> set l" for l n c
  proof (rule "1.IH" [OF that refl])
    fix q m
    assume "\<exists>r. q = path_join p n @ r"
    then show "g q m = m" using "1.prems" path_join_prefix [of p n] by (metis append_assoc)
  qed
  then have "map (\<lambda>(n, c). (n, map_meta g (path_join p n) c)) l = l" if "ks = Some l" for l
    using that by (auto intro!: map_idI)
  then show ?case using "1.prems" [of p m] by (auto split: option.split)
qed

definition keeps_kind :: "(string \<Rightarrow> meta \<Rightarrow> meta) \<Rightarrow> bool" where
  "keeps_kind g \<longleftrightarrow> (\<forall>p m. m_dev (g p m) = m_dev m \<and> m_kind (g p m) = m_kind m)"

lemma sort_key_map: "sort_key fst (map (\<lambda>(n, c). (n, h n c)) ks) = map (\<lambda>(n, c). (n, h n c)) (sort_key fst (ks :: (string \<times> 'a) list))"
proof (induction ks)
  case (Cons k ks)
  have "insort_key fst (n, h n c) (map (\<lambda>(n, c). (n, h n c)) xs) = map (\<lambda>(n, c). (n, h n c)) (insort_key fst (n, c) xs)" for n c xs
    by (induction xs) auto
  then show ?case using Cons by (cases k) simp
qed simp

lemma walk_map_meta:
  assumes "keeps_kind g"
  shows "fst (walk d b (map_meta g b t)) = map (\<lambda>(p, m). (p, g p m)) (fst (walk d b t))"
proof (induction d b t rule: walk.induct)
  case (2 d b m0 i0 b0 ks)
  define h where "h nc = (fst nc, map_meta g (path_join b (fst nc)) (snd nc))" for nc
  have h: "(\<lambda>(n, c). (n, map_meta g (path_join b n) c)) = h" by (auto simp: h_def)
  have k: "sort_key fst (map h xs) = map h (sort_key fst xs)" for xs
    using sort_key_map [of "\<lambda>n. map_meta g (path_join b n)" xs] by (simp add: h)
  have s: "subdirs_of (map h ks) = map h (subdirs_of ks)" "files_of (map h ks) = map h (files_of ks)"
    by (simp_all add: subdirs_of_def files_of_def k filter_map o_def) (simp_all add: h_def)
  have "enters d b (h nc) = enters d b nc" for nc
    using assms by (simp add: enters_def keeps_kind_def h_def)
  then have e: "filter (enters d b) (map h xs) = map h (filter (enters d b) xs)" for xs
    by (simp add: filter_map o_def)
  have v: "entry_of b (h nc) = (\<lambda>(p, m). (p, g p m)) (entry_of b nc)" for nc
    by (simp add: entry_of_def h_def)
  have w: "fst (walk d (path_join b (fst (h nc))) (snd (h nc))) = map (\<lambda>(p, m). (p, g p m)) (fst (walk d (path_join b (fst nc)) (snd nc)))"
    if "nc \<in> set (filter (enters d b) (subdirs_of ks))" for nc
    using "2.IH" [OF that] by (simp add: h_def)
  have c: "concat (map (\<lambda>nc. fst (walk d (path_join b (fst (h nc))) (snd (h nc)))) (filter (enters d b) (subdirs_of ks))) =
      concat (map (\<lambda>nc. map (\<lambda>(p, m). (p, g p m)) (fst (walk d (path_join b (fst nc)) (snd nc)))) (filter (enters d b) (subdirs_of ks)))"
    by (rule arg_cong [OF map_cong [OF refl w]])
  show ?case by (simp add: Let_def h s e map_concat v o_def c)
qed simp


definition given :: "nat \<Rightarrow> nat \<Rightarrow> string set \<Rightarrow> string \<Rightarrow> meta \<Rightarrow> meta" where
  "given uid gid ps p m = (if p \<in> ps then m\<lparr>m_uid := uid, m_gid := gid\<rparr> else m)"

lemma give_away_given: "give_away uid gid ps = map_meta (given uid gid ps)"
  unfolding give_away_def given_def ..

lemma keeps_kind_given: "keeps_kind (given uid gid ps)"
  by (simp add: keeps_kind_def given_def)

text \<open>Scratch entries after the hand over.\<close>

definition owned_scratch :: "nat \<Rightarrow> nat \<Rightarrow> entries \<Rightarrow> bool" where
  "owned_scratch uid gid es \<longleftrightarrow> list_all (\<lambda>(_, m). m_uid m = uid \<and> m_gid m = gid \<and> (m_kind m = KDir \<or> m_kind m = KReg)) es"

lemma scratch_entries_given:
  "scratch_entries w (give_away uid gid ps w t) n = map (\<lambda>(p, m). (p, given uid gid ps p m)) (scratch_entries w t n)"
proof (cases "kid n t")
  case (Some c)
  have "walk_top (path_join w n) (map_meta (given uid gid ps) (path_join w n) c) =
      walk (m_dev (f_meta c)) (path_join w n) (map_meta (given uid gid ps) (path_join w n) c)"
    by (simp add: walk_top_def given_def)
  then show ?thesis
    by (simp add: Some scratch_entries_def give_away_given kid_map_meta walk_map_meta [OF keeps_kind_given] walk_top_def)
qed (simp add: scratch_entries_def give_away_given kid_map_meta)

lemma hand_over_owned:
  assumes "hand_over w uid gid n t = Inr t'"
  shows "owned_scratch uid gid (scratch_entries w t' n)" "map fst (scratch_entries w t' n) = map fst (scratch_entries w t n)"
proof -
  have t: "list_all (\<lambda>(_, m). m_kind m = KDir \<or> m_kind m = KReg) (scratch_entries w t n)"
    "t' = give_away uid gid (fst ` set (scratch_entries w t n)) w t"
    using assms by (auto simp: hand_over_def Let_def res_simps)
  have g: "given uid gid (fst ` set (scratch_entries w t n)) p m = m\<lparr>m_uid := uid, m_gid := gid\<rparr>" if "(p, m) \<in> set (scratch_entries w t n)" for p m
    using that by (force simp: given_def)
  show "owned_scratch uid gid (scratch_entries w t' n)"
    using t(1) g by (fastforce simp: t(2) scratch_entries_given owned_scratch_def list_all_iff)
  show "map fst (scratch_entries w t' n) = map fst (scratch_entries w t n)"
    by (simp add: t(2) scratch_entries_given case_prod_unfold)
qed

lemma map_meta_below:
  assumes "plain_name k" "\<And>q m. below w k q \<Longrightarrow> g q m = m"
  shows "map_meta g (path_join w k) c = c"
proof (cases c)
  case (FsNode m d b ks)
  have "map_meta g (path_join (path_join w k) n) c' = c'" for n c'
    by (rule map_meta_id) (use assms in \<open>auto simp: plain_base below_def\<close>)
  moreover have "g (path_join w k) m = m" using assms(2) by (simp add: below_def)
  ultimately show ?thesis by (auto simp: FsNode intro!: map_idI split: option.split)
qed

lemma hand_over_other:
  assumes "hand_over w uid gid n t = Inr t'" "plain_name n" "plain_name k" "k \<noteq> n"
  shows "kid k t' = kid k t"
proof -
  let ?ps = "fst ` set (scratch_entries w t n)"
  have t': "t' = give_away uid gid ?ps w t" using assms(1) by (auto simp: hand_over_def Let_def res_simps)
  have "map_meta (given uid gid ?ps) (path_join w k) c = c" for c
  proof -
    have "q \<notin> ?ps" if "below w k q" for q
      using that below_unique [OF assms(2,3)] scratch_below [OF assms(2)] assms(4) by fastforce
    then show ?thesis by (intro map_meta_below assms(3)) (simp add: given_def)
  qed
  then show ?thesis by (cases "kid k t") (simp_all add: t' give_away_given kid_map_meta)
qed


lemma hand_over_fold:
  assumes "rfold (hand_over w uid gid) ns t = Inr t'" "distinct ns" "list_all plain_name ns"
  shows "(\<forall>k. plain_name k \<and> k \<notin> set ns \<longrightarrow> kid k t' = kid k t) \<and>
    (\<forall>n\<in>set ns. owned_scratch uid gid (scratch_entries w t' n) \<and> map fst (scratch_entries w t' n) = map fst (scratch_entries w t n))"
  using assms
proof (induction ns arbitrary: t)
  case (Cons n ns)
  then obtain u where u: "hand_over w uid gid n t = Inr u" "rfold (hand_over w uid gid) ns u = Inr t'" by (auto simp: res_simps)
  note IH = Cons.IH [OF u(2)]
  have other: "kid k u = kid k t" if "plain_name k" "k \<noteq> n" for k
    using hand_over_other [OF u(1)] Cons.prems(3) that by simp
  have "scratch_entries w t' n = scratch_entries w u n"
    using IH Cons.prems by (simp add: scratch_entries_def)
  moreover have "scratch_entries w u k = scratch_entries w t k" if "k \<in> set ns" for k
  proof -
    have "k \<noteq> n" "plain_name k" using that Cons.prems by (auto simp: list_all_iff)
    then show ?thesis by (simp add: scratch_entries_def other)
  qed
  ultimately show ?case using IH hand_over_owned [OF u(1)] other Cons.prems by (auto simp: list_all_iff)
qed simp

section \<open>The profiles\<close>

definition profile_ok :: "profile \<Rightarrow> bool" where
  "profile_ok pf \<longleftrightarrow> distinct (pf_scratch pf) \<and> list_all plain_name (pf_scratch pf) \<and> list_all plain_name (pf_readonly pf) \<and>
     list_all (\<lambda>n. n \<in> set (pf_scratch pf)) (pf_fresh pf) \<and> distinct (pf_fresh pf) \<and> list_all (\<lambda>n. n \<notin> set (pf_scratch pf)) (pf_readonly pf)
     \<and> pf_readonly pf \<noteq> []"

lemma profiles_ok: "profile_of n = Inr pf \<Longrightarrow> profile_ok pf"
proof -
  have "list_all (\<lambda>(_, pf). profile_ok pf) PROFILES"
    by (simp add: PROFILES_def SCRATCH_def FRESH_def profile_ok_def plain_name_def)
  then show "profile_of n = Inr pf \<Longrightarrow> profile_ok pf"
    by (auto simp: profile_of_def list_all_iff split: option.splits dest!: map_of_SomeD)
qed

lemma make_fresh_kids:
  assumes "rfold make_fresh ns t = Inr t'" "distinct ns" "f_kids t \<noteq> None"
  shows "(\<forall>n\<in>set ns. kid n t = None \<and> (\<exists>m. kid n t' = Some (new_dir m))) \<and> (\<forall>k. k \<notin> set ns \<longrightarrow> kid k t' = kid k t)"
  using assms
proof (induction ns arbitrary: t)
  case (Cons n ns)
  define u where "u = add_kid n (new_dir (f_meta t)) t"
  obtain v where v: "make_fresh n t = Inr v" "rfold make_fresh ns v = Inr t'" using Cons.prems(1) by (auto simp: res_simps)
  then have n: "kid n t = None" "rfold make_fresh ns u = Inr t'" by (simp_all add: make_fresh_def res_simps u_def)
  have k: "kid k u = (if k = n then Some (new_dir (f_meta t)) else kid k t)" for k
    using n(1) Cons.prems(3) by (simp add: u_def kid_add_kid)
  have "f_kids u \<noteq> None" using Cons.prems(3) by (simp add: u_def add_kid_def)
  from Cons.IH [OF n(2) _ this] Cons.prems(2) k n(1) show ?case by (auto split: if_split_asm)
qed simp

definition readable_by_all :: "nat \<times> nat \<Rightarrow> meta \<Rightarrow> bool" where
  "readable_by_all owner m \<longleftrightarrow> (m_uid m, m_gid m) = owner \<and>
     (m_kind m = KLink \<or> \<not> go_writable m \<and> bit (m_mode m) 2 \<and> (m_kind m = KDir \<longrightarrow> bit (m_mode m) 0))"

lemma source_problems_Nil: "source_problems p c owner = [] \<longleftrightarrow> readable_by_all owner (f_meta c) \<and> (\<forall>(q, m)\<in>set (fst (walk_top p c)). readable_by_all owner m)"
  by (auto simp: source_problems_def source_problem_def readable_by_all_def split: if_splits prod.splits)

section \<open>The self check\<close>

lemma map_filter_Nil: "List.map_filter f xs = [] \<longleftrightarrow> (\<forall>x\<in>set xs. f x = None)"
  by (induction xs) (simp_all add: List.map_filter_simps split: option.split)

lemma denied_not_Nil [simp]: "denied p r (c # s) \<noteq> Some []"
  by (auto simp: denied_def split: option.splits)

lemma probe_not_Nil: "probe A kp \<noteq> Some []"
  by (cases kp) (simp add: probe_def Let_def absent_def)

lemma probe_problems_Nil: "probe_problems A ps = [] \<longleftrightarrow> list_all (\<lambda>kp. probe A kp = None \<or> probe A kp = Some absent) ps"
proof -
  have "(case probe A kp of None \<Rightarrow> None | Some r \<Rightarrow> if r = [] \<or> r = absent then None
      else Some (''write to a root-owned path did not fail: '' @ r)) = None \<longleftrightarrow> probe A kp = None \<or> probe A kp = Some absent" for kp
    using probe_not_Nil [of A kp] by (cases "probe A kp") simp_all
  then show ?thesis by (simp add: probe_problems_def map_filter_Nil list_all_iff)
qed

lemma scratch_probe:
  assumes "d = CHR ''/'' # d'" "startswith (case probe A (Create, d) of None \<Rightarrow> [] | Some r \<Rightarrow> r) ''created ''"
  shows "a_lexists A d \<and> a_create A (path_join d ''.unpriv-write-probe'') = None"
  using assms by (auto simp: probe_def Let_def absent_def denied_def split: if_splits option.splits)

definition locked :: "access \<Rightarrow> string list \<Rightarrow> nat \<Rightarrow> nat \<Rightarrow> string \<times> meta \<Rightarrow> bool" where
  "locked A allowed device uid pm \<longleftrightarrow> (case pm of (p, m) \<Rightarrow> list_ex (under p) allowed \<or> m_kind m = KLink \<or>
     ((m_dev m \<noteq> device \<or> m_uid m \<noteq> uid) \<and> (m_kind m = KDir \<and> bit (m_mode m) 9 \<or> \<not> a_writable A p)))"

lemma writable_outside_Nil:
  "fst (writable_outside A b t allowed uid) = [] \<longleftrightarrow> list_all (locked A allowed (m_dev (f_meta t)) uid) (fst (walk_top b t))"
  by (auto simp: writable_outside_def locked_def Let_def filter_empty_conv list_all_iff split: prod.split)

lemma selfcheck_problems:
  assumes "selfcheck A text work factory everything uid gid profile_name = Inr rep"
  obtains pf where "profile_of profile_name = Inr pf" "status_problems (parse_status text) uid gid = []"
    "probe_problems A (all_probes work factory pf) = []"
    "List.map_filter (\<lambda>p. unreadable A (sub_paths work factory p)) (pf_readable pf) = []"
    "scratch_problems A (map (path_join work) (pf_scratch pf)) = []" "path_problems A = []"
    "fst (writable_outside A ''/'' everything (map (path_join work) (pf_scratch pf)) uid) = []"
proof -
  obtain pf where pf: "profile_of profile_name = Inr pf" using assms by (auto simp: selfcheck_def rbind_eq_Inr)
  obtain wr ul where w: "writable_outside A ''/'' everything (map (path_join work) (pf_scratch pf)) uid = (wr, ul)" by force
  show ?thesis using assms by (intro that [OF pf]) (simp_all add: selfcheck_def pf w Let_def require_eq_Inr split: if_splits)
qed

section \<open>Examples\<close>

lemma subreaper_linux: "k_prctl linux_kernel PR_SET_CHILD_SUBREAPER (Suc 0) s = (0, s)"
  by (simp add: linux_kernel_def linux_prctl_def PR_SET_CHILD_SUBREAPER_def PR_CAPBSET_DROP_def PR_CAP_AMBIENT_def PR_SET_NO_NEW_PRIVS_def)

definition toy_root :: linux where
  "toy_root = \<lparr>l_uids = replicate 4 0, l_gids = replicate 4 0, l_groups = [0, 10], l_inh = 0, l_prm = mask 41, l_eff = mask 41,
     l_bnd = mask 41, l_amb = 0, l_nnp = False\<rparr>"

lemma toy_may_drop: "may_drop toy_root"
  by code_simp

definition toy_forest :: "process list" where
  "toy_forest = [Process 10 ''sh'' [Process 11 ''x) S 1 (y'' []], Process 12 ''cc1'' []]"

lemma toy_forest_ok: "forest_ok 5 toy_forest" "forest_depth toy_forest < rounds"
  by code_simp+

definition toy_exec :: "linux \<Rightarrow> env \<Rightarrow> string list \<Rightarrow> (int \<times> process list) result" where
  "toy_exec k env cmd = Inr (0, toy_forest)"

definition toy_meta :: "kind \<Rightarrow> nat \<Rightarrow> 12 word \<Rightarrow> meta" where
  "toy_meta kd uid mode = \<lparr>m_kind = kd, m_uid = uid, m_gid = uid, m_mode = mode, m_nlink = 1, m_dev = 1, m_ino = 1, m_xattrs = Inr []\<rparr>"

definition toy_dir :: "nat \<Rightarrow> (string \<times> fsnode) list \<Rightarrow> fsnode" where
  "toy_dir uid ks = FsNode (toy_meta KDir uid 493) True [] (Some ks)"

definition toy_file :: "nat \<Rightarrow> fsnode" where
  "toy_file uid = FsNode (toy_meta KReg uid 420) False ''x'' (Some [])"

definition toy_work :: fsnode where
  "toy_work = toy_dir 0 [(''source'', toy_dir 0 [(''Cargo.lock'', toy_file 0)]), (''bridge-cargo'', toy_dir 0 [(''a.crate'', toy_file 0)])]"

definition toy_prepared :: fsnode where
  "toy_prepared = toy_dir 0 [(''source'', toy_dir 0 [(''Cargo.lock'', toy_file 0)]),
     (''bridge-cargo'', toy_dir 65534 [(''a.crate'', toy_file 65534)]), (''dist'', toy_dir 65534 []), (''target'', toy_dir 65534 []),
     (''home'', toy_dir 65534 [])]"

lemma toy_prepare: "prepare ''/w'' (toy_meta KDir 0 493) toy_work (toy_dir 0 [(''w'', toy_work)]) 65534 65534 (0, 0) ''bridge'' = Inr toy_prepared"
  by code_simp

definition toy_access :: access where
  "toy_access = \<lparr>a_lexists = \<lambda>p. startswith p ''/w'' \<or> p = ''/usr/bin'', a_append = \<lambda>_. Some (13, ''Permission denied''),
     a_create = \<lambda>p. if list_ex (under p) (map (path_join ''/w'') SCRATCH) then None else Some (13, ''Permission denied''),
     a_read = \<lambda>_. None, a_writable = \<lambda>p. list_ex (under p) (map (path_join ''/w'') SCRATCH), a_isdir = \<lambda>_. True\<rparr>"

definition toy_report :: "check_report result" where
  "toy_report = selfcheck toy_access (k_status linux_kernel dropped_state) ''/w'' ''/f'' (toy_dir 0 [(''w'', toy_prepared)]) 65534 65534 ''bridge''"

lemma toy_selfcheck: "succeeds toy_report"
  by code_simp

section \<open>Properties\<close>

text \<open>
  C17: a finished run was confined from start to end. If \<open>run\<close> returns an exit code, it was called by root with a
  command, the command was executed once with credentials whose status shows user and group 65534,
  no groups, five empty capability sets and no_new_privs, in an environment without loader or
  interpreter variables and with the fixed \<open>PATH\<close> and \<open>HOME\<close>, and no descendant is left.
\<close>
theorem run_confined:
  assumes "run K P exec me euid environ work command k0 = Inr exit_code"
  shows "\<exists>child env w w'. euid = 0 \<and> command \<noteq> [] \<and> confined K child \<and> clean_env work env \<and>
    exec child env command = Inr (exit_code, w) \<and> kill_leftovers P me rounds w = Inr w' \<and> children me (p_listing P w') = Inr []"
proof -
  obtain r k where k: "k_prctl K PR_SET_CHILD_SUBREAPER (Suc 0) k0 = (r, k)" by force
  with assms obtain child where c: "drop_privileges K BUILD_UID BUILD_UID k = Inr child"
    by (cases "drop_privileges K BUILD_UID BUILD_UID k") (simp_all add: run_def res_simps)
  with assms k obtain w w' where "euid = 0" "command \<noteq> []" "exec child (child_env environ work) command = Inr (exit_code, w)"
    "kill_leftovers P me rounds w = Inr w'"
    by (auto simp: run_def res_simps)
  moreover from this(4) have "children me (p_listing P w') = Inr []" by (rule kill_leftovers_empty)
  ultimately show ?thesis using drop_confined [OF c] child_env_clean [of work environ] by (intro exI conjI)
qed

theorem run_confined_witness:
  "\<exists>child env w w'. confined linux_kernel child \<and> clean_env ''/w'' env \<and> toy_exec child env [''make''] = Inr (0, w) \<and>
     kill_leftovers (linux_procs 5) 5 rounds w = Inr w' \<and> children 5 (p_listing (linux_procs 5) w') = Inr []"
proof -
  have "run linux_kernel (linux_procs 5) toy_exec 5 0 [(''LD_PRELOAD'', ''/x.so'')] ''/w'' [''make''] toy_root = Inr 0"
    using drop_linux [OF toy_may_drop] leftovers_linux [OF toy_forest_ok] subreaper_linux by (simp add: run_def toy_exec_def)
  from run_confined [OF this] show ?thesis by blast
qed

text \<open>
  Nothing runs unconfined, whatever the kernel answers. Two programs that behave alike with confined
  credentials in a clean environment give the same result of \<open>run\<close>: \<open>run\<close> never starts the command in
  any other state, also when a call fails half way or lies about its success.
\<close>
theorem only_confined_code_runs:
  assumes same: "\<And>k env. confined K k \<Longrightarrow> clean_env work env \<Longrightarrow> exec k env command = exec' k env command"
  shows "run K P exec me euid environ work command k0 = run K P exec' me euid environ work command k0"
proof -
  obtain r k where k: "k_prctl K PR_SET_CHILD_SUBREAPER (Suc 0) k0 = (r, k)" by force
  show ?thesis
  proof (cases "drop_privileges K BUILD_UID BUILD_UID k")
    case (Inl e)
    then show ?thesis by (simp add: run_def k)
  next
    case (Inr child)
    then have "exec child (child_env environ work) command = exec' child (child_env environ work) command"
      by (intro same drop_confined child_env_clean)
    then show ?thesis by (simp add: run_def k Inr)
  qed
qed

theorem only_confined_code_runs_witness:
  "run linux_kernel (linux_procs 5) toy_exec 5 0 [] ''/w'' [''make''] toy_root =
     run linux_kernel (linux_procs 5) (\<lambda>k env cmd. if confined linux_kernel k then toy_exec k env cmd else Inr (1, [])) 5 0 [] ''/w'' [''make''] toy_root"
  by (rule only_confined_code_runs) simp

text \<open>
  C18: the drop works on Linux. From any process of user 0 whose effective set has the three capabilities the
  calls need, whatever its other capabilities, groups and bounding set, \<open>drop_privileges\<close> returns and leaves
  exactly the wanted state: user and group 65534 in all four ids, nothing else.
\<close>
theorem drop_takes_effect:
  assumes "may_drop s"
  shows "drop_privileges linux_kernel BUILD_UID BUILD_UID s = Inr dropped_state \<and> confined linux_kernel dropped_state"
  using drop_linux [OF assms] drop_confined [OF drop_linux [OF assms]] by simp

theorem drop_takes_effect_witness:
  "drop_privileges linux_kernel BUILD_UID BUILD_UID toy_root = Inr dropped_state \<and> l_eff toy_root \<noteq> 0"
  using drop_takes_effect [OF toy_may_drop] by (simp add: toy_root_def)



text \<open>
  \<open>prepare\<close> gives away the scratch directories and nothing else. If it returns, the work directory and its
  parent are root's and not writable by others, nothing on the file system belonged to the build user
  before, the read-only trees are root's, readable, unwritable by others and unchanged, the fresh
  directories did not exist and are empty, and every entry of a scratch directory is a regular file or a
  directory of the build user.
\<close>
theorem prepare_sound:
  assumes "prepare work parent t everything uid gid owner profile_name = Inr t'"
  shows "\<exists>pf. profile_of profile_name = Inr pf \<and> root_dir owner parent \<and> root_dir owner (f_meta t) \<and>
    list_all (\<lambda>(_, m). m_dev m \<noteq> m_dev (f_meta everything) \<or> m_uid m \<noteq> uid \<and> m_gid m \<noteq> gid) (fst (walk_top ''/'' everything)) \<and>
    list_all (\<lambda>n. \<exists>c. kid n t = Some c \<and> kid n t' = Some c \<and>
       list_all (\<lambda>(_, m). readable_by_all owner m) ((path_join work n, f_meta c) # fst (walk_top (path_join work n) c))) (pf_readonly pf) \<and>
    list_all (\<lambda>n. kid n t = None) (pf_fresh pf) \<and>
    list_all (\<lambda>n. scratch_entries work t' n \<noteq> [] \<and> owned_scratch uid gid (scratch_entries work t' n) \<and>
       (n \<in> set (pf_fresh pf) \<longrightarrow> map fst (scratch_entries work t' n) = [path_join work n])) (pf_scratch pf)"
proof -
  obtain pf u x y z where pf: "profile_of profile_name = Inr pf"
    and rt: "rall (\<lambda>m. require (root_dir owner m) (Refusal ''must be a root-owned directory without group/other write'') (Inr ()))
        [parent, f_meta t] = Inr x"
    and ro: "rall (check_readonly work t owner) (pf_readonly pf) = Inr y"
    and own: "owned_by_build_ids ''/'' everything uid gid = []"
    and sc: "rall (check_scratch pf t) (pf_scratch pf) = Inr z"
    and u: "rfold make_fresh (pf_fresh pf) t = Inr u" and t': "rfold (hand_over work uid gid) (pf_scratch pf) u = Inr t'"
    using assms unfolding prepare_def by (auto simp only: rbind_eq_Inr require_eq_Inr)
  have root: "root_dir owner parent" "root_dir owner (f_meta t)"
    using rt unfolding rall_eq_Inr by (simp_all add: require_eq_Inr)
  note ok = profiles_ok [OF pf, unfolded profile_ok_def]
  have ro': "\<exists>c. kid n t = Some c \<and> source_problems (path_join work n) c owner = []" if "n \<in> set (pf_readonly pf)" for n
  proof -
    have "check_readonly work t owner n = Inr ()" using ro that unfolding rall_eq_Inr by blast
    then show ?thesis by (simp add: check_readonly_def require_eq_Inr split: option.splits)
  qed
  obtain n0 where "n0 \<in> set (pf_readonly pf)" using ok list.set_sel(1) by blast
  with ro' obtain c0 where "kid n0 t = Some c0" by blast
  then have kids: "f_kids t \<noteq> None" by (auto simp: kid_def split: option.splits)
  have "distinct (pf_fresh pf)" "distinct (pf_scratch pf)" "list_all plain_name (pf_scratch pf)" using ok by simp_all
  note fresh = make_fresh_kids [OF u this(1) kids] and over = hand_over_fold [OF t' this(2,3)]
  have keep: "kid n t' = kid n t" if "n \<in> set (pf_readonly pf)" for n
  proof -
    have "n \<notin> set (pf_scratch pf)" "plain_name n" "n \<notin> set (pf_fresh pf)" using that ok by (auto simp: list_all_iff)
    then show ?thesis using over fresh by simp
  qed
  have entries: "owned_scratch uid gid (scratch_entries work t' n) \<and> map fst (scratch_entries work t' n) = map fst (scratch_entries work u n)"
    if "n \<in> set (pf_scratch pf)" for n using that over by simp
  have new: "map fst (scratch_entries work u n) = [path_join work n]" if "n \<in> set (pf_fresh pf)" for n
  proof -
    have "\<exists>m. kid n u = Some (new_dir m)" using fresh that by simp
    then obtain m where "kid n u = Some (new_dir m)" ..
    then show ?thesis by (simp add: scratch_entries_def walk_top_def new_dir_def subdirs_of_def files_of_def)
  qed
  have "scratch_entries work u n \<noteq> []" if "n \<in> set (pf_scratch pf)" for n
  proof (cases "n \<in> set (pf_fresh pf)")
    case True
    then show ?thesis using new [OF True] by (cases "scratch_entries work u n") simp_all
  next
    case False
    have "check_scratch pf t n = Inr ()" using sc that unfolding rall_eq_Inr by blast
    then have "kid n t \<noteq> None" using False by (auto simp: check_scratch_def require_eq_Inr split: option.splits)
    moreover have "kid n u = kid n t" using False fresh by simp
    ultimately show ?thesis by (auto simp: scratch_entries_def)
  qed
  then have ne: "scratch_entries work t' n \<noteq> []" if "n \<in> set (pf_scratch pf)" for n
    using that entries [OF that] by (cases "scratch_entries work t' n") simp_all
  have "list_all (\<lambda>n. kid n t = None) (pf_fresh pf)" using fresh by (simp add: list_all_iff)
  moreover have "list_all (\<lambda>(_, m). m_dev m \<noteq> m_dev (f_meta everything) \<or> m_uid m \<noteq> uid \<and> m_gid m \<noteq> gid) (fst (walk_top ''/'' everything))"
    using own by (auto simp: owned_by_build_ids_def filter_empty_conv list_all_iff)
  moreover have "list_all (\<lambda>n. \<exists>c. kid n t = Some c \<and> kid n t' = Some c \<and>
       list_all (\<lambda>(_, m). readable_by_all owner m) ((path_join work n, f_meta c) # fst (walk_top (path_join work n) c))) (pf_readonly pf)"
    using ro' keep by (simp add: list_all_iff source_problems_Nil)
  moreover have "list_all (\<lambda>n. scratch_entries work t' n \<noteq> [] \<and> owned_scratch uid gid (scratch_entries work t' n) \<and>
       (n \<in> set (pf_fresh pf) \<longrightarrow> map fst (scratch_entries work t' n) = [path_join work n])) (pf_scratch pf)"
    using ne entries new by (simp add: list_all_iff)
  ultimately show ?thesis using pf root by blast
qed

theorem prepare_sound_witness:
  "owned_scratch 65534 65534 (scratch_entries ''/w'' toy_prepared ''bridge-cargo'') \<and> kid ''source'' toy_prepared = kid ''source'' toy_work"
proof -
  from prepare_sound [OF toy_prepare] obtain pf where
    "profile_of ''bridge'' = Inr pf"
    "list_all (\<lambda>n. \<exists>c. kid n toy_work = Some c \<and> kid n toy_prepared = Some c \<and>
       list_all (\<lambda>(_, m). readable_by_all (0, 0) m) ((path_join ''/w'' n, f_meta c) # fst (walk_top (path_join ''/w'' n) c))) (pf_readonly pf)"
    "list_all (\<lambda>n. scratch_entries ''/w'' toy_prepared n \<noteq> [] \<and> owned_scratch 65534 65534 (scratch_entries ''/w'' toy_prepared n) \<and>
       (n \<in> set (pf_fresh pf) \<longrightarrow> map fst (scratch_entries ''/w'' toy_prepared n) = [path_join ''/w'' n])) (pf_scratch pf)" by blast
  then show ?thesis by (auto simp: profile_of_def PROFILES_def SCRATCH_def)
qed

text \<open>
  A passed self check means no way out. Its status is the dropped one, every probed write to tooling or
  sources was denied or had no target, the scratch directories are writable, no directory of \<open>PATH\<close> is, and
  no other entry of the file system (links and sticky directories aside) is owned or writable by the user.
\<close>
theorem selfcheck_sound:
  assumes "selfcheck A text (CHR ''/'' # w) factory everything uid gid profile_name = Inr rep"
  shows "\<exists>pf. profile_of profile_name = Inr pf \<and>
    list_all (\<lambda>(name, v). map_of (parse_status text) name = Some v) (wanted uid gid) \<and>
    list_all (\<lambda>kp. probe A kp = None \<or> probe A kp = Some absent) (all_probes (CHR ''/'' # w) factory pf) \<and>
    list_all (\<lambda>n. a_lexists A (path_join (CHR ''/'' # w) n) \<and>
       a_create A (path_join (path_join (CHR ''/'' # w) n) ''.unpriv-write-probe'') = None) (pf_scratch pf) \<and>
    list_all (\<lambda>d. \<not> (a_isdir A d \<and> a_writable A d)) (split_on CHR '':'' PATH) \<and>
    list_all (locked A (map (path_join (CHR ''/'' # w)) (pf_scratch pf)) (m_dev (f_meta everything)) uid) (fst (walk_top ''/'' everything))"
proof -
  let ?w = "CHR ''/'' # w"
  obtain pf where pf: "profile_of profile_name = Inr pf" and st: "status_problems (parse_status text) uid gid = []"
    and pr: "probe_problems A (all_probes ?w factory pf) = []"
    and sc: "scratch_problems A (map (path_join ?w) (pf_scratch pf)) = []" and pa: "path_problems A = []"
    and wr: "fst (writable_outside A ''/'' everything (map (path_join ?w) (pf_scratch pf)) uid) = []"
    by (rule selfcheck_problems [OF assms])
  have "a_lexists A (path_join ?w n) \<and> a_create A (path_join (path_join ?w n) ''.unpriv-write-probe'') = None"
    if "n \<in> set (pf_scratch pf)" for n
  proof -
    obtain d' where "path_join ?w n = CHR ''/'' # d'" using path_join_prefix [of ?w n] by auto
    moreover have "startswith (case probe A (Create, path_join ?w n) of None \<Rightarrow> [] | Some r \<Rightarrow> r) ''created ''"
      using sc that by (simp add: scratch_problems_def filter_empty_conv)
    ultimately show ?thesis by (rule scratch_probe)
  qed
  moreover have "list_all (\<lambda>d. \<not> (a_isdir A d \<and> a_writable A d)) (split_on CHR '':'' PATH)"
    using pa by (simp add: path_problems_def filter_empty_conv list_all_iff)
  ultimately show ?thesis using pf st pr wr
    by (intro exI [of _ pf]) (simp add: status_problems_Nil probe_problems_Nil writable_outside_Nil list_all_iff)
qed

theorem selfcheck_sound_witness:
  "list_all (locked toy_access (map (path_join ''/w'') SCRATCH) 1 65534) (fst (walk_top ''/'' (toy_dir 0 [(''w'', toy_prepared)])))"
proof -
  obtain rep where "selfcheck toy_access (k_status linux_kernel dropped_state) (CHR ''/'' # ''w'') ''/f''
      (toy_dir 0 [(''w'', toy_prepared)]) 65534 65534 ''bridge'' = Inr rep"
    using toy_selfcheck by (auto simp: toy_report_def succeeds_iff)
  from selfcheck_sound [OF this] obtain pf where "profile_of ''bridge'' = Inr pf"
    "list_all (locked toy_access (map (path_join (CHR ''/'' # ''w'')) (pf_scratch pf)) (m_dev (f_meta (toy_dir 0 [(''w'', toy_prepared)]))) 65534)
      (fst (walk_top ''/'' (toy_dir 0 [(''w'', toy_prepared)])))" by blast
  then show ?thesis by (auto simp: profile_of_def PROFILES_def toy_dir_def toy_meta_def)
qed

end
