(* ===== verification/HandoffProofs.thy ===== *)
theory HandoffProofs
  imports Handoff
begin

text \<open>
  Proofs about \<^verbatim>\<open>build_files/firewall/snitchwatch-system-handoff.py\<close>: \<open>conforms\<close> is the abstract
  contract of a handed-over tree, and \<open>check\<close> decides it exactly; \<open>export\<close> builds a conforming tree;
  \<open>merge\<close> keeps the destination and adds every file; the comparison of two builds and the network probes
  are exact.
\<close>

section \<open>What a checked tree is\<close>

definition clean_xattrs :: "meta \<Rightarrow> bool" where
  "clean_xattrs m \<longleftrightarrow> (case m_xattrs m of Inl e \<Rightarrow> e = OSError ''ENOTSUP'' | Inr xs \<Rightarrow> set xs \<inter> set REFUSED_XATTRS = {})"

definition entry_ok :: "allow \<Rightarrow> nat \<times> nat \<Rightarrow> string \<times> meta \<Rightarrow> bool" where
  "entry_ok expected owner pm \<longleftrightarrow> (case pm of (rel, m) \<Rightarrow>
     (m_uid m, m_gid m) = owner \<and> \<not> special_bits m \<and> clean_xattrs m \<and>
     (m_kind m = KDir \<and> (rel = ''.'' \<or> rel \<in> set (ancestors (map fst expected))) \<and> \<not> go_writable m \<or>
      m_kind m = KReg \<and> map_of expected rel = Some (m_mode m) \<and> m_nlink m = 1))"

definition conforms :: "allow \<Rightarrow> nat \<times> nat \<Rightarrow> fsnode \<Rightarrow> bool" where
  "conforms expected owner t \<longleftrightarrow> m_kind (f_meta t) = KDir \<and>
     list_all (entry_ok expected owner) ((''.'', f_meta t) # entries_below ''.'' t) \<and>
     list_all (\<lambda>n. list_ex (\<lambda>(rel, m). rel = n \<and> m_kind m = KReg) (entries_below ''.'' t)) (map fst expected)"

lemma xattrs_Inr: "require_no_refused_xattrs rel m = Inr u \<longleftrightarrow> clean_xattrs m"
  by (auto simp: require_no_refused_xattrs_def clean_xattrs_def rall_eq_Inr require_eq_Inr split: sum.split)

lemma check_entry_Inr: "check_entry kind expected owner pm found = Inr found' \<longleftrightarrow>
    entry_ok expected owner pm \<and> found' = (if m_kind (snd pm) = KReg then found @ [fst pm] else found)"
proof -
  obtain rel m where pm: "pm = (rel, m)" by force
  show ?thesis
    by (cases "m_kind m"; cases "map_of expected rel")
      (auto simp: pm check_entry_def entry_ok_def require_eq_Inr rbind_eq_Inr xattrs_Inr)
qed

lemma check_fold: "rfold (check_entry kind expected owner) es found = Inr found' \<longleftrightarrow>
    list_all (entry_ok expected owner) es \<and> found' = found @ map fst (filter (\<lambda>pm. m_kind (snd pm) = KReg) es)"
  by (induction es arbitrary: found) (auto simp: rbind_eq_Inr check_entry_Inr)

lemma sorted_names: "distinct xs \<Longrightarrow> set xs = set ys \<Longrightarrow> sort (remdups ys) = sort xs"
  by (intro sorted_distinct_set_unique) (simp_all add: distinct_sort)

lemma sort_Nil: "sort xs = [] \<longleftrightarrow> xs = []"
  by (metis set_empty set_sort)

lemma check_iff:
  assumes "allowlist show kind pins verifier = Inr expected"
  shows "check show kind t pins verifier owner = Inr found \<longleftrightarrow> conforms expected owner t \<and> found = sort (remdups (map fst expected))"
proof -
  define es where "es = (''.'', f_meta t) # entries_below ''.'' t"
  define reg where "reg = map fst (filter (\<lambda>pm. m_kind (snd pm) = KReg) es)"
  have "check show kind t pins verifier owner = Inr found \<longleftrightarrow> m_kind (f_meta t) = KDir \<and>
      list_all (entry_ok expected owner) es \<and> set (map fst expected) \<subseteq> set reg \<and> found = sort (remdups reg)"
    unfolding check_def assms rbind_Inr es_def [symmetric] check_fold rbind_eq_Inr require_eq_Inr Let_def
    by (auto simp only: sort_Nil remdups_eq_nil_iff filter_empty_conv reg_def append_Nil not_not)
  moreover have "set reg \<subseteq> set (map fst expected)" if "list_all (entry_ok expected owner) es"
  proof
    fix r
    assume "r \<in> set reg"
    then obtain m where "(r, m) \<in> set es" "m_kind m = KReg" by (auto simp: reg_def)
    then have "entry_ok expected owner (r, m)" using that unfolding list_all_iff by blast
    with \<open>m_kind m = KReg\<close> have "map_of expected r = Some (m_mode m)" by (simp add: entry_ok_def)
    then show "r \<in> set (map fst expected)" by (force dest: map_of_SomeD)
  qed
  moreover have "set (map fst expected) \<subseteq> set reg \<longleftrightarrow>
      list_all (\<lambda>n. list_ex (\<lambda>(rel, m). rel = n \<and> m_kind m = KReg) (entries_below ''.'' t)) (map fst expected)"
    if "m_kind (f_meta t) = KDir"
  proof -
    have "r \<in> set reg \<longleftrightarrow> list_ex (\<lambda>(rel, m). rel = r \<and> m_kind m = KReg) (entries_below ''.'' t)" for r
      using that by (force simp: reg_def es_def list_ex_iff)
    then show ?thesis by (auto simp: list_all_iff subset_iff)
  qed
  moreover have "sort (remdups reg) = sort (remdups (map fst expected))" if "set reg = set (map fst expected)"
    using that by (intro sorted_distinct_set_unique) (simp_all only: distinct_sort distinct_remdups sorted_sort set_sort set_remdups)
  ultimately show ?thesis unfolding conforms_def es_def [symmetric] by (metis subset_antisym)
qed

section \<open>The paths of a tree\<close>

type_synonym paths = "(string list \<times> meta) set"

definition from_kid :: "string \<Rightarrow> paths \<Rightarrow> meta \<Rightarrow> paths" where
  "from_kid n ps m = insert ([n], m) ((\<lambda>(cs, m). (n # cs, m)) ` ps)"

function paths :: "fsnode \<Rightarrow> paths" where
  "paths (FsNode m d b None) = {}"
| "paths (FsNode m d b (Some ks)) = (\<Union>(n, c)\<in>set ks. from_kid n (paths c) (f_meta c))"
  by pat_completeness auto

termination
  by (relation "measure size") (auto simp: termination_simp)

text \<open>The directories of an export, its regular files, and a tree made of them only.\<close>

definition dir_meta :: "meta \<Rightarrow> meta" where
  "dir_meta m = m\<lparr>m_kind := KDir, m_mode := 493, m_xattrs := Inr []\<rparr>"

definition comp_name :: "string \<Rightarrow> bool" where
  "comp_name n \<longleftrightarrow> n \<noteq> [] \<and> n \<noteq> ''.'' \<and> CHR ''/'' \<notin> set n"

function exported :: "meta \<Rightarrow> fsnode \<Rightarrow> bool" where
  "exported c0 (FsNode m d b None) = False"
| "exported c0 (FsNode m d b (Some ks)) = (if d then m = dir_meta c0 \<and> distinct (map fst ks)
     \<and> (\<forall>(n, c)\<in>set ks. comp_name n \<and> exported c0 c) else ks = [] \<and> m_kind m = KReg)"
  by pat_completeness auto

termination
  by (relation "measure (size \<circ> snd)") (auto simp: termination_simp)

lemma exported_cases:
  assumes "exported c0 t" "f_isdir t"
  obtains b ks where "t = FsNode (dir_meta c0) True b (Some ks)" "distinct (map fst ks)"
    "\<forall>(n, c)\<in>set ks. comp_name n \<and> exported c0 c"
  using assms by (cases t; cases "f_kids t") auto

lemma exported_new_dir: "exported c0 (new_dir c0)"
  by (simp add: new_dir_def dir_meta_def)

lemma exported_new_file: "exported c0 (new_file c0 mode data)"
  by (simp add: new_file_def)

lemma dir_meta_idem [simp]: "dir_meta c0\<lparr>m_mode := 493\<rparr> = dir_meta c0"
  by (cases c0) (simp add: dir_meta_def)

lemma chmod_exported: "exported c0 t \<Longrightarrow> f_isdir t \<Longrightarrow> chmod exec_mode t = t"
  by (erule (1) exported_cases) (simp add: chmod_def exec_mode_def)

definition put_paths :: "meta \<Rightarrow> string list \<Rightarrow> meta \<Rightarrow> paths" where
  "put_paths c0 cs fm = insert (cs, fm) ((\<lambda>i. (take i cs, dir_meta c0)) ` {1..<length cs})"

lemma put_paths_Cons: "cs \<noteq> [] \<Longrightarrow> put_paths c0 (n # cs) fm = from_kid n (put_paths c0 cs fm) (dir_meta c0)"
proof -
  assume cs: "cs \<noteq> []"
  have "{1..<length (n # cs)} = insert 1 (Suc ` {1..<length cs})" using cs by (auto simp: image_Suc_atLeastLessThan)
  then have "(\<lambda>i. (take i (n # cs), dir_meta c0)) ` {1..<length (n # cs)} =
      insert ([n], dir_meta c0) ((\<lambda>i. (n # take i cs, dir_meta c0)) ` {1..<length cs})"
    by (simp only: image_insert image_image) simp
  then show ?thesis by (simp add: put_paths_def from_kid_def image_image insert_commute)
qed

lemma from_kid_mono: "ps \<subseteq> qs \<Longrightarrow> from_kid n ps m \<subseteq> from_kid n qs m"
  by (auto simp: from_kid_def)

lemma from_kid_Un: "from_kid n (ps \<union> qs) m = from_kid n ps m \<union> from_kid n qs m"
  by (auto simp: from_kid_def)

lemma paths_add_kid: "f_kids t = Some ks \<Longrightarrow> paths (add_kid n c t) = paths t \<union> from_kid n (paths c) (f_meta c)"
  by (cases t) (auto simp: add_kid_def)

lemma set_dict_set_present: "distinct (map fst d) \<Longrightarrow> map_of d k = Some v0 \<Longrightarrow> set (dict_set k v d) = insert (k, v) (set d - {(k, v0)})"
  by (induction d) (auto simp: image_iff split: if_splits dest: map_of_SomeD)

lemma paths_set_kid:
  assumes "f_kids t = Some ks" "distinct (map fst ks)" "map_of ks n = Some k"
    "from_kid n (paths k) (f_meta k) \<subseteq> from_kid n (paths c) (f_meta c)"
  shows "paths (set_kid n c t) = paths t \<union> from_kid n (paths c) (f_meta c)"
proof -
  have "(n, k) \<in> set ks" using assms(3) by (rule map_of_SomeD)
  then show ?thesis using assms by (cases t) (auto simp: set_kid_def set_dict_set_present)
qed

lemma paths_leaf: "exported c0 t \<Longrightarrow> \<not> f_isdir t \<Longrightarrow> paths t = {}"
  by (cases t; cases "f_kids t") auto

lemma f_meta_add_kid [simp]: "f_meta (add_kid n c t) = f_meta t" "f_isdir (add_kid n c t) = f_isdir t"
  by (simp_all add: add_kid_def)

lemma f_meta_set_kid [simp]: "f_meta (set_kid n c t) = f_meta t" "f_isdir (set_kid n c t) = f_isdir t"
  by (simp_all add: set_kid_def)

lemma exported_add_kid:
  assumes "exported c0 t" "f_isdir t" "kid n t = None" "comp_name n" "exported c0 c"
  shows "exported c0 (add_kid n c t)"
proof -
  obtain b ks where "t = FsNode (dir_meta c0) True b (Some ks)" "distinct (map fst ks)"
    "\<forall>(n, c)\<in>set ks. comp_name n \<and> exported c0 c"
    by (rule exported_cases [OF assms(1,2)])
  then show ?thesis using assms(3-5) by (auto simp: add_kid_def kid_def map_of_eq_None_iff)
qed

lemma exported_set_kid:
  assumes "exported c0 t" "f_isdir t" "comp_name n" "exported c0 c"
  shows "exported c0 (set_kid n c t)"
proof -
  obtain b ks where t: "t = FsNode (dir_meta c0) True b (Some ks)" "distinct (map fst ks)"
    "\<forall>(n, c)\<in>set ks. comp_name n \<and> exported c0 c"
    by (rule exported_cases [OF assms(1,2)])
  have "set (dict_set n c ks) \<subseteq> insert (n, c) (set ks)"
    by (induction n c ks rule: dict_set.induct) auto
  then show ?thesis using t assms(3,4) by (fastforce simp: set_kid_def)
qed

lemma put_exported:
  assumes "put c0 cs f t = Inr t'" "exported c0 t" "f_isdir t" "list_all comp_name cs" "exported c0 f" "\<not> f_isdir f"
  shows "exported c0 t' \<and> f_isdir t' \<and> f_meta t' = f_meta t \<and> paths t' = paths t \<union> put_paths c0 cs (f_meta f)"
  using assms
proof (induction c0 cs f t arbitrary: t' rule: put.induct)
  case (2 c0 n f t)
  from "2.prems" obtain b ks where t: "t = FsNode (dir_meta c0) True b (Some ks)" by (auto elim: exported_cases)
  have k: "kid n t = None" "t' = add_kid n f t" using "2.prems"(1) by (simp_all add: require_eq_Inr)
  have "paths t' = paths t \<union> from_kid n (paths f) (f_meta f)" by (simp only: k(2)) (rule paths_add_kid, simp add: t)
  moreover have "paths f = {}" using "2.prems" by (intro paths_leaf)
  ultimately show ?case using exported_add_kid "2.prems" k by (simp add: put_paths_def from_kid_def)
next
  case (3 c0 n c cs f t)
  from "3.prems" obtain b ks where t: "t = FsNode (dir_meta c0) True b (Some ks)" "distinct (map fst ks)"
    "\<forall>(n, c)\<in>set ks. comp_name n \<and> exported c0 c" by (auto elim: exported_cases)
  have pc: "put_paths c0 (n # c # cs) (f_meta f) = from_kid n (put_paths c0 (c # cs) (f_meta f)) (dir_meta c0)"
    by (rule put_paths_Cons) simp
  show ?case
  proof (cases "kid n t")
    case None
    with "3.prems"(1) obtain k where k: "put c0 (c # cs) f (new_dir c0) = Inr k" "t' = add_kid n k t" by (auto simp: rbind_eq_Inr)
    from "3.IH"(1) [OF None k(1)] "3.prems" exported_new_dir
    have "exported c0 k \<and> f_isdir k \<and> f_meta k = f_meta (new_dir c0) \<and> paths k = paths (new_dir c0) \<union> put_paths c0 (c # cs) (f_meta f)"
      by (simp add: new_dir_def)
    then have ke: "exported c0 k" "f_meta k = dir_meta c0" "paths k = put_paths c0 (c # cs) (f_meta f)"
      by (simp_all add: new_dir_def dir_meta_def)
    have "paths t' = paths t \<union> from_kid n (paths k) (f_meta k)" by (simp only: k(2)) (rule paths_add_kid, simp add: t)
    then show ?thesis using exported_add_kid [OF _ _ None] "3.prems" ke k(2) pc by simp
  next
    case (Some k0)
    with "3.prems"(1) obtain k where k: "f_isdir k0" "put c0 (c # cs) f (chmod exec_mode k0) = Inr k" "t' = set_kid n k t"
      by (auto simp: rbind_eq_Inr require_eq_Inr)
    have m: "map_of ks n = Some k0" using Some by (simp add: kid_def t)
    then have "exported c0 k0" using t(3) by (auto dest: map_of_SomeD)
    then have ch: "chmod exec_mode k0 = k0" using k(1) by (rule chmod_exported)
    have e0: "f_meta k0 = dir_meta c0" using \<open>exported c0 k0\<close> k(1) by (auto elim: exported_cases)
    from "3.IH"(2) [OF Some] k(1,2) "3.prems" \<open>exported c0 k0\<close>
    have ke: "exported c0 k" "f_meta k = dir_meta c0" "paths k = paths k0 \<union> put_paths c0 (c # cs) (f_meta f)"
      by (simp_all add: ch e0)
    have sub: "from_kid n (paths k0) (f_meta k0) \<subseteq> from_kid n (paths k) (f_meta k)"
      by (simp add: ke e0 from_kid_Un)
    have "paths t' = paths t \<union> from_kid n (paths k) (f_meta k)"
      unfolding k(3) by (rule paths_set_kid [OF _ t(2) m sub]) (simp add: t(1))
    moreover have "from_kid n (paths k0) (f_meta k0) \<subseteq> paths t" using m by (auto simp: t dest!: map_of_SomeD)
    ultimately have "paths t' = paths t \<union> put_paths c0 (n # c # cs) (f_meta f)"
      by (auto simp: ke e0 pc from_kid_Un)
    then show ?thesis using exported_set_kid "3.prems" ke k(3) by simp
  qed
qed simp

text \<open>The entries that \<open>check\<close> walks over are the paths of the tree.\<close>

lemma rel_paths: "(\<lambda>(cs, m). (fold (\<lambda>c r. rel_join r c) cs rel, m)) ` from_kid n ps m0 =
    insert (rel_join rel n, m0) ((\<lambda>(cs, m). (fold (\<lambda>c r. rel_join r c) cs (rel_join rel n), m)) ` ps)"
  by (simp add: from_kid_def image_image case_prod_unfold)

lemma entries_paths:
  assumes "exported c0 t"
  shows "set (entries_below rel t) = (\<lambda>(cs, m). (fold (\<lambda>c r. rel_join r c) cs rel, m)) ` paths t"
  using assms
proof (induction rel t rule: entries_below.induct)
  case (2 rel m d b ks)
  let ?f = "\<lambda>rel (cs, m). (fold (\<lambda>c r. rel_join r c) cs rel, m :: meta)"
  have "set (entries_below rel (FsNode m d b (Some ks))) = (\<Union>(n, c)\<in>set ks. insert (rel_join rel n, f_meta c) (?f (rel_join rel n) ` paths c))"
  proof (cases d)
    case False
    then show ?thesis using "2.prems" by simp
  next
    case True
    have link: "f_isdir c \<Longrightarrow> m_kind (f_meta c) \<noteq> KLink" if "(n, c) \<in> set ks" for n c
      using that "2.prems" True by (auto elim!: exported_cases simp: dir_meta_def)
    have leaf: "\<not> f_isdir c \<Longrightarrow> paths c = {}" if "(n, c) \<in> set ks" for n c
      using that "2.prems" True paths_leaf by auto
    have IH: "set (entries_below (rel_join rel n) c) = ?f (rel_join rel n) ` paths c" if "(n, c) \<in> set ks" "f_isdir c" for n c
    proof -
      have "exported c0 c" using that "2.prems" True by auto
      then show ?thesis using "2.IH" [of "(n, c)"] that link [OF that] by simp
    qed
    have "set (entries_below rel (FsNode m d b (Some ks))) = (\<Union>(n, c)\<in>set ks. insert (rel_join rel n, f_meta c)
        (if f_isdir c then set (entries_below (rel_join rel n) c) else {}))"
      using link by (auto split: if_splits intro: rev_image_eqI)
    also have "\<dots> = (\<Union>(n, c)\<in>set ks. insert (rel_join rel n, f_meta c) (?f (rel_join rel n) ` paths c))"
    proof (rule SUP_cong [OF refl])
      fix nc
      assume nc: "nc \<in> set ks"
      obtain n c where "nc = (n, c)" by force
      then show "(case nc of (n, c) \<Rightarrow> insert (rel_join rel n, f_meta c) (if f_isdir c then set (entries_below (rel_join rel n) c) else {})) =
          (case nc of (n, c) \<Rightarrow> insert (rel_join rel n, f_meta c) (?f (rel_join rel n) ` paths c))"
        using IH [of n c] leaf [of n c] nc by simp
    qed
    finally show ?thesis .
  qed
  also have "\<dots> = ?f rel ` paths (FsNode m d b (Some ks))"
    unfolding paths.simps image_UN by (rule SUP_cong [OF refl]) (simp add: rel_paths split: prod.split)
  finally show ?case .
qed simp


section \<open>An export passes the check\<close>

definition names_ok :: "allow \<Rightarrow> bool" where
  "names_ok expected \<longleftrightarrow> distinct (map fst expected) \<and>
     list_all (\<lambda>n. components n \<noteq> [] \<and> join ''/'' (components n) = n \<and> n \<notin> set (ancestors (map fst expected))) (map fst expected)
     \<and> list_all (\<lambda>(n, mode). mode AND 3584 = 0) expected"

lemma rel_join_comp: "comp_name c \<Longrightarrow> rel_join (join ''/'' (d # ds)) c = join ''/'' ((d # ds) @ [c])" if "comp_name d" for d
proof -
  have "join ''/'' (d # ds) \<noteq> ''.''"
  proof (cases ds)
    case Nil
    then show ?thesis using that by (simp add: comp_name_def)
  next
    case (Cons e es)
    then have "CHR ''/'' \<in> set (join ''/'' (d # ds))" by simp
    then show ?thesis by auto
  qed
  moreover have "join ''/'' ((d # ds) @ [c]) = join ''/'' (d # ds) @ ''/'' @ c"
    by (induction ds arbitrary: d) simp_all
  ultimately show ?thesis by (simp add: rel_join_def)
qed

lemma rel_fold: "list_all comp_name (d # ds @ cs) \<Longrightarrow> fold (\<lambda>c r. rel_join r c) cs (join ''/'' (d # ds)) = join ''/'' (d # ds @ cs)"
proof (induction cs arbitrary: ds)
  case (Cons c cs)
  then have "rel_join (join ''/'' (d # ds)) c = join ''/'' (d # ds @ [c])" using rel_join_comp [of d c ds] by simp
  then show ?case using Cons.IH [of "ds @ [c]"] Cons.prems by simp
qed simp

lemma rel_fold_top: "list_all comp_name cs \<Longrightarrow> cs \<noteq> [] \<Longrightarrow> fold (\<lambda>c r. rel_join r c) cs ''.'' = join ''/'' cs"
  using rel_fold [of "hd cs" "[]" "tl cs"] by (cases cs) (simp_all add: rel_join_def)

lemma components_comp: "list_all comp_name (components p)"
  by (auto simp: components_def list_all_iff comp_name_def dest: split_on_fields)

lemma export_fold:
  assumes "rfold (export_one kind c0 source) es t = Inr t'" "exported c0 t" "f_isdir t" "f_meta t = dir_meta c0"
  shows "exported c0 t' \<and> f_isdir t' \<and> f_meta t' = dir_meta c0 \<and>
    paths t' = paths t \<union> (\<Union>(n, mode)\<in>set es. put_paths c0 (components n) (f_meta (new_file c0 mode [])))"
  using assms
proof (induction es arbitrary: t)
  case (Cons e es)
  obtain n mode where e: "e = (n, mode)" by force
  from Cons.prems(1) obtain u where x: "export_one kind c0 source e t = Inr u" "rfold (export_one kind c0 source) es u = Inr t'"
    by (auto simp: rbind_eq_Inr)
  from x(1) obtain data where u: "put c0 (components n) (new_file c0 mode data) t = Inr u"
    by (auto simp: e rbind_eq_Inr export_one_def)
  have "exported c0 u \<and> f_isdir u \<and> f_meta u = f_meta t \<and> paths u = paths t \<union> put_paths c0 (components n) (f_meta (new_file c0 mode data))"
    by (rule put_exported [OF u Cons.prems(2,3) components_comp exported_new_file]) (simp add: new_file_def)
  moreover have "f_meta (new_file c0 mode data) = f_meta (new_file c0 mode [])" by (simp add: new_file_def)
  ultimately show ?case using Cons.IH [OF x(2)] Cons.prems by (auto simp: e)
qed simp

lemma put_entries:
  "(p, m) \<in> (\<lambda>(cs, m). (fold (\<lambda>c r. rel_join r c) cs ''.'', m)) ` put_paths c0 (components n) fm \<Longrightarrow> components n \<noteq> [] \<Longrightarrow>
   join ''/'' (components n) = n \<Longrightarrow> (p = n \<and> m = fm) \<or> (p \<in> set (parents_of n) \<and> m = dir_meta c0)"
proof -
  assume a: "(p, m) \<in> (\<lambda>(cs, m). (fold (\<lambda>c r. rel_join r c) cs ''.'', m)) ` put_paths c0 (components n) fm"
    and n: "components n \<noteq> []" "join ''/'' (components n) = n"
  from a consider "p = fold (\<lambda>c r. rel_join r c) (components n) ''.''" "m = fm"
    | i where "i \<in> {1..<length (components n)}" "p = fold (\<lambda>c r. rel_join r c) (take i (components n)) ''.''" "m = dir_meta c0"
    by (auto simp: put_paths_def)
  then show ?thesis
  proof cases
    case 1
    then show ?thesis using n rel_fold_top [OF components_comp n(1)] by simp
  next
    case 2
    have "list_all comp_name (take i (components n))"
      using components_comp [of n] unfolding list_all_iff by (blast dest: in_set_takeD)
    moreover have "take i (components n) \<noteq> []" using 2(1) n(1) by auto
    ultimately have "p = join ''/'' (take i (components n))" using 2(2) rel_fold_top [of "take i (components n)"] by simp
    then show ?thesis using 2 by (auto simp: parents_of_def Let_def)
  qed
qed

lemma export_conforms:
  assumes "allowlist show kind pins verifier = Inr expected" "names_ok expected"
    and "export show kind c0 source None pins verifier = Inr (t, names)"
  shows "conforms expected (m_uid c0, m_gid c0) t"
proof -
  have "rfold (export_one kind c0 source) (sort_key fst expected) (new_dir c0) = Inr t"
    using assms(1,3) by (auto simp: export_def rbind_eq_Inr require_eq_Inr)
  note ex = export_fold [OF this exported_new_dir]
  have p: "exported c0 t" "f_meta t = dir_meta c0"
    "paths t = (\<Union>(n, mode)\<in>set expected. put_paths c0 (components n) (f_meta (new_file c0 mode [])))"
    using ex by (auto simp: new_dir_def dir_meta_def)
  have ents: "set (entries_below ''.'' t) = (\<Union>(n, mode)\<in>set expected.
      (\<lambda>(cs, m). (fold (\<lambda>c r. rel_join r c) cs ''.'', m)) ` put_paths c0 (components n) (f_meta (new_file c0 mode [])))"
    by (simp add: entries_paths [OF p(1)] p(3) image_UN case_prod_unfold)
  have dirok: "\<not> special_bits (dir_meta c0) \<and> \<not> go_writable (dir_meta c0) \<and> clean_xattrs (dir_meta c0)"
    by (simp add: special_bits_def go_writable_def clean_xattrs_def dir_meta_def)
  have name: "components n \<noteq> []" "join ''/'' (components n) = n" "n \<notin> set (ancestors (map fst expected))" "mode AND 3584 = 0"
      "map_of expected n = Some mode"
    if "(n, mode) \<in> set expected" for n mode
    using that assms(2) by (auto simp: names_ok_def list_all_iff)
  have "entry_ok expected (m_uid c0, m_gid c0) (q, m)" if "(q, m) \<in> set (entries_below ''.'' t)" for q m
  proof -
    from that obtain n mode where n: "(n, mode) \<in> set expected"
      "(q, m) \<in> (\<lambda>(cs, m). (fold (\<lambda>c r. rel_join r c) cs ''.'', m)) ` put_paths c0 (components n) (f_meta (new_file c0 mode []))"
      unfolding ents by (elim UN_E) (auto split: prod.splits)
    note nm = name [OF n(1)]
    from put_entries [OF n(2) nm(1,2)] show ?thesis
    proof
      assume "q = n \<and> m = f_meta (new_file c0 mode [])"
      then show ?thesis using nm by (simp add: entry_ok_def new_file_def special_bits_def clean_xattrs_def)
    next
      assume q: "q \<in> set (parents_of n) \<and> m = dir_meta c0"
      then have "q \<in> set (ancestors (map fst expected))" using n(1) by (force simp: ancestors_def)
      moreover have "m_uid m = m_uid c0 \<and> m_gid m = m_gid c0 \<and> m_kind m = KDir" using q by (simp add: dir_meta_def)
      ultimately show ?thesis using dirok q by (simp add: entry_ok_def)
    qed
  qed
  moreover have "\<exists>m. (n, m) \<in> set (entries_below ''.'' t) \<and> m_kind m = KReg" if "(n, mode) \<in> set expected" for n mode
  proof -
    have "(components n, f_meta (new_file c0 mode [])) \<in> put_paths c0 (components n) (f_meta (new_file c0 mode []))"
      by (simp add: put_paths_def)
    then have "(n, f_meta (new_file c0 mode [])) \<in> set (entries_below ''.'' t)"
      unfolding ents using that rel_fold_top [OF components_comp name(1) [OF that]] name(2) [OF that] by force
    then show ?thesis by (auto simp: new_file_def)
  qed
  moreover have "entry_ok expected (m_uid c0, m_gid c0) (''.'', f_meta t)" "m_kind (f_meta t) = KDir"
    using dirok p(2) by (simp_all add: entry_ok_def) (simp_all add: dir_meta_def)
  ultimately show ?thesis by (fastforce simp: conforms_def list_all_iff list_ex_iff)
qed

section \<open>Merging keeps what is there\<close>

text \<open>A tree that has everything another one has, its directories perhaps with more entries.\<close>

definition same_entry :: "fsnode \<Rightarrow> fsnode \<Rightarrow> bool" where
  "same_entry x y \<longleftrightarrow> f_meta y = f_meta x \<and> f_data y = f_data x \<and> (m_kind (f_meta x) \<noteq> KDir \<longrightarrow> y = x)"

definition extends :: "fsnode \<Rightarrow> fsnode \<Rightarrow> bool" where
  "extends t t' \<longleftrightarrow> (\<forall>cs x. node_at cs t = Some x \<longrightarrow> (\<exists>y. node_at cs t' = Some y \<and> same_entry x y))"

fun listable :: "fsnode \<Rightarrow> bool" where
  "listable (FsNode m d b None) = False"
| "listable (FsNode m d b (Some ks)) = (\<forall>(n, c)\<in>set ks. listable c)"

text \<open>The regular files of a source, by path.\<close>

fun file_in :: "string list \<Rightarrow> fsnode \<Rightarrow> fsnode \<Rightarrow> bool" where
  "file_in [] t c = False"
| "file_in [n] t c = ((n, c) \<in> set (plain_files t))"
| "file_in (n # cs) t c = (\<exists>k. (n, k) \<in> set (real_dirs t) \<and> file_in cs k c)"

definition arrived :: "fsnode \<Rightarrow> string list \<Rightarrow> fsnode \<Rightarrow> bool" where
  "arrived t cs c \<longleftrightarrow> (\<exists>f. node_at cs t = Some f \<and> f_data f = f_data c \<and> m_mode (f_meta f) = m_mode (f_meta c) \<and> m_kind (f_meta f) = KReg)"

lemma same_refl [simp]: "same_entry x x"
  by (simp add: same_entry_def)

lemma same_trans: "same_entry x y \<Longrightarrow> same_entry y z \<Longrightarrow> same_entry x z"
  by (auto simp: same_entry_def)

lemma extends_refl [simp]: "extends t t"
  by (simp add: extends_def)

lemma extends_trans: "extends t u \<Longrightarrow> extends u v \<Longrightarrow> extends t v"
  unfolding extends_def using same_trans by meson

lemma arrived_extends: "extends t u \<Longrightarrow> arrived t cs c \<Longrightarrow> arrived u cs c"
  unfolding extends_def arrived_def same_entry_def by (metis)

lemma listable_kids: "listable t \<Longrightarrow> f_kids t \<noteq> None"
  by (cases t; cases "f_kids t") auto

lemma listable_kid: "listable t \<Longrightarrow> kid n t = Some k \<Longrightarrow> listable k"
  by (cases t; cases "f_kids t") (auto simp: kid_def dest!: map_of_SomeD)

lemma kid_set_kid: "f_kids t \<noteq> None \<Longrightarrow> kid k (set_kid n c t) = (if k = n then Some c else kid k t)"
  by (auto simp: kid_def set_kid_def)

lemma listable_add_kid: "listable t \<Longrightarrow> listable c \<Longrightarrow> listable (add_kid n c t)"
  by (cases t; cases "f_kids t") (auto simp: add_kid_def)

lemma listable_set_kid:
  assumes "listable t" "listable c"
  shows "listable (set_kid n c t)"
proof -
  have "set (dict_set n c ks) \<subseteq> insert (n, c) (set ks)" for ks
    by (induction n c ks rule: dict_set.induct) auto
  then show ?thesis using assms by (cases t; cases "f_kids t") (fastforce simp: set_kid_def)+
qed

lemma extends_kids:
  assumes "m_kind (f_meta t) = KDir" "f_meta u = f_meta t" "f_data u = f_data t"
    and "\<And>n k. kid n t = Some k \<Longrightarrow> \<exists>k'. kid n u = Some k' \<and> extends k k'"
  shows "extends t u"
  unfolding extends_def
proof (intro allI impI)
  fix cs x
  assume x: "node_at cs t = Some x"
  show "\<exists>y. node_at cs u = Some y \<and> same_entry x y"
  proof (cases cs)
    case Nil
    then show ?thesis using x assms(1-3) by (simp add: same_entry_def)
  next
    case (Cons n ds)
    then obtain k where k: "kid n t = Some k" "node_at ds k = Some x" using x by (auto split: option.splits)
    then obtain k' where "kid n u = Some k'" "extends k k'" using assms(4) by blast
    then show ?thesis using k Cons by (auto simp: extends_def)
  qed
qed

lemma f_data_kid [simp]: "f_data (add_kid n c t) = f_data t" "f_data (set_kid n c t) = f_data t"
  by (simp_all add: add_kid_def set_kid_def)

lemma extends_add_kid: "m_kind (f_meta t) = KDir \<Longrightarrow> listable t \<Longrightarrow> kid n t = None \<Longrightarrow> extends t (add_kid n c t)"
  by (rule extends_kids) (auto simp: kid_add_kid listable_kids)

lemma extends_set_kid:
  assumes "m_kind (f_meta t) = KDir" "listable t" "\<And>k. kid n t = Some k \<Longrightarrow> extends k c"
  shows "extends t (set_kid n c t)"
  by (rule extends_kids) (use assms in \<open>auto simp: kid_set_kid listable_kids\<close>)

text \<open>The state of a merge: a directory that extends the destination and has the files merged so far.\<close>

definition merging :: "fsnode \<Rightarrow> fsnode \<Rightarrow> bool" where
  "merging d t \<longleftrightarrow> m_kind (f_meta t) = KDir \<and> listable t \<and> extends d t"

lemma merge_files:
  assumes "rfold (merge_file creator rel) fs da = Inr da'" "merging d (fst da)"
  shows "merging d (fst da') \<and> extends (fst da) (fst da') \<and> (\<forall>(n, c)\<in>set fs. arrived (fst da') [n] c)"
  using assms
proof (induction fs arbitrary: da)
  case (Cons nc fs)
  obtain n c t added where nc: "nc = (n, c)" and da: "da = (t, added)" by (metis surj_pair)
  from Cons.prems(1) obtain du where du: "merge_file creator rel nc da = Inr du" "rfold (merge_file creator rel) fs du = Inr da'"
    by (auto simp: rbind_eq_Inr)
  define f where "f = new_file creator (m_mode (f_meta c)) (f_data c)"
  have u: "kid n t = None" "fst du = add_kid n f t" using du(1) by (auto simp: merge_file_def nc da require_eq_Inr f_def)
  have t: "m_kind (f_meta t) = KDir" "listable t" "extends d t" using Cons.prems(2) by (simp_all add: merging_def da)
  have e: "extends t (fst du)" using extends_add_kid [OF t(1,2) u(1)] u(2) by simp
  have "listable f" by (simp add: f_def new_file_def)
  then have "merging d (fst du)" using t u(2) e extends_trans listable_add_kid by (simp add: merging_def)
  moreover have "kid n (fst du) = Some f" using u t(2) by (simp add: kid_add_kid listable_kids)
  then have "arrived (fst du) [n] c" by (simp add: arrived_def f_def new_file_def)
  ultimately show ?case using Cons.IH [OF du(2)] e extends_trans arrived_extends by (auto simp: nc da)
qed simp

lemma merge_dirs:
  assumes "rfold (\<lambda>nc da. rbind (merge_dir creator (rel_join rel (fst nc)) (snd nc) (kid (fst nc) (fst da))) (\<lambda>ka.
         Inr (set_kid (fst nc) (fst ka) (fst da), snd da @ snd ka))) ds da = Inr da'" "merging d (fst da)"
    and "\<And>n c s r. (n, c) \<in> set ds \<Longrightarrow> (\<And>x. kid n s = Some x \<Longrightarrow> listable x) \<Longrightarrow> merge_dir creator (rel_join rel n) c (kid n s) = Inr r \<Longrightarrow>
      listable (fst r) \<and> (\<forall>x. kid n s = Some x \<longrightarrow> extends x (fst r)) \<and> (\<forall>cs f. file_in cs c f \<longrightarrow> arrived (fst r) cs f)"
  shows "merging d (fst da') \<and> extends (fst da) (fst da') \<and> (\<forall>(n, c)\<in>set ds. \<forall>cs f. file_in cs c f \<longrightarrow> arrived (fst da') (n # cs) f)"
  using assms
proof (induction ds arbitrary: da)
  case (Cons nc ds)
  obtain n c t added where nc: "nc = (n, c)" and da: "da = (t, added)" by (metis surj_pair)
  let ?step = "\<lambda>nc da. rbind (merge_dir creator (rel_join rel (fst nc)) (snd nc) (kid (fst nc) (fst da))) (\<lambda>ka.
         Inr (set_kid (fst nc) (fst ka) (fst da), snd da @ snd ka))"
  from Cons.prems(1) obtain r where r: "merge_dir creator (rel_join rel n) c (kid n t) = Inr r"
    and f: "rfold ?step ds (set_kid n (fst r) t, added @ snd r) = Inr da'"
    by (auto simp: rbind_eq_Inr nc da)
  have t: "m_kind (f_meta t) = KDir" "listable t" "extends d t" using Cons.prems(2) by (simp_all add: merging_def da)
  have k: "listable (fst r)" "\<forall>x. kid n t = Some x \<longrightarrow> extends x (fst r)" "\<forall>cs f. file_in cs c f \<longrightarrow> arrived (fst r) cs f"
    using Cons.prems(3) [of n c t r] r listable_kid [OF t(2)] by (simp_all add: nc)
  let ?u = "set_kid n (fst r) t"
  have e: "extends t ?u" using extends_set_kid [OF t(1,2)] k(2) by blast
  have m: "merging d ?u" using t e k(1) extends_trans listable_set_kid by (simp add: merging_def)
  have a: "arrived ?u (n # cs) f" if "file_in cs c f" for cs f
    using k(3) that t(2) by (simp add: arrived_def kid_set_kid listable_kids)
  have IH: "merging d (fst da') \<and> extends ?u (fst da') \<and> (\<forall>(n, c)\<in>set ds. \<forall>cs f. file_in cs c f \<longrightarrow> arrived (fst da') (n # cs) f)"
  proof (rule Cons.IH [OF f, unfolded fst_conv])
    show "merging d ?u" by (rule m)
  next
    fix n' c' s' r'
    assume "(n', c') \<in> set ds" "\<And>x. kid n' s' = Some x \<Longrightarrow> listable x" "merge_dir creator (rel_join rel n') c' (kid n' s') = Inr r'"
    then show "listable (fst r') \<and> (\<forall>x. kid n' s' = Some x \<longrightarrow> extends x (fst r')) \<and> (\<forall>cs f. file_in cs c' f \<longrightarrow> arrived (fst r') cs f)"
      using Cons.prems(3) [of n' c' s' r'] by simp
  qed
  have "extends t (fst da')" using e IH extends_trans by blast
  moreover have "arrived (fst da') (n # cs) f" if "file_in cs c f" for cs f
    using a [OF that] IH arrived_extends by blast
  ultimately show ?case using IH by (simp add: nc da)
qed simp


lemma file_in_cases: "file_in cs t c \<longleftrightarrow> (\<exists>n. cs = [n] \<and> (n, c) \<in> set (plain_files t)) \<or>
    (\<exists>n ds k. cs = n # ds \<and> ds \<noteq> [] \<and> (n, k) \<in> set (real_dirs t) \<and> file_in ds k c)"
  by (cases "(cs, t, c)" rule: file_in.cases) auto

lemma merge_dir_ok:
  "merge_dir creator rel source dest = Inr r \<Longrightarrow> (\<And>x. dest = Some x \<Longrightarrow> listable x) \<Longrightarrow>
   listable (fst r) \<and> (\<forall>x. dest = Some x \<longrightarrow> extends x (fst r)) \<and> (\<forall>cs f. file_in cs source f \<longrightarrow> arrived (fst r) cs f)"
proof (induction creator rel source dest arbitrary: r rule: merge_dir.induct)
  case (1 creator rel source dest)
  from "1.prems"(1) obtain d da where d: "merge_base creator rel dest = Inr d"
    and da: "rfold (merge_file creator rel) (plain_files source) (d, []) = Inr da"
    and r: "rfold (\<lambda>nc da. rbind (merge_dir creator (rel_join rel (fst nc)) (snd nc) (kid (fst nc) (fst da))) (\<lambda>ka.
         Inr (set_kid (fst nc) (fst ka) (fst da), snd da @ snd ka))) (real_dirs source) da = Inr r"
    by (subst (asm) merge_dir.simps) (auto simp: rbind_eq_Inr)
  have "m_kind (f_meta d) = KDir \<and> listable d \<and> (\<forall>x. dest = Some x \<longrightarrow> x = d)"
    using d "1.prems"(2) by (auto simp: merge_base_def require_eq_Inr new_dir_def split: option.splits)
  then have m: "merging d (fst (d, []))" "\<And>x. dest = Some x \<Longrightarrow> x = d" by (simp_all add: merging_def)
  note files = merge_files [OF da m(1)]
  then have m2: "merging d (fst da)" by simp
  note dirs = merge_dirs [OF r m2]
  have ok: "merging d (fst r) \<and> extends (fst da) (fst r) \<and>
      (\<forall>(n, c)\<in>set (real_dirs source). \<forall>cs f. file_in cs c f \<longrightarrow> arrived (fst r) (n # cs) f)"
  proof (rule dirs)
    fix n c s r'
    assume a: "(n, c) \<in> set (real_dirs source)" "\<And>x. kid n s = Some x \<Longrightarrow> listable x"
      "merge_dir creator (rel_join rel n) c (kid n s) = Inr r'"
    then show "listable (fst r') \<and> (\<forall>x. kid n s = Some x \<longrightarrow> extends x (fst r')) \<and> (\<forall>cs f. file_in cs c f \<longrightarrow> arrived (fst r') cs f)"
      using "1.IH" [OF d da a(1), of "(s, [])" r'] by simp
  qed
  moreover have "arrived (fst r) cs f" if "file_in cs source f" for cs f
    using that ok files arrived_extends [of "fst da" "fst r"] unfolding file_in_cases [of cs] by fastforce
  ultimately show ?case using m(2) by (auto simp: merging_def)
qed

section \<open>Tarballs and probes\<close>

definition sound_tarball :: "fsnode \<Rightarrow> bool" where
  "sound_tarball t \<longleftrightarrow> m_kind (f_meta t) = KReg \<and> m_nlink (f_meta t) = 1 \<and> length (f_data t) \<le> MAX_TARBALL"

lemma read_tarball_Some: "read_tarball (Some t) label = Inr x \<longleftrightarrow>
    sound_tarball t \<and> x = (f_data t, m_dev (f_meta t), m_ino (f_meta t))"
  by (auto simp: read_tarball_def sound_tarball_def Let_def require_eq_Inr)

definition reachable :: "network \<Rightarrow> bool" where
  "reachable N \<longleftrightarrow> list_ex (\<lambda>(h, p). n_connect N h p = None) PROBE_ADDRESSES \<or>
     (case n_resolve N (fst PROBE_NAME) (snd PROBE_NAME) of Inl _ \<Rightarrow> False | Inr a \<Rightarrow> n_connect N a (snd PROBE_NAME) = None)"

lemma reached_iff: "filter (\<lambda>r. snd r = None) (attempts N) = [] \<longleftrightarrow> \<not> reachable N"
  by (auto simp: attempts_def reachable_def PROBE_ADDRESSES_def PROBE_NAME_def split: sum.split)

section \<open>Properties\<close>

lemma exported_names: "export show kind c0 source None pins verifier = Inr (t, names) \<Longrightarrow> allowlist show kind pins verifier = Inr expected \<Longrightarrow>
    names = sort (map fst expected)"
  by (auto simp: export_def rbind_eq_Inr require_eq_Inr)

text \<open>
  C21: an exported tree passes the check of the receiving stage. When the allowlist's names are plain
  relative paths, none the parent of another, and its modes have no special bits, the tree that
  \<open>export\<close> builds from any source is accepted by \<open>check\<close> for the owner that built it, with the same names.
\<close>
theorem export_checks:
  assumes "allowlist show kind pins verifier = Inr expected" "names_ok expected"
    and "export show kind c0 source None pins verifier = Inr (t, names)"
  shows "check show kind t pins verifier (m_uid c0, m_gid c0) = Inr names"
proof -
  have "distinct (map fst expected)" using assms(2) by (simp add: names_ok_def)
  then show ?thesis using check_iff [OF assms(1)] export_conforms [OF assms] exported_names [OF assms(3,1)] by (simp add: distinct_remdups_id)
qed

definition toy_creator :: meta where
  "toy_creator = \<lparr>m_kind = KDir, m_uid = 0, m_gid = 0, m_mode = 448, m_nlink = 1, m_dev = 1, m_ino = 1, m_xattrs = Inr []\<rparr>"

definition toy_artifact :: fsnode where
  "toy_artifact = FsNode (toy_creator\<lparr>m_mode := 511\<rparr>) True [] (Some (map (\<lambda>n. (n, new_file toy_creator 438 n))
     (''leftover'' # SCANNER_BINARIES @ SCANNER_FILES)))"

definition toy_handoff :: "(fsnode \<times> string list) result" where
  "toy_handoff = export (\<lambda>_. []) ''scanner'' toy_creator toy_artifact None JNull None"

definition scanner_allow :: allow where
  "scanner_allow = map (\<lambda>n. (n, exec_mode)) SCANNER_BINARIES @ map (\<lambda>n. (n, data_mode)) SCANNER_FILES"

lemma scanner_allow: "allowlist show ''scanner'' pins verifier = Inr scanner_allow" "names_ok scanner_allow"
  by (simp add: allowlist_def scanner_allow_def) code_simp

definition toy_exported :: fsnode where
  "toy_exported = (case toy_handoff of Inr (t, _) \<Rightarrow> t | Inl _ \<Rightarrow> toy_artifact)"

lemma toy_export: "export (\<lambda>_. []) ''scanner'' toy_creator toy_artifact None JNull None = Inr (toy_exported, sort (map fst scanner_allow))"
proof -
  have "succeeds toy_handoff" by code_simp
  then obtain t names where "toy_handoff = Inr (t, names)" by (auto simp: succeeds_iff)
  then show ?thesis using exported_names [OF _ scanner_allow(1)] by (simp add: toy_exported_def toy_handoff_def)
qed

theorem export_checks_witness:
  "check (\<lambda>_. []) ''scanner'' toy_exported JNull None (0, 0) = Inr (sort (map fst scanner_allow)) \<and> kid ''leftover'' toy_artifact \<noteq> None"
  using export_checks [OF scanner_allow toy_export] by (simp add: toy_creator_def toy_artifact_def kid_def)

text \<open>
  C20: \<open>check\<close> accepts exactly the trees that conform to the allowlist. A conforming tree has a real
  directory as its root, every allowed file and no other, each a regular file with one link and its
  exact mode, no directory but the parents of these files and none that others may write, and no entry
  with another owner, a setuid, setgid or sticky bit or a refused extended attribute.
\<close>
theorem check_exact:
  assumes "allowlist show kind pins verifier = Inr expected"
  shows "check show kind t pins verifier owner = Inr found \<longleftrightarrow> conforms expected owner t \<and> found = sort (remdups (map fst expected))"
  by (rule check_iff [OF assms])

theorem check_exact_witness:
  "\<not> succeeds (check (\<lambda>_. []) ''scanner'' toy_artifact JNull None (0, 0)) \<and> \<not> conforms scanner_allow (0, 0) toy_artifact"
proof -
  have "\<not> conforms scanner_allow (0, 0) toy_artifact"
    by (simp add: conforms_def entry_ok_def toy_artifact_def go_writable_def)
  then show ?thesis using check_exact [OF scanner_allow(1), of "\<lambda>_. []" toy_artifact JNull None "(0, 0)"] by (auto simp: succeeds_iff)
qed

text \<open>
  A merge overwrites nothing and loses nothing. Every entry of the destination is still there with
  its data and attributes (a directory perhaps with more entries), and every regular file of the source
  is there with its data and mode.
\<close>
theorem merge_keeps:
  assumes "merge creator source dest = Inr (merged, added)" "listable dest"
  shows "extends dest merged \<and> (\<forall>cs f. file_in cs source f \<longrightarrow> arrived merged cs f)"
proof -
  have "merge_dir creator ''.'' source (Some dest) = Inr (merged, added)" using assms(1) by (simp add: merge_def require_eq_Inr)
  from merge_dir_ok [OF this] assms(2) show ?thesis by simp
qed

lemma f_isdir_new_file: "\<not> f_isdir (new_file m mode data)"
  by (simp add: new_file_def)

definition toy_dest :: fsnode where
  "toy_dest = FsNode toy_creator True [] (Some [(''usr'', FsNode toy_creator True [] (Some [(''a'', new_file toy_creator 420 ''old'')]))])"

definition toy_overlay :: fsnode where
  "toy_overlay = FsNode toy_creator True [] (Some [(''usr'', FsNode toy_creator True [] (Some [(''b'', new_file toy_creator 493 ''new'')]))])"

definition toy_merged :: fsnode where
  "toy_merged = (case merge toy_creator toy_overlay toy_dest of Inl _ \<Rightarrow> toy_dest | Inr (m, _) \<Rightarrow> m)"

definition toy_usr :: "fsnode" where
  "toy_usr = FsNode toy_creator True [] (Some [(''b'', new_file toy_creator 493 ''new'')])"

lemma toy_overlay_parts: "real_dirs toy_overlay = [(''usr'', toy_usr)]" "plain_files toy_overlay = []" "real_dirs toy_usr = []"
  "plain_files toy_usr = [(''b'', new_file toy_creator 493 ''new'')]"
  by (simp_all add: toy_overlay_def toy_usr_def real_dirs_def plain_files_def subdirs_of_def files_of_def new_file_def toy_creator_def)

lemma toy_dest_parts: "m_kind (f_meta toy_dest) = KDir"
  "merge_base toy_creator r (Some toy_dest) = Inr toy_dest"
  by (simp_all add: merge_base_def toy_dest_def toy_creator_def)

lemma toy_usr_merge: "succeeds (merge_dir toy_creator r toy_usr (kid ''usr'' toy_dest))"
  by (subst merge_dir.simps) (simp add: toy_overlay_parts succeeds_rbind merge_base_def toy_dest_def kid_def merge_file_def toy_creator_def)

lemma toy_merge: "succeeds (merge toy_creator toy_overlay toy_dest)"
proof -
  obtain x where x: "merge_dir toy_creator (rel_join ''.'' ''usr'') toy_usr (kid ''usr'' toy_dest) = Inr x"
    using toy_usr_merge [unfolded succeeds_iff] by blast
  have "merge_dir toy_creator ''.'' toy_overlay (Some toy_dest) = Inr (set_kid ''usr'' (fst x) toy_dest, snd x)"
    by (subst merge_dir.simps) (simp add: toy_overlay_parts toy_dest_parts x)
  then show ?thesis by (simp add: merge_def toy_dest_parts)
qed

theorem merge_keeps_witness:
  "extends toy_dest toy_merged \<and> arrived toy_merged [''usr'', ''b''] (new_file toy_creator 493 ''new'')"
proof -
  have d: "listable toy_dest" by code_simp
  obtain added where m: "merge toy_creator toy_overlay toy_dest = Inr (toy_merged, added)"
    using toy_merge by (auto simp: succeeds_iff toy_merged_def)
  have "file_in [''usr'', ''b''] toy_overlay (new_file toy_creator 493 ''new'')"
    unfolding file_in.simps by (rule exI [of _ toy_usr]) (simp add: toy_overlay_parts)
  then show ?thesis using merge_keeps [OF m d] by simp
qed

text \<open>
  The comparison of two builds is exact. With both tarballs present, \<open>compare_bridge\<close> succeeds just
  if each is a regular file with one link within the size bound, they are two files, and their bytes are
  equal; it then reports their digest and size.
\<close>
theorem compare_bridge_exact:
  assumes "bridge_tarball show pins = Inr name"
    and "node_at (components name) first_root = Some a" "node_at (components name) rebuild_root = Some b"
  shows "compare_bridge H tar_members repr show first_root rebuild_root pins = Inr r \<longleftrightarrow>
    sound_tarball a \<and> sound_tarball b \<and> (m_dev (f_meta a), m_ino (f_meta a)) \<noteq> (m_dev (f_meta b), m_ino (f_meta b)) \<and>
    f_data a = f_data b \<and> r = \<lparr>cp_sha256 = sha256 H (f_data a), cp_size = length (f_data a)\<rparr>"
  by (auto simp: compare_bridge_def assms rbind_eq_Inr require_eq_Inr read_tarball_Some split: if_splits)


definition toy_pins :: json where
  "toy_pins = JObj [(''bridgeVersion'', JStr ''0.1.1'')]"

definition toy_build :: "nat \<Rightarrow> string \<Rightarrow> fsnode" where
  "toy_build ino data = FsNode toy_creator True [] (Some [(''snitchwatch-bridge-0.1.1-x86_64.tar.gz'',
     new_file (toy_creator\<lparr>m_ino := ino\<rparr>) 420 data)])"

definition toy_tarball :: "nat \<Rightarrow> string \<Rightarrow> fsnode" where
  "toy_tarball ino data = new_file (toy_creator\<lparr>m_ino := ino\<rparr>) 420 data"

lemma toy_tarballs: "bridge_tarball show toy_pins = Inr ''snitchwatch-bridge-0.1.1-x86_64.tar.gz''"
  "node_at (components ''snitchwatch-bridge-0.1.1-x86_64.tar.gz'') (toy_build ino data) = Some (toy_tarball ino data)"
proof -
  show "bridge_tarball show toy_pins = Inr ''snitchwatch-bridge-0.1.1-x86_64.tar.gz''" by (simp add: bridge_tarball_def toy_pins_def)
  have "components ''snitchwatch-bridge-0.1.1-x86_64.tar.gz'' = [''snitchwatch-bridge-0.1.1-x86_64.tar.gz'']" by code_simp
  then show "node_at (components ''snitchwatch-bridge-0.1.1-x86_64.tar.gz'') (toy_build ino data) = Some (toy_tarball ino data)"
    by (simp add: toy_build_def kid_def toy_tarball_def)
qed

theorem compare_bridge_exact_witness:
  "compare_bridge \<lparr>sha256 = \<lambda>s. s, float_repr = \<lambda>_. [], untar = \<lambda>_. Inr []\<rparr> (\<lambda>_. None) (\<lambda>s. s) (\<lambda>_. []) (toy_build 2 ''abc'') (toy_build 3 ''abc'')
     toy_pins = Inr \<lparr>cp_sha256 = ''abc'', cp_size = 3\<rparr> \<and>
   \<not> succeeds (compare_bridge \<lparr>sha256 = \<lambda>s. s, float_repr = \<lambda>_. [], untar = \<lambda>_. Inr []\<rparr> (\<lambda>_. None) (\<lambda>s. s) (\<lambda>_. []) (toy_build 2 ''abc'')
     (toy_build 3 ''abd'') toy_pins)"
  by (auto simp: succeeds_iff compare_bridge_exact [OF toy_tarballs(1) toy_tarballs(2) toy_tarballs(2)])
    (simp_all add: toy_tarball_def new_file_def sound_tarball_def MAX_TARBALL_def)

text \<open>
  The network probes measure reachability. The offline probe passes just if loopback is the only
  interface and no connection to a probed address, nor to the address the probed name resolves to,
  succeeds; the online probe passes just if one succeeds. The same answers never pass both.
\<close>
theorem probes_exact:
  "(succeeds (probe_network N ''offline'' dev) \<longleftrightarrow> interfaces dev = [''lo''] \<and> \<not> reachable N) \<and>
   (succeeds (probe_network N ''online'' dev) \<longleftrightarrow> reachable N)"
  using reached_iff [of N] by (simp add: probe_network_def Let_def succeeds_require)

end
