(* ===== verification/Verify.thy ===== *)
theory Verify
  imports Installed
begin

text \<open>
  \<^verbatim>\<open>build_files/firewall/snitchwatch-system-verify.py\<close>: the read-only verification of an installed
  system bridge. \<open>verify\<close> reads the manifest and the build pins of an image, every file of the inventory
  with its exact mode and hash, and the provenance of the build, and refuses any activation of the scanner
  or of the endpoint events other than the reviewed one. SHA-256, the text of links and the decoding of
  JSON outside the model's code points are arguments. The order of the entries of a Python \<open>set\<close> is
  that of the lists below.
\<close>

section \<open>Paths\<close>

definition MANIFEST :: string where
  "MANIFEST = ''/usr/share/snitchwatch/system-bridge-manifest.json''"

definition PINS :: string where
  "PINS = ''/usr/share/snitchwatch/build-pins.json''"

definition EXPECTED_PINS_SHA256 :: string where
  "EXPECTED_PINS_SHA256 = ''0058f0f6f5130fbb6e08033c9b0b9c1d2f0f25f29f4a813fdf2d2f0d3fc0d2b0''"

definition BINARY :: string where
  "BINARY = ''/usr/bin/snitchwatch-bridge-cli''"

definition PROFILE :: string where
  "PROFILE = ''/usr/share/bazzite-tower/snitchwatch-bridge-profile''"

definition CONFIG :: string where
  "CONFIG = ''/usr/share/bazzite-tower/opensnitchd-system-bridge-config.json''"

definition LEGACY_CONFIG :: string where
  "LEGACY_CONFIG = ''/usr/share/bazzite-tower/opensnitchd-default-config.json''"

definition DROPIN :: string where
  "DROPIN = ''/usr/lib/systemd/system/opensnitch.service.d/snitchwatch-system-bridge.conf''"

definition FETCH_RULE :: string where
  "FETCH_RULE = ''/etc/opensnitchd/rules/000-snitchwatch-bridge-fetch.json''"

definition OS_UPDATE_RULE :: string where
  "OS_UPDATE_RULE = ''/etc/opensnitchd/rules/000-snitchwatch-tower-os-update.json''"

definition OS_UPDATE_RULE_SHA256 :: string where
  "OS_UPDATE_RULE_SHA256 = ''9bd06784270af7316380b3cabe42059450b64d755fc997e64a5c0c8d317c4a42''"

definition DNS_RULE :: string where
  "DNS_RULE = ''/etc/opensnitchd/rules/000-snitchwatch-tower-resolved-dns.json''"

definition DNS_RULE_SHA256 :: string where
  "DNS_RULE_SHA256 = ''8f80789e093fd98f0b2b642268477b1e68d59006e4eb1d518acfecb7e95eaa29''"

definition TOWER_RULES :: "(string \<times> string) list" where
  "TOWER_RULES = [(OS_UPDATE_RULE, OS_UPDATE_RULE_SHA256), (DNS_RULE, DNS_RULE_SHA256)]"

definition RESERVED_RULES :: "string list" where
  "RESERVED_RULES = FETCH_RULE # map fst TOWER_RULES"

definition EVENTS_ROOT :: string where
  "EVENTS_ROOT = ''/usr/share/snitchwatch/endpoint-events/''"

definition EVENTS_FILES :: "string list" where
  "EVENTS_FILES = [''snitchwatch-endpoint-events.conf'', ''snitchwatch-endpoint-events.nft'',
     ''snitchwatch-endpoint-events.service'', ''snitchwatch-endpoint-events-nft.service'']"

text \<open>Installed path and the pinned file of the source tree it is a copy of.\<close>

definition SOURCE_FILES :: "(string \<times> string) list" where
  "SOURCE_FILES =
    [(''/usr/share/dbus-1/services/org.snitchwatch.Scanner.service'', ''packaging/scanner/org.snitchwatch.Scanner.service''),
     (''/usr/share/polkit-1/actions/org.snitchwatch.scanner.policy'', ''packaging/polkit/org.snitchwatch.scanner.policy''),
     (''/usr/lib/tmpfiles.d/snitchwatch-scanner.conf'', ''packaging/scanner/snitchwatch-scanner.conf''),
     (''/usr/lib/systemd/system/snitchwatch-system-bridge.service'', ''packaging/system/snitchwatch-system-bridge.service''),
     (''/usr/lib/systemd/system/snitchwatch-system-bridge-grpc.socket'', ''packaging/system/snitchwatch-system-bridge-grpc.socket''),
     (''/usr/lib/systemd/system/snitchwatch-system-bridge-gui.socket'', ''packaging/system/snitchwatch-system-bridge-gui.socket''),
     (''/usr/lib/tmpfiles.d/snitchwatch.conf'', ''packaging/system/snitchwatch.conf''),
     (''/usr/lib/sysusers.d/snitchwatch.conf'', ''packaging/system/snitchwatch.conf.sysusers''),
     (DROPIN, ''packaging/system/opensnitch-snitchwatch-system-bridge.conf''),
     (FETCH_RULE, ''packaging/bluebuild/files/system/etc/opensnitchd/rules/000-snitchwatch-bridge-fetch.json'')]
    @ map (\<lambda>n. (EVENTS_ROOT @ n, ''packaging/endpoint-events/'' @ n)) EVENTS_FILES"

definition EVENTS_NAME :: string where
  "EVENTS_NAME = ''snitchwatch-endpoint-events''"

definition EVENTS_LOGGER :: string where
  "EVENTS_LOGGER = ''opensnitchd-logger''"

definition EVENTS_IMAGE_DIRS :: "string list" where
  "EVENTS_IMAGE_DIRS = [''usr/lib/systemd/system'', ''usr/lib/systemd/user'']"

definition EVENTS_LOGGER_DIRS_LIVE :: "string list" where
  "EVENTS_LOGGER_DIRS_LIVE = [''usr/share/snitchwatch'', ''usr/share/bazzite-tower'']"

definition EVENTS_LOGGER_DIRS :: "string list" where
  "EVENTS_LOGGER_DIRS = ''etc/opensnitchd'' # EVENTS_LOGGER_DIRS_LIVE"

definition EVENTS_ETC_DIRS :: "string list" where
  "EVENTS_ETC_DIRS = [''etc/systemd/system'', ''etc/systemd/user'', ''etc/xdg/systemd/user'']"

definition LICENSES :: "string list" where
  "LICENSES = [''LICENSE'', ''LICENSE.opensnitch'', ''THIRD-PARTY-LICENSES.md'']"

definition LICENSE_ROOT :: string where
  "LICENSE_ROOT = ''/usr/share/licenses/snitchwatch-bridge/''"

definition SCANNER_PATHS :: "string list" where
  "SCANNER_PATHS = [''/usr/libexec/snitchwatch-scanner-privileged'', ''/usr/libexec/snitchwatch-scanner-broker'']"

definition SCANNER_ROOT :: string where
  "SCANNER_ROOT = ''/usr/share/snitchwatch/scanner/''"

definition SCANNER_LICENSE_ROOT :: string where
  "SCANNER_LICENSE_ROOT = ''/usr/share/licenses/snitchwatch-scanner/''"

definition SCANNER_CRATE_DIRS :: "string list" where
  "SCANNER_CRATE_DIRS = [''crates/scanner-privileged/'', ''crates/scanner-broker/'']"

definition SCANNER_SOURCE_ALLOWLIST :: "string list" where
  "SCANNER_SOURCE_ALLOWLIST =
    [''crates/scanner-broker/Cargo.toml'', ''crates/scanner-broker/src/lib.rs'', ''crates/scanner-broker/src/main.rs'',
     ''crates/scanner-privileged/Cargo.toml'', ''crates/scanner-privileged/src/checks/kargs.rs'',
     ''crates/scanner-privileged/src/checks/lockdown.rs'', ''crates/scanner-privileged/src/checks/mod.rs'',
     ''crates/scanner-privileged/src/checks/modules.rs'', ''crates/scanner-privileged/src/checks/rootkit.rs'',
     ''crates/scanner-privileged/src/command.rs'', ''crates/scanner-privileged/src/error.rs'',
     ''crates/scanner-privileged/src/facts.rs'', ''crates/scanner-privileged/src/lib.rs'',
     ''crates/scanner-privileged/src/main.rs'', ''crates/scanner-privileged/src/model.rs'',
     ''crates/scanner-privileged/src/scan.rs'', ''crates/scanner-privileged/src/store.rs'',
     ''crates/scanner-privileged/tests/end_to_end.rs'']"

definition SCANNER_ACTIVATION_NAMES :: "string list" where
  "SCANNER_ACTIVATION_NAMES = [''snitchwatch-scanner-privileged'', ''snitchwatch-scanner-broker'']"

definition SCANNER_SESSION_ACTIVATION :: string where
  "SCANNER_SESSION_ACTIVATION = ''usr/share/dbus-1/services/org.snitchwatch.Scanner.service''"

definition SCANNER_ACTIVATION_DIRS :: "string list" where
  "SCANNER_ACTIVATION_DIRS =
    [''usr/lib/systemd/system'', ''usr/lib/systemd/user'', ''etc/systemd/system'', ''etc/systemd/user'',
     ''etc/xdg/systemd/user'', ''usr/share/dbus-1/system-services'', ''etc/dbus-1/system-services'',
     ''usr/share/dbus-1/services'', ''etc/dbus-1/services'']"

definition SCANNER_UNIT_SUFFIXES :: "string list" where
  "SCANNER_UNIT_SUFFIXES = [''.service'', ''.timer'', ''.socket'', ''.path'']"

definition SCANNER_WANTS_SUFFIXES :: "string list" where
  "SCANNER_WANTS_SUFFIXES = [''.wants'', ''.requires'']"

definition SCANNER_EVIDENCE :: "string list" where
  "SCANNER_EVIDENCE = [''source-inputs.json'', ''dependency-closure.json'', ''build.log'', ''repro.log'', ''test.log'',
     ''snitchwatch-scanner-privileged.ldd'', ''snitchwatch-scanner-broker.ldd'']"

definition SELF :: string where
  "SELF = ''/usr/libexec/snitchwatch/verify-system-manifest.py''"

definition NATIVE_PROVENANCE :: string where
  "NATIVE_PROVENANCE = ''/usr/share/snitchwatch/native-build-provenance.json''"

definition RPM_INVENTORY :: string where
  "RPM_INVENTORY = ''/usr/share/snitchwatch/native-rpm-inventory.txt''"

definition ARTIFACT_MANIFEST :: string where
  "ARTIFACT_MANIFEST = ''/usr/share/snitchwatch/schema1-artifact-MANIFEST.json''"

definition RECEIPTS :: "string list" where
  "RECEIPTS = [PINS, NATIVE_PROVENANCE, RPM_INVENTORY, ARTIFACT_MANIFEST,
     ''/usr/share/snitchwatch/schema1-artifact-SHA256SUMS'']"

definition REQUIRED :: "string list" where
  "REQUIRED = map fst SOURCE_FILES @ RECEIPTS @ [BINARY, PROFILE, CONFIG, LEGACY_CONFIG, OS_UPDATE_RULE, DNS_RULE, SELF]
     @ map (\<lambda>n. LICENSE_ROOT @ n) LICENSES @ SCANNER_PATHS
     @ map (\<lambda>n. SCANNER_ROOT @ n) (SCANNER_EVIDENCE @ [''provenance.json''])
     @ map (\<lambda>n. SCANNER_LICENSE_ROOT @ n) [''LICENSE'', ''THIRD-PARTY-LICENSES.md'']"

section \<open>Reading\<close>

text \<open>An image: its tree, whether it is \<open>/\<close>, and the text of its links.\<close>

record image_root =
  im_tree :: fsnode
  im_live :: bool
  im_readlink :: "string \<Rightarrow> string result"

definition describe :: "string \<Rightarrow> string" where
  "describe name =
     (if name = FETCH_RULE then name @ '' (the shipped, image-pinned Snitchwatch opensnitchd rule; it is reserved: restore it, do not edit or delete it)''
      else if name = OS_UPDATE_RULE then name @ '' (the shipped, image-pinned tower OS-update opensnitchd rule; it is reserved: restore it, do not edit or delete it)''
      else if name = DNS_RULE then name @ '' (the shipped, image-pinned tower resolver DNS opensnitchd rule; it is reserved: restore it, do not edit or delete it)''
      else name)"

definition read_file :: "image_root \<Rightarrow> string \<Rightarrow> 12 word \<Rightarrow> string result" where
  "read_file im name mode =
     require ((startswith name ''/usr/'' \<or> name \<in> set RESERVED_RULES) \<and> no_dotdot name) (ValueError ''invalid immutable file path'')
     (require (\<not> has_link (components name) (im_tree im)) (ValueError (''symlink in immutable file path: '' @ describe name))
     (case stat_at (components name) (im_tree im) of
        Inl e \<Rightarrow> Inl (if e = FileNotFoundError then ValueError (''missing immutable file: '' @ describe name) else e)
      | Inr f \<Rightarrow>
        require (m_kind (f_meta f) = KReg \<and> m_mode (f_meta f) = mode) (ValueError (''incorrect file type/mode: '' @ describe name))
        (require (im_live im \<longrightarrow> m_uid (f_meta f) = 0 \<and> m_gid (f_meta f) = 0)
          (ValueError (''immutable file is not root-owned: '' @ describe name))
        (Inr (f_data f)))))"

section \<open>Refused activation\<close>

definition ends_in :: "string list \<Rightarrow> string \<Rightarrow> bool" where
  "ends_in suffixes s \<longleftrightarrow> list_ex (endswith s) suffixes"

definition activation_check :: "string \<Rightarrow> string list \<times> fsnode \<Rightarrow> unit result" where
  "activation_check dir px = (case px of (parts, t) \<Rightarrow>
     let name = py_lower (last parts); relative = rel_path dir parts; link = (m_kind (f_meta t) = KLink); file = (m_kind (f_meta t) = KReg);
         in_wants = list_ex (\<lambda>p. ends_in SCANNER_WANTS_SUFFIXES (py_lower p)) (butlast parts);
         nameable = ends_in (SCANNER_UNIT_SUFFIXES @ SCANNER_WANTS_SUFFIXES) name \<or> link \<or> in_wants in
     if relative = SCANNER_SESSION_ACTIVATION \<and> file then Inr ()
     else require (\<not> (nameable \<and> (contains ''scanner'' name \<or> startswith name ''dbus-org.snitchwatch.'')))
         (ValueError (''unexpected persistent scanner activation: '' @ relative))
       (if \<not> file then Inr ()
        else require (\<not> list_ex (\<lambda>v. contains v (f_data t)) SCANNER_ACTIVATION_NAMES)
          (ValueError (''unexpected persistent scanner activation: '' @ relative)) (Inr ())))"

definition refuse_persistent_scanner_activation :: "fsnode \<Rightarrow> unit result" where
  "refuse_persistent_scanner_activation t =
     rall (\<lambda>dir. rall (activation_check dir) (entries_of t dir)) SCANNER_ACTIVATION_DIRS"

text \<open>A scan for a name below some directories, the loop of the two checks that follow.\<close>

definition refuse_name :: "string \<Rightarrow> string \<Rightarrow> fsnode \<Rightarrow> string list \<Rightarrow> unit result" where
  "refuse_name word message t dirs = rall (\<lambda>dir. rall (\<lambda>(parts, _).
     require (\<not> contains word (py_lower (last parts))) (ValueError (message @ rel_path dir parts)) (Inr ())) (entries_of t dir)) dirs"

definition refuse_enabled_endpoint_events :: "fsnode \<Rightarrow> bool \<Rightarrow> unit result" where
  "refuse_enabled_endpoint_events t image_tree =
     refuse_name EVENTS_NAME ''endpoint-events unit must not be installed or enabled in the image: '' t
       (EVENTS_IMAGE_DIRS @ (if image_tree then EVENTS_ETC_DIRS else []))"

definition refuse_logger_snippet :: "fsnode \<Rightarrow> bool \<Rightarrow> unit result" where
  "refuse_logger_snippet t image_tree =
     refuse_name EVENTS_LOGGER ''opensnitchd logger snippet must not be shipped: '' t
       (if image_tree then EVENTS_LOGGER_DIRS else EVENTS_LOGGER_DIRS_LIVE)"

section \<open>The verification\<close>

text \<open>What the checks share: the values of the pins and of the inventory, and the bytes that were read.\<close>

record verified =
  vf_pins :: json
  vf_source :: json
  vf_files :: json
  vf_contents :: "(string \<times> string) list"

definition pin :: "verified \<Rightarrow> string \<Rightarrow> json result" where
  "pin c k = index (vf_pins c) k"

definition source_pin :: "verified \<Rightarrow> string \<Rightarrow> json result" where
  "source_pin c k = index2 (vf_pins c) ''sourceFiles'' k"

definition file_digest :: "verified \<Rightarrow> string \<Rightarrow> json result" where
  "file_digest c name = index (vf_files c) name"

definition content :: "verified \<Rightarrow> string \<Rightarrow> string result" where
  "content c name = (case map_of (vf_contents c) name of None \<Rightarrow> Inl (KeyError name) | Some b \<Rightarrow> Inr b)"

definition content_json :: "(string \<Rightarrow> json result) \<Rightarrow> verified \<Rightarrow> string \<Rightarrow> json result" where
  "content_json other c name = rbind (content c name) (json_bytes other)"

definition check_source :: "json \<Rightarrow> json \<Rightarrow> json result" where
  "check_source manifest pins =
     demand (all_of [get_is manifest ''schemaVersion'' (JInt 1), get_is manifest ''profile'' (JStr ''system'')])
       (ValueError ''unsupported system manifest schema/profile'')
     (rbind (get_or manifest ''source'' (JObj [])) (\<lambda>source.
     demand (all_of [same (get source ''commit'') (index pins ''sourceCommit''),
         same (get source ''submoduleCommit'') (index pins ''submoduleCommit''),
         same (get source ''tree'') (index pins ''sourceTree'')])
       (ValueError ''source identity differs from build pins'')
     (rbind (rall (\<lambda>k. demand (rbind (get_or source k (JStr [])) (hex_match 40)) (ValueError ''invalid source identity'') (Inr ()))
       [''commit'', ''submoduleCommit'', ''tree'']) (\<lambda>_. Inr source))))"

text \<open>Modes 0755 and 0644 of the inventory.\<close>

definition mode_of :: "string \<Rightarrow> 12 word" where
  "mode_of name = (if name \<in> set ([BINARY, SELF] @ SCANNER_PATHS) then 493 else 420)"

definition check_file :: "host \<Rightarrow> image_root \<Rightarrow> string \<times> json \<Rightarrow> (string \<times> string) result" where
  "check_file H im ne = (case ne of (name, expected) \<Rightarrow>
     require (case expected of JStr s \<Rightarrow> length s = 64 \<and> list_all is_hex s | _ \<Rightarrow> False) (ValueError ''invalid immutable file digest'')
     (rbind (read_file im name (mode_of name)) (\<lambda>data.
     require (JStr (sha256 H data) = expected) (ValueError (''immutable file hash mismatch: '' @ describe name))
       (Inr (name, data)))))"

definition check_files :: "host \<Rightarrow> image_root \<Rightarrow> json \<Rightarrow> (json \<times> (string \<times> string) list) result" where
  "check_files H im manifest =
     rbind (get_or manifest ''files'' (JObj [])) (\<lambda>files.
     demand (set_is files REQUIRED) (ValueError ''incomplete or unexpected immutable file inventory'')
     (rbind (dict_items files) (\<lambda>items.
     rbind (rmap (check_file H im) items) (\<lambda>contents. Inr (files, contents)))))"

definition elf64 :: "string \<Rightarrow> bool" where
  "elf64 b \<longleftrightarrow> take 6 b = [CHR 0x7F, CHR ''E'', CHR ''L'', CHR ''F'', CHR 0x02, CHR 0x01]"

definition MASK :: string where
  "MASK = ''/usr/lib/systemd/user/snitchwatch-bridge.service''"

text \<open>\<open>p == Path('/dev/null')\<close>: a path keeps exactly two leading slashes apart.\<close>

definition is_dev_null :: "string \<Rightarrow> bool" where
  "is_dev_null p \<longleftrightarrow> startswith p ''/'' \<and> (startswith p ''//'' \<longrightarrow> startswith p ''///'') \<and> components p = [''dev'', ''null'']"

definition check_binary :: "(string \<Rightarrow> json result) \<Rightarrow> image_root \<Rightarrow> json \<Rightarrow> verified \<Rightarrow> unit result" where
  "check_binary other im manifest c =
     rbind (rall (\<lambda>name. demand (rbind (content_json other c name) (\<lambda>v. rbind (get_or v ''Server'' (JObj [])) (\<lambda>s.
           rbind (str_in ''Loggers'' s) (\<lambda>b. Inr (\<not> b)))))
         (ValueError (''default daemon config must not have a Loggers entry (endpoint events are operator opt-in): '' @ name)) (Inr ()))
       [CONFIG, LEGACY_CONFIG]) (\<lambda>_.
     demand (rbind (get manifest ''binary'') (\<lambda>b. rbind (file_digest c BINARY) (\<lambda>d. rbind (pin c ''bridgeVersion'') (\<lambda>v.
         Inr (pyeq b (JObj [(''path'', JStr BINARY), (''sha256'', d), (''version'', v)]))))))
       (ValueError ''binary identity differs from immutable inventory'')
     (rbind (content c BINARY) (\<lambda>b.
     require (elf64 b) (ValueError ''native bridge is not a little-endian ELF64 executable'')
     (rbind (rall (\<lambda>name. rbind (content c name) (\<lambda>b.
         require (elf64 b) (ValueError ''native scanner is not a little-endian ELF64 executable'') (Inr ()))) SCANNER_PATHS) (\<lambda>_.
     rbind (content c PROFILE) (\<lambda>b.
     require (b = ''system'' @ [newline]) (ValueError ''incorrect bridge profile marker'')
     (demand (get_is manifest ''symlinks'' (JObj [(MASK, JStr ''/dev/null'')])) (ValueError ''incorrect legacy user-unit mask inventory'')
     (rbind (im_readlink im MASK) (\<lambda>target.
     require (is_dev_null target) (ValueError ''legacy user unit is not image-masked'') (Inr ()))))))))))"

definition check_overlay :: "verified \<Rightarrow> unit result" where
  "check_overlay c =
     rbind (rall (\<lambda>(name, original). demand (same (file_digest c name) (source_pin c original))
         (ValueError (''system overlay differs from pinned source: '' @ describe name)) (Inr ())) SOURCE_FILES) (\<lambda>_.
     rbind (rall (\<lambda>(name, expected). demand (same (file_digest c name) (Inr (JStr expected)))
         (ValueError (''tower rule differs from the reviewed digest: '' @ describe name)) (Inr ())) TOWER_RULES) (\<lambda>_.
     demand (same (file_digest c LEGACY_CONFIG) (pin c ''legacyConfigSha256''))
       (ValueError ''legacy image-intent reference differs from pinned migration baseline'') (Inr ())))"

text \<open>\<open>v[k] = x\<close> on a decoded value.\<close>

definition assign :: "json \<Rightarrow> string \<Rightarrow> json \<Rightarrow> json result" where
  "assign v k x = (case v of JObj d \<Rightarrow> Inr (JObj (dict_set k x d)) | _ \<Rightarrow> Inl TypeError)"

definition expected_config :: "json \<Rightarrow> json result" where
  "expected_config legacy =
     rbind (index legacy ''Server'') (\<lambda>server. rbind (assign server ''Address'' (JStr ''unix:opensnitchd.sock'')) (\<lambda>server.
     rbind (assign legacy ''Server'' server) (\<lambda>legacy. assign legacy ''DefaultAction'' (JStr ''allow''))))"

definition check_config :: "(string \<Rightarrow> json result) \<Rightarrow> verified \<Rightarrow> unit result" where
  "check_config other c =
     rbind (content_json other c CONFIG) (\<lambda>config.
     rbind (rbind (content_json other c LEGACY_CONFIG) expected_config) (\<lambda>expected.
     require (pyeq config expected)
       (ValueError ''system candidate must retain the allow/proc defaults and change only the daemon address'')
     (demand (all_of [get_is config ''DefaultAction'' (JStr ''allow''), get_is config ''ProcMonitorMethod'' (JStr ''proc''),
         rbind (get_or config ''Server'' (JObj [])) (\<lambda>s. get_is s ''Address'' (JStr ''unix:opensnitchd.sock''))])
       (ValueError ''incorrect system candidate policy/transport'') (Inr ()))))"

text \<open>\<open>'prefix ' + v + ' '\<close> as the start of the string \<open>w\<close>.\<close>

definition starts_with_version :: "json result \<Rightarrow> json result \<Rightarrow> bool result" where
  "starts_with_version w v = rbind w (\<lambda>w. case w of
       JStr s \<Rightarrow> rbind (rbind v json_str) (\<lambda>t. Inr (startswith s (''rustc '' @ t @ '' '')))
     | _ \<Rightarrow> Inl AttributeError)"

text \<open>\<open>{entry['path']: entry for entry in v}\<close>; only string keys are looked up, a list or a \<open>dict\<close> is no key.\<close>

definition by_path :: "json \<Rightarrow> (string \<times> json) list result" where
  "by_path v = rbind (py_iter v) (\<lambda>entries. rfold (\<lambda>e d. rbind (index e ''path'') (\<lambda>p. case p of
       JStr s \<Rightarrow> Inr (dict_set s e d) | JList _ \<Rightarrow> Inl TypeError | JObj _ \<Rightarrow> Inl TypeError | _ \<Rightarrow> Inr d)) entries [])"

definition check_artifact :: "(string \<Rightarrow> json result) \<Rightarrow> verified \<Rightarrow> unit result" where
  "check_artifact other c =
     rbind (content_json other c ARTIFACT_MANIFEST) (\<lambda>artifact.
     demand (same (get artifact ''version'') (pin c ''bridgeVersion''))
       (ValueError ''native artifact bridge version differs from required version'')
     (demand (all_of [get_is artifact ''schema_version'' (JInt 1),
         rbind (get_or artifact ''source'' (JObj [])) (\<lambda>s. same (get s ''git_commit'') (pin c ''sourceCommit'')),
         rbind (index artifact ''source'') (\<lambda>s. get_identical s ''dirty'' (JBool False))])
       (ValueError ''incorrect original native artifact identity'')
     (demand (rbind (get_or artifact ''upstream'' (JObj [])) (\<lambda>u. same (get u ''opensnitch_commit'') (pin c ''submoduleCommit'')))
       (ValueError ''incorrect native artifact submodule'')
     (rbind (get_or artifact ''build'' (JObj [])) (\<lambda>build.
     demand (all_of [same (get build ''builder_image'') (pin c ''builderImage''),
         starts_with_version (get_or build ''rustc_vv'' (JStr [])) (pin c ''rustVersion''),
         rbind (get build ''protoc_version'') (\<lambda>x. rbind (rbind (pin c ''protocVersion'') json_str) (\<lambda>t.
           Inr (pyeq x (JStr (''libprotoc '' @ t)))))])
       (ValueError ''native artifact toolchain differs from build pins'')
     (rbind (rbind (get_or artifact ''files'' (JList [])) by_path) (\<lambda>original.
     rall (\<lambda>name. demand (same (get (case map_of original (dropWhile (\<lambda>c. c = CHR ''/'') name) of None \<Rightarrow> JObj [] | Some e \<Rightarrow> e) ''sha256'') (file_digest c name))
         (ValueError ''installed binary/license differs from original artifact'') (Inr ()))
       (BINARY # map (\<lambda>n. LICENSE_ROOT @ n) LICENSES))))))))"

definition check_native :: "(string \<Rightarrow> json result) \<Rightarrow> verified \<Rightarrow> unit result" where
  "check_native other c =
     rbind (content_json other c NATIVE_PROVENANCE) (\<lambda>provenance.
     demand (all_of [same (get provenance ''sourceCommit'') (index (vf_source c) ''commit''),
         same (get provenance ''submoduleCommit'') (index (vf_source c) ''submoduleCommit''),
         same (get provenance ''sourceTree'') (index (vf_source c) ''tree''),
         get_identical provenance ''reproducible'' (JBool True)])
       (ValueError ''native build/repro provenance mismatch'')
     (demand (same (get provenance ''rpmInventorySha256'') (file_digest c RPM_INVENTORY))
       (ValueError ''native RPM inventory mismatch'') (Inr ())))"

definition scanner_command :: json where
  "scanner_command = JList (map JStr [''cargo'', ''build'', ''--release'', ''--locked'', ''--offline'',
     ''-p'', ''scanner-privileged'', ''-p'', ''scanner-broker''])"

definition digests_of :: "verified \<Rightarrow> (string \<times> string) list \<Rightarrow> json result" where
  "digests_of c ps = rbind (rmap (\<lambda>(name, path). rbind (file_digest c path) (\<lambda>d. Inr (name, d))) ps) (\<lambda>d. Inr (JObj d))"

definition scanner_binaries :: "(string \<times> string) list" where
  "scanner_binaries = map (\<lambda>p. (last (components p), p)) SCANNER_PATHS"

definition scanner_evidence :: "(string \<times> string) list" where
  "scanner_evidence = map (\<lambda>n. (n, SCANNER_ROOT @ n)) SCANNER_EVIDENCE
     @ map (\<lambda>n. (n, SCANNER_LICENSE_ROOT @ n)) [''LICENSE'', ''THIRD-PARTY-LICENSES.md'']"

definition check_scanner :: "(string \<Rightarrow> json result) \<Rightarrow> verified \<Rightarrow> unit result" where
  "check_scanner other c =
     rbind (content_json other c (SCANNER_ROOT @ ''provenance.json'')) (\<lambda>scanner.
     demand (all_of [get_is scanner ''schemaVersion'' (JInt 1),
         same (get scanner ''sourceCommit'') (index (vf_source c) ''commit''),
         same (get scanner ''sourceTree'') (index (vf_source c) ''tree''),
         same (get scanner ''builderImage'') (pin c ''builderImage''),
         same (get scanner ''cargoLockSha256'') (source_pin c ''Cargo.lock''),
         same (get scanner ''cargoTomlSha256'') (source_pin c ''Cargo.toml''),
         starts_with_version (get_or scanner ''rustcVv'' (JStr [])) (pin c ''rustVersion''),
         get_identical scanner ''reproducible'' (JBool True), get_identical scanner ''testsPassed'' (JBool True),
         same (get scanner ''rpmInventorySha256'') (file_digest c RPM_INVENTORY)])
       (ValueError ''scanner build/source/test provenance mismatch'')
     (demand (get_is scanner ''buildCommand'' scanner_command) (ValueError ''unexpected scanner build command'')
     (rbind (digests_of c scanner_binaries) (\<lambda>binaries.
     demand (get_is scanner ''binaries'' binaries) (ValueError ''scanner executable differs from build provenance'')
     (rbind (digests_of c scanner_evidence) (\<lambda>evidence.
     demand (get_is scanner ''evidence'' evidence) (ValueError ''scanner evidence differs from build provenance'') (Inr ())))))))"

definition in_crates :: "string \<Rightarrow> bool" where
  "in_crates name \<longleftrightarrow> list_ex (startswith name) SCANNER_CRATE_DIRS"

definition unexpected_input :: "string \<Rightarrow> bool" where
  "unexpected_input name \<longleftrightarrow> (in_crates name \<and> name \<notin> set SCANNER_SOURCE_ALLOWLIST) \<or> startswith name ''.cargo/'' \<or>
     startswith (base_name name) ''rust-toolchain''"

definition check_inputs :: "(string \<Rightarrow> json result) \<Rightarrow> verified \<Rightarrow> unit result" where
  "check_inputs other c =
     rbind (content_json other c (SCANNER_ROOT @ ''source-inputs.json'')) (\<lambda>inputs.
     rbind (rbind (pin c ''sourceFiles'') dict_items) (\<lambda>pinned.
     require (set (filter in_crates (map fst pinned)) = set SCANNER_SOURCE_ALLOWLIST)
       (ValueError ''scanner source pins differ from the built-file allowlist'')
     (rbind (rmap (\<lambda>name. rbind (source_pin c name) (\<lambda>d. Inr (name, d)))
         ([''Cargo.toml'', ''Cargo.lock''] @ sort (remdups (filter in_crates (map fst pinned))))) (\<lambda>expected.
     rbind (rall (\<lambda>(name, d). demand (get_is inputs name d) (ValueError ''scanner source input differs from pinned upstream'') (Inr ()))
       expected) (\<lambda>_.
     rbind (dict_items inputs) (rall (\<lambda>(name, _).
       require (\<not> unexpected_input name) (ValueError (''unexpected scanner source input: '' @ name)) (Inr ()))))))))"

definition check_closure :: "(string \<Rightarrow> json result) \<Rightarrow> verified \<Rightarrow> unit result" where
  "check_closure other c =
     rbind (content_json other c (SCANNER_ROOT @ ''dependency-closure.json'')) (\<lambda>closure.
     demand (all_of [set_is closure (map fst scanner_binaries),
         rbind (dict_items closure) (\<lambda>d. Inr (list_all (\<lambda>(_, v). case v of JList xs \<Rightarrow> xs \<noteq> [] | _ \<Rightarrow> False) d))])
       (ValueError ''incomplete scanner dependency closure'') (Inr ()))"

definition expected_gui :: "verified \<Rightarrow> json result" where
  "expected_gui c =
     rbind (pin c ''flatpakRuntimeRef'') (\<lambda>ref. rbind (pin c ''sourceCommit'') (\<lambda>commit.
     rbind (source_pin c ''packaging/flatpak/org.snitchwatch.Snitchwatch.system.yml'') (\<lambda>sha.
     rbind (pin c ''flatpakFinishArgs'') (\<lambda>args.
     Inr (JObj [(''appId'', JStr ''org.snitchwatch.Snitchwatch''), (''profile'', JStr ''system''), (''runtimeRef'', ref),
       (''sourceCommit'', commit), (''manifestSha256'', sha), (''finishArgs'', args)])))))"

definition verify :: "host \<Rightarrow> (string \<Rightarrow> json result) \<Rightarrow> image_root \<Rightarrow> bool \<Rightarrow> json result" where
  "verify H other im image_tree =
     rbind (rbind (read_file im MANIFEST 420) (json_bytes other)) (\<lambda>manifest.
     rbind (read_file im PINS 420) (\<lambda>pins_bytes.
     require (sha256 H pins_bytes = EXPECTED_PINS_SHA256) (ValueError ''build pins differ from reviewed integration inputs'')
     (rbind (json_bytes other pins_bytes) (\<lambda>pins.
     rbind (check_source manifest pins) (\<lambda>source.
     rbind (check_files H im manifest) (\<lambda>(files, contents).
     let c = \<lparr>vf_pins = pins, vf_source = source, vf_files = files, vf_contents = contents\<rparr> in
     rbind (check_binary other im manifest c) (\<lambda>_.
     rbind (check_overlay c) (\<lambda>_.
     rbind (check_config other c) (\<lambda>_.
     rbind (check_artifact other c) (\<lambda>_.
     rbind (check_native other c) (\<lambda>_.
     rbind (check_scanner other c) (\<lambda>_.
     rbind (check_inputs other c) (\<lambda>_.
     rbind (check_closure other c) (\<lambda>_.
     rbind (refuse_persistent_scanner_activation (im_tree im)) (\<lambda>_.
     rbind (refuse_enabled_endpoint_events (im_tree im) image_tree) (\<lambda>_.
     rbind (refuse_logger_snippet (im_tree im) image_tree) (\<lambda>_.
     rbind (expected_gui c) (\<lambda>gui.
     demand (get_is manifest ''flatpak'' gui) (ValueError ''incorrect expected GUI system profile'')
     (rbind (index source ''commit'') (\<lambda>commit. rbind (file_digest c BINARY) (\<lambda>d. rbind (py_len files) (\<lambda>n.
     Inr (JObj [(''profile'', JStr ''system''), (''sourceCommit'', commit), (''binarySha256'', d), (''verifiedFiles'', JInt (int n))])))))))))))))))))))))))"

end
