(* ===== verification/VerifyProofs.thy ===== *)
theory VerifyProofs
  imports Verify
begin

text \<open>
  Proofs about \<^verbatim>\<open>build_files/firewall/snitchwatch-system-verify.py\<close>: what an accepted image holds
  (\<open>installs\<close>, \<open>holds\<close>), what its shipped configuration is, and what the scans exclude.
\<close>

section \<open>Files of the inventory\<close>

text \<open>\<open>installs H im name d\<close>: the image has the file, with its mode and without links on the way, and its hash is \<open>d\<close>.\<close>

definition installs :: "host \<Rightarrow> image_root \<Rightarrow> string \<Rightarrow> string \<Rightarrow> bool" where
  "installs H im name d \<longleftrightarrow> (\<exists>f. plain_file (im_tree im) name (mode_of name) f \<and>
     (im_live im \<longrightarrow> m_uid (f_meta f) = 0 \<and> m_gid (f_meta f) = 0) \<and> d = sha256 H (f_data f))"

text \<open>The bytes at a path of the image.\<close>

definition holds :: "image_root \<Rightarrow> string \<Rightarrow> string \<Rightarrow> bool" where
  "holds im name b \<longleftrightarrow> (\<exists>f. plain_file (im_tree im) name (mode_of name) f \<and> f_data f = b)"

lemma holds_unique: "holds im name b \<Longrightarrow> holds im name b' \<Longrightarrow> b = b'"
  unfolding holds_def using plain_file_unique by blast

lemma holds_installs: "holds im name b \<Longrightarrow> installs H im name d \<Longrightarrow> d = sha256 H b"
  unfolding holds_def installs_def using plain_file_unique by blast

lemma installs_unique: "installs H im name d \<Longrightarrow> installs H im name d' \<Longrightarrow> d = d'"
  unfolding installs_def using plain_file_unique by blast

lemma read_file_Inr: "read_file im name mode = Inr b \<Longrightarrow> \<exists>f. plain_file (im_tree im) name mode f \<and> f_data f = b \<and>
    (im_live im \<longrightarrow> m_uid (f_meta f) = 0 \<and> m_gid (f_meta f) = 0)"
  by (auto simp: read_file_def plain_file_def require_eq_Inr split: sum.splits)

lemma check_file_Inr: "check_file H im (name, e) = Inr (n, b) \<Longrightarrow>
    n = name \<and> holds im name b \<and> installs H im name (sha256 H b) \<and> e = JStr (sha256 H b)"
  by (auto simp: check_file_def rbind_eq_Inr require_eq_Inr holds_def installs_def dest!: read_file_Inr)

interpretation system: hashed_inventory "check_file H im" "\<lambda>n b. holds im n b \<and> installs H im n (sha256 H b)" "sha256 H" for H im
proof
  show "check_file H im (n, e) = Inr (n', b) \<Longrightarrow> n' = n \<and> (holds im n b \<and> installs H im n (sha256 H b)) \<and> e = JStr (sha256 H b)"
    for n e n' b using check_file_Inr by blast
  show "holds im n b \<and> installs H im n (sha256 H b) \<Longrightarrow> holds im n b' \<and> installs H im n (sha256 H b') \<Longrightarrow> b = b'"
    for n b b' using holds_unique by blast
qed

text \<open>What a context of the checks says about the image it was read from.\<close>

definition read_from :: "host \<Rightarrow> image_root \<Rightarrow> verified \<Rightarrow> bool" where
  "read_from H im c \<longleftrightarrow> (\<exists>items. vf_files c = JObj items \<and> set (map fst items) = set REQUIRED \<and>
     (\<forall>(n, e) \<in> set items. \<exists>d. e = JStr d \<and> installs H im n d) \<and> (\<forall>(n, b) \<in> set (vf_contents c). holds im n b))"

lemma check_files_read_from:
  assumes "check_files H im manifest = Inr (files, contents)"
  shows "read_from H im \<lparr>vf_pins = p, vf_source = s, vf_files = files, vf_contents = contents\<rparr>"
proof -
  obtain items where i: "files = JObj items" "set (map fst items) = set REQUIRED" "rmap (check_file H im) items = Inr contents"
    using assms by (auto simp: check_files_def rbind_eq_Inr demand_eq_Inr dict_items_Inr)
  then show ?thesis using system.digests [OF i(3)] system.contents [OF i(3)] by (fastforce simp: read_from_def)
qed

lemma file_digest_Inr: "read_from H im c \<Longrightarrow> file_digest c name = Inr d \<Longrightarrow> \<exists>s. d = JStr s \<and> installs H im name s"
  by (auto simp: read_from_def file_digest_def split: option.splits dest!: map_of_SomeD)

lemma content_Inr: "read_from H im c \<Longrightarrow> content c name = Inr b \<Longrightarrow> holds im name b"
  by (auto simp: read_from_def content_def split: option.splits dest!: map_of_SomeD)

lemma read_from_REQUIRED: "read_from H im c \<Longrightarrow> name \<in> set REQUIRED \<Longrightarrow> \<exists>d. installs H im name d"
  by (fastforce simp: read_from_def)

section \<open>The stages of an accepted verification\<close>

lemma verify_Inr:
  assumes "verify H other im image_tree = Inr rep"
  obtains manifest pins pb source files contents c gui where
    "json_bytes other pb = Inr pins" "holds im PINS pb" "sha256 H pb = EXPECTED_PINS_SHA256"
    "check_source manifest pins = Inr source"
    "c = \<lparr>vf_pins = pins, vf_source = source, vf_files = files, vf_contents = contents\<rparr>" "read_from H im c"
    "check_binary other im manifest c = Inr ()" "check_overlay c = Inr ()" "check_config other c = Inr ()"
    "check_artifact other c = Inr ()" "check_native other c = Inr ()" "check_scanner other c = Inr ()"
    "check_inputs other c = Inr ()" "check_closure other c = Inr ()"
    "refuse_persistent_scanner_activation (im_tree im) = Inr ()"
    "refuse_enabled_endpoint_events (im_tree im) image_tree = Inr ()" "refuse_logger_snippet (im_tree im) image_tree = Inr ()"
    "expected_gui c = Inr gui" "get_is manifest ''flatpak'' gui = Inr True"
    "\<exists>commit d n. index source ''commit'' = Inr commit \<and> file_digest c BINARY = Inr d \<and>
       rep = JObj [(''profile'', JStr ''system''), (''sourceCommit'', commit), (''binarySha256'', d), (''verifiedFiles'', JInt n)]"
proof -
  have pm: "mode_of PINS = 420" by code_simp
  have ex_unit: "(\<exists>x::unit. P x) \<longleftrightarrow> P ()" for P by auto
  show ?thesis
    using assms unfolding verify_def
    apply (simp only: rbind_eq_Inr require_eq_Inr demand_eq_Inr Let_def split_beta ex_unit)
    apply (elim exE conjE)
    subgoal for manifest mb pb pins source fc gui commit d n
      apply (rule that [of pb pins manifest source "\<lparr>vf_pins = pins, vf_source = source, vf_files = fst fc, vf_contents = snd fc\<rparr>"
          "fst fc" "snd fc" gui])
      apply (assumption | rule refl | use pm read_file_Inr [of im PINS 420 pb] in \<open>force simp: holds_def\<close>
        | rule check_files_read_from, simp | blast)+
      done
    done
qed

section \<open>Consequences of the checks\<close>

lemma digest_same:
  assumes "read_from H im c" "same (file_digest c name) b = Inr True"
  shows "\<exists>s. installs H im name s \<and> b = Inr (JStr s)"
  using assms by (auto simp: same_True dest!: file_digest_Inr)

lemma overlay_pinned:
  assumes "read_from H im c" "check_overlay c = Inr ()"
  shows "(name, original) \<in> set SOURCE_FILES \<Longrightarrow> \<exists>s. installs H im name s \<and> source_pin c original = Inr (JStr s)"
    and "(name, s) \<in> set TOWER_RULES \<Longrightarrow> installs H im name s"
    and "\<exists>s. installs H im LEGACY_CONFIG s \<and> pin c ''legacyConfigSha256'' = Inr (JStr s)"
proof -
  have "\<forall>p\<in>set SOURCE_FILES. same (file_digest c (fst p)) (source_pin c (snd p)) = Inr True"
    "\<forall>p\<in>set TOWER_RULES. same (file_digest c (fst p)) (Inr (JStr (snd p))) = Inr True"
    "same (file_digest c LEGACY_CONFIG) (pin c ''legacyConfigSha256'') = Inr True"
    using assms(2) by (auto simp: check_overlay_def rbind_eq_Inr demand_eq_Inr rall_eq_Inr split_beta)
  then show "(name, original) \<in> set SOURCE_FILES \<Longrightarrow> \<exists>s. installs H im name s \<and> source_pin c original = Inr (JStr s)"
    and "(name, s) \<in> set TOWER_RULES \<Longrightarrow> installs H im name s"
    and "\<exists>s. installs H im LEGACY_CONFIG s \<and> pin c ''legacyConfigSha256'' = Inr (JStr s)"
    using digest_same [OF assms(1)] by fastforce+
qed

text \<open>Every other key of the shipped config is the legacy one's; the address is the only change of its server.\<close>

lemma index_assign: "assign v k x = Inr w \<Longrightarrow> index w k = Inr x \<and> (k' \<noteq> k \<longrightarrow> index w k' = index v k')"
  by (auto simp: assign_def split: json.splits)

definition equal_at :: "json \<Rightarrow> json \<Rightarrow> string \<Rightarrow> bool" where
  "equal_at v w k \<longleftrightarrow> (case (index v k, index w k) of (Inr x, Inr y) \<Rightarrow> pyeq x y | (Inl _, Inl _) \<Rightarrow> True | _ \<Rightarrow> False)"

lemma wf_json_bytes: "(\<And>x v. other x = Inr v \<Longrightarrow> wf_json v) \<Longrightarrow> json_bytes other b = Inr v \<Longrightarrow> wf_json v"
  by (auto simp: json_bytes_def loads_def wf_json_dedup_wf split: option.splits)

definition decodes_dicts :: "(string \<Rightarrow> json result) \<Rightarrow> bool" where
  "decodes_dicts other \<longleftrightarrow> (\<forall>x v. other x = Inr v \<longrightarrow> wf_json v)"

lemma wf_decoded: "decodes_dicts other \<Longrightarrow> json_bytes other b = Inr v \<Longrightarrow> wf_json v"
  using wf_json_bytes unfolding decodes_dicts_def by blast

lemma pyeq_JObj: "pyeq v (JObj d) \<Longrightarrow> \<exists>e. v = JObj e"
  by (cases v) (auto simp: pyeq_def norm_float_def split: pyfloat.splits if_splits)

lemma pyeq_index_at:
  assumes "pyeq v w" "wf_json v" "wf_json w" "is_dict w" "index w k = Inr y"
  shows "\<exists>x. index v k = Inr x \<and> pyeq x y"
  using assms pyeq_index [of w v k y] pyeq_JObj [of v] pyeq_sym by (auto simp: is_dict_iff)

lemma pyeq_equal_at:
  assumes "pyeq v w" "wf_json v" "wf_json w" "is_dict w"
  shows "equal_at v w k"
  using pyeq_index_at [OF assms] pyeq_index [OF assms(1,2,3) _ assms(4)]
  by (cases "index v k"; cases "index w k") (force simp: equal_at_def)+

lemma equal_at_index: "index w k = index w' k \<Longrightarrow> equal_at v w k = equal_at v w' k"
  by (simp add: equal_at_def)

lemma wf_assign: "wf_json v \<Longrightarrow> wf_json x \<Longrightarrow> assign v k x = Inr w \<Longrightarrow> wf_json w \<and> is_dict w"
proof -
  have "list_all snd (map (map_prod id wf_json) (dict_set k x d))" if "list_all snd (map (map_prod id wf_json) d)" "wf_json x" for d
    using that by (induction d) auto
  then show "wf_json v \<Longrightarrow> wf_json x \<Longrightarrow> assign v k x = Inr w \<Longrightarrow> wf_json w \<and> is_dict w"
    by (auto simp: assign_def split: json.splits)
qed

lemma expected_config_Inr:
  assumes "expected_config legacy = Inr e" "wf_json legacy"
  shows "\<exists>ls s. index legacy ''Server'' = Inr ls \<and> index e ''Server'' = Inr s \<and> index s ''Address'' = Inr (JStr ''unix:opensnitchd.sock'') \<and>
    (\<forall>k. k \<noteq> ''Address'' \<longrightarrow> index s k = index ls k) \<and> (\<forall>k. k \<notin> {''Server'', ''DefaultAction''} \<longrightarrow> index e k = index legacy k) \<and>
    index e ''DefaultAction'' = Inr (JStr ''allow'') \<and> wf_json e \<and> is_dict e \<and> wf_json s \<and> is_dict s"
proof -
  obtain ls s m where a: "index legacy ''Server'' = Inr ls" "assign ls ''Address'' (JStr ''unix:opensnitchd.sock'') = Inr s"
      "assign legacy ''Server'' s = Inr m" "assign m ''DefaultAction'' (JStr ''allow'') = Inr e"
    using assms(1) by (auto simp: expected_config_def rbind_eq_Inr)
  have "wf_json s \<and> is_dict s" using wf_assign [OF wf_json_index [OF assms(2) a(1)] _ a(2)] by simp
  moreover have "wf_json m \<and> is_dict m" using wf_assign [OF assms(2) _ a(3)] calculation by blast
  moreover have "wf_json e \<and> is_dict e" using wf_assign [OF _ _ a(4)] calculation by simp
  moreover note a(1) index_assign [OF a(2)] index_assign [OF a(3)] index_assign [OF a(4)]
  ultimately show ?thesis by (intro exI [of _ ls] exI [of _ s]) auto
qed

lemma config_contract:
  assumes d: "decodes_dicts other" and c: "read_from H im c" "check_config other c = Inr ()"
    and b: "check_binary other im0 manifest c = Inr ()"
  shows "\<exists>cb lb config legacy server legacy_server. holds im CONFIG cb \<and> holds im LEGACY_CONFIG lb \<and>
     json_bytes other cb = Inr config \<and> json_bytes other lb = Inr legacy \<and>
     index config ''DefaultAction'' = Inr (JStr ''allow'') \<and> index config ''ProcMonitorMethod'' = Inr (JStr ''proc'') \<and>
     index config ''Server'' = Inr server \<and> index legacy ''Server'' = Inr legacy_server \<and>
     index server ''Address'' = Inr (JStr ''unix:opensnitchd.sock'') \<and> \<not> succeeds (index server ''Loggers'') \<and>
     (\<forall>k. k \<notin> {''Server'', ''DefaultAction''} \<longrightarrow> equal_at config legacy k) \<and>
     (\<forall>k. k \<noteq> ''Address'' \<longrightarrow> equal_at server legacy_server k)"
proof -
  obtain cb lb config legacy e where v: "content c CONFIG = Inr cb" "content c LEGACY_CONFIG = Inr lb"
      "json_bytes other cb = Inr config" "json_bytes other lb = Inr legacy" "expected_config legacy = Inr e" "pyeq config e"
      "get_is config ''DefaultAction'' (JStr ''allow'') = Inr True" "get_is config ''ProcMonitorMethod'' (JStr ''proc'') = Inr True"
      "rbind (get_or config ''Server'' (JObj [])) (\<lambda>s. get_is s ''Address'' (JStr ''unix:opensnitchd.sock'')) = Inr True"
    using c(2) by (auto simp: check_config_def content_json_def rbind_eq_Inr require_eq_Inr demand_eq_Inr all_of_eq_True)
  have wf: "wf_json config" "wf_json legacy" using wf_decoded [OF d] v by auto
  obtain ls s where l: "index legacy ''Server'' = Inr ls" "index e ''Server'' = Inr s"
      "index s ''Address'' = Inr (JStr ''unix:opensnitchd.sock'')" "\<forall>k. k \<noteq> ''Address'' \<longrightarrow> index s k = index ls k"
      "\<forall>k. k \<notin> {''Server'', ''DefaultAction''} \<longrightarrow> index e k = index legacy k"
      "index e ''DefaultAction'' = Inr (JStr ''allow'')" "wf_json e" "is_dict e" "wf_json s" "is_dict s"
    using expected_config_Inr [OF v(5) wf(2)] by (elim exE conjE)
  obtain server where s: "index config ''Server'' = Inr server" "pyeq server s"
    using pyeq_index_at [OF v(6) wf(1) l(7,8,2)] by blast
  obtain act where act: "index config ''DefaultAction'' = Inr act" "pyeq act (JStr ''allow'')"
    using pyeq_index_at [OF v(6) wf(1) l(7,8,6)] by blast
  have ws: "wf_json server" using wf_json_index wf(1) s(1) by blast
  obtain adr where adr: "index server ''Address'' = Inr adr" "pyeq adr (JStr ''unix:opensnitchd.sock'')"
    using pyeq_index_at [OF s(2) ws l(9,10,3)] by blast
  have "index config ''ProcMonitorMethod'' = Inr (JStr ''proc'')"
    using v(8) get_present by (fastforce simp: get_is_True)
  moreover have "equal_at config legacy k" if "k \<notin> {''Server'', ''DefaultAction''}" for k
    using pyeq_equal_at [OF v(6) wf(1) l(7,8)] equal_at_index [OF l(5) [rule_format, OF that]] by blast
  moreover have "equal_at server ls k" if "k \<noteq> ''Address''" for k
    using pyeq_equal_at [OF s(2) ws l(9,10)] equal_at_index [OF l(4) [rule_format, OF that]] by blast
  moreover have "\<not> succeeds (index server ''Loggers'')"
  proof -
    have "rbind (get_or config ''Server'' (JObj [])) (\<lambda>s. rbind (str_in ''Loggers'' s) (\<lambda>b. Inr (\<not> b))) = Inr True"
      using b v(1,3) by (simp add: check_binary_def content_json_def rbind_eq_Inr demand_eq_Inr rall_eq_Inr)
    moreover have "get_or config ''Server'' (JObj []) = Inr server"
      using s(1) by (auto simp: index_eq_Inr)
    moreover obtain sd where "server = JObj sd" using adr(1) by (auto simp: index_eq_Inr)
    ultimately show ?thesis by (auto simp: str_in_def index_def succeeds_iff map_of_eq_None_iff split: option.splits dest: map_of_SomeD)
  qed
  moreover have "holds im CONFIG cb" "holds im LEGACY_CONFIG lb" using content_Inr [OF c(1)] v(1,2) by blast+
  moreover have "index config ''DefaultAction'' = Inr (JStr ''allow'')" "index server ''Address'' = Inr (JStr ''unix:opensnitchd.sock'')"
    using act adr by simp_all
  moreover note v(3,4) s(1) l(1)
  ultimately show ?thesis by (intro exI conjI allI impI)
qed

section \<open>Scans\<close>

definition names_scanner :: "fsnode \<Rightarrow> bool" where
  "names_scanner t \<longleftrightarrow> m_kind (f_meta t) = KReg \<and> list_ex (\<lambda>v. contains v (f_data t)) SCANNER_ACTIVATION_NAMES"

lemma activation_check_Inr: "activation_check dir (ps, t) = Inr u \<Longrightarrow> names_scanner t \<Longrightarrow> rel_path dir ps = SCANNER_SESSION_ACTIVATION"
  by (auto simp: activation_check_def names_scanner_def Let_def require_eq_Inr split: if_splits)

lemma activation_only_session:
  assumes "refuse_persistent_scanner_activation t = Inr ()" "dir \<in> set SCANNER_ACTIVATION_DIRS" "(ps, x) \<in> set (entries_of t dir)" "names_scanner x"
  shows "rel_path dir ps = SCANNER_SESSION_ACTIVATION"
proof -
  have "activation_check dir (ps, x) = Inr ()"
    using assms(1-3) by (auto simp: refuse_persistent_scanner_activation_def rall_eq_Inr)
  then show ?thesis using assms(4) by (rule activation_check_Inr)
qed

lemma refuse_name_Inr: "refuse_name word message t dirs = Inr () \<longleftrightarrow>
    (\<forall>dir\<in>set dirs. \<forall>(ps, x)\<in>set (entries_of t dir). \<not> contains word (py_lower (last ps)))"
  by (auto simp: refuse_name_def rall_eq_Inr require_eq_Inr split_beta)

lemma refuse_image_tree:
  "refuse_enabled_endpoint_events t image_tree = Inr () \<Longrightarrow> refuse_enabled_endpoint_events t False = Inr ()"
  "refuse_logger_snippet t image_tree = Inr () \<Longrightarrow> refuse_logger_snippet t False = Inr ()"
  by (auto simp: refuse_enabled_endpoint_events_def refuse_logger_snippet_def refuse_name_Inr EVENTS_LOGGER_DIRS_def split: if_splits)

section \<open>Properties\<close>

lemma verified_files:
  assumes "verify H other im image_tree = Inr rep"
  shows "\<exists>pb pins. json_bytes other pb = Inr pins \<and> holds im PINS pb \<and> sha256 H pb = EXPECTED_PINS_SHA256 \<and>
     (\<forall>name\<in>set REQUIRED. \<exists>d. installs H im name d) \<and>
     (\<forall>(name, original)\<in>set SOURCE_FILES. \<exists>d. index2 pins ''sourceFiles'' original = Inr (JStr d) \<and> installs H im name d) \<and>
     (\<forall>(name, d)\<in>set TOWER_RULES. installs H im name d) \<and>
     (\<exists>d. index pins ''legacyConfigSha256'' = Inr (JStr d) \<and> installs H im LEGACY_CONFIG d) \<and>
     (\<exists>d. index rep ''binarySha256'' = Inr (JStr d) \<and> installs H im BINARY d) \<and>
     (\<forall>dir\<in>set SCANNER_ACTIVATION_DIRS. \<forall>(ps, t)\<in>set (entries_of (im_tree im) dir).
        names_scanner t \<longrightarrow> rel_path dir ps = SCANNER_SESSION_ACTIVATION)"
proof -
  obtain manifest pins pb source files contents c gui where v:
    "json_bytes other pb = Inr pins" "holds im PINS pb" "sha256 H pb = EXPECTED_PINS_SHA256"
    "c = \<lparr>vf_pins = pins, vf_source = source, vf_files = files, vf_contents = contents\<rparr>" "read_from H im c"
    "check_overlay c = Inr ()" "refuse_persistent_scanner_activation (im_tree im) = Inr ()"
    "\<exists>commit d n. index source ''commit'' = Inr commit \<and> file_digest c BINARY = Inr d \<and>
       rep = JObj [(''profile'', JStr ''system''), (''sourceCommit'', commit), (''binarySha256'', d), (''verifiedFiles'', JInt n)]"
    using verify_Inr [OF assms] by metis
  have p: "source_pin c k = index2 pins ''sourceFiles'' k" "pin c k = index pins k" for k
    using v(4) by (simp_all add: source_pin_def pin_def)
  note o = overlay_pinned [OF v(5,6), unfolded p]
  obtain d where "index rep ''binarySha256'' = Inr d" "file_digest c BINARY = Inr d" using v(8) by auto
  moreover then obtain s where "d = JStr s" "installs H im BINARY s" using file_digest_Inr [OF v(5)] by blast
  ultimately show ?thesis
    using v(1-3) read_from_REQUIRED [OF v(5)] o activation_only_session [OF v(7)] by blast
qed

end
