(* ===== verification/VerifyExample.thy ===== *)
theory VerifyExample
  imports VerifyProofs
begin

text \<open>
  An image that \<open>verify\<close> accepts: every file of the inventory, pins, manifest and provenance, with a hash
  function that tells the pins and the tower rules from everything else. The bytes of the decoded files stay
  a variable while the tree is evaluated.
\<close>

section \<open>The tree of an image\<close>

definition toy_meta :: "kind \<Rightarrow> 12 word \<Rightarrow> meta" where
  "toy_meta k mode = \<lparr>m_kind = k, m_uid = 0, m_gid = 0, m_mode = mode, m_nlink = 1, m_dev = 1, m_ino = 1, m_xattrs = Inr []\<rparr>"

definition folder :: "(string \<times> fsnode) list \<Rightarrow> fsnode" where
  "folder ks = FsNode (toy_meta KDir 493) True [] (Some ks)"

definition img_file :: "12 word \<Rightarrow> string \<Rightarrow> fsnode" where
  "img_file m b = FsNode (toy_meta KReg m) False b (Some [])"

text \<open>
  The files of an image. Those in a directory the activation scan reads have the bytes \<open>x\<close>, all others any
  bytes \<open>p n\<close>.
\<close>

definition img_tree :: "(string \<Rightarrow> string) \<Rightarrow> fsnode" where
  "img_tree p = folder
    [(''usr'', folder
     [(''share'', folder
      [(''snitchwatch'', folder
       [(''system-bridge-manifest.json'', img_file 420 (p ''/usr/share/snitchwatch/system-bridge-manifest.json'')),
        (''endpoint-events'', folder
        [(''snitchwatch-endpoint-events.conf'', img_file 420 (p ''/usr/share/snitchwatch/endpoint-events/snitchwatch-endpoint-events.conf'')),
         (''snitchwatch-endpoint-events.nft'', img_file 420 (p ''/usr/share/snitchwatch/endpoint-events/snitchwatch-endpoint-events.nft'')),
         (''snitchwatch-endpoint-events.service'', img_file 420 (p ''/usr/share/snitchwatch/endpoint-events/snitchwatch-endpoint-events.service'')),
         (''snitchwatch-endpoint-events-nft.service'', img_file 420 (p ''/usr/share/snitchwatch/endpoint-events/snitchwatch-endpoint-events-nft.service''))]),
        (''build-pins.json'', img_file 420 (p ''/usr/share/snitchwatch/build-pins.json'')),
        (''native-build-provenance.json'', img_file 420 (p ''/usr/share/snitchwatch/native-build-provenance.json'')),
        (''native-rpm-inventory.txt'', img_file 420 (p ''/usr/share/snitchwatch/native-rpm-inventory.txt'')),
        (''schema1-artifact-MANIFEST.json'', img_file 420 (p ''/usr/share/snitchwatch/schema1-artifact-MANIFEST.json'')),
        (''schema1-artifact-SHA256SUMS'', img_file 420 (p ''/usr/share/snitchwatch/schema1-artifact-SHA256SUMS'')),
        (''scanner'', folder
        [(''source-inputs.json'', img_file 420 (p ''/usr/share/snitchwatch/scanner/source-inputs.json'')),
         (''dependency-closure.json'', img_file 420 (p ''/usr/share/snitchwatch/scanner/dependency-closure.json'')),
         (''build.log'', img_file 420 (p ''/usr/share/snitchwatch/scanner/build.log'')),
         (''repro.log'', img_file 420 (p ''/usr/share/snitchwatch/scanner/repro.log'')),
         (''test.log'', img_file 420 (p ''/usr/share/snitchwatch/scanner/test.log'')),
         (''snitchwatch-scanner-privileged.ldd'', img_file 420 (p ''/usr/share/snitchwatch/scanner/snitchwatch-scanner-privileged.ldd'')),
         (''snitchwatch-scanner-broker.ldd'', img_file 420 (p ''/usr/share/snitchwatch/scanner/snitchwatch-scanner-broker.ldd'')),
         (''provenance.json'', img_file 420 (p ''/usr/share/snitchwatch/scanner/provenance.json''))])]),
       (''dbus-1'', folder
       [(''services'', folder
        [(''org.snitchwatch.Scanner.service'', img_file 420 ''x'')])]),
       (''polkit-1'', folder
       [(''actions'', folder
        [(''org.snitchwatch.scanner.policy'', img_file 420 (p ''/usr/share/polkit-1/actions/org.snitchwatch.scanner.policy''))])]),
       (''bazzite-tower'', folder
       [(''snitchwatch-bridge-profile'', img_file 420 (p ''/usr/share/bazzite-tower/snitchwatch-bridge-profile'')),
        (''opensnitchd-system-bridge-config.json'', img_file 420 (p ''/usr/share/bazzite-tower/opensnitchd-system-bridge-config.json'')),
        (''opensnitchd-default-config.json'', img_file 420 (p ''/usr/share/bazzite-tower/opensnitchd-default-config.json''))]),
       (''licenses'', folder
       [(''snitchwatch-bridge'', folder
        [(''LICENSE'', img_file 420 (p ''/usr/share/licenses/snitchwatch-bridge/LICENSE'')),
         (''LICENSE.opensnitch'', img_file 420 (p ''/usr/share/licenses/snitchwatch-bridge/LICENSE.opensnitch'')),
         (''THIRD-PARTY-LICENSES.md'', img_file 420 (p ''/usr/share/licenses/snitchwatch-bridge/THIRD-PARTY-LICENSES.md''))]),
        (''snitchwatch-scanner'', folder
        [(''LICENSE'', img_file 420 (p ''/usr/share/licenses/snitchwatch-scanner/LICENSE'')),
         (''THIRD-PARTY-LICENSES.md'', img_file 420 (p ''/usr/share/licenses/snitchwatch-scanner/THIRD-PARTY-LICENSES.md''))])])]),
      (''lib'', folder
      [(''tmpfiles.d'', folder
       [(''snitchwatch-scanner.conf'', img_file 420 (p ''/usr/lib/tmpfiles.d/snitchwatch-scanner.conf'')),
        (''snitchwatch.conf'', img_file 420 (p ''/usr/lib/tmpfiles.d/snitchwatch.conf''))]),
       (''systemd'', folder
       [(''system'', folder
        [(''snitchwatch-system-bridge.service'', img_file 420 ''x''),
         (''snitchwatch-system-bridge-grpc.socket'', img_file 420 ''x''),
         (''snitchwatch-system-bridge-gui.socket'', img_file 420 ''x''),
         (''opensnitch.service.d'', folder
         [(''snitchwatch-system-bridge.conf'', img_file 420 ''x'')])])]),
       (''sysusers.d'', folder
       [(''snitchwatch.conf'', img_file 420 (p ''/usr/lib/sysusers.d/snitchwatch.conf''))])]),
      (''bin'', folder
      [(''snitchwatch-bridge-cli'', img_file 493 (p ''/usr/bin/snitchwatch-bridge-cli''))]),
      (''libexec'', folder
      [(''snitchwatch'', folder
       [(''verify-system-manifest.py'', img_file 493 (p ''/usr/libexec/snitchwatch/verify-system-manifest.py''))]),
       (''snitchwatch-scanner-privileged'', img_file 493 (p ''/usr/libexec/snitchwatch-scanner-privileged'')),
       (''snitchwatch-scanner-broker'', img_file 493 (p ''/usr/libexec/snitchwatch-scanner-broker''))])]),
     (''etc'', folder
     [(''opensnitchd'', folder
      [(''rules'', folder
       [(''000-snitchwatch-bridge-fetch.json'', img_file 420 (p ''/etc/opensnitchd/rules/000-snitchwatch-bridge-fetch.json'')),
        (''000-snitchwatch-tower-os-update.json'', img_file 420 (p ''/etc/opensnitchd/rules/000-snitchwatch-tower-os-update.json'')),
        (''000-snitchwatch-tower-resolved-dns.json'', img_file 420 (p ''/etc/opensnitchd/rules/000-snitchwatch-tower-resolved-dns.json''))])])])]"

text \<open>
  Mode of each file of the inventory, and whether it lies in such a directory.
\<close>

definition img_kinds :: "(12 word \<times> bool) list" where
  "img_kinds = (let unit_file = (420, True); plain = (420, False); exec = (493, False) in
     [unit_file] @ replicate 2 plain @ replicate 3 unit_file @ replicate 2 plain @ [unit_file] @ replicate 10 plain @ [exec]
     @ replicate 5 plain @ [exec] @ replicate 3 plain @ replicate 2 exec @ replicate 10 plain)"

definition img_list :: "(string \<times> 12 word \<times> bool) list" where
  "img_list = zip REQUIRED img_kinds"

definition unit_names :: "string list" where
  "unit_names = map fst (filter (\<lambda>(n, m, u). u) img_list)"

definition img_root :: "(string \<Rightarrow> string) \<Rightarrow> image_root" where
  "img_root p = \<lparr>im_tree = img_tree p, im_live = True, im_readlink = (\<lambda>_. Inr ''/dev/null'')\<rparr>"

fun linkless :: "fsnode \<Rightarrow> bool" where
  "linkless (FsNode m d b None) = (m_kind m \<noteq> KLink)"
| "linkless (FsNode m d b (Some ks)) = (m_kind m \<noteq> KLink \<and> list_all (\<lambda>nc. linkless (snd nc)) ks)"

lemma linkless_kid: "linkless t \<Longrightarrow> kid c t = Some k \<Longrightarrow> linkless k"
  by (cases t rule: linkless.cases) (auto simp: kid_def list_all_iff dest!: map_of_SomeD)

lemma linkless_no_link: "linkless t \<Longrightarrow> \<not> has_link cs t"
proof (induction cs arbitrary: t)
  case (Cons c cs)
  have "m_kind (f_meta k) \<noteq> KLink" if "linkless k" for k using that by (cases k rule: linkless.cases) auto
  then show ?case using Cons linkless_kid by (auto split: option.splits)
qed simp

lemma img_tree_linkless: "linkless (img_tree p)"
  by code_simp

lemma img_tree_stat: "list_all (\<lambda>(n, m, u). (startswith n ''/usr/'' \<or> n \<in> set RESERVED_RULES) \<and> no_dotdot n \<and>
    stat_at (components n) (img_tree p) = Inr (img_file m (if u then ''x'' else p n))) ((MANIFEST, 420, False) # img_list)"
  by code_simp

lemma img_tree_reads:
  assumes "(n, m, u) \<in> set ((MANIFEST, 420, False) # img_list)"
  shows "read_file (img_root p) n m = Inr (if u then ''x'' else p n)"
proof -
  have "(startswith n ''/usr/'' \<or> n \<in> set RESERVED_RULES) \<and> no_dotdot n \<and>
      stat_at (components n) (img_tree p) = Inr (img_file m (if u then ''x'' else p n))"
    using bspec [OF img_tree_stat [of p, unfolded list_all_iff] assms] by simp
  then show ?thesis
    using linkless_no_link [OF img_tree_linkless] by (simp add: read_file_def img_root_def img_file_def toy_meta_def)
qed

lemma img_scans: "refuse_persistent_scanner_activation (im_tree (img_root p)) = Inr ()"
  "refuse_enabled_endpoint_events (im_tree (img_root p)) True = Inr ()" "refuse_logger_snippet (im_tree (img_root p)) True = Inr ()"
proof -
  have "let t = im_tree (img_root p) in refuse_persistent_scanner_activation t = Inr () \<and>
    refuse_enabled_endpoint_events t True = Inr () \<and> refuse_logger_snippet t True = Inr ()" by code_simp
  then show "refuse_persistent_scanner_activation (im_tree (img_root p)) = Inr ()"
    "refuse_enabled_endpoint_events (im_tree (img_root p)) True = Inr ()" "refuse_logger_snippet (im_tree (img_root p)) True = Inr ()"
    by (simp_all add: Let_def)
qed

lemma img_list_names: "map fst img_list = REQUIRED" "list_all (\<lambda>(n, m, u). m = mode_of n) img_list"
proof -
  have "length REQUIRED = length img_kinds" by code_simp
  then show "map fst img_list = REQUIRED" by (simp add: img_list_def)
  show "list_all (\<lambda>(n, m, u). m = mode_of n) img_list" by code_simp
qed

lemma img_reads:
  assumes "\<forall>n\<in>set unit_names. p n = ''x''" "n \<in> set REQUIRED"
  shows "read_file (img_root p) n (mode_of n) = Inr (p n)"
proof -
  obtain m u where i: "(n, m, u) \<in> set img_list" using assms(2) img_list_names(1) by (metis (no_types) fst_conv imageE list.set_map prod.collapse)
  then have "m = mode_of n" using img_list_names(2) by (auto simp: list_all_iff)
  moreover have "read_file (img_root p) n m = Inr (if u then ''x'' else p n)"
    using img_tree_reads i by simp
  moreover have "u \<Longrightarrow> p n = ''x''" using assms(1) i by (force simp: unit_names_def)
  ultimately show ?thesis by auto
qed

lemma img_read_manifest: "read_file (img_root p) MANIFEST 420 = Inr (p MANIFEST)"
  using img_tree_reads [of MANIFEST 420 False] by simp

section \<open>Its files\<close>

definition elf_bytes :: string where
  "elf_bytes = [CHR 0x7F, CHR ''E'', CHR ''L'', CHR ''F'', CHR 0x02, CHR 0x01]"

definition c40 :: string where "c40 = replicate 40 CHR ''c''"
definition d64 :: string where "d64 = replicate 64 CHR ''d''"

text \<open>The decoded files.\<close>

definition source_names :: "string list" where
  "source_names = [''Cargo.toml'', ''Cargo.lock'', ''packaging/flatpak/org.snitchwatch.Snitchwatch.system.yml'']
     @ SCANNER_SOURCE_ALLOWLIST @ map snd SOURCE_FILES"

definition pins_of :: "json \<Rightarrow> json" where
  "pins_of source_files = JObj [(''bridgeVersion'', JStr ''0.1.1''), (''builderImage'', JStr ''fedora''), (''flatpakFinishArgs'', JList []),
     (''flatpakRuntimeRef'', JStr ''org.kde.Platform/x86_64/6.11''), (''legacyConfigSha256'', JStr d64), (''protocVersion'', JStr ''33.5''),
     (''rustVersion'', JStr ''1.99.1''), (''sourceCommit'', JStr c40), (''sourceFiles'', source_files), (''sourceTree'', JStr c40),
     (''submoduleCommit'', JStr c40)]"

definition img_pins :: json where
  "img_pins = pins_of (JObj (sort_key fst (map (\<lambda>n. (n, JStr d64)) source_names)))"

definition img_legacy :: json where
  "img_legacy = JObj [(''DefaultAction'', JStr ''deny''), (''ProcMonitorMethod'', JStr ''proc''), (''Server'', JObj [(''Address'', JStr ''unix:/tmp/osui.sock'')])]"

definition img_config :: json where
  "img_config = JObj [(''DefaultAction'', JStr ''allow''), (''ProcMonitorMethod'', JStr ''proc''), (''Server'', JObj [(''Address'', JStr ''unix:opensnitchd.sock'')])]"

definition img_artifact :: json where
  "img_artifact = JObj [(''build'', JObj [(''builder_image'', JStr ''fedora''), (''protoc_version'', JStr ''libprotoc 33.5''), (''rustc_vv'', JStr ''rustc 1.99.1 (x)'')]),
     (''files'', JList (map (\<lambda>n. JObj [(''path'', JStr n), (''sha256'', JStr d64)]) (''usr/bin/snitchwatch-bridge-cli'' #
        map (\<lambda>n. ''usr/share/licenses/snitchwatch-bridge/'' @ n) LICENSES))),
     (''schema_version'', JInt 1), (''source'', JObj [(''dirty'', JBool False), (''git_commit'', JStr c40)]),
     (''upstream'', JObj [(''opensnitch_commit'', JStr c40)]), (''version'', JStr ''0.1.1'')]"

definition img_native :: json where
  "img_native = JObj [(''reproducible'', JBool True), (''rpmInventorySha256'', JStr d64), (''sourceCommit'', JStr c40), (''sourceTree'', JStr c40),
     (''submoduleCommit'', JStr c40)]"

definition img_scanner :: json where
  "img_scanner = JObj [(''binaries'', JObj (sort_key fst (map (\<lambda>p. (fst p, JStr d64)) scanner_binaries))), (''buildCommand'', scanner_command),
     (''builderImage'', JStr ''fedora''), (''cargoLockSha256'', JStr d64), (''cargoTomlSha256'', JStr d64),
     (''evidence'', JObj (sort_key fst (map (\<lambda>p. (fst p, JStr d64)) scanner_evidence))), (''reproducible'', JBool True),
     (''rpmInventorySha256'', JStr d64), (''rustcVv'', JStr ''rustc 1.99.1 (x)''), (''schemaVersion'', JInt 1), (''sourceCommit'', JStr c40),
     (''sourceTree'', JStr c40), (''testsPassed'', JBool True)]"

definition input_names :: "string list" where
  "input_names = [''Cargo.toml'', ''Cargo.lock''] @ SCANNER_SOURCE_ALLOWLIST"

definition img_inputs :: json where
  "img_inputs = JObj (sort_key fst (map (\<lambda>n. (n, JStr d64)) input_names))"

definition img_closure :: json where
  "img_closure = JObj (sort_key fst (map (\<lambda>p. (fst p, JList [JStr ''serde''])) scanner_binaries))"

definition img_digest :: "string \<Rightarrow> string" where
  "img_digest n = (if n = PINS then EXPECTED_PINS_SHA256 else case map_of TOWER_RULES n of None \<Rightarrow> d64 | Some d \<Rightarrow> d)"

definition img_files :: json where
  "img_files = JObj (sort_key fst (map (\<lambda>n. (n, JStr (img_digest n))) REQUIRED))"

definition img_source :: json where
  "img_source = JObj [(''commit'', JStr c40), (''submoduleCommit'', JStr c40), (''tree'', JStr c40)]"

definition manifest_of :: "json \<Rightarrow> json" where
  "manifest_of files = JObj [(''binary'', JObj [(''path'', JStr BINARY), (''sha256'', JStr d64), (''version'', JStr ''0.1.1'')]),
     (''files'', files),
     (''flatpak'', JObj [(''appId'', JStr ''org.snitchwatch.Snitchwatch''), (''finishArgs'', JList []), (''manifestSha256'', JStr d64),
        (''profile'', JStr ''system''), (''runtimeRef'', JStr ''org.kde.Platform/x86_64/6.11''), (''sourceCommit'', JStr c40)]),
     (''profile'', JStr ''system''), (''schemaVersion'', JInt 1), (''source'', img_source),
     (''symlinks'', JObj [(MASK, JStr ''/dev/null'')])]"

definition img_manifest :: json where
  "img_manifest = manifest_of img_files"

definition img_texts :: "(string \<times> json) list" where
  "img_texts = [(PINS, img_pins), (CONFIG, img_config), (LEGACY_CONFIG, img_legacy), (ARTIFACT_MANIFEST, img_artifact),
     (NATIVE_PROVENANCE, img_native), (SCANNER_ROOT @ ''provenance.json'', img_scanner), (SCANNER_ROOT @ ''source-inputs.json'', img_inputs),
     (SCANNER_ROOT @ ''dependency-closure.json'', img_closure)]"

definition text_shape :: "json \<Rightarrow> bool" where
  "text_shape v \<longleftrightarrow> no_float v \<and> wf_json v \<and> sortk v = v"

lemma text_shape_sorted:
  assumes "distinct ns" "\<And>n. n \<in> set ns \<Longrightarrow> text_shape (g n)"
  shows "text_shape (JObj (sort_key fst (map (\<lambda>n. (n, g n)) ns)))"
proof -
  have "map (map_prod id sortk) (sort_key fst (map (\<lambda>n. (n, g n)) ns)) = sort_key fst (map (\<lambda>n. (n, g n)) ns)"
    using assms(2) by (intro map_idI) (auto simp: text_shape_def)
  moreover have "distinct (map fst (sort_key fst (map (\<lambda>n. (n, g n)) ns)))"
    using assms(1) by (simp add: distinct_sort_key_fst comp_def)
  ultimately show ?thesis
    using assms(2) by (auto simp: text_shape_def sort_key_sorted list_all_iff)
qed

lemma distinct_names: "distinct REQUIRED" "distinct source_names"
proof -
  have "distinct (map rev REQUIRED)" "distinct (map rev source_names)" by code_simp+
  then show "distinct REQUIRED" "distinct source_names" by (simp_all add: distinct_map)
qed

lemma text_shape_obj: "sorted (map fst d) \<Longrightarrow> distinct (map fst d) \<Longrightarrow> list_all text_shape (map snd d) \<Longrightarrow> text_shape (JObj d)"
proof -
  assume d: "sorted (map fst d)" "distinct (map fst d)" "list_all text_shape (map snd d)"
  then have "map (map_prod id sortk) d = d"
    by (intro map_idI) (auto simp: text_shape_def list_all_iff)
  then show "text_shape (JObj d)" using d by (auto simp: text_shape_def list_all_iff sort_key_sorted)
qed

lemma text_shape_base [simp]: "text_shape (JStr s)" "text_shape (JBool b)" "text_shape (JInt i)" "text_shape (JList []) "
  "text_shape (JList (v # vs)) \<longleftrightarrow> text_shape v \<and> text_shape (JList vs)"
  by (auto simp: text_shape_def)

lemma shape_pins: "text_shape img_pins"
  unfolding img_pins_def pins_of_def
  by (rule text_shape_obj) (simp_all only: list.map fst_conv snd_conv list.pred_inject, code_simp, code_simp,
      simp add: text_shape_sorted distinct_names)

lemma shape_manifest: "text_shape img_manifest"
proof -
  have f: "text_shape img_files"
    unfolding img_files_def by (simp add: text_shape_sorted distinct_names)
  have g: "text_shape (JObj [(''path'', JStr BINARY), (''sha256'', JStr d64), (''version'', JStr ''0.1.1'')])"
    "text_shape (JObj [(''appId'', JStr ''org.snitchwatch.Snitchwatch''), (''finishArgs'', JList []), (''manifestSha256'', JStr d64),
        (''profile'', JStr ''system''), (''runtimeRef'', JStr ''org.kde.Platform/x86_64/6.11''), (''sourceCommit'', JStr c40)])"
    "text_shape (JObj [(''commit'', JStr c40), (''submoduleCommit'', JStr c40), (''tree'', JStr c40)])"
    "text_shape (JObj [(MASK, JStr ''/dev/null'')])"
    by (rule text_shape_obj; simp only: list.map fst_conv snd_conv list.pred_inject text_shape_base; code_simp)+
  show ?thesis unfolding img_manifest_def manifest_of_def img_source_def
    by (rule text_shape_obj) (simp_all only: list.map fst_conv snd_conv list.pred_inject text_shape_base f g simp_thms, code_simp, code_simp)
qed

lemma shape_others: "text_shape img_legacy" "text_shape img_config" "text_shape img_artifact" "text_shape img_native" "text_shape img_scanner"
  "text_shape img_closure"
  unfolding text_shape_def by code_simp+

lemma shape_inputs: "text_shape img_inputs"
  unfolding img_inputs_def by (rule text_shape_sorted) (code_simp, simp)

definition img_context :: "verified \<Rightarrow> bool" where
  "img_context c \<longleftrightarrow> vf_pins c = img_pins \<and> vf_files c = img_files \<and> vf_source c = img_source"

lemmas context_unfold = pin_def source_pin_def file_digest_def

lemma img_file_digest: "img_context c \<Longrightarrow> n \<in> set REQUIRED \<Longrightarrow> file_digest c n = Inr (JStr (img_digest n))"
  using distinct_names(1)
  by (simp add: img_context_def file_digest_def img_files_def map_of_sort_key_fst comp_def map_of_map_restrict)

lemma img_source_pin: "img_context c \<Longrightarrow> n \<in> set source_names \<Longrightarrow> source_pin c n = Inr (JStr d64)"
  using distinct_names(2)
  by (simp add: img_context_def source_pin_def index2_def img_pins_def pins_of_def map_of_sort_key_fst comp_def map_of_map_restrict)

text \<open>The files the checks compare: all have the same digest.\<close>

definition plain_names :: "string list" where
  "plain_names = map fst SOURCE_FILES @ [BINARY, RPM_INVENTORY, LEGACY_CONFIG] @ map (\<lambda>n. LICENSE_ROOT @ n) LICENSES @ SCANNER_PATHS
     @ map snd scanner_evidence"

lemma plain_digest: "n \<in> set plain_names \<Longrightarrow> img_digest n = d64"
proof -
  assume n: "n \<in> set plain_names"
  have "list_all (\<lambda>n. rev n \<noteq> rev PINS \<and> rev n \<noteq> rev OS_UPDATE_RULE \<and> rev n \<noteq> rev DNS_RULE) plain_names" by code_simp
  with n show "img_digest n = d64" by (auto simp: img_digest_def TOWER_RULES_def list_all_iff)
qed

lemma plain_required: "set plain_names \<subseteq> set REQUIRED"
  by (auto simp: plain_names_def REQUIRED_def RECEIPTS_def scanner_evidence_def)

lemma img_digests:
  assumes "img_context c"
  shows "n \<in> set plain_names \<Longrightarrow> file_digest c n = Inr (JStr d64)"
    and "file_digest c BINARY = Inr (JStr d64)" "file_digest c RPM_INVENTORY = Inr (JStr d64)" "file_digest c LEGACY_CONFIG = Inr (JStr d64)"
proof -
  show *: "file_digest c n = Inr (JStr d64)" if "n \<in> set plain_names" for n
    using img_file_digest [OF assms] plain_required plain_digest that by auto
  show "file_digest c BINARY = Inr (JStr d64)" "file_digest c RPM_INVENTORY = Inr (JStr d64)" "file_digest c LEGACY_CONFIG = Inr (JStr d64)"
    by (rule *; simp add: plain_names_def)+
qed

lemma img_check_source: "check_source (manifest_of files) (pins_of sources) = Inr img_source"
  by code_simp

lemma img_check_binary:
  assumes "img_context c" "content_json other c CONFIG = Inr img_config" "content_json other c LEGACY_CONFIG = Inr img_legacy"
    "content c BINARY = Inr elf_bytes" "list_all (\<lambda>n. content c n = Inr elf_bytes) SCANNER_PATHS" "content c PROFILE = Inr (''system'' @ [newline])"
  shows "check_binary other (img_root p) (manifest_of files) c = Inr ()"
proof -
  have "im_readlink (img_root p) MASK = Inr ''/dev/null''" by (simp add: img_root_def)
  moreover have "is_dev_null ''/dev/null''" "elf64 elf_bytes" by code_simp+
  moreover have "rbind (get (manifest_of files) ''binary'') (\<lambda>b. rbind (pin c ''bridgeVersion'') (\<lambda>v.
         Inr (pyeq b (JObj [(''path'', JStr BINARY), (''sha256'', JStr d64), (''version'', v)])))) = Inr True"
    using assms(1) by (simp add: pin_def img_context_def manifest_of_def img_pins_def pins_of_def no_float_has_nan pyeq_refl)
  moreover have "get_is (manifest_of files) ''symlinks'' (JObj [(MASK, JStr ''/dev/null'')]) = Inr True"
    by (simp add: get_is_True manifest_of_def pyeq_refl)
  moreover have "rbind (get_or img_config ''Server'' (JObj [])) (\<lambda>s. rbind (str_in ''Loggers'' s) (\<lambda>b. Inr (\<not> b))) = Inr True"
    "rbind (get_or img_legacy ''Server'' (JObj [])) (\<lambda>s. rbind (str_in ''Loggers'' s) (\<lambda>b. Inr (\<not> b))) = Inr True" by code_simp+
  ultimately show ?thesis using assms
    by (simp add: check_binary_def img_digests(2) [OF assms(1)] list_all_iff SCANNER_PATHS_def)
qed

lemma img_check_overlay:
  assumes "img_context c"
  shows "check_overlay c = Inr ()"
proof -
  have "\<forall>(n, s)\<in>set SOURCE_FILES. n \<in> set plain_names \<and> s \<in> set source_names"
    by (force simp: plain_names_def source_names_def)
  then have "\<forall>(n, s)\<in>set SOURCE_FILES. same (file_digest c n) (source_pin c s) = Inr True"
    using img_digests(1) [OF assms] img_source_pin [OF assms] by (auto simp: same_True)
  moreover have "list_all (\<lambda>(n, d). img_digest n = d) TOWER_RULES" by code_simp
  then have "\<forall>(n, d)\<in>set TOWER_RULES. same (file_digest c n) (Inr (JStr d)) = Inr True"
    using img_file_digest [OF assms] by (auto simp: TOWER_RULES_def same_True REQUIRED_def)
  moreover have "pin c ''legacyConfigSha256'' = Inr (JStr d64)" using assms by (simp add: pin_def img_context_def img_pins_def pins_of_def)
  ultimately show ?thesis
    using img_digests(4) [OF assms] by (auto simp: check_overlay_def rbind_eq_Inr rall_eq_Inr demand_eq_Inr same_True)
qed

lemma img_check_config:
  assumes "content_json other c CONFIG = Inr img_config" "content_json other c LEGACY_CONFIG = Inr img_legacy"
  shows "check_config other c = Inr ()"
  unfolding check_config_def assms rbind_Inr by code_simp

lemma img_check_artifact:
  assumes "img_context c" "content_json other c ARTIFACT_MANIFEST = Inr img_artifact"
  shows "check_artifact other c = Inr ()"
proof -
  have f: "file_digest c n = Inr (JStr d64)" if "n \<in> set (BINARY # map (\<lambda>n. LICENSE_ROOT @ n) LICENSES)" for n
    using that by (intro img_digests(1) [OF assms(1)]) (auto simp: plain_names_def)
  have c: "vf_pins c = pins_of (JObj (sort_key fst (map (\<lambda>n. (n, JStr d64)) source_names)))"
    using assms(1) by (simp add: img_context_def img_pins_def)
  have p: "pin c ''bridgeVersion'' = Inr (JStr ''0.1.1'')" "pin c ''sourceCommit'' = Inr (JStr c40)" "pin c ''submoduleCommit'' = Inr (JStr c40)"
    "pin c ''builderImage'' = Inr (JStr ''fedora'')" "pin c ''rustVersion'' = Inr (JStr ''1.99.1'')" "pin c ''protocVersion'' = Inr (JStr ''33.5'')"
    unfolding pin_def c by (simp_all add: pins_of_def)
  show ?thesis unfolding check_artifact_def assms(2) rbind_Inr p
    using f by (simp add: LICENSES_def LICENSE_ROOT_def BINARY_def) code_simp
qed

lemma img_check_native:
  assumes "img_context c" "content_json other c NATIVE_PROVENANCE = Inr img_native"
  shows "check_native other c = Inr ()"
proof -
  have c: "vf_source c = img_source" using assms(1) by (simp add: img_context_def)
  show ?thesis unfolding check_native_def assms(2) rbind_Inr img_digests(3) [OF assms(1)] c by code_simp
qed

lemma img_check_scanner:
  assumes "img_context c" "content_json other c (SCANNER_ROOT @ ''provenance.json'') = Inr img_scanner"
  shows "check_scanner other c = Inr ()"
proof -
  have c: "vf_pins c = pins_of (JObj (sort_key fst (map (\<lambda>n. (n, JStr d64)) source_names)))" "vf_source c = img_source"
    using assms(1) by (simp_all add: img_context_def img_pins_def)
  have q: "pin c ''builderImage'' = Inr (JStr ''fedora'')" "pin c ''rustVersion'' = Inr (JStr ''1.99.1'')"
    unfolding pin_def c by (simp_all add: pins_of_def)
  have d: "digests_of c ps = Inr (JObj (map (\<lambda>p. (fst p, JStr d64)) ps))"
    if "snd ` set ps \<subseteq> set plain_names" for ps
  proof -
    have "rmap (\<lambda>(name, path). rbind (file_digest c path) (\<lambda>d. Inr (name, d))) ps = Inr (map (\<lambda>p. (fst p, JStr d64)) ps)"
      using that img_digests(1) [OF assms(1)] by (induction ps) auto
    then show ?thesis by (simp add: digests_of_def)
  qed
  have p: "source_pin c ''Cargo.lock'' = Inr (JStr d64)" "source_pin c ''Cargo.toml'' = Inr (JStr d64)"
    by (rule img_source_pin [OF assms(1)]; simp add: source_names_def)+
  have e: "digests_of c scanner_binaries = Inr (JObj (map (\<lambda>p. (fst p, JStr d64)) scanner_binaries))"
    "digests_of c scanner_evidence = Inr (JObj (map (\<lambda>p. (fst p, JStr d64)) scanner_evidence))"
    by (rule d; force simp: scanner_binaries_def plain_names_def)+
  show ?thesis unfolding check_scanner_def assms(2) rbind_Inr e p q img_digests(3) [OF assms(1)] c(2) by code_simp
qed

lemma img_input: "n \<in> set input_names \<Longrightarrow> get img_inputs n = Inr (JStr d64)"
proof -
  have "distinct input_names" by code_simp
  then show "n \<in> set input_names \<Longrightarrow> get img_inputs n = Inr (JStr d64)"
    by (simp only: img_inputs_def get_JObj map_of_sort_key_fst comp_def map_map fst_conv list.map_ident map_of_map_restrict
        restrict_map_def if_True option.simps)
qed

lemma img_check_inputs:
  assumes "img_context c" "content_json other c (SCANNER_ROOT @ ''source-inputs.json'') = Inr img_inputs"
  shows "check_inputs other c = Inr ()"
proof -
  let ?S = "sort_key fst (map (\<lambda>n. (n, JStr d64)) source_names)"
  have s: "pin c ''sourceFiles'' = Inr (JObj ?S)" using assms(1) by (simp add: pin_def img_context_def img_pins_def pins_of_def)
  have "filter in_crates source_names = SCANNER_SOURCE_ALLOWLIST" by code_simp
  then have f: "set (filter in_crates source_names) = set SCANNER_SOURCE_ALLOWLIST" by (rule arg_cong)
  have k: "set (filter in_crates (map fst ?S)) = set SCANNER_SOURCE_ALLOWLIST" using f by (auto simp: image_iff)
  let ?N = "[''Cargo.toml'', ''Cargo.lock''] @ sort (remdups (filter in_crates (map fst ?S)))"
  have n: "set ?N = set input_names" using k by (simp add: input_names_def)
  moreover have "set input_names \<subseteq> set source_names" by (auto simp: source_names_def input_names_def)
  ultimately have "\<forall>m\<in>set ?N. source_pin c m = Inr (JStr d64)" using img_source_pin [OF assms(1)] by blast
  note p = this
  have r: "rmap (\<lambda>name. rbind (source_pin c name) (\<lambda>d. Inr (name, d))) ?N = Inr (map (\<lambda>m. (m, JStr d64)) ?N)"
    by (rule rmap_all) (simp only: bspec [OF p] rbind_Inr)
  have i: "get_is img_inputs m (JStr d64) = Inr True" if "m \<in> set ?N" for m
  proof -
    have "get img_inputs m = Inr (JStr d64)" by (rule img_input) (use that in \<open>simp only: n\<close>)
    then show ?thesis by (simp add: get_is_True)
  qed
  have u: "list_all (\<lambda>m. \<not> unexpected_input m) input_names" by code_simp
  show ?thesis
    unfolding check_inputs_def assms(2) rbind_Inr s dict_items_def json.simps k r require_True simp_thms
    using i u by (auto simp: rbind_eq_Inr rall_eq_Inr demand_eq_Inr require_eq_Inr img_inputs_def list_all_iff)
qed

lemma img_check_closure:
  assumes "content_json other c (SCANNER_ROOT @ ''dependency-closure.json'') = Inr img_closure"
  shows "check_closure other c = Inr ()"
  unfolding check_closure_def assms rbind_Inr by code_simp

lemma img_gui:
  assumes "img_context c"
  shows "\<exists>gui. expected_gui c = Inr gui \<and> get_is (manifest_of files) ''flatpak'' gui = Inr True"
proof -
  have p: "source_pin c ''packaging/flatpak/org.snitchwatch.Snitchwatch.system.yml'' = Inr (JStr d64)"
    by (rule img_source_pin [OF assms]) (simp add: source_names_def)
  have q: "pin c ''flatpakRuntimeRef'' = Inr (JStr ''org.kde.Platform/x86_64/6.11'')" "pin c ''sourceCommit'' = Inr (JStr c40)"
    "pin c ''flatpakFinishArgs'' = Inr (JList [])"
    using assms by (simp_all add: pin_def img_context_def img_pins_def pins_of_def)
  have "rbind (expected_gui c) (get_is (manifest_of files) ''flatpak'') = Inr True"
    unfolding expected_gui_def p q by code_simp
  then show ?thesis by (simp add: rbind_eq_Inr)
qed

section \<open>The accepted run\<close>

definition img_values :: "(string \<times> json) list" where
  "img_values = (MANIFEST, img_manifest) # img_texts"

definition img_raw :: "(string \<times> string) list" where
  "img_raw = [(BINARY, elf_bytes), (SCANNER_PATHS ! 0, elf_bytes), (SCANNER_PATHS ! 1, elf_bytes), (PROFILE, ''system'' @ [newline]),
     (OS_UPDATE_RULE, ''os''), (DNS_RULE, ''dns'')]"

definition img_text :: "string \<Rightarrow> string" where
  "img_text n = (case map_of img_values n of Some v \<Rightarrow> dumps_sorted (\<lambda>_. []) compact v
     | None \<Rightarrow> (case map_of img_raw n of Some b \<Rightarrow> b | None \<Rightarrow> ''x''))"

lemma json_bytes_text:
  assumes "text_shape v"
  shows "json_bytes other (dumps_sorted (\<lambda>_. []) compact v) = Inr v" "loads (dumps_sorted (\<lambda>_. []) compact v) = Some v"
proof -
  have "raw_loads (dumps_sorted (\<lambda>_. []) compact v) = Some v"
    using assms raw_loads_dump [of compact "sortk v"] by (simp add: text_shape_def dumps_sorted_def)
  then show *: "loads (dumps_sorted (\<lambda>_. []) compact v) = Some v"
    using assms by (simp add: loads_def text_shape_def wf_json_dedup)
  have "ascii (dumps_sorted (\<lambda>_. []) compact v)"
    by (simp add: dumps_sorted_def ascii_dump)
  with * show "json_bytes other (dumps_sorted (\<lambda>_. []) compact v) = Inr v"
    by (simp add: json_bytes_def utf8_decode_ascii)
qed

lemma img_shapes: "(n, v) \<in> set img_values \<Longrightarrow> text_shape v"
  using shape_pins shape_manifest shape_others shape_inputs by (auto simp: img_values_def img_texts_def)

lemma distinct_values: "distinct (map fst img_values @ map fst img_raw)"
proof -
  have "map fst img_values = [MANIFEST, PINS, CONFIG, LEGACY_CONFIG, ARTIFACT_MANIFEST, NATIVE_PROVENANCE, SCANNER_ROOT @ ''provenance.json'',
      SCANNER_ROOT @ ''source-inputs.json'', SCANNER_ROOT @ ''dependency-closure.json'']" by (simp add: img_values_def img_texts_def)
  moreover have "distinct ([MANIFEST, PINS, CONFIG, LEGACY_CONFIG, ARTIFACT_MANIFEST, NATIVE_PROVENANCE, SCANNER_ROOT @ ''provenance.json'',
      SCANNER_ROOT @ ''source-inputs.json'', SCANNER_ROOT @ ''dependency-closure.json''] @ map fst img_raw)" by code_simp
  ultimately show ?thesis by simp
qed

lemma img_value:
  assumes "(n, v) \<in> set img_values"
  shows "json_bytes other (img_text n) = Inr v" "loads (img_text n) = Some v"
proof -
  have "map_of img_values n = Some v" using assms distinct_values by simp
  then show "json_bytes other (img_text n) = Inr v" "loads (img_text n) = Some v"
    using json_bytes_text [OF img_shapes [OF assms]] by (simp_all add: img_text_def)
qed

lemma img_raw_text:
  assumes "(n, b) \<in> set img_raw"
  shows "img_text n = b"
proof -
  have "map_of img_raw n = Some b" "n \<notin> fst ` set img_values" using assms distinct_values by (auto simp: rev_image_eqI)
  then show ?thesis by (simp add: img_text_def map_of_eq_None_keys [THEN iffD2])
qed

definition img_host :: host where
  "img_host = \<lparr>sha256 = (\<lambda>b. if b = img_text PINS then EXPECTED_PINS_SHA256 else if b = ''os'' then OS_UPDATE_RULE_SHA256
     else if b = ''dns'' then DNS_RULE_SHA256 else d64), float_repr = (\<lambda>_. []), untar = (\<lambda>_. Inr [])\<rparr>"

text \<open>The text of the pins is the text of no other file.\<close>

lemma loads_raw: "loads ''x'' = None" "loads ''os'' = None" "loads ''dns'' = None" "loads elf_bytes = None" "loads (''system'' @ [newline]) = None"
  by code_simp+

lemma pins_in: "(PINS, img_pins) \<in> set img_values"
  by (simp add: img_values_def img_texts_def)

definition versioned :: "json \<Rightarrow> bool" where
  "versioned v \<longleftrightarrow> (case index v ''bridgeVersion'' of Inr _ \<Rightarrow> True | Inl _ \<Rightarrow> False)"

lemma versioned_pins: "versioned img_pins"
  by (simp add: versioned_def img_pins_def pins_of_def)

lemma pins_unlike: "(n, v) \<in> set img_values \<Longrightarrow> n \<noteq> PINS \<Longrightarrow> \<not> versioned v"
proof -
  have "\<not> versioned (manifest_of files)" for files by code_simp
  moreover have "list_all (\<lambda>v. \<not> versioned v) [img_config, img_legacy, img_artifact, img_native, img_scanner, img_inputs, img_closure]"
    by code_simp
  ultimately show "(n, v) \<in> set img_values \<Longrightarrow> n \<noteq> PINS \<Longrightarrow> \<not> versioned v"
    by (auto simp: img_values_def img_texts_def img_manifest_def)
qed

lemma text_cases: "(\<exists>v. (n, v) \<in> set img_values) \<or> (\<exists>b. (n, b) \<in> set img_raw) \<or> img_text n = ''x''"
  by (auto simp: img_text_def split: option.split dest: map_of_SomeD)

lemma img_text_pins: "img_text n = img_text PINS \<longleftrightarrow> n = PINS"
proof
  assume t: "img_text n = img_text PINS"
  then have l: "loads (img_text n) = Some img_pins" using img_value(2) [OF pins_in] by simp
  show "n = PINS"
  proof (rule ccontr)
    assume n: "n \<noteq> PINS"
    from text_cases [of n] show False
    proof (elim disjE exE)
      fix v assume v: "(n, v) \<in> set img_values"
      then have "v = img_pins" using l img_value(2) [OF v] by simp
      then show False using pins_unlike [OF v n] versioned_pins by simp
    next
      fix b assume b: "(n, b) \<in> set img_raw"
      then have "b \<in> {elf_bytes, ''system'' @ [newline], ''os'', ''dns''}" by (auto simp: img_raw_def)
      then show False using l img_raw_text [OF b] loads_raw by (elim insertE emptyE; simp only: option.distinct)
    next
      assume "img_text n = ''x''"
      then show False using l loads_raw by simp
    qed
  qed
qed simp

lemma img_sha: "n \<in> set REQUIRED \<Longrightarrow> sha256 img_host (img_text n) = img_digest n"
proof -
  have r: "img_text OS_UPDATE_RULE = ''os''" "img_text DNS_RULE = ''dns''" by (rule img_raw_text; simp add: img_raw_def)+
  have o: "img_text n \<noteq> ''os''" if "n \<noteq> OS_UPDATE_RULE" for n
    using text_cases [of n]
  proof (elim disjE exE)
    fix v assume v: "(n, v) \<in> set img_values"
    show ?thesis using img_value(2) [OF v] loads_raw(2) by (metis option.distinct(1))
  next
    fix b assume "(n, b) \<in> set img_raw"
    then show ?thesis using img_raw_text that by (auto simp: img_raw_def elf_bytes_def)
  qed simp
  have d: "img_text n \<noteq> ''dns''" if "n \<noteq> DNS_RULE" for n
    using text_cases [of n]
  proof (elim disjE exE)
    fix v assume v: "(n, v) \<in> set img_values"
    show ?thesis using img_value(2) [OF v] loads_raw(3) by (metis option.distinct(1))
  next
    fix b assume "(n, b) \<in> set img_raw"
    then show ?thesis using img_raw_text that by (auto simp: img_raw_def elf_bytes_def)
  qed simp
  have "OS_UPDATE_RULE \<noteq> PINS" "DNS_RULE \<noteq> PINS" "OS_UPDATE_RULE \<noteq> DNS_RULE" by code_simp+
  then show ?thesis using o [of n] d [of n] r by (auto simp: img_host_def img_text_pins img_digest_def TOWER_RULES_def)
qed

lemma img_units: "\<forall>n\<in>set unit_names. img_text n = ''x''"
proof -
  have "list_all (\<lambda>n. n \<notin> set (map fst img_raw) \<and> n \<notin> set [MANIFEST, PINS, CONFIG, LEGACY_CONFIG, ARTIFACT_MANIFEST, NATIVE_PROVENANCE,
     SCANNER_ROOT @ ''provenance.json'', SCANNER_ROOT @ ''source-inputs.json'', SCANNER_ROOT @ ''dependency-closure.json'']) unit_names"
    by code_simp
  then have "n \<notin> fst ` set img_values \<and> n \<notin> fst ` set img_raw" if "n \<in> set unit_names" for n
    using that by (auto simp: list_all_iff img_values_def img_texts_def)
  then show ?thesis by (auto simp: img_text_def map_of_eq_None_keys [THEN iffD2] split: option.split dest: map_of_SomeD)
qed

definition img_items :: "(string \<times> json) list" where
  "img_items = sort_key fst (map (\<lambda>n. (n, JStr (img_digest n))) REQUIRED)"

lemma digest_hex: "length (img_digest n) = 64 \<and> list_all is_hex (img_digest n)"
proof -
  have "list_all (\<lambda>d. length d = 64 \<and> list_all is_hex d) [EXPECTED_PINS_SHA256, OS_UPDATE_RULE_SHA256, DNS_RULE_SHA256, d64]" by code_simp
  then show ?thesis by (auto simp: img_digest_def TOWER_RULES_def)
qed

lemma img_check_files: "check_files img_host (img_root img_text) img_manifest = Inr (img_files, map (\<lambda>(n, _). (n, img_text n)) img_items)"
proof -
  have "check_file img_host (img_root img_text) (n, e) = Inr (n, img_text n)" if "(n, e) \<in> set img_items" for n e
    using that img_reads [OF img_units] img_sha digest_hex by (auto simp: img_items_def check_file_def)
  then have "rmap (check_file img_host (img_root img_text)) img_items = Inr (map (\<lambda>(n, _). (n, img_text n)) img_items)"
    by (intro rmap_all) auto
  moreover have "set_is img_files REQUIRED = Inr True" by (simp add: img_files_def image_image)
  moreover have "get_or img_manifest ''files'' (JObj []) = Inr img_files" by (simp add: img_manifest_def manifest_of_def)
  ultimately show ?thesis by (simp add: check_files_def dict_items_def img_files_def img_items_def)
qed

definition img_context_of :: verified where
  "img_context_of = \<lparr>vf_pins = img_pins, vf_source = img_source, vf_files = img_files, vf_contents = map (\<lambda>(n, _). (n, img_text n)) img_items\<rparr>"

lemma img_context: "img_context img_context_of"
  by (simp add: img_context_def img_context_of_def)

lemma img_content: "n \<in> set REQUIRED \<Longrightarrow> content img_context_of n = Inr (img_text n)"
proof -
  have "vf_contents img_context_of = map (\<lambda>n. (n, img_text n)) (map fst img_items)" by (simp add: img_context_of_def comp_def split_beta)
  moreover have "set (map fst img_items) = set REQUIRED" by (simp add: img_items_def image_image)
  moreover note map_of_map_restrict
  ultimately show "n \<in> set REQUIRED \<Longrightarrow> content img_context_of n = Inr (img_text n)"
    by (simp only: content_def map_of_map_restrict restrict_map_def if_True option.simps comp_apply)
qed

lemma img_content_json: "(n, v) \<in> set img_values \<Longrightarrow> n \<in> set REQUIRED \<Longrightarrow> content_json other img_context_of n = Inr v"
  using img_content img_value(1) by (simp add: content_json_def)

lemma img_content_raw: "(n, b) \<in> set img_raw \<Longrightarrow> n \<in> set REQUIRED \<Longrightarrow> content img_context_of n = Inr b"
  using img_content img_raw_text by simp

lemma text_required: "set (map fst img_texts) \<subseteq> set REQUIRED" "set (map fst img_raw) \<subseteq> set REQUIRED"
  by (auto simp: img_texts_def img_raw_def REQUIRED_def RECEIPTS_def SCANNER_EVIDENCE_def SCANNER_PATHS_def)

definition img_report :: json where
  "img_report = JObj [(''profile'', JStr ''system''), (''sourceCommit'', JStr c40), (''binarySha256'', JStr d64), (''verifiedFiles'', JInt 41)]"

lemma img_verify: "verify img_host other (img_root img_text) True = Inr img_report"
proof -
  have j: "content_json other img_context_of n = Inr v" if "(n, v) \<in> set img_texts" for n v
    using that text_required(1) by (intro img_content_json) (force simp: img_values_def)+
  have r: "content img_context_of n = Inr b" if "(n, b) \<in> set img_raw" for n b
    using that text_required(2) by (intro img_content_raw) force+
  have "check_binary other (img_root img_text) img_manifest img_context_of = Inr ()"
    unfolding img_manifest_def by (rule img_check_binary [OF img_context]) (auto intro!: j r simp: img_texts_def img_raw_def SCANNER_PATHS_def)
  moreover have "check_overlay img_context_of = Inr ()" by (rule img_check_overlay [OF img_context])
  moreover have "check_config other img_context_of = Inr ()" by (rule img_check_config; rule j; simp add: img_texts_def)
  moreover have "check_artifact other img_context_of = Inr ()" by (rule img_check_artifact [OF img_context]; rule j; simp add: img_texts_def)
  moreover have "check_native other img_context_of = Inr ()" by (rule img_check_native [OF img_context]; rule j; simp add: img_texts_def)
  moreover have "check_scanner other img_context_of = Inr ()" by (rule img_check_scanner [OF img_context]; rule j; simp add: img_texts_def)
  moreover have "check_inputs other img_context_of = Inr ()" by (rule img_check_inputs [OF img_context]; rule j; simp add: img_texts_def)
  moreover have "check_closure other img_context_of = Inr ()" by (rule img_check_closure; rule j; simp add: img_texts_def)
  moreover have "check_source img_manifest img_pins = Inr img_source" unfolding img_manifest_def img_pins_def by (rule img_check_source)
  moreover obtain gui where "expected_gui img_context_of = Inr gui" "get_is img_manifest ''flatpak'' gui = Inr True"
    using img_gui [OF img_context] unfolding img_manifest_def by blast
  moreover have "json_bytes other (img_text PINS) = Inr img_pins" by (rule img_value(1) [OF pins_in])
  moreover have "json_bytes other (img_text MANIFEST) = Inr img_manifest" by (rule img_value(1)) (simp add: img_values_def)
  moreover have "read_file (img_root img_text) PINS 420 = Inr (img_text PINS)"
    using img_reads [OF img_units, of PINS] by (simp add: REQUIRED_def RECEIPTS_def) (simp add: mode_of_def PINS_def BINARY_def SELF_def SCANNER_PATHS_def)
  moreover have "sha256 img_host (img_text PINS) = EXPECTED_PINS_SHA256" by (simp add: img_host_def)
  moreover have "length REQUIRED = 41" by code_simp
  then have "py_len img_files = Inr 41" by (simp add: img_files_def py_len_def)
  moreover have "index img_source ''commit'' = Inr (JStr c40)" by (simp add: img_source_def)
  moreover note img_scans [of img_text] img_read_manifest [of img_text] img_check_files [unfolded img_context_of_def [symmetric]] img_digests(2) [OF img_context]
  ultimately show ?thesis
    unfolding verify_def by (simp add: img_context_of_def [symmetric] img_report_def)
qed

end
