(* ===== verification/VerifyProperties.thy ===== *)
theory VerifyProperties
  imports VerifyExample
begin

text \<open>
  The properties of the system verifier: an accepted image is the reviewed one, two accepted images agree,
  and the shipped configuration keeps the allow policy. Each is applied to the example image.
\<close>

text \<open>
  C22: an accepted image is the reviewed one. Its pins have the reviewed digest; every file of the inventory is
  a regular file with its exact mode, reached without links; the copies of upstream files have the digests of
  the pins and the tower rules those of the verifier; the reported binary is the installed one; and below the
  activation directories the only file that names a scanner executable is the session activation.
\<close>
theorem verify_sound:
  assumes "verify H other im image_tree = Inr rep"
  shows "\<exists>pb pins. json_bytes other pb = Inr pins \<and> holds im PINS pb \<and> sha256 H pb = EXPECTED_PINS_SHA256 \<and>
     (\<forall>name\<in>set REQUIRED. \<exists>d. installs H im name d) \<and>
     (\<forall>(name, original)\<in>set SOURCE_FILES. \<exists>d. index2 pins ''sourceFiles'' original = Inr (JStr d) \<and> installs H im name d) \<and>
     (\<forall>(name, d)\<in>set TOWER_RULES. installs H im name d) \<and>
     (\<exists>d. index pins ''legacyConfigSha256'' = Inr (JStr d) \<and> installs H im LEGACY_CONFIG d) \<and>
     (\<exists>d. index rep ''binarySha256'' = Inr (JStr d) \<and> installs H im BINARY d) \<and>
     (\<forall>dir\<in>set SCANNER_ACTIVATION_DIRS. \<forall>(ps, t)\<in>set (entries_of (im_tree im) dir).
        names_scanner t \<longrightarrow> rel_path dir ps = SCANNER_SESSION_ACTIVATION)"
  by (rule verified_files [OF assms])

theorem verify_sound_witness:
  "installs img_host (img_root img_text) BINARY d64 \<and> installs img_host (img_root img_text) DNS_RULE DNS_RULE_SHA256"
proof -
  obtain d where "index img_report ''binarySha256'' = Inr (JStr d)" "installs img_host (img_root img_text) BINARY d"
    "\<forall>(name, d)\<in>set TOWER_RULES. installs img_host (img_root img_text) name d"
    using verify_sound [OF img_verify [of "\<lambda>_. Inl TypeError"]] by blast
  then show ?thesis by (simp add: img_report_def TOWER_RULES_def)
qed

text \<open>The scans of a live host are among those of an image tree.\<close>

lemma verify_live:
  assumes v: "verify H other im image_tree = Inr rep"
  shows "verify H other im False = Inr rep"
proof -
  obtain e: "refuse_enabled_endpoint_events (im_tree im) image_tree = Inr ()"
    and l: "refuse_logger_snippet (im_tree im) image_tree = Inr ()"
    using verify_Inr [OF v] by metis
  have "verify H other im False = verify H other im image_tree"
    unfolding verify_def by (simp only: e l refuse_image_tree(1) [OF e] refuse_image_tree(2) [OF l])
  then show ?thesis using v by simp
qed

text \<open>At most one text has the digest.\<close>

definition one_preimage :: "host \<Rightarrow> string \<Rightarrow> bool" where
  "one_preimage H d \<longleftrightarrow> (\<forall>a b. sha256 H a = d \<and> sha256 H b = d \<longrightarrow> a = b)"

text \<open>
  Two accepted images agree. When no second text has the reviewed digest of the pins, any two accepted
  images have the same digest for every copy of an upstream file, every tower rule, the pins and the legacy
  configuration.
\<close>
theorem images_agree:
  assumes "verify H other im image_tree = Inr rep" "verify H other im' image_tree' = Inr rep'"
    and "one_preimage H EXPECTED_PINS_SHA256" "name \<in> set (map fst SOURCE_FILES @ map fst TOWER_RULES @ [PINS, LEGACY_CONFIG])"
  shows "\<exists>d. installs H im name d \<and> installs H im' name d"
proof -
  obtain pb pins where a: "json_bytes other pb = Inr pins" "holds im PINS pb" "sha256 H pb = EXPECTED_PINS_SHA256"
    "\<forall>name\<in>set REQUIRED. \<exists>d. installs H im name d"
    "\<forall>(name, original)\<in>set SOURCE_FILES. \<exists>d. index2 pins ''sourceFiles'' original = Inr (JStr d) \<and> installs H im name d"
    "\<forall>(name, d)\<in>set TOWER_RULES. installs H im name d"
    "\<exists>d. index pins ''legacyConfigSha256'' = Inr (JStr d) \<and> installs H im LEGACY_CONFIG d"
    using verified_files [OF assms(1)] by blast
  obtain pb' pins' where b: "json_bytes other pb' = Inr pins'" "holds im' PINS pb'" "sha256 H pb' = EXPECTED_PINS_SHA256"
    "\<forall>name\<in>set REQUIRED. \<exists>d. installs H im' name d"
    "\<forall>(name, original)\<in>set SOURCE_FILES. \<exists>d. index2 pins' ''sourceFiles'' original = Inr (JStr d) \<and> installs H im' name d"
    "\<forall>(name, d)\<in>set TOWER_RULES. installs H im' name d"
    "\<exists>d. index pins' ''legacyConfigSha256'' = Inr (JStr d) \<and> installs H im' LEGACY_CONFIG d"
    using verified_files [OF assms(2)] by blast
  have "pb' = pb" using assms(3) a(3) b(3) unfolding one_preimage_def by blast
  then have p: "pins' = pins" using a(1) b(1) by simp
  have q: "PINS \<in> set REQUIRED" by (simp add: REQUIRED_def RECEIPTS_def)
  obtain d where d: "installs H im PINS d" using bspec [OF a(4) q] by blast
  obtain d' where d': "installs H im' PINS d'" using bspec [OF b(4) q] by blast
  have k: "installs H im PINS EXPECTED_PINS_SHA256" "installs H im' PINS EXPECTED_PINS_SHA256"
    using d holds_installs [OF a(2) d] a(3) d' holds_installs [OF b(2) d'] b(3) by simp_all
  consider (source) original where "(name, original) \<in> set SOURCE_FILES" | (rule) d where "(name, d) \<in> set TOWER_RULES"
    | "name = PINS" | "name = LEGACY_CONFIG"
    using assms(4) by auto
  then show ?thesis
  proof cases
    case source
    then show ?thesis using bspec [OF a(5) source] bspec [OF b(5) source] unfolding p by auto
  next
    case rule
    then show ?thesis using bspec [OF a(6) rule] bspec [OF b(6) rule] by auto
  next
    case 3
    then show ?thesis using k by blast
  next
    case 4
    then show ?thesis using a(7) b(7) unfolding p by auto
  qed
qed

lemma img_one_preimage: "one_preimage img_host EXPECTED_PINS_SHA256"
proof -
  have "EXPECTED_PINS_SHA256 \<notin> set [OS_UPDATE_RULE_SHA256, DNS_RULE_SHA256, d64]" by code_simp
  then show ?thesis by (auto simp: one_preimage_def img_host_def split: if_splits)
qed

theorem images_agree_witness:
  "\<exists>d. installs img_host (img_root img_text) FETCH_RULE d \<and> installs img_host (img_root img_text) FETCH_RULE d"
proof -
  note v = img_verify [of "\<lambda>_. Inl TypeError"]
  show ?thesis by (rule images_agree [OF v verify_live [OF v] img_one_preimage]) (simp add: SOURCE_FILES_def)
qed

text \<open>
  An accepted image ships the allow policy. Its daemon configuration is the legacy one but for the
  default action, which is \<open>allow\<close>, and the address of the server, which is the socket of the bridge; it
  monitors processes by \<open>proc\<close> and has no logger.
\<close>
theorem shipped_config:
  assumes "decodes_dicts other" "verify H other im image_tree = Inr rep"
  shows "\<exists>cb lb config legacy server legacy_server. holds im CONFIG cb \<and> holds im LEGACY_CONFIG lb \<and>
     json_bytes other cb = Inr config \<and> json_bytes other lb = Inr legacy \<and>
     index config ''DefaultAction'' = Inr (JStr ''allow'') \<and> index config ''ProcMonitorMethod'' = Inr (JStr ''proc'') \<and>
     index config ''Server'' = Inr server \<and> index legacy ''Server'' = Inr legacy_server \<and>
     index server ''Address'' = Inr (JStr ''unix:opensnitchd.sock'') \<and> \<not> succeeds (index server ''Loggers'') \<and>
     (\<forall>k. k \<notin> {''Server'', ''DefaultAction''} \<longrightarrow> equal_at config legacy k) \<and>
     (\<forall>k. k \<noteq> ''Address'' \<longrightarrow> equal_at server legacy_server k)"
proof -
  obtain manifest c where "read_from H im c" "check_binary other im manifest c = Inr ()" "check_config other c = Inr ()"
    using verify_Inr [OF assms(2)] by metis
  then show ?thesis using config_contract [OF assms(1)] by blast
qed

theorem shipped_config_witness:
  "\<exists>cb config. holds (img_root img_text) CONFIG cb \<and> json_bytes (\<lambda>_. Inl TypeError) cb = Inr config \<and>
     index config ''DefaultAction'' = Inr (JStr ''allow'')"
proof -
  have "decodes_dicts (\<lambda>_. Inl TypeError)" by (simp add: decodes_dicts_def)
  from shipped_config [OF this img_verify] show ?thesis
    by (elim exE conjE) (intro exI conjI)
qed

end
