(* ===== verification/DaemonVerify.thy ===== *)
theory DaemonVerify
  imports Verify
begin

text \<open>
  \<^verbatim>\<open>build_files/firewall/snitchwatch-system-daemon-verify.py\<close>: the read-only verification of the
  reviewed OpenSnitch daemon. It is the sibling of \<open>verify\<close> for the native daemon candidate: pins with a
  known digest, an inventory with exact modes and hashes, and the provenance of the two builds. On an
  installed image the daemon that runs must be the candidate; \<open>stage_only\<close> leaves that out for the overlay
  of the build. The context record of \<open>Verify\<close> is shared. A build-info text with code points above 255
  counts as undecodable.
\<close>

section \<open>Paths\<close>

definition daemon_MANIFEST :: string where
  "daemon_MANIFEST = ''/usr/share/snitchwatch/system-daemon-manifest.json''"

definition daemon_ROOT :: string where
  "daemon_ROOT = ''/usr/share/snitchwatch/daemon/''"

definition daemon_PINS :: string where
  "daemon_PINS = daemon_ROOT @ ''build-pins.json''"

definition daemon_PATCH :: string where
  "daemon_PATCH = daemon_ROOT @ ''opensnitch-shutdown-repair.patch''"

definition daemon_CANDIDATE :: string where
  "daemon_CANDIDATE = daemon_ROOT @ ''opensnitchd''"

definition daemon_BINARY :: string where
  "daemon_BINARY = ''/usr/bin/opensnitchd''"

definition daemon_VERIFIER :: string where
  "daemon_VERIFIER = ''/usr/libexec/snitchwatch/verify-system-daemon.py''"

definition daemon_PINS_SHA256 :: string where
  "daemon_PINS_SHA256 = ''6a3804e550902a183b3e13ba5bd7d4c5de3ef98dae806fc07ed9afaa944b367b''"

definition daemon_LICENSE :: string where
  "daemon_LICENSE = ''/usr/share/licenses/snitchwatch-opensnitchd/LICENSE''"

definition daemon_LICENSES :: string where
  "daemon_LICENSES = ''/usr/share/licenses/snitchwatch-opensnitchd/THIRD-PARTY-LICENSES.md''"

definition daemon_REQUIRED :: "string list" where
  "daemon_REQUIRED = [daemon_PINS, daemon_PATCH, daemon_CANDIDATE, daemon_VERIFIER] @
     map (\<lambda>n. daemon_ROOT @ n) [''native-build-provenance.json'', ''rpm-inventory.txt'', ''go-build-info.txt'',
       ''generated/ui.pb.go'', ''generated/ui_grpc.pb.go'', ''source/go.mod'', ''source/go.sum'', ''source/ui.proto''] @
     [daemon_LICENSE, daemon_LICENSES]"

section \<open>The inventory\<close>

definition daemon_read_file :: "fsnode \<Rightarrow> string \<Rightarrow> 12 word \<Rightarrow> string result" where
  "daemon_read_file t name mode =
     require (startswith name ''/usr/'' \<and> no_dotdot name) (ValueError ''invalid daemon immutable path'')
     (require (\<not> has_link (components name) t) (ValueError (''symlink in daemon immutable path: '' @ name))
     (rbind (stat_at (components name) t) (\<lambda>f.
     require (m_kind (f_meta f) = KReg \<and> m_mode (f_meta f) = mode) (ValueError (''incorrect daemon file type/mode: '' @ name))
     (Inr (f_data f)))))"

text \<open>Modes 0755 and 0644.\<close>

definition daemon_mode :: "string \<Rightarrow> 12 word" where
  "daemon_mode name = (if name \<in> {daemon_CANDIDATE, daemon_VERIFIER} then 493 else 420)"

definition daemon_check_file :: "host \<Rightarrow> fsnode \<Rightarrow> string \<times> json \<Rightarrow> (string \<times> string) result" where
  "daemon_check_file H t ne = (case ne of (name, expected) \<Rightarrow>
     require (case expected of JStr s \<Rightarrow> length s = 64 \<and> list_all is_hex s | _ \<Rightarrow> False) (ValueError ''invalid daemon immutable digest'')
     (rbind (daemon_read_file t name (daemon_mode name)) (\<lambda>data.
     require (JStr (sha256 H data) = expected) (ValueError (''daemon immutable hash mismatch: '' @ name))
       (Inr (name, data)))))"

definition daemon_source :: "json \<Rightarrow> json \<Rightarrow> json result" where
  "daemon_source manifest pins =
     demand (all_of [get_is manifest ''schemaVersion'' (JInt 1), get_is manifest ''profile'' (JStr ''system'')])
       (ValueError ''unsupported daemon manifest schema/profile'')
     (rbind (index pins ''sourceCommit'') (\<lambda>commit. rbind (index pins ''sourceTree'') (\<lambda>tree.
     let source = JObj [(''commit'', commit), (''tree'', tree)] in
     demand (all_of [get_is manifest ''source'' source,
         rbind (get manifest ''patch'') (\<lambda>p. rbind (index pins ''patchSha256'') (\<lambda>s.
           Inr (pyeq p (JObj [(''path'', JStr daemon_PATCH), (''sha256'', s)]))))])
       (ValueError ''daemon source/patch identity mismatch'') (Inr source))))"

definition daemon_check_files :: "host \<Rightarrow> fsnode \<Rightarrow> json \<Rightarrow> (json \<times> (string \<times> string) list) result" where
  "daemon_check_files H t manifest =
     rbind (get_or manifest ''files'' (JObj [])) (\<lambda>files.
     demand (set_is files daemon_REQUIRED) (ValueError ''incomplete or unexpected daemon immutable inventory'')
     (rbind (dict_items files) (\<lambda>items.
     rbind (rmap (daemon_check_file H t) items) (\<lambda>contents. Inr (files, contents)))))"

section \<open>Binary, pins and provenance\<close>

definition daemon_check_binary :: "host \<Rightarrow> image_root \<Rightarrow> bool \<Rightarrow> json \<Rightarrow> verified \<Rightarrow> unit result" where
  "daemon_check_binary H im stage_only manifest c =
     demand (rbind (get manifest ''binary'') (\<lambda>b. rbind (file_digest c daemon_CANDIDATE) (\<lambda>d. rbind (pin c ''daemonVersion'') (\<lambda>v.
         Inr (pyeq b (JObj [(''path'', JStr daemon_BINARY), (''candidatePath'', JStr daemon_CANDIDATE), (''sha256'', d), (''version'', v)]))))))
       (ValueError ''daemon binary identity mismatch'')
     (rbind (content c daemon_CANDIDATE) (\<lambda>b.
     require (elf64 b) (ValueError ''native daemon is not little-endian ELF64'')
     (demand (if stage_only then Inr True
         else rbind (daemon_read_file (im_tree im) daemon_BINARY 493) (\<lambda>b. same (Inr (JStr (sha256 H b))) (file_digest c daemon_CANDIDATE)))
       (ValueError ''installed daemon differs from reviewed native candidate'') (Inr ()))))"

text \<open>\<open>d.update({prefix + f(name): value for name, value in v.items()})\<close>\<close>

definition update_with :: "(string \<Rightarrow> string) \<Rightarrow> json result \<Rightarrow> (string \<times> json) list \<Rightarrow> (string \<times> json) list result" where
  "update_with f v d = rbind v (\<lambda>v. rbind (dict_items v) (\<lambda>items. Inr (fold (\<lambda>(n, x). dict_set (f n) x) items d)))"

definition daemon_pinned :: "verified \<Rightarrow> (string \<times> json) list result" where
  "daemon_pinned c =
     rbind (pin c ''patchSha256'') (\<lambda>patch. rbind (pin c ''protoSourceSha256'') (\<lambda>proto. rbind (pin c ''licenseSha256'') (\<lambda>license.
     rbind (update_with (\<lambda>n. daemon_ROOT @ ''source/'' @ base_name n) (pin c ''moduleLocks'')
       [(daemon_PATCH, patch), (daemon_ROOT @ ''source/ui.proto'', proto), (daemon_LICENSE, license)])
     (update_with (\<lambda>n. daemon_ROOT @ ''generated/'' @ n) (pin c ''generatedFiles'')))))"

definition daemon_check_pinned :: "verified \<Rightarrow> unit result" where
  "daemon_check_pinned c = rbind (daemon_pinned c) (rall (\<lambda>(name, expected).
     demand (same (file_digest c name) (Inr expected))
       (ValueError (''daemon source/module/protocol/license differs from pin: '' @ name)) (Inr ())))"

definition expected_provenance :: "verified \<Rightarrow> (string \<times> json) list result" where
  "expected_provenance c = rmap (\<lambda>(k, v). rbind v (\<lambda>v. Inr (k, v)))
     [(''sourceCommit'', index (vf_source c) ''commit''), (''sourceTree'', index (vf_source c) ''tree''),
      (''patchSha256'', pin c ''patchSha256''), (''patchedFiles'', pin c ''patchedFiles''),
      (''builderImage'', pin c ''builderImage''), (''goVersion'', pin c ''goVersion''), (''buildCommand'', pin c ''buildCommand''),
      (''reproducible'', Inr (JBool True)), (''firstBinarySha256'', file_digest c daemon_CANDIDATE),
      (''secondBinarySha256'', file_digest c daemon_CANDIDATE),
      (''rpmInventorySha256'', file_digest c (daemon_ROOT @ ''rpm-inventory.txt'')),
      (''generatedFiles'', pin c ''generatedFiles''), (''tools'', pin c ''tools''), (''actualVersionOutput'', pin c ''daemonVersion'')]"

definition daemon_provenance :: "(string \<Rightarrow> json result) \<Rightarrow> verified \<Rightarrow> json result" where
  "daemon_provenance other c =
     rbind (content_json other c (daemon_ROOT @ ''native-build-provenance.json'')) (\<lambda>provenance.
     rbind (expected_provenance c) (\<lambda>expected.
     demand (revery (\<lambda>(k, v). get_is provenance k v) expected)
       (ValueError ''daemon build/reproduction provenance differs from pins'') (Inr provenance)))"

text \<open>The \<open>build\<close> lines of \<open>go version -m\<close>: \<open>build<TAB>key=value\<close>.\<close>

definition build_flag :: "string \<Rightarrow> (string \<times> string) list \<Rightarrow> (string \<times> string) list result" where
  "build_flag line flags = (if take 1 (words line) \<noteq> [''build''] then Inr flags
     else (case words line of
         _ # f # _ \<Rightarrow> (case partition_on CHR ''='' f of (k, found, v) \<Rightarrow> Inr (if found then dict_set k v flags else flags))
       | _ \<Rightarrow> Inl IndexError))"

definition build_flags :: "string list \<Rightarrow> (string \<times> string) list result" where
  "build_flags lines = rfold build_flag lines []"

definition flag_is :: "(string \<times> string) list \<Rightarrow> string \<Rightarrow> json \<Rightarrow> bool" where
  "flag_is flags k v = pyeq (case map_of flags k of None \<Rightarrow> JNull | Some s \<Rightarrow> JStr s) v"

definition check_build_info :: "verified \<Rightarrow> unit result" where
  "check_build_info c =
     rbind (content c (daemon_ROOT @ ''go-build-info.txt'')) (\<lambda>b.
     (case utf8_decode b of None \<Rightarrow> Inl (ValueError ''invalid UTF-8'') | Some info \<Rightarrow>
     let lines = splitlines info in
     demand (rbind (rbind (pin c ''goVersion'') (\<lambda>v. case v of JStr s \<Rightarrow> Inr (words s) | _ \<Rightarrow> Inl AttributeError)) (\<lambda>ws.
         if length ws \<le> 2 \<or> lines = [] then Inl IndexError else Inr (contains (ws ! 2) (lines ! 0))))
       (ValueError ''daemon Go build-info toolchain mismatch'')
     (rbind (build_flags lines) (\<lambda>flags. rbind (index (vf_source c) ''commit'') (\<lambda>commit.
     require (flag_is flags ''-trimpath'' (JStr ''true'') \<and> flag_is flags ''vcs.revision'' commit \<and> flag_is flags ''vcs.modified'' (JStr ''true''))
       (ValueError ''daemon build-info lacks pinned upstream+reviewed patch provenance'') (Inr ()))))))"

definition licensed :: "string \<Rightarrow> json \<Rightarrow> bool result" where
  "licensed report m = rbind (get m ''licenses'') (\<lambda>l. if \<not> truthy l then Inr False
     else rbind (rbind (index m ''sum'') json_str) (\<lambda>s. Inr (contains (utf8_encode (''Module checksum: `'' @ s @ ''`'')) report)))"

definition license_header :: string where
  "license_header = ''# Linked Go module licenses'' @ [newline]"

definition check_modules :: "json \<Rightarrow> verified \<Rightarrow> unit result" where
  "check_modules provenance c =
     rbind (get_or provenance ''linkedModules'' (JList [])) (\<lambda>modules.
     rbind (content c daemon_LICENSES) (\<lambda>report.
     require (truthy modules \<and> startswith report license_header) (ValueError ''daemon linked module licenses missing'')
     (rbind (py_iter modules) (rall (\<lambda>m.
       demand (licensed report m) (ValueError ''daemon linked module license provenance mismatch'') (Inr ()))))))"

section \<open>The verification\<close>

definition daemon_verify :: "host \<Rightarrow> (string \<Rightarrow> json result) \<Rightarrow> image_root \<Rightarrow> bool \<Rightarrow> json result" where
  "daemon_verify H other im stage_only =
     require (\<not> (stage_only \<and> im_live im)) (ValueError ''stage-only is forbidden for the production root'')
     (rbind (rbind (daemon_read_file (im_tree im) daemon_MANIFEST 420) (json_bytes other)) (\<lambda>manifest.
     rbind (daemon_read_file (im_tree im) daemon_PINS 420) (\<lambda>pins_bytes.
     require (sha256 H pins_bytes = daemon_PINS_SHA256) (ValueError ''daemon pins differ from reviewed image inputs'')
     (rbind (json_bytes other pins_bytes) (\<lambda>pins.
     rbind (daemon_source manifest pins) (\<lambda>source.
     rbind (daemon_check_files H (im_tree im) manifest) (\<lambda>(files, contents).
     let c = \<lparr>vf_pins = pins, vf_source = source, vf_files = files, vf_contents = contents\<rparr> in
     rbind (daemon_check_binary H im stage_only manifest c) (\<lambda>_.
     rbind (daemon_check_pinned c) (\<lambda>_.
     rbind (daemon_provenance other c) (\<lambda>provenance.
     rbind (check_build_info c) (\<lambda>_.
     rbind (check_modules provenance c) (\<lambda>_.
     rbind (index source ''commit'') (\<lambda>commit. rbind (pin c ''patchSha256'') (\<lambda>patch.
     rbind (file_digest c daemon_CANDIDATE) (\<lambda>d. rbind (py_len files) (\<lambda>n.
     Inr (JObj [(''profile'', JStr ''system''), (''sourceCommit'', commit), (''patchSha256'', patch), (''binaryPath'', JStr daemon_BINARY),
       (''binarySha256'', d), (''verifiedFiles'', JInt (int n)), (''installedBinaryChecked'', JBool (\<not> stage_only))])))))))))))))))))"

end
