(* ===== verification/DaemonProofs.thy ===== *)
theory DaemonProofs
  imports DaemonVerify
begin

text \<open>
  Proofs about \<^verbatim>\<open>build_files/firewall/snitchwatch-system-daemon-verify.py\<close>: its inventory is an instance
  of \<open>hashed_inventory\<close>, and an accepted image has the reviewed daemon, installed and running.
\<close>

definition daemon_holds :: "fsnode \<Rightarrow> string \<Rightarrow> string \<Rightarrow> bool" where
  "daemon_holds t name b \<longleftrightarrow> (\<exists>f. plain_file t name (daemon_mode name) f \<and> f_data f = b)"

lemma daemon_read_file_Inr: "daemon_read_file t name mode = Inr b \<Longrightarrow> \<exists>f. plain_file t name mode f \<and> f_data f = b"
  by (auto simp: daemon_read_file_def plain_file_def res_simps)

interpretation daemon: hashed_inventory "daemon_check_file H t" "daemon_holds t" "sha256 H" for H t
proof
  show "daemon_check_file H t (n, e) = Inr (n', b) \<Longrightarrow> n' = n \<and> daemon_holds t n b \<and> e = JStr (sha256 H b)" for n e n' b
    by (auto simp: daemon_check_file_def res_simps daemon_holds_def dest!: daemon_read_file_Inr)
  show "daemon_holds t n b \<Longrightarrow> daemon_holds t n b' \<Longrightarrow> b = b'" for n b b'
    unfolding daemon_holds_def using plain_file_unique by blast
qed

text \<open>A context that was read from an image.\<close>

definition daemon_read_from :: "host \<Rightarrow> fsnode \<Rightarrow> verified \<Rightarrow> bool" where
  "daemon_read_from H t c \<longleftrightarrow> (\<exists>items. vf_files c = JObj items \<and> set (map fst items) = set daemon_REQUIRED \<and>
     rmap (daemon_check_file H t) items = Inr (vf_contents c))"

lemma daemon_check_files_Inr:
  "daemon_check_files H t manifest = Inr (files, contents) \<Longrightarrow>
     daemon_read_from H t \<lparr>vf_pins = p, vf_source = s, vf_files = files, vf_contents = contents\<rparr>"
  by (auto simp: daemon_check_files_def daemon_read_from_def rbind_eq_Inr demand_eq_Inr dict_items_Inr)

lemma daemon_digest: "daemon_read_from H t c \<Longrightarrow> file_digest c n = Inr d \<Longrightarrow> \<exists>b. daemon_holds t n b \<and> d = JStr (sha256 H b)"
  by (auto simp: daemon_read_from_def file_digest_def split: option.splits dest: daemon.digest_at)

lemma daemon_content: "daemon_read_from H t c \<Longrightarrow> content c n = Inr b \<Longrightarrow> daemon_holds t n b"
  by (auto simp: daemon_read_from_def content_def split: option.splits dest: daemon.content_at)

lemma daemon_content_digest:
  "daemon_read_from H t c \<Longrightarrow> content c n = Inr b \<Longrightarrow> file_digest c n = Inr d \<Longrightarrow> d = JStr (sha256 H b)"
  by (auto simp: daemon_read_from_def content_def file_digest_def split: option.splits dest: daemon.digest_of_content)

lemma daemon_complete: "daemon_read_from H t c \<Longrightarrow> n \<in> set daemon_REQUIRED \<Longrightarrow> \<exists>b. daemon_holds t n b"
  by (force simp: daemon_read_from_def dest: daemon.complete)

section \<open>The stages of an accepted verification\<close>

lemma daemon_verify_Inr:
  assumes "daemon_verify H other im stage_only = Inr rep"
  obtains manifest pins pb c provenance commit patch d n where
    "stage_only \<longrightarrow> \<not> im_live im" "json_bytes other pb = Inr pins" "daemon_holds (im_tree im) daemon_PINS pb"
    "sha256 H pb = daemon_PINS_SHA256" "daemon_source manifest pins = Inr (vf_source c)" "vf_pins c = pins"
    "daemon_read_from H (im_tree im) c" "daemon_check_binary H im stage_only manifest c = Inr ()"
    "daemon_check_pinned c = Inr ()" "daemon_provenance other c = Inr provenance" "check_build_info c = Inr ()"
    "check_modules provenance c = Inr ()" "index (vf_source c) ''commit'' = Inr commit" "pin c ''patchSha256'' = Inr patch"
    "file_digest c daemon_CANDIDATE = Inr d"
    "rep = JObj [(''profile'', JStr ''system''), (''sourceCommit'', commit), (''patchSha256'', patch), (''binaryPath'', JStr daemon_BINARY),
       (''binarySha256'', d), (''verifiedFiles'', JInt n), (''installedBinaryChecked'', JBool (\<not> stage_only))]"
proof -
  have pm: "daemon_mode daemon_PINS = 420" by code_simp
  have ex_unit: "(\<exists>x::unit. P x) \<longleftrightarrow> P ()" for P by auto
  show ?thesis
    using assms unfolding daemon_verify_def
    apply (simp only: rbind_eq_Inr require_eq_Inr Let_def split_beta ex_unit)
    apply (elim exE conjE)
    subgoal for manifest mb pb pins source fc provenance commit patch d n
      apply (rule that [of pb pins manifest "\<lparr>vf_pins = pins, vf_source = source, vf_files = fst fc, vf_contents = snd fc\<rparr>"
          provenance commit patch d "int n"])
      apply (simp_all only: verified.simps)
      apply (assumption | blast | use pm daemon_read_file_Inr [of "im_tree im" daemon_PINS 420 pb] in \<open>force simp: daemon_holds_def\<close>
        | rule daemon_check_files_Inr, simp)+
      done
    done
qed

section \<open>Consequences of the checks\<close>

lemma map_of_fold_dict_set:
  "map_of (fold (\<lambda>(n, x). dict_set (f n) x) items d) = map_of d ++ map_of (rev (map (map_prod f id) items))"
proof (induction items arbitrary: d)
  case (Cons p items)
  obtain n x where p: "p = (n, x)" by force
  show ?case unfolding p using Cons.IH by (simp add: map_add_def fun_eq_iff split: option.splits)
qed simp

lemma update_with_keeps: "update_with f v d = Inr d' \<Longrightarrow> \<forall>n. f n \<noteq> k \<Longrightarrow> map_of d' k = map_of d k"
  by (auto simp: update_with_def res_simps map_of_fold_dict_set map_add_def split: option.split dest!: map_of_SomeD) metis

lemma update_with_item:
  assumes "update_with f v d = Inr d'" "v = Inr w" "wf_json w" "inj f" "index w n = Inr x"
  shows "map_of d' (f n) = Some x"
proof -
  obtain items where w: "w = JObj items" "map_of items n = Some x" using assms(5) by (auto simp: index_eq_Inr)
  have "distinct (map fst items)" using assms(3) w(1) by simp
  then have "map_of (rev (map (map_prod f id) items)) (f n) = map_of (map (map_prod f id) items) (f n)"
    using assms(4) by (subst map_of_inject_set [THEN iffD2]) (auto simp: distinct_map comp_def inj_on_def inj_def rev_map [symmetric])
  also have "\<dots> = Some x" using w(2) assms(4) by (induction items) (auto simp: inj_eq split: if_splits)
  finally show ?thesis using assms(1,2) w(1) by (auto simp: update_with_def res_simps map_of_fold_dict_set)
qed

lemma pinned_at:
  assumes "daemon_read_from H t c" "daemon_check_pinned c = Inr ()" "daemon_pinned c = Inr checks" "map_of checks n = Some e"
  shows "\<exists>b. daemon_holds t n b \<and> e = JStr (sha256 H b)"
proof -
  have "same (file_digest c n) (Inr e) = Inr True"
    using assms(2-4) by (auto simp: daemon_check_pinned_def res_simps dest!: map_of_SomeD)
  then show ?thesis using daemon_digest [OF assms(1)] by (fastforce simp: same_True)
qed

lemma daemon_pinned_files:
  assumes "daemon_read_from H t c" "daemon_check_pinned c = Inr ()"
  shows "\<exists>b. daemon_holds t daemon_PATCH b \<and> pin c ''patchSha256'' = Inr (JStr (sha256 H b))"
    and "\<exists>b. daemon_holds t daemon_LICENSE b \<and> pin c ''licenseSha256'' = Inr (JStr (sha256 H b))"
    and "wf_json (vf_pins c) \<Longrightarrow> index2 (vf_pins c) ''generatedFiles'' n = Inr x \<Longrightarrow>
      \<exists>b. daemon_holds t (daemon_ROOT @ ''generated/'' @ n) b \<and> x = JStr (sha256 H b)"
proof -
  obtain checks where k: "daemon_pinned c = Inr checks" using assms(2) by (auto simp: daemon_check_pinned_def res_simps)
  then obtain patch proto license m where d: "pin c ''patchSha256'' = Inr patch" "pin c ''licenseSha256'' = Inr license"
      "update_with (\<lambda>n. daemon_ROOT @ ''source/'' @ base_name n) (pin c ''moduleLocks'')
        [(daemon_PATCH, patch), (daemon_ROOT @ ''source/ui.proto'', proto), (daemon_LICENSE, license)] = Inr m"
      "update_with (\<lambda>n. daemon_ROOT @ ''generated/'' @ n) (pin c ''generatedFiles'') m = Inr checks"
    by (auto simp: daemon_pinned_def res_simps)
  have p: "map_of checks daemon_PATCH = Some patch" "map_of checks daemon_LICENSE = Some license"
    using update_with_keeps [OF d(4)] update_with_keeps [OF d(3)]
    by (simp_all add: daemon_PATCH_def daemon_ROOT_def daemon_LICENSE_def)
  then show "\<exists>b. daemon_holds t daemon_PATCH b \<and> pin c ''patchSha256'' = Inr (JStr (sha256 H b))"
    and "\<exists>b. daemon_holds t daemon_LICENSE b \<and> pin c ''licenseSha256'' = Inr (JStr (sha256 H b))"
    using pinned_at [OF assms k] d(1,2) by auto
  show "\<exists>b. daemon_holds t (daemon_ROOT @ ''generated/'' @ n) b \<and> x = JStr (sha256 H b)"
    if w: "wf_json (vf_pins c)" and x: "index2 (vf_pins c) ''generatedFiles'' n = Inr x"
  proof -
    obtain v where v: "index (vf_pins c) ''generatedFiles'' = Inr v" "index v n = Inr x"
      using x by (auto simp: index2_def rbind_eq_Inr)
    have "map_of checks (daemon_ROOT @ ''generated/'' @ n) = Some x"
      using update_with_item [OF d(4) _ wf_json_index [OF w v(1)] _ v(2)] v(1) by (simp add: pin_def inj_def)
    then show ?thesis by (rule pinned_at [OF assms k])
  qed
qed

lemma daemon_installed:
  assumes "daemon_check_binary H im stage_only manifest c = Inr ()" "daemon_read_from H (im_tree im) c"
    and d: "file_digest c daemon_CANDIDATE = Inr d"
  shows "\<exists>b. daemon_holds (im_tree im) daemon_CANDIDATE b \<and> elf64 b \<and> d = JStr (sha256 H b) \<and>
    (\<not> stage_only \<longrightarrow> (\<exists>f. plain_file (im_tree im) daemon_BINARY 493 f \<and> sha256 H (f_data f) = sha256 H b))"
proof -
  obtain b where b: "content c daemon_CANDIDATE = Inr b" "elf64 b"
    using assms(1) by (auto simp: daemon_check_binary_def res_simps)
  have e: "d = JStr (sha256 H b)" using daemon_content_digest [OF assms(2) b(1) d] .
  have "\<exists>f. plain_file (im_tree im) daemon_BINARY 493 f \<and> sha256 H (f_data f) = sha256 H b" if n: "\<not> stage_only"
  proof -
    obtain x where "daemon_read_file (im_tree im) daemon_BINARY 493 = Inr x" "sha256 H x = sha256 H b"
      using assms(1) n d e by (auto simp: daemon_check_binary_def res_simps)
    then show ?thesis using daemon_read_file_Inr by blast
  qed
  then show ?thesis using daemon_content [OF assms(2) b(1)] b(2) e by blast
qed

lemma daemon_source_commit: "daemon_source manifest pins = Inr s \<Longrightarrow> index s ''commit'' = index pins ''sourceCommit''"
  by (auto simp: daemon_source_def res_simps Let_def)

lemma provenance_digests:
  assumes "daemon_provenance other c = Inr v" "file_digest c daemon_CANDIDATE = Inr d" "d = JStr s"
  shows "index v ''firstBinarySha256'' = Inr d" "index v ''secondBinarySha256'' = Inr d"
proof -
  obtain expected where e: "expected_provenance c = Inr expected" "\<forall>(k, x)\<in>set expected. get_is v k x = Inr True"
    using assms(1) by (auto simp: daemon_provenance_def rbind_eq_Inr demand_eq_Inr revery_eq_True split_beta)
  have "(''firstBinarySha256'', d) \<in> set expected" "(''secondBinarySha256'', d) \<in> set expected"
    using e(1) assms(2) unfolding expected_provenance_def rmap_eq_Inr list_all2_Cons1 by auto
  then show "index v ''firstBinarySha256'' = Inr d" "index v ''secondBinarySha256'' = Inr d"
    using e(2) get_present assms(3) by (fastforce simp: get_is_True)+
qed

lemma build_info_Inr:
  "check_build_info c = Inr () \<Longrightarrow> index (vf_source c) ''commit'' = Inr commit \<Longrightarrow>
     \<exists>b info flags. content c (daemon_ROOT @ ''go-build-info.txt'') = Inr b \<and> utf8_decode b = Some info \<and>
       build_flags (splitlines info) = Inr flags \<and> flag_is flags ''vcs.revision'' commit"
  by (auto simp: check_build_info_def res_simps Let_def split: option.splits)

lemma modules_Inr:
  assumes "check_modules v c = Inr ()"
  shows "\<exists>report modules ms. content c daemon_LICENSES = Inr report \<and> get_or v ''linkedModules'' (JList []) = Inr modules \<and>
     py_iter modules = Inr ms \<and> ms \<noteq> [] \<and>
     (\<forall>m\<in>set ms. \<exists>s. index m ''sum'' = Inr (JStr s) \<and> contains (utf8_encode (''Module checksum: `'' @ s @ ''`'')) report)"
proof -
  obtain report modules ms where m: "content c daemon_LICENSES = Inr report" "get_or v ''linkedModules'' (JList []) = Inr modules"
      "py_iter modules = Inr ms" "truthy modules" "\<forall>m\<in>set ms. licensed report m = Inr True"
    using assms by (auto simp: check_modules_def res_simps)
  have "ms \<noteq> []" using m(3,4) by (auto simp: py_iter_def split: json.splits)
  moreover have "\<exists>s. index m ''sum'' = Inr (JStr s) \<and> contains (utf8_encode (''Module checksum: `'' @ s @ ''`'')) report"
    if "m \<in> set ms" for m
  proof -
    have "licensed report m = Inr True" using m(5) that by blast
    then show ?thesis by (auto simp: licensed_def res_simps split: if_splits)
  qed
  ultimately show ?thesis using m by blast
qed

end
