(* ===== verification/DaemonExample.thy ===== *)
theory DaemonExample
  imports DaemonProofs VerifyExample
begin

text \<open>
  An image that \<open>daemon_verify\<close> accepts, built as the one of the system verifier: a literal tree whose files
  hold any bytes, and the texts of the decoded files.
\<close>

definition dm_tree :: "(string \<Rightarrow> string) \<Rightarrow> fsnode" where
  "dm_tree p = folder
    [(''usr'', folder
     [(''share'', folder
      [(''snitchwatch'', folder
       [(''system-daemon-manifest.json'', img_file 420 (p ''/usr/share/snitchwatch/system-daemon-manifest.json'')),
        (''daemon'', folder
        [(''build-pins.json'', img_file 420 (p ''/usr/share/snitchwatch/daemon/build-pins.json'')),
         (''opensnitch-shutdown-repair.patch'', img_file 420 (p ''/usr/share/snitchwatch/daemon/opensnitch-shutdown-repair.patch'')),
         (''opensnitchd'', img_file 493 (p ''/usr/share/snitchwatch/daemon/opensnitchd'')),
         (''native-build-provenance.json'', img_file 420 (p ''/usr/share/snitchwatch/daemon/native-build-provenance.json'')),
         (''rpm-inventory.txt'', img_file 420 (p ''/usr/share/snitchwatch/daemon/rpm-inventory.txt'')),
         (''go-build-info.txt'', img_file 420 (p ''/usr/share/snitchwatch/daemon/go-build-info.txt'')),
         (''generated'', folder
         [(''ui.pb.go'', img_file 420 (p ''/usr/share/snitchwatch/daemon/generated/ui.pb.go'')),
          (''ui_grpc.pb.go'', img_file 420 (p ''/usr/share/snitchwatch/daemon/generated/ui_grpc.pb.go''))]),
         (''source'', folder
         [(''go.mod'', img_file 420 (p ''/usr/share/snitchwatch/daemon/source/go.mod'')),
          (''go.sum'', img_file 420 (p ''/usr/share/snitchwatch/daemon/source/go.sum'')),
          (''ui.proto'', img_file 420 (p ''/usr/share/snitchwatch/daemon/source/ui.proto''))])])]),
       (''licenses'', folder
       [(''snitchwatch-opensnitchd'', folder
        [(''LICENSE'', img_file 420 (p ''/usr/share/licenses/snitchwatch-opensnitchd/LICENSE'')),
         (''THIRD-PARTY-LICENSES.md'', img_file 420 (p ''/usr/share/licenses/snitchwatch-opensnitchd/THIRD-PARTY-LICENSES.md''))])])]),
      (''bin'', folder [(''opensnitchd'', img_file 493 (p ''/usr/bin/opensnitchd''))]),
      (''libexec'', folder
      [(''snitchwatch'', folder
       [(''verify-system-daemon.py'', img_file 493 (p ''/usr/libexec/snitchwatch/verify-system-daemon.py''))])])])]"

definition dm_root :: "(string \<Rightarrow> string) \<Rightarrow> image_root" where
  "dm_root p = \<lparr>im_tree = dm_tree p, im_live = True, im_readlink = (\<lambda>_. Inl FileNotFoundError)\<rparr>"

definition dm_list :: "(string \<times> 12 word) list" where
  "dm_list = (daemon_MANIFEST, 420) # (daemon_BINARY, 493) # map (\<lambda>n. (n, daemon_mode n)) daemon_REQUIRED"

lemma dm_linkless: "linkless (dm_tree p)"
  by code_simp

lemma dm_stat: "list_all (\<lambda>(n, m). startswith n ''/usr/'' \<and> no_dotdot n \<and> stat_at (components n) (dm_tree p) = Inr (img_file m (p n))) dm_list"
  by code_simp

lemma dm_read:
  assumes "(n, m) \<in> set dm_list"
  shows "daemon_read_file (dm_tree p) n m = Inr (p n)"
proof -
  have "startswith n ''/usr/'' \<and> no_dotdot n \<and> stat_at (components n) (dm_tree p) = Inr (img_file m (p n))"
    using dm_stat [of p] assms by (auto simp: list_all_iff)
  then show ?thesis
    by (simp add: daemon_read_file_def linkless_no_link [OF dm_linkless] img_file_def toy_meta_def)
qed

section \<open>The decoded files\<close>

definition dm_generated :: json where
  "dm_generated = JObj [(''ui.pb.go'', JStr d64), (''ui_grpc.pb.go'', JStr d64)]"

definition dm_pins :: json where
  "dm_pins = JObj
    [(''buildCommand'', JStr ''go build''), (''builderImage'', JStr ''builder''), (''daemonVersion'', JStr ''1.8.0''),
     (''generatedFiles'', dm_generated), (''goVersion'', JStr ''go version go1.24''),
     (''licenseSha256'', JStr d64), (''moduleLocks'', JObj [(''daemon/go.mod'', JStr d64), (''daemon/go.sum'', JStr d64)]),
     (''patchSha256'', JStr d64), (''patchedFiles'', JObj []), (''protoSourceSha256'', JStr d64),
     (''sourceCommit'', JStr c40), (''sourceTree'', JStr c40), (''tools'', JObj [])]"

definition dm_module :: json where
  "dm_module = JObj [(''licenses'', JObj [(''LICENSE'', JStr d64)]), (''path'', JStr ''m''), (''sum'', JStr ''h1:x'')]"

definition dm_provenance :: json where
  "dm_provenance = JObj
    [(''actualVersionOutput'', JStr ''1.8.0''), (''buildCommand'', JStr ''go build''), (''builderImage'', JStr ''builder''),
     (''firstBinarySha256'', JStr d64), (''generatedFiles'', dm_generated), (''goVersion'', JStr ''go version go1.24''),
     (''linkedModules'', JList [dm_module]), (''patchSha256'', JStr d64), (''patchedFiles'', JObj []), (''reproducible'', JBool True),
     (''rpmInventorySha256'', JStr d64), (''secondBinarySha256'', JStr d64),
     (''sourceCommit'', JStr c40), (''sourceTree'', JStr c40), (''tools'', JObj [])]"

definition dm_info :: string where
  "dm_info = ''opensnitchd: go1.24'' @ [newline] @ ''build'' @ [tab] @ ''-trimpath=true'' @ [newline]
     @ ''build'' @ [tab] @ ''vcs.revision='' @ c40 @ [newline] @ ''build'' @ [tab] @ ''vcs.modified=true'' @ [newline]"

definition dm_licenses :: string where
  "dm_licenses = license_header @ ''Module checksum: `h1:x`'' @ [newline]"

definition dump :: "json \<Rightarrow> string" where
  "dump v = dumps_sorted (\<lambda>_. []) compact v"

definition dm_digest :: "string \<Rightarrow> string" where
  "dm_digest b = (if b = dump dm_pins then daemon_PINS_SHA256 else d64)"

definition dm_host :: host where
  "dm_host = \<lparr>sha256 = dm_digest, float_repr = (\<lambda>_. []), untar = (\<lambda>_. Inr [])\<rparr>"

text \<open>The files of the inventory with a text of their own; all others hold \<open>x\<close>.\<close>

definition dm_texts :: "(string \<times> string) list" where
  "dm_texts = [(daemon_PINS, dump dm_pins), (daemon_ROOT @ ''native-build-provenance.json'', dump dm_provenance),
     (daemon_CANDIDATE, elf_bytes), (daemon_ROOT @ ''go-build-info.txt'', dm_info), (daemon_LICENSES, dm_licenses),
     (daemon_BINARY, elf_bytes)]"

definition dm_file :: "string \<Rightarrow> string" where
  "dm_file n = (case map_of dm_texts n of None \<Rightarrow> ''x'' | Some b \<Rightarrow> b)"

definition dm_files :: json where
  "dm_files = JObj (sort_key fst (map (\<lambda>n. (n, JStr (dm_digest (dm_file n)))) daemon_REQUIRED))"

definition dm_manifest :: json where
  "dm_manifest = JObj
    [(''binary'', JObj [(''candidatePath'', JStr daemon_CANDIDATE), (''path'', JStr daemon_BINARY), (''sha256'', JStr d64), (''version'', JStr ''1.8.0'')]),
     (''files'', dm_files), (''patch'', JObj [(''path'', JStr daemon_PATCH), (''sha256'', JStr d64)]), (''profile'', JStr ''system''),
     (''schemaVersion'', JInt 1), (''source'', JObj [(''commit'', JStr c40), (''tree'', JStr c40)])]"

definition dm_text :: "string \<Rightarrow> string" where
  "dm_text n = (if n = daemon_MANIFEST then dump dm_manifest else dm_file n)"

lemma dm_distinct: "distinct daemon_REQUIRED"
proof -
  have "distinct (map rev daemon_REQUIRED)" by code_simp
  then show ?thesis by (simp add: distinct_map)
qed

lemma dm_shapes: "text_shape dm_pins" "text_shape dm_provenance"
proof -
  have g: "text_shape dm_generated" "text_shape (JObj [])" "text_shape dm_module"
    "text_shape (JObj [(''daemon/go.mod'', JStr d64), (''daemon/go.sum'', JStr d64)])"
    unfolding text_shape_def by code_simp+
  show "text_shape dm_pins" "text_shape dm_provenance"
    unfolding dm_pins_def dm_provenance_def
    by (rule text_shape_obj; simp only: list.map fst_conv snd_conv list.pred_inject text_shape_base g simp_thms; code_simp)+
qed

lemma dm_manifest_shape: "text_shape dm_manifest"
proof -
  have f: "text_shape dm_files" unfolding dm_files_def by (simp add: text_shape_sorted dm_distinct)
  have g: "text_shape (JObj [(''candidatePath'', JStr daemon_CANDIDATE), (''path'', JStr daemon_BINARY), (''sha256'', JStr d64), (''version'', JStr ''1.8.0'')])"
    "text_shape (JObj [(''path'', JStr daemon_PATCH), (''sha256'', JStr d64)])" "text_shape (JObj [(''commit'', JStr c40), (''tree'', JStr c40)])"
    by (rule text_shape_obj; simp only: list.map fst_conv snd_conv list.pred_inject text_shape_base; code_simp)+
  show ?thesis unfolding dm_manifest_def
    by (rule text_shape_obj) (simp_all only: list.map fst_conv snd_conv list.pred_inject text_shape_base f g simp_thms, code_simp, code_simp)
qed

lemma dm_decoded: "json_bytes other (dump dm_pins) = Inr dm_pins" "json_bytes other (dump dm_provenance) = Inr dm_provenance"
  "json_bytes other (dump dm_manifest) = Inr dm_manifest"
  unfolding dump_def using dm_shapes dm_manifest_shape by (simp_all add: json_bytes_text)

lemma dm_digests: "dm_digest ''x'' = d64" "dm_digest elf_bytes = d64" "dm_digest (dump dm_pins) = daemon_PINS_SHA256"
proof -
  have "loads (dump dm_pins) = Some dm_pins" unfolding dump_def by (rule json_bytes_text(2) [OF dm_shapes(1)])
  then have "dump dm_pins \<noteq> ''x''" "dump dm_pins \<noteq> elf_bytes" using loads_raw by (metis option.distinct(1))+
  then show "dm_digest ''x'' = d64" "dm_digest elf_bytes = d64" "dm_digest (dump dm_pins) = daemon_PINS_SHA256"
    by (simp_all add: dm_digest_def eq_commute)
qed

section \<open>The accepted run\<close>

definition dm_keys :: "string list" where
  "dm_keys = [daemon_PINS, daemon_ROOT @ ''native-build-provenance.json'', daemon_CANDIDATE, daemon_ROOT @ ''go-build-info.txt'',
     daemon_LICENSES, daemon_BINARY]"

definition dm_plain :: "string list" where
  "dm_plain = filter (\<lambda>n. n \<notin> set dm_keys) daemon_REQUIRED"

lemma dm_keys: "map fst dm_texts = dm_keys"
  by (simp add: dm_texts_def dm_keys_def)

lemma dm_names: "distinct dm_keys" "daemon_MANIFEST \<notin> set daemon_REQUIRED" "daemon_MANIFEST \<notin> set dm_keys" "daemon_BINARY \<notin> set daemon_REQUIRED"
  "set (removeAll daemon_BINARY dm_keys) \<subseteq> set daemon_REQUIRED"
  by code_simp+

lemma dm_file_text: "(n, b) \<in> set dm_texts \<Longrightarrow> dm_file n = b"
  using dm_names(1) by (simp add: dm_file_def dm_keys [symmetric])

lemma dm_file_plain: "n \<in> set dm_plain \<Longrightarrow> dm_file n = ''x''"
  by (auto simp: dm_plain_def dm_keys [symmetric] dm_file_def map_of_eq_None_keys [THEN iffD2] split: option.split dest: map_of_SomeD)

lemma dm_text_file: "n \<in> set daemon_REQUIRED \<Longrightarrow> dm_text n = dm_file n"
  using dm_names(2) by (auto simp: dm_text_def)

definition dm_items :: "(string \<times> json) list" where
  "dm_items = sort_key fst (map (\<lambda>n. (n, JStr (dm_digest (dm_file n)))) daemon_REQUIRED)"

definition dm_context :: verified where
  "dm_context = \<lparr>vf_pins = dm_pins, vf_source = JObj [(''commit'', JStr c40), (''tree'', JStr c40)], vf_files = dm_files,
     vf_contents = map (\<lambda>(n, _). (n, dm_text n)) dm_items\<rparr>"

lemma dm_digest_hex: "length (dm_digest b) = 64 \<and> list_all is_hex (dm_digest b)"
proof -
  have "list_all (\<lambda>d. length d = 64 \<and> list_all is_hex d) [daemon_PINS_SHA256, d64]" by code_simp
  then show ?thesis by (auto simp: dm_digest_def)
qed

lemma dm_file_digest: "n \<in> set daemon_REQUIRED \<Longrightarrow> file_digest dm_context n = Inr (JStr (dm_digest (dm_file n)))"
  by (simp add: file_digest_def dm_context_def dm_files_def map_of_sort_key_fst dm_distinct comp_def map_of_map_restrict)

lemma dm_content: "n \<in> set daemon_REQUIRED \<Longrightarrow> content dm_context n = Inr (dm_file n)"
proof -
  have "vf_contents dm_context = map (\<lambda>n. (n, dm_text n)) (map fst dm_items)" by (simp add: dm_context_def comp_def split_beta)
  moreover have "set (map fst dm_items) = set daemon_REQUIRED" by (simp add: dm_items_def image_image)
  ultimately show "n \<in> set daemon_REQUIRED \<Longrightarrow> content dm_context n = Inr (dm_file n)"
    by (simp only: content_def map_of_map_restrict restrict_map_def if_True option.simps comp_apply dm_text_file)
qed

lemma dm_check_files: "daemon_check_files dm_host (dm_tree dm_text) dm_manifest = Inr (dm_files, vf_contents dm_context)"
proof -
  have "daemon_check_file dm_host (dm_tree dm_text) (n, e) = Inr (n, dm_text n)" if "(n, e) \<in> set dm_items" for n e
    using that dm_digest_hex
    by (auto simp: dm_items_def daemon_check_file_def dm_read dm_list_def dm_host_def dm_text_file)
  then have "rmap (daemon_check_file dm_host (dm_tree dm_text)) dm_items = Inr (map (\<lambda>(n, _). (n, dm_text n)) dm_items)"
    by (intro rmap_all) auto
  moreover have "set_is dm_files daemon_REQUIRED = Inr True" by (simp add: dm_files_def image_image)
  moreover have "get_or dm_manifest ''files'' (JObj []) = Inr dm_files" by (simp add: dm_manifest_def)
  ultimately show ?thesis by (simp add: daemon_check_files_def dict_items_def dm_files_def dm_items_def dm_context_def)
qed

text \<open>Names that hold \<open>x\<close> and those with a text.\<close>

lemma dm_plain_names: "set [daemon_PATCH, daemon_LICENSE, daemon_ROOT @ ''rpm-inventory.txt'', daemon_ROOT @ ''source/ui.proto'',
    daemon_ROOT @ ''source/go.mod'', daemon_ROOT @ ''source/go.sum'', daemon_ROOT @ ''generated/ui.pb.go'',
    daemon_ROOT @ ''generated/ui_grpc.pb.go''] \<subseteq> set dm_plain"
  by code_simp

lemma dm_plain_digest: "n \<in> set dm_plain \<Longrightarrow> file_digest dm_context n = Inr (JStr d64)"
  using dm_file_digest [of n] dm_file_plain [of n] dm_digests by (simp add: dm_plain_def)

lemma dm_text_content: "(n, b) \<in> set dm_texts \<Longrightarrow> n \<noteq> daemon_BINARY \<Longrightarrow> content dm_context n = Inr b"
proof -
  assume n: "(n, b) \<in> set dm_texts" "n \<noteq> daemon_BINARY"
  then have "n \<in> set (removeAll daemon_BINARY dm_keys)" unfolding dm_keys [symmetric] by force
  then have "n \<in> set daemon_REQUIRED" using dm_names(5) by blast
  then show "content dm_context n = Inr b" using dm_content dm_file_text [OF n(1)] by simp
qed

lemma dm_pin: "pin dm_context k = index dm_pins k" "vf_source dm_context = JObj [(''commit'', JStr c40), (''tree'', JStr c40)]"
  by (simp_all add: pin_def dm_context_def)

lemma dm_candidate: "content dm_context daemon_CANDIDATE = Inr elf_bytes" "file_digest dm_context daemon_CANDIDATE = Inr (JStr d64)"
proof -
  have n: "daemon_CANDIDATE \<noteq> daemon_BINARY" "daemon_CANDIDATE \<in> set daemon_REQUIRED" by code_simp+
  have t: "(daemon_CANDIDATE, elf_bytes) \<in> set dm_texts" by (simp add: dm_texts_def)
  show "content dm_context daemon_CANDIDATE = Inr elf_bytes" by (rule dm_text_content [OF t n(1)])
  show "file_digest dm_context daemon_CANDIDATE = Inr (JStr d64)"
    using dm_file_digest [OF n(2)] dm_file_text [OF t] dm_digests by simp
qed

lemma dm_check_binary: "daemon_check_binary dm_host (dm_root dm_text) False dm_manifest dm_context = Inr ()"
proof -
  have "daemon_read_file (dm_tree dm_text) daemon_BINARY 493 = Inr elf_bytes"
    using dm_read [of daemon_BINARY 493 dm_text] dm_file_text [of daemon_BINARY elf_bytes]
    by (simp add: dm_list_def dm_text_def dm_texts_def) (simp add: daemon_BINARY_def daemon_MANIFEST_def)
  moreover have "pyeq (JObj [(''candidatePath'', JStr daemon_CANDIDATE), (''path'', JStr daemon_BINARY), (''sha256'', JStr d64), (''version'', JStr ''1.8.0'')])
     (JObj [(''path'', JStr daemon_BINARY), (''candidatePath'', JStr daemon_CANDIDATE), (''sha256'', JStr d64), (''version'', JStr ''1.8.0'')])"
    by code_simp
  moreover have "elf64 elf_bytes" by code_simp
  ultimately show ?thesis
    by (simp add: daemon_check_binary_def dm_candidate dm_manifest_def dm_pin dm_pins_def dm_root_def same_def dm_host_def dm_digests)
qed

lemma dm_check_pinned: "daemon_check_pinned dm_context = Inr ()"
proof -
  have "daemon_pinned dm_context = Inr
      [(daemon_PATCH, JStr d64), (daemon_ROOT @ ''source/ui.proto'', JStr d64), (daemon_LICENSE, JStr d64),
       (daemon_ROOT @ ''source/go.mod'', JStr d64), (daemon_ROOT @ ''source/go.sum'', JStr d64),
       (daemon_ROOT @ ''generated/ui.pb.go'', JStr d64), (daemon_ROOT @ ''generated/ui_grpc.pb.go'', JStr d64)]"
  proof -
    have "base_name ''daemon/go.mod'' = ''go.mod''" "base_name ''daemon/go.sum'' = ''go.sum''" by code_simp+
    moreover have "daemon_LICENSE \<noteq> daemon_ROOT @ n" for n by (simp add: daemon_LICENSE_def daemon_ROOT_def)
    ultimately show ?thesis
      by (simp add: daemon_pinned_def dm_pin dm_pins_def dm_generated_def update_with_def dict_items_def daemon_PATCH_def)
  qed
  moreover have "file_digest dm_context n = Inr (JStr d64)" if "n \<in> set [daemon_PATCH, daemon_LICENSE,
      daemon_ROOT @ ''rpm-inventory.txt'', daemon_ROOT @ ''source/ui.proto'', daemon_ROOT @ ''source/go.mod'', daemon_ROOT @ ''source/go.sum'',
      daemon_ROOT @ ''generated/ui.pb.go'', daemon_ROOT @ ''generated/ui_grpc.pb.go'']" for n
    using dm_plain_digest dm_plain_names that by blast
  ultimately show ?thesis by (simp add: daemon_check_pinned_def same_def)
qed

lemma dm_check_provenance: "daemon_provenance other dm_context = Inr dm_provenance"
proof -
  have "content dm_context (daemon_ROOT @ ''native-build-provenance.json'') = Inr (dump dm_provenance)"
    by (rule dm_text_content) (simp_all add: dm_texts_def daemon_ROOT_def daemon_BINARY_def)
  then have c: "content_json other dm_context (daemon_ROOT @ ''native-build-provenance.json'') = Inr dm_provenance"
    by (simp add: content_json_def dm_decoded)
  have r: "file_digest dm_context (daemon_ROOT @ ''rpm-inventory.txt'') = Inr (JStr d64)"
    using dm_plain_digest dm_plain_names by simp
  have "expected_provenance dm_context = Inr
    [(''sourceCommit'', JStr c40), (''sourceTree'', JStr c40), (''patchSha256'', JStr d64), (''patchedFiles'', JObj []),
     (''builderImage'', JStr ''builder''), (''goVersion'', JStr ''go version go1.24''), (''buildCommand'', JStr ''go build''),
     (''reproducible'', JBool True), (''firstBinarySha256'', JStr d64), (''secondBinarySha256'', JStr d64),
     (''rpmInventorySha256'', JStr d64), (''generatedFiles'', dm_generated), (''tools'', JObj []), (''actualVersionOutput'', JStr ''1.8.0'')]"
    by (simp add: expected_provenance_def dm_pin dm_pins_def dm_candidate r)
  moreover have "revery (\<lambda>(k, v). get_is dm_provenance k v)
    [(''sourceCommit'', JStr c40), (''sourceTree'', JStr c40), (''patchSha256'', JStr d64), (''patchedFiles'', JObj []),
     (''builderImage'', JStr ''builder''), (''goVersion'', JStr ''go version go1.24''), (''buildCommand'', JStr ''go build''),
     (''reproducible'', JBool True), (''firstBinarySha256'', JStr d64), (''secondBinarySha256'', JStr d64),
     (''rpmInventorySha256'', JStr d64), (''generatedFiles'', dm_generated), (''tools'', JObj []), (''actualVersionOutput'', JStr ''1.8.0'')] = Inr True"
  proof -
    have "pyeq dm_generated dm_generated" "pyeq (JObj []) (JObj [])" by code_simp+
    then show ?thesis by (simp add: revery_eq_True get_is_def dm_provenance_def)
  qed
  ultimately show ?thesis by (simp add: daemon_provenance_def c)
qed

lemma dm_build_info: "check_build_info dm_context = Inr ()"
proof -
  have c: "content dm_context (daemon_ROOT @ ''go-build-info.txt'') = Inr dm_info"
    by (rule dm_text_content) (simp_all add: dm_texts_def daemon_ROOT_def daemon_BINARY_def)
  have "utf8_decode dm_info = Some dm_info" by code_simp
  moreover have "build_flags (splitlines dm_info) = Inr [(''-trimpath'', ''true''), (''vcs.revision'', c40), (''vcs.modified'', ''true'')]"
    by code_simp
  moreover have "splitlines dm_info \<noteq> []" "contains ''go1.24'' (splitlines dm_info ! 0)" by code_simp+
  moreover have "words ''go version go1.24'' = [''go'', ''version'', ''go1.24'']" by code_simp
  ultimately show ?thesis
    by (simp add: check_build_info_def c dm_pin dm_pins_def flag_is_def Let_def)
qed

lemma dm_check_modules: "check_modules dm_provenance dm_context = Inr ()"
proof -
  have c: "content dm_context daemon_LICENSES = Inr dm_licenses"
    by (rule dm_text_content) (simp_all add: dm_texts_def daemon_LICENSES_def daemon_BINARY_def)
  have "licensed dm_licenses dm_module = Inr True" "startswith dm_licenses license_header" by code_simp+
  then show ?thesis by (simp add: check_modules_def c dm_provenance_def py_iter_def)
qed

definition dm_report :: json where
  "dm_report = JObj [(''profile'', JStr ''system''), (''sourceCommit'', JStr c40), (''patchSha256'', JStr d64), (''binaryPath'', JStr daemon_BINARY),
     (''binarySha256'', JStr d64), (''verifiedFiles'', JInt 14), (''installedBinaryChecked'', JBool True)]"

lemma dm_verify: "daemon_verify dm_host other (dm_root dm_text) False = Inr dm_report"
proof -
  have p: "dm_text daemon_PINS = dump dm_pins" "dm_text daemon_MANIFEST = dump dm_manifest"
    using dm_file_text [of daemon_PINS] dm_names by (auto simp: dm_text_def dm_texts_def daemon_REQUIRED_def)
  have "daemon_read_file (dm_tree dm_text) daemon_PINS 420 = Inr (dump dm_pins)"
    using dm_read [of daemon_PINS 420 dm_text] p(1)
    by (simp add: dm_list_def daemon_REQUIRED_def) (simp add: daemon_mode_def daemon_PINS_def daemon_CANDIDATE_def daemon_VERIFIER_def daemon_ROOT_def)
  moreover have "daemon_read_file (dm_tree dm_text) daemon_MANIFEST 420 = Inr (dump dm_manifest)"
    using dm_read [of daemon_MANIFEST 420 dm_text] p(2) by (simp add: dm_list_def)
  moreover have "daemon_source dm_manifest dm_pins = Inr (vf_source dm_context)"
  proof -
    have "daemon_source (JObj [(''binary'', b), (''files'', fs), (''patch'', JObj [(''path'', JStr daemon_PATCH), (''sha256'', JStr d64)]), (''profile'', JStr ''system''),
       (''schemaVersion'', JInt 1), (''source'', JObj [(''commit'', JStr c40), (''tree'', JStr c40)])]) dm_pins
       = Inr (JObj [(''commit'', JStr c40), (''tree'', JStr c40)])" for b fs
      by code_simp
    then show ?thesis by (simp add: dm_manifest_def dm_pin)
  qed
  moreover have "\<lparr>vf_pins = dm_pins, vf_source = vf_source dm_context, vf_files = dm_files, vf_contents = vf_contents dm_context\<rparr> = dm_context"
    by (simp add: dm_context_def)
  moreover have "length daemon_REQUIRED = 14" by code_simp
  then have "py_len dm_files = Inr 14" by (simp add: dm_files_def py_len_def)
  moreover have "index (vf_source dm_context) ''commit'' = Inr (JStr c40)" "pin dm_context ''patchSha256'' = Inr (JStr d64)"
    by (simp_all add: dm_pin dm_pins_def)
  moreover have "sha256 dm_host (dump dm_pins) = daemon_PINS_SHA256" by (simp add: dm_host_def dm_digests)
  moreover have t: "im_tree (dm_root dm_text) = dm_tree dm_text" by (simp add: dm_root_def)
  moreover note dm_check_files dm_check_binary dm_check_pinned dm_check_provenance dm_build_info dm_check_modules dm_decoded dm_candidate(2)
  ultimately show ?thesis unfolding daemon_verify_def by (simp add: dm_report_def)
qed

end
