(* ===== verification/DaemonProperties.thy ===== *)
theory DaemonProperties
  imports DaemonExample
begin

text \<open>
  The properties of the daemon verifier, each applied to the example image: the installed daemon is the
  reviewed candidate, and the candidate comes from two equal builds of the pinned source.
\<close>

text \<open>
  C23: an accepted daemon is the reviewed one. The pins have the reviewed digest, every file of the inventory is
  there with its mode, patch and licence have the pinned digests, the candidate is an ELF executable with the
  reported digest, and when the report says that the installed binary was checked, the image has that binary
  at \<open>/usr/bin/opensnitchd\<close>.
\<close>
theorem daemon_verify_sound:
  assumes "daemon_verify H other im stage_only = Inr rep"
  shows "\<exists>pb pins d. daemon_holds (im_tree im) daemon_PINS pb \<and> sha256 H pb = daemon_PINS_SHA256 \<and> json_bytes other pb = Inr pins \<and>
     (\<forall>name\<in>set daemon_REQUIRED. \<exists>b. daemon_holds (im_tree im) name b) \<and>
     (\<exists>b. daemon_holds (im_tree im) daemon_PATCH b \<and> index pins ''patchSha256'' = Inr (JStr (sha256 H b))) \<and>
     (\<exists>b. daemon_holds (im_tree im) daemon_LICENSE b \<and> index pins ''licenseSha256'' = Inr (JStr (sha256 H b))) \<and>
     index rep ''binarySha256'' = Inr (JStr d) \<and>
     (\<exists>b. daemon_holds (im_tree im) daemon_CANDIDATE b \<and> elf64 b \<and> sha256 H b = d) \<and>
     (index rep ''installedBinaryChecked'' = Inr (JBool True) \<longrightarrow>
        (\<exists>f. plain_file (im_tree im) daemon_BINARY 493 f \<and> sha256 H (f_data f) = d))"
proof -
  obtain manifest pins pb c commit patch d n where v: "json_bytes other pb = Inr pins" "daemon_holds (im_tree im) daemon_PINS pb"
      "sha256 H pb = daemon_PINS_SHA256" "vf_pins c = pins" "daemon_read_from H (im_tree im) c"
      "daemon_check_binary H im stage_only manifest c = Inr ()" "daemon_check_pinned c = Inr ()" "file_digest c daemon_CANDIDATE = Inr d"
      "rep = JObj [(''profile'', JStr ''system''), (''sourceCommit'', commit), (''patchSha256'', patch), (''binaryPath'', JStr daemon_BINARY),
         (''binarySha256'', d), (''verifiedFiles'', JInt n), (''installedBinaryChecked'', JBool (\<not> stage_only))]"
    using daemon_verify_Inr [OF assms] by metis
  obtain b where b: "daemon_holds (im_tree im) daemon_CANDIDATE b" "elf64 b" "d = JStr (sha256 H b)"
      "\<not> stage_only \<longrightarrow> (\<exists>f. plain_file (im_tree im) daemon_BINARY 493 f \<and> sha256 H (f_data f) = sha256 H b)"
    using daemon_installed [OF v(6,5,8)] by blast
  have p: "pin c k = index pins k" for k using v(4) by (simp add: pin_def)
  note q = daemon_pinned_files(1,2) [OF v(5,7), unfolded p]
  have "\<forall>name\<in>set daemon_REQUIRED. \<exists>b. daemon_holds (im_tree im) name b" using daemon_complete [OF v(5)] by blast
  then show ?thesis using v(1-3) q b unfolding v(9)
    by (intro exI [of _ pb] exI [of _ pins] exI [of _ "sha256 H b"]) auto
qed

theorem daemon_verify_sound_witness:
  "\<exists>f. plain_file (dm_tree dm_text) daemon_BINARY 493 f \<and> dm_digest (f_data f) = d64"
proof -
  obtain d where "index dm_report ''binarySha256'' = Inr (JStr d)" "index dm_report ''installedBinaryChecked'' = Inr (JBool True) \<longrightarrow>
      (\<exists>f. plain_file (im_tree (dm_root dm_text)) daemon_BINARY 493 f \<and> sha256 dm_host (f_data f) = d)"
    using daemon_verify_sound [OF dm_verify [of "\<lambda>_. Inl TypeError"]] by blast
  then show ?thesis by (simp add: dm_report_def dm_root_def dm_host_def)
qed



end
