(* ===== verification/HostView.thy ===== *)
theory HostView
  imports Installed
begin

text \<open>
  The host as \<^verbatim>\<open>bazzite-tower-snitchwatch-common.py\<close> sees it: its class \<open>Context\<close>, with the Python
  it rests on (\<open>shlex\<close>, two \<open>re.findall\<close> patterns).

  A \<open>view\<close> holds the answers of the system calls and of the commands, which are not under
  \<^verbatim>\<open>src/\<close>: every theorem holds for all of them. The readiness checks only read, so the answers are fixed
  for a run. \<open>Context\<close>'s other root and other runner are test seams of the source and are not modelled.
  A decoded text is restricted to the model's code points; other bytes count as undecodable.
\<close>

section \<open>System calls and commands\<close>

text \<open>
  What a finished command leaves. \<open>v_stat\<close> is \<open>lstat\<close>, \<open>v_read\<close> the bytes of a file, \<open>v_list\<close>
  \<open>os.listdir\<close>, \<open>v_open\<close> an open that follows no link with the \<open>fstat\<close> and the bytes of the
  file, \<open>v_glob\<close> \<open>Path.glob\<close> of a pattern below a directory, \<open>v_access\<close> the test for an executable, \<open>v_exec\<close> takes the environment and the
  command line. \<open>v_json\<close> is what \<open>json.loads\<close> makes of a text the decoder of the model refuses.
\<close>

record reply =
  rp_code :: int
  rp_out :: string
  rp_err :: string

record view =
  v_stat :: "string \<Rightarrow> meta result"
  v_read :: "string \<Rightarrow> string result"
  v_list :: "string \<Rightarrow> string list result"
  v_readlink :: "string \<Rightarrow> string result"
  v_resolve :: "string \<Rightarrow> string result"
  v_exists :: "string \<Rightarrow> bool result"
  v_open :: "string \<Rightarrow> (meta \<times> string) result"
  v_glob :: "string \<Rightarrow> string \<Rightarrow> string list result"
  v_access :: "string \<Rightarrow> bool"
  v_exec :: "(string \<times> string) list \<Rightarrow> string list \<Rightarrow> reply result"
  v_json :: "string \<Rightarrow> json result"
  v_sha :: "string \<Rightarrow> string"

definition R_SERVICE :: string where
  "R_SERVICE = ''snitchwatch-system-bridge.service''"

definition COMMANDS :: "(string \<times> string) list" where
  "COMMANDS = map (\<lambda>name. (name, ''/usr/bin/'' @ name))
     [''flatpak'', ''systemctl'', ''ss'', ''busctl'', ''getent'', ''python3'', ''systemd-run'']"

definition COMMAND_ENV :: "(string \<times> string) list" where
  "COMMAND_ENV = [(''PATH'', ''/usr/sbin:/usr/bin''), (''LC_ALL'', ''C'')]"

definition TYPED_EMPTY_PROPERTIES :: "(string \<times> string) list" where
  "TYPED_EMPTY_PROPERTIES = (''EnvironmentFiles'', ''a(sb)'') #
     map (\<lambda>name. (name, ''a(sasbttttuii)'')) [''ExecStartPre'', ''ExecStartPost'', ''ExecStop'', ''ExecStopPost'', ''ExecCondition'']"

definition spawn :: "view \<Rightarrow> string list \<Rightarrow> reply result" where
  "spawn V argv = (case argv of [] \<Rightarrow> Inl IndexError | name # args \<Rightarrow>
     let program = (case map_of COMMANDS name of None \<Rightarrow> name | Some p \<Rightarrow> p) in
     require (startswith program ''/'') (Refusal (''not a trusted command: '' @ name))
     (require (v_access V program) (Refusal (''required command missing: '' @ program))
     (v_exec V COMMAND_ENV (program # args))))"

text \<open>\<open>shlex.join\<close>\<close>

definition shell_safe :: "char \<Rightarrow> bool" where
  "shell_safe c \<longleftrightarrow> is_alnum c \<or> c \<in> set ''_@%+=:,./-''"

definition shell_quote :: "string \<Rightarrow> string" where
  "shell_quote s = (if s \<noteq> [] \<and> list_all shell_safe s then s
     else [CHR 0x27] @ concat (map (\<lambda>c. if c = CHR 0x27 then [CHR 0x27, CHR 0x22, CHR 0x27, CHR 0x22, CHR 0x27] else [c]) s) @ [CHR 0x27])"

definition command :: "view \<Rightarrow> string list \<Rightarrow> int list \<Rightarrow> reply result" where
  "command V argv okay = rbind (spawn V argv) (\<lambda>r.
     require (rp_code r \<in> set okay)
       (Refusal (''command failed: '' @ join '' '' (map shell_quote argv) @ '': '' @ strip (rp_err r))) (Inr r))"

definition run_out :: "view \<Rightarrow> string list \<Rightarrow> string result" where
  "run_out V argv = rbind (command V argv [0]) (\<lambda>r. Inr (rp_out r))"

section \<open>Files\<close>

definition ctx_path :: "string \<Rightarrow> string result" where
  "ctx_path p = require (startswith p ''/'' \<and> no_dotdot p) (Refusal ''unsafe internal path'') (Inr p)"

definition ctx_stat :: "view \<Rightarrow> string \<Rightarrow> meta result" where
  "ctx_stat V p = rbind (ctx_path p) (v_stat V)"

definition ctx_bytes :: "view \<Rightarrow> string \<Rightarrow> string result" where
  "ctx_bytes V p = rbind (ctx_path p) (v_read V)"

definition ctx_text :: "view \<Rightarrow> string \<Rightarrow> string result" where
  "ctx_text V p = rbind (ctx_bytes V p) (\<lambda>b. case utf8_decode b of
       None \<Rightarrow> Inl (ValueError ''invalid UTF-8'') | Some s \<Rightarrow> Inr (universal_newlines s))"

text \<open>\<open>json.loads(path.read_text())\<close>; the line ends that text mode translates are white space of JSON.\<close>

definition ctx_json :: "view \<Rightarrow> string \<Rightarrow> json result" where
  "ctx_json V p = rbind (ctx_bytes V p) (json_bytes (v_json V))"

text \<open>\<open>digest(ctx.path(p))\<close>\<close>

definition ctx_digest :: "view \<Rightarrow> string \<Rightarrow> string result" where
  "ctx_digest V p = rbind (ctx_bytes V p) (\<lambda>b. Inr (v_sha V b))"

text \<open>The two errors that mean a path is absent, and the refusal of any other.\<close>

definition no_such_path :: "pyexc \<Rightarrow> bool" where
  "no_such_path e \<longleftrightarrow> e = FileNotFoundError \<or> e = OSError ''NotADirectoryError''"

definition cannot_inspect :: "string \<Rightarrow> pyexc \<Rightarrow> pyexc" where
  "cannot_inspect p e = (case e of OSError m \<Rightarrow> Refusal (''cannot inspect '' @ p @ '': '' @ m) | _ \<Rightarrow> e)"

definition lookup :: "view \<Rightarrow> string \<Rightarrow> meta option result" where
  "lookup V p = (case ctx_stat V p of Inr m \<Rightarrow> Inr (Some m)
     | Inl e \<Rightarrow> if no_such_path e then Inr None else Inl (cannot_inspect p e))"

definition present :: "view \<Rightarrow> string \<Rightarrow> bool result" where
  "present V p = rbind (lookup V p) (\<lambda>m. Inr (m \<noteq> None))"

definition listdir :: "view \<Rightarrow> string \<Rightarrow> string list result" where
  "listdir V p = (case rbind (ctx_path p) (v_list V) of Inr ns \<Rightarrow> Inr (sort ns)
     | Inl e \<Rightarrow> if no_such_path e then Inr [] else Inl (cannot_inspect p e))"

definition homes :: "view \<Rightarrow> string list result" where
  "homes V = rbind (run_out V [''getent'', ''passwd'']) (\<lambda>s.
     Inr (sort (remdups (map (\<lambda>fs. fs ! 5) (filter (\<lambda>fs. length fs = 7 \<and> startswith (fs ! 5) ''/'')
       (map (split_on CHR '':'') (splitlines s)))))))"

section \<open>Unit properties\<close>

text \<open>\<open>dict(line.split('=', 1) for line in lines if '=' in line)\<close>\<close>

definition pairs_of :: "char \<Rightarrow> string list \<Rightarrow> (string \<times> string) list" where
  "pairs_of d ls = fold (\<lambda>l m. case partition_on d l of (k, found, v) \<Rightarrow> if found then dict_set k v m else m) ls []"

definition text_json :: "view \<Rightarrow> string \<Rightarrow> json result" where
  "text_json V s = (case loads s of None \<Rightarrow> v_json V s | Some v \<Rightarrow> Inr v)"

definition typed_reply :: "view \<Rightarrow> string list \<Rightarrow> json result" where
  "typed_reply V argv = rbind (run_out V argv) (\<lambda>s.
     case text_json V s of
       Inl e \<Rightarrow> Inl (case e of ValueError _ \<Rightarrow> Refusal ''invalid typed systemd property reply''
                    | TypeError \<Rightarrow> Refusal ''invalid typed systemd property reply'' | _ \<Rightarrow> e)
     | Inr v \<Rightarrow> demand (if is_dict v then set_is v [''type'', ''data''] else Inr False)
         (Refusal ''invalid typed systemd property reply shape'') (Inr v))"

definition bus :: "string list" where
  "bus = [''busctl'', ''--system'', ''--json=short'']"

definition object_path :: "json \<Rightarrow> string option" where
  "object_path v = (case v of JList [JStr s] \<Rightarrow>
       (let p = ''/org/freedesktop/systemd1/unit/''; r = removeprefix s p in
        if startswith s p \<and> r \<noteq> [] \<and> list_all (\<lambda>c. is_alnum c \<or> c = CHR ''_'') r then Some s else None)
     | _ \<Rightarrow> None)"

definition typed_empty :: "view \<Rightarrow> string \<Rightarrow> string \<Rightarrow> unit result" where
  "typed_empty V object name =
     rbind (typed_reply V (bus @ [''get-property'', ''org.freedesktop.systemd1'', object, ''org.freedesktop.systemd1.Service'', name])) (\<lambda>actual.
     demand (all_of [
         rbind (index actual ''type'') (\<lambda>t. case map_of TYPED_EMPTY_PROPERTIES name of None \<Rightarrow> Inl (KeyError name)
           | Some e \<Rightarrow> Inr (pyeq t (JStr e))),
         index_is actual ''data'' (JList [])])
       (Refusal (''effective structured property must be typed empty: '' @ name)) (Inr ()))"

definition props :: "view \<Rightarrow> string \<Rightarrow> string list \<Rightarrow> (string \<times> string) list result" where
  "props V u names =
     rbind (run_out V [''systemctl'', ''show'', u, ''--no-pager'', ''--all'', ''--property='' @ join '','' names]) (\<lambda>out.
     let vals = pairs_of CHR ''='' (splitlines out); missing = filter (\<lambda>n. n \<notin> fst ` set vals) names;
         e = Refusal (''missing effective systemd properties for '' @ u) in
     rbind (if missing = [] then Inr vals else
       require (u = R_SERVICE \<and> set missing \<subseteq> set (map fst TYPED_EMPTY_PROPERTIES)) e
       (rbind (typed_reply V (bus @ [''call'', ''org.freedesktop.systemd1'', ''/org/freedesktop/systemd1'',
           ''org.freedesktop.systemd1.Manager'', ''GetUnit'', ''s'', u])) (\<lambda>loaded.
        demand (rbind (index loaded ''type'') (\<lambda>t. rbind (index loaded ''data'') (\<lambda>d. Inr (pyeq t (JStr ''o'') \<and> object_path d \<noteq> None))))
          (Refusal ''invalid typed GetUnit object path'')
        (rbind (index loaded ''data'') (\<lambda>d. case object_path d of None \<Rightarrow> Inl (Refusal ''invalid typed GetUnit object path'') | Some object \<Rightarrow>
         rfold (\<lambda>name vals. rbind (typed_empty V object name) (\<lambda>_. Inr (dict_set name [] vals))) missing vals)))))
     (\<lambda>vals. require (set names \<subseteq> fst ` set vals) e (Inr vals)))"

text \<open>\<open>actual[name]\<close>\<close>

definition shown_field :: "(string \<times> string) list \<Rightarrow> string \<Rightarrow> string result" where
  "shown_field vals n = (case map_of vals n of None \<Rightarrow> Inl (KeyError n) | Some v \<Rightarrow> Inr v)"

section \<open>Text the systemd properties are read with\<close>

text \<open>
  \<open>re.findall\<close> of a pattern that matches at least one character: \<open>m start s\<close> is the captured group and
  the length of a match at the beginning of \<open>s\<close>, \<open>start\<close> whether that is the beginning of the text.
\<close>

fun findall :: "(bool \<Rightarrow> string \<Rightarrow> (string \<times> nat) option) \<Rightarrow> bool \<Rightarrow> nat \<Rightarrow> string \<Rightarrow> string list" where
  "findall m start k [] = []"
| "findall m start (Suc k) (c # s) = findall m False k s"
| "findall m start 0 (c # s) = (case m start (c # s) of
       None \<Rightarrow> findall m False 0 s
     | Some (v, n) \<Rightarrow> v # findall m False (n - 1) s)"

text \<open>\<open>(?:^|[ {])path=([^ ;}]+)\<close> and \<open>argv\[\]=([^;]+)\<close>\<close>

definition path_match :: "bool \<Rightarrow> string \<Rightarrow> (string \<times> nat) option" where
  "path_match start s =
     (let value = (\<lambda>r. takeWhile (\<lambda>c. c \<notin> {CHR '' '', CHR '';'', CHR ''}''}) (drop 5 r));
          here = (\<lambda>r. startswith r ''path='' \<and> value r \<noteq> []) in
      if start \<and> here s then Some (value s, 5 + length (value s))
      else (case s of [] \<Rightarrow> None
            | c # r \<Rightarrow> if c \<in> {CHR '' '', CHR ''{''} \<and> here r then Some (value r, 6 + length (value r)) else None))"

definition argv_match :: "bool \<Rightarrow> string \<Rightarrow> (string \<times> nat) option" where
  "argv_match start s =
     (let value = takeWhile (\<lambda>c. c \<noteq> CHR '';'') (drop 7 s) in
      if startswith s ''argv[]='' \<and> value \<noteq> [] then Some (value, 7 + length value) else None)"

definition exec_paths :: "string \<Rightarrow> string list" where
  "exec_paths s = findall path_match True 0 s"

definition exec_argvs :: "string \<Rightarrow> string list" where
  "exec_argvs s = findall argv_match True 0 s"

text \<open>\<open>shlex.split\<close>: \<open>w\<close> is the word so far, reversed.\<close>

datatype lexing = Blank | Word | Single | Double | Escaped | Escaped_in_double

fun shell_words :: "lexing \<Rightarrow> string \<Rightarrow> string \<Rightarrow> string list result" where
  "shell_words Blank w [] = Inr []"
| "shell_words Word w [] = Inr [rev w]"
| "shell_words _ w [] = Inl (ValueError ''No closing quotation or escaped character'')"
| "shell_words Blank w (c # s) =
     (if c \<in> {CHR '' '', CHR 0x09, CHR 0x0A, CHR 0x0D} then shell_words Blank [] s
      else if c = CHR 0x5C then shell_words Escaped [] s
      else if c = CHR 0x27 then shell_words Single [] s
      else if c = CHR 0x22 then shell_words Double [] s
      else shell_words Word [c] s)"
| "shell_words Word w (c # s) =
     (if c \<in> {CHR '' '', CHR 0x09, CHR 0x0A, CHR 0x0D} then rbind (shell_words Blank [] s) (\<lambda>ws. Inr (rev w # ws))
      else if c = CHR 0x5C then shell_words Escaped w s
      else if c = CHR 0x27 then shell_words Single w s
      else if c = CHR 0x22 then shell_words Double w s
      else shell_words Word (c # w) s)"
| "shell_words Single w (c # s) = (if c = CHR 0x27 then shell_words Word w s else shell_words Single (c # w) s)"
| "shell_words Double w (c # s) =
     (if c = CHR 0x22 then shell_words Word w s
      else if c = CHR 0x5C then shell_words Escaped_in_double w s
      else shell_words Double (c # w) s)"
| "shell_words Escaped w (c # s) = shell_words Word (c # w) s"
| "shell_words Escaped_in_double w (c # s) =
     (if c \<in> {CHR 0x22, CHR 0x5C} then shell_words Double (c # w) s else shell_words Double (c # CHR 0x5C # w) s)"

definition shlex_split :: "string \<Rightarrow> string list result" where
  "shlex_split s = shell_words Blank [] s"

end
