(* ===== verification/ReadyImage.thy ===== *)
theory ReadyImage
  imports HostView
begin

text \<open>
  The image part of \<^verbatim>\<open>bazzite-tower-snitchwatch-common.py\<close>: \<open>immutable\<close> checks the manifest, the pins
  and every installed asset, \<open>immutable_daemon\<close> the patched daemon and the answer of its verifier,
  \<open>account_ids\<close> the service accounts.
\<close>

section \<open>Fixed paths\<close>

definition R_PINS :: string where "R_PINS = ''/usr/share/snitchwatch/build-pins.json''"
definition R_BRIDGE_VERSION :: string where "R_BRIDGE_VERSION = ''0.1.1''"
definition R_PROFILE :: string where "R_PROFILE = ''/usr/share/bazzite-tower/snitchwatch-bridge-profile''"
definition R_MANIFEST :: string where "R_MANIFEST = ''/usr/share/snitchwatch/system-bridge-manifest.json''"
definition R_CONFIG :: string where "R_CONFIG = ''/etc/opensnitchd/default-config.json''"
definition R_REFERENCE :: string where "R_REFERENCE = ''/usr/share/bazzite-tower/opensnitchd-system-bridge-config.json''"
definition R_LEGACY_REFERENCE :: string where "R_LEGACY_REFERENCE = ''/usr/share/bazzite-tower/opensnitchd-default-config.json''"
definition R_BINARY :: string where "R_BINARY = ''/usr/bin/snitchwatch-bridge-cli''"
definition R_DAEMON :: string where "R_DAEMON = ''/usr/bin/opensnitchd''"
definition R_DAEMON_MANIFEST :: string where "R_DAEMON_MANIFEST = ''/usr/share/snitchwatch/system-daemon-manifest.json''"
definition R_DAEMON_CANDIDATE :: string where "R_DAEMON_CANDIDATE = ''/usr/share/snitchwatch/daemon/opensnitchd''"
definition R_DAEMON_PATCH :: string where "R_DAEMON_PATCH = ''/usr/share/snitchwatch/daemon/opensnitch-shutdown-repair.patch''"
definition R_SOCKETS :: "string list" where "R_SOCKETS = [''snitchwatch-system-bridge-grpc.socket'', ''snitchwatch-system-bridge-gui.socket'']"
definition R_UNITS :: "string list" where "R_UNITS = R_SOCKETS @ [R_SERVICE, ''opensnitch.service'']"
definition R_APP :: string where "R_APP = ''org.snitchwatch.Snitchwatch''"
definition R_DAEMON_DROPIN :: string where
  "R_DAEMON_DROPIN = ''/usr/lib/systemd/system/opensnitch.service.d/snitchwatch-system-bridge.conf''"
definition R_FETCH_RULE :: string where "R_FETCH_RULE = ''/etc/opensnitchd/rules/000-snitchwatch-bridge-fetch.json''"
definition R_OS_UPDATE_RULE :: string where "R_OS_UPDATE_RULE = ''/etc/opensnitchd/rules/000-snitchwatch-tower-os-update.json''"
definition R_DNS_RULE :: string where "R_DNS_RULE = ''/etc/opensnitchd/rules/000-snitchwatch-tower-resolved-dns.json''"

definition R_RESERVED_RULES :: "(string \<times> string) list" where
  "R_RESERVED_RULES = [(R_FETCH_RULE, ''Snitchwatch fetch rule''), (R_OS_UPDATE_RULE, ''tower OS-update rule''),
     (R_DNS_RULE, ''tower resolver DNS rule'')]"

section \<open>The image\<close>

text \<open>\<open>re.fullmatch(r'[0-9a-f]{n}', v or '')\<close>\<close>

definition hex_or_empty :: "nat \<Rightarrow> json \<Rightarrow> bool result" where
  "hex_or_empty n v = (if truthy v then hex_match n v else Inr (n = 0))"

text \<open>\<open>v.get(k, {}).get(l)\<close>\<close>

definition get2 :: "json \<Rightarrow> string \<Rightarrow> string \<Rightarrow> json result" where
  "get2 v k l = rbind (get_or v k (JObj [])) (\<lambda>x. get x l)"

definition sorted_prefixes :: "string list \<Rightarrow> string list list" where
  "sorted_prefixes cs = map (\<lambda>n. take n cs) (rev [1..<length cs])"

text \<open>\<open>Path(name).parents\<close> without \<open>/\<close>, nearest first.\<close>

definition parents :: "string \<Rightarrow> string list" where
  "parents name = map (\<lambda>cs. concat (map (\<lambda>c. CHR ''/'' # c) cs)) (sorted_prefixes (components name))"

definition mandatory_assets :: "string list" where
  "mandatory_assets = [R_BINARY, R_REFERENCE, R_LEGACY_REFERENCE, R_PINS, R_FETCH_RULE, R_OS_UPDATE_RULE, R_DNS_RULE,
     ''/usr/lib/sysusers.d/snitchwatch.conf'', ''/usr/lib/tmpfiles.d/snitchwatch.conf'', R_DAEMON_DROPIN]
     @ map (\<lambda>u. ''/usr/lib/systemd/system/'' @ u) (R_SERVICE # R_SOCKETS)"

definition check_asset :: "view \<Rightarrow> string \<times> json \<Rightarrow> unit result" where
  "check_asset V ne = (case ne of (name, expected) \<Rightarrow>
     demand (if (startswith name ''/usr/'' \<or> name \<in> fst ` set R_RESERVED_RULES) \<and> no_dotdot name then hex_or_empty 64 expected else Inr False)
       (Refusal ''unsafe system manifest entry'')
     (rbind (case map_of R_RESERVED_RULES name of None \<Rightarrow> Inr () | Some what \<Rightarrow>
         demand (rbind (rany (\<lambda>p. rbind (ctx_stat V p) (\<lambda>m. Inr (m_kind m = KLink))) (parents name)) (\<lambda>b. Inr (\<not> b)))
           (Refusal (''symlink in the path of the shipped '' @ what)) (Inr ())) (\<lambda>_.
     rbind (ctx_stat V name) (\<lambda>info.
     require (root_regular info) (Refusal (''mutable/non-root installed asset: '' @ name))
     (rbind (ctx_digest V name) (\<lambda>d.
     require (pyeq (JStr d) expected) (Refusal (''installed asset hash mismatch: '' @ name)) (Inr ())))))))"

definition check_source_provenance :: "json \<Rightarrow> json \<Rightarrow> bool result" where
  "check_source_provenance pins source = all_of [
     same (get source ''commit'') (get pins ''sourceCommit''), same (get source ''submoduleCommit'') (get pins ''submoduleCommit''),
     rbind (get_or source ''commit'' (JStr [])) (hex_match 40), rbind (get_or source ''submoduleCommit'' (JStr [])) (hex_match 40)]"

definition check_daemon_artifact :: "view \<Rightarrow> string \<times> json result \<Rightarrow> unit result" where
  "check_daemon_artifact V ne = (case ne of (name, expected) \<Rightarrow>
     rbind expected (\<lambda>expected.
     demand (hex_or_empty 64 expected) (Refusal ''missing patched daemon artifact identity'')
     (rbind (ctx_stat V name) (\<lambda>info.
     require (root_regular info) (Refusal (''mutable/non-root patched daemon artifact: '' @ name))
     (rbind (ctx_digest V name) (\<lambda>d.
     require (pyeq (JStr d) expected) (Refusal (''patched daemon artifact hash mismatch: '' @ name)) (Inr ())))))))"

definition immutable_daemon :: "view \<Rightarrow> json \<Rightarrow> json result" where
  "immutable_daemon V pins =
     rbind (rbind (run_out V [''python3'', ''/usr/libexec/snitchwatch/verify-system-daemon.py'']) (text_json V)) (\<lambda>proof.
     rbind (ctx_stat V R_DAEMON_MANIFEST) (\<lambda>info.
     require (root_regular info) (Refusal ''daemon manifest must be a root-owned non-writable regular file'')
     (rbind (ctx_json V R_DAEMON_MANIFEST) (\<lambda>manifest.
     demand (all_of [get_is manifest ''schemaVersion'' (JInt 1), get_is manifest ''profile'' (JStr ''system'')])
       (Refusal ''invalid patched daemon manifest profile/schema'')
     (demand (same (get2 manifest ''source'' ''commit'') (get pins ''submoduleCommit''))
       (Refusal ''patched daemon upstream differs from reviewed bridge submodule'')
     (rbind (get_or manifest ''binary'' (JObj [])) (\<lambda>binary. rbind (get_or manifest ''patch'' (JObj [])) (\<lambda>patch.
     demand (all_of [get_is binary ''path'' (JStr R_DAEMON), get_is binary ''candidatePath'' (JStr R_DAEMON_CANDIDATE),
         get_is binary ''version'' (JStr ''1.8.0'')])
       (Refusal ''patched daemon binary path/version drift'')
     (demand (get_is patch ''path'' (JStr R_DAEMON_PATCH)) (Refusal ''patched daemon repair patch path drift'')
     (rbind (rall (check_daemon_artifact V) [(R_DAEMON, get binary ''sha256''), (R_DAEMON_CANDIDATE, get binary ''sha256''),
         (R_DAEMON_PATCH, get patch ''sha256'')]) (\<lambda>_.
     demand (all_of [get_is proof ''profile'' (JStr ''system''),
         same (get proof ''sourceCommit'') (index2 manifest ''source'' ''commit''),
         same (get proof ''patchSha256'') (index patch ''sha256''), get_is proof ''binaryPath'' (JStr R_DAEMON),
         same (get proof ''binarySha256'') (index binary ''sha256''), get_identical proof ''installedBinaryChecked'' (JBool True)])
       (Refusal ''daemon verifier did not establish installed patched binary identity'')
     (rbind (run_out V [R_DAEMON, ''-version'']) (\<lambda>version.
     require (strip version = ''1.8.0'') (Refusal ''installed patched daemon version drift'') (Inr manifest))))))))))))))"

definition check_assets :: "view \<Rightarrow> json \<Rightarrow> unit result" where
  "check_assets V files =
     demand (if is_dict files then rbind (dict_items files) (\<lambda>items. Inr (set mandatory_assets \<subseteq> fst ` set items)) else Inr False)
       (Refusal ''system manifest lacks required installed assets'')
     (rbind (dict_items files) (rall (check_asset V)))"

definition check_flatpak_provenance :: "json \<Rightarrow> json \<Rightarrow> unit result" where
  "check_flatpak_provenance manifest source =
     rbind (get_or manifest ''flatpak'' (JObj [])) (\<lambda>fp.
     demand (all_of [get_is fp ''appId'' (JStr R_APP), get_is fp ''profile'' (JStr ''system''),
         same (get fp ''sourceCommit'') (index source ''commit''),
         rbind (get_or fp ''manifestSha256'' (JStr [])) (hex_match 64)])
       (Refusal ''missing system GUI profile provenance'') (Inr ()))"

definition immutable :: "view \<Rightarrow> json result" where
  "immutable V =
     rbind (ctx_text V R_PROFILE) (\<lambda>profile.
     require (strip profile = ''system'') (Refusal ''image profile is not system'')
     (rbind (run_out V [''python3'', ''/usr/libexec/snitchwatch/verify-system-manifest.py'']) (\<lambda>_.
     rbind (ctx_stat V R_MANIFEST) (\<lambda>metadata.
     require (root_regular metadata) (Refusal ''system manifest must be a root-owned, non-writable regular file'')
     (rbind (ctx_json V R_MANIFEST) (\<lambda>manifest.
     demand (all_of [get_is manifest ''schemaVersion'' (JInt 1), get_is manifest ''profile'' (JStr ''system'')])
       (Refusal ''invalid system manifest schema/profile'')
     (rbind (ctx_json V R_PINS) (\<lambda>pins.
     rbind (get_or manifest ''source'' (JObj [])) (\<lambda>source.
     demand (check_source_provenance pins source) (Refusal ''unexpected source provenance'')
     (demand (rbind (get2 manifest ''binary'' ''path'') (\<lambda>p. Inr (pyeq p (JStr R_BINARY)))) (Refusal ''unexpected manifest executable path'')
     (rbind (get_or manifest ''files'' (JObj [])) (\<lambda>files.
     rbind (check_assets V files) (\<lambda>_.
     rbind (index manifest ''binary'') (\<lambda>binary.
     demand (same (get binary ''sha256'') (index files R_BINARY)) (Refusal ''binary provenance disagrees with installed asset hash'')
     (demand (all_of [get_is binary ''version'' (JStr R_BRIDGE_VERSION), get_is pins ''bridgeVersion'' (JStr R_BRIDGE_VERSION)])
       (Refusal (''manifest/pins must declare bridge version '' @ R_BRIDGE_VERSION))
     (rbind (check_flatpak_provenance manifest source) (\<lambda>_.
     rbind (run_out V [R_BINARY, ''--version'']) (\<lambda>version.
     require (strip version = ''snitchwatch-bridge-cli '' @ R_BRIDGE_VERSION)
       (Refusal (''installed bridge version must be '' @ R_BRIDGE_VERSION @ '' (got: '' @ strip version @ '')''))
     (rbind (immutable_daemon V pins) (\<lambda>_. Inr manifest))))))))))))))))))))"

section \<open>Accounts\<close>

text \<open>\<open>int(s)\<close> or \<open>ValueError\<close>.\<close>

definition to_int :: "string \<Rightarrow> int result" where
  "to_int s = (case py_int s of None \<Rightarrow> Inl (ValueError ''invalid literal for int()'') | Some n \<Rightarrow> Inr n)"

record accounts =
  ac_uid :: int
  ac_gid :: int
  ac_ui_gid :: int
  ac_members :: string

definition account_ids :: "view \<Rightarrow> accounts result" where
  "account_ids V =
     (let entry = (\<lambda>args. rbind (run_out V (''getent'' # args)) (\<lambda>s. Inr (split_on CHR '':'' (strip s)))) in
     rbind (entry [''passwd'', ''snitchwatch'']) (\<lambda>passwd. rbind (entry [''group'', ''snitchwatch'']) (\<lambda>group.
     rbind (entry [''group'', ''snitchwatch-ui'']) (\<lambda>ui.
     require (length passwd = 7 \<and> length group = 4 \<and> length ui = 4) (Refusal ''named bridge/UI accounts unavailable'')
     (rbind (to_int (passwd ! 2)) (\<lambda>uid. rbind (to_int (group ! 2)) (\<lambda>gid. rbind (to_int (ui ! 2)) (\<lambda>ui_gid.
     demand (if uid \<noteq> 0 \<and> gid \<noteq> 0 \<and> ui_gid \<noteq> 0 \<and> gid \<noteq> ui_gid then rbind (to_int (passwd ! 3)) (\<lambda>g. Inr (g = gid)) else Inr False)
       (Refusal ''invalid bridge/UI account separation'')
     (require (passwd ! 5 = ''/var/lib/snitchwatch'' \<and> passwd ! 6 \<in> {''/usr/sbin/nologin'', ''/sbin/nologin'', ''/bin/false''})
       (Refusal ''bridge account must be non-login with private state home'')
     (Inr \<lparr>ac_uid = uid, ac_gid = gid, ac_ui_gid = ui_gid, ac_members = ui ! 3\<rparr>))))))))))"

end
