(* ===== verification/ReadyUnits.thy ===== *)
theory ReadyUnits
  imports ReadyImage
begin

text \<open>
  The systemd and configuration part of \<^verbatim>\<open>bazzite-tower-snitchwatch-common.py\<close>: the effective
  properties of the bridge, its sockets and the daemon (\<open>unit_contract\<close>), the drop-ins that may be loaded,
  the daemon configuration with the operator's opt-in to deny (\<open>config_contract\<close>), and the scan for local
  overrides (\<open>local_conflicts\<close>). The order of the entries of a Python \<open>set\<close> is that of the lists here.
\<close>

section \<open>Fixed paths\<close>

definition R_VENDOR_DROPIN :: string where "R_VENDOR_DROPIN = ''/usr/lib/systemd/system/service.d/10-timeout-abort.conf''"
definition R_DAEMON_UNIT :: string where "R_DAEMON_UNIT = ''/usr/lib/systemd/system/opensnitch.service''"
definition R_DENY_MARKER :: string where "R_DENY_MARKER = ''/etc/bazzite-tower/snitchwatch-deny-optin''"
definition R_DENY_GUARD_DROPIN :: string where
  "R_DENY_GUARD_DROPIN = ''/usr/lib/systemd/system/opensnitch.service.d/bazzite-tower-snitchwatch-deny-guard.conf''"
definition R_DENY_GUARD_DROPIN_SHA256 :: string where
  "R_DENY_GUARD_DROPIN_SHA256 = ''b46aa696d4d8da32c2b510425eb04df03a4b19e243fdf8e6cf9158b80c5d2d43''"
definition R_DENY_STATE :: string where "R_DENY_STATE = ''/var/lib/bazzite-tower/snitchwatch-deny/state.json''"
definition R_VENDOR_DROPIN_SHA256 :: string where
  "R_VENDOR_DROPIN_SHA256 = ''ae6b234f92bc22f1201a7572b59b454c9809f33c80d13f361b9674e1801acc37''"

section \<open>Effective unit properties\<close>

definition loaded_current :: "string \<Rightarrow> (string \<times> string) list \<Rightarrow> unit result" where
  "loaded_current u ps = rbind (shown_field ps ''NeedDaemonReload'') (\<lambda>v.
     require (v = ''no'') (Refusal (u @ '' changed on disk since systemd loaded it; review it, then run systemctl daemon-reload'')) (Inr ()))"

definition vendor_dropin_contract :: "view \<Rightarrow> string \<Rightarrow> unit result" where
  "vendor_dropin_contract V value =
     require (value \<in> {[], R_VENDOR_DROPIN}) (Refusal ''effective bridge property drift: DropInPaths'')
     (if value = [] then Inr () else
       rbind (rbind (ctx_path R_VENDOR_DROPIN) (v_resolve V)) (\<lambda>p.
       require (p = R_VENDOR_DROPIN) (Refusal ''vendor drop-in must be canonical without symlinks'')
       (rbind (ctx_stat V R_VENDOR_DROPIN) (\<lambda>info.
       require (root_regular info \<and> m_gid info = 0) (Refusal ''vendor drop-in must be root-owned immutable regular file'')
       (rbind (ctx_digest V R_VENDOR_DROPIN) (\<lambda>d.
       require (d = R_VENDOR_DROPIN_SHA256) (Refusal ''vendor drop-in byte identity drift'') (Inr ())))))))"

definition daemon_unit_contract :: "view \<Rightarrow> (string \<times> string) list \<Rightarrow> unit result" where
  "daemon_unit_contract V ps =
     rbind (shown_field ps ''DropInPaths'') (\<lambda>loaded. rbind (shown_field ps ''FragmentPath'') (\<lambda>fragment.
     let dropins = words loaded in
     require (fragment = R_DAEMON_UNIT \<and> R_DAEMON_DROPIN \<in> set dropins \<and> distinct dropins \<and>
         set dropins \<subseteq> {R_DAEMON_DROPIN, R_VENDOR_DROPIN, R_DENY_GUARD_DROPIN})
       (Refusal (''OpenSnitch effective unit file/drop-in drift: '' @ fragment @ '' + '' @ loaded))
     (rbind (if R_VENDOR_DROPIN \<in> set dropins then vendor_dropin_contract V R_VENDOR_DROPIN else Inr ()) (\<lambda>_.
     if R_DENY_GUARD_DROPIN \<in> set dropins then
       rbind (ctx_stat V R_DENY_GUARD_DROPIN) (\<lambda>info.
       demand (if root_regular info then rbind (ctx_digest V R_DENY_GUARD_DROPIN) (\<lambda>d. Inr (d = R_DENY_GUARD_DROPIN_SHA256)) else Inr False)
         (Refusal ''deny-guard drop-in must be the root-owned immutable image file (byte identity drift)'') (Inr ()))
     else Inr ()))))"

definition daemon_exec_contract :: "string \<Rightarrow> unit result" where
  "daemon_exec_contract value =
     require (exec_paths value = [R_DAEMON]) (Refusal ''effective daemon ExecStart binary mismatch'')
     (require (exec_argvs value = [R_DAEMON @ '' '']) (Refusal (''effective daemon ExecStart must be only '' @ R_DAEMON @ ''; CLI config/IPC/policy overrides are refused''))
     (Inr ()))"

definition bridge_properties :: "(string \<times> string) list" where
  "bridge_properties =
    [(''User'', ''snitchwatch''), (''Group'', ''snitchwatch''), (''NoNewPrivileges'', ''yes''), (''CapabilityBoundingSet'', []), (''AmbientCapabilities'', []),
     (''ProtectSystem'', ''strict''), (''ProtectHome'', ''yes''), (''PrivateTmp'', ''yes''), (''PrivateDevices'', ''yes''), (''ProtectKernelTunables'', ''yes''),
     (''ProtectKernelModules'', ''yes''), (''ProtectControlGroups'', ''yes''), (''ReadWritePaths'', ''/run/snitchwatch-auth''), (''StateDirectory'', ''snitchwatch''),
     (''StateDirectoryMode'', ''0700''), (''SupplementaryGroups'', []), (''EnvironmentFiles'', []), (''RootDirectory'', []), (''RootImage'', []),
     (''BindPaths'', []), (''BindReadOnlyPaths'', []), (''FragmentPath'', ''/usr/lib/systemd/system/'' @ R_SERVICE), (''DropInPaths'', []),
     (''ExecStartPre'', []), (''ExecStartPost'', []), (''ExecStop'', []), (''ExecStopPost'', []), (''ExecCondition'', [])]"

definition bridge_environment :: "(string \<times> string) list" where
  "bridge_environment = [(''SNITCHWATCH_SYSTEM_BRIDGE'', ''1''), (''SNITCHWATCH_WS_SOCKET'', ''/run/snitchwatch/bridge.sock''),
     (''SNITCHWATCH_WS_TOKEN_PATH'', ''/run/snitchwatch-auth/token''), (''HOME'', ''/var/lib/snitchwatch''), (''XDG_STATE_HOME'', ''/var/lib'')]"

definition bridge_contract :: "view \<Rightarrow> (string \<times> string) list \<Rightarrow> unit result" where
  "bridge_contract V actual =
     rbind (rall (\<lambda>(name, value). if name = ''DropInPaths'' then Inr () else rbind (shown_field actual name) (\<lambda>v.
       require (v = value) (Refusal (''effective bridge property drift: '' @ name)) (Inr ()))) bridge_properties) (\<lambda>_.
     rbind (shown_field actual ''ExecStart'') (\<lambda>exec.
     require (exec_paths exec = [R_BINARY] \<and> exec_argvs exec = [R_BINARY @ '' ''])
       (Refusal (''effective bridge ExecStart must be only '' @ R_BINARY))
     (rbind (rbind (shown_field actual ''Environment'') shlex_split) (\<lambda>env.
     require (set (pairs_of CHR ''='' env) = set bridge_environment) (Refusal ''effective bridge environment drift'')
     (rbind (shown_field actual ''TriggeredBy'') (\<lambda>triggers.
     require (set (words triggers) = set R_SOCKETS) (Refusal ''effective bridge socket association drift'')
     (rbind (shown_field actual ''RestrictAddressFamilies'') (\<lambda>families.
     require (set (words families) = {''AF_UNIX'', ''AF_INET'', ''AF_INET6''}) (Refusal ''effective bridge address-family restriction drift'')
       (Inr ())))))))))"

definition socket_properties :: "string \<Rightarrow> string \<Rightarrow> string \<Rightarrow> string \<Rightarrow> (string \<times> string) list" where
  "socket_properties u path grp mode = [(''Listen'', path @ '' (Stream)''), (''SocketUser'', ''root''), (''SocketGroup'', grp), (''SocketMode'', mode),
     (''Accept'', ''no''), (''Triggers'', R_SERVICE), (''FragmentPath'', ''/usr/lib/systemd/system/'' @ u), (''DropInPaths'', [])]"

definition socket_contract :: "view \<Rightarrow> string \<times> string \<times> string \<times> string \<Rightarrow> unit result" where
  "socket_contract V s = (case s of (u, path, grp, mode) \<Rightarrow>
     rbind (props V u [''Listen'', ''SocketUser'', ''SocketGroup'', ''SocketMode'', ''Accept'', ''Triggers'', ''FragmentPath'', ''DropInPaths'', ''NeedDaemonReload'']) (\<lambda>ps.
     rbind (loaded_current u ps) (\<lambda>_.
     require (set (filter (\<lambda>p. fst p \<noteq> ''NeedDaemonReload'') ps) = set (socket_properties u path grp mode))
       (Refusal (''effective socket contract drift: '' @ u)) (Inr ()))))"

definition daemon_contract :: "view \<Rightarrow> unit result" where
  "daemon_contract V =
     rbind (props V ''opensnitch.service'' [''WorkingDirectory'', ''Wants'', ''After'', ''Requires'', ''Requisite'', ''BindsTo'', ''PartOf'', ''ExecStart'',
       ''FragmentPath'', ''DropInPaths'', ''NeedDaemonReload'']) (\<lambda>daemon.
     rbind (loaded_current ''opensnitch.service'' daemon) (\<lambda>_.
     rbind (daemon_unit_contract V daemon) (\<lambda>_.
     rbind (rbind (shown_field daemon ''ExecStart'') daemon_exec_contract) (\<lambda>_.
     let names_socket = (\<lambda>k. rbind (shown_field daemon k) (\<lambda>v. Inr (R_SOCKETS ! 0 \<in> set (words v)))) in
     demand (all_of [rbind (shown_field daemon ''WorkingDirectory'') (\<lambda>d. Inr (d = ''!/run/snitchwatch'')), names_socket ''Wants'', names_socket ''After''])
       (Refusal ''OpenSnitch effective Unix socket CWD/dependencies drift'')
     (demand (rbind (rany names_socket [''Requires'', ''Requisite'', ''BindsTo'', ''PartOf'']) (\<lambda>b. Inr (\<not> b)))
       (Refusal ''OpenSnitch must only Want the bridge gRPC socket: a socket stop would stop the firewall'') (Inr ()))))))"

definition unit_contract :: "view \<Rightarrow> (string \<times> string) list result" where
  "unit_contract V =
     rbind (props V R_SERVICE (map fst bridge_properties @ [''ExecStart'', ''Environment'', ''TriggeredBy'', ''RestrictAddressFamilies'', ''MainPID'', ''NeedDaemonReload''])) (\<lambda>actual.
     rbind (loaded_current R_SERVICE actual) (\<lambda>_.
     rbind (rbind (shown_field actual ''DropInPaths'') (vendor_dropin_contract V)) (\<lambda>_.
     rbind (bridge_contract V actual) (\<lambda>_.
     rbind (rall (socket_contract V) [(R_SOCKETS ! 0, ''/run/snitchwatch/opensnitchd.sock'', ''root'', ''0600''),
       (R_SOCKETS ! 1, ''/run/snitchwatch/bridge.sock'', ''snitchwatch-ui'', ''0660'')]) (\<lambda>_.
     rbind (daemon_contract V) (\<lambda>_. Inr actual))))))"

section \<open>The daemon configuration\<close>

definition regular_root_json :: "view \<Rightarrow> string \<Rightarrow> json option result" where
  "regular_root_json V name =
     rbind (lookup V name) (\<lambda>info.
     if (case info of None \<Rightarrow> False | Some m \<Rightarrow> root_regular m)
     then (case ctx_json V name of
         Inr v \<Rightarrow> Inr (if is_dict v then Some v else None)
       | Inl e \<Rightarrow> (case e of OSError _ \<Rightarrow> Inr None | FileNotFoundError \<Rightarrow> Inr None | ValueError _ \<Rightarrow> Inr None | _ \<Rightarrow> Inl e))
     else Inr None)"

definition deny_opt_in :: "view \<Rightarrow> bool result" where
  "deny_opt_in V =
     rbind (regular_root_json V R_DENY_MARKER) (\<lambda>marker. case marker of None \<Rightarrow> Inr False | Some marker \<Rightarrow>
     rbind (if truthy marker then all_of [get_is marker ''schema'' (JInt 1), rbind (get marker ''confirmedAt'') (\<lambda>v. Inr (is_str v)),
         rbind (get marker ''id'') (\<lambda>v. Inr (is_str v))] else Inr False) (\<lambda>valid.
     if \<not> valid then Inr False
     else rbind (present V R_DENY_STATE) (\<lambda>there.
       if \<not> there then Inr True
       else rbind (regular_root_json V R_DENY_STATE) (\<lambda>state. case state of None \<Rightarrow> Inr False | Some state \<Rightarrow>
         if truthy state then all_of [get_identical state ''pending'' (JBool False), same (get state ''id'') (index marker ''id'')] else Inr False))))"

definition config_contract :: "view \<Rightarrow> string \<Rightarrow> json result" where
  "config_contract V address =
     rbind (ctx_json V R_CONFIG) (\<lambda>config.
     demand (rbind (get2 config ''Server'' ''Address'') (\<lambda>a. Inr (pyeq a (JStr address))))
       (Refusal ''live /etc Server.Address drift; use the explicit migration helper'')
     (rbind (get config ''DefaultAction'') (\<lambda>action.
     rbind (if pyeq action (JStr ''deny'')
       then demand (deny_opt_in V) (Refusal ''DefaultAction drift: deny is accepted only with a confirmed operator opt-in marker and no pending deny trial'') (Inr ())
       else require (pyeq action (JStr ''allow'')) (Refusal ''DefaultAction drift: system readiness requires allow; deny is an explicit local opt-in'') (Inr ())) (\<lambda>_.
     demand (get_is config ''ProcMonitorMethod'' (JStr ''proc'')) (Refusal ''ProcMonitorMethod drift: system profile requires proc'') (Inr config)))))"

section \<open>Local overrides\<close>

definition inert_dropin_directory :: "view \<Rightarrow> string \<Rightarrow> bool result" where
  "inert_dropin_directory V name = rbind (lookup V name) (\<lambda>info. case info of None \<Rightarrow> Inr False | Some m \<Rightarrow>
     if m_kind m = KDir \<and> m_uid m = 0 \<and> m_gid m = 0 \<and> \<not> go_writable m
     then rbind (listdir V name) (\<lambda>ns. Inr (ns = [])) else Inr False)"

definition system_dirs :: "string list" where
  "system_dirs = [''/etc/systemd/system.control'', ''/run/systemd/system.control'', ''/run/systemd/transient'',
     ''/run/systemd/generator.early'', ''/etc/systemd/system'', ''/run/systemd/system'',
     ''/run/systemd/generator'', ''/usr/local/lib/systemd/system'', ''/run/systemd/generator.late'']"

definition system_paths :: "string list" where
  "system_paths = [directory @ ''/'' @ u @ suffix. directory \<leftarrow> system_dirs, u \<leftarrow> R_UNITS, suffix \<leftarrow> [[], ''.d'']]
     @ map (\<lambda>directory. directory @ ''/service.d'') system_dirs"

definition system_dropins :: "string list" where
  "system_dropins = filter (\<lambda>p. endswith p ''.d'') system_paths"

definition fixed_user_dirs :: "string list" where
  "fixed_user_dirs = [''/etc/systemd/user'', ''/run/systemd/user'', ''/etc/xdg/systemd/user'',
     ''/usr/local/lib/systemd/user'', ''/usr/local/share/systemd/user'', ''/usr/share/systemd/user'']"

definition record_dirs :: "string \<Rightarrow> string list result" where
  "record_dirs line = (let fs = split_on CHR '':'' line in
     require (length fs = 7 \<and> py_isdigit (fs ! 2)) (Refusal ''invalid all-UID account inventory'')
     (Inr ((if startswith (fs ! 5) ''/'' then map (\<lambda>s. fs ! 5 @ s) [''/.config/systemd/user.control'', ''/.config/systemd/user'', ''/.local/share/systemd/user''] else [])
       @ map (\<lambda>s. ''/run/user/'' @ fs ! 2 @ ''/systemd/'' @ s) [''user.control'', ''transient'', ''generator.early'', ''user'', ''generator'', ''generator.late''])))"

definition user_dirs :: "view \<Rightarrow> string list result" where
  "user_dirs V = rbind (run_out V [''getent'', ''passwd'']) (\<lambda>s.
     rbind (rmap record_dirs (splitlines s)) (\<lambda>ds. Inr (remdups (fixed_user_dirs @ concat ds))))"

text \<open>\<open>s.rsplit('.', 1)[-1]\<close>\<close>

definition extension :: "string \<Rightarrow> string" where
  "extension s = rev (takeWhile (\<lambda>c. c \<noteq> CHR ''.'') (rev s))"

definition user_paths :: "view \<Rightarrow> string \<Rightarrow> string list result" where
  "user_paths V directory = rbind (listdir V directory) (\<lambda>entries.
     Inr (map (\<lambda>s. directory @ ''/snitchwatch-bridge.service'' @ s) [[], ''.d'']
       @ map (\<lambda>e. directory @ ''/'' @ e @ ''/snitchwatch-bridge.service'')
           (filter (\<lambda>e. extension e \<in> {''wants'', ''requires'', ''upholds''}) entries)))"

definition no_override :: "view \<Rightarrow> string \<Rightarrow> unit result" where
  "no_override V name =
     rbind (if name \<in> set system_dropins then inert_dropin_directory V name else Inr False) (\<lambda>inert.
     if inert then Inr ()
     else demand (rbind (present V name) (\<lambda>b. Inr (\<not> b))) (Refusal (''local unit override/enabled legacy user service: '' @ name)) (Inr ()))"

definition local_conflicts :: "view \<Rightarrow> unit result" where
  "local_conflicts V =
     rbind (user_dirs V) (\<lambda>dirs.
     rbind (rmap (user_paths V) dirs) (\<lambda>paths.
     rbind (rall (no_override V) (system_paths @ concat paths)) (\<lambda>_.
     rbind (command V [''systemctl'', ''--global'', ''is-enabled'', ''snitchwatch-bridge.service''] [0, 1, 3, 4]) (\<lambda>r.
     require (strip (rp_out r) \<in> {''disabled'', ''masked'', ''not-found''})
       (Refusal (''legacy global user service remains enabled: '' @ strip (rp_out r))) (Inr ())))))"

end
