(* ===== verification/ReadyFlatpak.thy ===== *)
theory ReadyFlatpak
  imports ReadyUnits
begin

text \<open>
  The Flatpak part of \<^verbatim>\<open>bazzite-tower-snitchwatch-common.py\<close>: every deployment of the GUI that a user or
  the system has installed must carry no more than the reviewed authority (\<open>flatpak_profiles\<close>). The metadata
  is read without following links and up to a bound, its lines must match one strict grammar, and only then
  Python's \<open>configparser\<close> reads them; \<open>read_ini\<close> is that parser on such lines.
\<close>

section \<open>Constants\<close>

definition BASE_GLOBAL_OVERRIDE :: string where "BASE_GLOBAL_OVERRIDE = ''/var/lib/flatpak/overrides/global''"
definition BASE_GLOBAL_OVERRIDE_SHA256 :: string where
  "BASE_GLOBAL_OVERRIDE_SHA256 = ''85e2bf73515c8da8950f1afbbfaedfeca453777eeb0be0ea869f4db6c779bd80''"
definition METADATA_MAX_BYTES :: nat where "METADATA_MAX_BYTES = 65536"
definition CONTEXT_KEYS :: "string list" where "CONTEXT_KEYS = [''shared'', ''sockets'', ''devices'', ''filesystems'', ''persistent'']"
definition METADATA_SECTIONS :: "string list" where
  "METADATA_SECTIONS = [''Application'', ''Build'', ''Context'', ''Environment'', ''Session Bus Policy'', ''System Bus Policy'',
     ''Extension org.snitchwatch.Snitchwatch.Debug'']"

section \<open>The grammar of a metadata line\<close>

definition printable :: "char \<Rightarrow> bool" where
  "printable c \<longleftrightarrow> 32 \<le> code c \<and> code c \<noteq> 127"

definition metadata_value :: "string \<Rightarrow> bool" where
  "metadata_value v \<longleftrightarrow> v = [] \<or>
     (\<not> is_space (hd v) \<and> printable (hd v) \<and> \<not> is_space (last v) \<and> printable (last v) \<and> list_all (\<lambda>c. printable c \<or> c = tab) v)"

definition key_char :: "char \<Rightarrow> bool" where
  "key_char c \<longleftrightarrow> is_alnum c \<or> c \<in> set ''._-''"

definition key_line :: "string \<Rightarrow> bool" where
  "key_line l \<longleftrightarrow> takeWhile key_char l \<noteq> [] \<and> (case dropWhile key_char l of
       [] \<Rightarrow> False
     | c # r \<Rightarrow> if c = CHR ''='' then metadata_value r
         else c = CHR ''['' \<and> (let locale_char = (\<lambda>c. key_char c \<or> c = CHR ''@''); rest = dropWhile locale_char r in
           takeWhile locale_char r \<noteq> [] \<and> startswith rest '']='' \<and> metadata_value (drop 2 rest)))"

definition section_line :: "string \<Rightarrow> bool" where
  "section_line l \<longleftrightarrow> 3 \<le> length l \<and> hd l = CHR ''['' \<and> last l = CHR '']'' \<and>
     list_all (\<lambda>c. c \<notin> {CHR ''['', CHR '']''} \<and> printable c) (butlast (drop 1 l))"

definition metadata_line :: "string \<Rightarrow> bool" where
  "metadata_line l \<longleftrightarrow> l = [] \<or> (hd l = CHR ''#'' \<and> list_all printable (drop 1 l)) \<or> section_line l \<or> key_line l"

section \<open>configparser\<close>

text \<open>The sections in order and the entries of \<open>[DEFAULT]\<close>, which is no section and adds to all of them.\<close>

record ini =
  in_defaults :: "(string \<times> string) list"
  in_sections :: "(string \<times> (string \<times> string) list) list"

text \<open>
  One line: \<open>cur\<close> is the section it falls in. A repeated section, a repeated key and a key before any
  section are errors; a repeated \<open>[DEFAULT]\<close> continues it.
\<close>

definition ini_error :: pyexc where
  "ini_error = Refusal ''unreadable Flatpak metadata''"

definition ini_line :: "string \<Rightarrow> ini \<times> string option \<Rightarrow> (ini \<times> string option) result" where
  "ini_line l st = (case st of (m, cur) \<Rightarrow>
     if l = [] \<or> hd l = CHR ''#'' then Inr (m, cur)
     else if hd l = CHR ''['' then
       (let name = butlast (drop 1 l) in
        if name = ''DEFAULT'' then Inr (m, Some name)
        else require (name \<notin> fst ` set (in_sections m)) ini_error
          (Inr (m\<lparr>in_sections := in_sections m @ [(name, [])]\<rparr>, Some name)))
     else (case cur of None \<Rightarrow> Inl ini_error | Some name \<Rightarrow>
       (case partition_on CHR ''='' l of (k, _, v) \<Rightarrow>
        if name = ''DEFAULT'' then
          require (k \<notin> fst ` set (in_defaults m)) ini_error (Inr (m\<lparr>in_defaults := in_defaults m @ [(k, v)]\<rparr>, cur))
        else (case map_of (in_sections m) name of None \<Rightarrow> Inl ini_error | Some d \<Rightarrow>
          require (k \<notin> fst ` set d) ini_error (Inr (m\<lparr>in_sections := dict_set name (d @ [(k, v)]) (in_sections m)\<rparr>, cur))))))"

definition read_ini :: "string list \<Rightarrow> ini result" where
  "read_ini ls = rbind (rfold ini_line ls (\<lparr>in_defaults = [], in_sections = []\<rparr>, None)) (\<lambda>st. Inr (fst st))"

text \<open>\<open>dict(meta[s])\<close>: the entries of a section, then the defaults it does not set.\<close>

definition ini_section :: "ini \<Rightarrow> string \<Rightarrow> (string \<times> string) list option" where
  "ini_section m s = map_option (\<lambda>d. d @ filter (\<lambda>p. fst p \<notin> fst ` set d) (in_defaults m)) (map_of (in_sections m) s)"

definition section_items :: "ini \<Rightarrow> string \<Rightarrow> (string \<times> string) list" where
  "section_items m s = (case ini_section m s of None \<Rightarrow> [] | Some d \<Rightarrow> d)"

definition ini_get :: "ini \<Rightarrow> string \<Rightarrow> string \<Rightarrow> string option" where
  "ini_get m s k = (case ini_section m s of None \<Rightarrow> None | Some d \<Rightarrow> map_of d k)"

definition ini_or_empty :: "string option \<Rightarrow> string" where
  "ini_or_empty v = (case v of None \<Rightarrow> [] | Some s \<Rightarrow> s)"

text \<open>\<open>set(v.strip(';').split(';')) - {''}\<close>\<close>

definition strip_of :: "char \<Rightarrow> string \<Rightarrow> string" where
  "strip_of d s = rev (dropWhile (\<lambda>c. c = d) (rev (dropWhile (\<lambda>c. c = d) s)))"

definition context_values :: "ini \<Rightarrow> string \<Rightarrow> string list" where
  "context_values m k = filter (\<lambda>v. v \<noteq> []) (split_on CHR '';'' (strip_of CHR '';'' (ini_or_empty (ini_get m ''Context'' k))))"

section \<open>Reading metadata\<close>

definition is_os_error :: "pyexc \<Rightarrow> bool" where
  "is_os_error e = (case e of FileNotFoundError \<Rightarrow> True | OSError _ \<Rightarrow> True | _ \<Rightarrow> False)"

definition unreadable_metadata :: "string \<Rightarrow> string \<Rightarrow> pyexc" where
  "unreadable_metadata p why = Refusal (''unreadable Flatpak metadata '' @ p @ '': '' @ why)"

definition read_user_metadata :: "view \<Rightarrow> string \<Rightarrow> string result" where
  "read_user_metadata V p = (case v_open V p of
       Inl e \<Rightarrow> Inl (if is_os_error e then unreadable_metadata p ''cannot open'' else e)
     | Inr (m, b) \<Rightarrow>
       require (m_kind m = KReg) (unreadable_metadata p ''not a regular file'')
       (let data = take (METADATA_MAX_BYTES + 1) b in
        require (length data \<le> METADATA_MAX_BYTES) (unreadable_metadata p (''larger than '' @ nat_str METADATA_MAX_BYTES @ '' bytes''))
        (case utf8_decode data of None \<Rightarrow> Inl (unreadable_metadata p ''invalid UTF-8'') | Some s \<Rightarrow> Inr s)))"

definition bad_line :: "string list \<Rightarrow> nat option" where
  "bad_line ls = (case dropWhile (\<lambda>(n, l). metadata_line l) (enumerate 1 ls) of [] \<Rightarrow> None | (n, _) # _ \<Rightarrow> Some n)"

definition read_metadata :: "view \<Rightarrow> string \<Rightarrow> ini result" where
  "read_metadata V p = rbind (read_user_metadata V p) (\<lambda>s.
     let ls = split_on newline (if endswith s [newline] then butlast s else s) in
     case bad_line ls of
       Some n \<Rightarrow> Inl (unreadable_metadata p (''non-canonical line '' @ nat_str n))
     | None \<Rightarrow> read_ini ls)"

section \<open>Granted authority\<close>

definition flatpak_sockets_match :: "view \<Rightarrow> string set \<Rightarrow> bool result" where
  "flatpak_sockets_match V sockets =
     (let normative = {''wayland'', ''fallback-x11''} in
      if sockets = normative then Inr True
      else if sockets \<noteq> normative \<union> {''x11''} then Inr False
      else case run_out V [''flatpak'', ''--version''] of
          Inl e \<Rightarrow> Inl (if is_os_error e \<or> e = TimeoutExpired then Refusal ''cannot detect Flatpak version for canonical sockets'' else e)
        | Inr version \<Rightarrow> require (version \<in> set [''Flatpak 1.18.'' @ [n] @ nl. n \<leftarrow> ''1234'', nl \<leftarrow> [[], [newline]]])
            (Refusal ''unreviewed Flatpak version for canonical sockets'') (Inr True))"

definition required_filesystems :: "string list" where
  "required_filesystems = [''/run/snitchwatch:ro'', ''/run/snitchwatch-auth:ro'', ''xdg-config/snitchwatch:create'']"

definition allowed_names :: "string list \<Rightarrow> string list" where
  "allowed_names finish_args =
     [''org.freedesktop.Notifications'', ''org.kde.StatusNotifierWatcher'', ''com.canonical.AppMenu.Registrar'',
      ''org.kde.kconfig.notify'', ''org.kde.KGlobalSettings'', ''org.kde.kdeconnect'']
     @ (if ''--talk-name=org.snitchwatch.Scanner'' \<in> set finish_args then [''org.snitchwatch.Scanner''] else [])"

definition pinned_filesystems :: "string list \<Rightarrow> string list" where
  "pinned_filesystems finish_args = map (drop 13) (filter (\<lambda>a. startswith a ''--filesystem='') finish_args)"

definition protected_environment :: "(string \<times> string) list" where
  "protected_environment = [(''SNITCHWATCH_WS_SOCKET'', ''/run/snitchwatch/bridge.sock''),
     (''SNITCHWATCH_WS_TOKEN_PATH'', ''/run/snitchwatch-auth/token'')]"

definition check_identity :: "string \<Rightarrow> ini \<Rightarrow> unit result" where
  "check_identity runtime m =
     require (fst ` set (in_sections m) \<subseteq> set METADATA_SECTIONS) (Refusal ''same-ID Flatpak has unreviewed metadata section'')
     (require (fst ` set (section_items m ''Context'') \<subseteq> set CONTEXT_KEYS) (Refusal ''same-ID Flatpak has unreviewed [Context] key'')
     (require (ini_get m ''Environment'' ''SNITCHWATCH_SYSTEM_BRIDGE'' = Some ''1'') (Refusal ''same-ID Flatpak uses a legacy/unknown bridge profile'')
     (rbind (rall (\<lambda>(name, expected). require (ini_get m ''Environment'' name \<in> {None, Some expected})
         (Refusal (''same-ID Flatpak redirects protected system IPC: '' @ name)) (Inr ())) protected_environment) (\<lambda>_.
     require (ini_get m ''Application'' ''name'' = Some R_APP \<and> ini_or_empty (ini_get m ''Application'' ''runtime'') = runtime)
       (Refusal ''same-ID Flatpak runtime/application drift'') (Inr ())))))"

definition check_context :: "view \<Rightarrow> string list \<Rightarrow> ini \<Rightarrow> unit result" where
  "check_context V finish_args m =
     demand (if set (context_values m ''shared'') = {''ipc''}
         then rbind (flatpak_sockets_match V (set (context_values m ''sockets''))) (\<lambda>b. Inr (b \<and> set (context_values m ''devices'') = {''dri''})) else Inr False)
       (Refusal ''same-ID Flatpak grants unexpected network/socket/device authority'')
     (let filesystems = set (context_values m ''filesystems'') in
      require (set required_filesystems \<subseteq> filesystems \<and>
         filesystems \<subseteq> set (required_filesystems @ [''xdg-config/kdeglobals:ro''] @ pinned_filesystems finish_args))
       (Refusal ''same-ID Flatpak filesystem profile mismatch'')
     (require (set (context_values m ''persistent'') = {''.local/share/snitchwatch'', ''.local/state/snitchwatch''})
       (Refusal ''same-ID Flatpak app-state persistence mismatch'') (Inr ())))"

definition check_bus :: "string list \<Rightarrow> ini \<Rightarrow> unit result" where
  "check_bus finish_args m =
     (let policies = section_items m ''Session Bus Policy'' in
     require (section_items m ''System Bus Policy'' = []) (Refusal ''same-ID Flatpak has system bus authority'')
     (require (fst ` set policies \<subseteq> set (allowed_names finish_args) \<and> list_all (\<lambda>p. snd p = ''talk'') policies)
       (Refusal ''same-ID Flatpak session bus grants mismatch'') (Inr ())))"

definition check_metadata :: "view \<Rightarrow> string \<Rightarrow> string list \<Rightarrow> ini \<Rightarrow> unit result" where
  "check_metadata V runtime finish_args m =
     rbind (check_identity runtime m) (\<lambda>_. rbind (check_context V finish_args m) (\<lambda>_. check_bus finish_args m))"

section \<open>Stores\<close>

definition is_symlink :: "view \<Rightarrow> string \<Rightarrow> bool" where
  "is_symlink V p = (case v_stat V p of Inl _ \<Rightarrow> False | Inr m \<Rightarrow> m_kind m = KLink)"

definition check_override :: "view \<Rightarrow> string \<Rightarrow> unit result" where
  "check_override V p =
     rbind (ctx_path p) (\<lambda>p. rbind (v_exists V p) (\<lambda>there.
     if \<not> there \<and> \<not> is_symlink V p then Inr ()
     else require (p = BASE_GLOBAL_OVERRIDE) (Refusal (''same-ID/global Flatpak overrides require explicit review: '' @ p))
       (rbind (v_resolve V p) (\<lambda>real.
       require (real = BASE_GLOBAL_OVERRIDE) (Refusal ''base global Flatpak override must be canonical without symlinks'')
       (rbind (ctx_stat V BASE_GLOBAL_OVERRIDE) (\<lambda>info.
       require (root_regular info \<and> m_gid info = 0) (Refusal ''base global Flatpak override must be root-owned non-writable regular file'')
       (rbind (ctx_digest V p) (\<lambda>d.
       require (d = BASE_GLOBAL_OVERRIDE_SHA256) (Refusal ''base global Flatpak override byte identity drift'') (Inr ())))))))))"

definition check_deployments :: "view \<Rightarrow> string \<Rightarrow> string list \<Rightarrow> string \<Rightarrow> unit result" where
  "check_deployments V runtime finish_args store =
     rbind (ctx_path (store @ ''/app/'' @ R_APP)) (\<lambda>appdir. rbind (v_exists V appdir) (\<lambda>there.
     if \<not> there then Inr ()
     else rbind (v_glob V appdir ''*/*/active/metadata'') (\<lambda>deployments.
       require (deployments \<noteq> []) (Refusal (''cannot prove installed same-ID Flatpak profile: '' @ store))
       (rall (\<lambda>p. rbind (read_metadata V p) (check_metadata V runtime finish_args)) deployments))))"

definition runtime_ref :: "string \<Rightarrow> bool" where
  "runtime_ref s \<longleftrightarrow> startswith s ''org.kde.Platform/x86_64/'' \<and>
     (case split_on CHR ''.'' (removeprefix s ''org.kde.Platform/x86_64/'') of [a, b] \<Rightarrow> isdecimal a \<and> isdecimal b | _ \<Rightarrow> False)"

definition flatpak_stores :: "view \<Rightarrow> string list result" where
  "flatpak_stores V =
     rbind (run_out V [''flatpak'', ''--installations'']) (\<lambda>s. let stores = splitlines s in
     require (stores \<noteq> [] \<and> list_all (\<lambda>n. startswith n ''/'' \<and> no_dotdot n) stores) (Refusal ''cannot enumerate system Flatpak installations'')
     (rbind (homes V) (\<lambda>hs. Inr (sort (remdups (stores @ map (\<lambda>h. h @ ''/.local/share/flatpak'') hs))))))"

definition flatpak_profiles :: "view \<Rightarrow> string list result" where
  "flatpak_profiles V =
     rbind (flatpak_stores V) (\<lambda>stores.
     rbind (rbind (ctx_json V R_MANIFEST) (\<lambda>m. get_or m ''flatpak'' (JObj []))) (\<lambda>expected.
     rbind (rbind (get_or expected ''runtimeRef'' (JStr [])) json_str) (\<lambda>runtime.
     require (runtime_ref runtime) (Refusal ''missing verified Flatpak runtime reference'')
     (rbind (get_or expected ''finishArgs'' (JList [])) (\<lambda>args.
     require (case args of JList xs \<Rightarrow> list_all is_str xs | _ \<Rightarrow> False) (Refusal ''malformed verified Flatpak finish args'')
     (rbind (rbind (as_list args) (rmap json_str)) (\<lambda>finish_args.
     rbind (rall (\<lambda>store. rbind (rall (\<lambda>n. check_override V (store @ ''/overrides/'' @ n)) [''global'', R_APP]) (\<lambda>_.
       check_deployments V runtime finish_args store)) stores) (\<lambda>_. Inr stores))))))))"

end
