(* ===== verification/Ready.thy ===== *)
theory Ready
  imports ReadyFlatpak
begin

text \<open>
  The run-time part of \<^verbatim>\<open>bazzite-tower-snitchwatch-common.py\<close>: no legacy bridge may run or listen
  (\<open>legacy_absent\<close>), the units must be in a settled state (\<open>service_state\<close>), and
  \<open>runtime_readiness\<close> composes all parts with the checks of the running bridge, the running daemon and the
  sockets and directories they share.
\<close>

section \<open>Legacy bridges\<close>

definition bridge_names :: "string list" where
  "bridge_names = [''snitchwatch-bridge-cli'', ''snitchwatch-bridge'']"

definition removesuffix :: "string \<Rightarrow> string \<Rightarrow> string" where
  "removesuffix s p = (if endswith s p then take (length s - length p) s else s)"

text \<open>One entry of \<open>/proc\<close>: a process that has ended is skipped.\<close>

definition legacy_process :: "view \<Rightarrow> int \<Rightarrow> string \<Rightarrow> unit result" where
  "legacy_process V system_pid name =
     (if \<not> py_isdigit name then Inr ()
      else rbind (to_int name) (\<lambda>pid.
      if pid = system_pid then Inr ()
      else (case rbind (v_readlink V (''/proc/'' @ name @ ''/exe'')) (\<lambda>exe. rbind (v_read V (''/proc/'' @ name @ ''/cmdline'')) (\<lambda>b.
          Inr (exe, split_on CHR 0x00 b ! 0))) of
          Inl e \<Rightarrow> if e = FileNotFoundError then Inr ()
            else Inl (if e = OSError ''PermissionError'' then Refusal ''cannot inspect all-UID process identity; invoke the read-only helper explicitly as root'' else e)
        | Inr (exe, line) \<Rightarrow>
            require (base_name (removesuffix exe '' (deleted)'') \<notin> set bridge_names \<and> base_name line \<notin> set bridge_names)
              (Refusal (''legacy/competing bridge process remains: PID'' @ name)) (Inr ()))))"

text \<open>The suffixes of a text; \<open>re.search\<close> of the pattern of the per-user and temporary bridge sockets.\<close>

fun tails :: "string \<Rightarrow> string list" where
  "tails [] = [[]]"
| "tails (c # s) = (c # s) # tails s"

definition user_socket :: "string \<Rightarrow> bool" where
  "user_socket s \<longleftrightarrow> startswith s ''/run/user/'' \<and> (let r = removeprefix s ''/run/user/'' in
     takeWhile is_digit r \<noteq> [] \<and> startswith (dropWhile is_digit r) ''/snitchwatch/bridge.sock'')"

definition temporary_socket :: "string \<Rightarrow> bool" where
  "temporary_socket s \<longleftrightarrow> startswith s ''/tmp/'' \<and> (let word = takeWhile (\<lambda>c. c \<noteq> CHR '' '') (removeprefix s ''/tmp/'') in
     list_ex (\<lambda>t. startswith t ''snitchwatch'' \<and> contains ''.sock'' (removeprefix t ''snitchwatch'')) (tails word))"

definition legacy_socket :: "string \<Rightarrow> bool" where
  "legacy_socket s \<longleftrightarrow> list_ex (\<lambda>t. user_socket t \<or> temporary_socket t) (tails s)"

definition legacy_absent :: "view \<Rightarrow> int \<Rightarrow> unit result" where
  "legacy_absent V system_pid =
     rbind (v_list V ''/proc'') (\<lambda>names.
     rbind (rall (legacy_process V system_pid) names) (\<lambda>_.
     rbind (run_out V [''ss'', ''-H'', ''-ltnp'', ''sport = :50051'']) (\<lambda>tcp.
     require (strip tcp = []) (Refusal ''legacy TCP listener remains on port50051'')
     (rbind (run_out V [''ss'', ''-H'', ''-lxnp'']) (\<lambda>unix.
     require (\<not> legacy_socket unix) (Refusal ''legacy per-user bridge Unix listener remains'') (Inr ()))))))"

section \<open>Unit states\<close>

definition unit_state :: "view \<Rightarrow> string \<Rightarrow> (string \<times> string \<times> string) result" where
  "unit_state V u =
     rbind (command V [''systemctl'', ''is-enabled'', u] [0, 1, 3, 4]) (\<lambda>e.
     rbind (command V [''systemctl'', ''is-active'', u] [0, 1, 3, 4]) (\<lambda>a.
     require (strip (rp_out e) \<in> set [''enabled'', ''enabled-runtime'', ''disabled'', ''static'', ''masked'', ''masked-runtime'', ''indirect''])
       (Refusal (''unknown enabled state: '' @ u))
     (require (strip (rp_out a) \<in> set [''active'', ''inactive'', ''failed'']) (Refusal (''unit is transitioning: '' @ u))
     (Inr (u, strip (rp_out e), strip (rp_out a))))))"

definition service_state :: "view \<Rightarrow> (string \<times> string \<times> string) list result" where
  "service_state V = rmap (unit_state V) R_UNITS"

definition enabled_of :: "(string \<times> string \<times> string) list \<Rightarrow> string \<Rightarrow> string option" where
  "enabled_of states u = map_option fst (map_of states u)"

definition active_of :: "(string \<times> string \<times> string) list \<Rightarrow> string \<Rightarrow> string option" where
  "active_of states u = map_option snd (map_of states u)"

section \<open>The running processes\<close>

definition proc_file :: "int \<Rightarrow> string \<Rightarrow> string" where
  "proc_file pid name = ''/proc/'' @ int_str pid @ ''/'' @ name"

definition proc_link :: "view \<Rightarrow> int \<Rightarrow> string result" where
  "proc_link V pid = rbind (ctx_path (proc_file pid ''exe'')) (v_readlink V)"

definition proc_status :: "view \<Rightarrow> int \<Rightarrow> (string \<times> string) list result" where
  "proc_status V pid = rbind (ctx_text V (proc_file pid ''status'')) (\<lambda>s. Inr (pairs_of CHR '':'' (splitlines s)))"

text \<open>\<open>status.get(k, '')\<close>\<close>

definition status_field :: "(string \<times> string) list \<Rightarrow> string \<Rightarrow> string" where
  "status_field m k = ini_or_empty (map_of m k)"

definition hex_of :: "string \<Rightarrow> int result" where
  "hex_of s = (case py_hex_int s of None \<Rightarrow> Inl (ValueError ''invalid literal for int() with base 16'') | Some n \<Rightarrow> Inr n)"

definition check_bridge_process :: "view \<Rightarrow> int \<Rightarrow> accounts \<Rightarrow> unit result" where
  "check_bridge_process V pid a =
     rbind (proc_link V pid) (\<lambda>exe.
     require (exe = R_BINARY) (Refusal ''running bridge executable path mismatch'')
     (rbind (ctx_digest V (proc_file pid ''exe'')) (\<lambda>d. rbind (ctx_digest V R_BINARY) (\<lambda>d'.
     require (d = d') (Refusal ''running bridge executable hash mismatch'')
     (rbind (proc_status V pid) (\<lambda>st.
     require (words (status_field st ''Uid'') = replicate 4 (int_str (ac_uid a)) \<and> words (status_field st ''Gid'') = replicate 4 (int_str (ac_gid a)))
       (Refusal ''running bridge UID/GID differs from named service account'')
     (demand (if set (words (status_field st ''Groups'')) \<subseteq> {int_str (ac_gid a)}
         then rbind (hex_of (case map_of st ''CapEff'' of None \<Rightarrow> ''-1'' | Some v \<Rightarrow> v)) (\<lambda>caps.
           Inr (caps = 0 \<and> strip (status_field st ''NoNewPrivs'') = ''1''))
         else Inr False)
       (Refusal ''running bridge capabilities/groups/no-new-privileges drift'') (Inr ()))))))))"

definition check_daemon_process :: "view \<Rightarrow> json \<Rightarrow> int result" where
  "check_daemon_process V daemon =
     rbind (props V ''opensnitch.service'' [''MainPID'', ''ExecStart'']) (\<lambda>ps.
     rbind (rbind (shown_field ps ''MainPID'') to_int) (\<lambda>pid.
     require (0 < pid) (Refusal ''patched daemon not active: no MainPID'')
     (rbind (rbind (shown_field ps ''ExecStart'') daemon_exec_contract) (\<lambda>_.
     rbind (proc_link V pid) (\<lambda>exe.
     require (exe = R_DAEMON) (Refusal ''running patched daemon executable path mismatch'')
     (rbind (ctx_digest V (proc_file pid ''exe'')) (\<lambda>d.
     demand (rbind (index2 daemon ''binary'' ''sha256'') (\<lambda>s. Inr (pyeq (JStr d) s))) (Refusal ''running patched daemon executable hash mismatch'')
     (rbind (ctx_bytes V (proc_file pid ''cmdline'')) (\<lambda>line.
     require (line = R_DAEMON @ [CHR 0x00]) (Refusal ''running patched daemon command-line config/IPC/policy override'')
     (rbind (proc_status V pid) (\<lambda>st.
     require (words (status_field st ''Uid'') = replicate 4 ''0'') (Refusal ''running patched daemon must use the root NFQUEUE account'')
       (Inr pid))))))))))))"

text \<open>Path, kind, owner, group and mode (0711, 0600, 0660, 2750, 0640) of what bridge, daemon and GUI share.\<close>

definition runtime_paths :: "accounts \<Rightarrow> (string \<times> kind \<times> int \<times> int \<times> 12 word) list" where
  "runtime_paths a =
    [(''/run/snitchwatch'', KDir, 0, 0, 457), (''/run/snitchwatch/opensnitchd.sock'', KSock, 0, 0, 384),
     (''/run/snitchwatch/bridge.sock'', KSock, 0, ac_ui_gid a, 432), (''/run/snitchwatch-auth'', KDir, ac_uid a, ac_ui_gid a, 1512),
     (''/run/snitchwatch-auth/token'', KReg, ac_uid a, ac_ui_gid a, 416)]"

definition check_runtime_path :: "view \<Rightarrow> string \<times> kind \<times> int \<times> int \<times> 12 word \<Rightarrow> unit result" where
  "check_runtime_path V e = (case e of (p, knd, owner, grp, mode) \<Rightarrow>
     rbind (ctx_stat V p) (\<lambda>info.
     require (m_kind info = knd \<and> int (m_uid info) = owner \<and> int (m_gid info) = grp \<and> m_mode info = mode)
       (Refusal (''runtime DAC/type mismatch: '' @ p))
     (rbind (m_xattrs info) (\<lambda>names.
     require (set names \<inter> {''system.posix_acl_access'', ''system.posix_acl_default''} = {})
       (Refusal (''unexpected runtime ACL grant: '' @ p)) (Inr ())))))"

section \<open>Readiness\<close>

definition check_states :: "(string \<times> string \<times> string) list \<Rightarrow> unit result" where
  "check_states states =
     require (active_of states R_SERVICE = Some ''active'' \<and> active_of states ''opensnitch.service'' = Some ''active'')
       (Refusal ''bridge/OpenSnitch service not active'')
     (require (list_all (\<lambda>u. active_of states u = Some ''active'' \<and> enabled_of states u = Some ''enabled'') R_SOCKETS)
       (Refusal ''system socket units must be persistently enabled and active'') (Inr ()))"

definition runtime_readiness :: "view \<Rightarrow> json result" where
  "runtime_readiness V =
     rbind (immutable V) (\<lambda>_.
     rbind (account_ids V) (\<lambda>a.
     rbind (unit_contract V) (\<lambda>actual.
     rbind (config_contract V ''unix:opensnitchd.sock'') (\<lambda>config.
     rbind (local_conflicts V) (\<lambda>_.
     rbind (flatpak_profiles V) (\<lambda>_.
     rbind (rbind (shown_field actual ''MainPID'') to_int) (\<lambda>pid.
     require (0 < pid) (Refusal ''bridge not active: no MainPID/token yet; cold socket activation is not a completed live preflight'')
     (rbind (check_bridge_process V pid a) (\<lambda>_.
     rbind (legacy_absent V pid) (\<lambda>_.
     rbind (ctx_json V R_DAEMON_MANIFEST) (\<lambda>daemon.
     rbind (check_daemon_process V daemon) (\<lambda>daemon_pid.
     rbind (service_state V) (\<lambda>states.
     rbind (check_states states) (\<lambda>_.
     rbind (rall (check_runtime_path V) (runtime_paths a)) (\<lambda>_.
     rbind (index2 daemon ''patch'' ''sha256'') (\<lambda>patch. rbind (index config ''DefaultAction'') (\<lambda>action.
     Inr (JObj [(''profile'', JStr ''system''), (''bridgePid'', JInt pid), (''daemonPid'', JInt daemon_pid), (''daemonPatchSha256'', patch),
       (''uiGroup'', JStr ''snitchwatch-ui''),
       (''explicitUiMembers'', JList (if ac_members a = [] then [] else map JStr (split_on CHR '','' (ac_members a)))),
       (''defaultAction'', JStr (if pyeq action (JStr ''deny'') then ''deny (operator opt-in)'' else ''allow'')),
       (''procMonitorMethod'', JStr ''proc''), (''graphicalRoundTrip'', JStr ''not checked'')]))))))))))))))))))"

end
