(* ===== verification/ReadyProofs.thy ===== *)
theory ReadyProofs
  imports Ready
begin

text \<open>
  Proofs about \<^verbatim>\<open>bazzite-tower-snitchwatch-common.py\<close>: what each part of an accepted readiness check
  says about the host.
\<close>

section \<open>Files of the host\<close>

text \<open>A root-owned regular file nobody else can write, with the hash \<open>d\<close>.\<close>

definition root_asset :: "view \<Rightarrow> string \<Rightarrow> string \<Rightarrow> bool" where
  "root_asset V name d \<longleftrightarrow> (\<exists>m. ctx_stat V name = Inr m \<and> root_regular m) \<and> ctx_digest V name = Inr d"

lemma root_asset_unique: "root_asset V name d \<Longrightarrow> root_asset V name d' \<Longrightarrow> d = d'"
  by (simp add: root_asset_def)

lemma hex_or_empty_True: "hex_or_empty 64 v = Inr True \<Longrightarrow> \<exists>s. v = JStr s \<and> length s = 64 \<and> list_all is_hex s"
  by (auto simp: hex_or_empty_def hex_match_True split: if_splits)

lemma check_asset_Inr:
  "check_asset V (name, e) = Inr () \<Longrightarrow> \<exists>d. e = JStr d \<and> root_asset V name d \<and>
     (name \<in> fst ` set R_RESERVED_RULES \<longrightarrow> (\<forall>p\<in>set (parents name). \<exists>m. ctx_stat V p = Inr m \<and> m_kind m \<noteq> KLink))"
  by (auto simp: check_asset_def res_simps rany_eq_False root_asset_def split: option.splits dest!: map_of_SomeD hex_or_empty_True)
    (auto simp: map_of_eq_None_keys image_iff)

lemma check_daemon_artifact_Inr:
  "check_daemon_artifact V (name, e) = Inr () \<Longrightarrow> \<exists>d. e = Inr (JStr d) \<and> root_asset V name d"
  by (auto simp: check_daemon_artifact_def res_simps root_asset_def)

text \<open>\<open>get\<close> and \<open>index\<close> on values that are no \<open>None\<close>.\<close>

lemma get2_present: "get2 v k l = Inr x \<Longrightarrow> x \<noteq> JNull \<Longrightarrow> index2 v k l = Inr x"
  by (auto simp: get2_def index2_eq_Inr rbind_eq_Inr get_or_def get_def split: json.splits option.splits)

lemma immutable_daemon_Inr:
  assumes "immutable_daemon V pins = Inr manifest"
  shows "\<exists>d p. ctx_json V R_DAEMON_MANIFEST = Inr manifest \<and> index2 manifest ''binary'' ''sha256'' = Inr (JStr d) \<and>
    root_asset V R_DAEMON d \<and> root_asset V R_DAEMON_CANDIDATE d \<and> index2 manifest ''patch'' ''sha256'' = Inr (JStr p) \<and>
    root_asset V R_DAEMON_PATCH p \<and> same (get2 manifest ''source'' ''commit'') (get pins ''submoduleCommit'') = Inr True"
proof -
  obtain binary patch where m: "ctx_json V R_DAEMON_MANIFEST = Inr manifest"
      "same (get2 manifest ''source'' ''commit'') (get pins ''submoduleCommit'') = Inr True"
      "get_or manifest ''binary'' (JObj []) = Inr binary" "get_or manifest ''patch'' (JObj []) = Inr patch"
      "\<forall>a\<in>set [(R_DAEMON, get binary ''sha256''), (R_DAEMON_CANDIDATE, get binary ''sha256''), (R_DAEMON_PATCH, get patch ''sha256'')].
         check_daemon_artifact V a = Inr ()"
    using assms unfolding immutable_daemon_def rbind_eq_Inr demand_eq_Inr require_eq_Inr rall_eq_Inr by blast
  obtain d where d: "get binary ''sha256'' = Inr (JStr d)" "root_asset V R_DAEMON d" using m(5) check_daemon_artifact_Inr by force
  have c: "root_asset V R_DAEMON_CANDIDATE d" using m(5) check_daemon_artifact_Inr [of V R_DAEMON_CANDIDATE] d(1) by force
  obtain p where p: "get patch ''sha256'' = Inr (JStr p)" "root_asset V R_DAEMON_PATCH p" using m(5) check_daemon_artifact_Inr by force
  have "index2 manifest ''binary'' ''sha256'' = Inr (JStr d)" "index2 manifest ''patch'' ''sha256'' = Inr (JStr p)"
    using m(3,4) d(1) p(1) by (simp_all add: get2_present get2_def)
  then show ?thesis using m d c p by blast
qed

lemma check_assets_Inr:
  "check_assets V files = Inr () \<Longrightarrow> \<exists>items. files = JObj items \<and> set mandatory_assets \<subseteq> fst ` set items \<and>
     (\<forall>(n, e)\<in>set items. \<exists>d. e = JStr d \<and> root_asset V n d)"
  using check_asset_Inr by (fastforce simp: check_assets_def demand_eq_Inr rbind_eq_Inr rall_eq_Inr dict_items_Inr split: if_splits)

lemma immutable_Inr:
  assumes "immutable V = Inr manifest"
  shows "\<exists>items pins daemon d. ctx_json V R_MANIFEST = Inr manifest \<and> ctx_json V R_PINS = Inr pins \<and>
    index manifest ''files'' = Inr (JObj items) \<and> set mandatory_assets \<subseteq> fst ` set items \<and>
    (\<forall>(n, e)\<in>set items. \<exists>d. e = JStr d \<and> root_asset V n d) \<and>
    index2 manifest ''files'' R_BINARY = Inr (JStr d) \<and> index2 manifest ''binary'' ''sha256'' = Inr (JStr d) \<and> root_asset V R_BINARY d \<and>
    same (get2 manifest ''source'' ''submoduleCommit'') (get pins ''submoduleCommit'') = Inr True \<and> immutable_daemon V pins = Inr daemon"
proof -
  obtain pins source files binary daemon where m: "ctx_json V R_MANIFEST = Inr manifest" "ctx_json V R_PINS = Inr pins"
      "get_or manifest ''source'' (JObj []) = Inr source" "check_source_provenance pins source = Inr True"
      "get_or manifest ''files'' (JObj []) = Inr files" "check_assets V files = Inr ()" "index manifest ''binary'' = Inr binary"
      "same (get binary ''sha256'') (index files R_BINARY) = Inr True" "immutable_daemon V pins = Inr daemon"
    using assms by (auto simp: immutable_def rbind_eq_Inr demand_eq_Inr require_eq_Inr)
  obtain items where i: "files = JObj items" "set mandatory_assets \<subseteq> fst ` set items" "\<forall>(n, e)\<in>set items. \<exists>d. e = JStr d \<and> root_asset V n d"
    using check_assets_Inr [OF m(6)] by blast
  have "items \<noteq> []" using i(2) by (auto simp: mandatory_assets_def)
  then have f: "index manifest ''files'' = Inr (JObj items)" using m(5) i(1) by (auto simp: get_or_def index_def split: json.splits option.splits)
  obtain e d where e: "map_of items R_BINARY = Some e" "pyeq d e" "get binary ''sha256'' = Inr d"
    using m(8) i(1) by (auto simp: same_True split: option.splits)
  obtain h where h: "e = JStr h" "root_asset V R_BINARY h" using i(3) map_of_SomeD [OF e(1)] by blast
  have "d = JStr h" using e(2) h(1) by simp
  then have "index2 manifest ''binary'' ''sha256'' = Inr (JStr h)" using m(7) e(3) get_present by (simp add: index2_def)
  moreover have "same (get2 manifest ''source'' ''submoduleCommit'') (get pins ''submoduleCommit'') = Inr True"
    using m(3,4) by (simp add: check_source_provenance_def all_of_eq_True get2_def)
  ultimately show ?thesis using m(1,2,9) i f e(1) h by (auto simp: index2_def)
qed

section \<open>Accounts and processes\<close>

lemma account_ids_Inr:
  "account_ids V = Inr a \<Longrightarrow> ac_uid a \<noteq> 0 \<and> ac_gid a \<noteq> 0 \<and> ac_ui_gid a \<noteq> 0 \<and> ac_gid a \<noteq> ac_ui_gid a"
  by (auto simp: account_ids_def Let_def res_simps split: if_splits)

lemma check_bridge_process_Inr:
  assumes "check_bridge_process V pid a = Inr ()"
  shows "\<exists>d st. proc_link V pid = Inr R_BINARY \<and> ctx_digest V (proc_file pid ''exe'') = Inr d \<and> ctx_digest V R_BINARY = Inr d \<and>
    proc_status V pid = Inr st \<and> words (status_field st ''Uid'') = replicate 4 (int_str (ac_uid a)) \<and>
    words (status_field st ''Gid'') = replicate 4 (int_str (ac_gid a)) \<and> set (words (status_field st ''Groups'')) \<subseteq> {int_str (ac_gid a)} \<and>
    hex_of (status_field st ''CapEff'') = Inr 0 \<and> strip (status_field st ''NoNewPrivs'') = ''1''"
proof -
  have n: "hex_of ''-1'' = Inr (-1)" by code_simp
  show ?thesis using assms n
    by (auto simp: check_bridge_process_def status_field_def ini_or_empty_def res_simps split: if_splits option.splits)
qed

lemma check_daemon_process_Inr:
  assumes "check_daemon_process V daemon = Inr pid"
  shows "0 < pid \<and> proc_link V pid = Inr R_DAEMON \<and> (\<exists>d. ctx_digest V (proc_file pid ''exe'') = Inr d \<and> index2 daemon ''binary'' ''sha256'' = Inr (JStr d)) \<and>
    ctx_bytes V (proc_file pid ''cmdline'') = Inr (R_DAEMON @ [CHR 0x00])"
  using assms by (auto simp: check_daemon_process_def res_simps)

text \<open>The chain of an accepted readiness.\<close>

lemma runtime_readiness_Inr:
  assumes "runtime_readiness V = Inr rep"
  obtains manifest a actual config stores pid daemon daemon_pid states patch action where
    "immutable V = Inr manifest" "account_ids V = Inr a" "unit_contract V = Inr actual"
    "config_contract V ''unix:opensnitchd.sock'' = Inr config" "local_conflicts V = Inr ()" "flatpak_profiles V = Inr stores"
    "0 < pid" "check_bridge_process V pid a = Inr ()" "legacy_absent V pid = Inr ()" "ctx_json V R_DAEMON_MANIFEST = Inr daemon"
    "check_daemon_process V daemon = Inr daemon_pid" "service_state V = Inr states" "check_states states = Inr ()"
    "rall (check_runtime_path V) (runtime_paths a) = Inr ()" "index2 daemon ''patch'' ''sha256'' = Inr patch" "index config ''DefaultAction'' = Inr action"
    "index rep ''bridgePid'' = Inr (JInt pid)" "index rep ''daemonPid'' = Inr (JInt daemon_pid)" "index rep ''daemonPatchSha256'' = Inr patch"
    "index rep ''defaultAction'' = Inr (JStr (if pyeq action (JStr ''deny'') then ''deny (operator opt-in)'' else ''allow''))"
proof -
  have ex_unit: "(\<exists>x::unit. P x) \<longleftrightarrow> P ()" for P by auto
  show ?thesis
    using assms unfolding runtime_readiness_def
    apply (simp only: rbind_eq_Inr require_eq_Inr ex_unit)
    apply (elim exE conjE)
    apply (rule that)
                       apply assumption+
    apply (simp_all only: sum.inject)
    apply (drule sym, simp)+
    done
qed

section \<open>The daemon configuration\<close>

lemma regular_root_json_Inr: "regular_root_json V name = Inr (Some v) \<longleftrightarrow>
    (\<exists>m. ctx_stat V name = Inr m \<and> root_regular m) \<and> ctx_json V name = Inr v \<and> is_dict v"
  by (auto simp: regular_root_json_def lookup_def rbind_eq_Inr split: sum.splits option.splits if_splits pyexc.splits)

definition absent_at :: "view \<Rightarrow> string \<Rightarrow> bool" where
  "absent_at V p \<longleftrightarrow> (\<exists>e. ctx_stat V p = Inl e \<and> no_such_path e)"

lemma present_False: "present V p = Inr False \<longleftrightarrow> absent_at V p"
  by (auto simp: present_def lookup_def absent_at_def rbind_eq_Inr split: sum.splits)

lemma deny_opt_in_True:
  assumes "deny_opt_in V = Inr True"
  shows "\<exists>marker ident. regular_root_json V R_DENY_MARKER = Inr (Some marker) \<and> index marker ''id'' = Inr (JStr ident) \<and>
    succeeds (index marker ''confirmedAt'') \<and>
    (absent_at V R_DENY_STATE \<or> (\<exists>state. regular_root_json V R_DENY_STATE = Inr (Some state) \<and>
       index state ''pending'' = Inr (JBool False) \<and> index state ''id'' = Inr (JStr ident)))"
proof -
  obtain marker where m1: "regular_root_json V R_DENY_MARKER = Inr (Some marker)"
    using assms by (auto simp: deny_opt_in_def rbind_eq_Inr split: option.split_asm)
  then have v: "truthy marker" "all_of [get_is marker ''schema'' (JInt 1), rbind (get marker ''confirmedAt'') (\<lambda>v. Inr (is_str v)),
      rbind (get marker ''id'') (\<lambda>v. Inr (is_str v))] = Inr True"
    using assms by (auto simp: deny_opt_in_def rbind_eq_Inr split: if_split_asm)
  then obtain conf ident where i: "get marker ''confirmedAt'' = Inr (JStr conf)" "get marker ''id'' = Inr (JStr ident)"
    by (auto simp: all_of_eq_True rbind_eq_Inr is_str_iff)
  have "present V R_DENY_STATE = Inr False \<or> (\<exists>state. regular_root_json V R_DENY_STATE = Inr (Some state) \<and>
        get_identical state ''pending'' (JBool False) = Inr True \<and> same (get state ''id'') (index marker ''id'') = Inr True)"
  proof (cases "present V R_DENY_STATE")
    case (Inr there)
    show ?thesis
    proof (cases there)
      case True
      then obtain state where "regular_root_json V R_DENY_STATE = Inr (Some state)"
        using assms m1 v Inr by (auto simp: deny_opt_in_def rbind_eq_Inr split: option.split_asm)
      then show ?thesis using assms m1 v Inr True
        by (auto simp: deny_opt_in_def rbind_eq_Inr all_of_eq_True split: if_split_asm)
    qed (use Inr in simp)
  qed (use assms m1 v in \<open>simp add: deny_opt_in_def\<close>)
  note m = m1 i this
  have "index marker ''id'' = Inr (JStr ident)" "index marker ''confirmedAt'' = Inr (JStr conf)" using m(2,3) get_present by simp_all
  moreover have "absent_at V R_DENY_STATE \<or> (\<exists>state. regular_root_json V R_DENY_STATE = Inr (Some state) \<and>
       index state ''pending'' = Inr (JBool False) \<and> index state ''id'' = Inr (JStr ident))"
    using m(4) calculation(1) get_present by (fastforce simp: present_False get_identical_True same_True)
  ultimately show ?thesis using m(1) by auto
qed

lemma config_contract_Inr:
  assumes "config_contract V address = Inr config"
  shows "ctx_json V R_CONFIG = Inr config \<and> index2 config ''Server'' ''Address'' = Inr (JStr address) \<and>
    index config ''ProcMonitorMethod'' = Inr (JStr ''proc'') \<and>
    (index config ''DefaultAction'' = Inr (JStr ''allow'') \<or>
     index config ''DefaultAction'' = Inr (JStr ''deny'') \<and> deny_opt_in V = Inr True)"
proof -
  obtain action where c: "ctx_json V R_CONFIG = Inr config" "get2 config ''Server'' ''Address'' = Inr (JStr address)"
      "get config ''DefaultAction'' = Inr action" "action = JStr ''deny'' \<and> deny_opt_in V = Inr True \<or> action = JStr ''allow''"
      "get config ''ProcMonitorMethod'' = Inr (JStr ''proc'')"
    using assms by (auto simp: config_contract_def res_simps split: if_splits)
  show ?thesis using c get2_present [OF c(2)] get_present by fastforce
qed

section \<open>Local overrides\<close>

lemma inert_True: "inert_dropin_directory V p = Inr True \<longleftrightarrow>
    (\<exists>m. ctx_stat V p = Inr m \<and> m_kind m = KDir \<and> m_uid m = 0 \<and> m_gid m = 0 \<and> \<not> go_writable m) \<and> listdir V p = Inr []"
  by (auto simp: inert_dropin_directory_def lookup_def rbind_eq_Inr split: sum.splits if_splits)

lemma no_override_Inr: "no_override V p = Inr () \<Longrightarrow>
    absent_at V p \<or> p \<in> set system_dropins \<and> inert_dropin_directory V p = Inr True"
  by (auto simp: no_override_def rbind_eq_Inr demand_eq_Inr present_False split: if_splits)

lemma system_dropin_names: "list_all (\<lambda>p. \<not> endswith p ''/snitchwatch-bridge.service'' \<and> \<not> endswith p ''/snitchwatch-bridge.service.d'' \<and>
    endswith p ''.d'') system_dropins"
  by code_simp

lemma user_unit_no_dropin: "d @ ''/snitchwatch-bridge.service'' @ s \<notin> set system_dropins" if "s \<in> {[], ''.d''}"
proof
  assume "d @ ''/snitchwatch-bridge.service'' @ s \<in> set system_dropins"
  then have "\<not> endswith (d @ ''/snitchwatch-bridge.service'' @ s) ''/snitchwatch-bridge.service''"
    "\<not> endswith (d @ ''/snitchwatch-bridge.service'' @ s) ''/snitchwatch-bridge.service.d''"
    using system_dropin_names by (auto simp: list_all_iff)
  then show False using that by (auto simp: endswith_iff)
qed

lemma local_conflicts_Inr:
  assumes "local_conflicts V = Inr ()"
  obtains dirs where "user_dirs V = Inr dirs"
    "\<And>p. p \<in> set system_paths \<Longrightarrow> absent_at V p \<or> p \<in> set system_dropins \<and> inert_dropin_directory V p = Inr True"
    "\<And>d s. d \<in> set dirs \<Longrightarrow> s \<in> {[], ''.d''} \<Longrightarrow> absent_at V (d @ ''/snitchwatch-bridge.service'' @ s)"
proof -
  obtain dirs paths where l: "user_dirs V = Inr dirs" "rmap (user_paths V) dirs = Inr paths"
      "\<forall>p\<in>set (system_paths @ concat paths). no_override V p = Inr ()"
    using assms by (auto simp: local_conflicts_def rbind_eq_Inr rall_eq_Inr)
  have "absent_at V (d @ ''/snitchwatch-bridge.service'' @ s)" if ds: "d \<in> set dirs" "s \<in> {[], ''.d''}" for d s
  proof -
    obtain ps where ps: "ps \<in> set paths" "user_paths V d = Inr ps"
      using rmap_member [OF l(2) ds(1)] by blast
    then have "d @ ''/snitchwatch-bridge.service'' @ s \<in> set ps" using ds(2) by (auto simp: user_paths_def rbind_eq_Inr)
    then have "no_override V (d @ ''/snitchwatch-bridge.service'' @ s) = Inr ()" using l(3) ps(1) by auto
    then show ?thesis using no_override_Inr user_unit_no_dropin [OF ds(2)] by blast
  qed
  then show ?thesis using that l(1,3) no_override_Inr by auto
qed

text \<open>The user directories of every account.\<close>

lemma user_dirs_home:
  assumes "user_dirs V = Inr dirs" "run_out V [''getent'', ''passwd''] = Inr out" "line \<in> set (splitlines out)"
    and "split_on CHR '':'' line = fs" "startswith (fs ! 5) ''/''" "s \<in> {''/.config/systemd/user.control'', ''/.config/systemd/user'', ''/.local/share/systemd/user''}"
  shows "fs ! 5 @ s \<in> set dirs"
proof -
  obtain ds where d: "rmap record_dirs (splitlines out) = Inr ds" "dirs = remdups (fixed_user_dirs @ concat ds)"
    using assms(1,2) by (auto simp: user_dirs_def rbind_eq_Inr)
  obtain x where x: "x \<in> set ds" "record_dirs line = Inr x"
    using rmap_member [OF d(1) assms(3)] by blast
  then have "fs ! 5 @ s \<in> set x" using assms(4-6) by (auto simp: record_dirs_def Let_def require_eq_Inr)
  then show ?thesis using d(2) x(1) by auto
qed

section \<open>Authority of the GUI\<close>

text \<open>What the metadata of a deployment may grant: no network, no other bus name, no other directory.\<close>

definition reviewed_authority :: "string list \<Rightarrow> ini \<Rightarrow> bool" where
  "reviewed_authority finish_args m \<longleftrightarrow>
     set (context_values m ''shared'') = {''ipc''} \<and> set (context_values m ''devices'') = {''dri''} \<and>
     set (context_values m ''sockets'') \<subseteq> {''wayland'', ''fallback-x11'', ''x11''} \<and>
     set (context_values m ''filesystems'') \<subseteq> set (required_filesystems @ [''xdg-config/kdeglobals:ro''] @ pinned_filesystems finish_args) \<and>
     section_items m ''System Bus Policy'' = [] \<and>
     (\<forall>(name, v)\<in>set (section_items m ''Session Bus Policy''). name \<in> set (allowed_names finish_args) \<and> v = ''talk'') \<and>
     (\<forall>(name, v)\<in>set protected_environment. ini_get m ''Environment'' name \<in> {None, Some v})"

lemma flatpak_sockets_True: "flatpak_sockets_match V S = Inr True \<Longrightarrow> S \<subseteq> {''wayland'', ''fallback-x11'', ''x11''}"
  by (auto simp: flatpak_sockets_match_def Let_def split: if_splits)

lemma and_then_True: "(if P then rbind r (\<lambda>b. Inr (b \<and> Q)) else Inr False) = Inr True \<longleftrightarrow> P \<and> r = Inr True \<and> Q"
  by (cases r) auto

lemma check_metadata_Inr:
  assumes "check_metadata V runtime finish_args m = Inr ()"
  shows "reviewed_authority finish_args m"
proof -
  have s: "check_identity runtime m = Inr ()" "check_context V finish_args m = Inr ()" "check_bus finish_args m = Inr ()"
    using assms by (auto simp: check_metadata_def rbind_eq_Inr)
  let ?fs = "set (required_filesystems @ [''xdg-config/kdeglobals:ro''] @ pinned_filesystems finish_args)"
  have d: "(if set (context_values m ''shared'') = {''ipc''} then rbind (flatpak_sockets_match V (set (context_values m ''sockets'')))
        (\<lambda>b. Inr (b \<and> set (context_values m ''devices'') = {''dri''})) else Inr False) = Inr True"
      "set (context_values m ''filesystems'') \<subseteq> ?fs"
    using s(2) unfolding check_context_def Let_def demand_eq_Inr require_eq_Inr by blast+
  have c: "set (context_values m ''shared'') = {''ipc''}" "set (context_values m ''devices'') = {''dri''}"
      "flatpak_sockets_match V (set (context_values m ''sockets'')) = Inr True"
    using d(1) unfolding and_then_True by blast+
  have e: "\<forall>(name, v)\<in>set protected_environment. ini_get m ''Environment'' name \<in> {None, Some v}"
    using s(1) by (auto simp: check_identity_def rbind_eq_Inr require_eq_Inr rall_eq_Inr split_beta)
  have b: "section_items m ''System Bus Policy'' = []"
      "\<forall>(name, v)\<in>set (section_items m ''Session Bus Policy''). name \<in> set (allowed_names finish_args) \<and> v = ''talk''"
    using s(3) by (auto simp: check_bus_def Let_def require_eq_Inr list_all_iff)
  show ?thesis unfolding reviewed_authority_def
    by (intro conjI; rule c(1,2) flatpak_sockets_True [OF c(3)] d(2) b e)
qed

lemma check_override_Inr:
  "check_override V p = Inr () \<Longrightarrow> (v_exists V p = Inr False \<and> \<not> is_symlink V p) \<or>
     (p = BASE_GLOBAL_OVERRIDE \<and> root_asset V p BASE_GLOBAL_OVERRIDE_SHA256)"
  by (auto simp: check_override_def ctx_path_def root_asset_def rbind_eq_Inr require_eq_Inr split: if_splits)

lemma flatpak_profiles_Inr:
  assumes "flatpak_profiles V = Inr stores"
  obtains finish_args where
    "\<exists>manifest expected. ctx_json V R_MANIFEST = Inr manifest \<and> get_or manifest ''flatpak'' (JObj []) = Inr expected \<and>
       get_or expected ''finishArgs'' (JList []) = Inr (JList (map JStr finish_args))"
    "\<And>store n. store \<in> set stores \<Longrightarrow> n \<in> {''global'', R_APP} \<Longrightarrow> check_override V (store @ ''/overrides/'' @ n) = Inr ()"
    "\<And>store ps p. store \<in> set stores \<Longrightarrow> v_exists V (store @ ''/app/'' @ R_APP) = Inr True \<Longrightarrow>
       v_glob V (store @ ''/app/'' @ R_APP) ''*/*/active/metadata'' = Inr ps \<Longrightarrow> p \<in> set ps \<Longrightarrow>
       \<exists>m. read_metadata V p = Inr m \<and> reviewed_authority finish_args m"
    "flatpak_stores V = Inr stores"
proof -
  obtain manifest expected runtime xs finish_args where f: "flatpak_stores V = Inr stores" "ctx_json V R_MANIFEST = Inr manifest"
      "get_or manifest ''flatpak'' (JObj []) = Inr expected" "get_or expected ''finishArgs'' (JList []) = Inr (JList xs)"
      "rmap json_str xs = Inr finish_args"
      "\<forall>store\<in>set stores. (\<forall>n\<in>{''global'', R_APP}. check_override V (store @ ''/overrides/'' @ n) = Inr ()) \<and>
         check_deployments V runtime finish_args store = Inr ()"
    using assms by (auto simp: flatpak_profiles_def rbind_eq_Inr require_eq_Inr rall_eq_Inr as_list_Inr) blast
  have x: "xs = map JStr finish_args"
    using f(5) unfolding rmap_eq_Inr by (induction rule: list_all2_induct) (auto simp: json_str_Inr)
  have "\<exists>m. read_metadata V p = Inr m \<and> reviewed_authority finish_args m"
    if "store \<in> set stores" "v_exists V (store @ ''/app/'' @ R_APP) = Inr True"
      "v_glob V (store @ ''/app/'' @ R_APP) ''*/*/active/metadata'' = Inr ps" "p \<in> set ps" for store ps p
  proof -
    have "check_deployments V runtime finish_args store = Inr ()" using f(6) that(1) by blast
    then have "rbind (read_metadata V p) (check_metadata V runtime finish_args) = Inr ()"
      using that(2-4) by (auto simp: check_deployments_def ctx_path_def rbind_eq_Inr require_eq_Inr rall_eq_Inr)
    then show ?thesis using check_metadata_Inr by (auto simp: rbind_eq_Inr)
  qed
  then show ?thesis using that [of finish_args] f(1-4,6) x by blast
qed

lemma flatpak_stores_home: "flatpak_stores V = Inr stores \<Longrightarrow> homes V = Inr hs \<Longrightarrow> h \<in> set hs \<Longrightarrow> h @ ''/.local/share/flatpak'' \<in> set stores"
  by (auto simp: flatpak_stores_def Let_def rbind_eq_Inr require_eq_Inr)

section \<open>Shared paths\<close>

lemma check_runtime_path_Inr:
  "check_runtime_path V (p, knd, owner, grp, mode) = Inr () \<Longrightarrow> \<exists>m names. ctx_stat V p = Inr m \<and> m_kind m = knd \<and>
     int (m_uid m) = owner \<and> int (m_gid m) = grp \<and> m_mode m = mode \<and> m_xattrs m = Inr names \<and>
     ''system.posix_acl_access'' \<notin> set names \<and> ''system.posix_acl_default'' \<notin> set names"
  by (auto simp: check_runtime_path_def rbind_eq_Inr require_eq_Inr)

text \<open>Bits 2 and 1 of the mode: read and write access of everyone else.\<close>

lemma runtime_modes: "(p, knd, owner, grp, mode) \<in> set (runtime_paths a) \<Longrightarrow> \<not> bit mode 2 \<and> \<not> bit mode 1"
proof -
  have b: "\<not> bit w 2 \<and> \<not> bit w 1" if "w \<in> {457, 384, 432, 1512, 416}" for w :: "12 word"
    using that by auto
  show "(p, knd, owner, grp, mode) \<in> set (runtime_paths a) \<Longrightarrow> \<not> bit mode 2 \<and> \<not> bit mode 1"
    by (rule b) (auto simp: runtime_paths_def)
qed

end
