(* ===== verification/ReadyIni.thy ===== *)
theory ReadyIni
  imports Ready
begin

text \<open>
  Proofs about the metadata parser of \<^verbatim>\<open>bazzite-tower-snitchwatch-common.py\<close>: what it returns is well
  formed, and it reads back every legal file as the sections that were written.
\<close>

section \<open>Well-formedness\<close>

definition wf_ini :: "ini \<Rightarrow> bool" where
  "wf_ini m \<longleftrightarrow> distinct (map fst (in_defaults m)) \<and> distinct (map fst (in_sections m)) \<and>
     list_all (\<lambda>sd. distinct (map fst (snd sd))) (in_sections m)"

lemma dict_set_present: "map_of d k = Some v \<Longrightarrow> map fst (dict_set k x d) = map fst d"
  by (induction d) (auto split: if_splits)

lemma dict_set_values: "list_all (\<lambda>p. P (snd p)) d \<Longrightarrow> P x \<Longrightarrow> list_all (\<lambda>p. P (snd p)) (dict_set k x d)"
  by (induction d) auto

lemma ini_line_wf:
  assumes "wf_ini m" "ini_line l (m, cur) = Inr (m', cur')"
  shows "wf_ini m'"
proof -
  have w: "distinct (map fst (in_defaults m))" "distinct (map fst (in_sections m))" "list_all (\<lambda>sd. distinct (map fst (snd sd))) (in_sections m)"
    using assms(1) by (simp_all add: wf_ini_def)
  have v: "distinct (map fst (in_sections m)) \<Longrightarrow> map_of (in_sections m) name = Some d \<Longrightarrow> k \<notin> fst ` set d \<Longrightarrow>
      wf_ini (m\<lparr>in_sections := dict_set name (d @ [(k, v)]) (in_sections m)\<rparr>)" for name d k v
  proof -
    assume "map_of (in_sections m) name = Some d" "k \<notin> fst ` set d"
    moreover then have "distinct (map fst (d @ [(k, v)]))" using w(3) by (fastforce simp: list_all_iff dest: map_of_SomeD)
    ultimately show "wf_ini (m\<lparr>in_sections := dict_set name (d @ [(k, v)]) (in_sections m)\<rparr>)"
      using w dict_set_values [where P = "\<lambda>d. distinct (map fst d)", OF w(3), of "d @ [(k, v)]" name] by (simp add: wf_ini_def)
  qed
  show ?thesis
    using assms(2) w v
    by (auto simp: ini_line_def Let_def require_eq_Inr split: if_splits option.splits prod.splits) (auto simp: wf_ini_def)
qed

lemma read_ini_wf:
  assumes "read_ini ls = Inr m"
  shows "wf_ini m"
proof -
  obtain cur where "rfold ini_line ls (\<lparr>in_defaults = [], in_sections = []\<rparr>, None) = Inr (m, cur)"
    using assms by (auto simp: read_ini_def rbind_eq_Inr)
  then have "wf_ini (fst (m, cur))"
    by (rule rfold_invariant [where P = "\<lambda>st. wf_ini (fst st)", rotated 2]) (use ini_line_wf in \<open>force simp: wf_ini_def [of "\<lparr>in_defaults = [], in_sections = []\<rparr>"]\<close>)+
  then show ?thesis by simp
qed

section \<open>Printing and reading\<close>

definition section_lines :: "string \<times> (string \<times> string) list \<Rightarrow> string list" where
  "section_lines sd = (CHR ''['' # fst sd @ [CHR '']'']) # map (\<lambda>kv. fst kv @ CHR ''='' # snd kv) (snd sd)"

definition ini_text :: "(string \<times> (string \<times> string) list) list \<Rightarrow> string" where
  "ini_text ss = join [newline] (concat (map section_lines ss)) @ [newline]"

text \<open>Sections and entries that can be written: names within the grammar, no repeated section and no repeated key.\<close>

definition legal_name :: "string \<Rightarrow> bool" where
  "legal_name s \<longleftrightarrow> s \<noteq> [] \<and> s \<noteq> ''DEFAULT'' \<and> list_all (\<lambda>c. c \<notin> {CHR ''['', CHR '']''} \<and> printable c) s"

definition legal_entry :: "string \<times> string \<Rightarrow> bool" where
  "legal_entry kv \<longleftrightarrow> fst kv \<noteq> [] \<and> list_all key_char (fst kv) \<and> metadata_value (snd kv)"

definition legal_sections :: "(string \<times> (string \<times> string) list) list \<Rightarrow> bool" where
  "legal_sections ss \<longleftrightarrow> distinct (map fst ss) \<and>
     list_all (\<lambda>sd. legal_name (fst sd) \<and> distinct (map fst (snd sd)) \<and> list_all legal_entry (snd sd)) ss"

lemma key_char_plain: "\<not> key_char CHR ''=''" "\<not> key_char CHR ''#''" "\<not> key_char CHR ''[''" "\<not> key_char newline"
  by code_simp+

lemma legal_key: "legal_entry (k, v) \<Longrightarrow> k \<noteq> [] \<and> hd k \<noteq> CHR ''#'' \<and> hd k \<noteq> CHR ''['' \<and> CHR ''='' \<notin> set k"
  using key_char_plain by (cases k) (auto simp: legal_entry_def list_all_iff)

lemma metadata_entry_line: "legal_entry (k, v) \<Longrightarrow> metadata_line (k @ CHR ''='' # v)"
  using key_char_plain(1)
  by (auto simp: legal_entry_def metadata_line_def key_line_def list_all_iff takeWhile_append dropWhile_append)

lemma metadata_section_line: "legal_name s \<Longrightarrow> metadata_line (CHR ''['' # s @ [CHR '']''])"
  by (cases s) (auto simp: legal_name_def metadata_line_def section_line_def butlast_append)

lemma ini_entry:
  assumes "legal_entry (k, v)" "name \<noteq> ''DEFAULT''" "map_of (in_sections m) name = Some d" "k \<notin> fst ` set d"
  shows "ini_line (k @ CHR ''='' # v) (m, Some name) = Inr (m\<lparr>in_sections := dict_set name (d @ [(k, v)]) (in_sections m)\<rparr>, Some name)"
proof -
  obtain c cs where k: "k = c # cs" using legal_key [OF assms(1)] by (cases k) auto
  have "partition_on CHR ''='' (k @ CHR ''='' # v) = (k, True, v)" using legal_key [OF assms(1)] by (simp add: partition_on_append)
  then show ?thesis using legal_key [OF assms(1)] assms(2-4) k by (simp add: ini_line_def)
qed

lemma dict_set_last: "k \<notin> fst ` set ss \<Longrightarrow> dict_set k y (ss @ [(k, x)]) = ss @ [(k, y)]"
  by (induction ss) auto

lemma ini_entries:
  "list_all legal_entry es \<Longrightarrow> distinct (map fst (d @ es)) \<Longrightarrow> name \<noteq> ''DEFAULT'' \<Longrightarrow> name \<notin> fst ` set ss \<Longrightarrow>
   rfold ini_line (map (\<lambda>kv. fst kv @ CHR ''='' # snd kv) es) (\<lparr>in_defaults = [], in_sections = ss @ [(name, d)]\<rparr>, Some name)
   = Inr (\<lparr>in_defaults = [], in_sections = ss @ [(name, d @ es)]\<rparr>, Some name)"
proof (induction es arbitrary: d)
  case (Cons kv es)
  obtain k v where kv: "kv = (k, v)" by force
  have m: "map_of (ss @ [(name, d)]) name = Some d" using Cons.prems(4) by (simp add: map_add_def map_of_eq_None_keys [THEN iffD2])
  have "k \<notin> fst ` set d" using Cons.prems(2) kv by auto
  then have "ini_line (k @ CHR ''='' # v) (\<lparr>in_defaults = [], in_sections = ss @ [(name, d)]\<rparr>, Some name)
      = Inr (\<lparr>in_defaults = [], in_sections = ss @ [(name, d @ [(k, v)])]\<rparr>, Some name)"
    using ini_entry [of k v name "\<lparr>in_defaults = [], in_sections = ss @ [(name, d)]\<rparr>" d] Cons.prems m kv by (simp add: dict_set_last)
  then show ?case using Cons.IH [of "d @ [(k, v)]"] Cons.prems kv by simp
qed simp

lemma ini_section_lines:
  assumes "legal_name name" "list_all legal_entry es" "distinct (map fst es)" "name \<notin> fst ` set ss"
  shows "rfold ini_line (section_lines (name, es)) (\<lparr>in_defaults = [], in_sections = ss\<rparr>, cur)
     = Inr (\<lparr>in_defaults = [], in_sections = ss @ [(name, es)]\<rparr>, Some name)"
proof -
  have "ini_line (CHR ''['' # name @ [CHR '']'']) (\<lparr>in_defaults = [], in_sections = ss\<rparr>, cur)
      = Inr (\<lparr>in_defaults = [], in_sections = ss @ [(name, [])]\<rparr>, Some name)"
    using assms(1,4) by (simp add: ini_line_def legal_name_def)
  then show ?thesis using ini_entries [of es "[]" name ss] assms by (simp add: section_lines_def legal_name_def)
qed

lemma read_ini_lines:
  assumes "legal_sections ss"
  shows "read_ini (concat (map section_lines ss)) = Inr \<lparr>in_defaults = [], in_sections = ss\<rparr>"
proof -
  have "\<exists>cur'. rfold ini_line (concat (map section_lines ss)) (\<lparr>in_defaults = [], in_sections = before\<rparr>, cur)
      = Inr (\<lparr>in_defaults = [], in_sections = before @ ss\<rparr>, cur')"
    if "legal_sections ss" "\<forall>s\<in>fst ` set ss. s \<notin> fst ` set before" for before cur
    using that
  proof (induction ss arbitrary: before cur)
    case (Cons sd ss)
    obtain name es where sd: "sd = (name, es)" by force
    have l: "rfold ini_line (section_lines sd) (\<lparr>in_defaults = [], in_sections = before\<rparr>, cur)
        = Inr (\<lparr>in_defaults = [], in_sections = before @ [sd]\<rparr>, Some name)"
      using Cons.prems ini_section_lines [of name es before cur] unfolding sd by (simp add: legal_sections_def)
    have "legal_sections ss" "\<forall>s\<in>fst ` set ss. s \<notin> fst ` set (before @ [sd])"
      using Cons.prems unfolding sd by (auto simp: legal_sections_def)
    then show ?case using Cons.IH [of "before @ [sd]" "Some name"] l by (simp add: rfold_append)
  qed simp
  from this [of "[]" None] show ?thesis using assms by (auto simp: read_ini_def)
qed

lemma printable_newline: "\<not> printable newline" "newline \<noteq> tab" "newline \<noteq> CHR ''=''" "newline \<noteq> CHR ''[''" "newline \<noteq> CHR '']''"
  by code_simp+

lemma metadata_lines:
  assumes "legal_sections ss" "l \<in> set (concat (map section_lines ss))"
  shows "metadata_line l \<and> newline \<notin> set l"
proof -
  obtain name es where s: "(name, es) \<in> set ss" "l \<in> set (section_lines (name, es))" using assms(2) by force
  then have g: "legal_name name" "list_all legal_entry es" using assms(1) by (auto simp: legal_sections_def list_all_iff)
  from s(2) consider "l = CHR ''['' # name @ [CHR '']'']" | k v where "(k, v) \<in> set es" "l = k @ CHR ''='' # v"
    by (auto simp: section_lines_def)
  then show ?thesis
  proof cases
    case 1
    then show ?thesis using g(1) metadata_section_line [of name] printable_newline by (auto simp: legal_name_def list_all_iff)
  next
    case (2 k v)
    then have e: "legal_entry (k, v)" using g(2) by (auto simp: list_all_iff)
    then have "newline \<notin> set k" "newline \<notin> set v" using key_char_plain(4) printable_newline
      by (auto simp: legal_entry_def list_all_iff metadata_value_def)
    then show ?thesis using 2 metadata_entry_line [OF e] printable_newline by simp
  qed
qed

lemma no_bad_line: "\<forall>l\<in>set ls. metadata_line l \<Longrightarrow> bad_line ls = None"
proof -
  assume "\<forall>l\<in>set ls. metadata_line l"
  then have "\<forall>x\<in>set (enumerate 1 ls). case x of (n, l) \<Rightarrow> metadata_line l" by (auto simp: in_set_enumerate_eq)
  then have "dropWhile (\<lambda>(n, l). metadata_line l) (enumerate 1 ls) = []" by (simp only: dropWhile_eq_Nil_conv)
  then show ?thesis by (simp only: bad_line_def list.case)
qed

lemma read_metadata_text:
  assumes "legal_sections ss" "ss \<noteq> []" "v_open V p = Inr (m, utf8_encode (ini_text ss))" "m_kind m = KReg"
    and "length (utf8_encode (ini_text ss)) \<le> METADATA_MAX_BYTES"
  shows "read_metadata V p = Inr \<lparr>in_defaults = [], in_sections = ss\<rparr>"
proof -
  let ?ls = "concat (map section_lines ss)"
  have "read_user_metadata V p = Inr (ini_text ss)"
    using assms(3-5) by (simp add: read_user_metadata_def Let_def)
  moreover have "endswith (ini_text ss) [newline]" "butlast (ini_text ss) = join [newline] ?ls"
    by (auto simp: ini_text_def endswith_iff)
  moreover have "split_on newline (join [newline] ?ls) = ?ls"
  proof (rule split_on_join)
    obtain sd ss' where "ss = sd # ss'" using assms(2) by (cases ss) auto
    then show "?ls \<noteq> []" by (simp add: section_lines_def)
  qed (use metadata_lines [OF assms(1)] in blast)
  moreover have "bad_line ?ls = None" using metadata_lines [OF assms(1)] by (intro no_bad_line) blast
  ultimately show ?thesis by (simp add: read_metadata_def Let_def read_ini_lines [OF assms(1)])
qed

section \<open>What the parser returns\<close>

text \<open>Every section name and every value of a parsed file is within the grammar, and no name is repeated.\<close>

definition typed_ini :: "ini \<Rightarrow> bool" where
  "typed_ini m \<longleftrightarrow> wf_ini m \<and> list_all (\<lambda>kv. metadata_value (snd kv)) (in_defaults m) \<and>
     list_all (\<lambda>sd. legal_name (fst sd) \<and> list_all (\<lambda>kv. metadata_value (snd kv)) (snd sd)) (in_sections m)"

lemma key_line_value:
  assumes "key_line l"
  shows "\<exists>k v. partition_on CHR ''='' l = (k, True, v) \<and> metadata_value v"
proof -
  let ?loc = "\<lambda>c. key_char c \<or> c = CHR ''@''"
  obtain c r where d: "dropWhile key_char l = c # r" using assms by (auto simp: key_line_def split: list.split_asm)
  have l: "l = takeWhile key_char l @ c # r" using takeWhile_dropWhile_id [of key_char l] unfolding d by (rule sym)
  have e: "\<not> key_char CHR ''=''" "\<not> ?loc CHR ''=''" using key_char_plain by simp_all
  have t: "CHR ''='' \<notin> set (takeWhile key_char xs)" "CHR ''='' \<notin> set (takeWhile ?loc xs)" for xs
    using e by (auto dest: set_takeWhileD)
  have alt: "if c = CHR ''='' then metadata_value r else c = CHR ''['' \<and> takeWhile ?loc r \<noteq> [] \<and>
      startswith (dropWhile ?loc r) '']='' \<and> metadata_value (drop 2 (dropWhile ?loc r))"
    using assms unfolding key_line_def d list.case Let_def by (rule conjunct2)
  show ?thesis
  proof (cases "c = CHR ''=''")
    case True
    then have "partition_on CHR ''='' l = (takeWhile key_char l, True, r)"
      using partition_on_append [OF t(1) [of l], of r] l by simp
    then show ?thesis using alt True by auto
  next
    case False
    note 2 = alt [unfolded if_not_P [OF False]]
    then obtain v where v: "dropWhile ?loc r = CHR '']'' # CHR ''='' # v" by (auto simp: startswith_iff)
    have "r = takeWhile ?loc r @ CHR '']'' # CHR ''='' # v" using takeWhile_dropWhile_id [of ?loc r] unfolding v by (rule sym)
    then have "c # r = (CHR ''['' # takeWhile ?loc r @ [CHR '']'']) @ CHR ''='' # v" using conjunct1 [OF 2] by simp
    then have "l = (takeWhile key_char l @ CHR ''['' # takeWhile ?loc r @ [CHR '']'']) @ CHR ''='' # v" using l by simp
    moreover have "CHR ''='' \<notin> set (takeWhile key_char l @ CHR ''['' # takeWhile ?loc r @ [CHR '']''])" using t(1) [of l] t(2) [of r] by simp
    ultimately have "partition_on CHR ''='' l = (takeWhile key_char l @ CHR ''['' # takeWhile ?loc r @ [CHR '']''], True, v)"
      using partition_on_append by metis
    then show ?thesis using 2 v by simp
  qed
qed

lemma metadata_line_cases:
  assumes "metadata_line l"
  obtains "l = []" | "l \<noteq> []" "hd l = CHR ''#''" | "l \<noteq> []" "hd l = CHR ''[''" "hd l \<noteq> CHR ''#''" "section_line l"
    | "l \<noteq> []" "hd l \<noteq> CHR ''#''" "hd l \<noteq> CHR ''[''" "key_line l"
proof -
  have k: "hd l \<noteq> CHR ''#'' \<and> hd l \<noteq> CHR ''[''" if "key_line l"
    using that key_char_plain by (cases l) (auto simp: key_line_def split: if_splits)
  have s: "hd l = CHR ''[''" if "section_line l" using that by (simp add: section_line_def)
  show thesis using assms k s that unfolding metadata_line_def by fastforce
qed

lemma section_line_name: "section_line l \<Longrightarrow> butlast (drop 1 l) \<noteq> ''DEFAULT'' \<Longrightarrow> legal_name (butlast (drop 1 l))"
  by (cases l rule: remdups_adj.cases) (auto simp: section_line_def legal_name_def)

lemma ini_line_typed:
  assumes "typed_ini m" "metadata_line l" "ini_line l (m, cur) = Inr (m', cur')"
  shows "typed_ini m'"
proof -
  have w: "wf_ini m'" using ini_line_wf [OF _ assms(3)] assms(1) by (simp add: typed_ini_def)
  have t: "list_all (\<lambda>kv. metadata_value (snd kv)) (in_defaults m)" "list_all (\<lambda>sd. legal_name (fst sd)) (in_sections m)"
      "list_all (\<lambda>sd. list_all (\<lambda>kv. metadata_value (snd kv)) (snd sd)) (in_sections m)"
    using assms(1) by (auto simp: typed_ini_def list_all_iff)
  have "list_all (\<lambda>kv. metadata_value (snd kv)) (in_defaults m') \<and> list_all (\<lambda>sd. legal_name (fst sd)) (in_sections m') \<and>
      list_all (\<lambda>sd. list_all (\<lambda>kv. metadata_value (snd kv)) (snd sd)) (in_sections m')"
    using assms(2)
  proof (cases rule: metadata_line_cases)
    case 3
    then show ?thesis using assms(3) t section_line_name [OF 3(4)]
      by (auto simp: ini_line_def Let_def require_eq_Inr split: if_splits)
  next
    case 4
    then obtain k v where p: "partition_on CHR ''='' l = (k, True, v)" "metadata_value v" using key_line_value by blast
    have s: "list_all (\<lambda>sd. legal_name (fst sd)) (dict_set name x (in_sections m))" if "map_of (in_sections m) name = Some d" for name x d
    proof -
      have "map fst (dict_set name x (in_sections m)) = map fst (in_sections m)" using that by (rule dict_set_present)
      then show ?thesis using t(2) by (metis list.pred_map comp_def list.pred_cong)
    qed
    have d: "list_all (\<lambda>kv. metadata_value (snd kv)) d" if "map_of (in_sections m) name = Some d" for name d
      using t(3) map_of_SomeD [OF that] by (auto simp: list_all_iff)
    show ?thesis using assms(3) 4 p t s d
        dict_set_values [where P = "list_all (\<lambda>kv. metadata_value (snd kv))", OF t(3)]
      by (auto simp: ini_line_def require_eq_Inr split: if_splits option.splits)
  qed (use assms(3) t in \<open>auto simp: ini_line_def\<close>)
  then show ?thesis using w by (auto simp: typed_ini_def list_all_iff)
qed

lemma bad_line_None: "bad_line ls = None \<Longrightarrow> l \<in> set ls \<Longrightarrow> metadata_line l"
proof -
  assume b: "bad_line ls = None" "l \<in> set ls"
  then have d: "\<forall>x\<in>set (enumerate 1 ls). case x of (n, l) \<Rightarrow> metadata_line l"
    unfolding dropWhile_eq_Nil_conv [symmetric] by (auto simp: bad_line_def split: list.split_asm)
  have "l \<in> snd ` set (enumerate 1 ls)" using b(2) by (metis list.set_map map_snd_enumerate)
  then show ?thesis using d by auto
qed

lemma read_ini_typed:
  assumes "\<forall>l\<in>set ls. metadata_line l" "read_ini ls = Inr m"
  shows "typed_ini m"
proof -
  have "typed_ini (fst st')" if "\<forall>l\<in>set ls. metadata_line l" "typed_ini (fst st)" "rfold ini_line ls st = Inr st'" for st st'
    using that
  proof (induction ls arbitrary: st)
    case (Cons l ls)
    then obtain st1 where st: "ini_line l st = Inr st1" "rfold ini_line ls st1 = Inr st'" by (auto simp: rbind_eq_Inr)
    have "typed_ini (fst st1)" using ini_line_typed [of "fst st" l "snd st" "fst st1" "snd st1"] Cons.prems(1,2) st(1) by simp
    then show ?case using Cons.IH [OF _ _ st(2)] Cons.prems(1) by simp
  qed simp
  moreover obtain cur where "rfold ini_line ls (\<lparr>in_defaults = [], in_sections = []\<rparr>, None) = Inr (m, cur)"
    using assms(2) by (auto simp: read_ini_def rbind_eq_Inr)
  moreover have "typed_ini \<lparr>in_defaults = [], in_sections = []\<rparr>" by (simp add: typed_ini_def wf_ini_def)
  ultimately show ?thesis using assms(1) by fastforce
qed

lemma read_metadata_typed:
  assumes "read_metadata V p = Inr m"
  shows "typed_ini m"
proof -
  obtain ls where "bad_line ls = None" "read_ini ls = Inr m"
    using assms by (auto simp: read_metadata_def Let_def rbind_eq_Inr split: option.split_asm)
  then show ?thesis using bad_line_None read_ini_typed by blast
qed


end
