(* ===== verification/ReadyExample.thy ===== *)
theory ReadyExample
  imports ReadyProofs ReadyIni DaemonExample
begin

text \<open>
  A host that passes \<open>runtime_readiness\<close>: its files, the output of every command, and the metadata of one
  installed GUI. Every file has the same hash.
\<close>

section \<open>Files\<close>

definition rh_dirs :: "string list" where
  "rh_dirs = [''/etc'', ''/etc/opensnitchd'', ''/etc/opensnitchd/rules'']"

definition rh_assets :: "string list" where
  "rh_assets = mandatory_assets @ [R_MANIFEST, R_DAEMON_MANIFEST, R_DAEMON, R_DAEMON_CANDIDATE, R_DAEMON_PATCH]"

definition rh_meta :: "kind \<Rightarrow> nat \<Rightarrow> nat \<Rightarrow> 12 word \<Rightarrow> meta" where
  "rh_meta k u g mode = (toy_meta k mode)\<lparr>m_uid := u, m_gid := g\<rparr>"

definition rh_shared :: "(string \<times> meta) list" where
  "rh_shared = [(''/run/snitchwatch'', rh_meta KDir 0 0 457), (''/run/snitchwatch/opensnitchd.sock'', rh_meta KSock 0 0 384),
     (''/run/snitchwatch/bridge.sock'', rh_meta KSock 0 971 432), (''/run/snitchwatch-auth'', rh_meta KDir 970 971 1512),
     (''/run/snitchwatch-auth/token'', rh_meta KReg 970 971 416)]"

definition rh_stat :: "string \<Rightarrow> meta result" where
  "rh_stat p = (if p \<in> set rh_assets then Inr (toy_meta KReg 420)
     else if p \<in> set rh_dirs then Inr (toy_meta KDir 493)
     else (case map_of rh_shared p of None \<Rightarrow> Inl FileNotFoundError | Some m \<Rightarrow> Inr m))"

definition rh_manifest :: json where
  "rh_manifest = JObj
    [(''binary'', JObj [(''path'', JStr R_BINARY), (''sha256'', JStr d64), (''version'', JStr ''0.1.1'')]),
     (''files'', JObj (sort_key fst (map (\<lambda>n. (n, JStr d64)) mandatory_assets))),
     (''flatpak'', JObj [(''appId'', JStr R_APP), (''finishArgs'', JList []), (''manifestSha256'', JStr d64), (''profile'', JStr ''system''),
       (''runtimeRef'', JStr ''org.kde.Platform/x86_64/6.11''), (''sourceCommit'', JStr c40)]),
     (''profile'', JStr ''system''), (''schemaVersion'', JInt 1),
     (''source'', JObj [(''commit'', JStr c40), (''submoduleCommit'', JStr c40)])]"

definition rh_pins :: json where
  "rh_pins = JObj [(''bridgeVersion'', JStr ''0.1.1''), (''sourceCommit'', JStr c40), (''submoduleCommit'', JStr c40)]"

definition rh_daemon :: json where
  "rh_daemon = JObj
    [(''binary'', JObj [(''candidatePath'', JStr R_DAEMON_CANDIDATE), (''path'', JStr R_DAEMON), (''sha256'', JStr d64), (''version'', JStr ''1.8.0'')]),
     (''patch'', JObj [(''path'', JStr R_DAEMON_PATCH), (''sha256'', JStr d64)]),
     (''profile'', JStr ''system''), (''schemaVersion'', JInt 1), (''source'', JObj [(''commit'', JStr c40)])]"

definition rh_config :: json where
  "rh_config = JObj [(''DefaultAction'', JStr ''allow''), (''ProcMonitorMethod'', JStr ''proc''),
     (''Server'', JObj [(''Address'', JStr ''unix:opensnitchd.sock'')])]"

definition rh_proof :: json where
  "rh_proof = JObj [(''binaryPath'', JStr R_DAEMON), (''binarySha256'', JStr d64), (''installedBinaryChecked'', JBool True),
     (''patchSha256'', JStr d64), (''profile'', JStr ''system''), (''sourceCommit'', JStr c40)]"

definition lines_of :: "string list \<Rightarrow> string" where
  "lines_of ls = concat (map (\<lambda>l. l @ [newline]) ls)"

definition rh_status :: string where
  "rh_status = lines_of [''Uid:'' @ [tab] @ ''970 970 970 970'', ''Gid:'' @ [tab] @ ''970 970 970 970'', ''Groups:'' @ [tab] @ ''970'',
     ''CapEff:'' @ [tab] @ ''0000000000000000'', ''NoNewPrivs:'' @ [tab] @ ''1'']"

definition rh_root_status :: string where
  "rh_root_status = lines_of [''Uid:'' @ [tab] @ ''0 0 0 0'']"

definition rh_texts :: "(string \<times> string) list" where
  "rh_texts = [(R_MANIFEST, dump rh_manifest), (R_PINS, dump rh_pins), (R_DAEMON_MANIFEST, dump rh_daemon), (R_CONFIG, dump rh_config),
     (R_PROFILE, lines_of [''system'']), (''/proc/7/exe'', ''x''), (''/proc/7/status'', rh_status), (''/proc/8/exe'', ''x''),
     (''/proc/8/status'', rh_root_status), (''/proc/8/cmdline'', R_DAEMON @ [CHR 0x00]), (''/proc/1/cmdline'', ''/sbin/init'')]"

definition rh_read :: "string \<Rightarrow> string result" where
  "rh_read p = (case map_of rh_texts p of Some b \<Rightarrow> Inr b
     | None \<Rightarrow> if p \<in> set rh_assets then Inr ''x'' else Inl FileNotFoundError)"

section \<open>Commands\<close>

definition shown :: "(string \<times> string) list \<Rightarrow> string" where
  "shown ps = lines_of (map (\<lambda>p. fst p @ ''='' @ snd p) ps)"

definition rh_bridge :: "(string \<times> string) list" where
  "rh_bridge = bridge_properties @
    [(''ExecStart'', ''{ path=/usr/bin/snitchwatch-bridge-cli ; argv[]=/usr/bin/snitchwatch-bridge-cli ; ignore_errors=no }''),
     (''Environment'', join '' '' (map (\<lambda>p. fst p @ ''='' @ snd p) bridge_environment)),
     (''TriggeredBy'', join '' '' R_SOCKETS), (''RestrictAddressFamilies'', ''AF_INET AF_INET6 AF_UNIX''), (''MainPID'', ''7''), (''NeedDaemonReload'', ''no'')]"

definition rh_socket :: "string \<Rightarrow> string \<Rightarrow> string \<Rightarrow> string \<Rightarrow> (string \<times> string) list" where
  "rh_socket u p g mode = socket_properties u p g mode @ [(''NeedDaemonReload'', ''no'')]"

definition rh_opensnitch :: "(string \<times> string) list" where
  "rh_opensnitch = [(''WorkingDirectory'', ''!/run/snitchwatch''), (''Wants'', R_SOCKETS ! 0), (''After'', R_SOCKETS ! 0), (''Requires'', []),
     (''Requisite'', []), (''BindsTo'', []), (''PartOf'', []),
     (''ExecStart'', ''{ path=/usr/bin/opensnitchd ; argv[]=/usr/bin/opensnitchd ; ignore_errors=no }''),
     (''FragmentPath'', R_DAEMON_UNIT), (''DropInPaths'', R_DAEMON_DROPIN), (''NeedDaemonReload'', ''no''), (''MainPID'', ''8'')]"

definition rh_show :: "string \<Rightarrow> string" where
  "rh_show u = (if u = R_SERVICE then shown rh_bridge
     else if u = R_SOCKETS ! 0 then shown (rh_socket u ''/run/snitchwatch/opensnitchd.sock'' ''root'' ''0600'')
     else if u = R_SOCKETS ! 1 then shown (rh_socket u ''/run/snitchwatch/bridge.sock'' ''snitchwatch-ui'' ''0660'')
     else shown rh_opensnitch)"

definition rh_passwd :: string where
  "rh_passwd = lines_of [''ada:x:1000:1000::/home/ada:/bin/bash'']"

definition rh_outputs :: "(string list \<times> string) list" where
  "rh_outputs =
    [([''/usr/bin/python3'', ''/usr/libexec/snitchwatch/verify-system-manifest.py''], []),
     ([''/usr/bin/python3'', ''/usr/libexec/snitchwatch/verify-system-daemon.py''], dump rh_proof),
     ([R_BINARY, ''--version''], ''snitchwatch-bridge-cli 0.1.1''), ([R_DAEMON, ''-version''], ''1.8.0''),
     ([''/usr/bin/getent'', ''passwd'', ''snitchwatch''], ''snitchwatch:x:970:970::/var/lib/snitchwatch:/usr/sbin/nologin''),
     ([''/usr/bin/getent'', ''group'', ''snitchwatch''], ''snitchwatch:x:970:''),
     ([''/usr/bin/getent'', ''group'', ''snitchwatch-ui''], ''snitchwatch-ui:x:971:ada''),
     ([''/usr/bin/getent'', ''passwd''], rh_passwd), ([''/usr/bin/flatpak'', ''--installations''], lines_of [''/var/lib/flatpak'']),
     ([''/usr/bin/systemctl'', ''--global'', ''is-enabled'', ''snitchwatch-bridge.service''], ''disabled'')]"

definition rh_answer :: "string list \<Rightarrow> string" where
  "rh_answer argv =
     (if take 2 argv = [''/usr/bin/systemctl'', ''show''] then rh_show (argv ! 2)
      else if take 2 argv = [''/usr/bin/systemctl'', ''is-enabled''] then ''enabled''
      else if take 2 argv = [''/usr/bin/systemctl'', ''is-active''] then ''active''
      else (case map_of rh_outputs argv of None \<Rightarrow> [] | Some s \<Rightarrow> s))"

definition rh_exec :: "(string \<times> string) list \<Rightarrow> string list \<Rightarrow> reply result" where
  "rh_exec env argv = Inr \<lparr>rp_code = 0, rp_out = rh_answer argv, rp_err = []\<rparr>"

section \<open>The installed GUI\<close>

definition rh_metadata :: "(string \<times> (string \<times> string) list) list" where
  "rh_metadata =
    [(''Application'', [(''name'', R_APP), (''runtime'', ''org.kde.Platform/x86_64/6.11'')]),
     (''Context'', [(''shared'', ''ipc;''), (''sockets'', ''wayland;fallback-x11;''), (''devices'', ''dri;''),
       (''filesystems'', ''/run/snitchwatch:ro;/run/snitchwatch-auth:ro;xdg-config/snitchwatch:create;''),
       (''persistent'', ''.local/share/snitchwatch;.local/state/snitchwatch;'')]),
     (''Session Bus Policy'', [(''org.freedesktop.Notifications'', ''talk'')]),
     (''Environment'', [(''SNITCHWATCH_SYSTEM_BRIDGE'', ''1'')])]"

definition rh_app :: string where
  "rh_app = ''/var/lib/flatpak/app/'' @ R_APP"

definition rh_deployment :: string where
  "rh_deployment = rh_app @ ''/x86_64/stable/active/metadata''"

definition rh :: view where
  "rh = \<lparr>v_stat = rh_stat, v_read = rh_read, v_list = (\<lambda>p. if p = ''/proc'' then Inr [''1'', ''7'', ''8'', ''self''] else Inl FileNotFoundError),
     v_readlink = (\<lambda>p. Inr (if p = ''/proc/7/exe'' then R_BINARY else if p = ''/proc/8/exe'' then R_DAEMON else ''/usr/lib/systemd/systemd'')),
     v_resolve = Inr, v_exists = (\<lambda>p. Inr (p = rh_app)),
     v_open = (\<lambda>p. Inr (toy_meta KReg 420, utf8_encode (ini_text rh_metadata))), v_glob = (\<lambda>d pat. Inr [rh_deployment]),
     v_access = (\<lambda>p. True), v_exec = rh_exec, v_json = (\<lambda>s. Inl (ValueError [])), v_sha = (\<lambda>b. d64)\<rparr>"

section \<open>Decoded files\<close>

lemma rh_shapes: "text_shape rh_pins" "text_shape rh_daemon" "text_shape rh_config" "text_shape rh_proof"
  unfolding text_shape_def by code_simp+

lemma rh_distinct: "distinct mandatory_assets"
proof -
  have "distinct (map rev mandatory_assets)" by code_simp
  then show ?thesis by (simp add: distinct_map)
qed

lemma rh_manifest_shape: "text_shape rh_manifest"
proof -
  have f: "text_shape (JObj (sort_key fst (map (\<lambda>n. (n, JStr d64)) mandatory_assets)))" by (simp add: text_shape_sorted rh_distinct)
  have g: "text_shape (JObj [(''path'', JStr R_BINARY), (''sha256'', JStr d64), (''version'', JStr ''0.1.1'')])"
    "text_shape (JObj [(''appId'', JStr R_APP), (''finishArgs'', JList []), (''manifestSha256'', JStr d64), (''profile'', JStr ''system''),
       (''runtimeRef'', JStr ''org.kde.Platform/x86_64/6.11''), (''sourceCommit'', JStr c40)])"
    "text_shape (JObj [(''commit'', JStr c40), (''submoduleCommit'', JStr c40)])"
    by (rule text_shape_obj; simp only: list.map fst_conv snd_conv list.pred_inject text_shape_base; code_simp)+
  show ?thesis unfolding rh_manifest_def
    by (rule text_shape_obj) (simp_all only: list.map fst_conv snd_conv list.pred_inject text_shape_base f g simp_thms, code_simp, code_simp)
qed

lemma rh_keys: "distinct (map fst rh_texts)"
proof -
  have "map fst rh_texts = [R_MANIFEST, R_PINS, R_DAEMON_MANIFEST, R_CONFIG, R_PROFILE, ''/proc/7/exe'', ''/proc/7/status'', ''/proc/8/exe'',
     ''/proc/8/status'', ''/proc/8/cmdline'', ''/proc/1/cmdline'']" by (simp add: rh_texts_def)
  moreover have "distinct [R_MANIFEST, R_PINS, R_DAEMON_MANIFEST, R_CONFIG, R_PROFILE, ''/proc/7/exe'', ''/proc/7/status'', ''/proc/8/exe'',
     ''/proc/8/status'', ''/proc/8/cmdline'', ''/proc/1/cmdline'']" by code_simp
  ultimately show ?thesis by simp
qed

lemma rh_read_text: "(p, b) \<in> set rh_texts \<Longrightarrow> rh_read p = Inr b"
  using rh_keys by (simp add: rh_read_def)

definition rh_read_names :: "string list" where
  "rh_read_names = rh_assets @ [''/proc/7/exe'', ''/proc/8/exe'']"

lemma rh_names: "list_all (\<lambda>p. startswith p ''/'' \<and> no_dotdot p) (rh_assets @ rh_dirs @ map fst rh_shared @
    [R_CONFIG, R_PROFILE, ''/proc/7/exe'', ''/proc/7/status'', ''/proc/8/exe'', ''/proc/8/status'', ''/proc/8/cmdline''])"
  by code_simp

lemma rh_reads: "p \<in> set rh_read_names \<Longrightarrow> \<exists>b. rh_read p = Inr b"
  by (auto simp: rh_read_def rh_read_names_def rh_texts_def split: option.split)

lemma rh_bytes: "(p, b) \<in> set rh_texts \<Longrightarrow> startswith p ''/'' \<Longrightarrow> no_dotdot p \<Longrightarrow> ctx_bytes rh p = Inr b"
  by (simp add: ctx_bytes_def ctx_path_def rh_def rh_read_text)

lemma rh_digest: "p \<in> set rh_read_names \<Longrightarrow> ctx_digest rh p = Inr d64"
  using rh_reads [of p] rh_names
  by (auto simp: ctx_digest_def ctx_bytes_def ctx_path_def rh_def rh_read_names_def list_all_iff)

lemma rh_asset_stat: "p \<in> set rh_assets \<Longrightarrow> ctx_stat rh p = Inr (toy_meta KReg 420)"
  using rh_names by (auto simp: ctx_stat_def ctx_path_def rh_def rh_stat_def list_all_iff)

lemma rh_root_regular: "root_regular (toy_meta KReg 420)"
  by (simp add: root_regular_def toy_meta_def go_writable_def)

lemma rh_json_text: "(p, dump v) \<in> set rh_texts \<Longrightarrow> text_shape v \<Longrightarrow> startswith p ''/'' \<and> no_dotdot p \<Longrightarrow> ctx_json rh p = Inr v"
  by (simp add: ctx_json_def rh_bytes) (simp add: dump_def json_bytes_text)

lemma rh_json: "ctx_json rh R_MANIFEST = Inr rh_manifest" "ctx_json rh R_PINS = Inr rh_pins" "ctx_json rh R_DAEMON_MANIFEST = Inr rh_daemon"
  "ctx_json rh R_CONFIG = Inr rh_config"
proof -
  have n: "startswith p ''/'' \<and> no_dotdot p" if "p \<in> {R_MANIFEST, R_PINS, R_DAEMON_MANIFEST, R_CONFIG}" for p
    using rh_names that by (auto simp: rh_assets_def mandatory_assets_def list_all_iff)
  show "ctx_json rh R_MANIFEST = Inr rh_manifest" "ctx_json rh R_PINS = Inr rh_pins" "ctx_json rh R_DAEMON_MANIFEST = Inr rh_daemon"
    "ctx_json rh R_CONFIG = Inr rh_config"
    by (rule rh_json_text; simp add: rh_texts_def rh_shapes rh_manifest_shape n)+
qed

section \<open>Answers of the commands\<close>

lemma rh_run:
  "map_of COMMANDS name = Some q \<Longrightarrow> startswith q ''/'' \<Longrightarrow> run_out rh (name # args) = Inr (rh_answer (q # args))"
  "map_of COMMANDS name = None \<Longrightarrow> startswith name ''/'' \<Longrightarrow> run_out rh (name # args) = Inr (rh_answer (name # args))"
  by (simp_all add: run_out_def command_def spawn_def rh_def rh_exec_def)

lemma rh_command: "map_of COMMANDS name = Some q \<Longrightarrow> startswith q ''/'' \<Longrightarrow> 0 \<in> set okay \<Longrightarrow>
    command rh (name # args) okay = Inr \<lparr>rp_code = 0, rp_out = rh_answer (q # args), rp_err = []\<rparr>"
  by (simp add: command_def spawn_def rh_def rh_exec_def)

lemma rh_programs: "map_of COMMANDS ''python3'' = Some ''/usr/bin/python3''" "map_of COMMANDS ''getent'' = Some ''/usr/bin/getent''"
  "map_of COMMANDS ''systemctl'' = Some ''/usr/bin/systemctl''" "map_of COMMANDS ''flatpak'' = Some ''/usr/bin/flatpak''"
  "map_of COMMANDS ''ss'' = Some ''/usr/bin/ss''" "map_of COMMANDS R_BINARY = None" "map_of COMMANDS R_DAEMON = None"
  by code_simp+

lemma rh_output_keys: "distinct (map fst rh_outputs)" "list_all (\<lambda>a. take 1 a \<noteq> [''/usr/bin/systemctl''] \<or> take 1 (drop 1 a) = [''--global'']) (map fst rh_outputs)"
proof -
  have k: "map fst rh_outputs =
    [[''/usr/bin/python3'', ''/usr/libexec/snitchwatch/verify-system-manifest.py''],
     [''/usr/bin/python3'', ''/usr/libexec/snitchwatch/verify-system-daemon.py''], [R_BINARY, ''--version''], [R_DAEMON, ''-version''],
     [''/usr/bin/getent'', ''passwd'', ''snitchwatch''], [''/usr/bin/getent'', ''group'', ''snitchwatch''],
     [''/usr/bin/getent'', ''group'', ''snitchwatch-ui''], [''/usr/bin/getent'', ''passwd''], [''/usr/bin/flatpak'', ''--installations''],
     [''/usr/bin/systemctl'', ''--global'', ''is-enabled'', ''snitchwatch-bridge.service'']]" by (simp add: rh_outputs_def)
  show "distinct (map fst rh_outputs)" "list_all (\<lambda>a. take 1 a \<noteq> [''/usr/bin/systemctl''] \<or> take 1 (drop 1 a) = [''--global'']) (map fst rh_outputs)"
    unfolding k by code_simp+
qed

lemma rh_answer_output:
  assumes "(a, s) \<in> set rh_outputs"
  shows "rh_answer a = s"
proof -
  have "take 1 a \<noteq> [''/usr/bin/systemctl''] \<or> take 1 (drop 1 a) = [''--global'']"
    using rh_output_keys(2) assms by (force simp: list_all_iff)
  then have "take 2 a \<notin> {[''/usr/bin/systemctl'', ''show''], [''/usr/bin/systemctl'', ''is-enabled''], [''/usr/bin/systemctl'', ''is-active'']}"
    by (cases a rule: remdups_adj.cases) auto
  then show ?thesis using assms rh_output_keys(1) by (simp add: rh_answer_def)
qed

lemma rh_outs:
  "run_out rh [''python3'', ''/usr/libexec/snitchwatch/verify-system-manifest.py''] = Inr []"
  "run_out rh [''python3'', ''/usr/libexec/snitchwatch/verify-system-daemon.py''] = Inr (dump rh_proof)"
  "run_out rh [R_BINARY, ''--version''] = Inr ''snitchwatch-bridge-cli 0.1.1''" "run_out rh [R_DAEMON, ''-version''] = Inr ''1.8.0''"
  "run_out rh [''getent'', ''passwd'', ''snitchwatch''] = Inr ''snitchwatch:x:970:970::/var/lib/snitchwatch:/usr/sbin/nologin''"
  "run_out rh [''getent'', ''group'', ''snitchwatch''] = Inr ''snitchwatch:x:970:''"
  "run_out rh [''getent'', ''group'', ''snitchwatch-ui''] = Inr ''snitchwatch-ui:x:971:ada''"
  "run_out rh [''getent'', ''passwd''] = Inr rh_passwd" "run_out rh [''flatpak'', ''--installations''] = Inr (lines_of [''/var/lib/flatpak''])"
proof -
  have s: "startswith R_BINARY ''/''" "startswith R_DAEMON ''/''" by code_simp+
  show "run_out rh [''python3'', ''/usr/libexec/snitchwatch/verify-system-manifest.py''] = Inr []"
    "run_out rh [''python3'', ''/usr/libexec/snitchwatch/verify-system-daemon.py''] = Inr (dump rh_proof)"
    "run_out rh [R_BINARY, ''--version''] = Inr ''snitchwatch-bridge-cli 0.1.1''" "run_out rh [R_DAEMON, ''-version''] = Inr ''1.8.0''"
    "run_out rh [''getent'', ''passwd'', ''snitchwatch''] = Inr ''snitchwatch:x:970:970::/var/lib/snitchwatch:/usr/sbin/nologin''"
    "run_out rh [''getent'', ''group'', ''snitchwatch''] = Inr ''snitchwatch:x:970:''"
    "run_out rh [''getent'', ''group'', ''snitchwatch-ui''] = Inr ''snitchwatch-ui:x:971:ada''"
    "run_out rh [''getent'', ''passwd''] = Inr rh_passwd" "run_out rh [''flatpak'', ''--installations''] = Inr (lines_of [''/var/lib/flatpak''])"
    using s by (simp_all add: rh_run rh_programs rh_answer_output rh_outputs_def)
qed

section \<open>The image\<close>

lemma rh_plain: "strip ''1.8.0'' = ''1.8.0''" "strip ''snitchwatch-bridge-cli 0.1.1'' = ''snitchwatch-bridge-cli 0.1.1''"
  "hex_match 40 (JStr c40) = Inr True" "hex_match 64 (JStr d64) = Inr True" "truthy (JStr d64)"
  by code_simp+

lemma rh_hex: "hex_or_empty 64 (JStr d64) = Inr True"
  using rh_plain by (simp add: hex_or_empty_def)

lemma rh_daemon_accepted: "immutable_daemon rh rh_pins = Inr rh_daemon"
proof -
  have a: "check_daemon_artifact rh (n, Inr (JStr d64)) = Inr ()" if "n \<in> {R_DAEMON, R_DAEMON_CANDIDATE, R_DAEMON_PATCH}" for n
  proof -
    have "n \<in> set rh_assets" "n \<in> set rh_read_names" using that by (auto simp: rh_assets_def rh_read_names_def)
    then show ?thesis by (simp add: check_daemon_artifact_def rh_hex rh_asset_stat rh_root_regular rh_digest)
  qed
  have m: "ctx_stat rh R_DAEMON_MANIFEST = Inr (toy_meta KReg 420)" by (rule rh_asset_stat) (simp add: rh_assets_def)
  have p: "text_json rh (dump rh_proof) = Inr rh_proof"
    using json_bytes_text(2) [OF rh_shapes(4)] by (simp add: text_json_def dump_def)
  show ?thesis
    by (simp add: immutable_daemon_def rh_outs p m rh_root_regular rh_json a rh_plain)
      (simp add: rh_daemon_def rh_pins_def rh_proof_def get_is_def same_def get2_def index2_def get_identical_def a all_of.simps)
qed

lemma rh_parents: "list_all (\<lambda>n. list_all (\<lambda>p. p \<in> set rh_dirs \<and> p \<notin> set rh_assets) (parents n)) (map fst R_RESERVED_RULES)"
  by code_simp

lemma rh_asset:
  assumes "n \<in> set mandatory_assets"
  shows "check_asset rh (n, JStr d64) = Inr ()"
proof -
  have a: "n \<in> set rh_assets" "n \<in> set rh_read_names" using assms by (auto simp: rh_assets_def rh_read_names_def)
  have "list_all (\<lambda>n. (startswith n ''/usr/'' \<or> n \<in> fst ` set R_RESERVED_RULES) \<and> no_dotdot n) mandatory_assets" by code_simp
  then have s: "startswith n ''/usr/'' \<or> n \<in> fst ` set R_RESERVED_RULES" "no_dotdot n" using assms by (auto simp: list_all_iff)
  have r: "rany (\<lambda>p. rbind (ctx_stat rh p) (\<lambda>m. Inr (m_kind m = KLink))) (parents n) = Inr False" if "n \<in> fst ` set R_RESERVED_RULES"
  proof -
    have "ctx_stat rh p = Inr (toy_meta KDir 493)" if "p \<in> set (parents n)" for p
    proof -
      have "p \<in> set rh_dirs" "p \<notin> set rh_assets" using rh_parents that \<open>n \<in> fst ` set R_RESERVED_RULES\<close> by (auto simp: list_all_iff)
      then show ?thesis using rh_names by (auto simp: ctx_stat_def ctx_path_def rh_def rh_stat_def list_all_iff)
    qed
    then show ?thesis by (simp add: rany_eq_False toy_meta_def)
  qed
  have "(case map_of R_RESERVED_RULES n of None \<Rightarrow> Inr () | Some what \<Rightarrow>
      demand (rbind (rany (\<lambda>p. rbind (ctx_stat rh p) (\<lambda>m. Inr (m_kind m = KLink))) (parents n)) (\<lambda>b. Inr (\<not> b)))
        (Refusal (''symlink in the path of the shipped '' @ what)) (Inr ())) = Inr ()"
  proof (cases "map_of R_RESERVED_RULES n")
    case (Some w)
    then have "n \<in> fst ` set R_RESERVED_RULES" by (auto dest: map_of_SomeD intro: rev_image_eqI)
    then show ?thesis using Some r by simp
  qed simp
  then show ?thesis using s
    by (simp add: check_asset_def rh_hex rh_asset_stat [OF a(1)] rh_root_regular rh_digest [OF a(2)])
qed

lemma rh_immutable: "immutable rh = Inr rh_manifest"
proof -
  have f: "check_assets rh (JObj (sort_key fst (map (\<lambda>n. (n, JStr d64)) mandatory_assets))) = Inr ()"
    using rh_asset by (auto simp: check_assets_def dict_items_def image_image rall_eq_Inr)
  have m: "ctx_stat rh R_MANIFEST = Inr (toy_meta KReg 420)" by (rule rh_asset_stat) (simp add: rh_assets_def)
  have "ctx_bytes rh R_PROFILE = Inr (lines_of [''system''])"
    using rh_names by (intro rh_bytes) (simp_all add: rh_texts_def)
  moreover have "utf8_decode (lines_of [''system'']) = Some (lines_of [''system''])" "strip (universal_newlines (lines_of [''system''])) = ''system''"
    by code_simp+
  ultimately have p: "ctx_text rh R_PROFILE = Inr (universal_newlines (lines_of [''system'']))" "strip (universal_newlines (lines_of [''system''])) = ''system''"
    by (simp_all add: ctx_text_def)
  have b: "map_of (sort_key fst (map (\<lambda>n. (n, JStr d64)) mandatory_assets)) R_BINARY = Some (JStr d64)"
    by (simp add: map_of_sort_key_fst rh_distinct comp_def map_of_map_restrict) (simp add: mandatory_assets_def)
  have s: "check_source_provenance rh_pins (JObj [(''commit'', JStr c40), (''submoduleCommit'', JStr c40)]) = Inr True"
    by (simp add: check_source_provenance_def all_of.simps same_def rh_pins_def rh_plain)
  have "check_flatpak_provenance (JObj [(''binary'', x), (''files'', y), (''flatpak'', JObj [(''appId'', JStr R_APP), (''finishArgs'', JList []),
       (''manifestSha256'', JStr d64), (''profile'', JStr ''system''), (''runtimeRef'', JStr ''org.kde.Platform/x86_64/6.11''), (''sourceCommit'', JStr c40)]),
       (''profile'', JStr ''system''), (''schemaVersion'', JInt 1), (''source'', z)]) (JObj [(''commit'', JStr c40), (''submoduleCommit'', JStr c40)]) = Inr ()" for x y z
    by (simp add: check_flatpak_provenance_def all_of.simps get_is_def same_def rh_plain)
  then have g: "check_flatpak_provenance rh_manifest (JObj [(''commit'', JStr c40), (''submoduleCommit'', JStr c40)]) = Inr ()"
    by (simp add: rh_manifest_def)
  have v: "''snitchwatch-bridge-cli 0.1.1'' = ''snitchwatch-bridge-cli '' @ R_BRIDGE_VERSION" by (simp add: R_BRIDGE_VERSION_def)
  have i: "get_or rh_manifest ''source'' (JObj []) = Inr (JObj [(''commit'', JStr c40), (''submoduleCommit'', JStr c40)])"
      "get_or rh_manifest ''files'' (JObj []) = Inr (JObj (sort_key fst (map (\<lambda>n. (n, JStr d64)) mandatory_assets)))"
      "get2 rh_manifest ''binary'' ''path'' = Inr (JStr R_BINARY)"
      "index rh_manifest ''binary'' = Inr (JObj [(''path'', JStr R_BINARY), (''sha256'', JStr d64), (''version'', JStr ''0.1.1'')])"
      "get rh_manifest ''schemaVersion'' = Inr (JInt 1)" "get rh_manifest ''profile'' = Inr (JStr ''system'')"
      "get rh_pins ''bridgeVersion'' = Inr (JStr ''0.1.1'')"
    by (simp_all add: rh_manifest_def rh_pins_def get2_def get_is_def)
  show ?thesis unfolding immutable_def
    by (simp add: p rh_outs m rh_root_regular rh_json i s f b g rh_plain v [symmetric] rh_daemon_accepted all_of.simps same_def get_is_def R_BRIDGE_VERSION_def)
qed

definition rh_accounts :: accounts where
  "rh_accounts = \<lparr>ac_uid = 970, ac_gid = 970, ac_ui_gid = 971, ac_members = ''ada''\<rparr>"

lemma rh_account_ids: "account_ids rh = Inr rh_accounts"
proof -
  have "split_on CHR '':'' (strip ''snitchwatch:x:970:970::/var/lib/snitchwatch:/usr/sbin/nologin'') =
      [''snitchwatch'', ''x'', ''970'', ''970'', [], ''/var/lib/snitchwatch'', ''/usr/sbin/nologin'']"
    "split_on CHR '':'' (strip ''snitchwatch:x:970:'') = [''snitchwatch'', ''x'', ''970'', []]"
    "split_on CHR '':'' (strip ''snitchwatch-ui:x:971:ada'') = [''snitchwatch-ui'', ''x'', ''971'', ''ada'']"
    "to_int ''970'' = Inr 970" "to_int ''971'' = Inr 971" by code_simp+
  then show ?thesis by (simp add: account_ids_def Let_def rh_outs rh_accounts_def)
qed

section \<open>Units and configuration\<close>

lemma pairs_of_lines:
  assumes "distinct (map fst ps)" "list_all (\<lambda>p. d \<notin> set (fst p)) ps"
  shows "pairs_of d (map (\<lambda>p. fst p @ d # snd p) ps) = ps"
proof -
  have "fold (\<lambda>l m. case partition_on d l of (k, found, v) \<Rightarrow> if found then dict_set k v m else m) (map (\<lambda>p. fst p @ d # snd p) ps) m = m @ ps"
    if "distinct (map fst (m @ ps))" "list_all (\<lambda>p. d \<notin> set (fst p)) ps" for m
    using that by (induction ps arbitrary: m) (auto simp: partition_on_append dict_set_new image_iff split_beta)
  from this [of "[]"] show ?thesis using assms by (simp add: pairs_of_def)
qed

definition showable :: "(string \<times> string) list \<Rightarrow> bool" where
  "showable ps \<longleftrightarrow> distinct (map fst ps) \<and> list_all (\<lambda>p. CHR ''='' \<notin> set (fst p) \<and>
     list_all (\<lambda>c. \<not> is_line_end c) (fst p) \<and> list_all (\<lambda>c. \<not> is_line_end c) (snd p)) ps"

lemma pairs_of_shown:
  assumes "showable ps"
  shows "pairs_of CHR ''='' (splitlines (shown ps)) = ps"
proof -
  have e: "\<not> is_line_end CHR ''=''" by code_simp
  have "splitlines (shown ps) = map (\<lambda>p. fst p @ CHR ''='' # snd p) ps"
    unfolding shown_def lines_of_def using assms e
    by (subst splitlines_lines) (auto simp: showable_def list_all_iff)
  then show ?thesis using assms by (simp add: pairs_of_lines showable_def list_all_iff)
qed

lemma rh_props:
  assumes "rh_show u = shown ps" "showable ps" "set names \<subseteq> fst ` set ps"
  shows "props rh u names = Inr ps"
proof -
  have "run_out rh [''systemctl'', ''show'', u, ''--no-pager'', ''--all'', ''--property='' @ join '','' names] = Inr (shown ps)"
    using assms(1) by (simp add: rh_run rh_programs rh_answer_def)
  moreover have "filter (\<lambda>n. n \<notin> fst ` set ps) names = []" using assms(3) by (auto simp: filter_empty_conv)
  ultimately show ?thesis using assms(3) by (simp add: props_def Let_def pairs_of_shown [OF assms(2)])
qed

lemma rh_showable: "showable rh_bridge" "showable rh_opensnitch"
  "showable (rh_socket (R_SOCKETS ! 0) ''/run/snitchwatch/opensnitchd.sock'' ''root'' ''0600'')"
  "showable (rh_socket (R_SOCKETS ! 1) ''/run/snitchwatch/bridge.sock'' ''snitchwatch-ui'' ''0660'')"
  by code_simp+

lemma rh_shows: "rh_show R_SERVICE = shown rh_bridge" "rh_show ''opensnitch.service'' = shown rh_opensnitch"
  "rh_show (R_SOCKETS ! 0) = shown (rh_socket (R_SOCKETS ! 0) ''/run/snitchwatch/opensnitchd.sock'' ''root'' ''0600'')"
  "rh_show (R_SOCKETS ! 1) = shown (rh_socket (R_SOCKETS ! 1) ''/run/snitchwatch/bridge.sock'' ''snitchwatch-ui'' ''0660'')"
proof -
  have "R_SOCKETS ! 0 \<noteq> R_SERVICE" "R_SOCKETS ! 1 \<noteq> R_SERVICE" "R_SOCKETS ! 1 \<noteq> R_SOCKETS ! 0"
    "''opensnitch.service'' \<notin> {R_SERVICE, R_SOCKETS ! 0, R_SOCKETS ! 1}" by code_simp+
  then show "rh_show R_SERVICE = shown rh_bridge" "rh_show ''opensnitch.service'' = shown rh_opensnitch"
    "rh_show (R_SOCKETS ! 0) = shown (rh_socket (R_SOCKETS ! 0) ''/run/snitchwatch/opensnitchd.sock'' ''root'' ''0600'')"
    "rh_show (R_SOCKETS ! 1) = shown (rh_socket (R_SOCKETS ! 1) ''/run/snitchwatch/bridge.sock'' ''snitchwatch-ui'' ''0660'')"
    by (simp_all add: rh_show_def)
qed

lemma rh_bridge_contract: "bridge_contract V rh_bridge = Inr ()"
  by code_simp

lemma rh_loaded: "loaded_current R_SERVICE rh_bridge = Inr ()" "loaded_current ''opensnitch.service'' rh_opensnitch = Inr ()"
  "loaded_current u (rh_socket u p g m) = Inr ()"
proof -
  show "loaded_current R_SERVICE rh_bridge = Inr ()" "loaded_current ''opensnitch.service'' rh_opensnitch = Inr ()" by code_simp+
  show "loaded_current u (rh_socket u p g m) = Inr ()"
    by (simp add: loaded_current_def shown_field_def rh_socket_def socket_properties_def)
qed

lemma rh_socket_contract: "rh_show u = shown (rh_socket u p g m) \<Longrightarrow> showable (rh_socket u p g m) \<Longrightarrow> socket_contract rh (u, p, g, m) = Inr ()"
proof -
  assume u: "rh_show u = shown (rh_socket u p g m)" "showable (rh_socket u p g m)"
  have "props rh u [''Listen'', ''SocketUser'', ''SocketGroup'', ''SocketMode'', ''Accept'', ''Triggers'', ''FragmentPath'', ''DropInPaths'', ''NeedDaemonReload'']
     = Inr (rh_socket u p g m)"
    by (rule rh_props [OF u]) (simp add: rh_socket_def socket_properties_def)
  moreover have "filter (\<lambda>p. fst p \<noteq> ''NeedDaemonReload'') (rh_socket u p g m) = socket_properties u p g m"
    by (simp add: rh_socket_def socket_properties_def)
  ultimately show ?thesis unfolding socket_contract_def by (simp only: prod.case rbind_Inr rh_loaded) (simp only: require_eq_Inr simp_thms)
qed

lemma rh_daemon_contract: "daemon_contract rh = Inr ()"
proof -
  have "props rh ''opensnitch.service'' [''WorkingDirectory'', ''Wants'', ''After'', ''Requires'', ''Requisite'', ''BindsTo'', ''PartOf'', ''ExecStart'',
       ''FragmentPath'', ''DropInPaths'', ''NeedDaemonReload''] = Inr rh_opensnitch"
    by (rule rh_props [OF rh_shows(2) rh_showable(2)]) (simp add: rh_opensnitch_def)
  moreover have "daemon_unit_contract V rh_opensnitch = Inr ()" for V by code_simp
  moreover have "rbind (shown_field rh_opensnitch ''ExecStart'') daemon_exec_contract = Inr ()" by code_simp
  moreover have "all_of [rbind (shown_field rh_opensnitch ''WorkingDirectory'') (\<lambda>d. Inr (d = ''!/run/snitchwatch'')),
      rbind (shown_field rh_opensnitch ''Wants'') (\<lambda>v. Inr (R_SOCKETS ! 0 \<in> set (words v))),
      rbind (shown_field rh_opensnitch ''After'') (\<lambda>v. Inr (R_SOCKETS ! 0 \<in> set (words v)))] = Inr True" by code_simp
  moreover have "rbind (rany (\<lambda>k. rbind (shown_field rh_opensnitch k) (\<lambda>v. Inr (R_SOCKETS ! 0 \<in> set (words v))))
      [''Requires'', ''Requisite'', ''BindsTo'', ''PartOf'']) (\<lambda>b. Inr (\<not> b)) = Inr True" by code_simp
  ultimately show ?thesis unfolding daemon_contract_def Let_def by (simp only: rbind_Inr rh_loaded demand_True)
qed

lemma rh_unit_contract: "unit_contract rh = Inr rh_bridge"
proof -
  have "props rh R_SERVICE (map fst bridge_properties @ [''ExecStart'', ''Environment'', ''TriggeredBy'', ''RestrictAddressFamilies'', ''MainPID'', ''NeedDaemonReload''])
      = Inr rh_bridge"
    by (rule rh_props [OF rh_shows(1) rh_showable(1)]) (simp add: rh_bridge_def)
  moreover have "rbind (shown_field rh_bridge ''DropInPaths'') (vendor_dropin_contract V) = Inr ()" for V by code_simp
  moreover have "rall (socket_contract rh) [(R_SOCKETS ! 0, ''/run/snitchwatch/opensnitchd.sock'', ''root'', ''0600''),
       (R_SOCKETS ! 1, ''/run/snitchwatch/bridge.sock'', ''snitchwatch-ui'', ''0660'')] = Inr ()"
    by (simp only: rall.simps rbind_Inr rh_socket_contract [OF rh_shows(3) rh_showable(3)] rh_socket_contract [OF rh_shows(4) rh_showable(4)])
  ultimately show ?thesis unfolding unit_contract_def by (simp only: rbind_Inr rh_loaded rh_bridge_contract rh_daemon_contract)
qed

lemma rh_config_contract: "config_contract rh ''unix:opensnitchd.sock'' = Inr rh_config"
  by (simp add: config_contract_def rh_json) (simp add: rh_config_def get2_def get_is_def)


section \<open>Local overrides\<close>

definition rh_dirs_of_users :: "string list" where
  "rh_dirs_of_users = fixed_user_dirs @
     map (\<lambda>s. ''/home/ada'' @ s) [''/.config/systemd/user.control'', ''/.config/systemd/user'', ''/.local/share/systemd/user''] @
     map (\<lambda>s. ''/run/user/1000/systemd/'' @ s) [''user.control'', ''transient'', ''generator.early'', ''user'', ''generator'', ''generator.late'']"

definition rh_units_of_users :: "string list" where
  "rh_units_of_users = concat (map (\<lambda>d. map (\<lambda>s. d @ ''/snitchwatch-bridge.service'' @ s) [[], ''.d'']) rh_dirs_of_users)"

lemma rh_no_path: "list_all (\<lambda>p. startswith p ''/'' \<and> no_dotdot p \<and> p \<notin> set (rh_assets @ rh_dirs @ map fst rh_shared)) (system_paths @ rh_units_of_users)"
  by code_simp

lemma rh_stat_none: "p \<notin> set (rh_assets @ rh_dirs @ map fst rh_shared) \<Longrightarrow> rh_stat p = Inl FileNotFoundError"
  by (auto simp: rh_stat_def map_of_eq_None_keys split: option.split)

lemma rh_no_override: "p \<in> set (system_paths @ rh_units_of_users) \<Longrightarrow> no_override rh p = Inr ()"
proof -
  assume "p \<in> set (system_paths @ rh_units_of_users)"
  then have "startswith p ''/'' \<and> no_dotdot p \<and> p \<notin> set (rh_assets @ rh_dirs @ map fst rh_shared)"
    using rh_no_path unfolding list_all_iff by blast
  then have "ctx_stat rh p = Inl FileNotFoundError" using rh_stat_none [of p] by (simp add: ctx_stat_def ctx_path_def rh_def)
  then have "lookup rh p = Inr None" by (simp add: lookup_def no_such_path_def)
  then show ?thesis by (simp add: no_override_def inert_dropin_directory_def present_def)
qed

lemma rh_user_dirs: "user_dirs rh = Inr rh_dirs_of_users"
proof -
  have "rmap record_dirs (splitlines rh_passwd) = Inr [drop 6 rh_dirs_of_users]" by code_simp
  moreover have "distinct rh_dirs_of_users" by code_simp
  moreover have "fixed_user_dirs @ drop 6 rh_dirs_of_users = rh_dirs_of_users" by (simp add: rh_dirs_of_users_def fixed_user_dirs_def)
  ultimately show ?thesis by (simp add: user_dirs_def rh_outs distinct_remdups_id)
qed

lemma rh_dirs_plain: "list_all (\<lambda>d. startswith d ''/'' \<and> no_dotdot d \<and> d \<noteq> ''/proc'') rh_dirs_of_users"
  by code_simp

lemma rh_local_conflicts: "local_conflicts rh = Inr ()"
proof -
  let ?us = "\<lambda>d. map (\<lambda>s. d @ ''/snitchwatch-bridge.service'' @ s) [[], ''.d'']"
  have "user_paths rh d = Inr (?us d)" if "d \<in> set rh_dirs_of_users" for d
  proof -
    have "listdir rh d = Inr []" using rh_dirs_plain that
      by (auto simp: listdir_def ctx_path_def rh_def no_such_path_def list_all_iff)
    then show ?thesis by (simp add: user_paths_def)
  qed
  then have "rmap (user_paths rh) rh_dirs_of_users = Inr (map ?us rh_dirs_of_users)"
    unfolding rmap_eq_Inr by (simp add: list_all2_map2 list.rel_refl_strong list_all2_same)
  moreover have "rall (no_override rh) (system_paths @ concat (map ?us rh_dirs_of_users)) = Inr ()"
    using rh_no_override unfolding rall_eq_Inr rh_units_of_users_def by blast
  moreover have "command rh [''systemctl'', ''--global'', ''is-enabled'', ''snitchwatch-bridge.service''] [0, 1, 3, 4]
      = Inr \<lparr>rp_code = 0, rp_out = ''disabled'', rp_err = []\<rparr>"
    by (simp add: rh_command rh_programs rh_answer_output rh_outputs_def)
  moreover have "strip ''disabled'' = ''disabled''" by code_simp
  ultimately show ?thesis unfolding local_conflicts_def by (simp only: rbind_Inr rh_user_dirs reply.simps) simp
qed


section \<open>The GUI of the host\<close>

lemma rh_metadata_legal: "legal_sections rh_metadata"
  by code_simp

lemma rh_metadata_small: "length (utf8_encode (ini_text rh_metadata)) \<le> METADATA_MAX_BYTES"
proof -
  have "length (utf8_encode (ini_text rh_metadata)) < 1000" by code_simp
  then show ?thesis by (simp add: METADATA_MAX_BYTES_def)
qed

lemma rh_read_metadata: "read_metadata rh p = Inr \<lparr>in_defaults = [], in_sections = rh_metadata\<rparr>"
proof (rule read_metadata_text [OF rh_metadata_legal _ _ _ rh_metadata_small])
  show "rh_metadata \<noteq> []" by (simp add: rh_metadata_def)
  show "v_open rh p = Inr (toy_meta KReg 420, utf8_encode (ini_text rh_metadata))" by (simp add: rh_def)
  show "m_kind (toy_meta KReg 420) = KReg" by (simp add: toy_meta_def)
qed

lemma rh_check_metadata: "check_metadata V ''org.kde.Platform/x86_64/6.11'' [] \<lparr>in_defaults = [], in_sections = rh_metadata\<rparr> = Inr ()"
proof -
  let ?m = "\<lparr>in_defaults = [], in_sections = rh_metadata\<rparr>"
  have "check_identity ''org.kde.Platform/x86_64/6.11'' ?m = Inr ()" by code_simp
  moreover have "check_context V [] ?m = Inr ()" by code_simp
  moreover have "check_bus [] ?m = Inr ()" by code_simp
  ultimately show ?thesis by (simp only: check_metadata_def rbind_Inr)
qed

definition rh_stores :: "string list" where
  "rh_stores = sort (remdups [''/var/lib/flatpak'', ''/home/ada/.local/share/flatpak''])"

lemma rh_flatpak_stores: "flatpak_stores rh = Inr rh_stores"
proof -
  have "map (\<lambda>fs. fs ! 5) (filter (\<lambda>fs. length fs = 7 \<and> startswith (fs ! 5) ''/'') (map (split_on CHR '':'') (splitlines rh_passwd))) = [''/home/ada'']"
    by code_simp
  then have "homes rh = Inr [''/home/ada'']" by (simp add: homes_def rh_outs)
  moreover have "splitlines (lines_of [''/var/lib/flatpak'']) = [''/var/lib/flatpak'']" by code_simp
  moreover have "no_dotdot ''/var/lib/flatpak''" by code_simp
  ultimately show ?thesis by (simp add: flatpak_stores_def rh_outs rh_stores_def)
qed

lemma rh_store_names: "list_all (\<lambda>s. list_all (\<lambda>n. startswith (s @ ''/overrides/'' @ n) ''/'' \<and> no_dotdot (s @ ''/overrides/'' @ n) \<and>
    s @ ''/overrides/'' @ n \<noteq> rh_app) [''global'', R_APP] \<and> startswith (s @ ''/app/'' @ R_APP) ''/'' \<and> no_dotdot (s @ ''/app/'' @ R_APP))
    [''/var/lib/flatpak'', ''/home/ada/.local/share/flatpak'']"
  by code_simp

lemma rh_no_link: "\<not> is_symlink rh p"
proof -
  have "list_all (\<lambda>e. m_kind (snd e) \<noteq> KLink) rh_shared" by (simp add: rh_shared_def rh_meta_def toy_meta_def)
  then show ?thesis
    by (auto simp: is_symlink_def rh_def rh_stat_def toy_meta_def list_all_iff split: sum.split option.split dest!: map_of_SomeD)
qed

lemma rh_flatpak_profiles: "flatpak_profiles rh = Inr rh_stores"
proof -
  have i: "get_or rh_manifest ''flatpak'' (JObj []) = Inr (JObj [(''appId'', JStr R_APP), (''finishArgs'', JList []), (''manifestSha256'', JStr d64),
       (''profile'', JStr ''system''), (''runtimeRef'', JStr ''org.kde.Platform/x86_64/6.11''), (''sourceCommit'', JStr c40)])"
    by (simp add: rh_manifest_def)
  have r: "runtime_ref ''org.kde.Platform/x86_64/6.11''" by code_simp
  have c: "check_override rh (s @ ''/overrides/'' @ n) = Inr ()" "check_deployments rh ''org.kde.Platform/x86_64/6.11'' [] s = Inr ()"
    if s: "s \<in> set rh_stores" "n \<in> {''global'', R_APP}" for s n
  proof -
    have s': "s \<in> set [''/var/lib/flatpak'', ''/home/ada/.local/share/flatpak'']" using s(1) by (auto simp: rh_stores_def)
    have p: "startswith (s @ ''/overrides/'' @ n) ''/'' \<and> no_dotdot (s @ ''/overrides/'' @ n) \<and> s @ ''/overrides/'' @ n \<noteq> rh_app"
        "startswith (s @ ''/app/'' @ R_APP) ''/'' \<and> no_dotdot (s @ ''/app/'' @ R_APP)"
      using rh_store_names s' s(2) unfolding list_all_iff by auto
    show "check_override rh (s @ ''/overrides/'' @ n) = Inr ()" using p(1) rh_no_link
      by (simp add: check_override_def ctx_path_def) (simp add: rh_def)
    have "v_exists rh (s @ ''/app/'' @ R_APP) = Inr (s @ ''/app/'' @ R_APP = rh_app)" "v_glob rh d q = Inr [rh_deployment]" for d q
      by (simp_all add: rh_def)
    then show "check_deployments rh ''org.kde.Platform/x86_64/6.11'' [] s = Inr ()" using p(2)
      by (simp add: check_deployments_def ctx_path_def rh_read_metadata rh_check_metadata)
  qed
  then have "rall (\<lambda>store. rbind (rall (\<lambda>n. check_override rh (store @ ''/overrides/'' @ n)) [''global'', R_APP])
      (\<lambda>_. check_deployments rh ''org.kde.Platform/x86_64/6.11'' [] store)) rh_stores = Inr ()"
    using c(1) c(2) [of _ "''global''"] by (simp add: rall_eq_Inr)
  moreover have "json_str (JStr x) = Inr x" "rbind (as_list (JList [])) (rmap json_str) = Inr []" for x
    by (simp_all add: json_str_def as_list_def)
  ultimately show ?thesis by (simp add: flatpak_profiles_def rh_flatpak_stores rh_json i r)
qed

section \<open>Processes, units and shared paths\<close>

lemma rh_proc: "proc_file 7 ''exe'' = ''/proc/7/exe''" "proc_file 7 ''status'' = ''/proc/7/status''" "proc_file 8 ''exe'' = ''/proc/8/exe''"
  "proc_file 8 ''status'' = ''/proc/8/status''" "proc_file 8 ''cmdline'' = ''/proc/8/cmdline''"
  by code_simp+

lemma rh_texts_read: "ctx_bytes rh ''/proc/7/status'' = Inr rh_status" "ctx_bytes rh ''/proc/8/status'' = Inr rh_root_status"
  "ctx_bytes rh ''/proc/8/cmdline'' = Inr (R_DAEMON @ [CHR 0x00])"
  using rh_names by (auto intro!: rh_bytes simp: rh_texts_def)

lemma rh_links: "proc_link rh 7 = Inr R_BINARY" "proc_link rh 8 = Inr R_DAEMON"
proof -
  have "list_all (\<lambda>p. startswith p ''/'' \<and> no_dotdot p) [''/proc/7/exe'', ''/proc/8/exe'']" by code_simp
  then show "proc_link rh 7 = Inr R_BINARY" "proc_link rh 8 = Inr R_DAEMON"
    by (simp_all add: proc_link_def rh_proc ctx_path_def rh_def)
qed

lemma rh_statuses:
  "proc_status rh 7 = Inr [(''Uid'', tab # ''970 970 970 970''), (''Gid'', tab # ''970 970 970 970''), (''Groups'', tab # ''970''),
     (''CapEff'', tab # ''0000000000000000''), (''NoNewPrivs'', tab # ''1'')]"
  "proc_status rh 8 = Inr [(''Uid'', tab # ''0 0 0 0'')]"
proof -
  have "utf8_decode rh_status = Some rh_status" "utf8_decode rh_root_status = Some rh_root_status" by code_simp+
  moreover have "pairs_of CHR '':'' (splitlines (universal_newlines rh_status)) = [(''Uid'', tab # ''970 970 970 970''),
      (''Gid'', tab # ''970 970 970 970''), (''Groups'', tab # ''970''), (''CapEff'', tab # ''0000000000000000''), (''NoNewPrivs'', tab # ''1'')]"
    by code_simp
  moreover have "pairs_of CHR '':'' (splitlines (universal_newlines rh_root_status)) = [(''Uid'', tab # ''0 0 0 0'')]" by code_simp
  ultimately show "proc_status rh 7 = Inr [(''Uid'', tab # ''970 970 970 970''), (''Gid'', tab # ''970 970 970 970''), (''Groups'', tab # ''970''),
     (''CapEff'', tab # ''0000000000000000''), (''NoNewPrivs'', tab # ''1'')]"
    "proc_status rh 8 = Inr [(''Uid'', tab # ''0 0 0 0'')]"
    by (simp_all add: proc_status_def rh_proc ctx_text_def rh_texts_read)
qed

lemma rh_bridge_process: "check_bridge_process rh 7 rh_accounts = Inr ()"
proof -
  have d: "ctx_digest rh ''/proc/7/exe'' = Inr d64" "ctx_digest rh R_BINARY = Inr d64"
    by (rule rh_digest; simp add: rh_read_names_def rh_assets_def mandatory_assets_def)+
  have w: "words (tab # ''970 970 970 970'') = replicate 4 (int_str 970)" "words (tab # ''970'') = [int_str 970]"
    "hex_of (tab # ''0000000000000000'') = Inr 0" "strip (tab # ''1'') = ''1''" by code_simp+
  show ?thesis
    by (simp add: check_bridge_process_def rh_links rh_proc d rh_statuses rh_accounts_def status_field_def ini_or_empty_def w)
qed

lemma rh_daemon_process: "check_daemon_process rh rh_daemon = Inr 8"
proof -
  have d: "ctx_digest rh ''/proc/8/exe'' = Inr d64" by (rule rh_digest) (simp add: rh_read_names_def)
  have w: "words (tab # ''0 0 0 0'') = replicate 4 ''0''" "to_int ''8'' = Inr 8" by code_simp+
  have p: "props rh ''opensnitch.service'' [''MainPID'', ''ExecStart''] = Inr rh_opensnitch"
    by (rule rh_props [OF rh_shows(2) rh_showable(2)]) (simp add: rh_opensnitch_def)
  have e: "rbind (shown_field rh_opensnitch ''ExecStart'') daemon_exec_contract = Inr ()" "shown_field rh_opensnitch ''MainPID'' = Inr ''8''" by code_simp+
  have i: "index2 rh_daemon ''binary'' ''sha256'' = Inr (JStr d64)" by (simp add: rh_daemon_def index2_def)
  show ?thesis
    by (simp add: check_daemon_process_def p e w rh_links rh_proc d i rh_texts_read rh_statuses status_field_def ini_or_empty_def)
qed

lemma rh_legacy_absent: "legacy_absent rh 7 = Inr ()"
proof -
  have n: "to_int ''1'' = Inr 1" "to_int ''7'' = Inr 7" "to_int ''8'' = Inr 8" "py_isdigit ''1''" "py_isdigit ''7''" "py_isdigit ''8''" "\<not> py_isdigit ''self''"
    by code_simp+
  have l: "v_readlink rh ''/proc/1/exe'' = Inr ''/usr/lib/systemd/systemd''" "v_readlink rh ''/proc/8/exe'' = Inr R_DAEMON"
    "v_list rh ''/proc'' = Inr [''1'', ''7'', ''8'', ''self'']" by (simp_all add: rh_def)
  have r: "v_read rh ''/proc/1/cmdline'' = Inr ''/sbin/init''" "v_read rh ''/proc/8/cmdline'' = Inr (R_DAEMON @ [CHR 0x00])"
    by (simp_all add: rh_def) (rule rh_read_text; simp add: rh_texts_def)+
  have b: "split_on CHR 0x00 ''/sbin/init'' ! 0 = ''/sbin/init''" "split_on CHR 0x00 (R_DAEMON @ [CHR 0x00]) ! 0 = R_DAEMON"
    "base_name (removesuffix ''/usr/lib/systemd/systemd'' '' (deleted)'') \<notin> set bridge_names" "base_name ''/sbin/init'' \<notin> set bridge_names"
    "base_name (removesuffix R_DAEMON '' (deleted)'') \<notin> set bridge_names" "base_name R_DAEMON \<notin> set bridge_names" by code_simp+
  have s: "run_out rh [''ss'', ''-H'', ''-ltnp'', ''sport = :50051''] = Inr []" "run_out rh [''ss'', ''-H'', ''-lxnp''] = Inr []"
    by (simp_all add: rh_run rh_programs rh_answer_def rh_outputs_def R_BINARY_def R_DAEMON_def)
  have e: "strip [] = []" "\<not> legacy_socket []" by code_simp+
  have "legacy_process rh 7 ''1'' = Inr ()" "legacy_process rh 7 ''7'' = Inr ()" "legacy_process rh 7 ''8'' = Inr ()" "legacy_process rh 7 ''self'' = Inr ()"
    by (simp_all add: legacy_process_def n l r b)
  then show ?thesis by (simp add: legacy_absent_def l s e)
qed

definition rh_states :: "(string \<times> string \<times> string) list" where
  "rh_states = map (\<lambda>u. (u, ''enabled'', ''active'')) R_UNITS"

lemma rh_service_state: "service_state rh = Inr rh_states"
proof -
  have s: "strip ''enabled'' = ''enabled''" "strip ''active'' = ''active''" by code_simp+
  have "unit_state rh u = Inr (u, ''enabled'', ''active'')" for u
    by (simp add: unit_state_def rh_command rh_programs rh_answer_def s)
  then show ?thesis by (simp add: service_state_def rh_states_def rmap_eq_Inr list_all2_map2 list_all2_same)
qed

lemma rh_check_states: "check_states rh_states = Inr ()"
  by code_simp

lemma rh_runtime_paths: "rall (check_runtime_path rh) (runtime_paths rh_accounts) = Inr ()"
proof -
  have k: "distinct (map fst rh_shared)" "list_all (\<lambda>p. p \<notin> set rh_assets \<and> p \<notin> set rh_dirs) (map fst rh_shared)"
    unfolding rh_shared_def list.map fst_conv by code_simp+
  have s: "ctx_stat rh p = Inr m" if "(p, m) \<in> set rh_shared" for p m
  proof -
    have "p \<in> fst ` set rh_shared" using that by force
    then show ?thesis using k rh_names that by (auto simp: ctx_stat_def ctx_path_def rh_def rh_stat_def list_all_iff)
  qed
  have "check_runtime_path rh (p, knd, int u, int g, mode) = Inr ()" if "(p, rh_meta knd u g mode) \<in> set rh_shared" for p knd u g mode
    using s [OF that] by (simp add: check_runtime_path_def rh_meta_def toy_meta_def)
  from this [of "''/run/snitchwatch''" KDir 0 0 457] this [of "''/run/snitchwatch/opensnitchd.sock''" KSock 0 0 384]
    this [of "''/run/snitchwatch/bridge.sock''" KSock 0 971 432] this [of "''/run/snitchwatch-auth''" KDir 970 971 1512]
    this [of "''/run/snitchwatch-auth/token''" KReg 970 971 416]
  show ?thesis by (simp add: runtime_paths_def rh_accounts_def rh_shared_def)
qed

section \<open>The whole run\<close>

theorem rh_ready: "\<exists>rep. runtime_readiness rh = Inr rep"
proof -
  have m: "rbind (shown_field rh_bridge ''MainPID'') to_int = Inr 7" by code_simp
  have i: "index2 rh_daemon ''patch'' ''sha256'' = Inr (JStr d64)" by (simp add: rh_daemon_def index2_def)
  have a: "index rh_config ''DefaultAction'' = Inr (JStr ''allow'')" by (simp add: rh_config_def)
  show ?thesis unfolding runtime_readiness_def
    by (simp only: rh_immutable rh_account_ids rh_unit_contract rh_config_contract rh_local_conflicts rh_flatpak_profiles m rh_bridge_process
        rh_legacy_absent rh_json rh_daemon_process rh_service_state rh_check_states rh_runtime_paths i a rbind_Inr) simp
qed

end
