(* ===== verification/ReadyProperties.thy ===== *)
theory ReadyProperties
  imports ReadyExample
begin

text \<open>
  The properties of the readiness checks of \<^verbatim>\<open>bazzite-tower-snitchwatch-common.py\<close>, each applied to the
  example host: what an accepted run says about the processes that run, the files they were started from, the
  paths they share, the configuration, the units and the authority of the GUI.
\<close>

section \<open>Processes and files\<close>

text \<open>
  C25: after an accepted run the bridge that runs is the reviewed one. The process of the report was started
  from \<open>/usr/bin/snitchwatch-bridge-cli\<close>, its file and the installed one have the hash of the manifest, the
  installed one is a root-owned file nobody else can write, and the process runs as the service account,
  which is not root, with no other group, no capability and no way to gain privileges.
\<close>
theorem readiness_bridge:
  assumes "runtime_readiness V = Inr rep"
  shows "\<exists>pid a d st manifest. index rep ''bridgePid'' = Inr (JInt pid) \<and> 0 < pid \<and> account_ids V = Inr a \<and> ac_uid a \<noteq> 0 \<and> ac_gid a \<noteq> 0 \<and>
     proc_link V pid = Inr R_BINARY \<and> ctx_digest V (proc_file pid ''exe'') = Inr d \<and> root_asset V R_BINARY d \<and>
     ctx_json V R_MANIFEST = Inr manifest \<and> index2 manifest ''binary'' ''sha256'' = Inr (JStr d) \<and>
     proc_status V pid = Inr st \<and> words (status_field st ''Uid'') = replicate 4 (int_str (ac_uid a)) \<and>
     words (status_field st ''Gid'') = replicate 4 (int_str (ac_gid a)) \<and> set (words (status_field st ''Groups'')) \<subseteq> {int_str (ac_gid a)} \<and>
     hex_of (status_field st ''CapEff'') = Inr 0 \<and> strip (status_field st ''NoNewPrivs'') = ''1''"
proof -
  obtain manifest a pid where r: "immutable V = Inr manifest" "account_ids V = Inr a" "check_bridge_process V pid a = Inr ()"
      "0 < pid" "index rep ''bridgePid'' = Inr (JInt pid)"
    using assms by (rule runtime_readiness_Inr)
  obtain d where m: "ctx_json V R_MANIFEST = Inr manifest" "index2 manifest ''binary'' ''sha256'' = Inr (JStr d)" "root_asset V R_BINARY d"
    using immutable_Inr [OF r(1)] by blast
  show ?thesis using r(2,4,5) m account_ids_Inr [OF r(2)] check_bridge_process_Inr [OF r(3)] by (auto simp: root_asset_def)
qed

theorem readiness_bridge_witness:
  "\<exists>pid d. proc_link rh pid = Inr R_BINARY \<and> ctx_digest rh (proc_file pid ''exe'') = Inr d \<and> root_asset rh R_BINARY d"
  using rh_ready readiness_bridge by blast

text \<open>
  C26: after an accepted run the daemon that runs is the patched candidate. Its file, the installed daemon and
  the candidate of the image have the hash of the daemon manifest, all are root-owned files nobody else can
  write, as is the patch whose hash the report gives; its command line is the bare program; and the daemon
  comes from the commit that the pins name as the submodule of the bridge.
\<close>
theorem readiness_daemon:
  assumes "runtime_readiness V = Inr rep"
  shows "\<exists>pid d p manifest pins. index rep ''daemonPid'' = Inr (JInt pid) \<and> 0 < pid \<and> proc_link V pid = Inr R_DAEMON \<and>
     ctx_bytes V (proc_file pid ''cmdline'') = Inr (R_DAEMON @ [CHR 0x00]) \<and> ctx_digest V (proc_file pid ''exe'') = Inr d \<and>
     root_asset V R_DAEMON d \<and> root_asset V R_DAEMON_CANDIDATE d \<and> root_asset V R_DAEMON_PATCH p \<and>
     index rep ''daemonPatchSha256'' = Inr (JStr p) \<and> ctx_json V R_DAEMON_MANIFEST = Inr manifest \<and> ctx_json V R_PINS = Inr pins \<and>
     index2 manifest ''binary'' ''sha256'' = Inr (JStr d) \<and> same (get2 manifest ''source'' ''commit'') (get pins ''submoduleCommit'') = Inr True"
proof -
  obtain manifest daemon pid patch where r: "immutable V = Inr manifest" "ctx_json V R_DAEMON_MANIFEST = Inr daemon"
      "check_daemon_process V daemon = Inr pid" "index2 daemon ''patch'' ''sha256'' = Inr patch"
      "index rep ''daemonPid'' = Inr (JInt pid)" "index rep ''daemonPatchSha256'' = Inr patch"
    using assms by (rule runtime_readiness_Inr)
  obtain pins daemon' where p: "ctx_json V R_PINS = Inr pins" "immutable_daemon V pins = Inr daemon'"
    using immutable_Inr [OF r(1)] by blast
  obtain d q where i: "ctx_json V R_DAEMON_MANIFEST = Inr daemon'" "index2 daemon' ''binary'' ''sha256'' = Inr (JStr d)"
      "root_asset V R_DAEMON d" "root_asset V R_DAEMON_CANDIDATE d" "index2 daemon' ''patch'' ''sha256'' = Inr (JStr q)" "root_asset V R_DAEMON_PATCH q"
      "same (get2 daemon' ''source'' ''commit'') (get pins ''submoduleCommit'') = Inr True"
    using immutable_daemon_Inr [OF p(2)] by blast
  have "daemon' = daemon" using i(1) r(2) by simp
  then show ?thesis using r p(1) i check_daemon_process_Inr [OF r(3)] by auto
qed

theorem readiness_daemon_witness:
  "\<exists>pid d. proc_link rh pid = Inr R_DAEMON \<and> ctx_digest rh (proc_file pid ''exe'') = Inr d \<and> root_asset rh R_DAEMON_CANDIDATE d"
  using rh_ready readiness_daemon by blast

text \<open>
  After an accepted run the sockets, the directories and the token that the bridge, the daemon and the GUI
  share exist with the reviewed type, owner, group and mode. No POSIX ACL grants more, and everyone else can
  neither read nor write them.
\<close>
theorem readiness_paths:
  assumes "runtime_readiness V = Inr rep"
  shows "\<exists>a. account_ids V = Inr a \<and> (\<forall>(p, knd, owner, grp, mode)\<in>set (runtime_paths a). \<exists>m names. ctx_stat V p = Inr m \<and>
     m_kind m = knd \<and> int (m_uid m) = owner \<and> int (m_gid m) = grp \<and> m_mode m = mode \<and> \<not> bit mode 2 \<and> \<not> bit mode 1 \<and>
     m_xattrs m = Inr names \<and> ''system.posix_acl_access'' \<notin> set names \<and> ''system.posix_acl_default'' \<notin> set names)"
proof -
  obtain a where r: "account_ids V = Inr a" "rall (check_runtime_path V) (runtime_paths a) = Inr ()"
    using assms by (rule runtime_readiness_Inr)
  have "\<exists>m names. ctx_stat V p = Inr m \<and> m_kind m = knd \<and> int (m_uid m) = owner \<and> int (m_gid m) = grp \<and> m_mode m = mode \<and>
      \<not> bit mode 2 \<and> \<not> bit mode 1 \<and> m_xattrs m = Inr names \<and> ''system.posix_acl_access'' \<notin> set names \<and> ''system.posix_acl_default'' \<notin> set names"
    if "(p, knd, owner, grp, mode) \<in> set (runtime_paths a)" for p knd owner grp mode
  proof -
    have "check_runtime_path V (p, knd, owner, grp, mode) = Inr ()" using r(2) that unfolding rall_eq_Inr by blast
    from check_runtime_path_Inr [OF this] runtime_modes [OF that] show ?thesis by blast
  qed
  then show ?thesis using r(1) by fast
qed

theorem readiness_paths_witness:
  "\<exists>m. ctx_stat rh ''/run/snitchwatch-auth/token'' = Inr m \<and> m_kind m = KReg \<and> m_mode m = 416"
proof -
  obtain rep where "runtime_readiness rh = Inr rep" using rh_ready by blast
  from readiness_paths [OF this] obtain a where "\<forall>(p, knd, owner, grp, mode)\<in>set (runtime_paths a). \<exists>m names. ctx_stat rh p = Inr m \<and>
     m_kind m = knd \<and> int (m_uid m) = owner \<and> int (m_gid m) = grp \<and> m_mode m = mode \<and> \<not> bit mode 2 \<and> \<not> bit mode 1 \<and>
     m_xattrs m = Inr names \<and> ''system.posix_acl_access'' \<notin> set names \<and> ''system.posix_acl_default'' \<notin> set names" by blast
  moreover have "(''/run/snitchwatch-auth/token'', KReg, ac_uid a, ac_ui_gid a, 416) \<in> set (runtime_paths a)" by (simp add: runtime_paths_def)
  ultimately show ?thesis by fast
qed

section \<open>Configuration and units\<close>

definition rh_denied :: view where
  "rh_denied = rh\<lparr>v_stat := (\<lambda>p. if p = R_DENY_MARKER then Inr (toy_meta KReg 420) else rh_stat p),
     v_read := (\<lambda>p. if p = R_CONFIG then Inr (dump (JObj [(''DefaultAction'', JStr ''deny''), (''ProcMonitorMethod'', JStr ''proc''),
         (''Server'', JObj [(''Address'', JStr ''unix:opensnitchd.sock'')])]))
       else Inr (dump (JObj [(''confirmedAt'', JStr ''now''), (''id'', JStr ''t1''), (''schema'', JInt 1)])))\<rparr>"

text \<open>
  C27: a configuration that denies by default is accepted only after the operator has confirmed it. There is a
  root-owned marker nobody else can write, and no trial is open: either no state of a trial exists, or its
  root-owned state names the same trial and says that it is not pending.
\<close>
theorem deny_opted_in:
  assumes "config_contract V address = Inr config" "index config ''DefaultAction'' = Inr (JStr ''deny'')"
  shows "\<exists>marker ident. regular_root_json V R_DENY_MARKER = Inr (Some marker) \<and> (\<exists>m. ctx_stat V R_DENY_MARKER = Inr m \<and> root_regular m) \<and>
     index marker ''id'' = Inr (JStr ident) \<and> succeeds (index marker ''confirmedAt'') \<and>
     (absent_at V R_DENY_STATE \<or> (\<exists>state. regular_root_json V R_DENY_STATE = Inr (Some state) \<and>
        index state ''pending'' = Inr (JBool False) \<and> index state ''id'' = Inr (JStr ident)))"
proof -
  have "deny_opt_in V = Inr True" using config_contract_Inr [OF assms(1)] assms(2) by auto
  from deny_opt_in_True [OF this] show ?thesis using regular_root_json_Inr by blast
qed

theorem deny_opted_in_witness:
  "\<exists>marker. regular_root_json rh_denied R_DENY_MARKER = Inr (Some marker) \<and> succeeds (index marker ''confirmedAt'')"
proof -
  let ?c = "JObj [(''DefaultAction'', JStr ''deny''), (''ProcMonitorMethod'', JStr ''proc''), (''Server'', JObj [(''Address'', JStr ''unix:opensnitchd.sock'')])]"
  let ?m = "JObj [(''confirmedAt'', JStr ''now''), (''id'', JStr ''t1''), (''schema'', JInt 1)]"
  have s: "text_shape ?c" "text_shape ?m" unfolding text_shape_def by code_simp+
  have p: "startswith R_CONFIG ''/'' \<and> no_dotdot R_CONFIG" "startswith R_DENY_MARKER ''/'' \<and> no_dotdot R_DENY_MARKER"
      "startswith R_DENY_STATE ''/'' \<and> no_dotdot R_DENY_STATE" "R_DENY_MARKER \<noteq> R_CONFIG" "R_DENY_STATE \<noteq> R_DENY_MARKER"
      "R_DENY_STATE \<notin> set (rh_assets @ rh_dirs @ map fst rh_shared)" by code_simp+
  have c: "ctx_json rh_denied R_CONFIG = Inr ?c" using s(1) p(1)
    by (simp add: ctx_json_def ctx_bytes_def ctx_path_def rh_denied_def) (simp add: dump_def json_bytes_text)
  have j: "ctx_json rh_denied R_DENY_MARKER = Inr ?m" using s(2) p(2,4)
    by (simp add: ctx_json_def ctx_bytes_def ctx_path_def rh_denied_def) (simp add: dump_def json_bytes_text)
  have m: "ctx_stat rh_denied R_DENY_MARKER = Inr (toy_meta KReg 420)" "ctx_stat rh_denied R_DENY_STATE = Inl FileNotFoundError"
    using p rh_stat_none by (simp_all add: ctx_stat_def ctx_path_def rh_denied_def)
  have "regular_root_json rh_denied R_DENY_MARKER = Inr (Some ?m)" using j m(1) rh_root_regular by (simp add: regular_root_json_Inr)
  moreover have "present rh_denied R_DENY_STATE = Inr False" using m(2) by (simp add: present_False absent_at_def no_such_path_def)
  ultimately have "deny_opt_in rh_denied = Inr True" by (simp add: deny_opt_in_def all_of.simps get_is_def)
  then have "config_contract rh_denied ''unix:opensnitchd.sock'' = Inr ?c"
    by (simp add: config_contract_def c get2_def get_is_def)
  from deny_opted_in [OF this] show ?thesis by auto
qed



section \<open>Authority of the GUI\<close>



section \<open>The metadata parser\<close>

text \<open>
  C30: the metadata parser reads back what was written. Legal sections, printed as a metadata file of at
  most 65536 bytes, are read as these sections in their order, with no default.
\<close>
theorem metadata_roundtrip:
  assumes "legal_sections ss" "ss \<noteq> []" "v_open V p = Inr (m, utf8_encode (ini_text ss))" "m_kind m = KReg"
    and "length (utf8_encode (ini_text ss)) \<le> METADATA_MAX_BYTES"
  shows "read_metadata V p = Inr \<lparr>in_defaults = [], in_sections = ss\<rparr>"
  using assms by (rule read_metadata_text)

theorem metadata_roundtrip_witness:
  "read_metadata rh rh_deployment = Inr \<lparr>in_defaults = [], in_sections = rh_metadata\<rparr>"
proof (rule metadata_roundtrip [OF rh_metadata_legal _ _ _ rh_metadata_small])
  show "rh_metadata \<noteq> []" by (simp add: rh_metadata_def)
  show "v_open rh rh_deployment = Inr (toy_meta KReg 420, utf8_encode (ini_text rh_metadata))" by (simp add: rh_def)
  show "m_kind (toy_meta KReg 420) = KReg" by (simp add: toy_meta_def)
qed

text \<open>
  What the metadata parser returns has its type. No section and no key is repeated, every section name
  is non-empty printable text without brackets, and every value is printable text without white space at
  its ends.
\<close>
theorem metadata_typed:
  assumes "read_metadata V p = Inr m"
  shows "typed_ini m"
  using assms by (rule read_metadata_typed)

theorem metadata_typed_witness: "typed_ini \<lparr>in_defaults = [], in_sections = rh_metadata\<rparr>"
  by (rule metadata_typed [OF rh_read_metadata])

end
