(* ===== verification/Gate.thy ===== *)
theory Gate
  imports Publication Installed
begin

text \<open>
  \<^verbatim>\<open>scripts/snitchwatch-gate.py\<close>: the offline gate. It copies the inputs of the checks into an evidence
  directory, replaces the recursive removals in two scripts by its own bounded \<open>--cleanup\<close>, and runs
  every check in a network namespace of its own.

  Arguments are the answers of the processes, of \<open>which\<close> and of the writes, SHA-256, and the decoding
  of a log that is not UTF-8. The lines that are printed are not modelled, nor what a check does to files.
\<close>

section \<open>Constants\<close>

definition CHECKS :: "(string \<times> string list \<times> string list) list" where
  "CHECKS = [
    (''toolchain'', [''bash'', ''tests/test-snitchwatch-toolchain.sh''],
      [''bash'', ''python3'', ''sha256sum'', ''mktemp'', ''cp'', ''cat'', ''chmod'', ''mkdir'', ''rm'', ''basename'', ''dirname'', ''sed'', ''grep'', ''cut'', ''stat'', ''tail'', ''timeout'', ''env'']),
    (''image-build'', [''python3'', ''tests/test-snitchwatch-image-build.py''], [''bash'', ''python3'', ''cat'', ''mkdir'', ''touch'']),
    (''daemon-image-build'', [''python3'', ''tests/test-snitchwatch-image-build-daemon.py''], [''python3'', ''git'']),
    (''system-fixtures'', [''bash'', ''tests/test-snitchwatch-system.sh''], [''bash'', ''python3'']),
    (''supply-chain'', [''bash'', ''tests/check-supply-chain.sh''], [''bash'', ''python3'', ''jq''])]"

definition INPUTS :: "string list" where
  "INPUTS = [''Justfile'', ''Containerfile'', ''cosign.pub'', ''.github/workflows/build.yml'',
     ''build_files/firewall'', ''build_files/build.d/15-signature-policy.sh'', ''build_files/build.d/95-firewall.sh'', ''system_files'',
     ''scripts/install-signature-policy.sh'', ''scripts/snitchwatch-gate.py'',
     ''tests/test-snitchwatch-image-build-fixtures'', ''tests/fixtures/r13-installed-branch-metadata.json'',
     ''tests/fixtures/flatpak-installed-metadata'', ''tests/test-snitchwatch-system.py'', ''tests/test-snitchwatch-gate.py''] @
     map (\<lambda>(_, cmd, _). cmd ! 1) CHECKS"

definition ADAPTATIONS :: "(string \<times> (string \<times> nat) list) list" where
  "ADAPTATIONS = [(''tests/test-snitchwatch-toolchain.sh'', [(''T'', 1), (''T/work'', 2)]),
     (''build_files/firewall/snitchwatch-system-toolchain.sh'', [(''tmp'', 1)])]"

section \<open>Python strings\<close>

text \<open>\<open>s.count(p)\<close> and \<open>s.replace(p, r)\<close> for a text \<open>p\<close> that is not empty.\<close>

function count_sub :: "string \<Rightarrow> string \<Rightarrow> nat" where
  "count_sub p [] = 0"
| "count_sub p (c # s) = (if p \<noteq> [] \<and> startswith (c # s) p then Suc (count_sub p (drop (length p) (c # s))) else count_sub p s)"
  by pat_completeness auto

termination
  by (relation "measure (\<lambda>(p, s). length s)") auto

function replace_all :: "string \<Rightarrow> string \<Rightarrow> string \<Rightarrow> string" where
  "replace_all p r [] = []"
| "replace_all p r (c # s) = (if p \<noteq> [] \<and> startswith (c # s) p then r @ replace_all p r (drop (length p) (c # s)) else c # replace_all p r s)"
  by pat_completeness auto

termination
  by (relation "measure (\<lambda>(p, r, s). length s)") auto

text \<open>\<open>str(error)\<close> of the caught exceptions; the text of an \<open>OSError\<close> starts with its number.\<close>

fun error_text :: "pyexc \<Rightarrow> string" where
  "error_text (ValueError s) = s"
| "error_text (OSError s) = ''[Errno] '' @ s"
| "error_text FileNotFoundError = ''[Errno 2] No such file or directory''"
| "error_text _ = []"

section \<open>The host\<close>

text \<open>
  What a started command does: it cannot be started, it ends with a code, or it is killed after the timeout; with
  the output it has written. The answer may depend on what ran before.
\<close>

datatype ending = Unstarted string | Ended int string | Hung string

record gate_host =
  gt_sha :: "string \<Rightarrow> string"
  gt_write :: "string \<Rightarrow> string option"
  gt_which :: "string \<Rightarrow> bool"
  gt_exec :: "string list list \<Rightarrow> string list \<Rightarrow> (string \<times> string) list \<Rightarrow> nat \<Rightarrow> ending"
  gt_text :: "string \<Rightarrow> string"
  gt_float :: "pyfloat \<Rightarrow> string"

definition save :: "gate_host \<Rightarrow> json \<Rightarrow> string" where
  "save K value = dumps_sorted (gt_float K) indented value @ [newline]"

definition gt_written :: "gate_host \<Rightarrow> string \<Rightarrow> 'a result \<Rightarrow> 'a result" where
  "gt_written K path k = (case gt_write K path of None \<Rightarrow> k | Some e \<Rightarrow> Inl (OSError e))"

section \<open>The snapshot\<close>

text \<open>A copied file: its name below the destination, its bytes and its mode.\<close>

type_synonym copies = "(string \<times> string \<times> nat) list"

definition input_paths :: "fsnode \<Rightarrow> string \<Rightarrow> (string \<times> fsnode result) list" where
  "input_paths t name = (case stat_at (components name) t of
       Inl e \<Rightarrow> [(name, Inl e)]
     | Inr source \<Rightarrow> if f_isdir source then map (\<lambda>(ps, n). (rel_path name ps, Inr n)) (sort_key fst (rglob source)) else [(name, Inr source)])"

definition snapshot_file :: "gate_host \<Rightarrow> string \<times> fsnode result \<Rightarrow> copies \<Rightarrow> copies result" where
  "snapshot_file K pn cs = (case pn of (path, n) \<Rightarrow>
     (case n of
        Inr f \<Rightarrow>
          if m_kind (f_meta f) = KLink then Inl (ValueError (''symlink input refused: '' @ path))
          else if f_isdir f then Inr cs
          else require (base_name path \<noteq> ''cosign.key'') (ValueError ''private key input refused'')
            (require (m_kind (f_meta f) = KReg) (OSError ''not a regular file'')
            (gt_written K path (Inr (dict_set path (f_data f, unat (m_mode (f_meta f) AND 511)) cs))))
      | Inl e \<Rightarrow> require (base_name path \<noteq> ''cosign.key'') (ValueError ''private key input refused'') (Inl e)))"

definition copied_inputs :: "gate_host \<Rightarrow> fsnode \<Rightarrow> copies result" where
  "copied_inputs K t = rfold (\<lambda>name. rfold (snapshot_file K) (input_paths t name)) INPUTS []"

definition gate_record :: "gate_host \<Rightarrow> string \<times> string \<times> nat \<Rightarrow> string \<times> json" where
  "gate_record K c = (case c of (path, data, mode) \<Rightarrow>
     (path, JObj [(''sha256'', JStr (gt_sha K data)), (''mode'', JInt (int mode))]))"

definition removal :: "string \<Rightarrow> string" where
  "removal var = ''rm -rf -- '' @ [quote] @ ''$'' @ var @ [quote]"

definition bounded_removal :: "string \<Rightarrow> string" where
  "bounded_removal var = ''python3 '' @ [quote] @ ''$SNITCHWATCH_GATE_CLEANUP'' @ [quote] @ '' --cleanup '' @ [quote] @ ''$'' @ var @ [quote]"

definition adapt_one :: "string \<Rightarrow> string \<times> nat \<Rightarrow> string \<Rightarrow> string result" where
  "adapt_one name vc text0 = (case vc of (var, count0) \<Rightarrow>
     require (count_sub (removal var) text0 = count0) (ValueError (''cleanup contract changed: '' @ name))
       (Inr (replace_all (removal var) (bounded_removal var) text0)))"

definition adapt :: "gate_host \<Rightarrow> string \<times> (string \<times> nat) list \<Rightarrow> copies \<Rightarrow> copies result" where
  "adapt K nr cs = (case nr of (name, replacements) \<Rightarrow>
     (case map_of cs name of
        None \<Rightarrow> Inl FileNotFoundError
      | Some (data, mode) \<Rightarrow> (case utf8_decode data of
          None \<Rightarrow> Inl (ValueError ''invalid UTF-8'')
        | Some s \<Rightarrow> rbind (rfold (adapt_one name) replacements (universal_newlines s)) (\<lambda>new.
            require (\<not> contains ''rm -rf'' new) (ValueError (''unadapted recursive cleanup: '' @ name))
            (gt_written K name (Inr (dict_set name (utf8_encode new, mode) cs)))))))"

text \<open>The files of the snapshot, the records of the inputs and the hashes of the adapted scripts.\<close>

definition snapshot :: "gate_host \<Rightarrow> fsnode \<Rightarrow> (copies \<times> (string \<times> json) list \<times> (string \<times> json) list) result" where
  "snapshot K t = rbind (copied_inputs K t) (\<lambda>cs.
     rbind (rfold (adapt K) ADAPTATIONS cs) (\<lambda>ad.
     Inr (ad, map (gate_record K) cs,
       map (\<lambda>(name, _). (name, JStr (gt_sha K (case map_of ad name of None \<Rightarrow> [] | Some (data, _) \<Rightarrow> data)))) ADAPTATIONS)))"

section \<open>Running the checks\<close>

datatype gate_status = PASS | FAIL | BLOCKED

fun status_text :: "gate_status \<Rightarrow> string" where
  "status_text PASS = ''PASS''"
| "status_text FAIL = ''FAIL''"
| "status_text BLOCKED = ''BLOCKED''"

text \<open>The status, the exit code and the log.\<close>

fun ended :: "ending \<Rightarrow> gate_status \<times> int option \<times> string" where
  "ended (Unstarted e) = (BLOCKED, None, e)"
| "ended (Ended c out) = (if c = 0 then PASS else FAIL, Some c, out)"
| "ended (Hung out) = (BLOCKED, None, out @ [newline] @ ''BLOCKED: check timed out'' @ [newline])"

definition log_lines :: "gate_host \<Rightarrow> string \<Rightarrow> string list" where
  "log_lines K out = splitlines (case utf8_decode out of Some s \<Rightarrow> universal_newlines s | None \<Rightarrow> gt_text K out)"

definition alarming :: "string \<Rightarrow> bool" where
  "alarming line \<longleftrightarrow> list_ex (\<lambda>w. contains w (py_lower line)) [''error'', ''fail'', ''blocked'', ''traceback'', ''assert'']"

definition first_error :: "gate_host \<Rightarrow> string \<Rightarrow> string" where
  "first_error K out = (case filter alarming (log_lines K out) of
       line # _ \<Rightarrow> take 240 line
     | [] \<Rightarrow> (case filter (\<lambda>line. strip line \<noteq> []) (log_lines K out) of line # _ \<Rightarrow> take 240 line | [] \<Rightarrow> ''no diagnostic output''))"

definition OFFLINE :: "string list" where
  "OFFLINE = [''unshare'', ''--user'', ''--map-root-user'', ''--net'']"

definition gate_env :: "(string \<Rightarrow> string option) \<Rightarrow> string \<Rightarrow> (string \<times> string) list" where
  "gate_env environ evidence =
     List.map_filter (\<lambda>k. map_option (Pair k) (environ k)) [''PATH'', ''LANG''] @
     [(''HOME'', evidence @ ''/scratch''), (''TMPDIR'', evidence @ ''/scratch''), (''LC_ALL'', ''C''),
      (''PYTHONDONTWRITEBYTECODE'', ''1''), (''GIT_CONFIG_NOSYSTEM'', ''1''), (''GIT_CONFIG_GLOBAL'', ''/dev/null''),
      (''SNITCHWATCH_GATE_SCRATCH'', evidence @ ''/scratch''),
      (''SNITCHWATCH_GATE_CLEANUP'', evidence @ ''/inputs/scripts/snitchwatch-gate.py'')]"

text \<open>What has been done so far: the commands that were started, the results, the files of the evidence.\<close>

record gate_run =
  gr_trace :: "string list list"
  gr_results :: "(gate_status \<times> json) list"
  gr_files :: "(string \<times> string) list"

definition missing_tools :: "gate_host \<Rightarrow> string list \<Rightarrow> string list" where
  "missing_tools K tools = filter (\<lambda>t. \<not> gt_which K t) tools"

definition check_result :: "gate_host \<Rightarrow> string \<Rightarrow> string list \<Rightarrow> gate_status \<Rightarrow> int option \<Rightarrow> string \<Rightarrow> json" where
  "check_result K name cmd st exit_code out = JObj ([(''name'', JStr name), (''status'', JStr (status_text st)),
     (''exit_code'', case exit_code of None \<Rightarrow> JNull | Some c \<Rightarrow> JInt c), (''command'', JList (map JStr cmd)),
     (''log'', JStr (name @ ''.log'')), (''log_sha256'', JStr (gt_sha K out))] @
     (if st = PASS then [] else [(''first_error'', JStr (first_error K out))]))"

definition run_check :: "gate_host \<Rightarrow> (string \<times> string) list \<Rightarrow> string option \<Rightarrow> string \<times> string list \<times> string list \<Rightarrow> gate_run \<Rightarrow> gate_run" where
  "run_check K env blocked chk r = (case chk of (name, cmd, tools) \<Rightarrow>
     let missing = missing_tools K tools;
         reason = (case blocked of Some b \<Rightarrow> Some b | None \<Rightarrow> if missing = [] then None else Some (''missing tools: '' @ join '', '' missing));
         (st, exit_code, out) = (case reason of
             Some why \<Rightarrow> (BLOCKED, None, utf8_encode (''BLOCKED: '' @ why @ [newline]))
           | None \<Rightarrow> ended (gt_exec K (gr_trace r) (OFFLINE @ cmd) env 120));
         trace = (case reason of Some _ \<Rightarrow> gr_trace r | None \<Rightarrow> gr_trace r @ [OFFLINE @ cmd])
     in \<lparr>gr_trace = trace, gr_results = gr_results r @ [(st, check_result K name cmd st exit_code out)],
         gr_files = gr_files r @ [(name @ ''.log'', out)]\<rparr>)"

definition offline_state :: "gate_status list \<Rightarrow> gate_status" where
  "offline_state sts = (if FAIL \<in> set sts then FAIL else if BLOCKED \<in> set sts then BLOCKED else PASS)"

fun exit_status :: "gate_status \<Rightarrow> nat" where
  "exit_status PASS = 0"
| "exit_status FAIL = 1"
| "exit_status BLOCKED = 2"

text \<open>The network namespace is tried before the first check; the reason, if the gate is blocked, and the run so far.\<close>

definition isolation :: "gate_host \<Rightarrow> (string \<times> string) list \<Rightarrow> gate_run \<Rightarrow> string option \<times> gate_run" where
  "isolation K env r = (case ended (gt_exec K (gr_trace r) (OFFLINE @ [''true'']) env 10) of (st, _, out) \<Rightarrow>
     (if st = PASS then None else Some (''network isolation unavailable: '' @ first_error K out),
      r\<lparr>gr_trace := gr_trace r @ [OFFLINE @ [''true'']], gr_files := gr_files r @ [(''isolation.log'', out)]\<rparr>))"

definition prepare_gate :: "gate_host \<Rightarrow> fsnode \<Rightarrow> (string \<times> string) list \<Rightarrow> string option \<times> (string \<times> json) list \<times> gate_run" where
  "prepare_gate K t env = (case snapshot K t of
       Inl e \<Rightarrow> (Some (error_text e), [], \<lparr>gr_trace = [], gr_results = [], gr_files = []\<rparr>)
     | Inr (_, records, adapted) \<Rightarrow>
         let inputs = save K (JObj [(''inputs'', JObj records), (''adapted_sha256'', JObj adapted)])
         in (case isolation K env \<lparr>gr_trace = [], gr_results = [], gr_files = [(''inputs.json'', inputs)]\<rparr> of
              (blocked, r) \<Rightarrow> (blocked, [(''inputs_sha256'', JStr (gt_sha K inputs))], r)))"

definition gate_summary :: "(string \<times> json) list \<Rightarrow> gate_run \<Rightarrow> json" where
  "gate_summary inputs r = JObj ([(''schema'', JInt 1), (''scope'', JStr ''offline-fixtures''), (''runtime'', JStr ''UNVERIFIED''),
     (''checks'', JList (map snd (gr_results r)))] @ inputs @ [(''offline'', JStr (status_text (offline_state (map fst (gr_results r)))))])"

definition gate :: "gate_host \<Rightarrow> fsnode \<Rightarrow> (string \<Rightarrow> string option) \<Rightarrow> string \<Rightarrow> nat \<times> gate_run" where
  "gate K t environ evidence =
     (let env = gate_env environ evidence in
      case prepare_gate K t env of (blocked, inputs, r0) \<Rightarrow>
      let r = fold (run_check K env blocked) CHECKS r0
      in (exit_status (offline_state (map fst (gr_results r))),
          r\<lparr>gr_files := gr_files r @ [(''summary.json'', save K (gate_summary inputs r))]\<rparr>))"

section \<open>Cleanup and the evidence directory\<close>

text \<open>
  \<open>--cleanup\<close>: what is removed. Paths are their parts, \<open>resolve\<close>, \<open>is_link\<close> and \<open>exists\<close> the
  answers of the file system; \<open>shutil.rmtree\<close> is called with the path that was given.
\<close>

definition inside :: "string list \<Rightarrow> string list \<Rightarrow> bool" where
  "inside base p \<longleftrightarrow> length base < length p \<and> take (length base) p = base"

definition cleanup :: "(string \<Rightarrow> string list) \<Rightarrow> (string \<Rightarrow> bool) \<Rightarrow> (string \<Rightarrow> bool) \<Rightarrow> (string \<Rightarrow> string option) \<Rightarrow> string \<Rightarrow>
    string option result" where
  "cleanup resolve is_link exists environ path = (case environ ''SNITCHWATCH_GATE_SCRATCH'' of
       None \<Rightarrow> Inl (KeyError ''SNITCHWATCH_GATE_SCRATCH'')
     | Some scratch \<Rightarrow> require (\<not> is_link path \<and> inside (resolve scratch) (resolve path)) (ValueError ''cleanup outside gate scratch refused'')
         (Inr (if exists path then Some path else None)))"

text \<open>The evidence directory may not be an input or below one; \<open>root\<close> and \<open>evidence\<close> are resolved.\<close>

definition evidence_ok :: "string list \<Rightarrow> string list \<Rightarrow> bool" where
  "evidence_ok base evidence \<longleftrightarrow> list_all (\<lambda>name. let source = base @ components name in evidence \<noteq> source \<and> \<not> inside source evidence) INPUTS"

end
