(* ===== verification/GateProofs.thy ===== *)
theory GateProofs
  imports Gate
begin

text \<open>
  Proofs about \<^verbatim>\<open>scripts/snitchwatch-gate.py\<close>: when the gate passes, what it starts, and what the snapshot
  holds.
\<close>

section \<open>Running the checks\<close>

abbreviation command_of :: "string \<times> string list \<times> string list \<Rightarrow> string list" where
  "command_of chk \<equiv> OFFLINE @ fst (snd chk)"

lemma blocked_checks:
  "let r' = fold (run_check K env (Some why)) cs r in
     gr_trace r' = gr_trace r \<and> map fst (gr_results r') = map fst (gr_results r) @ replicate (length cs) BLOCKED"
  by (induction cs arbitrary: r) (auto simp: run_check_def Let_def split: prod.splits)

lemma offline_runs:
  "set (gr_trace (fold (run_check K env blocked) cs r)) \<subseteq> set (gr_trace r) \<union> command_of ` set cs"
proof (induction cs arbitrary: r)
  case (Cons chk cs)
  have "set (gr_trace (run_check K env blocked chk r)) \<subseteq> insert (command_of chk) (set (gr_trace r))"
    by (cases chk) (auto simp: run_check_def Let_def split: prod.splits option.splits)
  with Cons [of "run_check K env blocked chk r"] show ?case by auto
qed simp

text \<open>The commands that have run before the check with number \<open>i\<close>.\<close>

definition passes :: "gate_host \<Rightarrow> (string \<times> string) list \<Rightarrow> string list list \<Rightarrow> (string \<times> string list \<times> string list) list \<Rightarrow> bool" where
  "passes K env before cs \<longleftrightarrow> (\<forall>i<length cs. missing_tools K (snd (snd (cs ! i))) = [] \<and>
     (\<exists>out. gt_exec K (before @ map command_of (take i cs)) (command_of (cs ! i)) env 120 = Ended 0 out))"

lemma passes_Cons: "passes K env before (chk # cs) \<longleftrightarrow> missing_tools K (snd (snd chk)) = [] \<and>
    (\<exists>out. gt_exec K before (command_of chk) env 120 = Ended 0 out) \<and> passes K env (before @ [command_of chk]) cs"
  unfolding passes_def by (simp add: All_less_Suc2)

lemma ended_PASS: "fst (ended e) = PASS \<longleftrightarrow> (\<exists>out. e = Ended 0 out)"
  by (cases e) auto

lemma run_check_PASS:
  obtains st x where "gr_results (run_check K env None chk r) = gr_results r @ [(st, x)]"
    and "st = PASS \<longleftrightarrow> missing_tools K (snd (snd chk)) = [] \<and> (\<exists>out. gt_exec K (gr_trace r) (command_of chk) env 120 = Ended 0 out)"
    and "st = PASS \<Longrightarrow> gr_trace (run_check K env None chk r) = gr_trace r @ [command_of chk]"
proof -
  obtain name cmd tools where c: "chk = (name, cmd, tools)" by (cases chk)
  obtain st xc out where e: "ended (gt_exec K (gr_trace r) (OFFLINE @ cmd) env 120) = (st, xc, out)" by (metis prod_cases3)
  have p: "st = PASS \<longleftrightarrow> (\<exists>out. gt_exec K (gr_trace r) (OFFLINE @ cmd) env 120 = Ended 0 out)"
    using ended_PASS [of "gt_exec K (gr_trace r) (OFFLINE @ cmd) env 120"] e by simp
  show ?thesis
  proof (cases "missing_tools K tools = []")
    case True
    with e p that [of st "check_result K name cmd st xc out"] show ?thesis by (simp add: run_check_def c)
  next
    case False
    with that [of BLOCKED] show ?thesis by (simp add: run_check_def c Let_def)
  qed
qed

lemma run_checks:
  "\<exists>sts. map fst (gr_results (fold (run_check K env None) cs r)) = map fst (gr_results r) @ sts \<and> length sts = length cs \<and>
     (set sts \<subseteq> {PASS} \<longleftrightarrow> passes K env (gr_trace r) cs)"
proof (induction cs arbitrary: r)
  case Nil
  then show ?case by (simp add: passes_def)
next
  case (Cons chk cs)
  obtain st x where s: "gr_results (run_check K env None chk r) = gr_results r @ [(st, x)]"
      "st = PASS \<longleftrightarrow> missing_tools K (snd (snd chk)) = [] \<and> (\<exists>out. gt_exec K (gr_trace r) (command_of chk) env 120 = Ended 0 out)"
      "st = PASS \<Longrightarrow> gr_trace (run_check K env None chk r) = gr_trace r @ [command_of chk]"
    using run_check_PASS [of K env chk r thesis for thesis] by blast
  obtain sts where t: "map fst (gr_results (fold (run_check K env None) cs (run_check K env None chk r))) =
        map fst (gr_results r) @ st # sts" "length sts = length cs"
      "set sts \<subseteq> {PASS} \<longleftrightarrow> passes K env (gr_trace (run_check K env None chk r)) cs"
    using Cons [of "run_check K env None chk r"] s(1) by auto
  have "set (st # sts) \<subseteq> {PASS} \<longleftrightarrow> passes K env (gr_trace r) (chk # cs)"
    using s(2,3) t(3) by (cases "st = PASS") (auto simp: passes_Cons)
  with t(1,2) show ?case by (intro exI [of _ "st # sts"]) simp
qed

lemma exit_status_0: "exit_status (offline_state sts) = 0 \<longleftrightarrow> set sts \<subseteq> {PASS}"
proof -
  have "x = PASS \<or> x = FAIL \<or> x = BLOCKED" for x by (cases x) auto
  then show ?thesis by (auto simp: offline_state_def split: if_splits)
qed

lemma exit_status_blocked: "n > 0 \<Longrightarrow> exit_status (offline_state (replicate n BLOCKED)) = 2"
  by (auto simp: offline_state_def)

section \<open>The snapshot\<close>

lemma snapshot_file_Inr:
  assumes "snapshot_file K (path, n) cs = Inr cs'"
  obtains f where "n = Inr f" "m_kind (f_meta f) \<noteq> KLink"
    "f_isdir f \<and> cs' = cs \<or> \<not> f_isdir f \<and> m_kind (f_meta f) = KReg \<and> base_name path \<noteq> ''cosign.key'' \<and>
       cs' = dict_set path (f_data f, unat (m_mode (f_meta f) AND 511)) cs"
  using assms by (auto simp: snapshot_file_def gt_written_def require_eq_Inr split: sum.splits if_splits option.splits)

text \<open>A copied file is an input with its bytes and its mode, an input that is no directory is copied.\<close>

definition copies_of :: "(string \<times> fsnode result) list \<Rightarrow> copies \<Rightarrow> bool" where
  "copies_of ps cs \<longleftrightarrow> (\<forall>(path, data, mode)\<in>set cs. \<exists>f. (path, Inr f) \<in> set ps \<and> m_kind (f_meta f) = KReg \<and>
     base_name path \<noteq> ''cosign.key'' \<and> data = f_data f \<and> mode = unat (m_mode (f_meta f) AND 511))"

definition all_copied :: "(string \<times> fsnode result) list \<Rightarrow> copies \<Rightarrow> bool" where
  "all_copied ps cs \<longleftrightarrow> (\<forall>(path, n)\<in>set ps. \<exists>f. n = Inr f \<and> m_kind (f_meta f) \<noteq> KLink \<and> (f_isdir f \<or> path \<in> fst ` set cs))"

lemma dict_set_member: "(k', v') \<in> set (dict_set k v d) \<Longrightarrow> (k', v') = (k, v) \<or> (k', v') \<in> set d"
  by (induction d) (auto split: if_splits)

lemma snapshot_files:
  assumes "rfold (snapshot_file K) ps cs = Inr cs'" "copies_of qs cs" "all_copied qs cs"
  shows "copies_of (qs @ ps) cs' \<and> all_copied (qs @ ps) cs'"
  using assms
proof (induction ps arbitrary: qs cs)
  case (Cons p ps)
  obtain path n where p: "p = (path, n)" by (cases p)
  obtain c where c: "snapshot_file K (path, n) cs = Inr c" "rfold (snapshot_file K) ps c = Inr cs'"
    using Cons.prems(1) by (auto simp: p rbind_eq_Inr)
  obtain f where f: "n = Inr f" "m_kind (f_meta f) \<noteq> KLink"
      "f_isdir f \<and> c = cs \<or> \<not> f_isdir f \<and> m_kind (f_meta f) = KReg \<and> base_name path \<noteq> ''cosign.key'' \<and>
         c = dict_set path (f_data f, unat (m_mode (f_meta f) AND 511)) cs"
    using c(1) by (rule snapshot_file_Inr)
  have "copies_of (qs @ [p]) c" using f(3) Cons.prems(2) f(1) unfolding copies_of_def p
    by (fastforce dest: dict_set_member)
  moreover have "all_copied (qs @ [p]) c" using f Cons.prems(3) unfolding all_copied_def p by fastforce
  ultimately show ?case using Cons.IH [OF c(2), of "qs @ [p]"] by simp
qed simp

lemma copied_inputs_Inr:
  assumes "copied_inputs K t = Inr cs"
  shows "copies_of (concat (map (input_paths t) INPUTS)) cs" "all_copied (concat (map (input_paths t) INPUTS)) cs"
proof -
  have "rfold (\<lambda>name. rfold (snapshot_file K) (input_paths t name)) names cs0 = rfold (snapshot_file K) (concat (map (input_paths t) names)) cs0" for names cs0
    by (induction names arbitrary: cs0) (auto simp: rfold_append intro!: rbind_cong)
  then have "rfold (snapshot_file K) (concat (map (input_paths t) INPUTS)) [] = Inr cs"
    using assms by (simp add: copied_inputs_def)
  from snapshot_files [OF this, of "[]"]
  show "copies_of (concat (map (input_paths t) INPUTS)) cs" "all_copied (concat (map (input_paths t) INPUTS)) cs"
    by (auto simp: copies_of_def all_copied_def)
qed

lemma adapt_Inr:
  assumes "adapt K (name, rs) cs = Inr cs'"
  obtains new mode where "cs' = dict_set name (utf8_encode new, mode) cs" "\<not> contains ''rm -rf'' new"
  using assms by (auto simp: adapt_def gt_written_def rbind_eq_Inr require_eq_Inr split: option.splits prod.splits)

lemma adapted_scripts:
  assumes "rfold (adapt K) nrs cs = Inr ad" "distinct (map fst nrs)"
  shows "(\<forall>(name, rs)\<in>set nrs. \<exists>new mode. map_of ad name = Some (utf8_encode new, mode) \<and> \<not> contains ''rm -rf'' new) \<and>
    (\<forall>name. name \<notin> fst ` set nrs \<longrightarrow> map_of ad name = map_of cs name)"
  using assms
proof (induction nrs arbitrary: cs)
  case (Cons nr nrs)
  obtain name rs where nr: "nr = (name, rs)" by (cases nr)
  obtain c where c: "adapt K (name, rs) cs = Inr c" "rfold (adapt K) nrs c = Inr ad"
    using Cons.prems(1) by (auto simp: nr rbind_eq_Inr)
  obtain new mode where n: "c = dict_set name (utf8_encode new, mode) cs" "\<not> contains ''rm -rf'' new"
    using c(1) by (rule adapt_Inr)
  have d: "distinct (map fst nrs)" "name \<notin> fst ` set nrs" using Cons.prems(2) by (auto simp: nr)
  have "map_of ad name = Some (utf8_encode new, mode)" using Cons.IH [OF c(2) d(1)] d(2) n(1) by simp
  then show ?case using Cons.IH [OF c(2) d(1)] n by (auto simp: nr)
qed simp

section \<open>An accepted run\<close>

definition toy_meta :: "kind \<Rightarrow> meta" where
  "toy_meta k = \<lparr>m_kind = k, m_uid = 0, m_gid = 0, m_mode = 420, m_nlink = 1, m_dev = 0, m_ino = 0, m_xattrs = Inr []\<rparr>"

definition toy_leaf :: "string \<Rightarrow> fsnode" where
  "toy_leaf b = FsNode (toy_meta KReg) False b None"

definition toy_folder :: "(string \<times> fsnode) list \<Rightarrow> fsnode" where
  "toy_folder ks = FsNode (toy_meta KDir) True [] (Some ks)"

definition toy_repo :: fsnode where
  "toy_repo = toy_folder [(''Justfile'', toy_leaf []), (''Containerfile'', toy_leaf []), (''cosign.pub'', toy_leaf ''key''),
     (''.github'', toy_folder [(''workflows'', toy_folder [(''build.yml'', toy_leaf [])])]),
     (''build_files'', toy_folder [
        (''firewall'', toy_folder [(''snitchwatch-system-toolchain.sh'', toy_leaf (removal ''tmp'' @ [newline]))]),
        (''build.d'', toy_folder [(''15-signature-policy.sh'', toy_leaf []), (''95-firewall.sh'', toy_leaf [])])]),
     (''system_files'', toy_folder []),
     (''scripts'', toy_folder [(''install-signature-policy.sh'', toy_leaf []), (''snitchwatch-gate.py'', toy_leaf [])]),
     (''tests'', toy_folder [(''test-snitchwatch-image-build-fixtures'', toy_folder []),
        (''fixtures'', toy_folder [(''r13-installed-branch-metadata.json'', toy_leaf []), (''flatpak-installed-metadata'', toy_leaf [])]),
        (''test-snitchwatch-system.py'', toy_leaf []), (''test-snitchwatch-gate.py'', toy_leaf []),
        (''test-snitchwatch-toolchain.sh'', toy_leaf (removal ''T'' @ [newline] @ removal ''T/work'' @ [newline] @ removal ''T/work'')),
        (''test-snitchwatch-image-build.py'', toy_leaf []), (''test-snitchwatch-image-build-daemon.py'', toy_leaf []),
        (''test-snitchwatch-system.sh'', toy_leaf []), (''check-supply-chain.sh'', toy_leaf [])])]"

definition toy_runner :: gate_host where
  "toy_runner = \<lparr>gt_sha = \<lambda>s. s, gt_write = \<lambda>_. None, gt_which = \<lambda>_. True, gt_exec = \<lambda>_ _ _ _. Ended 0 ''ok'', gt_text = \<lambda>s. s, gt_float = \<lambda>_. []\<rparr>"

lemma toy_snapshot: "succeeds (snapshot toy_runner toy_repo)"
  by code_simp

lemma toy_passes: "passes toy_runner env before cs"
  by (simp add: passes_def toy_runner_def missing_tools_def)

section \<open>Properties\<close>

text \<open>
  C32: the gate passes just when everything ran and ended well. The exit code is 0 if and only if the snapshot was
  taken, a network namespace could be made, every check has its tools, and each check, started in the reviewed
  order after the ones before it, ended with code 0. If the snapshot fails the code is 2 and nothing is started,
  and nothing is ever started outside a network namespace of its own.
\<close>
theorem gate_exact:
  "case gate K t environ evidence of (exit_code, r) \<Rightarrow>
     (exit_code = 0 \<longleftrightarrow> succeeds (snapshot K t) \<and> (\<exists>out. gt_exec K [] (OFFLINE @ [''true'']) (gate_env environ evidence) 10 = Ended 0 out) \<and>
        passes K (gate_env environ evidence) [OFFLINE @ [''true'']] CHECKS) \<and>
     (succeeds (snapshot K t) \<or> exit_code = 2 \<and> gr_trace r = []) \<and>
     set (gr_trace r) \<subseteq> range (\<lambda>cmd. OFFLINE @ cmd)"
proof -
  define env where "env = gate_env environ evidence"
  obtain blocked inputs r0 where p: "prepare_gate K t env = (blocked, inputs, r0)" by (metis prod_cases3)
  define r where "r = fold (run_check K env blocked) CHECKS r0"
  have g: "gate K t environ evidence = (exit_status (offline_state (map fst (gr_results r))),
      r\<lparr>gr_files := gr_files r @ [(''summary.json'', save K (gate_summary inputs r))]\<rparr>)"
    using p by (simp add: gate_def env_def r_def Let_def)
  have tr: "set (gr_trace r0) \<subseteq> {OFFLINE @ [''true'']}" "gr_results r0 = []"
    using p by (auto simp: prepare_gate_def isolation_def Let_def split: sum.splits prod.splits)
  have all: "set (gr_trace r) \<subseteq> range (\<lambda>cmd. OFFLINE @ cmd)"
    using offline_runs [of K env blocked CHECKS r0] tr(1) unfolding r_def by blast
  have n: "length CHECKS > 0" by (simp add: CHECKS_def)
  show ?thesis
  proof (cases "snapshot K t")
    case (Inl e)
    then have "blocked = Some (error_text e)" "gr_trace r0 = []" using p by (auto simp: prepare_gate_def)
    with blocked_checks [of K env "error_text e" CHECKS r0] exit_status_blocked [OF n] tr(2) Inl all show ?thesis
      by (simp add: g r_def Let_def)
  next
    case (Inr x)
    obtain st xc out where e: "ended (gt_exec K [] (OFFLINE @ [''true'']) env 10) = (st, xc, out)" by (metis prod_cases3)
    have iso: "st = PASS \<longleftrightarrow> (\<exists>out. gt_exec K [] (OFFLINE @ [''true'']) env 10 = Ended 0 out)"
      using ended_PASS [of "gt_exec K [] (OFFLINE @ [''true'']) env 10"] e by simp
    have b: "blocked = (if st = PASS then None else Some (''network isolation unavailable: '' @ first_error K out))" "gr_trace r0 = [OFFLINE @ [''true'']]"
      using p e Inr by (auto simp: prepare_gate_def isolation_def Let_def split: prod.splits)
    show ?thesis
    proof (cases "st = PASS")
      case True
      with b run_checks [of K env CHECKS r0] tr(2) iso Inr all show ?thesis
        by (auto simp: g r_def exit_status_0 env_def)
    next
      case False
      with b blocked_checks [of K env "''network isolation unavailable: '' @ first_error K out" CHECKS r0] exit_status_blocked [OF n] tr(2) iso Inr all
      show ?thesis by (simp add: g r_def env_def Let_def)
    qed
  qed
qed

text \<open>
  What the checks see. If the snapshot is taken, every input is there, none is a link and none is named
  \<open>cosign.key\<close>; every record is the hash and the mode of a regular input file, and every such
  file is recorded; each adapted script has no \<open>rm -rf\<close> left, and every other file is the input itself.
\<close>
theorem snapshot_sound:
  assumes "snapshot K t = Inr (files, records, adapted)"
  shows "\<exists>cs. records = map (gate_record K) cs \<and> copies_of (concat (map (input_paths t) INPUTS)) cs \<and>
     all_copied (concat (map (input_paths t) INPUTS)) cs \<and>
     list_all (\<lambda>(name, _). \<exists>new mode. map_of files name = Some (utf8_encode new, mode) \<and> \<not> contains ''rm -rf'' new) ADAPTATIONS \<and>
     (\<forall>name. name \<in> fst ` set ADAPTATIONS \<or> map_of files name = map_of cs name)"
proof -
  obtain cs where c: "copied_inputs K t = Inr cs" "rfold (adapt K) ADAPTATIONS cs = Inr files" "records = map (gate_record K) cs"
    using assms by (auto simp: snapshot_def rbind_eq_Inr)
  have "distinct (map fst ADAPTATIONS)" by code_simp
  with adapted_scripts [OF c(2)] copied_inputs_Inr [OF c(1)] c(3) show ?thesis by (auto simp: list_all_iff)
qed

theorem snapshot_sound_witness:
  "\<exists>files records adapted. snapshot toy_runner toy_repo = Inr (files, records, adapted) \<and>
     (\<exists>new mode. map_of files ''tests/test-snitchwatch-toolchain.sh'' = Some (utf8_encode new, mode) \<and> \<not> contains ''rm -rf'' new)"
proof -
  obtain files records adapted where s: "snapshot toy_runner toy_repo = Inr (files, records, adapted)"
    using toy_snapshot by (auto simp: succeeds_iff)
  from snapshot_sound [OF this] s show ?thesis by (auto simp: ADAPTATIONS_def)
qed

end
