(* ===== verification/CandidateData.thy ===== *)
theory CandidateData
  imports BaseImage
begin

text \<open>
  \<^verbatim>\<open>ci/r13-candidate-data.py\<close>: the builder collects the data of the candidate from the image it
  has built and checks it as the candidate job does. What \<open>podman\<close>, \<open>skopeo\<close> and git answer is an argument
  (\<open>pod\<close> of theory \<open>BaseImage\<close>), so is \<open>parse_created\<close> of the SPDX script. Argument parsing and what a
  failed run leaves in the output directory are not modelled.
\<close>

definition manifest_name :: "string \<Rightarrow> string" where
  "manifest_name kind = kind @ ''-manifest.json''"

text \<open>The binary that the manifest names, as it is installed in the image.\<close>

definition installed_binary :: "host \<Rightarrow> pod \<Rightarrow> json \<Rightarrow> unit result" where
  "installed_binary h im manifest =
     rbind (rbind (index2 manifest ''binary'' ''path'') json_str) (\<lambda>path.
     rbind (copied im path) (\<lambda>t.
     rbind (file_sha h t tmp_path) (\<lambda>a.
     demand (rbind (index2 manifest ''binary'' ''sha256'') (\<lambda>x. Inr (pyeq (JStr a) x)))
       (refuse ''installed binary differs from manifest'') (Inr ()))))"

definition candidate_manifest :: "host \<Rightarrow> pod \<Rightarrow> string \<Rightarrow> (string \<times> node) result" where
  "candidate_manifest h im kind =
     rbind (im_copy im (''/usr/share/snitchwatch/system-'' @ kind @ ''-manifest.json'')) (\<lambda>n.
     rbind (rbind (read [manifest_name kind \<mapsto> n] (manifest_name kind) data_limit) decode) (\<lambda>manifest.
     rbind (installed_binary h im manifest) (\<lambda>_. Inr (manifest_name kind, n))))"

definition candidate_copy :: "tree \<Rightarrow> string \<times> string \<Rightarrow> (string \<times> node) result" where
  "candidate_copy ctl ns = rbind (file_bytes ctl (snd ns)) (\<lambda>b. Inr (fst ns, RegFile b))"

definition candidate_provenance :: "json \<Rightarrow> int \<Rightarrow> json \<Rightarrow> string \<Rightarrow> string \<Rightarrow> string \<Rightarrow> json" where
  "candidate_provenance ids n img s b d = JObj
     [(''schemaVersion'', JInt 1), (''kind'', JStr ''candidate-build''), (''repository'', JStr REPOSITORY),
      (''workflow'', JStr CANDIDATE_WORKFLOW), (''ref'', JStr CANDIDATE_REF), (''runId'', JInt n),
      (''runAttempt'', JInt 1), (''identities'', ids), (''image'', img), (''sbomSha256'', JStr s),
      (''bridgeManifestSha256'', JStr b), (''daemonManifestSha256'', JStr d)]"

definition candidate_record :: "json \<Rightarrow> int \<Rightarrow> json \<Rightarrow> json \<Rightarrow> json" where
  "candidate_record ids n img files = JObj
     [(''schemaVersion'', JInt 1), (''repository'', JStr CANDIDATE_REPOSITORY), (''ref'', JStr CANDIDATE_REF),
      (''workflow'', JStr CANDIDATE_WORKFLOW), (''runId'', JInt n), (''runAttempt'', JInt 1),
      (''identities'', ids), (''image'', img), (''files'', files)]"

text \<open>
  What is in the output directory before the last check. \<open>committed\<close> is the output of git, \<open>created\<close> the time
  that \<open>parse_created\<close> makes of it; a failing SPDX script is a failed call.
\<close>

definition candidate_collect :: "host \<Rightarrow> (string \<Rightarrow> string result) \<Rightarrow> string result \<Rightarrow> (string \<Rightarrow> string option) \<Rightarrow> tree \<Rightarrow> pod \<Rightarrow>
    json \<Rightarrow> dir result" where
  "candidate_collect h created committed env ctl im ids =
     rbind (rmap (candidate_manifest h im) [''bridge'', ''daemon'']) (\<lambda>manifests.
     rbind (im_rpms im) (\<lambda>rpms. rbind committed (\<lambda>stamp.
     rbind (case rbind (created (strip stamp)) (spdx_main h rpms) of Inl _ \<Rightarrow> Inl CalledProcessError | Inr sbom \<Rightarrow> Inr sbom) (\<lambda>sbom.
     rbind (im_archive im) (\<lambda>archive.
     rbind (image_identity h archive) (\<lambda>installed.
     rbind (rmap (candidate_copy ctl) policy_sources) (\<lambda>copies.
     rbind (environ_int env ''GITHUB_RUN_ID'') (\<lambda>n.
     let data = manifests @ [(''sbom.json'', RegFile sbom), (''image.oci.tar'', RegFile archive)] @ copies in
     rbind (file_sha h (map_of data) ''sbom.json'') (\<lambda>s.
     rbind (file_sha h (map_of data) ''bridge-manifest.json'') (\<lambda>b.
     rbind (file_sha h (map_of data) ''daemon-manifest.json'') (\<lambda>d.
     let data = data @ [(''build-provenance.json'', RegFile (canonical h (candidate_provenance ids n installed s b d)))] in
     rbind (dir_hashes h data) (\<lambda>hashes.
     Inr (data @ [(''candidate.json'', RegFile (canonical h (candidate_record ids n installed hashes)))])))))))))))))"

definition candidate_data :: "host \<Rightarrow> (string \<Rightarrow> string result) \<Rightarrow> string result \<Rightarrow> (string \<Rightarrow> string option) \<Rightarrow> tree \<Rightarrow> bool \<Rightarrow> pod \<Rightarrow>
    dir result" where
  "candidate_data h created committed env ctl taken im =
     require (\<not> taken) (refuse ''output must be new'')
     (rbind (environ env ''GITHUB_SHA'') (\<lambda>head.
     rbind (candidate_approval h ctl head) (\<lambda>ids.
     rbind (im_create im) (\<lambda>_. finally_do (im_remove im)
       (rbind (candidate_collect h created committed env ctl im ids) (\<lambda>data.
        rbind (environ env ''GITHUB_SHA'') (\<lambda>head. rbind (environ_int env ''GITHUB_RUN_ID'') (\<lambda>n.
        rbind (validate_candidate h ctl data head n) (\<lambda>_. Inr data)))))))))"

end
