(* ===== verification/CandidateDataProofs.thy ===== *)
theory CandidateDataProofs
  imports CandidateData BaseImageProofs
begin

text \<open>
  Proofs about \<^verbatim>\<open>ci/r13-candidate-data.py\<close>: the data the builder collects is accepted by the job that validates
  the candidate, and the manifests in it describe the binaries of the image.
\<close>

section \<open>Values\<close>

lemma identity_plain:
  assumes "identity ids = Inr ()" "wf_json ids"
  shows "no_float ids"
proof -
  obtain d where d: "ids = JObj d" "set (map fst d) = {''towerCommit'', ''towerTree'', ''sourceCommit'', ''sourceTree'',
      ''submoduleCommit'', ''bridgePinsSha256'', ''daemonPinsSha256'', ''workflowSha256''}"
    using identity_dict [OF assms(1)] assms(1) by (auto simp: identity_def demand_eq_Inr is_dict_iff)
  have "\<exists>s. v = JStr s" if "(k, v) \<in> set d" for k v
  proof -
    have "map_of d k = Some v" using that assms(2) d(1) by simp
    then have i: "index ids k = Inr v" by (simp add: d(1))
    have "k \<in> {''towerCommit'', ''towerTree'', ''sourceCommit'', ''sourceTree'', ''submoduleCommit''} \<or>
        k \<in> {''bridgePinsSha256'', ''daemonPinsSha256'', ''workflowSha256''}"
      using d(2) that by force
    then show ?thesis
    proof
      assume m: "k \<in> {''towerCommit'', ''towerTree'', ''sourceCommit'', ''sourceTree'', ''submoduleCommit''}"
      from identity_field [OF assms(1) m] i show ?thesis by auto
    next
      assume m: "k \<in> {''bridgePinsSha256'', ''daemonPinsSha256'', ''workflowSha256''}"
      from identity_hash [OF assms(1) m] i show ?thesis by auto
    qed
  qed
  then have "no_float v" if "(k, v) \<in> set d" for k v using that by fastforce
  then show ?thesis unfolding d(1) by (auto simp: list_all_iff)
qed

lemma index_is_sortk: "wf_json v \<Longrightarrow> index v k = Inr x \<Longrightarrow> no_float x \<Longrightarrow> index_is (sortk v) k x = Inr True"
  by (simp add: index_is_True sortk_index pyeq_sortk_plain)

section \<open>What the builder leaves\<close>

text \<open>The installed binary of a manifest has the hash that the manifest says.\<close>

definition describes_binary :: "host \<Rightarrow> pod \<Rightarrow> json \<Rightarrow> bool" where
  "describes_binary h im manifest \<longleftrightarrow> (\<exists>path b. index2 manifest ''binary'' ''path'' = Inr (JStr path) \<and>
     im_copy im path = Inr (RegFile b) \<and> index2 manifest ''binary'' ''sha256'' = Inr (JStr (sha256 h b)))"

lemma installed_binary_Inr:
  assumes "installed_binary h im m = Inr u"
  shows "describes_binary h im m"
proof -
  obtain v path t a x where i: "index2 m ''binary'' ''path'' = Inr v" "json_str v = Inr path" "copied im path = Inr t" "file_sha h t tmp_path = Inr a"
      "index2 m ''binary'' ''sha256'' = Inr x" "pyeq (JStr a) x"
    using assms by (auto simp: installed_binary_def rbind_eq_Inr demand_eq_Inr)
  have "v = JStr path" using i(2) by (cases v) (simp_all add: json_str_def)
  moreover have "x = JStr a" using i(6) pyeq_sym [of "JStr a" x] by simp
  ultimately show ?thesis using i(1,3-5) by (auto simp: describes_binary_def copied_def rbind_eq_Inr file_sha_eq_Inr)
qed

text \<open>A manifest in the output directory is the one of the image, and it describes its binary.\<close>

definition manifest_installed :: "host \<Rightarrow> pod \<Rightarrow> dir \<Rightarrow> string \<Rightarrow> bool" where
  "manifest_installed h im data kind \<longleftrightarrow> (\<exists>b m. map_of data (manifest_name kind) = Some (RegFile b) \<and>
     im_copy im (''/usr/share/snitchwatch/system-'' @ kind @ ''-manifest.json'') = Inr (RegFile b) \<and> decode b = Inr m \<and> describes_binary h im m)"

lemma candidate_manifest_Inr: "candidate_manifest h im kind = Inr (name, n) \<Longrightarrow> name = manifest_name kind \<and>
    (\<exists>b m. n = RegFile b \<and> im_copy im (''/usr/share/snitchwatch/system-'' @ kind @ ''-manifest.json'') = Inr (RegFile b) \<and> decode b = Inr m \<and> describes_binary h im m)"
  by (auto simp: candidate_manifest_def rbind_eq_Inr read_eq_Inr dest: installed_binary_Inr)

lemma candidate_copy_Inr: "candidate_copy ctl (name, src) = Inr (n, f) \<longleftrightarrow> n = name \<and> (\<exists>b. f = RegFile b \<and> ctl src = Some (RegFile b))"
  by (auto simp: candidate_copy_def rbind_eq_Inr file_bytes_def split: option.splits node.splits)

lemma candidate_collect_Inr:
  assumes "candidate_collect h created committed env ctl im ids = Inr data"
  obtains bm dm sbom archive k p y rpms time d n hashes prov where
    "manifest_installed h im data ''bridge''" "manifest_installed h im data ''daemon''"
    "im_rpms im = Inr rpms" "spdx_main h rpms time = Inr sbom" "im_archive im = Inr archive" "image_identity h archive = Inr (image_record d)"
    "environ_int env ''GITHUB_RUN_ID'' = Inr n"
    "ctl ''cosign.pub'' = Some (RegFile k)" "ctl ''system_files/usr/share/bazzite-tower/containers/policy.json'' = Some (RegFile p)"
    "ctl ''system_files/usr/share/bazzite-tower/containers/registries.d/bazzite-tower.yaml'' = Some (RegFile y)"
    "prov = candidate_provenance ids n (image_record d) (sha256 h sbom) (sha256 h bm) (sha256 h dm)"
    "hashes = JObj [(''bridge-manifest.json'', JStr (sha256 h bm)), (''daemon-manifest.json'', JStr (sha256 h dm)), (''sbom.json'', JStr (sha256 h sbom)),
       (''image.oci.tar'', JStr (sha256 h archive)), (''cosign.pub'', JStr (sha256 h k)), (''policy.json'', JStr (sha256 h p)),
       (''bazzite-tower.yaml'', JStr (sha256 h y)), (''build-provenance.json'', JStr (sha256 h (canonical h prov)))]"
    "data = [(''bridge-manifest.json'', RegFile bm), (''daemon-manifest.json'', RegFile dm), (''sbom.json'', RegFile sbom),
       (''image.oci.tar'', RegFile archive), (''cosign.pub'', RegFile k), (''policy.json'', RegFile p), (''bazzite-tower.yaml'', RegFile y),
       (''build-provenance.json'', RegFile (canonical h prov)),
       (''candidate.json'', RegFile (canonical h (candidate_record ids n (image_record d) hashes)))]"
proof -
  obtain bn bf dn df rpms stamp sbom archive img cs n s b d0 hashes where
    c: "candidate_manifest h im ''bridge'' = Inr (bn, bf)" "candidate_manifest h im ''daemon'' = Inr (dn, df)"
      "im_rpms im = Inr rpms" "rbind (created (strip stamp)) (spdx_main h rpms) = Inr sbom"
      "im_archive im = Inr archive" "image_identity h archive = Inr img" "rmap (candidate_copy ctl) policy_sources = Inr cs"
      "environ_int env ''GITHUB_RUN_ID'' = Inr n"
    and f: "file_sha h (map_of ([(bn, bf), (dn, df), (''sbom.json'', RegFile sbom), (''image.oci.tar'', RegFile archive)] @ cs)) ''sbom.json'' = Inr s"
      "file_sha h (map_of ([(bn, bf), (dn, df), (''sbom.json'', RegFile sbom), (''image.oci.tar'', RegFile archive)] @ cs)) ''bridge-manifest.json'' = Inr b"
      "file_sha h (map_of ([(bn, bf), (dn, df), (''sbom.json'', RegFile sbom), (''image.oci.tar'', RegFile archive)] @ cs)) ''daemon-manifest.json'' = Inr d0"
      "dir_hashes h (([(bn, bf), (dn, df), (''sbom.json'', RegFile sbom), (''image.oci.tar'', RegFile archive)] @ cs) @
         [(''build-provenance.json'', RegFile (canonical h (candidate_provenance ids n img s b d0)))]) = Inr hashes"
      "data = (([(bn, bf), (dn, df), (''sbom.json'', RegFile sbom), (''image.oci.tar'', RegFile archive)] @ cs) @
         [(''build-provenance.json'', RegFile (canonical h (candidate_provenance ids n img s b d0)))]) @
         [(''candidate.json'', RegFile (canonical h (candidate_record ids n img hashes)))]"
  proof -
    obtain ms rpms stamp sbom archive img cs n s b d0 hashes where
      c: "rmap (candidate_manifest h im) [''bridge'', ''daemon''] = Inr ms" "im_rpms im = Inr rpms"
        "(case rbind (created (strip stamp)) (spdx_main h rpms) of Inl _ \<Rightarrow> Inl CalledProcessError | Inr sbom \<Rightarrow> Inr sbom) = Inr sbom"
        "im_archive im = Inr archive" "image_identity h archive = Inr img" "rmap (candidate_copy ctl) policy_sources = Inr cs"
        "environ_int env ''GITHUB_RUN_ID'' = Inr n"
      and f: "file_sha h (map_of (ms @ [(''sbom.json'', RegFile sbom), (''image.oci.tar'', RegFile archive)] @ cs)) ''sbom.json'' = Inr s"
        "file_sha h (map_of (ms @ [(''sbom.json'', RegFile sbom), (''image.oci.tar'', RegFile archive)] @ cs)) ''bridge-manifest.json'' = Inr b"
        "file_sha h (map_of (ms @ [(''sbom.json'', RegFile sbom), (''image.oci.tar'', RegFile archive)] @ cs)) ''daemon-manifest.json'' = Inr d0"
        "dir_hashes h ((ms @ [(''sbom.json'', RegFile sbom), (''image.oci.tar'', RegFile archive)] @ cs) @
           [(''build-provenance.json'', RegFile (canonical h (candidate_provenance ids n img s b d0)))]) = Inr hashes"
        "data = ((ms @ [(''sbom.json'', RegFile sbom), (''image.oci.tar'', RegFile archive)] @ cs) @
           [(''build-provenance.json'', RegFile (canonical h (candidate_provenance ids n img s b d0)))]) @
           [(''candidate.json'', RegFile (canonical h (candidate_record ids n img hashes)))]"
      using assms unfolding candidate_collect_def Let_def rbind_eq_Inr by blast
    obtain bn bf dn df where m: "candidate_manifest h im ''bridge'' = Inr (bn, bf)" "candidate_manifest h im ''daemon'' = Inr (dn, df)" "ms = [(bn, bf), (dn, df)]"
      using c(1) by (auto simp: rbind_eq_Inr)
    have sb: "rbind (created (strip stamp)) (spdx_main h rpms) = Inr sbom" using c(3) by (simp split: sum.splits)
    show thesis by (rule that [OF m(1,2) c(2) sb c(4-7)]) (use f in \<open>simp_all add: m(3)\<close>)
  qed
  obtain k p y where cs: "cs = [(''cosign.pub'', RegFile k), (''policy.json'', RegFile p), (''bazzite-tower.yaml'', RegFile y)]"
      "ctl ''cosign.pub'' = Some (RegFile k)" "ctl ''system_files/usr/share/bazzite-tower/containers/policy.json'' = Some (RegFile p)"
      "ctl ''system_files/usr/share/bazzite-tower/containers/registries.d/bazzite-tower.yaml'' = Some (RegFile y)"
    using c(7) by (auto simp: policy_sources_def rbind_eq_Inr candidate_copy_Inr)
  obtain d where d: "img = image_record d" using image_identity_image [OF c(6)] by blast
  obtain bm m where bm: "bn = ''bridge-manifest.json''" "bf = RegFile bm" "im_copy im ''/usr/share/snitchwatch/system-bridge-manifest.json'' = Inr (RegFile bm)"
      "decode bm = Inr m" "describes_binary h im m"
    using candidate_manifest_Inr [OF c(1)] by (auto simp: manifest_name_def)
  obtain dm m' where dm: "dn = ''daemon-manifest.json''" "df = RegFile dm" "im_copy im ''/usr/share/snitchwatch/system-daemon-manifest.json'' = Inr (RegFile dm)"
      "decode dm = Inr m'" "describes_binary h im m'"
    using candidate_manifest_Inr [OF c(2)] by (auto simp: manifest_name_def)
  obtain time where t: "spdx_main h rpms time = Inr sbom" using c(4) by (auto simp: rbind_eq_Inr)
  have v: "s = sha256 h sbom" "b = sha256 h bm" "d0 = sha256 h dm" using f(1-3) by (simp_all add: bm dm cs file_sha_def)
  have "manifest_installed h im data ''bridge''" "manifest_installed h im data ''daemon''"
    using bm dm by (auto simp: manifest_installed_def manifest_name_def f(5) cs)
  then show thesis
    by (rule that [where bm = bm and dm = dm and d = d, OF _ _ c(3) t c(5) _ c(8) cs(2-4) refl])
      (use f(4,5) c(6) in \<open>simp_all add: d v cs bm dm dir_hashes_def file_sha_def\<close>)
qed

section \<open>The data is accepted\<close>

lemma candidate_record_sorted:
  assumes "wf_json ids" "no_float ids" "c = candidate_record ids n (image_record d) (JObj fs)" "wf_json (JObj fs)" "no_float (JObj fs)"
  shows "no_float c" "wf_json c" "set_is (sortk c) [''schemaVersion'', ''repository'', ''ref'', ''workflow'', ''runId'', ''runAttempt'', ''identities'', ''image'', ''files''] = Inr True"
    "index (sortk c) ''image'' = Inr (sortk (image_record d))" "index (sortk c) ''files'' = Inr (sortk (JObj fs))"
    "index (sortk c) ''identities'' = Inr (sortk ids)" "index (sortk c) ''runId'' = Inr (JInt n)" "index (sortk c) ''runAttempt'' = Inr (JInt 1)"
    "index (sortk c) ''schemaVersion'' = Inr (JInt 1)" "index (sortk c) ''repository'' = Inr (JStr CANDIDATE_REPOSITORY)"
    "index (sortk c) ''ref'' = Inr (JStr CANDIDATE_REF)" "index (sortk c) ''workflow'' = Inr (JStr CANDIDATE_WORKFLOW)"
proof -
  show w: "no_float c" "wf_json c" using assms(1,2,4,5) by (simp_all add: assms(3) candidate_record_def image_record_def)
  show "set_is (sortk c) [''schemaVersion'', ''repository'', ''ref'', ''workflow'', ''runId'', ''runAttempt'', ''identities'', ''image'', ''files''] = Inr True"
    by (auto simp: assms(3) candidate_record_def)
  note i = sortk_index [OF w(2)]
  show "index (sortk c) ''image'' = Inr (sortk (image_record d))" "index (sortk c) ''files'' = Inr (sortk (JObj fs))"
    "index (sortk c) ''identities'' = Inr (sortk ids)"
    by (rule i; simp add: assms(3) candidate_record_def)+
  show "index (sortk c) ''runId'' = Inr (JInt n)" "index (sortk c) ''runAttempt'' = Inr (JInt 1)" "index (sortk c) ''schemaVersion'' = Inr (JInt 1)"
    using i [of _ "JInt n"] i [of _ "JInt 1"] by (simp_all add: assms(3) candidate_record_def del: sortk.simps(6,7))
  show "index (sortk c) ''repository'' = Inr (JStr CANDIDATE_REPOSITORY)" "index (sortk c) ''ref'' = Inr (JStr CANDIDATE_REF)" "index (sortk c) ''workflow'' = Inr (JStr CANDIDATE_WORKFLOW)"
    using i [of _ "JStr CANDIDATE_REPOSITORY"] i [of _ "JStr CANDIDATE_REF"] i [of _ "JStr CANDIDATE_WORKFLOW"]
    by (simp_all add: assms(3) candidate_record_def del: sortk.simps(6,7))
qed
text \<open>A file that a job can take over: within its limit, with a hash of 64 hexadecimal digits.\<close>

definition fit_file :: "host \<Rightarrow> string \<times> node \<Rightarrow> bool" where
  "fit_file h p = (case snd p of RegFile b \<Rightarrow> length b \<le> entry_limit (fst p) \<and> length (sha256 h b) = 64 \<and> list_all is_hex (sha256 h b) | _ \<Rightarrow> False)"

lemma map_prod_texts: "\<forall>x\<in>set fs. \<exists>s. snd x = JStr s \<Longrightarrow> map (map_prod id sortk) fs = fs"
  by (induction fs) auto

lemma candidate_metadata_ok:
  assumes "wf_json ids" "no_float ids" "c = candidate_record ids n (image_record d) (JObj fs)" "wf_json (JObj fs)"
    and "t ''image.oci.tar'' = Some (RegFile archive)" "image_identity h archive = Inr (image_record d)"
    and "set (map fst fs) = set candidate_files" "\<forall>x\<in>set fs. \<exists>s. snd x = JStr s" "\<forall>x\<in>set fs. file_hash_check h t x = Inr ()"
  shows "candidate_metadata h t ids n (sortk c) = Inr ()"
proof -
  have nf: "no_float (JObj fs)" using assms(8) by (fastforce simp: list_all_iff)
  note c = candidate_record_sorted [OF assms(1-4) nf]
  have f: "sortk (JObj fs) = JObj (sort_key fst fs)" by (simp add: map_prod_texts [OF assms(8)])
  have p: "pyeq (sortk (image_record d)) (image_record d)" by (rule pyeq_sortk_plain) (simp add: image_record_def)
  have s: "set_is (JObj (sort_key fst fs)) candidate_files = Inr True" using assms(7) by simp
  have all: "rall (file_hash_check h t) (sort_key fst fs) = Inr ()" using assms(9) by (simp add: rall_eq_Inr)
  have i: "pyeq (sortk ids) ids" by (rule pyeq_sortk_plain [OF assms(2)])
  show ?thesis unfolding candidate_metadata_def
    using c(3-) f p s all i assms(5,6) by (simp add: index_is_def all_of.simps dict_items_def del: sortk.simps set_is_JObj)
qed

lemma candidate_provenance_ok:
  assumes "wf_json ids" "no_float ids" "prov = candidate_provenance ids n (image_record d) s b dm"
    and "rbind (read t ''build-provenance.json'' data_limit) decode = Inr (sortk prov)"
    and "rbind (read t ''sbom.json'' data_limit) decode = Inr (sortk (make_document h rs time))" "rs \<noteq> []"
    and "index c ''image'' = Inr (sortk (image_record d))" "index2 c ''files'' ''sbom.json'' = Inr (JStr s)"
    and "index2 c ''files'' ''bridge-manifest.json'' = Inr (JStr b)" "index2 c ''files'' ''daemon-manifest.json'' = Inr (JStr dm)"
  shows "provenance_check t ids n c = Inr ()"
proof -
  note w = make_document_plain [of h rs time]
  have g: "get (sortk (make_document h rs time)) k = Inr (sortk x)" if "index (make_document h rs time) k = Inr x" for k x
    using sortk_index [OF w(2) that] by (auto simp: index_eq_Inr)
  have sb: "get_is (sortk (make_document h rs time)) ''spdxVersion'' (JStr ''SPDX-2.3'') = Inr True"
    using g [of "''spdxVersion''" "JStr ''SPDX-2.3''"] by (simp add: get_is_def make_document_def Let_def del: sortk.simps(6,7))
  obtain ps where ps: "index (make_document h rs time) ''packages'' = Inr (JList ps)" "ps \<noteq> []"
    using assms(6) by (simp add: make_document_def Let_def)
  have pk: "rbind (get (sortk (make_document h rs time)) ''packages'') (\<lambda>p. Inr (truthy p)) = Inr True"
    using g [OF ps(1)] ps(2) by simp
  have nf: "no_float prov" using assms(2) by (simp add: assms(3) candidate_provenance_def image_record_def)
  have "pyeq (sortk prov) prov" by (rule pyeq_sortk_plain [OF nf])
  moreover have "pyeq prov (candidate_provenance ids n (sortk (image_record d)) s b dm)"
    using assms(2) by (simp add: assms(3) candidate_provenance_def pyeq_def norm_sortk image_record_def no_float_has_nan)
  ultimately have "pyeq (sortk prov) (candidate_provenance ids n (sortk (image_record d)) s b dm)" by (rule pyeq_trans)
  then show ?thesis unfolding provenance_check_def assms(4,5,7-10) rbind_Inr
    by (simp add: sb pk all_of.simps candidate_provenance_def)
qed

lemma collected_candidate:
  assumes "candidate_approval h ctl head = Inr ids" "candidate_collect h created committed env ctl im ids = Inr data"
    and "environ_int env ''GITHUB_RUN_ID'' = Inr n" "list_all (fit_file h) data" "manifests_check (map_of data) ids = Inr ()"
  shows "\<exists>c d. validate_candidate h ctl data head n = Inr c \<and> index2 c ''image'' ''manifestDigest'' = Inr (JStr d) \<and>
     (\<exists>archive. im_archive im = Inr archive \<and> image_identity h archive = Inr (image_record d)) \<and>
     manifest_installed h im data ''bridge'' \<and> manifest_installed h im data ''daemon''"
proof -
  obtain bm dm sbom archive k p y rpms time d n' hashes prov where c:
    "manifest_installed h im data ''bridge''" "manifest_installed h im data ''daemon''"
    "im_rpms im = Inr rpms" "spdx_main h rpms time = Inr sbom" "im_archive im = Inr archive" "image_identity h archive = Inr (image_record d)"
    "environ_int env ''GITHUB_RUN_ID'' = Inr n'"
    "ctl ''cosign.pub'' = Some (RegFile k)" "ctl ''system_files/usr/share/bazzite-tower/containers/policy.json'' = Some (RegFile p)"
    "ctl ''system_files/usr/share/bazzite-tower/containers/registries.d/bazzite-tower.yaml'' = Some (RegFile y)"
    "prov = candidate_provenance ids n' (image_record d) (sha256 h sbom) (sha256 h bm) (sha256 h dm)"
    "hashes = JObj [(''bridge-manifest.json'', JStr (sha256 h bm)), (''daemon-manifest.json'', JStr (sha256 h dm)), (''sbom.json'', JStr (sha256 h sbom)),
       (''image.oci.tar'', JStr (sha256 h archive)), (''cosign.pub'', JStr (sha256 h k)), (''policy.json'', JStr (sha256 h p)),
       (''bazzite-tower.yaml'', JStr (sha256 h y)), (''build-provenance.json'', JStr (sha256 h (canonical h prov)))]"
    and data: "data = [(''bridge-manifest.json'', RegFile bm), (''daemon-manifest.json'', RegFile dm), (''sbom.json'', RegFile sbom),
       (''image.oci.tar'', RegFile archive), (''cosign.pub'', RegFile k), (''policy.json'', RegFile p), (''bazzite-tower.yaml'', RegFile y),
       (''build-provenance.json'', RegFile (canonical h prov)),
       (''candidate.json'', RegFile (canonical h (candidate_record ids n' (image_record d) hashes)))]"
    using assms(2) by (rule candidate_collect_Inr)
  have n: "n' = n" using c(7) assms(3) by simp
  have i: "wf_json ids" "no_float ids"
    using candidate_approval_wf [OF assms(1)] identity_plain approval_basis_def candidate_approval_basis [OF assms(1)] by blast+
  define fs where "fs = [(''bridge-manifest.json'', JStr (sha256 h bm)), (''daemon-manifest.json'', JStr (sha256 h dm)), (''sbom.json'', JStr (sha256 h sbom)),
       (''image.oci.tar'', JStr (sha256 h archive)), (''cosign.pub'', JStr (sha256 h k)), (''policy.json'', JStr (sha256 h p)),
       (''bazzite-tower.yaml'', JStr (sha256 h y)), (''build-provenance.json'', JStr (sha256 h (canonical h prov)))]"
  define c where "c = candidate_record ids n (image_record d) (JObj fs)"
  have f: "wf_json (JObj fs)" "no_float (JObj fs)" by (simp_all add: fs_def)
  note cs = candidate_record_sorted [OF i c_def f]
  have lim: "length (canonical h prov) \<le> data_limit" "length (canonical h c) \<le> data_limit" "length sbom \<le> 16777216"
    using assms(4) unfolding data c(12) n fs_def [symmetric] c_def [symmetric] by (simp_all add: fit_file_def entry_limit_def data_limit_def)
  have m: "map_of data ''candidate.json'' = Some (RegFile (canonical h c))" "map_of data ''build-provenance.json'' = Some (RegFile (canonical h prov))"
      "map_of data ''sbom.json'' = Some (RegFile sbom)" "map_of data ''image.oci.tar'' = Some (RegFile archive)"
    by (simp_all add: data c(12) n c_def fs_def)
  have r: "rbind (read (map_of data) ''candidate.json'' data_limit) decode = Inr (sortk c)"
    by (rule read_canonical [of "map_of data", OF m(1) cs(1,2) lim(2)])
  have np: "no_float prov" "wf_json prov" using i by (simp_all add: c(11) candidate_provenance_def image_record_def)
  have inv: "inventory h data = Inr ()"
  proof -
    have "{''bridge-manifest.json'', ''daemon-manifest.json'', ''sbom.json'', ''image.oci.tar'', ''cosign.pub'', ''policy.json'', ''bazzite-tower.yaml'',
        ''build-provenance.json'', ''candidate.json''} = set FILES" by code_simp
    then have "set (map fst data) = set FILES" by (simp add: data)
    moreover have "\<exists>b. snd x = RegFile b \<and> length b \<le> entry_limit (fst x)" if "x \<in> set data" for x
    proof -
      have "fit_file h x" using assms(4) that by (simp add: list_all_iff)
      then show ?thesis by (cases "snd x") (simp_all add: fit_file_def)
    qed
    ultimately show ?thesis by (force simp: inventory_eq_Inr)
  qed
  have meta: "candidate_metadata h (map_of data) ids n (sortk c) = Inr ()"
  proof (rule candidate_metadata_ok [where t = "map_of data" and archive = archive, OF i c_def f(1) m(4) c(6)])
    have "{''bridge-manifest.json'', ''daemon-manifest.json'', ''sbom.json'', ''image.oci.tar'', ''cosign.pub'', ''policy.json'', ''bazzite-tower.yaml'',
        ''build-provenance.json''} = set candidate_files" by code_simp
    then show "set (map fst fs) = set candidate_files" by (simp add: fs_def)
    show "\<forall>x\<in>set fs. \<exists>s. snd x = JStr s" by (simp add: fs_def)
    show "\<forall>x\<in>set fs. file_hash_check h (map_of data) x = Inr ()"
      using assms(4) by (simp add: fs_def file_hash_check_Inr file_sha_def data fit_file_def)
  qed
  have pol: "policy_check h ctl (map_of data) = Inr ()"
    using c(8-10) by (simp add: policy_check_Inr policy_sources_def file_sha_def data)
  have prov: "provenance_check (map_of data) ids n (sortk c) = Inr ()"
  proof -
    obtain rs where rs: "parse_inventory rpms = Inr rs" "decode sbom = Inr (sortk (make_document h rs time))"
      using spdx_file_value [OF c(4) lim(3)] by blast
    have "sort x = [] \<longleftrightarrow> x = []" for x :: "rpm_record list" by (metis length_0_conv length_sort)
    then have ne: "rs \<noteq> []" using rs(1) by (auto simp: parse_inventory_def rbind_eq_Inr require_eq_Inr split: option.splits)
    have sb: "rbind (read (map_of data) ''sbom.json'' data_limit) decode = Inr (sortk (make_document h rs time))"
      using lim(3) rs(2) m(3) by (simp add: read_def data_limit_def)
    have h: "index2 (sortk c) ''files'' name = Inr (JStr x)" if "map_of fs name = Some (JStr x)" for name x
      using cs(5) sortk_index [OF f(1), of name "JStr x"] that by (simp add: index2_def)
    show ?thesis
      by (rule candidate_provenance_ok [where t = "map_of data", OF i c(11) [unfolded n] read_canonical [of "map_of data", OF m(2) np lim(1)] sb ne cs(4) h h h]) (simp_all add: fs_def)
  qed
  have "validate_candidate h ctl data head n = Inr (sortk c)"
    unfolding validate_candidate_Inr using assms(1,5) inv r meta pol prov by blast
  moreover have "index2 (sortk c) ''image'' ''manifestDigest'' = Inr (JStr d)"
    using cs(4) sortk_index [of "image_record d" "''manifestDigest''" "JStr d"] by (simp add: index2_def image_record_def del: sortk.simps(6,7))
  ultimately show ?thesis using c(1,2,5,6) by blast
qed

section \<open>A sample image\<close>

definition cd_bridge :: json where
  "cd_bridge = JObj
     [(''binary'', JObj [(''path'', JStr ''/usr/bin/snitchwatch-bridge-cli''), (''sha256'', JStr (toy_sha ''bridge''))]),
      (''profile'', JStr ''system''),
      (''source'', JObj [(''commit'', JStr h40), (''submoduleCommit'', JStr h40), (''tree'', JStr h40)])]"

definition cd_daemon :: json where
  "cd_daemon = JObj
     [(''binary'', JObj [(''path'', JStr ''/usr/bin/opensnitchd''), (''sha256'', JStr (toy_sha ''daemon''))]),
      (''profile'', JStr ''system''), (''source'', JObj [(''commit'', JStr h40)])]"

definition cd_sbom :: string where
  "cd_sbom = (case spdx_main toy_host (toy_table toy_rpms) ''2026-01-01T00:00:00Z'' of Inr x \<Rightarrow> x | Inl _ \<Rightarrow> [])"

definition cd_pod :: pod where
  "cd_pod = \<lparr>im_create = Inr (), im_remove = Inr (),
     im_copy = (\<lambda>p. case map_of [(''/usr/share/snitchwatch/system-bridge-manifest.json'', canonical toy_host0 cd_bridge),
         (''/usr/share/snitchwatch/system-daemon-manifest.json'', canonical toy_host0 cd_daemon),
         (''/usr/bin/snitchwatch-bridge-cli'', ''bridge''), (''/usr/bin/opensnitchd'', ''daemon'')] p of
           None \<Rightarrow> Inl CalledProcessError | Some b \<Rightarrow> Inr (RegFile b)),
     im_rpms = Inr (toy_table toy_rpms), im_archive = Inr ''tar'', im_digest = Inr []\<rparr>"

lemma cd_lengths: "length (canonical toy_host0 cd_bridge) = 323" "length (canonical toy_host0 cd_daemon) = 201"
  by code_simp+

lemma cd_docs: "doc cd_bridge" "doc cd_daemon"
  subgoal by (rule docI [OF _ cd_lengths(1)]; code_simp)
  subgoal by (rule docI [OF _ cd_lengths(2)]; code_simp)
  done

lemma cd_sbom_length: "length cd_sbom = 1429"
  by code_simp

definition cd_prov :: json where
  "cd_prov = candidate_provenance toy_ids 7 (image_record toy_digest) (sha_len 1429) (sha_len 323) (sha_len 201)"

lemma cd_prov_length: "length (canonical toy_host0 cd_prov) = 1261"
  by code_simp

definition cd_files :: json where
  "cd_files = JObj [(''bridge-manifest.json'', JStr (sha_len 323)), (''daemon-manifest.json'', JStr (sha_len 201)),
     (''sbom.json'', JStr (sha_len 1429)), (''image.oci.tar'', JStr (sha_len 3)), (''cosign.pub'', JStr (sha_len 3)), (''policy.json'', JStr (sha_len 2)),
     (''bazzite-tower.yaml'', JStr (sha_len 7)), (''build-provenance.json'', JStr (sha_len 1261))]"

definition cd_record :: json where
  "cd_record = candidate_record toy_ids 7 (image_record toy_digest) cd_files"

lemma cd_record_length: "length (canonical toy_host0 cd_record) = 1690"
  by code_simp

definition cd_data :: dir where
  "cd_data = [(''bridge-manifest.json'', RegFile (canonical toy_host0 cd_bridge)), (''daemon-manifest.json'', RegFile (canonical toy_host0 cd_daemon)),
     (''sbom.json'', RegFile cd_sbom), (''image.oci.tar'', RegFile ''tar''), (''cosign.pub'', RegFile ''key''), (''policy.json'', RegFile ''{}''),
     (''bazzite-tower.yaml'', RegFile ''docker:''), (''build-provenance.json'', RegFile (canonical toy_host0 cd_prov)),
     (''candidate.json'', RegFile (canonical toy_host0 cd_record))]"

lemma toy_sha_length: "toy_sha b = sha_len (length b)"
  by (simp add: toy_sha_def sha_len_def)

lemma small_shas: "sha_len (Suc (Suc 0)) = sha_len 2" "sha_len (Suc (Suc (Suc 0))) = sha_len 3"
  "sha_len (Suc (Suc (Suc (Suc (Suc (Suc (Suc 0))))))) = sha_len 7"
  by (simp_all add: eval_nat_numeral)

lemmas cd_shas = toy_sha_length small_shas cd_lengths cd_sbom_length cd_prov_length cd_record_length

lemma cd_copies:
  "im_copy cd_pod ''/usr/share/snitchwatch/system-bridge-manifest.json'' = Inr (RegFile (canonical toy_host0 cd_bridge))"
  "im_copy cd_pod ''/usr/share/snitchwatch/system-daemon-manifest.json'' = Inr (RegFile (canonical toy_host0 cd_daemon))"
  "im_copy cd_pod ''/usr/bin/snitchwatch-bridge-cli'' = Inr (RegFile ''bridge'')" "im_copy cd_pod ''/usr/bin/opensnitchd'' = Inr (RegFile ''daemon'')"
  "im_rpms cd_pod = Inr (toy_table toy_rpms)" "im_archive cd_pod = Inr ''tar''" "im_create cd_pod = Inr ()" "im_remove cd_pod = Inr ()"
  by (simp_all add: cd_pod_def)

lemma cd_manifest: "candidate_manifest toy_host cd_pod ''bridge'' = Inr (''bridge-manifest.json'', RegFile (canonical toy_host0 cd_bridge))"
  "candidate_manifest toy_host cd_pod ''daemon'' = Inr (''daemon-manifest.json'', RegFile (canonical toy_host0 cd_daemon))"
proof -
  have "installed_binary toy_host cd_pod cd_bridge = Inr ()" "installed_binary toy_host cd_pod cd_daemon = Inr ()"
    by (simp_all add: installed_binary_def cd_bridge_def cd_daemon_def index2_def json_str_def copied_def cd_copies file_sha_def demand_def)
  then show "candidate_manifest toy_host cd_pod ''bridge'' = Inr (''bridge-manifest.json'', RegFile (canonical toy_host0 cd_bridge))"
    "candidate_manifest toy_host cd_pod ''daemon'' = Inr (''daemon-manifest.json'', RegFile (canonical toy_host0 cd_daemon))"
    using cd_docs by (simp_all add: candidate_manifest_def cd_copies manifest_name_def read_def cd_lengths data_limit_def doc_decode)
qed

lemma cd_collect: "candidate_collect toy_host (\<lambda>_. Inr ''2026-01-01T00:00:00Z'') (Inr []) toy_env toy_ctl cd_pod toy_ids = Inr cd_data"
proof -
  have s: "spdx_main toy_host (toy_table toy_rpms) ''2026-01-01T00:00:00Z'' = Inr cd_sbom"
    by (simp add: cd_sbom_def spdx_main_def toy_rpms_parse)
  have "py_int ''7'' = Some 7" by code_simp
  then have e: "environ_int toy_env ''GITHUB_RUN_ID'' = Inr 7" by (simp add: environ_int_def environ_def toy_env_def)
  have c: "rmap (candidate_copy toy_ctl) policy_sources = Inr [(''cosign.pub'', RegFile ''key''), (''policy.json'', RegFile ''{}''), (''bazzite-tower.yaml'', RegFile ''docker:'')]"
    by (simp add: policy_sources_def candidate_copy_def file_bytes_def toy_ctl_def)
  show ?thesis
    by (simp add: candidate_collect_def Let_def cd_manifest cd_copies s e c toy_image_identity file_sha_def dir_hashes_def cd_shas
        cd_data_def cd_record_def cd_files_def cd_prov_def [symmetric])
qed

lemma cd_fit: "list_all (fit_file toy_host) cd_data"
proof -
  have "list_all is_hex (sha_len n) \<and> length (sha_len n) = 64" if "n \<in> {323, 201, 1429, 3, 2, 7, 1261, 1690}" for n
  proof -
    have "list_all (\<lambda>n. list_all is_hex (sha_len n) \<and> length (sha_len n) = 64) [323, 201, 1429, 3, 2, 7, 1261, 1690]" by code_simp
    then show ?thesis using that by (auto simp: list_all_iff)
  qed
  then show ?thesis by (simp add: cd_data_def fit_file_def entry_limit_def cd_shas)
qed

lemma cd_manifests: "manifests_check (map_of cd_data) toy_ids = Inr ()"
proof -
  have m: "rbind (read (map_of cd_data) ''bridge-manifest.json'' data_limit) decode = Inr cd_bridge"
      "rbind (read (map_of cd_data) ''daemon-manifest.json'' data_limit) decode = Inr cd_daemon"
    using cd_docs by (simp_all add: doc_read doc_decode cd_data_def)
  have "hex_value (JStr (toy_sha ''bridge'')) 64 = Inr (toy_sha ''bridge'')" "hex_value (JStr (toy_sha ''daemon'')) 64 = Inr (toy_sha ''daemon'')"
    by code_simp+
  then show ?thesis
    unfolding manifests_check_def m
    by (simp add: cd_bridge_def cd_daemon_def toy_ids_def index2_def index_is_def all_of.simps pyeq_def)
qed

section \<open>Properties\<close>

text \<open>
  C31: what the builder collects the candidate job accepts. When the head is approved, the files are within their
  limits and the two manifests of the image are those of the reviewed sources, the data that \<open>ci/r13-candidate-data.py\<close>
  assembles passes \<open>validate_candidate\<close> for this head and run; the digest that is then published is that of the
  archive of the built image, and both manifests are the image's own and have the hashes of its installed binaries.
\<close>
theorem candidate_accepted:
  assumes "candidate_approval h ctl head = Inr ids" "candidate_collect h created committed env ctl im ids = Inr data"
    and "environ_int env ''GITHUB_RUN_ID'' = Inr n" "list_all (fit_file h) data" "manifests_check (map_of data) ids = Inr ()"
  shows "\<exists>c d. validate_candidate h ctl data head n = Inr c \<and> index2 c ''image'' ''manifestDigest'' = Inr (JStr d) \<and>
     (\<exists>archive. im_archive im = Inr archive \<and> image_identity h archive = Inr (image_record d)) \<and>
     manifest_installed h im data ''bridge'' \<and> manifest_installed h im data ''daemon''"
  using assms by (rule collected_candidate)

theorem candidate_accepted_witness:
  "\<exists>c d. validate_candidate toy_host toy_ctl cd_data h40 7 = Inr c \<and> index2 c ''image'' ''manifestDigest'' = Inr (JStr d) \<and>
     (\<exists>archive. im_archive cd_pod = Inr archive \<and> image_identity toy_host archive = Inr (image_record d)) \<and>
     manifest_installed toy_host cd_pod cd_data ''bridge'' \<and> manifest_installed toy_host cd_pod cd_data ''daemon''"
proof (rule candidate_accepted [OF toy_approval cd_collect _ cd_fit cd_manifests])
  have "py_int ''7'' = Some 7" by code_simp
  then show "environ_int toy_env ''GITHUB_RUN_ID'' = Inr 7" by (simp add: environ_int_def environ_def toy_env_def)
qed

end
