(* ===== verification/Repin.thy ===== *)
theory Repin
  imports Files
begin

text \<open>
  \<^verbatim>\<open>ci/repin-snitchwatch.py\<close>: moving the pin of the snitchwatch source. \<open>pins\<close> rewrites the pins file, the
  digest of it that the verifier carries, the test fixtures and the policy's \<open>nativeSource\<close>; \<open>policy\<close> then moves the
  accepted source of the policy to a commit that holds both. Edits are replacements in the text.

  Git is a program outside the repository: its answers are arguments, as are SHA-256, the spelling of a float and
  what writing a file does. Argument parsing and the notes printed while planning are not modelled.
\<close>

section \<open>Constants\<close>

definition RP_PINS :: string where "RP_PINS = ''build_files/firewall/snitchwatch-system-pins.json''"
definition RP_VERIFY :: string where "RP_VERIFY = ''build_files/firewall/snitchwatch-system-verify.py''"
definition RP_POLICY :: string where "RP_POLICY = ''.github/base-refresh-policy.json''"
definition RP_FIXTURES :: string where "RP_FIXTURES = ''tests/test-snitchwatch-image-build-fixtures''"
definition RP_MANIFEST :: string where "RP_MANIFEST = ''packaging/flatpak/org.snitchwatch.Snitchwatch.system.yml''"
definition GITLINK :: string where "GITLINK = ''vendor/opensnitch''"

definition SCANNER_CRATES :: "string list" where
  "SCANNER_CRATES = [''crates/scanner-privileged'', ''crates/scanner-broker'']"

section \<open>Git\<close>

text \<open>\<open>git args\<close>: the error text of a failed call or the bytes of its output.\<close>

type_synonym git = "string list \<Rightarrow> string + string"

definition git_raw :: "git \<Rightarrow> string list \<Rightarrow> string result" where
  "git_raw g args = (case g args of Inl err \<Rightarrow> Inl (Refusal (''git '' @ join '' '' args @ '' failed: '' @ strip err)) | Inr out \<Rightarrow> Inr out)"

definition git_text :: "git \<Rightarrow> string list \<Rightarrow> string result" where
  "git_text g args = rbind (git_raw g args) (\<lambda>out. case utf8_decode out of
       None \<Rightarrow> Inl (ValueError ''invalid UTF-8'') | Some s \<Rightarrow> Inr (strip s))"

section \<open>Searching a text\<close>

text \<open>\<open>cut trm s\<close> is what stands before and after the first \<open>trm\<close>: the match of \<open>.*?\<close> (or of a class without \<open>trm\<close>) up to it.\<close>

fun cut :: "string \<Rightarrow> string \<Rightarrow> (string \<times> string) option" where
  "cut trm [] = (if trm = [] then Some ([], []) else None)"
| "cut trm (c # s) = (if startswith (c # s) trm then Some ([], drop (length trm) (c # s))
     else map_option (\<lambda>(a, b). (c # a, b)) (cut trm s))"

lemma cut_Some: "cut trm s = Some (a, b) \<Longrightarrow> s = a @ trm @ b"
proof (induction s arbitrary: a b)
  case (Cons c s)
  show ?case
  proof (cases "startswith (c # s) trm")
    case True
    then have "a = []" "b = drop (length trm) (c # s)" using Cons.prems by (simp_all add: cut.simps del: startswith.simps)
    moreover have "take (length trm) (c # s) = trm" using True by (simp only: startswith_iff_take)
    ultimately show ?thesis by (metis append_Nil append_take_drop_id)
  next
    case False
    then obtain a' where "cut trm s = Some (a', b)" "a = c # a'" using Cons.prems by (auto simp del: startswith.simps)
    then show ?thesis using Cons.IH by simp
  qed
qed (simp split: if_splits)

lemma cut_shorter: "cut trm s = Some (a, b) \<Longrightarrow> length b \<le> length s"
  using cut_Some by fastforce

text \<open>A match of \<open>(^pre).*?(trm)\<close> at the front: what is between the two and what follows. \<open>bol\<close> says whether a line begins here.\<close>

definition mark :: "string \<Rightarrow> string \<Rightarrow> bool \<Rightarrow> string \<Rightarrow> (string \<times> string) option" where
  "mark pre trm bol s = (if bol \<and> pre \<noteq> [] \<and> startswith s pre then cut trm (drop (length pre) s) else None)"

lemma mark_Some: "mark pre trm bol s = Some (v, b) \<Longrightarrow> bol \<and> pre \<noteq> [] \<and> s = pre @ v @ trm @ b"
  by (auto simp: mark_def startswith_iff split: if_splits dest: cut_Some)

lemma mark_shorter: "mark pre trm bol (c # s) = Some (v, b) \<Longrightarrow> length b \<le> length s"
  by (drule mark_Some) (auto simp: Cons_eq_append_conv)

text \<open>\<open>re.subn\<close> of that pattern: the text with \<open>repl\<close> between the two at every match, and the number of matches.\<close>

function sub_scan :: "string \<Rightarrow> string \<Rightarrow> string \<Rightarrow> bool \<Rightarrow> string \<Rightarrow> string \<times> nat" where
  "sub_scan pre trm repl bol [] = ([], 0)"
| "sub_scan pre trm repl bol (c # s) = (case mark pre trm bol (c # s) of
        Some (old, rest) \<Rightarrow> (case sub_scan pre trm repl (trm \<noteq> [] \<and> last trm = newline) rest of (t, n) \<Rightarrow> (pre @ repl @ trm @ t, Suc n))
      | None \<Rightarrow> (case sub_scan pre trm repl (c = newline) s of (t, n) \<Rightarrow> (c # t, n)))"
  by pat_completeness auto

termination
  by (relation "measure (\<lambda>(pre, trm, repl, bol, s). length s)") (auto dest!: mark_shorter)

text \<open>\<open>re.search\<close> of it: the group between the two.\<close>

fun find_between :: "string \<Rightarrow> string \<Rightarrow> bool \<Rightarrow> string \<Rightarrow> string option" where
  "find_between pre trm bol [] = None"
| "find_between pre trm bol (c # s) = (case mark pre trm bol (c # s) of
        Some (v, _) \<Rightarrow> Some v | None \<Rightarrow> find_between pre trm (c = newline) s)"

definition sub_once :: "string \<Rightarrow> string \<Rightarrow> string \<Rightarrow> string \<Rightarrow> string \<Rightarrow> string result" where
  "sub_once txt pre trm repl what = (case sub_scan pre trm repl True txt of (new, n) \<Rightarrow>
     require (n = 1) (Refusal (''expected exactly one '' @ what @ '', found '' @ nat_str n)) (Inr new))"

definition quoted_key :: "string \<Rightarrow> string \<Rightarrow> string" where
  "quoted_key ind key = ind @ [quote] @ key @ [quote] @ '': ''"

definition set_key :: "string \<Rightarrow> string \<Rightarrow> string \<Rightarrow> string \<Rightarrow> string result" where
  "set_key ind txt key value = sub_once txt (quoted_key ind key @ [quote]) [quote] value key"

definition set_keys :: "string \<Rightarrow> (string \<times> string) list \<Rightarrow> string \<Rightarrow> string result" where
  "set_keys ind kvs txt = rfold (\<lambda>(key, value) t. set_key ind t key value) kvs txt"

section \<open>The finish arguments\<close>

text \<open>The first \<open>pre\<close> at the beginning of a line.\<close>

fun find_line :: "string \<Rightarrow> bool \<Rightarrow> string \<Rightarrow> (string \<times> string) option" where
  "find_line pre bol [] = None"
| "find_line pre bol (c # s) = (if bol \<and> startswith (c # s) pre then Some ([], drop (length pre) (c # s))
     else map_option (\<lambda>(a, b). (c # a, b)) (find_line pre (c = newline) s))"

text \<open>\<open>re.findall\<close> of a pattern that begins with \<open>^\<close>; \<open>m\<close> is the group and the length of a match, \<open>k\<close> the characters left of the last one.\<close>

fun find_items :: "(string \<Rightarrow> (string \<times> nat) option) \<Rightarrow> bool \<Rightarrow> nat \<Rightarrow> string \<Rightarrow> string list" where
  "find_items m bol k [] = []"
| "find_items m bol (Suc k) (c # s) = find_items m (c = newline) k s"
| "find_items m bol 0 (c # s) = (case (if bol then m (c # s) else None) of
       None \<Rightarrow> find_items m (c = newline) 0 s
     | Some (v, n) \<Rightarrow> v # find_items m (c = newline) (n - 1) s)"

text \<open>\<open>^\s*- .*$\<close>\<close>

definition item_line :: "string \<Rightarrow> (string \<times> nat) option" where
  "item_line s = (let ws = takeWhile is_space s; r = dropWhile is_space s; l = ws @ takeWhile (\<lambda>c. c \<noteq> newline) r in
     if startswith r ''- '' then Some (l, length l) else None)"

text \<open>\<open>\s+- --\S+\s*\<close> of the whole line\<close>

definition plain_item :: "string \<Rightarrow> bool" where
  "plain_item l = (let r = dropWhile is_space l; t = drop 4 r in
     takeWhile is_space l \<noteq> [] \<and> startswith r ''- --'' \<and> takeWhile (\<lambda>c. \<not> is_space c) t \<noteq> [] \<and>
     list_all is_space (dropWhile (\<lambda>c. \<not> is_space c) t))"

text \<open>
  \<open>^\s+- (--\S+)\s*$\<close>: the white space after the argument is taken as far as a line ends there, that is to the end of
  the text or to before the last line feed in it.
\<close>

definition trailing :: "string \<Rightarrow> nat option" where
  "trailing s = (let ws = takeWhile is_space s in
     if dropWhile is_space s = [] then Some (length ws)
     else if newline \<in> set ws then Some (length ws - Suc (length (takeWhile (\<lambda>c. c \<noteq> newline) (rev ws)))) else None)"

definition item_arg :: "string \<Rightarrow> (string \<times> nat) option" where
  "item_arg s = (let ws = takeWhile is_space s; r = dropWhile is_space s; t = drop 4 r; tok = takeWhile (\<lambda>c. \<not> is_space c) t in
     if ws \<noteq> [] \<and> startswith r ''- --'' \<and> tok \<noteq> []
     then map_option (\<lambda>k. (''--'' @ tok, length ws + 4 + length tok + k)) (trailing (dropWhile (\<lambda>c. \<not> is_space c) t)) else None)"

definition finish_block :: "string \<Rightarrow> string option" where
  "finish_block manifest = (case find_line (''finish-args:'' @ [newline]) True manifest of
       None \<Rightarrow> None
     | Some (_, rest) \<Rightarrow> map_option fst (find_line ''modules:'' True rest))"

definition finish_args :: "string \<Rightarrow> string list result" where
  "finish_args manifest = (case finish_block manifest of
       None \<Rightarrow> Inl (Refusal ''manifest has no finish-args block'')
     | Some block \<Rightarrow>
         rbind (rall (\<lambda>line. require (plain_item line) (Refusal (''unsupported finish-args item: '' @ strip line)) (Inr ()))
           (find_items item_line True 0 block)) (\<lambda>_.
         Inr (find_items item_arg True 0 block)))"

definition comma_lines :: "string list \<Rightarrow> string" where
  "comma_lines ls = join ('','' @ [newline]) ls"

definition set_finish_args :: "string \<Rightarrow> string list \<Rightarrow> string result" where
  "set_finish_args txt args = sub_once txt (''  '' @ [quote] @ ''flatpakFinishArgs'' @ [quote] @ '': ['' @ [newline]) ([newline] @ ''  ]'')
     (comma_lines (map (\<lambda>a. ''    '' @ dump_str a) args)) ''flatpakFinishArgs''"

definition set_source_files :: "string \<Rightarrow> (string \<times> string) list \<Rightarrow> string result" where
  "set_source_files txt hashes = sub_once txt (''  '' @ [quote] @ ''sourceFiles'' @ [quote] @ '': {'' @ [newline]) ([newline] @ ''  }'')
     (comma_lines (map (\<lambda>(p, h). ''    '' @ dump_str p @ '': '' @ dump_str h) (sort_key fst hashes))) ''sourceFiles''"

definition set_native :: "string \<Rightarrow> string \<Rightarrow> string \<Rightarrow> string \<Rightarrow> string result" where
  "set_native txt commit tr sub =
     (let pre = [quote] @ ''nativeSource'' @ [quote] @ '': {'' @ [newline]; trm = [newline] @ ''  }'' in
      case cut pre txt of
        None \<Rightarrow> Inl (Refusal ''policy has no nativeSource block'')
      | Some (a, rest) \<Rightarrow> (case cut trm rest of
            None \<Rightarrow> Inl (Refusal ''policy has no nativeSource block'')
          | Some (inner, b) \<Rightarrow> rbind (set_keys ''    '' [(''commit'', commit), (''tree'', tr), (''submoduleCommit'', sub)] inner) (\<lambda>new.
              Inr (a @ pre @ new @ trm @ b))))"

section \<open>The plan of a new pin\<close>

text \<open>A plan: the new bytes of each file.\<close>

type_synonym plan = "(string \<times> string) list"

definition in_scanner :: "string \<Rightarrow> bool" where
  "in_scanner p \<longleftrightarrow> list_ex (\<lambda>c. startswith p (c @ ''/'')) SCANNER_CRATES"

definition part_name :: "string \<Rightarrow> string" where
  "part_name p = last (split_on CHR ''/'' p)"

definition resolve_commit :: "git \<Rightarrow> string \<Rightarrow> string result" where
  "resolve_commit g commit = git_text g [''rev-parse'', ''--verify'', commit @ ''^{commit}'']"

definition gitlink_commit :: "git \<Rightarrow> string \<Rightarrow> string result" where
  "gitlink_commit g commit = rbind (git_text g [''ls-tree'', commit, GITLINK]) (\<lambda>t. case words t of
       a # b # c # _ \<Rightarrow> require (a = ''160000'') (Refusal (GITLINK @ '' is not a gitlink at '' @ commit)) (Inr c)
     | _ \<Rightarrow> Inl (Refusal (GITLINK @ '' is not a gitlink at '' @ commit)))"

definition json_text :: "string \<Rightarrow> json result" where
  "json_text s = (case loads s of None \<Rightarrow> Inl (ValueError ''invalid JSON'') | Some v \<Rightarrow> Inr v)"

definition pinned_names :: "json \<Rightarrow> string list result" where
  "pinned_names pins = rbind (rbind (index pins ''sourceFiles'') py_iter) (rmap (\<lambda>v. case v of JStr s \<Rightarrow> Inr s | _ \<Rightarrow> Inl AttributeError))"

text \<open>The files to pin: those pinned before outside the scanner crates, and every tracked file of the crates.\<close>

definition pinned_paths :: "string list \<Rightarrow> string list \<Rightarrow> string list" where
  "pinned_paths before scanner = sort (remdups (filter (\<lambda>p. \<not> in_scanner p) before @ scanner))"

definition fixture_files :: "string list \<Rightarrow> plan \<Rightarrow> plan result" where
  "fixture_files fixtures blobs =
     rbind (rmap (\<lambda>(path, data). let name = part_name path in
         if name \<notin> set fixtures then Inr []
         else require (count_list (map (part_name \<circ> fst) blobs) name \<le> 1) (Refusal (''duplicate basename '' @ name @ '' among sourceFiles; cannot match fixture''))
           (Inr [(RP_FIXTURES @ ''/'' @ name, data)])) blobs) (\<lambda>fs. Inr (concat fs))"

definition pins_text :: "(string \<Rightarrow> string) \<Rightarrow> string \<Rightarrow> string \<Rightarrow> string \<Rightarrow> string \<Rightarrow> plan \<Rightarrow> string result" where
  "pins_text sha txt commit tr sub blobs =
     rbind (set_keys ''  '' [(''sourceCommit'', commit), (''sourceTree'', tr), (''submoduleCommit'', sub)] txt) (\<lambda>txt.
     rbind (set_source_files txt (map (\<lambda>(p, d). (p, sha d)) blobs)) (\<lambda>txt.
     case map_of blobs RP_MANIFEST of
       None \<Rightarrow> Inl (Refusal (RP_MANIFEST @ '' is not in sourceFiles''))
     | Some b \<Rightarrow> rbind (case utf8_decode b of None \<Rightarrow> Inl (ValueError ''invalid UTF-8'') | Some m \<Rightarrow> Inr m) (\<lambda>m.
         rbind (finish_args m) (set_finish_args txt))))"

definition verify_pre :: string where
  "verify_pre = ''EXPECTED_PINS_SHA256 = '' @ [CHR 0x27]"

definition plan_pins :: "(string \<Rightarrow> string) \<Rightarrow> git \<Rightarrow> tree \<Rightarrow> string list result \<Rightarrow> string \<Rightarrow> plan result" where
  "plan_pins sha source tower fixtures commit =
     rbind (resolve_commit source commit) (\<lambda>commit.
     rbind (git_text source [''rev-parse'', commit @ ''^{tree}'']) (\<lambda>tr.
     rbind (gitlink_commit source commit) (\<lambda>sub.
     rbind (read_text tower RP_PINS) (\<lambda>txt.
     rbind (json_text txt) (\<lambda>pins.
     rbind (set_keys ''  '' [(''sourceCommit'', commit), (''sourceTree'', tr), (''submoduleCommit'', sub)] txt) (\<lambda>_.
     rbind (git_text source ([''ls-tree'', ''-r'', ''--name-only'', commit, ''--''] @ SCANNER_CRATES)) (\<lambda>scanner.
     rbind (pinned_names pins) (\<lambda>before.
     rbind (rmap (\<lambda>p. rbind (git_raw source [''show'', commit @ '':'' @ p]) (\<lambda>d. Inr (p, d))) (pinned_paths before (splitlines scanner))) (\<lambda>blobs.
     rbind (pins_text sha txt commit tr sub blobs) (\<lambda>new.
     let new_pins = utf8_encode new in
     rbind (read_text tower RP_VERIFY) (\<lambda>verify.
     rbind (sub_once verify verify_pre [CHR 0x27] (sha new_pins) ''EXPECTED_PINS_SHA256'') (\<lambda>verify.
     rbind fixtures (\<lambda>names.
     rbind (fixture_files names blobs) (\<lambda>fs.
     rbind (index pins ''submoduleCommit'') (\<lambda>_.
     rbind (rbind (read_text tower RP_POLICY) (\<lambda>policy. set_native policy commit tr sub)) (\<lambda>policy.
     Inr ([(RP_PINS, new_pins), (RP_VERIFY, utf8_encode verify)] @ fs @ [(RP_POLICY, utf8_encode policy)])))))))))))))))))"

section \<open>The plan of a new accepted source\<close>

text \<open>\<open>re.search\<close> of \<open>^EXPECTED_PINS_SHA256 = '([^']*)'\<close>.\<close>

definition expected_pins :: "string \<Rightarrow> string option" where
  "expected_pins verify = find_between verify_pre [CHR 0x27] True verify"

text \<open>\<open>datetime.fromtimestamp(t, utc).strftime('%Y-%m-%dT%H:%M:%SZ')\<close>, with the algorithm of \<open>datetime\<close>.\<close>

definition leap :: "int \<Rightarrow> bool" where
  "leap y \<longleftrightarrow> y mod 4 = 0 \<and> (y mod 100 \<noteq> 0 \<or> y mod 400 = 0)"

definition month_days :: "int \<Rightarrow> int list" where
  "month_days y = [31, if leap y then 29 else 28, 31, 30, 31, 30, 31, 31, 30, 31, 30, 31]"

text \<open>\<open>n\<close> is a day, 0 for the first of January of the year 1.\<close>

definition year_of_day :: "int \<Rightarrow> int \<times> int" where
  "year_of_day n =
     (let n400 = n div 146097; n = n mod 146097; n100 = n div 36524; n = n mod 36524; n4 = n div 1461; n = n mod 1461;
          n1 = n div 365; n = n mod 365; year = n400 * 400 + n100 * 100 + n4 * 4 + n1 + 1 in
      if n1 = 4 \<or> n100 = 4 then (year - 1, 365) else (year, n))"

fun month_of_day :: "int \<Rightarrow> int list \<Rightarrow> int \<Rightarrow> int \<times> int" where
  "month_of_day m [] n = (m, n + 1)"
| "month_of_day m (d # ds) n = (if n < d then (m, n + 1) else month_of_day (m + 1) ds (n - d))"

definition two_digits :: "int \<Rightarrow> string" where
  "two_digits i = (if i < 10 then ''0'' else []) @ int_str i"

definition utc_stamp :: "int \<Rightarrow> string result" where
  "utc_stamp t =
     (let n = t div 86400 + 719162; s = t mod 86400 in
      require (0 \<le> n \<and> n < 3652059) (ValueError ''year is out of range'')
        (case year_of_day n of (y, d) \<Rightarrow> case month_of_day 1 (month_days y) d of (m, d) \<Rightarrow>
          Inr (int_str y @ ''-'' @ two_digits m @ ''-'' @ two_digits d @ ''T'' @ two_digits (s div 3600) @ '':'' @ two_digits (s mod 3600 div 60) @
            '':'' @ two_digits (s mod 60) @ ''Z'')))"

text \<open>\<open>ancestor c\<close>: the exit code of \<open>git merge-base --is-ancestor c HEAD\<close> is 0. The result is the plan, the old source and the new one.\<close>

definition plan_policy :: "(string \<Rightarrow> string) \<Rightarrow> git \<Rightarrow> (string \<Rightarrow> bool) \<Rightarrow> tree \<Rightarrow> string \<Rightarrow> (plan \<times> json \<times> string) result" where
  "plan_policy sha g ancestor tower commit =
     rbind (resolve_commit g commit) (\<lambda>commit.
     require (ancestor commit) (Refusal (commit @ '' is not an ancestor of HEAD''))
     (rbind (read_text tower RP_POLICY) (\<lambda>txt.
     rbind (json_text txt) (\<lambda>policy.
     rbind (rbind (git_text g [''show'', commit @ '':'' @ RP_PINS]) json_text) (\<lambda>pins.
     rbind (index pins ''sourceCommit'') (\<lambda>c. rbind (index pins ''sourceTree'') (\<lambda>t. rbind (index pins ''submoduleCommit'') (\<lambda>m.
     rbind (index policy ''nativeSource'') (\<lambda>native.
     require (pyeq (JObj [(''commit'', c), (''tree'', t), (''submoduleCommit'', m)]) native)
       (Refusal (''pins at '' @ take 12 commit @ '' differ from policy nativeSource''))
     (rbind (git_text g [''show'', commit @ '':'' @ RP_VERIFY]) (\<lambda>verify.
     rbind (git_raw g [''show'', commit @ '':'' @ RP_PINS]) (\<lambda>pins_bytes.
     require (expected_pins verify = Some (sha pins_bytes))
       (Refusal (''EXPECTED_PINS_SHA256 at '' @ take 12 commit @ '' does not match the pins file there (half-landed repin?)''))
     (rbind (git_text g [''rev-parse'', commit @ ''^{tree}'']) (\<lambda>tr.
     rbind (git_text g [''log'', ''-1'', ''--format=%ct'', commit]) (\<lambda>ct.
     rbind (case py_int ct of None \<Rightarrow> Inl (ValueError ''invalid literal for int()'') | Some n \<Rightarrow> utc_stamp n) (\<lambda>stamp.
     rbind (set_keys ''  '' [(''sourceCommit'', commit), (''sourceTree'', tr), (''sourceCreated'', stamp)] txt) (\<lambda>txt.
     rbind (index policy ''sourceCommit'') (\<lambda>old.
     Inr ([(RP_POLICY, utf8_encode txt)], old, commit)))))))))))))))))))"

section \<open>Applying a plan\<close>

text \<open>
  \<open>write path\<close> is what writing a new file and renaming it over \<open>path\<close> raises, if it does; the old file is
  then still there. The result is the tree, the lines printed, and how it ended.
\<close>

definition apply_file :: "(string \<Rightarrow> pyexc option) \<Rightarrow> bool \<Rightarrow> string \<times> string \<Rightarrow> tree \<Rightarrow> tree \<times> string list \<times> unit result" where
  "apply_file wr do_write rd tower = (case rd of (rel, data) \<Rightarrow>
     (case file_bytes tower rel of
        Inl e \<Rightarrow> (tower, [], Inl e)
      | Inr old \<Rightarrow>
          if old = data then (tower, [], Inr ())
          else if do_write then (case wr rel of
              Some e \<Rightarrow> (tower, [''wrote  '' @ rel], Inl e)
            | None \<Rightarrow> (tower(rel \<mapsto> RegFile data), [''wrote  '' @ rel], Inr ()))
          else (tower, [''would change  '' @ rel], Inr ())))"

fun apply_plan :: "(string \<Rightarrow> pyexc option) \<Rightarrow> bool \<Rightarrow> plan \<Rightarrow> tree \<Rightarrow> tree \<times> string list \<times> unit result" where
  "apply_plan wr do_write [] tower = (tower, if do_write then [] else [''dry run: nothing modified (use --write)''], Inr ())"
| "apply_plan wr do_write (rd # plan) tower = (case apply_file wr do_write rd tower of (tower1, out, r) \<Rightarrow>
     (case r of
        Inl e \<Rightarrow> (tower1, out, Inl e)
      | Inr _ \<Rightarrow> (case apply_plan wr do_write plan tower1 of (tower2, out2, r2) \<Rightarrow> (tower2, out @ out2, r2))))"

text \<open>The program: the tree, and the exit code or the exception nothing catches.\<close>

datatype repin_command = RepinPins git "string list result" | RepinPolicy git "string \<Rightarrow> bool"

definition repin_plan :: "(string \<Rightarrow> string) \<Rightarrow> repin_command \<Rightarrow> tree \<Rightarrow> string \<Rightarrow> plan result" where
  "repin_plan sha cmd tower commit =
     require (\<not> startswith commit ''-'') (Refusal (''--commit value must not start with '' @ [quote] @ ''-'' @ [quote]))
     (case cmd of RepinPins g fixtures \<Rightarrow> plan_pins sha g tower fixtures commit
      | RepinPolicy g ancestor \<Rightarrow> rbind (plan_policy sha g ancestor tower commit) (\<lambda>(plan, _, _). Inr plan))"

definition repin_exit :: "unit result \<Rightarrow> nat result" where
  "repin_exit r = (case r of Inl (Refusal _) \<Rightarrow> Inr 2 | Inl e \<Rightarrow> Inl e | Inr _ \<Rightarrow> Inr 0)"

definition repin_main :: "(string \<Rightarrow> string) \<Rightarrow> (string \<Rightarrow> pyexc option) \<Rightarrow> repin_command \<Rightarrow> tree \<Rightarrow> string \<Rightarrow> bool \<Rightarrow>
    tree \<times> string list \<times> nat result" where
  "repin_main sha wr cmd tower commit do_write = (case repin_plan sha cmd tower commit of
       Inl e \<Rightarrow> (tower, [], repin_exit (Inl e))
     | Inr plan \<Rightarrow> (case apply_plan wr do_write plan tower of (tower1, out, r) \<Rightarrow> (tower1, out, repin_exit r)))"

end
