(* ===== verification/RepinProofs.thy ===== *)
theory RepinProofs
  imports Repin
begin

text \<open>
  Proofs about \<^verbatim>\<open>ci/repin-snitchwatch.py\<close>: a replacement changes one value and nothing else, a plan of a new
  pin fits together, and applying a plan writes just what it says.
\<close>

section \<open>Replacing in a text\<close>

lemma cut_first: "q \<notin> set v \<Longrightarrow> cut [q] (v @ q # b) = Some (v, b)"
  by (induction v) auto

lemma cut_char: "q \<in> set s \<Longrightarrow> \<exists>a b. cut [q] s = Some (a, b)"
  by (induction s) auto

lemma cut_char_Some: "cut [q] s = Some (a, b) \<Longrightarrow> s = a @ q # b \<and> q \<notin> set a"
  by (induction s arbitrary: a b) (auto split: if_splits)

lemma sub_scan_0: "sub_scan pre trm repl bol s = (new, 0) \<Longrightarrow> new = s"
proof (induction pre trm repl bol s arbitrary: new rule: sub_scan.induct)
  case (2 pre trm repl bol c s)
  have n: "mark pre trm bol (c # s) = None" using "2.prems" by (auto split: option.splits prod.splits)
  then obtain t where t: "sub_scan pre trm repl (c = newline) s = (t, 0)" "new = c # t" using "2.prems" by (auto split: prod.splits)
  show ?case using "2.IH"(1) [OF n t(1)] t(2) by simp
qed simp

text \<open>A mark that is not there is not there in a text with another tail either.\<close>

lemma mark_None_shared:
  assumes "mark pre [q] bol (x @ y @ q # s) = None" "length pre \<le> length x"
  shows "mark pre [q] bol (x @ t) = None"
proof -
  have "\<not> (bol \<and> pre \<noteq> [] \<and> startswith (x @ y @ q # s) pre)"
  proof
    assume "bol \<and> pre \<noteq> [] \<and> startswith (x @ y @ q # s) pre"
    moreover have "q \<in> set (drop (length pre) (x @ y @ q # s))" using assms(2) by simp
    ultimately show False using assms(1) cut_char [of q] by (fastforce simp: mark_def)
  qed
  then show ?thesis using assms(2) by (auto simp: mark_def startswith_iff_take)
qed

lemma mark_front: "pre \<noteq> [] \<Longrightarrow> q \<notin> set v \<Longrightarrow> mark pre [q] True (pre @ v @ q # b) = Some (v, b)"
  by (simp add: mark_def cut_first)

text \<open>With one match, the value between the two marks is replaced, up to the first mark after it.\<close>

lemma sub_scan_1:
  "sub_scan pre trm repl bol s = (new, Suc 0) \<Longrightarrow> \<exists>a old b. s = a @ pre @ old @ trm @ b \<and> new = a @ pre @ repl @ trm @ b \<and>
     cut trm (old @ trm @ b) = Some (old, b) \<and> (a = [] \<and> bol \<or> a \<noteq> [] \<and> last a = newline)"
proof (induction pre trm repl bol s arbitrary: new rule: sub_scan.induct)
  case (2 pre trm repl bol c s)
  show ?case
  proof (cases "mark pre trm bol (c # s)")
    case None
    then obtain t where t: "sub_scan pre trm repl (c = newline) s = (t, Suc 0)" "new = c # t"
      using "2.prems" by (auto split: prod.splits)
    obtain a old b where r: "s = a @ pre @ old @ trm @ b" "t = a @ pre @ repl @ trm @ b" "cut trm (old @ trm @ b) = Some (old, b)"
        "a = [] \<and> c = newline \<or> a \<noteq> [] \<and> last a = newline"
      using "2.IH"(1) [OF None t(1)] by blast
    then show ?thesis using t(2) by (intro exI [of _ "c # a"] exI [of _ old] exI [of _ b]) auto
  next
    case (Some p)
    obtain old rest where p: "p = (old, rest)" by (cases p)
    obtain t where t: "sub_scan pre trm repl (trm \<noteq> [] \<and> last trm = newline) rest = (t, 0)" "new = pre @ repl @ trm @ t"
      using "2.prems" Some by (auto simp: p split: prod.splits)
    note m = mark_Some [OF Some [unfolded p]]
    have "cut trm (old @ trm @ rest) = Some (old, rest)" using Some m by (auto simp: mark_def p split: if_splits)
    then show ?thesis using t(2) sub_scan_0 [OF t(1)] m by (intro exI [of _ "[]"] exI [of _ old] exI [of _ rest]) auto
  qed
qed simp

section \<open>The value is found again\<close>

lemma find_between_prefix:
  assumes "find_between pre [q] bol s = Some v"
  shows "\<exists>a b. s = a @ pre @ v @ q # b \<and> (\<forall>b'. find_between pre [q] bol (a @ pre @ v @ q # b') = Some v)"
  using assms
proof (induction s arbitrary: bol)
  case (Cons c s)
  show ?case
  proof (cases "mark pre [q] bol (c # s)")
    case None
    then obtain a b where r: "s = a @ pre @ v @ q # b" "\<forall>b'. find_between pre [q] (c = newline) (a @ pre @ v @ q # b') = Some v"
      using Cons by fastforce
    have "mark pre [q] bol ((c # a @ pre @ v) @ [] @ q # b) = None" using None r(1) by simp
    from mark_None_shared [OF this] have "mark pre [q] bol ((c # a @ pre @ v) @ q # b') = None" for b' by simp
    then show ?thesis using r by (intro exI [of _ "c # a"] exI [of _ b]) simp
  next
    case (Some p)
    then obtain rest where p: "p = (v, rest)" using Cons.prems by (cases p) simp
    note m = mark_Some [OF Some [unfolded p]]
    have v: "q \<notin> set v" using Some m cut_char_Some [of q "v @ q # rest" v rest] by (auto simp: mark_def p split: if_splits)
    have "find_between pre [q] bol (pre @ v @ q # b') = Some v" for b'
    proof -
      obtain d r where "pre @ v @ q # b' = d # r" by (cases "pre @ v @ q # b'") auto
      then show ?thesis using mark_front [of pre q v b'] m v by simp
    qed
    then show ?thesis using m by (intro exI [of _ "[]"] exI [of _ rest]) simp
  qed
qed simp

lemma find_between_sub:
  "sub_scan pre [q] repl bol s = (new, Suc 0) \<Longrightarrow> q \<notin> set repl \<Longrightarrow> find_between pre [q] bol new = Some repl"
proof (induction s arbitrary: new bol)
  case (Cons c s)
  show ?case
  proof (cases "mark pre [q] bol (c # s)")
    case None
    then obtain t where t: "sub_scan pre [q] repl (c = newline) s = (t, Suc 0)" "new = c # t"
      using Cons.prems(1) by (auto split: prod.splits)
    obtain a old b where r: "s = a @ pre @ old @ [q] @ b" "t = a @ pre @ repl @ [q] @ b"
      using sub_scan_1 [OF t(1)] by blast
    have "mark pre [q] bol ((c # a @ pre) @ old @ q # b) = None" using None r(1) by simp
    from mark_None_shared [OF this] have "mark pre [q] bol (c # a @ pre @ repl @ [q] @ b) = None" by simp
    then show ?thesis using Cons.IH [OF t(1) Cons.prems(2)] t(2) r(2) by simp
  next
    case (Some p)
    obtain old rest where p: "p = (old, rest)" by (cases p)
    note m = mark_Some [OF Some [unfolded p]]
    obtain t where t: "new = pre @ repl @ [q] @ t" using Cons.prems(1) Some by (auto simp: p split: prod.splits)
    have "new \<noteq> []" using t m by simp
    then obtain d r where d: "new = d # r" by (cases new) simp_all
    then have "mark pre [q] bol (d # r) = Some (repl, t)" using mark_front [of pre q repl t] Cons.prems(2) m t by simp
    then show ?thesis unfolding d by simp
  qed
qed simp

lemma find_between_strip:
  assumes "find_between pre [q] True s = Some v" "s \<noteq> []" "\<not> is_space (hd s)" "\<not> is_space q"
  shows "find_between pre [q] True (strip s) = Some v"
proof -
  obtain a b where s: "s = a @ pre @ v @ q # b" "\<forall>b'. find_between pre [q] True (a @ pre @ v @ q # b') = Some v"
    using find_between_prefix [OF assms(1)] by blast
  have "dropWhile is_space (rev b @ q # rev v @ rev pre @ rev a) = dropWhile is_space (rev b) @ q # rev v @ rev pre @ rev a"
    using assms(4) by (cases "\<forall>c\<in>set b. is_space c") (auto simp: dropWhile_append dropWhile_append1)
  then have r: "rstrip s = a @ pre @ v @ q # rstrip b" by (simp add: rstrip_def s(1))
  have "hd (a @ pre @ v @ q # rstrip b) = hd (a @ pre @ v @ q # b)" by (cases a; cases pre; cases v) simp_all
  then have "hd (rstrip s) = hd s" by (simp only: r) (simp only: s(1))
  then have "strip s = rstrip s" using assms(3) r by (simp add: strip_def lstrip_def dropWhile_fixed)
  then show ?thesis using s(2) r by simp
qed

section \<open>A plan fits together\<close>

lemma sub_once_Inr: "sub_once s pre trm repl what = Inr new \<longleftrightarrow> sub_scan pre trm repl True s = (new, Suc 0)"
  by (auto simp: sub_once_def require_eq_Inr split: prod.splits)

lemma fixture_files_keys:
  assumes "fixture_files names blobs = Inr fs" "(p, d) \<in> set fs"
  shows "\<exists>name. p = RP_FIXTURES @ ''/'' @ name"
proof -
  obtain fss where f: "rmap (\<lambda>(path, data). let name = part_name path in
         if name \<notin> set names then Inr []
         else require (count_list (map (part_name \<circ> fst) blobs) name \<le> 1) (Refusal (''duplicate basename '' @ name @ '' among sourceFiles; cannot match fixture''))
           (Inr [(RP_FIXTURES @ ''/'' @ name, data)])) blobs = Inr fss" "fs = concat fss"
    using assms(1) by (auto simp: fixture_files_def rbind_eq_Inr)
  then have "list_all2 (\<lambda>b es. \<forall>(p, d)\<in>set es. \<exists>name. p = RP_FIXTURES @ ''/'' @ name) blobs fss"
    unfolding rmap_eq_Inr by (auto elim!: list_all2_mono simp: Let_def require_eq_Inr split: if_splits prod.splits)
  then have "\<forall>es\<in>set fss. \<forall>(p, d)\<in>set es. \<exists>name. p = RP_FIXTURES @ ''/'' @ name"
    by (induction rule: list_all2_induct) auto
  then show ?thesis using assms(2) f(2) by fastforce
qed

lemma plan_pins_Inr:
  assumes "plan_pins sha g tower fixtures commit = Inr plan"
  obtains pins v verify policy fs where "read_text tower RP_VERIFY = Inr v" "sub_scan verify_pre [CHR 0x27] (sha pins) True v = (verify, Suc 0)"
    "plan = [(RP_PINS, pins), (RP_VERIFY, utf8_encode verify)] @ fs @ [(RP_POLICY, policy)]" "\<And>p d. (p, d) \<in> set fs \<Longrightarrow> \<exists>name. p = RP_FIXTURES @ ''/'' @ name"
proof -
  obtain new v verify names blobs fs policy where p: "read_text tower RP_VERIFY = Inr v"
      "sub_once v verify_pre [CHR 0x27] (sha (utf8_encode new)) ''EXPECTED_PINS_SHA256'' = Inr verify" "fixture_files names blobs = Inr fs"
      "plan = [(RP_PINS, utf8_encode new), (RP_VERIFY, utf8_encode verify)] @ fs @ [(RP_POLICY, utf8_encode policy)]"
    using assms unfolding plan_pins_def Let_def rbind_eq_Inr by blast
  show thesis by (rule that [OF p(1) p(2) [unfolded sub_once_Inr] p(4)]) (rule fixture_files_keys [OF p(3)])
qed

section \<open>Applying a plan\<close>

lemma apply_file_cases:
  "apply_file wr w (p, d) t = (t', out, r) \<Longrightarrow> (t' = t \<and> (r = Inr () \<and> w \<longrightarrow> t p = Some (RegFile d)) \<or> w \<and> t' = t(p \<mapsto> RegFile d) \<and> r = Inr ())"
  by (auto simp: apply_file_def file_bytes_def split: sum.splits if_splits option.splits node.splits)

lemma apply_dry: "fst (apply_plan wr False plan t) = t"
proof (induction plan arbitrary: t)
  case (Cons rd plan)
  obtain p d where rd: "rd = (p, d)" by (cases rd)
  obtain t' out r where a: "apply_file wr False rd t = (t', out, r)" by (metis prod_cases3)
  have "t' = t" using apply_file_cases [OF a [unfolded rd]] by simp
  then show ?case using a Cons [of t] by (auto split: sum.splits prod.splits)
qed simp

lemma apply_only: "apply_plan wr True plan t = (t', out, r) \<Longrightarrow> t' p = t p \<or> (\<exists>d. (p, d) \<in> set plan \<and> t' p = Some (RegFile d))"
proof (induction plan arbitrary: t out r)
  case (Cons rd plan)
  obtain q d where rd: "rd = (q, d)" by (cases rd)
  obtain t1 out1 r1 where a: "apply_file wr True rd t = (t1, out1, r1)" by (metis prod_cases3)
  note c = apply_file_cases [OF a [unfolded rd]]
  show ?case
  proof (cases r1)
    case (Inl e)
    with a Cons.prems have "t' = t1" by simp
    then show ?thesis using c Inl by auto
  next
    case (Inr u)
    then obtain out2 where "apply_plan wr True plan t1 = (t', out2, r)" using a Cons.prems by (auto split: prod.splits)
    from Cons.IH [OF this] show ?thesis
    proof
      assume "t' p = t1 p"
      then show ?thesis using c by (cases "p = q") (fastforce simp: rd)+
    qed (auto simp: rd)
  qed
qed simp

lemma apply_all:
  "apply_plan wr True plan t = (t', out, Inr ()) \<Longrightarrow> distinct (map fst plan) \<Longrightarrow> (p, d) \<in> set plan \<Longrightarrow> t' p = Some (RegFile d)"
proof (induction plan arbitrary: t out)
  case (Cons rd plan)
  obtain q e where rd: "rd = (q, e)" by (cases rd)
  obtain t1 out1 r1 where a: "apply_file wr True rd t = (t1, out1, r1)" by (metis prod_cases3)
  note c = apply_file_cases [OF a [unfolded rd]]
  obtain out2 where n: "r1 = Inr ()" "apply_plan wr True plan t1 = (t', out2, Inr ())"
    using a Cons.prems(1) by (auto split: sum.splits prod.splits)
  then have t1: "t1 q = Some (RegFile e)" using c by auto
  show ?case
  proof (cases "(p, d) = rd")
    case True
    have "t' q = t1 q \<or> (\<exists>d. (q, d) \<in> set plan \<and> t' q = Some (RegFile d))" by (rule apply_only [OF n(2)])
    moreover have "(q, d) \<notin> set plan" for d using Cons.prems(2) by (force simp: rd)
    ultimately show ?thesis using t1 True rd by auto
  next
    case False
    then show ?thesis using Cons.IH [OF n(2)] Cons.prems(2,3) by simp
  qed
qed simp

lemma apply_again: "(\<forall>(p, d)\<in>set plan. t p = Some (RegFile d)) \<Longrightarrow> apply_plan wr True plan t = (t, [], Inr ())"
  by (induction plan) (auto simp: apply_file_def file_bytes_def)

section \<open>A sample repin\<close>

definition rp_lines :: "string list \<Rightarrow> string" where
  "rp_lines ls = concat (map (\<lambda>l. l @ [newline]) ls)"

definition rp_member :: "string \<Rightarrow> string \<Rightarrow> string" where
  "rp_member key value = [quote] @ key @ [quote] @ '': '' @ value"

definition rp_zero :: string where
  "rp_zero = [quote] @ ''0'' @ [quote]"

definition rp_tower :: tree where
  "rp_tower = map_of
     [(RP_PINS, RegFile (rp_lines [''{'', ''  '' @ rp_member ''sourceCommit'' rp_zero @ '','', ''  '' @ rp_member ''sourceTree'' rp_zero @ '','',
         ''  '' @ rp_member ''submoduleCommit'' rp_zero @ '','', ''  '' @ rp_member ''sourceFiles'' ''{'', ''    '' @ rp_member RP_MANIFEST rp_zero, ''  },'',
         ''  '' @ rp_member ''flatpakFinishArgs'' ''['', ''    '' @ rp_zero, ''  ]'', ''}''])),
      (RP_VERIFY, RegFile (rp_lines [''#!x'', verify_pre @ ''0'' @ [CHR 0x27], ''x = 1''])),
      (RP_POLICY, RegFile (rp_lines [''{'', ''  '' @ rp_member ''nativeSource'' ''{'', ''    '' @ rp_member ''commit'' rp_zero @ '','',
         ''    '' @ rp_member ''tree'' rp_zero @ '','', ''    '' @ rp_member ''submoduleCommit'' rp_zero, ''  }'', ''}'']))]"

definition rp_git :: git where
  "rp_git args = (case map_of
     [([''rev-parse'', ''--verify'', ''main^{commit}''], ''c1'' @ [newline]), ([''rev-parse'', ''c1^{tree}''], ''t1'' @ [newline]),
      ([''ls-tree'', ''c1'', GITLINK], ''160000 commit s1'' @ [tab] @ GITLINK @ [newline]),
      ([''ls-tree'', ''-r'', ''--name-only'', ''c1'', ''--''] @ SCANNER_CRATES, ''crates/scanner-broker/Cargo.toml'' @ [newline]),
      ([''show'', ''c1:crates/scanner-broker/Cargo.toml''], ''toml''),
      ([''show'', ''c1:'' @ RP_MANIFEST], rp_lines [''finish-args:'', ''  - --share=ipc'', ''  - --b'', ''modules:''])] args of
       None \<Rightarrow> Inl ''unknown'' | Some out \<Rightarrow> Inr out)"

definition rp_sha :: "string \<Rightarrow> string" where
  "rp_sha b = nat_str (length b)"

lemma rp_plan: "succeeds (plan_pins rp_sha rp_git rp_tower (Inr [''Cargo.toml'']) ''main'')"
  by code_simp

section \<open>Properties\<close>



text \<open>
  An edit changes one value. \<open>set_key\<close> returns only when the key stands once at the beginning of a line; the new text
  differs from the old one in the value of that line alone, up to its closing quotation mark, and the value
  is then read back from it.
\<close>
theorem set_key_edits:
  assumes "set_key ind txt key value = Inr new" "quote \<notin> set value"
  shows "\<exists>a old b. txt = a @ quoted_key ind key @ quote # old @ quote # b \<and> new = a @ quoted_key ind key @ quote # value @ quote # b \<and>
     quote \<notin> set old \<and> (a = [] \<or> last a = newline) \<and> find_between (quoted_key ind key @ [quote]) [quote] True new = Some value"
proof -
  have s: "sub_scan (quoted_key ind key @ [quote]) [quote] value True txt = (new, Suc 0)"
    using assms(1) by (simp add: set_key_def sub_once_Inr)
  obtain a old b where r: "txt = a @ (quoted_key ind key @ [quote]) @ old @ [quote] @ b" "new = a @ (quoted_key ind key @ [quote]) @ value @ [quote] @ b"
      "cut [quote] (old @ [quote] @ b) = Some (old, b)" "a = [] \<and> True \<or> a \<noteq> [] \<and> last a = newline"
    using sub_scan_1 [OF s] by blast
  have "quote \<notin> set old" using cut_char_Some [OF r(3)] by simp
  then show ?thesis using r find_between_sub [OF s assms(2)] by (intro exI [of _ a] exI [of _ old] exI [of _ b]) auto
qed

theorem set_key_edits_witness:
  "find_between (quoted_key ''  '' ''k'' @ [quote]) [quote] True (''{'' @ newline # ''  '' @ [quote] @ ''k'' @ [quote] @ '': '' @ [quote] @ ''new'' @ [quote]) = Some ''new''"
proof -
  have "set_key ''  '' (''{'' @ newline # ''  '' @ [quote] @ ''k'' @ [quote] @ '': '' @ [quote] @ ''old'' @ [quote]) ''k'' ''new'' =
      Inr (''{'' @ newline # ''  '' @ [quote] @ ''k'' @ [quote] @ '': '' @ [quote] @ ''new'' @ [quote])"
    by code_simp
  moreover have "quote \<notin> set ''new''" by code_simp
  ultimately show ?thesis using set_key_edits by blast
qed

text \<open>
  Applying a plan. Without \<open>--write\<close> nothing changes. With it every file ends as it was or as the plan has it, also
  when a write fails half way; if none fails, all files of the plan are as planned, and applying it a second
  time changes nothing and reports nothing.
\<close>
theorem apply_exact:
  assumes "distinct (map fst plan)"
  shows "fst (apply_plan wr False plan tower) = tower \<and>
     (case apply_plan wr True plan tower of (tower', out, r) \<Rightarrow>
        (\<forall>p. tower' p = tower p \<or> (\<exists>d. (p, d) \<in> set plan \<and> tower' p = Some (RegFile d))) \<and>
        (r = Inr () \<longrightarrow> list_all (\<lambda>(p, d). tower' p = Some (RegFile d)) plan \<and> apply_plan wr True plan tower' = (tower', [], Inr ())))"
proof -
  obtain t' out r where a: "apply_plan wr True plan tower = (t', out, r)" by (metis prod_cases3)
  have "\<forall>(p, d)\<in>set plan. t' p = Some (RegFile d)" if "r = Inr ()"
    using apply_all [OF a [unfolded that] assms] by blast
  then show ?thesis using apply_dry a apply_only [OF a] apply_again [of plan t'] by (auto simp: list_all_iff)
qed

theorem apply_exact_witness:
  "apply_plan (\<lambda>_. None) True [(''a'', ''2''), (''b'', ''1'')] [''a'' \<mapsto> RegFile ''2'', ''b'' \<mapsto> RegFile ''1''] =
     ([''a'' \<mapsto> RegFile ''2'', ''b'' \<mapsto> RegFile ''1''], [], Inr ())"
proof -
  have "distinct (map fst [(''a'', ''2''), (''b'', ''1'')])" by simp
  from apply_exact [OF this, of "\<lambda>_. None" "[''a'' \<mapsto> RegFile ''1'', ''b'' \<mapsto> RegFile ''1'']"]
  show ?thesis by (auto simp: apply_file_def file_bytes_def)
qed

end
