(* ===== verification/SystemStage.thy ===== *)
theory SystemStage
  imports Overlay Verify Unpriv
begin

text \<open>
  \<^verbatim>\<open>build_files/firewall/snitchwatch-system-stage.py\<close>: composing the overlay of the system profile. The native bridge
  is run only as an unprivileged user, \<open>stage.sh\<close> writes into a scratch directory as that user, root adopts a fixed list
  of files from it, everything else is copied from pinned inputs, and the verifier of theory \<open>Verify\<close> has the last word.

  Arguments are the answers of system calls, of git and of the two \<open>stage.sh\<close> runs, SHA-256, and the decoding of JSON
  outside the model's code points. Argument parsing and the printed line are not modelled.
\<close>

section \<open>Constants\<close>

definition ENDPOINT_EVENTS :: "string list" where
  "ENDPOINT_EVENTS = [''snitchwatch-endpoint-events.conf'', ''snitchwatch-endpoint-events.nft'',
     ''snitchwatch-endpoint-events.service'', ''snitchwatch-endpoint-events-nft.service'']"

definition UNPRIVILEGED :: nat where "UNPRIVILEGED = 65534"
definition STAGE_SH_TIMEOUT :: nat where "STAGE_SH_TIMEOUT = 300"

definition REPRODUCIBLE_BASIS :: string where
  "REPRODUCIBLE_BASIS = ''byte-identical sibling build: the assembly stage compared the snitchwatch-bridge and '' @
     ''snitchwatch-bridge-rebuild tarballs, built from the same prep layer on the same runner, '' @
     ''both offline as uid 65534; not an independent host or toolchain. reproLogSha256 is the '' @
     ''first stage'' @ [CHR 0x27] @ ''s own repro-check.sh log, which that stage could forge.''"

definition UNPRIVILEGED_ENV :: "(string \<times> string) list" where
  "UNPRIVILEGED_ENV = [(''PATH'', ''/usr/bin:/bin''), (''LANG'', ''C'')]"

definition SYSTEM_STAGE_FILES :: allow where
  "SYSTEM_STAGE_FILES =
    [(''usr/bin/snitchwatch-bridge-cli'', exec_mode), (''usr/lib/systemd/system/snitchwatch-system-bridge.service'', data_mode),
     (''usr/lib/systemd/system/snitchwatch-system-bridge-grpc.socket'', data_mode), (''usr/lib/systemd/system/snitchwatch-system-bridge-gui.socket'', data_mode),
     (''usr/lib/systemd/system/opensnitch.service.d/snitchwatch-system-bridge.conf'', data_mode), (''etc/opensnitchd/default-config.json'', data_mode),
     (''usr/lib/tmpfiles.d/snitchwatch.conf'', data_mode), (''usr/lib/sysusers.d/snitchwatch.conf'', data_mode),
     (''etc/opensnitchd/rules/000-snitchwatch-bridge-fetch.json'', data_mode)]"

section \<open>Running the bridge binary\<close>

text \<open>How \<open>subprocess.run(check=True)\<close> ends.\<close>

datatype attempt = Finished int string | Denied string | Late | Unprepared string | Failed pyexc

text \<open>What a child is started with. \<open>ro_uid\<close> is the user and group it changes to, without other groups.\<close>

record run_options =
  ro_env :: "(string \<times> string) list"
  ro_cwd :: string
  ro_umask :: nat
  ro_no_new_privs :: bool
  ro_uid :: "nat option"

definition unprivileged_options :: "nat \<Rightarrow> run_options" where
  "unprivileged_options euid = \<lparr>ro_env = UNPRIVILEGED_ENV, ro_cwd = ''/'', ro_umask = 18, ro_no_new_privs = True,
     ro_uid = (if euid = 0 then Some UNPRIVILEGED else None)\<rparr>"

text \<open>\<open>rn_prctl\<close> is the result of \<open>prctl(PR_SET_CHILD_SUBREAPER)\<close>; a run changes the processes \<open>'w\<close> of the system.\<close>

record 'w runner =
  rn_prctl :: int
  rn_procs :: "'w procs"
  rn_me :: nat
  rn_exec :: "run_options \<Rightarrow> string list \<Rightarrow> nat \<Rightarrow> 'w \<Rightarrow> attempt \<times> 'w"

definition kill_leftover_children :: "'w runner \<Rightarrow> 'w \<Rightarrow> 'w result" where
  "kill_leftover_children R w = (case kill_leftovers (rn_procs R) (rn_me R) rounds w of
       Inl (Refusal _) \<Rightarrow> Inl (ValueError ''bridge binary descendants survived SIGKILL; refusing'') | r \<Rightarrow> r)"

definition attempt_result :: "string list \<Rightarrow> nat \<Rightarrow> attempt \<Rightarrow> string result" where
  "attempt_result cmd timeout a = (case a of
       Finished c out \<Rightarrow> require (c = 0) CalledProcessError (Inr out)
     | Denied e \<Rightarrow> Inl (ValueError (''cannot drop to uid/gid '' @ nat_str UNPRIVILEGED @ '' to run the bridge binary: '' @ e))
     | Late \<Rightarrow> Inl (ValueError (base_name (if hd cmd = ''bash'' then cmd ! 1 else hd cmd) @ '' timed out after '' @ nat_str timeout @ '' s running the bridge binary''))
     | Unprepared e \<Rightarrow> Inl (ValueError (''cannot set no_new_privs for the bridge binary (preexec failed): '' @ e))
     | Failed e \<Rightarrow> Inl e)"

text \<open>The output, and the processes afterwards. As root every descendant is killed whatever happened.\<close>

definition run_unprivileged :: "'w runner \<Rightarrow> nat \<Rightarrow> string list \<Rightarrow> nat \<Rightarrow> 'w \<Rightarrow> (string \<times> 'w) result" where
  "run_unprivileged R euid cmd timeout w =
     require (euid = 0 \<longrightarrow> rn_prctl R = 0) (ValueError ''cannot become child subreaper to contain the bridge binary'')
     (case rn_exec R (unprivileged_options euid) cmd timeout w of (a, w1) \<Rightarrow>
        rbind (if euid = 0 then kill_leftover_children R w1 else Inr w1) (\<lambda>w2.
        rbind (attempt_result cmd timeout a) (\<lambda>out. Inr (out, w2))))"

text \<open>What \<open>lstat\<close> says of a path and of its parents.\<close>

definition sticky :: "meta \<Rightarrow> bool" where
  "sticky m \<longleftrightarrow> m_mode m AND 512 \<noteq> 0"

definition unwritable_entry :: "(string \<Rightarrow> meta result) \<Rightarrow> string \<Rightarrow> nat option \<Rightarrow> string \<Rightarrow> unit result" where
  "unwritable_entry lstat path uid current = rbind (lstat current) (\<lambda>m.
     require (m_kind m \<noteq> KLink) (ValueError (''bridge executable path contains a symlink: '' @ current))
     (require (\<not> (uid = Some (m_uid m) \<or> go_writable m \<and> \<not> (m_kind m = KDir \<and> sticky m \<and> current \<noteq> path)))
       (ValueError (''bridge executable or a parent is writable by the unprivileged user or by group/other: '' @ current)) (Inr ())))"

definition require_not_writable_by :: "(string \<Rightarrow> meta result) \<Rightarrow> string \<Rightarrow> nat option \<Rightarrow> unit result" where
  "require_not_writable_by lstat path uid = rall (unwritable_entry lstat path uid) (chain_of path)"

section \<open>Adopting the staged files\<close>

text \<open>The order of \<open>os.walk\<close> with sorted names; links are entries and not entered.\<close>

function stage_walk :: "string \<Rightarrow> fsnode \<Rightarrow> (string \<times> fsnode) list" where
  "stage_walk rel (FsNode m d b None) = []"
| "stage_walk rel (FsNode m d b (Some ks)) =
     map (\<lambda>nc. (rel_join rel (fst nc), snd nc)) (subdirs_of ks @ files_of ks)
     @ concat (map (\<lambda>nc. stage_walk (rel_join rel (fst nc)) (snd nc)) (filter (\<lambda>nc. m_kind (f_meta (snd nc)) \<noteq> KLink) (subdirs_of ks)))"
  by pat_completeness auto

termination
  by (relation "measure (\<lambda>(_, t). size t)") (auto simp: termination_simp)

definition make_dir :: "meta \<Rightarrow> string \<Rightarrow> fsnode \<Rightarrow> fsnode result" where
  "make_dir creator rel out = (case node_at (components rel) out of
       None \<Rightarrow> place creator (components rel) (new_dir creator) out
     | Some _ \<Rightarrow> Inr out)"

definition adopt_entry :: "meta \<Rightarrow> string \<times> fsnode \<Rightarrow> fsnode \<Rightarrow> fsnode result" where
  "adopt_entry creator rf out = (case rf of (rel, f) \<Rightarrow>
     let m = f_meta f in
     if m_kind m = KDir \<and> rel \<in> set (ancestors (map fst SYSTEM_STAGE_FILES)) then make_dir creator rel out
     else if m_kind m = KReg \<and> map_of SYSTEM_STAGE_FILES rel = Some (m_mode m) \<and> m_nlink m = 1
       then place creator (components rel) (new_file creator (m_mode m) (f_data f)) out
     else Inl (ValueError (''unexpected path in unprivileged stage.sh output: '' @ rel)))"

text \<open>\<open>staged\<close> is the staging root, if there is one; \<open>creator\<close> the owner and the device of what root writes.\<close>

definition adopt_unprivileged_stage :: "meta \<Rightarrow> fsnode option \<Rightarrow> fsnode result" where
  "adopt_unprivileged_stage creator staged = (case staged of
       None \<Rightarrow> Inr (new_dir creator)
     | Some t \<Rightarrow> require (m_kind (f_meta t) = KDir)
         (ValueError ''unexpected path in unprivileged stage.sh output: the staging root is not a real directory'')
         (rfold (adopt_entry creator) (stage_walk ''.'' t) (new_dir creator)))"

section \<open>The inputs\<close>

text \<open>
  \<open>si_taken\<close>: the output directory is \<open>/\<close> or exists; \<open>si_same\<close>: the two tarballs are one file. The rest
  are the trees and the bytes of the files given by the arguments of the same name.
\<close>

record stage_inputs =
  si_source :: tree
  si_artifact :: tree
  si_scanner :: tree
  si_taken :: bool
  si_pins :: "string result"
  si_verifier :: "string result"
  si_legacy_config :: "string result"
  si_candidate_config :: "string result"
  si_build_log :: "string result"
  si_repro_log :: "string result"
  si_rpm_inventory :: "string result"
  si_tarball :: "string result"
  si_rebuild_tarball :: "string result"
  si_same :: "bool result"
  si_os_update_rule :: "string result"
  si_resolved_dns_rule :: "string result"

text \<open>
  \<open>sh_git repo args\<close> answers in the source checkout (\<open>.\<close>) or its submodule. The bytes of the bridge binary and the
  scratch directory of \<open>stage.sh\<close> depend on what ran; \<open>sh_source_dir\<close> to \<open>sh_scanner_dir\<close> are the paths of the directories; \<open>sh_scanner\<close> is what the scanner's \<open>stage.sh\<close> makes of the overlay.
\<close>

record 'w stage_host =
  sh_host :: host
  sh_other :: "string \<Rightarrow> json result"
  sh_git :: "string \<Rightarrow> string list \<Rightarrow> string result"
  sh_euid :: nat
  sh_creator :: meta
  sh_lstat :: "string \<Rightarrow> meta result"
  sh_runner :: "'w runner"
  sh_binary :: string
  sh_binary_bytes :: "'w \<Rightarrow> string result"
  sh_source_dir :: string
  sh_scratch :: string
  sh_out_dir :: string
  sh_scanner_dir :: string
  sh_staged :: "'w \<Rightarrow> fsnode option"
  sh_readlink :: "string \<Rightarrow> string result"
  sh_scanner :: "string list \<Rightarrow> fsnode \<Rightarrow> fsnode result"

definition stage_json :: "'w stage_host \<Rightarrow> string result \<Rightarrow> json result" where
  "stage_json S b = rbind b (json_bytes (sh_other S))"

definition stage_git :: "'w stage_host \<Rightarrow> string \<Rightarrow> string list \<Rightarrow> string result" where
  "stage_git S repo args = rbind (sh_git S repo args) (\<lambda>t. Inr (strip t))"

section \<open>The checks before anything runs\<close>

definition require_exact_clean_source :: "'w stage_host \<Rightarrow> json \<Rightarrow> unit result" where
  "require_exact_clean_source S pins =
     rbind (stage_git S ''.'' [''rev-parse'', ''HEAD'']) (\<lambda>head. rbind (stage_git S ''.'' [''rev-parse'', ''HEAD^{tree}'']) (\<lambda>tr.
     rbind (stage_git S ''.'' [''status'', ''--porcelain'', ''--ignored'']) (\<lambda>dirty.
     demand (all_of [same (Inr (JStr head)) (index pins ''sourceCommit''), same (Inr (JStr tr)) (index pins ''sourceTree''), Inr (dirty = [])])
       (ValueError ''source checkout is not exact and completely clean'') (Inr ()))))"

definition stage_sources :: "'w stage_host \<Rightarrow> stage_inputs \<Rightarrow> json \<Rightarrow> unit result" where
  "stage_sources S I pins =
     demand (same (rbind (stage_git S ''vendor/opensnitch'' [''rev-parse'', ''HEAD'']) (\<lambda>t. Inr (JStr t))) (index pins ''submoduleCommit''))
       (ValueError ''unexpected submodule checkout'')
     (rbind (rbind (index pins ''sourceFiles'') dict_items) (\<lambda>files.
      rall (\<lambda>(name, expected). demand (pinned_hash (sh_host S) (file_bytes (si_source I) name) (Inr expected))
        (ValueError (''source build/staging input differs from pin: '' @ name)) (Inr ())) files))"

definition stage_artifact :: "'w stage_host \<Rightarrow> stage_inputs \<Rightarrow> json \<Rightarrow> unit result" where
  "stage_artifact S I pins =
     rbind (stage_json S (file_bytes (si_artifact I) ''usr/share/snitchwatch-bridge/MANIFEST.json'')) (\<lambda>original.
     demand (same (get original ''version'') (index pins ''bridgeVersion'')) (ValueError ''native artifact does not contain the required bridge version'')
     (demand (all_of [same (index2 original ''source'' ''git_commit'') (index pins ''sourceCommit''),
         rbind (index2 original ''source'' ''dirty'') (\<lambda>d. Inr (\<not> truthy d))]) (ValueError ''wrong/dirty native artifact source'') (Inr ())))"

definition stage_config :: "'w stage_host \<Rightarrow> stage_inputs \<Rightarrow> unit result" where
  "stage_config S I =
     rbind (stage_json S (si_legacy_config I)) (\<lambda>legacy. rbind (stage_json S (si_candidate_config I)) (\<lambda>candidate.
     rbind (expected_config legacy) (\<lambda>expected.
     demand (all_of [Inr (pyeq candidate expected), index_is candidate ''DefaultAction'' (JStr ''allow''), index_is candidate ''ProcMonitorMethod'' (JStr ''proc'')])
       (ValueError ''candidate config must retain the allow/proc defaults and change only the daemon address'') (Inr ()))))"

section \<open>The bridge\<close>

definition concat_str :: "string \<Rightarrow> json \<Rightarrow> string result" where
  "concat_str s v = rbind (json_str v) (\<lambda>t. Inr (s @ t))"

text \<open>The version of the binary, then \<open>stage.sh\<close>, both as the unprivileged user; the hash must be the same all along.\<close>

definition stage_bridge :: "'w stage_host \<Rightarrow> json \<Rightarrow> 'w \<Rightarrow> (string \<times> fsnode \<times> 'w) result" where
  "stage_bridge S pins w =
     rbind (require_not_writable_by (sh_lstat S) (sh_binary S) (if sh_euid S = 0 then Some UNPRIVILEGED else None)) (\<lambda>_.
     rbind (sh_binary_bytes S w) (\<lambda>first. let binary_sha = sha256 (sh_host S) first in
     rbind (run_unprivileged (sh_runner S) (sh_euid S) [sh_binary S, ''--version''] 5 w) (\<lambda>(out, w).
     rbind (rbind (index pins ''bridgeVersion'') (concat_str ''snitchwatch-bridge-cli '')) (\<lambda>version.
     require (strip out = version) (ValueError ''actual binary --version differs from required bridge version'')
     (rbind (sh_binary_bytes S w) (\<lambda>again.
     require (sha256 (sh_host S) again = binary_sha) (ValueError ''bridge executable changed while it ran'')
     (rbind (run_unprivileged (sh_runner S) (sh_euid S) [''bash'', path_join (sh_source_dir S) ''packaging/system/stage.sh'', path_join (sh_scratch S) ''root'', sh_binary S, binary_sha] STAGE_SH_TIMEOUT w) (\<lambda>(_, w).
     rbind (adopt_unprivileged_stage (sh_creator S) (sh_staged S w)) (\<lambda>out.
     rbind (out_sha (sh_host S) out ''usr/bin/snitchwatch-bridge-cli'') (\<lambda>d.
     require (d = binary_sha) (ValueError ''staged bridge executable differs from the verified artifact'')
     (demand (same (rbind (out_sha (sh_host S) out ''etc/opensnitchd/default-config.json'') (\<lambda>d. Inr (JStr d)))
           (index2 pins ''sourceFiles'' ''packaging/system/opensnitchd-default-config.json''))
       (ValueError ''stage.sh did not stage the pinned upstream daemon config'')
     (Inr (binary_sha, unlink (components ''etc/opensnitchd/default-config.json'') out, w)))))))))))))"

section \<open>The scanner\<close>

definition scanner_evidence_names :: "string list" where
  "scanner_evidence_names = [''source-inputs.json'', ''dependency-closure.json'', ''THIRD-PARTY-LICENSES.md'', ''LICENSE'',
     ''build.log'', ''repro.log'', ''test.log''] @ map (\<lambda>n. n @ ''.ldd'') SCANNER_BINARIES"

definition evidence_dest :: "string \<Rightarrow> string" where
  "evidence_dest name = (if name \<in> {''LICENSE'', ''THIRD-PARTY-LICENSES.md''} then ''usr/share/licenses/snitchwatch-scanner/''
     else ''usr/share/snitchwatch/scanner/'') @ name"

definition scanner_receipt :: "'w stage_host \<Rightarrow> stage_inputs \<Rightarrow> json \<Rightarrow> json result" where
  "scanner_receipt S I pins =
     rbind (stage_json S (file_bytes (si_scanner I) ''provenance.json'')) (\<lambda>p.
     demand (all_of [same (get p ''sourceCommit'') (index pins ''sourceCommit''), same (get p ''sourceTree'') (index pins ''sourceTree''),
         get_identical p ''reproducible'' (JBool True), get_identical p ''testsPassed'' (JBool True)])
       (ValueError ''scanner source/test/repro identity mismatch'')
     (rbind (rall (\<lambda>name. demand (pinned_hash (sh_host S) (file_bytes (si_scanner I) name) (index2 p ''binaries'' name))
         (ValueError ''scanner executable differs from build receipt'') (Inr ())) SCANNER_BINARIES) (\<lambda>_.
     Inr p)))"

text \<open>Both binaries and their hashes, as the scanner's \<open>stage.sh\<close> takes them.\<close>

definition scanner_args :: "'w stage_host \<Rightarrow> json \<Rightarrow> string list result" where
  "scanner_args S p = rbind (rmap (\<lambda>name. rbind (rbind (index2 p ''binaries'' name) json_str) (\<lambda>d.
       Inr [path_join (sh_scanner_dir S) name, d])) SCANNER_BINARIES) (\<lambda>ls.
     Inr ([''bash'', path_join (sh_source_dir S) ''packaging/scanner/stage.sh'', sh_out_dir S] @ concat ls))"

definition stage_evidence :: "'w stage_host \<Rightarrow> stage_inputs \<Rightarrow> string \<times> json \<Rightarrow> fsnode \<Rightarrow> fsnode result" where
  "stage_evidence S I ne out = (case ne of (name, expected) \<Rightarrow>
     require (name \<in> set scanner_evidence_names) (ValueError ''unexpected scanner evidence path'')
     (demand (pinned_hash (sh_host S) (file_bytes (si_scanner I) name) (Inr expected)) (ValueError (''scanner evidence hash mismatch: '' @ name))
       (stage_copy (sh_creator S) (file_bytes (si_scanner I) name, evidence_dest name, data_mode) out)))"

definition stage_scanner :: "'w stage_host \<Rightarrow> stage_inputs \<Rightarrow> json \<Rightarrow> fsnode \<Rightarrow> fsnode result" where
  "stage_scanner S I pins out =
     rbind (scanner_receipt S I pins) (\<lambda>p.
     rbind (scanner_args S p) (\<lambda>args.
     rbind (sh_scanner S args out) (\<lambda>out.
     rbind (rbind (index p ''evidence'') dict_items) (\<lambda>items.
     rbind (rfold (stage_evidence S I) items out) (\<lambda>out.
     stage_copy (sh_creator S) (file_bytes (si_scanner I) ''provenance.json'', ''usr/share/snitchwatch/scanner/provenance.json'', data_mode) out)))))"

section \<open>The rest of the overlay\<close>

definition stage_event :: "'w stage_host \<Rightarrow> stage_inputs \<Rightarrow> json \<Rightarrow> string \<Rightarrow> fsnode \<Rightarrow> fsnode result" where
  "stage_event S I pins name out = (let pinned = ''packaging/endpoint-events/'' @ name; b = file_bytes (si_source I) pinned in
     demand (pinned_hash (sh_host S) b (index2 pins ''sourceFiles'' pinned)) (ValueError (''endpoint-events file differs from pin: '' @ pinned))
       (stage_copy (sh_creator S) (b, ''usr/share/snitchwatch/endpoint-events/'' @ name, data_mode) out))"

text \<open>The files that are copied as they are, in order.\<close>

definition stage_copies :: "stage_inputs \<Rightarrow> (string result \<times> string \<times> 12 word) list" where
  "stage_copies I =
     map (\<lambda>n. (file_bytes (si_artifact I) (''usr/share/licenses/snitchwatch-bridge/'' @ n), ''usr/share/licenses/snitchwatch-bridge/'' @ n, data_mode))
       [''LICENSE'', ''LICENSE.opensnitch'', ''THIRD-PARTY-LICENSES.md''] @
     [(si_pins I, ''usr/share/snitchwatch/build-pins.json'', data_mode),
      (si_verifier I, ''usr/libexec/snitchwatch/verify-system-manifest.py'', exec_mode),
      (si_legacy_config I, ''usr/share/bazzite-tower/opensnitchd-default-config.json'', data_mode),
      (si_candidate_config I, ''usr/share/bazzite-tower/opensnitchd-system-bridge-config.json'', data_mode),
      (si_rpm_inventory I, ''usr/share/snitchwatch/native-rpm-inventory.txt'', data_mode),
      (si_os_update_rule I, ''etc/opensnitchd/rules/000-snitchwatch-tower-os-update.json'', data_mode),
      (si_resolved_dns_rule I, ''etc/opensnitchd/rules/000-snitchwatch-tower-resolved-dns.json'', data_mode),
      (file_bytes (si_artifact I) ''usr/share/snitchwatch-bridge/MANIFEST.json'', ''usr/share/snitchwatch/schema1-artifact-MANIFEST.json'', data_mode),
      (file_bytes (si_artifact I) ''usr/share/snitchwatch-bridge/SHA256SUMS'', ''usr/share/snitchwatch/schema1-artifact-SHA256SUMS'', data_mode),
      (Inr (''system'' @ [newline]), ''usr/share/bazzite-tower/snitchwatch-bridge-profile'', data_mode)]"

definition stage_overlay :: "'w stage_host \<Rightarrow> stage_inputs \<Rightarrow> json \<Rightarrow> fsnode \<Rightarrow> fsnode result" where
  "stage_overlay S I pins out =
     rbind (rfold (stage_event S I pins) ENDPOINT_EVENTS out) (\<lambda>out.
     rbind (rfold (stage_copy (sh_creator S)) (stage_copies I) out) (\<lambda>out.
     place (sh_creator S) (components MASK) (new_link (sh_creator S)) out))"

definition reproducible_build :: "stage_inputs \<Rightarrow> bool result" where
  "reproducible_build I = rbind (si_same I) (\<lambda>s. if s then Inr False
     else rbind (si_tarball I) (\<lambda>a. rbind (si_rebuild_tarball I) (\<lambda>b. Inr (a = b))))"

definition stage_provenance :: "host \<Rightarrow> stage_inputs \<Rightarrow> json \<Rightarrow> json result" where
  "stage_provenance h I pins = object_of
     [(''sourceCommit'', index pins ''sourceCommit''), (''submoduleCommit'', index pins ''submoduleCommit''), (''sourceTree'', index pins ''sourceTree''),
      (''builderImage'', index pins ''builderImage''), (''artifactSha256'', hash_json h (si_tarball I)),
      (''rpmInventorySha256'', hash_json h (si_rpm_inventory I)), (''reproducible'', Inr (JBool True)),
      (''buildLogSha256'', hash_json h (si_build_log I)), (''reproLogSha256'', hash_json h (si_repro_log I)),
      (''reproCommand'', Inr (JStr ''snitchwatch-system-handoff.py compare-bridge <snitchwatch-bridge tarball> <snitchwatch-bridge-rebuild tarball>'')),
      (''reproducibleBasis'', Inr (JStr REPRODUCIBLE_BASIS)),
      (''artifactInstallScope'', Inr (JStr ''Verified binary/licenses only; original schema1 user unit and check-install excluded''))]"

definition stage_flatpak :: "json \<Rightarrow> json result" where
  "stage_flatpak pins = object_of
     [(''appId'', Inr (JStr ''org.snitchwatch.Snitchwatch'')), (''profile'', Inr (JStr ''system'')), (''runtimeRef'', index pins ''flatpakRuntimeRef''),
      (''sourceCommit'', index pins ''sourceCommit''),
      (''manifestSha256'', index2 pins ''sourceFiles'' ''packaging/flatpak/org.snitchwatch.Snitchwatch.system.yml''), (''finishArgs'', index pins ''flatpakFinishArgs'')]"

definition stage_manifest :: "host \<Rightarrow> fsnode \<Rightarrow> json \<Rightarrow> string \<Rightarrow> json result" where
  "stage_manifest h out pins binary_sha =
     rbind (object_of (map (\<lambda>name. (name, hash_json h (out_bytes out name))) REQUIRED)) (\<lambda>files. object_of
       [(''schemaVersion'', Inr (JInt 1)), (''profile'', Inr (JStr ''system'')),
        (''source'', object_of [(''commit'', index pins ''sourceCommit''), (''submoduleCommit'', index pins ''submoduleCommit''), (''tree'', index pins ''sourceTree'')]),
        (''binary'', object_of [(''path'', Inr (JStr BINARY)), (''sha256'', Inr (JStr binary_sha)), (''version'', index pins ''bridgeVersion'')]),
        (''files'', Inr (sortk files)), (''symlinks'', Inr (JObj [(MASK, JStr ''/dev/null'')])), (''flatpak'', stage_flatpak pins)])"

text \<open>The overlay as the verifier sees it, and the whole stage.\<close>

definition overlay_root :: "'w stage_host \<Rightarrow> fsnode \<Rightarrow> image_root" where
  "overlay_root S out = \<lparr>im_tree = out, im_live = False, im_readlink = (\<lambda>p. if p = MASK then Inr ''/dev/null'' else sh_readlink S p)\<rparr>"

definition stage_inputs_ok :: "'w stage_host \<Rightarrow> stage_inputs \<Rightarrow> json result" where
  "stage_inputs_ok S I =
     require (\<not> si_taken I) (ValueError ''output must be a new isolated staging directory'')
     (rbind (stage_json S (si_pins I)) (\<lambda>pins.
      rbind (require_exact_clean_source S pins) (\<lambda>_.
      rbind (stage_sources S I pins) (\<lambda>_.
      rbind (stage_artifact S I pins) (\<lambda>_.
      rbind (stage_config S I) (\<lambda>_. Inr pins))))))"

definition system_stage :: "'w stage_host \<Rightarrow> stage_inputs \<Rightarrow> 'w \<Rightarrow> (string \<times> fsnode \<times> json) result" where
  "system_stage S I w =
     rbind (stage_inputs_ok S I) (\<lambda>pins.
     rbind (stage_bridge S pins w) (\<lambda>(binary_sha, out, _).
     rbind (stage_scanner S I pins out) (\<lambda>out.
     rbind (stage_overlay S I pins out) (\<lambda>out.
     demand (reproducible_build I) (ValueError ''bridge rebuild is not a separate byte-identical tarball'')
     (rbind (stage_provenance (sh_host S) I pins) (\<lambda>provenance.
      rbind (install (sh_creator S) NATIVE_PROVENANCE data_mode (pretty (sh_host S) provenance) out) (\<lambda>out.
      rbind (stage_manifest (sh_host S) out pins binary_sha) (\<lambda>manifest.
      rbind (install (sh_creator S) MANIFEST data_mode (pretty (sh_host S) manifest) out) (\<lambda>out.
      rbind (verify (sh_host S) (sh_other S) (overlay_root S out) True) (\<lambda>verdict.
      Inr (binary_sha, out, verdict)))))))))))"

end
