(* ===== verification/SystemStageProofs.thy ===== *)
theory SystemStageProofs
  imports SystemStage HandoffProofs UnprivProofs
begin

text \<open>
  The composition of the system overlay: root adopts exactly the listed files of the unprivileged \<open>stage.sh\<close> run, and
  the bridge binary runs without privileges and leaves nothing behind.
\<close>

section \<open>Placing a node\<close>

lemma exported_listable: "exported c0 t \<Longrightarrow> listable t"
proof (induction c0 t rule: exported.induct)
  case (2 c0 m d b ks)
  then show ?case by (cases d) (auto split: prod.splits)
qed simp

lemma exported_dir: "exported c0 t \<Longrightarrow> f_isdir t \<Longrightarrow> f_meta t = dir_meta c0"
  by (erule (1) exported_cases) simp

lemma exported_kid: "exported c0 t \<Longrightarrow> kid n t = Some k \<Longrightarrow> exported c0 k"
  by (cases "f_isdir t"; cases t; cases "f_kids t") (auto simp: kid_def dest!: map_of_SomeD)

lemma dir_meta_kind [simp]: "m_kind (dir_meta c0) = KDir"
  by (simp add: dir_meta_def)

text \<open>A placed node is at its path, everything else is as it was; the directories that were made belong to the creator.\<close>

definition leaf :: "meta \<Rightarrow> fsnode \<Rightarrow> bool" where
  "leaf c0 f \<longleftrightarrow> exported c0 f \<and> f_kids f = Some []"

definition added :: "meta \<Rightarrow> fsnode \<Rightarrow> (string list \<times> fsnode) set \<Rightarrow> fsnode \<Rightarrow> bool" where
  "added c0 t new t' \<longleftrightarrow> exported c0 t' \<and> f_isdir t' \<and> extends t t' \<and> (\<forall>(cs, f)\<in>new. node_at cs t' = Some f) \<and>
     (\<forall>cs x. node_at cs t' = Some x \<longrightarrow> f_meta x = dir_meta c0 \<or> node_at cs t = Some x \<or> (cs, x) \<in> new)"

lemma node_leaf: "leaf c0 f \<Longrightarrow> node_at ds f = Some x \<longleftrightarrow> ds = [] \<and> x = f"
  by (cases ds) (auto simp: leaf_def kid_def)

lemma added_kid:
  assumes t: "exported c0 t" "f_isdir t" "comp_name n" and k: "added c0 (case kid n t of None \<Rightarrow> new_dir c0 | Some k \<Rightarrow> k) new k"
    and u: "u = (if kid n t = None then add_kid n k t else set_kid n k t)"
  shows "added c0 t ((\<lambda>(cs, f). (n # cs, f)) ` new) u"
proof -
  have ks: "f_kids t \<noteq> None" "m_kind (f_meta t) = KDir" "listable t"
    using t exported_listable [OF t(1)] by (simp_all add: listable_kids exported_dir)
  have kid: "kid m u = (if m = n then Some k else kid m t)" for m
    using ks by (simp add: u kid_add_kid kid_set_kid)
  have m: "f_meta u = dir_meta c0" "f_isdir u" "f_data u = f_data t" "f_meta t = dir_meta c0"
    using t by (simp_all add: u exported_dir)
  have "exported c0 u" using u t k exported_add_kid exported_set_kid by (simp add: added_def)
  moreover have "extends t u"
  proof (rule extends_kids)
    show "kid m t = Some x \<Longrightarrow> \<exists>k'. kid m u = Some k' \<and> extends x k'" for m x
      using k by (auto simp: kid added_def)
  qed (use ks m in simp_all)
  moreover have "f_meta x = dir_meta c0 \<or> node_at ds t = Some x \<or> (ds, x) \<in> (\<lambda>(cs, f). (n # cs, f)) ` new" if x: "node_at ds u = Some x" for ds x
  proof (cases ds)
    case Nil
    then show ?thesis using x m by simp
  next
    case (Cons m es)
    show ?thesis
    proof (cases "m = n")
      case True
      then have "node_at es k = Some x" using x Cons by (simp add: kid)
      then consider "f_meta x = dir_meta c0" | "node_at es (case kid n t of None \<Rightarrow> new_dir c0 | Some k \<Rightarrow> k) = Some x" | "(es, x) \<in> new"
        using k by (auto simp: added_def)
      then show ?thesis
      proof cases
        case 2
        then show ?thesis using Cons True
          by (cases "kid n t"; cases es) (auto simp: new_dir_def dir_meta_def kid_def)
      qed (use Cons True in force)+
    next
      case False
      then show ?thesis using x Cons by (simp add: kid)
    qed
  qed
  moreover have "\<forall>(cs, f)\<in>(\<lambda>(cs, f). (n # cs, f)) ` new. node_at cs u = Some f"
    using k by (auto simp: kid added_def)
  ultimately show ?thesis using m by (simp add: added_def)
qed

lemma place_added:
  assumes "place c0 cs f t = Inr t'" "exported c0 t" "f_isdir t" "list_all comp_name cs" "leaf c0 f"
  shows "added c0 t {(cs, f)} t'"
  using assms
proof (induction c0 cs f t arbitrary: t' rule: place.induct)
  case (2 c0 n f t)
  then have k: "kid n t = None" "t' = add_kid n f t" "m_kind (f_meta t) = KDir" "listable t" "f_meta t = dir_meta c0"
    by (simp_all add: require_eq_Inr exported_listable exported_dir)
  have kid: "kid m (add_kid n f t) = (if m = n then Some f else kid m t)" for m
    using k by (simp add: kid_add_kid listable_kids)
  have "f_meta x = dir_meta c0 \<or> node_at ds t = Some x \<or> ds = [n] \<and> x = f" if x: "node_at ds (add_kid n f t) = Some x" for ds x
  proof (cases ds)
    case Nil
    then show ?thesis using x k(5) by auto
  next
    case (Cons m es)
    then show ?thesis using x "2.prems"(5) by (cases "m = n") (simp_all add: kid node_leaf)
  qed
  then show ?case using k(1-4) "2.prems" exported_add_kid [OF "2.prems"(2,3) k(1)] extends_add_kid [OF k(3,4,1)]
    by (simp add: added_def kid leaf_def)
next
  case (3 c0 n c cs f t)
  have new: "exported c0 (new_dir c0)" "f_isdir (new_dir c0)" by (simp_all add: exported_new_dir) (simp add: new_dir_def)
  define k0 where "k0 = (case kid n t of None \<Rightarrow> new_dir c0 | Some k \<Rightarrow> k)"
  obtain k where k: "added c0 k0 {(c # cs, f)} k" "t' = (if kid n t = None then add_kid n k t else set_kid n k t)"
  proof (cases "kid n t")
    case None
    with "3.prems"(1) obtain k where p: "place c0 (c # cs) f (new_dir c0) = Inr k" "t' = add_kid n k t" by (auto simp: rbind_eq_Inr)
    have "added c0 (new_dir c0) {(c # cs, f)} k" by (rule "3.IH"(1) [OF None p(1) new]) (use "3.prems" in simp_all)
    then show ?thesis using None p by (intro that) (simp_all add: k0_def)
  next
    case (Some k1)
    with "3.prems"(1) obtain k where p: "f_isdir k1" "place c0 (c # cs) f k1 = Inr k" "t' = set_kid n k t"
      by (auto simp: rbind_eq_Inr require_eq_Inr)
    have "added c0 k1 {(c # cs, f)} k"
      by (rule "3.IH"(2) [OF Some p(1,2) exported_kid [OF "3.prems"(2) Some] p(1)]) (use "3.prems" in simp_all)
    then show ?thesis using Some p by (intro that) (simp_all add: k0_def)
  qed
  show ?case using added_kid [OF "3.prems"(2,3) _ k(1) [unfolded k0_def] k(2)] "3.prems"(4) by simp
qed simp

section \<open>Adopting\<close>

lemma leaf_new [simp]: "leaf c0 (new_file c0 mode data)" "leaf c0 (new_dir c0)"
  by (simp_all add: leaf_def exported_new_file exported_new_dir) (simp_all add: new_file_def new_dir_def)

lemma added_refl: "exported c0 t \<Longrightarrow> f_isdir t \<Longrightarrow> added c0 t {} t"
  by (simp add: added_def)

lemma extends_file: "extends t u \<Longrightarrow> node_at cs t = Some x \<Longrightarrow> m_kind (f_meta x) \<noteq> KDir \<Longrightarrow> node_at cs u = Some x"
  unfolding extends_def same_entry_def by metis

text \<open>What root makes of a staged file, and the staged entries it accepts.\<close>

definition adopted :: "meta \<Rightarrow> string \<times> fsnode \<Rightarrow> string list \<times> fsnode" where
  "adopted c0 rf = (components (fst rf), new_file c0 (m_mode (f_meta (snd rf))) (f_data (snd rf)))"

definition staged_file :: "string \<times> fsnode \<Rightarrow> bool" where
  "staged_file rf \<longleftrightarrow> m_kind (f_meta (snd rf)) = KReg \<and> m_nlink (f_meta (snd rf)) = 1 \<and> map_of SYSTEM_STAGE_FILES (fst rf) = Some (m_mode (f_meta (snd rf)))"

definition staged_parent :: "string \<times> fsnode \<Rightarrow> bool" where
  "staged_parent rf \<longleftrightarrow> m_kind (f_meta (snd rf)) = KDir \<and> fst rf \<in> set (ancestors (map fst SYSTEM_STAGE_FILES))"

definition adoption :: "meta \<Rightarrow> (string \<times> fsnode) list \<Rightarrow> fsnode \<Rightarrow> fsnode \<Rightarrow> bool" where
  "adoption c0 es t u \<longleftrightarrow> exported c0 u \<and> f_isdir u \<and> extends t u \<and> list_all (\<lambda>e. staged_parent e \<or> staged_file e) es \<and>
     (\<forall>e\<in>set es. staged_file e \<longrightarrow> node_at (fst (adopted c0 e)) u = Some (snd (adopted c0 e))) \<and>
     (\<forall>cs x. node_at cs u = Some x \<longrightarrow> f_meta x = dir_meta c0 \<or> node_at cs t = Some x \<or> (\<exists>e\<in>set es. staged_file e \<and> (cs, x) = adopted c0 e))"

lemma adopt_entry_added:
  assumes "adopt_entry c0 e t = Inr u" "exported c0 t" "f_isdir t"
  shows "adoption c0 [e] t u"
proof -
  obtain rel f where e: "e = (rel, f)" by force
  show ?thesis
  proof (cases "staged_parent e")
    case True
    then have d: "make_dir c0 rel t = Inr u" "\<not> staged_file e" using assms(1) by (simp_all add: adopt_entry_def staged_parent_def staged_file_def e Let_def)
    have "added c0 t (if node_at (components rel) t = None then {(components rel, new_dir c0)} else {}) u"
      using d(1) place_added [OF _ assms(2,3) components_comp] added_refl [OF assms(2,3)]
      by (auto simp: make_dir_def split: option.splits)
    moreover have "f_meta (new_dir c0) = dir_meta c0" by (simp add: new_dir_def dir_meta_def)
    ultimately show ?thesis using True d(2) by (fastforce simp: adoption_def added_def split: if_splits)
  next
    case False
    then have f: "staged_file e" "place c0 (components rel) (new_file c0 (m_mode (f_meta f)) (f_data f)) t = Inr u"
      using assms(1) by (auto simp: adopt_entry_def staged_parent_def staged_file_def e Let_def split: if_splits)
    show ?thesis using place_added [OF f(2) assms(2,3) components_comp] f(1)
      by (auto simp: adoption_def added_def adopted_def e)
  qed
qed

lemma adopted_kind: "m_kind (f_meta (snd (adopted c0 e))) \<noteq> KDir"
  by (simp add: adopted_def new_file_def)

lemma adopt_fold:
  assumes "rfold (adopt_entry c0) es t = Inr u" "exported c0 t" "f_isdir t"
  shows "adoption c0 es t u"
  using assms
proof (induction es arbitrary: t)
  case (Cons e es)
  then obtain v where v: "adopt_entry c0 e t = Inr v" "rfold (adopt_entry c0) es v = Inr u" by (auto simp: rbind_eq_Inr)
  have a: "adoption c0 [e] t v" using v(1) "Cons.prems"(2,3) by (rule adopt_entry_added)
  then have b: "adoption c0 es v u" using Cons.IH [OF v(2)] by (simp add: adoption_def)
  have "extends t u" using a b extends_trans by (auto simp: adoption_def)
  moreover have "staged_file e \<Longrightarrow> node_at (fst (adopted c0 e)) u = Some (snd (adopted c0 e))"
    by (rule extends_file [OF _ _ adopted_kind, where t = v]) (use a b in \<open>auto simp: adoption_def\<close>)
  moreover have "\<forall>cs x. node_at cs u = Some x \<longrightarrow> f_meta x = dir_meta c0 \<or> node_at cs t = Some x \<or>
      (\<exists>e\<in>set (e # es). staged_file e \<and> (cs, x) = adopted c0 e)"
    using a b unfolding adoption_def by (metis list.set_intros(1,2) set_ConsD list.set(1) empty_iff)
  ultimately show ?case using a b by (simp add: adoption_def)
qed (simp add: adoption_def)

section \<open>Running\<close>

lemma kill_leftover_children_Inr: "kill_leftover_children R w = Inr w' \<Longrightarrow> children (rn_me R) (p_listing (rn_procs R) w') = Inr []"
  by (rule kill_leftovers_empty) (auto simp: kill_leftover_children_def split: sum.splits pyexc.splits)

lemma run_unprivileged_Inr:
  assumes "run_unprivileged R 0 cmd timeout w = Inr (out, w')"
  shows "\<exists>w1. rn_exec R (unprivileged_options 0) cmd timeout w = (Finished 0 out, w1) \<and>
    children (rn_me R) (p_listing (rn_procs R) w') = Inr []"
proof -
  obtain a w1 where e: "rn_exec R (unprivileged_options 0) cmd timeout w = (a, w1)" by force
  then have "kill_leftover_children R w1 = Inr w'" "attempt_result cmd timeout a = Inr out"
    using assms by (auto simp: run_unprivileged_def res_simps)
  moreover from this(2) have "a = Finished 0 out" by (cases a) (auto simp: attempt_result_def res_simps)
  ultimately show ?thesis using e kill_leftover_children_Inr [of R w1 w'] by simp
qed

text \<open>What the whole stage returns is an overlay the verifier accepts, made from two separate equal builds.\<close>

lemma system_stage_verified:
  assumes "system_stage S I w = Inr (d, out, verdict)"
  shows "verify (sh_host S) (sh_other S) (overlay_root S out) True = Inr verdict \<and> reproducible_build I = Inr True \<and>
     (\<exists>pins out1 w1. stage_inputs_ok S I = Inr pins \<and> stage_bridge S pins w = Inr (d, out1, w1))"
  using assms unfolding system_stage_def by (fastforce simp: rbind_eq_Inr demand_eq_Inr)

section \<open>Properties\<close>

text \<open>
  C35: root adopts exactly what is listed. If the output of the unprivileged \<open>stage.sh\<close> is adopted, each entry of it is a parent
  directory of a listed file or a listed regular file with one link and its listed mode, and each such file is in the
  overlay with the same bytes, owned by root and with that mode; apart from directories of root the overlay has nothing else.
\<close>
theorem adopt_exact:
  assumes "adopt_unprivileged_stage c0 (Some t) = Inr out"
  shows "m_kind (f_meta t) = KDir \<and> list_all (\<lambda>e. staged_parent e \<or> staged_file e) (stage_walk ''.'' t) \<and>
     (\<forall>(rel, f)\<in>set (stage_walk ''.'' t). staged_file (rel, f) \<longrightarrow>
        node_at (components rel) out = Some (new_file c0 (m_mode (f_meta f)) (f_data f))) \<and>
     (\<forall>cs x. node_at cs out = Some x \<longrightarrow> f_meta x = dir_meta c0 \<or>
        (\<exists>(rel, f)\<in>set (stage_walk ''.'' t). staged_file (rel, f) \<and> cs = components rel \<and> x = new_file c0 (m_mode (f_meta f)) (f_data f)))"
proof -
  have k: "m_kind (f_meta t) = KDir" "rfold (adopt_entry c0) (stage_walk ''.'' t) (new_dir c0) = Inr out"
    using assms by (simp_all add: adopt_unprivileged_stage_def require_eq_Inr)
  have n: "exported c0 (new_dir c0)" "f_isdir (new_dir c0)" "f_meta (new_dir c0) = dir_meta c0"
    by (simp_all add: exported_new_dir) (simp_all add: new_dir_def dir_meta_def)
  have a: "adoption c0 (stage_walk ''.'' t) (new_dir c0) out" using k(2) n(1,2) by (rule adopt_fold)
  have "node_at cs (new_dir c0) = Some x \<Longrightarrow> f_meta x = dir_meta c0" for cs x
    using n(3) node_leaf [of c0 "new_dir c0" cs x] by auto
  then have "\<exists>e\<in>set (stage_walk ''.'' t). staged_file e \<and> (cs, x) = adopted c0 e" if "node_at cs out = Some x" "f_meta x \<noteq> dir_meta c0" for cs x
    using a that unfolding adoption_def by metis
  then have "f_meta x = dir_meta c0 \<or> (\<exists>(rel, f)\<in>set (stage_walk ''.'' t). staged_file (rel, f) \<and> cs = components rel \<and>
      x = new_file c0 (m_mode (f_meta f)) (f_data f))" if "node_at cs out = Some x" for cs x
    using that by (fastforce simp: adopted_def)
  moreover have "node_at (components rel) out = Some (new_file c0 (m_mode (f_meta f)) (f_data f))"
    if "(rel, f) \<in> set (stage_walk ''.'' t)" "staged_file (rel, f)" for rel f
    using a that by (force simp: adoption_def adopted_def)
  ultimately show ?thesis using a k(1) by (simp add: adoption_def) blast
qed

text \<open>An example: the output of a \<open>stage.sh\<close> run by the unprivileged user, the bridge and the daemon's configuration.\<close>

definition staged_dir :: "(string \<times> fsnode) list \<Rightarrow> fsnode" where
  "staged_dir ks = FsNode (toy_creator\<lparr>m_uid := UNPRIVILEGED, m_mode := 493\<rparr>) True [] (Some ks)"

definition toy_staged :: fsnode where
  "toy_staged = staged_dir
     [(''usr'', staged_dir [(''bin'', staged_dir [(''snitchwatch-bridge-cli'', new_file (toy_creator\<lparr>m_uid := UNPRIVILEGED\<rparr>) exec_mode ''bridge'')])]),
      (''etc'', staged_dir [(''opensnitchd'', staged_dir [(''default-config.json'', new_file (toy_creator\<lparr>m_uid := UNPRIVILEGED\<rparr>) data_mode ''config'')])])]"

definition toy_adoption :: fsnode where
  "toy_adoption = (case adopt_unprivileged_stage toy_creator (Some toy_staged) of Inr out \<Rightarrow> out | Inl _ \<Rightarrow> new_dir toy_creator)"

lemma toy_adopted: "adopt_unprivileged_stage toy_creator (Some toy_staged) = Inr toy_adoption"
proof -
  have "succeeds (adopt_unprivileged_stage toy_creator (Some toy_staged))" by code_simp
  then show ?thesis by (auto simp: succeeds_iff toy_adoption_def)
qed

theorem adopt_exact_witness:
  "node_at [''usr'', ''bin'', ''snitchwatch-bridge-cli''] toy_adoption = Some (new_file toy_creator 493 ''bridge'')"
proof -
  let ?e = "(''usr/bin/snitchwatch-bridge-cli'', new_file (toy_creator\<lparr>m_uid := UNPRIVILEGED\<rparr>) exec_mode ''bridge'')"
  have "last (stage_walk ''.'' toy_staged) = ?e" "stage_walk ''.'' toy_staged \<noteq> []" by code_simp+
  then have m: "?e \<in> set (stage_walk ''.'' toy_staged)" by (metis last_in_set)
  have s: "staged_file ?e" by code_simp
  have c: "components ''usr/bin/snitchwatch-bridge-cli'' = [''usr'', ''bin'', ''snitchwatch-bridge-cli'']" by code_simp
  show ?thesis using adopt_exact [OF toy_adopted] m s c by (force simp: new_file_def exec_mode_def)
qed

text \<open>
  C34: the bridge binary is contained. If the bridge part of the stage returns as root, the binary and its parents are
  not writable by the unprivileged user, both runs were started as that user without new privileges and with
  the fixed environment and ended with code 0, no descendant is left after either, and the binary's hash is the same
  before, between and in the overlay.
\<close>
theorem bridge_contained:
  assumes "stage_bridge S pins w = Inr (d, out, w')" "sh_euid S = 0"
  shows "require_not_writable_by (sh_lstat S) (sh_binary S) (Some UNPRIVILEGED) = Inr () \<and>
     (\<exists>v o1 o2 w1 w2 w3 b1 b2 b3 staged.
        sh_binary_bytes S w = Inr b1 \<and> sha256 (sh_host S) b1 = d \<and>
        rn_exec (sh_runner S) \<lparr>ro_env = UNPRIVILEGED_ENV, ro_cwd = ''/'', ro_umask = 18, ro_no_new_privs = True, ro_uid = Some UNPRIVILEGED\<rparr>
          [sh_binary S, ''--version''] 5 w = (Finished 0 o1, w1) \<and>
        index pins ''bridgeVersion'' = Inr (JStr v) \<and> strip o1 = ''snitchwatch-bridge-cli '' @ v \<and>
        children (rn_me (sh_runner S)) (p_listing (rn_procs (sh_runner S)) w2) = Inr [] \<and>
        sh_binary_bytes S w2 = Inr b2 \<and> sha256 (sh_host S) b2 = d \<and>
        rn_exec (sh_runner S) \<lparr>ro_env = UNPRIVILEGED_ENV, ro_cwd = ''/'', ro_umask = 18, ro_no_new_privs = True, ro_uid = Some UNPRIVILEGED\<rparr>
          [''bash'', path_join (sh_source_dir S) ''packaging/system/stage.sh'', path_join (sh_scratch S) ''root'', sh_binary S, d] STAGE_SH_TIMEOUT w2 = (Finished 0 o2, w3) \<and>
        children (rn_me (sh_runner S)) (p_listing (rn_procs (sh_runner S)) w') = Inr [] \<and>
        adopt_unprivileged_stage (sh_creator S) (sh_staged S w') = Inr staged \<and> out_bytes staged ''usr/bin/snitchwatch-bridge-cli'' = Inr b3 \<and>
        sha256 (sh_host S) b3 = d \<and> out = unlink (components ''etc/opensnitchd/default-config.json'') staged)"
proof -
  let ?uid = "Some UNPRIVILEGED"
  obtain b1 o1 w2 v b2 o2 staged b3 where s: "require_not_writable_by (sh_lstat S) (sh_binary S) ?uid = Inr ()"
      "sh_binary_bytes S w = Inr b1" "sha256 (sh_host S) b1 = d"
      "run_unprivileged (sh_runner S) 0 [sh_binary S, ''--version''] 5 w = Inr (o1, w2)"
      "index pins ''bridgeVersion'' = Inr (JStr v)" "strip o1 = ''snitchwatch-bridge-cli '' @ v"
      "sh_binary_bytes S w2 = Inr b2" "sha256 (sh_host S) b2 = d"
      "run_unprivileged (sh_runner S) 0 [''bash'', path_join (sh_source_dir S) ''packaging/system/stage.sh'',
         path_join (sh_scratch S) ''root'', sh_binary S, d] STAGE_SH_TIMEOUT w2 = Inr (o2, w')"
      "adopt_unprivileged_stage (sh_creator S) (sh_staged S w') = Inr staged"
      "out_bytes staged ''usr/bin/snitchwatch-bridge-cli'' = Inr b3" "sha256 (sh_host S) b3 = d"
      "out = unlink (components ''etc/opensnitchd/default-config.json'') staged"
    using assms by (auto simp: stage_bridge_def res_simps Let_def concat_str_def out_sha_def)
  obtain w1 w3 where r: "rn_exec (sh_runner S) (unprivileged_options 0) [sh_binary S, ''--version''] 5 w = (Finished 0 o1, w1)"
      "children (rn_me (sh_runner S)) (p_listing (rn_procs (sh_runner S)) w2) = Inr []"
      "rn_exec (sh_runner S) (unprivileged_options 0) [''bash'', path_join (sh_source_dir S) ''packaging/system/stage.sh'',
         path_join (sh_scratch S) ''root'', sh_binary S, d] STAGE_SH_TIMEOUT w2 = (Finished 0 o2, w3)"
      "children (rn_me (sh_runner S)) (p_listing (rn_procs (sh_runner S)) w') = Inr []"
    using run_unprivileged_Inr [OF s(4)] run_unprivileged_Inr [OF s(9)] by blast
  then show ?thesis using s(1-3) s(5-8) s(10-13) unfolding unprivileged_options_def by (simp only: simp_thms if_True) blast
qed

definition toy_runner :: "process list runner" where
  "toy_runner = \<lparr>rn_prctl = 0, rn_procs = linux_procs 5, rn_me = 5,
     rn_exec = \<lambda>_ cmd _ _. (Finished 0 (if hd cmd = ''bash'' then [] else ''snitchwatch-bridge-cli 1.2.3'' @ [newline]), toy_forest)\<rparr>"

definition toy_stage_host :: "process list stage_host" where
  "toy_stage_host = \<lparr>sh_host = \<lparr>sha256 = \<lambda>b. ''sha-'' @ b, float_repr = \<lambda>_. [], untar = \<lambda>_. Inl (OSError [])\<rparr>,
     sh_other = \<lambda>_. Inl (ValueError []), sh_git = \<lambda>_ _. Inr [], sh_euid = 0, sh_creator = toy_creator,
     sh_lstat = \<lambda>p. Inr (toy_creator\<lparr>m_kind := if p = ''/artifact/bridge'' then KReg else KDir, m_mode := 493\<rparr>),
     sh_runner = toy_runner, sh_binary = ''/artifact/bridge'', sh_binary_bytes = \<lambda>_. Inr ''bridge'',
     sh_source_dir = ''/source'', sh_scratch = ''/scratch'', sh_out_dir = ''/out'', sh_scanner_dir = ''/scanner'', sh_staged = \<lambda>_. Some toy_staged,
     sh_readlink = \<lambda>_. Inl FileNotFoundError, sh_scanner = \<lambda>_. Inr\<rparr>"

definition toy_stage_pins :: json where
  "toy_stage_pins = JObj [(''bridgeVersion'', JStr ''1.2.3''),
     (''sourceFiles'', JObj [(''packaging/system/opensnitchd-default-config.json'', JStr ''sha-config'')])]"

lemma toy_stage_run: "stage_bridge toy_stage_host toy_stage_pins [] =
    Inr (''sha-bridge'', unlink (components ''etc/opensnitchd/default-config.json'') toy_adoption, [])"
  by code_simp

theorem bridge_contained_witness:
  "require_not_writable_by (sh_lstat toy_stage_host) ''/artifact/bridge'' (Some UNPRIVILEGED) = Inr () \<and>
   children 5 (p_listing (linux_procs 5) []) = Inr [] \<and> children 5 (p_listing (linux_procs 5) toy_forest) \<noteq> Inr []"
proof -
  have e: "sh_euid toy_stage_host = 0" "sh_binary toy_stage_host = ''/artifact/bridge''" "sh_runner toy_stage_host = toy_runner"
    "rn_me toy_runner = 5" "rn_procs toy_runner = linux_procs 5" by (simp_all add: toy_stage_host_def toy_runner_def)
  have "children 5 (p_listing (linux_procs 5) toy_forest) \<noteq> Inr []" by code_simp
  moreover note bridge_contained [OF toy_stage_run e(1), unfolded e]
  ultimately show ?thesis by blast
qed

end
