(* ===== verification/DaemonStage.thy ===== *)
theory DaemonStage
  imports Overlay DaemonVerify
begin

text \<open>
  \<^verbatim>\<open>build_files/firewall/snitchwatch-system-daemon-stage.py\<close>: \<open>check_source\<close> accepts only the reviewed daemon source,
  \<open>license_report\<close> collects the licenses of the linked Go modules, and \<open>stage\<close> builds the overlay of the daemon, which the
  verifier of theory \<open>DaemonVerify\<close> has to accept.

  Arguments are what git, \<open>go list\<close> and the built daemon print, SHA-256, the resolving of paths, and the decoding of JSON
  outside the model's code points. Argument parsing and the printed line are not modelled.
\<close>

section \<open>The source\<close>

text \<open>\<open>git args\<close> is the decoded output; \<open>patch\<close> the bytes of the patch.\<close>

type_synonym daemon_git = "string list \<Rightarrow> string result"

definition git_line :: "daemon_git \<Rightarrow> string list \<Rightarrow> json result" where
  "git_line g args = rbind (g args) (\<lambda>t. Inr (JStr (strip t)))"

definition git_names :: "daemon_git \<Rightarrow> string list \<Rightarrow> string list result" where
  "git_names g args = rbind (g args) (\<lambda>t. Inr (filter (\<lambda>n. n \<noteq> []) (split_on CHR 0x00 t)))"

definition protocol_file :: "string \<Rightarrow> string" where
  "protocol_file n = ''daemon/ui/protocol/'' @ n"

text \<open>The files to check with their hashes.\<close>

definition source_checks :: "json \<Rightarrow> bool \<Rightarrow> (string \<times> json) list result" where
  "source_checks pins patched =
     rbind (rbind (index pins ''moduleLocks'') dict_items) (\<lambda>locks.
     rbind (index pins ''protoSourceSha256'') (\<lambda>proto. rbind (index pins ''licenseSha256'') (\<lambda>license.
     let checks = dict_set ''LICENSE'' license (dict_set ''proto/ui.proto'' proto locks) in
     if patched then rbind (update_with id (index pins ''patchedFiles'') checks) (update_with protocol_file (index pins ''generatedFiles''))
     else Inr checks)))"

text \<open>Every changed, untracked and ignored path.\<close>

definition source_inventory :: "daemon_git \<Rightarrow> string list result" where
  "source_inventory g = rbind (rmap (git_names g) [[''diff'', ''--name-only'', ''-z'', ''HEAD''],
       [''ls-files'', ''--others'', ''--exclude-standard'', ''-z''],
       [''ls-files'', ''--others'', ''--ignored'', ''--exclude-standard'', ''-z'']]) (\<lambda>ls. Inr (concat ls))"

definition allowed_changes :: "json \<Rightarrow> bool \<Rightarrow> string list result" where
  "allowed_changes pins patched =
     (if patched then rbind (rbind (index pins ''patchedFiles'') dict_items) (\<lambda>ps. rbind (rbind (index pins ''generatedFiles'') dict_items) (\<lambda>gs.
        Inr (map fst ps @ map (protocol_file \<circ> fst) gs)))
      else Inr [])"

definition check_daemon_source :: "host \<Rightarrow> daemon_git \<Rightarrow> tree \<Rightarrow> json \<Rightarrow> string result \<Rightarrow> bool \<Rightarrow> unit result" where
  "check_daemon_source H g source pins patch patched =
     demand (all_of [same (git_line g [''rev-parse'', ''HEAD'']) (index pins ''sourceCommit''),
         same (git_line g [''rev-parse'', ''HEAD^{tree}'']) (index pins ''sourceTree'')])
       (ValueError ''daemon upstream Git identity mismatch'')
     (demand (pinned_hash H patch (index pins ''patchSha256'')) (ValueError ''daemon patch differs from independent review'')
     (rbind (source_checks pins patched) (\<lambda>checks.
      rbind (source_inventory g) (\<lambda>inventory.
      rbind (allowed_changes pins patched) (\<lambda>allowed.
      require (set inventory = set allowed) (ValueError ''daemon source changes are not exactly the reviewed patch/generated inputs'')
      (rall (\<lambda>(name, expected). demand (pinned_hash H (file_bytes source name) (Inr expected))
        (ValueError (''daemon source input mismatch: '' @ name)) (Inr ())) checks))))))"

section \<open>Licenses\<close>

text \<open>
  \<open>gm_list name\<close> is the object \<open>go list -m -json\<close> prints; \<open>gm_resolve\<close> the parts of a resolved path; \<open>gm_cache\<close> the value
  of \<open>GOMODCACHE\<close>; \<open>gm_dir\<close> the directory at resolved parts.
\<close>

record go_modules =
  gm_list :: "string \<Rightarrow> json result"
  gm_resolve :: "string \<Rightarrow> string list result"
  gm_cache :: "string option"
  gm_dir :: "string list \<Rightarrow> fsnode result"

definition linked_modules :: "string \<Rightarrow> string list list" where
  "linked_modules info = concat (map (\<lambda>line. case words line of f # fs \<Rightarrow> if f = ''dep'' then [take 3 fs] else [] | [] \<Rightarrow> []) (splitlines info))"

text \<open>\<open>str.upper\<close> on ASCII; no other code point of the model becomes an ASCII letter.\<close>

definition upper_char :: "char \<Rightarrow> char" where
  "upper_char c = (if is_lower c then char_of (code c - 32) else c)"

definition license_name :: "string \<Rightarrow> bool" where
  "license_name n \<longleftrightarrow> list_ex (startswith (map upper_char n)) [''LICENSE'', ''COPYING'', ''NOTICE'']"

definition license_files :: "fsnode \<Rightarrow> (string \<times> fsnode) list" where
  "license_files d = sort_key fst (filter (\<lambda>(n, f). m_kind (f_meta f) = KReg \<and> license_name n) (case f_kids d of None \<Rightarrow> [] | Some ks \<Rightarrow> ks))"

definition module_identity :: "json \<Rightarrow> string list \<Rightarrow> bool result" where
  "module_identity m dep = rbind (index m ''Path'') (\<lambda>p. rbind (index m ''Version'') (\<lambda>v. rbind (index m ''Sum'') (\<lambda>s.
     Inr (list_all2 pyeq [p, v, s] (map JStr dep)))))"

definition in_cache :: "string list \<Rightarrow> string list \<Rightarrow> bool" where
  "in_cache base p \<longleftrightarrow> take (length base) p = base"

definition module_dir :: "go_modules \<Rightarrow> json \<Rightarrow> fsnode result" where
  "module_dir G m =
     rbind (rbind (rbind (index m ''Dir'') json_str) (gm_resolve G)) (\<lambda>dir.
     rbind (case gm_cache G of None \<Rightarrow> Inl (KeyError ''GOMODCACHE'') | Some c \<Rightarrow> gm_resolve G c) (\<lambda>cache.
     require (in_cache cache dir) (ValueError ''license module escapes declared module cache'')
       (rbind (gm_dir G dir) (\<lambda>d. require (f_kids d \<noteq> None) (OSError ''cannot list'') (Inr d)))))"

definition license_section :: "string \<times> fsnode \<Rightarrow> string list result" where
  "license_section nf = (case utf8_decode (f_data (snd nf)) of
       None \<Rightarrow> Inl (ValueError ''invalid UTF-8'')
     | Some t \<Rightarrow> Inr [''### '' @ fst nf, [], rstrip (universal_newlines t), []])"

text \<open>One linked module: its lines of the report and its record.\<close>

definition module_license :: "host \<Rightarrow> go_modules \<Rightarrow> string list \<Rightarrow> (string list \<times> json) result" where
  "module_license H G dep = (case dep of
       [name, version, checksum] \<Rightarrow>
         rbind (gm_list G name) (\<lambda>m.
         demand (module_identity m dep) (ValueError ''linked module identity differs from module cache'')
         (rbind (module_dir G m) (\<lambda>d.
          let fs = license_files d in
          require (fs \<noteq> []) (ValueError (''linked module has no top-level license: '' @ name))
          (rbind (rmap license_section fs) (\<lambda>sections.
           Inr ([''## '' @ name @ '' '' @ version, [], ''Module checksum: `'' @ checksum @ ''`'', []] @ concat sections,
             JObj [(''path'', JStr name), (''version'', JStr version), (''sum'', JStr checksum),
               (''licenses'', JObj (map (\<lambda>(n, f). (n, JStr (sha256 H (f_data f)))) fs))]))))))
     | _ \<Rightarrow> Inl (ValueError ''unpack''))"

definition license_report :: "host \<Rightarrow> go_modules \<Rightarrow> tree \<Rightarrow> (string \<times> json list) result" where
  "license_report H G work =
     rbind (read_text work ''go-build-info.txt'') (\<lambda>info.
     rbind (rmap (module_license H G) (sort (linked_modules info))) (\<lambda>ms.
     require (ms \<noteq> []) (ValueError ''native daemon build-info contains no linked Go modules'')
       (Inr (join [newline] ([''# Linked Go module licenses'', [], ''Built with the locked upstream go.mod/go.sum; each module checksum follows.'', []]
           @ concat (map fst ms)) @ [newline], map snd ms))))"

section \<open>The overlay\<close>

text \<open>
  \<open>dg_taken\<close>: the output is \<open>/\<close> or has a manifest; \<open>dg_out\<close> what is in it. \<open>dg_version\<close> is what the built daemon prints for
  \<open>-version\<close>. The rest are the trees and files given by the arguments of the same name.
\<close>

record daemon_inputs =
  dg_git :: daemon_git
  dg_source :: tree
  dg_work :: tree
  dg_pins :: "string result"
  dg_patch :: "string result"
  dg_verifier :: "string result"
  dg_taken :: bool
  dg_out :: fsnode
  dg_version :: "string result"
  dg_modules :: go_modules

definition daemon_copies :: "daemon_inputs \<Rightarrow> string list \<Rightarrow> (string result \<times> string \<times> 12 word) list" where
  "daemon_copies I generated =
     [(file_bytes (dg_work I) ''opensnitchd-first'', daemon_CANDIDATE, exec_mode),
      (dg_pins I, daemon_PINS, data_mode), (dg_patch I, daemon_PATCH, data_mode), (dg_verifier I, daemon_VERIFIER, exec_mode),
      (file_bytes (dg_work I) ''rpm-inventory.txt'', daemon_ROOT @ ''rpm-inventory.txt'', data_mode),
      (file_bytes (dg_work I) ''go-build-info.txt'', daemon_ROOT @ ''go-build-info.txt'', data_mode)] @
     map (\<lambda>n. (file_bytes (dg_source I) (protocol_file n), daemon_ROOT @ ''generated/'' @ n, data_mode)) generated @
     map (\<lambda>n. (file_bytes (dg_source I) (''daemon/'' @ n), daemon_ROOT @ ''source/'' @ n, data_mode)) [''go.mod'', ''go.sum''] @
     [(file_bytes (dg_source I) ''proto/ui.proto'', daemon_ROOT @ ''source/ui.proto'', data_mode),
      (file_bytes (dg_source I) ''LICENSE'', daemon_LICENSE, data_mode)]"

definition daemon_record :: "host \<Rightarrow> daemon_inputs \<Rightarrow> json \<Rightarrow> string \<Rightarrow> json list \<Rightarrow> json result" where
  "daemon_record H I pins version modules =
     (let work_sha = (\<lambda>n. hash_json H (file_bytes (dg_work I) n)) in
      rbind (rbind (index pins ''tools'') dict_items) (\<lambda>tools. object_of
       ([(k, index pins k). k \<leftarrow> [''sourceCommit'', ''sourceTree'', ''patchSha256'', ''patchedFiles'', ''builderImage'', ''goVersion'', ''buildCommand'']] @
       [(''reproducible'', Inr (JBool True)), (''firstBinarySha256'', work_sha ''opensnitchd-first''), (''secondBinarySha256'', work_sha ''opensnitchd-second''),
        (''rpmInventorySha256'', work_sha ''rpm-inventory.txt''),
        (''buildLogSha256'', object_of [(''first'', work_sha ''build-first.log''), (''second'', work_sha ''build-second.log'')]),
        (''generatedFiles'', index pins ''generatedFiles''), (''tools'', index pins ''tools''), (''linkedModules'', Inr (JList modules)),
        (''toolBinarySha256'', object_of (map (\<lambda>(n, _). (n, work_sha (''build-tools/'' @ n))) tools)),
        (''actualVersionOutput'', Inr (JStr version)),
        (''compileScope'', Inr (JStr ''Two independent source directories and fresh Go caches; shared verified module archives only''))])))"

definition daemon_manifest :: "host \<Rightarrow> fsnode \<Rightarrow> daemon_inputs \<Rightarrow> json \<Rightarrow> string \<Rightarrow> json result" where
  "daemon_manifest H out I pins version =
     rbind (object_of (map (\<lambda>name. (name, hash_json H (out_bytes out name))) daemon_REQUIRED)) (\<lambda>files. object_of
       [(''schemaVersion'', Inr (JInt 1)), (''profile'', Inr (JStr ''system'')),
        (''source'', object_of [(''commit'', index pins ''sourceCommit''), (''tree'', index pins ''sourceTree'')]),
        (''patch'', object_of [(''path'', Inr (JStr daemon_PATCH)), (''sha256'', index pins ''patchSha256'')]),
        (''binary'', object_of [(''path'', Inr (JStr daemon_BINARY)), (''candidatePath'', Inr (JStr daemon_CANDIDATE)),
          (''sha256'', hash_json H (file_bytes (dg_work I) ''opensnitchd-first'')), (''version'', Inr (JStr version))]),
        (''files'', Inr (sortk files))])"

definition daemon_native_record :: string where
  "daemon_native_record = daemon_ROOT @ ''native-build-provenance.json''"

definition daemon_stage :: "host \<Rightarrow> (string \<Rightarrow> json result) \<Rightarrow> meta \<Rightarrow> daemon_inputs \<Rightarrow> (fsnode \<times> json) result" where
  "daemon_stage H other creator I =
     rbind (rbind (dg_pins I) (json_bytes other)) (\<lambda>pins.
     require (\<not> dg_taken I) (ValueError ''daemon output must be an isolated new overlay'')
     (rbind (check_daemon_source H (dg_git I) (dg_source I) pins (dg_patch I) True) (\<lambda>_.
      rbind (file_bytes (dg_work I) ''opensnitchd-first'') (\<lambda>first. rbind (file_bytes (dg_work I) ''opensnitchd-second'') (\<lambda>second.
      require (first = second) (ValueError ''fresh daemon builds are not byte-identical'')
      (rbind (dg_version I) (\<lambda>printed. let version = strip printed in
      demand (same (Inr (JStr version)) (index pins ''daemonVersion'')) (ValueError ''actual native daemon version differs from pin'')
      (rbind (rbind (index pins ''generatedFiles'') dict_items) (\<lambda>generated.
      rbind (rfold (stage_copy creator) (daemon_copies I (map fst generated)) (dg_out I)) (\<lambda>out.
      rbind (license_report H (dg_modules I) (dg_work I)) (\<lambda>(report, modules).
      rbind (install creator daemon_LICENSES data_mode (utf8_encode report) out) (\<lambda>out.
      rbind (daemon_record H I pins version modules) (\<lambda>provenance.
      rbind (install creator daemon_native_record data_mode (pretty H provenance) out) (\<lambda>out.
      rbind (daemon_manifest H out I pins version) (\<lambda>manifest.
      rbind (install creator daemon_MANIFEST data_mode (pretty H manifest) out) (\<lambda>out.
      rbind (daemon_verify H other \<lparr>im_tree = out, im_live = False, im_readlink = \<lambda>_. Inl FileNotFoundError\<rparr> True) (\<lambda>verdict.
      Inr (out, verdict))))))))))))))))))"

end
