(* ===== verification/DaemonStageProofs.thy ===== *)
theory DaemonStageProofs
  imports DaemonStage
begin

text \<open>
  What the daemon stage accepts: only a source whose every changed, untracked or ignored file has its reviewed hash, and only
  linked modules with their locked identity and complete license texts.
\<close>

section \<open>The reviewed source\<close>

lemma keys_fold_dict_set: "fst ` set (fold (\<lambda>(n, x). dict_set (f n) x) items d) = fst ` set d \<union> (f \<circ> fst) ` set items"
proof (induction items arbitrary: d)
  case (Cons i items)
  have "fst ` set (dict_set k v d) = insert k (fst ` set d)" for k v and d :: "(string \<times> json) list"
    by (induction k v d rule: dict_set.induct) auto
  then show ?case using Cons by (cases i) auto
qed simp

lemma update_with_keys: "update_with f v d = Inr d' \<longleftrightarrow>
    (\<exists>items. v = Inr (JObj items) \<and> d' = fold (\<lambda>(n, x). dict_set (f n) x) items d)"
  by (cases v) (auto simp: update_with_def dict_items_def split: json.splits)

lemma allowed_checked:
  assumes "source_checks pins patched = Inr checks" "allowed_changes pins patched = Inr allowed"
  shows "set allowed \<subseteq> fst ` set checks"
proof (cases patched)
  case True
  then obtain d ps gs where "index pins ''patchedFiles'' = Inr (JObj ps)" "index pins ''generatedFiles'' = Inr (JObj gs)"
    "checks = fold (\<lambda>(n, x). dict_set (protocol_file n) x) gs (fold (\<lambda>(n, x). dict_set (id n) x) ps d)"
    using assms(1) by (auto simp: source_checks_def Let_def rbind_eq_Inr update_with_keys simp del: id_apply)
  then show ?thesis using assms(2) True
    by (auto simp: allowed_changes_def rbind_eq_Inr dict_items_def keys_fold_dict_set image_comp)
next
  case False
  then show ?thesis using assms(2) by (simp add: allowed_changes_def)
qed

lemma pinned_hash_True: "pinned_hash H b e = Inr True \<longleftrightarrow> (\<exists>x. b = Inr x \<and> e = Inr (JStr (sha256 H x)))"
  by (auto simp: pinned_hash_def same_True rbind_eq_Inr pyeq_JStr)

lemma check_daemon_source_Inr:
  assumes "check_daemon_source H g source pins patch patched = Inr ()"
  obtains c t p checks inventory allowed where "git_line g [''rev-parse'', ''HEAD''] = Inr (JStr c)" "index pins ''sourceCommit'' = Inr (JStr c)"
    "git_line g [''rev-parse'', ''HEAD^{tree}''] = Inr (JStr t)" "index pins ''sourceTree'' = Inr (JStr t)"
    "patch = Inr p" "index pins ''patchSha256'' = Inr (JStr (sha256 H p))" "source_checks pins patched = Inr checks"
    "source_inventory g = Inr inventory" "allowed_changes pins patched = Inr allowed" "set inventory = set allowed"
    "\<forall>(name, expected)\<in>set checks. \<exists>b. file_bytes source name = Inr b \<and> expected = JStr (sha256 H b)"
proof -
  have line: "same (git_line g args) v = Inr True \<longleftrightarrow> (\<exists>c. git_line g args = Inr (JStr c) \<and> v = Inr (JStr c))" for args v
    by (auto simp: same_True git_line_def rbind_eq_Inr pyeq_JStr)
  show thesis
    using assms unfolding check_daemon_source_def
    by (auto simp: demand_eq_Inr all_of_eq_True line pinned_hash_True rbind_eq_Inr require_eq_Inr rall_eq_Inr intro!: that)
qed


definition toy_daemon_git :: daemon_git where
  "toy_daemon_git args = Inr (if args = [''rev-parse'', ''HEAD''] then ''c1'' @ [newline] else if hd args = ''rev-parse'' then ''t1'' @ [newline]
     else if hd args = ''diff'' then ''daemon/main.go'' @ [CHR 0x00] else if length args = 4 then ''daemon/ui/protocol/ui.pb.go'' @ [CHR 0x00] else [])"

definition toy_daemon_host :: host where
  "toy_daemon_host = \<lparr>sha256 = \<lambda>b. ''sha-'' @ b, float_repr = \<lambda>_. [], untar = \<lambda>_. Inl (OSError [])\<rparr>"

definition toy_daemon_pins :: json where
  "toy_daemon_pins = JObj [(''sourceCommit'', JStr ''c1''), (''sourceTree'', JStr ''t1''), (''patchSha256'', JStr ''sha-patch''),
     (''moduleLocks'', JObj [(''daemon/go.sum'', JStr ''sha-sum'')]), (''protoSourceSha256'', JStr ''sha-proto''), (''licenseSha256'', JStr ''sha-gpl''),
     (''patchedFiles'', JObj [(''daemon/main.go'', JStr ''sha-main'')]), (''generatedFiles'', JObj [(''ui.pb.go'', JStr ''sha-pb'')])]"

definition toy_daemon_source :: tree where
  "toy_daemon_source = map_of [(''daemon/go.sum'', RegFile ''sum''), (''proto/ui.proto'', RegFile ''proto''), (''LICENSE'', RegFile ''gpl''),
     (''daemon/main.go'', RegFile ''main''), (''daemon/ui/protocol/ui.pb.go'', RegFile ''pb'')]"


section \<open>The licenses\<close>

lemma join_infix: "x \<in> set ls \<Longrightarrow> \<exists>a b. join sep ls = a @ x @ b"
proof (induction ls rule: induct_list012)
  case (3 y z ls)
  show ?case
  proof (cases "x = y")
    case True
    then show ?thesis by (intro exI [of _ "[]"] exI [of _ "sep @ join sep (z # ls)"]) simp
  next
    case False
    then obtain a b where "join sep (z # ls) = a @ x @ b" using 3 by auto
    then show ?thesis by (intro exI [of _ "y @ sep @ a"] exI [of _ b]) simp
  qed
next
  case (2 y)
  then show ?case by (intro exI [of _ "[]"]) simp
qed simp

text \<open>A record of a linked module: the identity \<open>go list\<close> confirms, a directory in the cache, and at least one license file.\<close>

definition licensed_module :: "host \<Rightarrow> go_modules \<Rightarrow> string list \<Rightarrow> json \<Rightarrow> (string \<times> fsnode) list \<Rightarrow> bool" where
  "licensed_module H G dep j fs \<longleftrightarrow> (\<exists>name version checksum m d. dep = [name, version, checksum] \<and> gm_list G name = Inr m \<and>
     index m ''Path'' = Inr (JStr name) \<and> index m ''Version'' = Inr (JStr version) \<and> index m ''Sum'' = Inr (JStr checksum) \<and>
     module_dir G m = Inr d \<and> fs = license_files d \<and> fs \<noteq> [] \<and>
     j = JObj [(''path'', JStr name), (''version'', JStr version), (''sum'', JStr checksum),
       (''licenses'', JObj (map (\<lambda>(n, f). (n, JStr (sha256 H (f_data f)))) fs))])"

definition quoted_in :: "string \<Rightarrow> string \<times> fsnode \<Rightarrow> bool" where
  "quoted_in report nf \<longleftrightarrow> (\<exists>t a b. utf8_decode (f_data (snd nf)) = Some t \<and> report = a @ rstrip (universal_newlines t) @ b)"

lemma module_license_Inr:
  assumes "module_license H G dep = Inr (ls, j)"
  shows "\<exists>fs. licensed_module H G dep j fs \<and> (\<forall>nf\<in>set fs. \<exists>t. utf8_decode (f_data (snd nf)) = Some t \<and> rstrip (universal_newlines t) \<in> set ls)"
proof -
  obtain name version checksum where d: "dep = [name, version, checksum]"
    using assms by (auto simp: module_license_def split: list.splits)
  obtain m dir sections where m: "gm_list G name = Inr m" "module_identity m dep = Inr True" "module_dir G m = Inr dir"
      "license_files dir \<noteq> []" "rmap license_section (license_files dir) = Inr sections"
      "ls = [''## '' @ name @ '' '' @ version, [], ''Module checksum: `'' @ checksum @ ''`'', []] @ concat sections"
      "j = JObj [(''path'', JStr name), (''version'', JStr version), (''sum'', JStr checksum),
        (''licenses'', JObj (map (\<lambda>(n, f). (n, JStr (sha256 H (f_data f)))) (license_files dir)))]"
    using assms unfolding d module_license_def by (auto simp: rbind_eq_Inr demand_eq_Inr require_eq_Inr Let_def simp del: rmap_eq_Inr)
  have i: "index m ''Path'' = Inr (JStr name)" "index m ''Version'' = Inr (JStr version)" "index m ''Sum'' = Inr (JStr checksum)"
    using m(2) by (auto simp: module_identity_def rbind_eq_Inr d)
  have "\<exists>t. utf8_decode (f_data (snd nf)) = Some t \<and> rstrip (universal_newlines t) \<in> set ls" if nf: "nf \<in> set (license_files dir)" for nf
  proof -
    obtain sec where "sec \<in> set sections" "license_section nf = Inr sec" using rmap_member [OF m(5) nf] by blast
    then show ?thesis using m(6) by (force simp: license_section_def split: option.splits)
  qed
  then show ?thesis using d m i by (auto simp: licensed_module_def)
qed

text \<open>
  Every linked module is licensed. When the report is written, each module of the build info, in order, has a record
  with the identity that \<open>go list\<close> confirms, its directory is inside the module cache, it has a license file, and the
  record has the hash and the report the text of every license file of it.
\<close>
theorem licenses_complete:
  assumes "license_report H G work = Inr (report, records)"
  shows "\<exists>info. read_text work ''go-build-info.txt'' = Inr info \<and> records \<noteq> [] \<and>
     list_all2 (\<lambda>dep j. \<exists>fs. licensed_module H G dep j fs \<and> (\<forall>nf\<in>set fs. quoted_in report nf)) (sort (linked_modules info)) records"
proof -
  obtain info ms where i: "read_text work ''go-build-info.txt'' = Inr info" "rmap (module_license H G) (sort (linked_modules info)) = Inr ms"
      "ms \<noteq> []" "records = map snd ms"
      "report = join [newline] ([''# Linked Go module licenses'', [], ''Built with the locked upstream go.mod/go.sum; each module checksum follows.'', []]
         @ concat (map fst ms)) @ [newline]"
    using assms unfolding license_report_def by (auto simp: rbind_eq_Inr require_eq_Inr simp del: rmap_eq_Inr)
  have q: "\<exists>a b. report = a @ x @ b" if "(ls, j) \<in> set ms" "x \<in> set ls" for ls j x
  proof -
    have "x \<in> set ([''# Linked Go module licenses'', [], ''Built with the locked upstream go.mod/go.sum; each module checksum follows.'', []]
        @ concat (map fst ms))" using that by force
    from join_infix [OF this, of "[newline]"] obtain a b where "report = (a @ x @ b) @ [newline]" unfolding i(5) by metis
    then show ?thesis by (intro exI [of _ a] exI [of _ "b @ [newline]"]) simp
  qed
  have "list_all2 (\<lambda>dep lj. \<exists>fs. licensed_module H G dep (snd lj) fs \<and> (\<forall>nf\<in>set fs. quoted_in report nf)) (sort (linked_modules info)) ms"
    using i(2) unfolding rmap_eq_Inr
  proof (rule list.rel_mono_strong)
    fix dep lj
    assume a: "lj \<in> set ms" "module_license H G dep = Inr lj"
    obtain ls j where l: "lj = (ls, j)" by force
    show "\<exists>fs. licensed_module H G dep (snd lj) fs \<and> (\<forall>nf\<in>set fs. quoted_in report nf)"
      using module_license_Inr [OF a(2) [unfolded l]] q [OF a(1) [unfolded l]] by (fastforce simp: l quoted_in_def)
  qed
  then show ?thesis using i by (auto simp: list.rel_map)
qed

text \<open>An example with one linked module.\<close>

definition toy_module_meta :: meta where
  "toy_module_meta = \<lparr>m_kind = KDir, m_uid = 0, m_gid = 0, m_mode = 493, m_nlink = 1, m_dev = 1, m_ino = 1, m_xattrs = Inr []\<rparr>"

definition toy_go_modules :: go_modules where
  "toy_go_modules = \<lparr>gm_list = \<lambda>n. Inr (JObj [(''Path'', JStr n), (''Version'', JStr ''v1.2.3''), (''Sum'', JStr ''h1:abc''), (''Dir'', JStr ''/cache/m'')]),
     gm_resolve = \<lambda>p. Inr (components p), gm_cache = Some ''/cache'',
     gm_dir = \<lambda>_. Inr (FsNode toy_module_meta True [] (Some [(''README'', FsNode (toy_module_meta\<lparr>m_kind := KReg\<rparr>) False ''read me'' (Some [])),
       (''License.txt'', FsNode (toy_module_meta\<lparr>m_kind := KReg\<rparr>) False ''be nice'' (Some []))]))\<rparr>"

definition toy_go_work :: tree where
  "toy_go_work = map_of [(''go-build-info.txt'', RegFile (''path example'' @ [newline] @ ''dep example.org/m v1.2.3 h1:abc'' @ [newline]))]"

theorem licenses_complete_witness:
  "\<exists>report j fs. license_report toy_daemon_host toy_go_modules toy_go_work = Inr (report, [j]) \<and>
     licensed_module toy_daemon_host toy_go_modules [''example.org/m'', ''v1.2.3'', ''h1:abc''] j fs \<and> list_all (quoted_in report) fs"
proof -
  have "succeeds (license_report toy_daemon_host toy_go_modules toy_go_work)" by code_simp
  then obtain report records where r: "license_report toy_daemon_host toy_go_modules toy_go_work = Inr (report, records)"
    by (auto simp: succeeds_iff)
  define text0 where "text0 = ''path example'' @ [newline] @ ''dep example.org/m v1.2.3 h1:abc'' @ [newline]"
  have i: "read_text toy_go_work ''go-build-info.txt'' = Inr text0" unfolding text0_def by code_simp
  have l: "sort (linked_modules text0) = [[''example.org/m'', ''v1.2.3'', ''h1:abc'']]" unfolding text0_def by code_simp
  obtain info where o: "read_text toy_go_work ''go-build-info.txt'' = Inr info"
      "list_all2 (\<lambda>dep j. \<exists>fs. licensed_module toy_daemon_host toy_go_modules dep j fs \<and> (\<forall>nf\<in>set fs. quoted_in report nf)) (sort (linked_modules info)) records"
    using licenses_complete [OF r] by (elim exE conjE) (rule that)
  have "info = text0" using o(1) i by simp
  with o(2) have "list_all2 (\<lambda>dep j. \<exists>fs. licensed_module toy_daemon_host toy_go_modules dep j fs \<and> (\<forall>nf\<in>set fs. quoted_in report nf)) [[''example.org/m'', ''v1.2.3'', ''h1:abc'']] records"
    by (simp only: l)
  then obtain j where "records = [j]" "\<exists>fs. licensed_module toy_daemon_host toy_go_modules [''example.org/m'', ''v1.2.3'', ''h1:abc''] j fs \<and> (\<forall>nf\<in>set fs. quoted_in report nf)"
    by (auto simp: list_all2_Cons1)
  then show ?thesis using r unfolding list_all_iff by blast
qed

section \<open>The whole stage\<close>

text \<open>What the stage returns is an overlay the verifier accepts, of a reviewed source and two equal builds.\<close>

lemma daemon_stage_verified:
  assumes "daemon_stage H other creator I = Inr (out, verdict)"
  shows "daemon_verify H other \<lparr>im_tree = out, im_live = False, im_readlink = \<lambda>_. Inl FileNotFoundError\<rparr> True = Inr verdict \<and>
     (\<exists>pins b. check_daemon_source H (dg_git I) (dg_source I) pins (dg_patch I) True = Inr () \<and>
       file_bytes (dg_work I) ''opensnitchd-first'' = Inr b \<and> file_bytes (dg_work I) ''opensnitchd-second'' = Inr b)"
  using assms unfolding daemon_stage_def by (fastforce simp: rbind_eq_Inr demand_eq_Inr require_eq_Inr Let_def)

end
